(* ===== verification/Go_Prelude.thy ===== *)
theory Go_Prelude
  imports Main "HOL-Library.Word" "HOL-Library.Finite_Map" "HOL-Library.Char_ord"
    "HOL-Library.List_Lexorder"
begin

text \<open>
  The vocabulary the component theories share: the Go types the sources use, error values with
  their wrapping chain, \<open>range\<close> over a map, the functions of package \<open>strings\<close> the sources call,
  and the generic lemmas on lists, folds and finite maps that carry the component proofs.
  A Go string is a byte sequence, here a \<^typ>\<open>string\<close>; Go's \<open><\<close> on strings is the byte-wise
  lexicographic order, which \<^verbatim>\<open>Char_ord\<close> and \<^verbatim>\<open>List_Lexorder\<close> give to \<^typ>\<open>string\<close>.
\<close>

section \<open>Types\<close>

type_synonym uint64 = "64 word"

text \<open>\<open>time.Time\<close> as nanoseconds since Go's zero time; \<open>IsZero\<close> holds exactly of 0.\<close>
type_synonym gotime = int

definition time_IsZero :: "gotime \<Rightarrow> bool" where
  "time_IsZero t \<longleftrightarrow> t = 0"

text \<open>The errors of the operating system that the sources meet or test for.\<close>
datatype errno = ENOENT | EACCES | EISDIR | ENOTDIR | ENOTEMPTY | EEXIST | EIO

text \<open>
  An error value. \<open>Wrapf p e\<close> is \<open>fmt.Errorf("p%w", e)\<close>: its text is \<open>p\<close> followed by the text of
  \<open>e\<close>, and \<open>errors.Is\<close> looks through it. \<open>PathError op path no\<close> is what package \<open>os\<close> returns.
\<close>
datatype gerr =
    Errorf string
  | Wrapf string gerr
  | PathError string string errno
  | ErrNotExist
  | ErrPairNotFound

text \<open>\<open>errors.Is(err, os.ErrNotExist)\<close> and \<open>errors.Is(err, ErrPairNotFound)\<close>.\<close>

fun is_not_exist :: "gerr \<Rightarrow> bool" where
  "is_not_exist (Errorf m) = False"
| "is_not_exist (Wrapf m e) = is_not_exist e"
| "is_not_exist (PathError op p no) = (no = ENOENT)"
| "is_not_exist ErrNotExist = True"
| "is_not_exist ErrPairNotFound = False"

fun is_pair_not_found :: "gerr \<Rightarrow> bool" where
  "is_pair_not_found (Errorf m) = False"
| "is_pair_not_found (Wrapf m e) = is_pair_not_found e"
| "is_pair_not_found (PathError op p no) = False"
| "is_pair_not_found ErrNotExist = False"
| "is_pair_not_found ErrPairNotFound = True"

fun errno_text :: "errno \<Rightarrow> string" where
  "errno_text ENOENT = ''no such file or directory''"
| "errno_text EACCES = ''permission denied''"
| "errno_text EISDIR = ''is a directory''"
| "errno_text ENOTDIR = ''not a directory''"
| "errno_text ENOTEMPTY = ''directory not empty''"
| "errno_text EEXIST = ''file exists''"
| "errno_text EIO = ''input/output error''"

fun err_text :: "gerr \<Rightarrow> string" where
  "err_text (Errorf m) = m"
| "err_text (Wrapf m e) = m @ err_text e"
| "err_text (PathError op p no) = op @ '' '' @ p @ '': '' @ errno_text no"
| "err_text ErrNotExist = ''file does not exist''"
| "err_text ErrPairNotFound = ''pair not found''"

lemma uint64_less_Suc: "(x :: uint64) \<noteq> - 1 \<Longrightarrow> x < x + 1"
  using inc_less_eq_self_iff_eq [of x] by (metis not_le)

section \<open>Named collections\<close>

named_theorems go_defs \<open>definitions unfolded when a handler is executed branch by branch\<close>
named_theorems keeps \<open>what an operation leaves unchanged\<close>

section \<open>Maps: reads with Go's zero value, ranging over the keys\<close>

text \<open>
  \<open>for k := range m\<close> visits every key once in an unspecified order. The model fixes the ascending
  order; the lemmas about loops over a map are stated for any list of the keys, so that they do not
  depend on that choice.
\<close>
definition range_keys :: "('k::linorder, 'v) fmap \<Rightarrow> 'k list" where
  "range_keys m = sorted_list_of_fset (fmdom m)"

lemma set_range_keys [simp]: "set (range_keys m) = fset (fmdom m)"
  by (simp add: range_keys_def)

lemma distinct_range_keys [simp]: "distinct (range_keys m)"
  by (simp add: range_keys_def sorted_list_of_fset.rep_eq)

lemma range_keys_empty [simp]: "range_keys fmempty = []"
  by (simp add: range_keys_def sorted_list_of_fset.rep_eq)

text \<open>Building a map from a list of entries by assignment: a later entry replaces an earlier one.\<close>
definition map_from :: "('e \<Rightarrow> 'k) \<Rightarrow> ('e \<Rightarrow> 'v) \<Rightarrow> 'e list \<Rightarrow> ('k, 'v) fmap" where
  "map_from k v es = fold (\<lambda>e m. fmupd (k e) (v e) m) es fmempty"

lemma fold_fmupd_lookup_notin:
  "x \<notin> k ` set es \<Longrightarrow> fmlookup (fold (\<lambda>e m. fmupd (k e) (v e) m) es m) x = fmlookup m x"
  by (induction es arbitrary: m) auto

lemma fold_fmupd_lookup_in:
  "e \<in> set es \<Longrightarrow> distinct (map k es) \<Longrightarrow>
   fmlookup (fold (\<lambda>e m. fmupd (k e) (v e) m) es m) (k e) = Some (v e)"
proof (induction es arbitrary: m)
  case Nil
  then show ?case by simp
next
  case (Cons a es)
  show ?case
  proof (cases "e = a")
    case True
    with Cons.prems(2) have "k e \<notin> k ` set es" by auto
    then show ?thesis using True by (simp add: fold_fmupd_lookup_notin)
  next
    case False
    with Cons.prems have "e \<in> set es" and "distinct (map k es)" by auto
    then show ?thesis using Cons.IH by simp
  qed
qed

lemma fmdom_fold_fmupd:
  "fset (fmdom (fold (\<lambda>e m. fmupd (k e) (v e) m) es m)) = fset (fmdom m) \<union> k ` set es"
  by (induction es arbitrary: m) auto

lemma map_from_dom [simp]: "fset (fmdom (map_from k v es)) = k ` set es"
  by (simp add: map_from_def fmdom_fold_fmupd)

lemma map_from_None [simp]: "fmlookup (map_from k v es) x = None \<longleftrightarrow> x \<notin> k ` set es"
  using map_from_dom [of k v es] by (metis fmdom_notD fmdom_notI)

lemma map_from_Some:
  "e \<in> set es \<Longrightarrow> distinct (map k es) \<Longrightarrow> fmlookup (map_from k v es) (k e) = Some (v e)"
  by (simp add: map_from_def fold_fmupd_lookup_in)

lemma map_from_Some_iff:
  assumes "distinct (map k es)"
  shows "fmlookup (map_from k v es) x = Some y \<longleftrightarrow> (\<exists>e \<in> set es. k e = x \<and> v e = y)"
proof
  assume h: "fmlookup (map_from k v es) x = Some y"
  then have "x \<in> k ` set es" using map_from_None [of k v es x] by (metis option.distinct(1))
  then obtain e where "e \<in> set es" and "x = k e" by blast
  with h assms show "\<exists>e \<in> set es. k e = x \<and> v e = y" by (metis map_from_Some option.inject)
next
  assume "\<exists>e \<in> set es. k e = x \<and> v e = y"
  with assms show "fmlookup (map_from k v es) x = Some y" by (auto simp: map_from_Some)
qed

lemma map_from_value:
  "fmlookup (map_from k v es) x = Some y \<Longrightarrow> \<exists>e \<in> set es. k e = x \<and> v e = y"
proof -
  have "fmlookup (fold (\<lambda>e m. fmupd (k e) (v e) m) es m) x = Some y \<Longrightarrow>
        (\<exists>e \<in> set es. k e = x \<and> v e = y) \<or> fmlookup m x = Some y" for m
    by (induction es arbitrary: m) (fastforce split: if_splits)+
  then show "fmlookup (map_from k v es) x = Some y \<Longrightarrow> ?thesis"
    by (force simp: map_from_def)
qed

section \<open>Package strings\<close>

definition HasPrefix :: "string \<Rightarrow> string \<Rightarrow> bool" where
  "HasPrefix s p \<longleftrightarrow> take (length p) s = p"

lemma HasPrefix_append: "HasPrefix s p \<longleftrightarrow> (\<exists>r. s = p @ r)"
  unfolding HasPrefix_def by (metis append_eq_conv_conj append_take_drop_id)

text \<open>\<open>strings.Split(s, c)\<close> for a one-character separator: always at least one element.\<close>
fun split_on :: "char \<Rightarrow> string \<Rightarrow> string list" where
  "split_on c [] = [[]]"
| "split_on c (x # xs) =
     (if x = c then [] # split_on c xs
      else (case split_on c xs of [] \<Rightarrow> [[x]] | p # ps \<Rightarrow> (x # p) # ps))"

text \<open>\<open>strings.Join(ps, c)\<close>.\<close>
fun join_with :: "char \<Rightarrow> string list \<Rightarrow> string" where
  "join_with c [] = []"
| "join_with c [p] = p"
| "join_with c (p # ps) = p @ c # join_with c ps"

text \<open>\<open>strings.Trim(s, c)\<close> for a one-character cutset.\<close>
definition trim_char :: "char \<Rightarrow> string \<Rightarrow> string" where
  "trim_char c s = rev (dropWhile (\<lambda>x. x = c) (rev (dropWhile (\<lambda>x. x = c) s)))"

lemma split_on_nonempty [simp]: "split_on c s \<noteq> []"
  by (induction s) (auto split: list.splits)

lemma split_on_no_sep: "p \<in> set (split_on c s) \<Longrightarrow> c \<notin> set p"
proof (induction s arbitrary: p)
  case Nil
  then show ?case by simp
next
  case (Cons x xs)
  show ?case
    using Cons by (cases "split_on c xs") (auto split: if_splits)
qed

lemma join_split [simp]: "join_with c (split_on c s) = s"
proof (induction s)
  case Nil
  then show ?case by simp
next
  case (Cons x xs)
  obtain p ps where sp: "split_on c xs = p # ps" by (meson list.exhaust split_on_nonempty)
  show ?case
    using Cons sp by (cases ps) auto
qed

lemma split_on_id: "c \<notin> set p \<Longrightarrow> split_on c p = [p]"
  by (induction p) auto

lemma split_on_append: "c \<notin> set p \<Longrightarrow> split_on c (p @ c # s) = p # split_on c s"
  by (induction p) auto

lemma split_join:
  "ps \<noteq> [] \<Longrightarrow> (\<And>p. p \<in> set ps \<Longrightarrow> c \<notin> set p) \<Longrightarrow> split_on c (join_with c ps) = ps"
  by (induction c ps rule: join_with.induct) (auto simp: split_on_id split_on_append)

lemma join_with_Cons: "ps \<noteq> [] \<Longrightarrow> join_with c (p # ps) = p @ c # join_with c ps"
  by (cases ps) auto

lemma join_with_snoc: "ps \<noteq> [] \<Longrightarrow> join_with c (ps @ [p]) = join_with c ps @ c # p"
  by (induction c ps rule: join_with.induct) auto

lemma join_with_append:
  "ps \<noteq> [] \<Longrightarrow> qs \<noteq> [] \<Longrightarrow> join_with c (ps @ qs) = join_with c ps @ c # join_with c qs"
  by (induction c ps rule: join_with.induct) (auto simp: join_with_Cons)

lemma join_with_empty_iff:
  "join_with c ps = [] \<longleftrightarrow> ps = [] \<or> ps = [[]]"
  by (induction c ps rule: join_with.induct) auto

section \<open>Decimal numbers\<close>

text \<open>The verb \<open>%d\<close> of package \<open>fmt\<close>.\<close>
definition dec_digits :: string where
  "dec_digits = ''0123456789''"

definition digit_char :: "nat \<Rightarrow> char" where
  "digit_char n = dec_digits ! n"

fun nat_text :: "nat \<Rightarrow> string" where
  "nat_text n = (if n < 10 then [digit_char n] else nat_text (n div 10) @ [digit_char (n mod 10)])"

declare nat_text.simps [simp del]

definition int_text :: "int \<Rightarrow> string" where
  "int_text i = (if i < 0 then CHR ''-'' # nat_text (nat (- i)) else nat_text (nat i))"

text \<open>The verb \<open>%q\<close>: a text in quotes with Go's escapes. Bytes beyond ASCII stand for printable characters and stay as they are.\<close>
definition go_escapes :: "(char \<times> string) list" where
  "go_escapes =
     [(CHR 0x22, [CHR 0x5C, CHR 0x22]), (CHR 0x5C, [CHR 0x5C, CHR 0x5C]), (CHR 0x00, CHR 0x5C # ''x00''), (CHR 0x01, CHR 0x5C # ''x01''),
      (CHR 0x02, CHR 0x5C # ''x02''), (CHR 0x03, CHR 0x5C # ''x03''), (CHR 0x04, CHR 0x5C # ''x04''), (CHR 0x05, CHR 0x5C # ''x05''),
      (CHR 0x06, CHR 0x5C # ''x06''), (CHR 0x07, [CHR 0x5C, CHR ''a'']), (CHR 0x08, [CHR 0x5C, CHR ''b'']),
      (CHR 0x09, [CHR 0x5C, CHR ''t'']), (CHR 0x0A, [CHR 0x5C, CHR ''n'']), (CHR 0x0B, [CHR 0x5C, CHR ''v'']),
      (CHR 0x0C, [CHR 0x5C, CHR ''f'']), (CHR 0x0D, [CHR 0x5C, CHR ''r'']), (CHR 0x0E, CHR 0x5C # ''x0e''), (CHR 0x0F, CHR 0x5C # ''x0f''),
      (CHR 0x10, CHR 0x5C # ''x10''), (CHR 0x11, CHR 0x5C # ''x11''), (CHR 0x12, CHR 0x5C # ''x12''), (CHR 0x13, CHR 0x5C # ''x13''),
      (CHR 0x14, CHR 0x5C # ''x14''), (CHR 0x15, CHR 0x5C # ''x15''), (CHR 0x16, CHR 0x5C # ''x16''), (CHR 0x17, CHR 0x5C # ''x17''),
      (CHR 0x18, CHR 0x5C # ''x18''), (CHR 0x19, CHR 0x5C # ''x19''), (CHR 0x1A, CHR 0x5C # ''x1a''), (CHR 0x1B, CHR 0x5C # ''x1b''),
      (CHR 0x1C, CHR 0x5C # ''x1c''), (CHR 0x1D, CHR 0x5C # ''x1d''), (CHR 0x1E, CHR 0x5C # ''x1e''), (CHR 0x1F, CHR 0x5C # ''x1f''),
      (CHR 0x7F, CHR 0x5C # ''x7f'')]"

definition go_quote :: "string \<Rightarrow> string" where
  "go_quote s = [CHR 0x22] @ concat (map (\<lambda>c. case map_of go_escapes c of None \<Rightarrow> [c] | Some e \<Rightarrow> e) s) @ [CHR 0x22]"

lemma dec_digits_props: "length dec_digits = 10" "distinct dec_digits" "CHR ''-'' \<notin> set dec_digits"
  by (simp_all add: dec_digits_def)

lemma digit_char_range: "n < 10 \<Longrightarrow> digit_char n \<in> set dec_digits"
  unfolding digit_char_def by (rule nth_mem) (simp add: dec_digits_props)

lemma digit_char_inj: "m < 10 \<Longrightarrow> n < 10 \<Longrightarrow> digit_char m = digit_char n \<Longrightarrow> m = n"
  unfolding digit_char_def by (simp add: nth_eq_iff_index_eq dec_digits_props)

lemma nat_text_digits: "set (nat_text n) \<subseteq> set dec_digits"
proof (induction n rule: nat_text.induct)
  case (1 n)
  then show ?case
    using digit_char_range [of n] digit_char_range [of "n mod 10"] by (subst nat_text.simps) auto
qed

lemma nat_text_nonempty [simp]: "nat_text n \<noteq> []"
  by (subst nat_text.simps) simp

lemma last_nat_text: "last (nat_text k) = digit_char (k mod 10)"
  by (subst nat_text.simps) simp

lemma butlast_nat_text: "butlast (nat_text k) = (if k < 10 then [] else nat_text (k div 10))"
  by (subst nat_text.simps) simp

lemma nat_text_inj: "nat_text m = nat_text n \<Longrightarrow> m = n"
proof (induction m arbitrary: n rule: nat_text.induct)
  case (1 m)
  have "digit_char (m mod 10) = digit_char (n mod 10)"
    using last_nat_text [of m] last_nat_text [of n] 1(2) by simp
  then have mod: "m mod 10 = n mod 10" by (intro digit_char_inj) simp_all
  have but: "(if m < 10 then [] else nat_text (m div 10)) = (if n < 10 then [] else nat_text (n div 10))"
    using butlast_nat_text [of m] butlast_nat_text [of n] 1(2) by simp
  have "m div 10 = n div 10"
  proof (cases "m < 10")
    case True
    with but have "n < 10" by (metis nat_text_nonempty)
    with True show ?thesis by simp
  next
    case False
    with but have "nat_text (m div 10) = nat_text (n div 10)" by (metis nat_text_nonempty)
    with False 1(1) show ?thesis by blast
  qed
  with mod show "m = n" by (metis div_mult_mod_eq)
qed

lemma int_text_inj: "int_text i = int_text j \<Longrightarrow> i = j"
proof -
  assume eq: "int_text i = int_text j"
  have no_minus: "nat_text n \<noteq> CHR ''-'' # xs" for n xs
    using nat_text_digits [of n] dec_digits_props(3) by auto
  show "i = j"
    using eq no_minus [symmetric] no_minus
    by (auto simp: int_text_def split: if_splits dest!: nat_text_inj)
qed

text \<open>\<open>strconv.ParseInt(s, 10, 64)\<close>: an optional sign and digits, in the range of \<open>int64\<close>.\<close>
definition digits_value :: "string \<Rightarrow> int" where
  "digits_value ds = foldl (\<lambda>v c. 10 * v + (of_char c - 48)) 0 ds"

definition ParseInt :: "string \<Rightarrow> int option" where
  "ParseInt s =
     (let (neg, ds) = (case s of
            CHR ''-'' # r \<Rightarrow> (True, r) | CHR ''+'' # r \<Rightarrow> (False, r) | _ \<Rightarrow> (False, s));
          v = (if neg then - digits_value ds else digits_value ds)
      in if ds = [] \<or> \<not> list_all (\<lambda>c. c \<in> set dec_digits) ds then None
         else if - (2 ^ 63) \<le> v \<and> v < 2 ^ 63 then Some v else None)"

lemma digit_char_value: "n < 10 \<Longrightarrow> (of_char (digit_char n) :: int) - 48 = int n"
proof -
  have "\<forall>n \<in> {0..<10}. (of_char (digit_char n) :: int) - 48 = int n"
    by (simp add: digit_char_def dec_digits_def atLeastLessThanSuc numeral_eq_Suc)
  then show "n < 10 \<Longrightarrow> ?thesis" by simp
qed

lemma digits_value_nat_text: "digits_value (nat_text n) = int n"
proof (induction n rule: nat_text.induct)
  case (1 n)
  show ?case
  proof (cases "n < 10")
    case True
    then show ?thesis by (subst nat_text.simps) (simp add: digits_value_def digit_char_value)
  next
    case False
    then have "digits_value (nat_text n) = 10 * int (n div 10) + int (n mod 10)"
      using 1 digit_char_value [of "n mod 10"] by (subst nat_text.simps) (simp add: digits_value_def)
    then show ?thesis by (simp add: zdiv_int zmod_int)
  qed
qed

lemma ParseInt_int_text: "- (2 ^ 63) \<le> i \<Longrightarrow> i < 2 ^ 63 \<Longrightarrow> ParseInt (int_text i) = Some i"
proof -
  assume range: "- (2 ^ 63) \<le> i" "i < 2 ^ 63"
  have digits: "nat_text n \<noteq> [] \<and> list_all (\<lambda>c. c \<in> set dec_digits) (nat_text n)" for n
    using nat_text_digits [of n] by (auto simp: list_all_iff)
  have sign: "hd (nat_text n) \<noteq> CHR ''-''" "hd (nat_text n) \<noteq> CHR ''+''" for n
    using digits [of n] by (cases "nat_text n"; auto simp: dec_digits_def)+
  show ?thesis
  proof (cases "i < 0")
    case True
    then show ?thesis
      using range digits by (simp add: ParseInt_def int_text_def digits_value_nat_text)
  next
    case False
    obtain d ds where ds: "nat_text (nat i) = d # ds" using digits by (meson list.exhaust)
    have "(case nat_text (nat i) of CHR ''-'' # r \<Rightarrow> (True, r) | CHR ''+'' # r \<Rightarrow> (False, r) | _ \<Rightarrow> (False, nat_text (nat i)))
        = (False, nat_text (nat i))"
      using sign [of "nat i"] unfolding ds by (cases d rule: char.exhaust) (auto split: bool.splits)
    then show ?thesis
      using False range digits by (simp add: ParseInt_def int_text_def digits_value_nat_text)
  qed
qed

section \<open>Folds\<close>

text \<open>An invariant that every step of a loop keeps.\<close>
lemma fold_invariant_step:
  "P s \<Longrightarrow> (\<And>x s. x \<in> set xs \<Longrightarrow> P s \<Longrightarrow> P (f x s)) \<Longrightarrow> P (fold f xs s)"
  by (induction xs arbitrary: s) auto

lemma fold_fixed_point: "(\<And>x. x \<in> set xs \<Longrightarrow> f x s = s) \<Longrightarrow> fold f xs s = s"
  by (induction xs) auto

text \<open>A loop over distinct keys whose step at \<open>x\<close> touches only what is observed at \<open>x\<close>.\<close>
lemma fold_pointwise:
  assumes frame: "\<And>y x s. x \<noteq> y \<Longrightarrow> obs (f x s) y = obs s y"
    and "distinct xs"
  shows "obs (fold f xs s) y = (if y \<in> set xs
           then obs (f y (fold f (takeWhile (\<lambda>x. x \<noteq> y) xs) s)) y else obs s y)"
  using assms(2)
proof (induction xs arbitrary: s)
  case Nil
  then show ?case by simp
next
  case (Cons x xs)
  have notin: "z \<notin> set zs \<Longrightarrow> obs (fold f zs s') z = obs s' z" for z zs s'
    by (induction zs arbitrary: s') (auto simp: frame)
  show ?case
  proof (cases "x = y")
    case True
    with Cons.prems show ?thesis by (simp add: notin)
  next
    case False
    with Cons show ?thesis by (simp add: frame)
  qed
qed

end
