(* ===== verification/Go_Path.thy ===== *)
theory Go_Path
  imports Go_Prelude
begin

text \<open>
  Package \<open>path/filepath\<close> on Unix, as far as the sources use it, and \<open>ResolveInside\<close> of
  \<^verbatim>\<open>internal/sync/node.go\<close> with the proof that it never leaves its base folder. A path is processed
  element by element with a stack of the elements kept so far, top first; \<open>ToSlash\<close> and \<open>FromSlash\<close>
  are the identity on Unix.
\<close>

section \<open>Package path/filepath\<close>

abbreviation slash :: char where "slash \<equiv> CHR ''/''"
abbreviation dot :: string where "dot \<equiv> ''.''"
abbreviation dotdot :: string where "dotdot \<equiv> ''..''"

definition IsAbs :: "string \<Rightarrow> bool" where
  "IsAbs path \<longleftrightarrow> HasPrefix path ''/''"

text \<open>One element of the path in \<open>Clean\<close>: empty elements and \<open>.\<close> are dropped, \<open>..\<close> backs up over
  the previous element, stays at the root of a rooted path and is kept at the start of a relative one.\<close>
definition clean_step :: "bool \<Rightarrow> string \<Rightarrow> string list \<Rightarrow> string list" where
  "clean_step rooted c stk =
     (if c = [] \<or> c = dot then stk
      else if c = dotdot then
        (case stk of [] \<Rightarrow> if rooted then [] else [dotdot]
         | t # ts \<Rightarrow> if t = dotdot then dotdot # stk else ts)
      else c # stk)"

definition clean_parts :: "bool \<Rightarrow> string list \<Rightarrow> string list" where
  "clean_parts rooted cs = rev (fold (clean_step rooted) cs [])"

definition Clean :: "string \<Rightarrow> string" where
  "Clean path =
     (let cs = clean_parts (IsAbs path) (split_on slash path) in
      if IsAbs path then slash # join_with slash cs
      else if cs = [] then dot else join_with slash cs)"

definition IsLocal :: "string \<Rightarrow> bool" where
  "IsLocal path =
     (if IsAbs path \<or> path = [] then False
      else let hasDots = list_ex (\<lambda>c. c = dot \<or> c = dotdot) (split_on slash path);
               p = (if hasDots then Clean path else path)
           in \<not> (p = dotdot \<or> HasPrefix p ''../''))"

definition Join :: "string \<Rightarrow> string \<Rightarrow> string" where
  "Join a b = (if a \<noteq> [] then Clean (a @ ''/'' @ b) else if b \<noteq> [] then Clean b else [])"

text \<open>The elements of a cleaned path, without the root.\<close>
definition elements :: "string \<Rightarrow> string list" where
  "elements p = (if IsAbs p then (if tl p = [] then [] else split_on slash (tl p)) else split_on slash p)"

fun strip_common :: "string list \<Rightarrow> string list \<Rightarrow> string list \<times> string list" where
  "strip_common (x # xs) (y # ys) = (if x = y then strip_common xs ys else (x # xs, y # ys))"
| "strip_common xs ys = (xs, ys)"

definition Rel :: "string \<Rightarrow> string \<Rightarrow> gerr + string" where
  "Rel basepath targpath =
     (let base = Clean basepath; targ = Clean targpath in
      if targ = base then Inr dot
      else let base' = (if base = dot then [] else base) in
        if IsAbs base' \<noteq> IsAbs targ
        then Inl (Errorf (''Rel: can't make '' @ targpath @ '' relative to '' @ basepath))
        else
          let (rb, rt) = strip_common (if base' = [] then [] else elements base') (elements targ) in
          if rb \<noteq> [] \<and> rt \<noteq> [] \<and> hd rb = dotdot
          then Inl (Errorf (''Rel: can't make '' @ targpath @ '' relative to '' @ basepath))
          else Inr (join_with slash (replicate (length rb) dotdot @ rt)))"

text \<open>\<open>filepath.Dir\<close>: everything up to the last slash, cleaned; \<open>filepath.Base\<close>: the last element.\<close>
definition Dir :: "string \<Rightarrow> string" where
  "Dir path = Clean (rev (dropWhile (\<lambda>c. c \<noteq> slash) (rev path)))"

definition Base :: "string \<Rightarrow> string" where
  "Base path =
     (if path = [] then dot
      else let p = rev (dropWhile (\<lambda>c. c = slash) (rev path));
               b = rev (takeWhile (\<lambda>c. c \<noteq> slash) (rev p))
           in if b = [] then ''/'' else b)"

section \<open>Locations\<close>

text \<open>Where a path leads in a file tree without symbolic links, from a working directory: the stack
  machine of \<open>Clean\<close> for a rooted path, started at the working directory for a relative one.\<close>
definition locate :: "string list \<Rightarrow> string \<Rightarrow> string list" where
  "locate cwd path = rev (fold (clean_step True) (split_on slash path) (if IsAbs path then [] else rev cwd))"

text \<open>An element that names an entry of a directory.\<close>
definition plain :: "string \<Rightarrow> bool" where
  "plain c \<longleftrightarrow> c \<noteq> [] \<and> c \<noteq> dot \<and> c \<noteq> dotdot \<and> slash \<notin> set c"

lemma clean_step_plain: "plain c \<Longrightarrow> clean_step r c stk = c # stk"
  by (simp add: clean_step_def plain_def)

lemma fold_plain: "list_all plain cs \<Longrightarrow> fold (clean_step r) cs stk = rev cs @ stk"
  by (induction cs arbitrary: stk) (simp_all add: clean_step_plain)

text \<open>Elements a cleaned path can hold.\<close>
definition tidy :: "string \<Rightarrow> bool" where
  "tidy c \<longleftrightarrow> c \<noteq> [] \<and> c \<noteq> dot"

lemma clean_step_tidy: "list_all tidy stk \<Longrightarrow> list_all tidy (clean_step r c stk)"
  by (auto simp: clean_step_def tidy_def split: list.splits)

lemma fold_tidy: "list_all tidy stk \<Longrightarrow> list_all tidy (fold (clean_step r) cs stk)"
  by (induction cs arbitrary: stk) (simp_all add: clean_step_tidy)

text \<open>Cleaning a relative path first does not change where it leads.\<close>
lemma walk_step:
  assumes "list_all tidy A"
  shows "fold (clean_step True) (rev (clean_step False c A)) stk =
         clean_step True c (fold (clean_step True) (rev A) stk)"
  using assms by (auto simp: clean_step_def tidy_def split: list.splits)

lemma walk_cleaned:
  assumes "list_all tidy A"
  shows "fold (clean_step True) (rev (fold (clean_step False) cs A)) stk =
         fold (clean_step True) cs (fold (clean_step True) (rev A) stk)"
  using assms
proof (induction cs arbitrary: A)
  case Nil
  then show ?case by simp
next
  case (Cons c cs)
  from Cons.IH [OF clean_step_tidy [OF Cons.prems], of False c] show ?case
    by (simp add: walk_step [OF Cons.prems])
qed

section \<open>Normal forms\<close>

lemma split_elem_plain:
  "c \<in> set (split_on slash p) \<Longrightarrow> c \<noteq> [] \<Longrightarrow> c \<noteq> dot \<Longrightarrow> c \<noteq> dotdot \<Longrightarrow> plain c"
  by (auto simp: plain_def dest: split_on_no_sep)

lemma list_all_simps_Nil: "list_all P []"
  by simp

text \<open>A stack of the cleaning machine: plain elements over the \<open>..\<close> a relative path begins with.\<close>
definition normal :: "string list \<Rightarrow> bool" where
  "normal stk \<longleftrightarrow> (\<exists>ps k. stk = ps @ replicate k dotdot \<and> list_all plain ps)"

lemma not_plain_dotdot [simp]: "\<not> plain dotdot"
  by (simp add: plain_def)

lemma clean_step_normal:
  assumes "normal stk" "slash \<notin> set c"
  shows "normal (clean_step r c stk)"
proof -
  obtain ps k where stk: "stk = ps @ replicate k dotdot" "list_all plain ps"
    using assms(1) by (auto simp: normal_def)
  consider "c = [] \<or> c = dot" | "c = dotdot" | "plain c" using assms(2) by (auto simp: plain_def)
  then show ?thesis
  proof cases
    case 1
    with assms(1) show ?thesis by (auto simp: clean_step_def)
  next
    case 2
    show ?thesis
    proof (cases ps)
      case Nil
      then have "clean_step r c stk = (if r \<and> k = 0 then [] else replicate (Suc k) dotdot)"
        using 2 stk by (cases k) (simp_all add: clean_step_def)
      then have "clean_step r c stk = [] @ replicate (if r \<and> k = 0 then 0 else Suc k) dotdot"
        by simp
      then show ?thesis unfolding normal_def by (metis list_all_simps_Nil)
    next
      case (Cons t ts)
      then have "clean_step r c stk = ts @ replicate k dotdot" "list_all plain ts"
        using 2 stk by (auto simp: clean_step_def)
      then show ?thesis by (auto simp: normal_def)
    qed
  next
    case 3
    with stk have "clean_step r c stk = (c # ps) @ replicate k dotdot" "list_all plain (c # ps)"
      by (simp_all add: clean_step_plain)
    then show ?thesis unfolding normal_def by blast
  qed
qed

lemma fold_normal:
  "normal stk \<Longrightarrow> (\<And>c. c \<in> set cs \<Longrightarrow> slash \<notin> set c) \<Longrightarrow> normal (fold (clean_step r) cs stk)"
  by (induction cs arbitrary: stk) (auto simp: clean_step_normal)

lemma clean_parts_normal: "normal (rev (clean_parts r (split_on slash p)))"
  unfolding clean_parts_def rev_rev_ident
  by (rule fold_normal) (auto simp: normal_def split_on_no_sep)

lemma clean_parts_cases:
  obtains ps k where "clean_parts r (split_on slash p) = replicate k dotdot @ ps" "list_all plain ps"
proof -
  obtain qs k where q: "rev (clean_parts r (split_on slash p)) = qs @ replicate k dotdot" "list_all plain qs"
    using clean_parts_normal unfolding normal_def by blast
  then have "clean_parts r (split_on slash p) = replicate k dotdot @ rev qs"
    by (metis rev_append rev_replicate rev_rev_ident)
  with q(2) that show thesis by simp
qed

lemma clean_parts_elem:
  assumes "c \<in> set (clean_parts r (split_on slash p))"
  shows "slash \<notin> set c" "c \<noteq> []" "c \<noteq> dot"
proof -
  have "plain c \<or> c = dotdot"
    using assms by (rule_tac r = r and p = p in clean_parts_cases) (auto simp: list_all_iff)
  then show "slash \<notin> set c" "c \<noteq> []" "c \<noteq> dot" by (auto simp: plain_def)
qed

lemma IsAbs_iff: "IsAbs p \<longleftrightarrow> (\<exists>q. p = slash # q)"
  by (auto simp: IsAbs_def HasPrefix_append)

lemma join_not_abs:
  assumes "cs \<noteq> []" "\<And>c. c \<in> set cs \<Longrightarrow> slash \<notin> set c \<and> c \<noteq> []"
  shows "\<not> IsAbs (join_with slash cs)"
proof -
  obtain c cs' where "cs = c # cs'" using assms(1) by (meson list.exhaust)
  moreover from this assms(2) [of c] obtain x xs where "c = x # xs" "x \<noteq> slash" by (cases c) auto
  ultimately show ?thesis by (cases cs') (auto simp: IsAbs_iff)
qed

lemma IsAbs_Clean [simp]: "IsAbs (Clean p) = IsAbs p"
proof (cases "IsAbs p")
  case True
  then show ?thesis by (simp add: Clean_def Let_def) (simp add: IsAbs_iff)
next
  case False
  then show ?thesis
    using join_not_abs [of "clean_parts False (split_on slash p)"] clean_parts_elem [of _ False p]
    by (auto simp: Clean_def Let_def) (simp add: IsAbs_iff)
qed

lemma split_Clean:
  "split_on slash (Clean p) =
     (let cs = clean_parts (IsAbs p) (split_on slash p) in
      if IsAbs p then [] # (if cs = [] then [[]] else cs) else if cs = [] then [dot] else cs)"
proof -
  have "split_on slash (join_with slash cs) = cs" if "cs = clean_parts r (split_on slash p)" "cs \<noteq> []" for cs r
    using that clean_parts_elem(1) by (intro split_join) auto
  then show ?thesis by (auto simp: Clean_def Let_def)
qed

lemma clean_step_dots [simp]: "clean_step r [] stk = stk" "clean_step r dot stk = stk"
  by (simp_all add: clean_step_def)

lemma rooted_no_up: "dotdot \<notin> set st \<Longrightarrow> dotdot \<notin> set (fold (clean_step True) xs st)"
proof (induction xs arbitrary: st)
  case Nil
  then show ?case by simp
next
  case (Cons x xs)
  have "dotdot \<notin> set (clean_step True x st)"
    using Cons.prems by (auto simp: clean_step_def split: list.splits)
  then show ?case using Cons.IH by simp
qed

lemma clean_parts_rooted_plain: "list_all plain (clean_parts True (split_on slash p))"
proof -
  have "dotdot \<notin> set (clean_parts True (split_on slash p))"
    using rooted_no_up [of "[]"] by (simp add: clean_parts_def)
  then show ?thesis
    by (rule_tac r = True and p = p in clean_parts_cases) (auto simp: list_all_iff)
qed

lemma fold_clean_rooted_idem:
  "fold (clean_step True) (clean_parts True (split_on slash p)) [] = rev (clean_parts True (split_on slash p))"
  using fold_plain [OF clean_parts_rooted_plain] by simp

lemma locate_Clean: "locate cwd (Clean p) = locate cwd p"
proof (cases "IsAbs p")
  case True
  then show ?thesis
    using fold_clean_rooted_idem [of p]
    by (simp add: locate_def split_Clean Let_def clean_parts_def)
next
  case False
  have "fold (clean_step True) (clean_parts False (split_on slash p)) stk =
        fold (clean_step True) (split_on slash p) stk" for stk
    unfolding clean_parts_def by (subst walk_cleaned) simp_all
  with False show ?thesis by (auto simp: locate_def split_Clean Let_def dest: sym)
qed

section \<open>Joining\<close>

lemma split_on_app: "split_on c (a @ c # b) = split_on c a @ split_on c b"
proof (induction a)
  case Nil
  then show ?case by simp
next
  case (Cons x a)
  then show ?case by (auto split: list.splits)
qed

lemma IsAbs_append: "a \<noteq> [] \<Longrightarrow> IsAbs (a @ b) = IsAbs a"
  by (cases a) (auto simp: IsAbs_iff)

text \<open>Where a joined path leads: the second path, taken relative to where the first one leads.\<close>
lemma locate_Join:
  assumes "a \<noteq> [] \<or> \<not> IsAbs b"
  shows "locate cwd (Join a b) = rev (fold (clean_step True) (split_on slash b) (rev (locate cwd a)))"
proof (cases "a = []")
  case True
  with assms show ?thesis
    by (cases "b = []") (auto simp: Join_def locate_Clean, simp_all add: locate_def IsAbs_iff)
next
  case False
  then have "locate cwd (Join a b) = locate cwd (a @ slash # b)" by (simp add: Join_def locate_Clean)
  then show ?thesis
    using False IsAbs_append [OF False, of "slash # b"] by (simp add: locate_def split_on_app)
qed

lemma walk_local:
  "fold (clean_step True) (clean_parts False (split_on slash p)) stk = fold (clean_step True) (split_on slash p) stk"
  unfolding clean_parts_def by (subst walk_cleaned) simp_all

text \<open>A local path has no \<open>..\<close> left once cleaned.\<close>
lemma fold_no_up:
  "list_all plain st \<Longrightarrow> (\<And>c. c \<in> set cs \<Longrightarrow> plain c \<or> c = []) \<Longrightarrow>
   list_all plain (fold (clean_step r) cs st)"
proof (induction cs arbitrary: st)
  case Nil
  then show ?case by simp
next
  case (Cons c cs)
  have "list_all plain (clean_step r c st)"
    using Cons.prems(2) [of c] Cons.prems(1) by (cases "c = []") (auto simp: clean_step_plain)
  with Cons show ?case by simp
qed

lemma IsLocal_plain:
  assumes "IsLocal p"
  shows "list_all plain (clean_parts False (split_on slash p))"
proof (cases "list_ex (\<lambda>c. c = dot \<or> c = dotdot) (split_on slash p)")
  case False
  then have "plain c \<or> c = []" if "c \<in> set (split_on slash p)" for c
    using that split_elem_plain [OF that] by (auto simp: list_ex_iff)
  then show ?thesis
    using fold_no_up [of "[]" "split_on slash p" False] by (simp add: clean_parts_def)
next
  case True
  obtain ps k where cs: "clean_parts False (split_on slash p) = replicate k dotdot @ ps" "list_all plain ps"
    by (rule clean_parts_cases)
  have abs: "\<not> IsAbs p" and loc: "\<not> (Clean p = dotdot \<or> HasPrefix (Clean p) ''../'')"
    using assms True by (auto simp: IsLocal_def Let_def split: if_splits)
  have "k = 0"
  proof (rule ccontr)
    assume "k \<noteq> 0"
    then obtain j where "k = Suc j" by (cases k) auto
    then have "clean_parts False (split_on slash p) = dotdot # (replicate j dotdot @ ps)" using cs by simp
    then have "Clean p = dotdot \<or> (\<exists>q. Clean p = dotdot @ slash # q)"
      using abs by (cases "replicate j dotdot @ ps") (auto simp: Clean_def Let_def)
    with loc show False by (auto simp: HasPrefix_append)
  qed
  with cs show ?thesis by simp
qed

lemma IsLocal_not_abs: "IsLocal p \<Longrightarrow> \<not> IsAbs p"
  by (auto simp: IsLocal_def split: if_splits)

lemma locate_Join_local:
  assumes "IsLocal p"
  shows "locate cwd (Join root p) = locate cwd root @ clean_parts False (split_on slash p)"
proof -
  have "fold (clean_step True) (split_on slash p) stk = rev (clean_parts False (split_on slash p)) @ stk" for stk
    using walk_local [of p stk] fold_plain [OF IsLocal_plain [OF assms], of True stk] by simp
  then show ?thesis using locate_Join [of root p cwd] IsLocal_not_abs [OF assms] by simp
qed

lemma clean_plain_parts: "list_all plain cs \<Longrightarrow> clean_parts r cs = cs"
  by (simp add: clean_parts_def fold_plain)

lemma split_join_plain: "list_all plain cs \<Longrightarrow> cs \<noteq> [] \<Longrightarrow> split_on slash (join_with slash cs) = cs"
  by (intro split_join) (auto simp: list_all_iff plain_def)

lemma join_plain_inj:
  "list_all plain cs \<Longrightarrow> cs \<noteq> [] \<Longrightarrow> list_all plain ds \<Longrightarrow> ds \<noteq> [] \<Longrightarrow>
   join_with slash cs = join_with slash ds \<Longrightarrow> cs = ds"
  by (metis split_join_plain)

text \<open>A path of plain elements is local and leads to these elements below the root.\<close>
lemma join_plain_local:
  assumes "list_all plain cs" "cs \<noteq> []"
  shows "IsLocal (join_with slash cs)"
proof -
  have "\<not> IsAbs (join_with slash cs)"
    using assms by (intro join_not_abs) (auto simp: list_all_iff plain_def)
  moreover have "\<not> list_ex (\<lambda>c. c = dot \<or> c = dotdot) (split_on slash (join_with slash cs))"
    using assms by (auto simp: split_join_plain list_ex_iff list_all_iff plain_def)
  moreover have "join_with slash cs \<noteq> []"
    using assms by (auto simp: join_with_empty_iff plain_def)
  moreover have "join_with slash cs \<noteq> dotdot \<and> \<not> HasPrefix (join_with slash cs) ''../''"
  proof -
    have "dotdot \<notin> set (split_on slash (join_with slash cs))"
      using assms by (auto simp: split_join_plain list_all_iff)
    moreover have "dotdot \<in> set (split_on slash dotdot)" by simp
    moreover have "dotdot \<in> set (split_on slash (''../'' @ r))" for r by simp
    ultimately show ?thesis by (auto simp: HasPrefix_append)
  qed
  ultimately show ?thesis by (simp add: IsLocal_def)
qed

lemma locate_Join_plain:
  assumes "list_all plain cs" "cs \<noteq> []"
  shows "locate cwd (Join root (join_with slash cs)) = locate cwd root @ cs"
  using locate_Join_local [OF join_plain_local [OF assms]] assms
  by (simp add: split_join_plain clean_plain_parts)

section \<open>ResolveInside\<close>

definition outside_error :: "string \<Rightarrow> string \<Rightarrow> gerr" where
  "outside_error base rel = Errorf (''path '' @ go_quote rel @ '' is outside of '' @ base)"

definition ResolveInside :: "string \<Rightarrow> string \<Rightarrow> gerr + string" where
  "ResolveInside base rel =
     (if rel = [] then Inr base
      else case (if IsAbs rel then Rel base rel else Inr rel) of
          Inl err \<Rightarrow> Inl (outside_error base rel)
        | Inr r \<Rightarrow>
            let local = Clean r in
            if local = dot then Inr base
            else if \<not> IsLocal local then Inl (outside_error base rel)
            else Inr (Join base local))"

lemma locate_Join_Clean:
  assumes "\<not> IsAbs p"
  shows "locate cwd (Join base (Clean p)) = locate cwd (Join base p)"
proof -
  have "fold (clean_step True) (split_on slash (Clean p)) stk = fold (clean_step True) (split_on slash p) stk" for stk
    using walk_local [of p stk] assms by (auto simp: split_Clean Let_def)
  then show ?thesis using assms by (simp add: locate_Join)
qed

lemma locate_Join_dot:
  assumes "\<not> IsAbs p" "Clean p = dot"
  shows "locate cwd (Join base p) = locate cwd base"
  using locate_Join_Clean [OF assms(1), of cwd base] assms
  by (simp add: locate_Join IsAbs_iff)

lemma ResolveInside_place:
  "case ResolveInside base rel of
     Inl err \<Rightarrow> err = outside_error base rel
   | Inr full \<Rightarrow> (\<exists>below. locate cwd full = locate cwd base @ below \<and> list_all plain below) \<and>
                 (IsAbs rel \<or> locate cwd full = locate cwd (Join base rel))"
proof -
  have self: "\<exists>below. locate cwd base = locate cwd base @ below \<and> list_all plain below"
    by (intro exI [of _ "[]"]) simp
  have sub: "\<exists>below. locate cwd (Join base p) = locate cwd base @ below \<and> list_all plain below"
    if "IsLocal p" for p
    using locate_Join_local [OF that] IsLocal_plain [OF that] by blast
  have empty: "locate cwd (Join base []) = locate cwd base"
    by (simp add: locate_Join IsAbs_iff)
  show ?thesis
  proof (cases "IsAbs rel")
    case True
    then show ?thesis
      using self sub by (auto simp: ResolveInside_def Let_def split: sum.splits)
  next
    case False
    note same = locate_Join_Clean [OF False, of cwd base]
    show ?thesis
      using False self sub [of "Clean rel", unfolded same] empty same locate_Join_dot [OF False, of cwd base]
      by (auto simp: ResolveInside_def Let_def)
  qed
qed

lemma ResolveInside_inside:
  "ResolveInside base rel = Inr full \<Longrightarrow> \<exists>below. locate cwd full = locate cwd base @ below"
  using ResolveInside_place [of base rel cwd] by auto

text \<open>C7: whatever path a client sends, relative or absolute, with any number of \<open>..\<close>, the folder
  \<open>ResolveInside\<close> accepts lies in the tree below the base folder: its location extends the location of
  the base by ordinary names only. A relative path resolves to the place it names below the base.\<close>
theorem ResolveInside_confined:
  "case ResolveInside base rel of
     Inl err \<Rightarrow> err = outside_error base rel
   | Inr full \<Rightarrow> (\<exists>below. locate cwd full = locate cwd base @ below \<and> list_all plain below) \<and>
                 (IsAbs rel \<or> locate cwd full = locate cwd (Join base rel))"
  by (rule ResolveInside_place)

section \<open>Rel undoes Join\<close>

lemma split_Cons_abs: "split_on slash (slash # q) = [] # split_on slash q"
  by simp

lemma fold_clean_append_plain:
  "list_all plain cs \<Longrightarrow> clean_parts r (xs @ cs) = clean_parts r xs @ cs"
  by (simp add: clean_parts_def fold_plain)

lemma clean_parts_empty: "clean_parts r [[]] = []"
  by (simp add: clean_parts_def)

lemma not_abs_empty: "\<not> IsAbs []"
  by (simp add: IsAbs_iff)

lemma clean_parts_Join:
  assumes "list_all plain cs" "cs \<noteq> []"
  shows "Join root (join_with slash cs) =
    (let ps = clean_parts (IsAbs root) (split_on slash root) @ cs in
     if IsAbs root then slash # join_with slash ps else join_with slash ps)"
proof (cases "root = []")
  case True
  then show ?thesis
    using assms IsLocal_not_abs [OF join_plain_local [OF assms]] join_with_empty_iff [of slash cs]
    by (auto simp: Join_def Clean_def Let_def split_join_plain clean_plain_parts clean_parts_empty
        not_abs_empty plain_def)
next
  case False
  then show ?thesis
    using assms fold_clean_append_plain [OF assms(1), of "IsAbs root" "split_on slash root"]
      IsAbs_append [OF False, of "slash # join_with slash cs"]
    by (simp add: Join_def Clean_def Let_def split_on_app split_join_plain)
qed

lemma Clean_idem [simp]: "Clean (Clean p) = Clean p"
proof -
  have "clean_parts r ps = ps"
    if ps: "ps = clean_parts r (split_on slash p)" for ps r
  proof (cases r)
    case True
    then show ?thesis
      unfolding that by (simp add: clean_plain_parts clean_parts_rooted_plain)
  next
    case False
    obtain qs k where q: "clean_parts False (split_on slash p) = replicate k dotdot @ qs" "list_all plain qs"
      by (rule clean_parts_cases)
    have up: "(clean_step False dotdot ^^ k) [] = replicate k dotdot"
    proof (induction k)
      case (Suc k)
      then show ?case by (cases k) (simp_all add: clean_step_def [of False dotdot "replicate _ _"]
            clean_step_def [of False dotdot "_ # _"] clean_step_def [of False dotdot "[]"])
    qed simp
    show ?thesis
      using q up False unfolding ps by (simp add: clean_parts_def [of False "_ @ _"] fold_plain)
  qed
  then have "clean_parts (IsAbs p) (split_on slash (Clean p)) = clean_parts (IsAbs p) (split_on slash p)"
    by (auto simp: split_Clean Let_def) (simp_all add: clean_parts_def)
  then show ?thesis by (simp add: Clean_def [of "Clean p"]) (simp add: Clean_def)
qed

lemma strip_common_prefix: "strip_common xs (xs @ ys) = ([], ys)"
  by (induction xs) simp_all

lemma elements_Clean:
  "elements (Clean p) =
     (let cs = clean_parts (IsAbs p) (split_on slash p) in if \<not> IsAbs p \<and> cs = [] then [dot] else cs)"
proof -
  have "split_on slash (join_with slash cs) = cs" if "cs = clean_parts r (split_on slash p)" "cs \<noteq> []" for cs r
    using that clean_parts_elem(1) by (intro split_join) auto
  moreover have "join_with slash (clean_parts r (split_on slash p)) = [] \<longleftrightarrow> clean_parts r (split_on slash p) = []"
    for r
    using clean_parts_elem(2) [of "[]" r p] by (auto simp: join_with_empty_iff)
  ultimately show ?thesis
    using IsAbs_Clean [of p] by (auto simp: elements_def Let_def Clean_def)
qed

lemma Rel_Join:
  assumes "list_all plain cs" "cs \<noteq> []"
  shows "Rel root (Join root (join_with slash cs)) = Inr (join_with slash cs)"
proof -
  let ?p = "join_with slash cs" and ?ps = "clean_parts (IsAbs root) (split_on slash root)"
  have ne: "?p \<noteq> []" using assms by (auto simp: join_with_empty_iff plain_def)
  have abs: "\<not> IsAbs ?p" by (rule IsLocal_not_abs [OF join_plain_local [OF assms]])
  define q where "q = (if root = [] then ?p else root @ slash # ?p)"
  have J: "Join root ?p = Clean q" using ne by (simp add: Join_def q_def)
  have absq: "IsAbs q = IsAbs root"
    using abs IsAbs_append [of root] by (simp add: q_def not_abs_empty)
  have "clean_parts (IsAbs q) (split_on slash q) = ?ps @ cs"
    using fold_clean_append_plain [OF assms(1), of "IsAbs root" "split_on slash root"] assms abs
    by (simp add: absq) (auto simp: q_def split_on_app split_join_plain clean_plain_parts clean_parts_empty
        not_abs_empty)
  then have el: "elements (Clean q) = ?ps @ cs"
    using assms(2) by (simp add: elements_Clean Let_def)
  have base: "elements (Clean root) = (if \<not> IsAbs root \<and> ?ps = [] then [dot] else ?ps)"
    by (simp add: elements_Clean Let_def)
  have "Clean q \<noteq> Clean root"
    using el base assms by (auto split: if_splits simp: plain_def)
  moreover have "Clean root = dot \<longleftrightarrow> \<not> IsAbs root \<and> ?ps = []"
  proof
    assume d: "Clean root = dot"
    then have "\<not> IsAbs root" using IsAbs_Clean [of root] by (simp add: IsAbs_iff)
    moreover have "?ps \<noteq> [dot]"
      using clean_parts_elem(3) [of dot "IsAbs root" root] by fastforce
    moreover have "elements dot = [dot]" by (simp add: elements_def IsAbs_iff)
    ultimately have "?ps = []" using base d by (auto split: if_splits)
    moreover have "\<not> IsAbs root" by fact
    ultimately show "\<not> IsAbs root \<and> ?ps = []" by simp
  qed (auto simp: Clean_def Let_def)
  moreover have "Clean root \<noteq> []"
    using clean_parts_elem(2) [of "[]" "IsAbs root" root] by (auto simp: Clean_def Let_def join_with_empty_iff)
  ultimately show ?thesis
    using el base strip_common_prefix [of ?ps cs] by (auto simp: Rel_def Let_def J absq not_abs_empty)
qed

section \<open>The parent folder\<close>

lemma dropWhile_last_elem: "slash \<notin> set c \<Longrightarrow> rev (dropWhile (\<lambda>x. x \<noteq> slash) (rev (q @ slash # c))) = q @ [slash]"
  by (simp add: dropWhile_append)

text \<open>The last element of a path leads from the place of \<open>Dir\<close> to the place of the path.\<close>
lemma locate_Dir_step:
  assumes "split_on slash p = xs @ [c]"
  shows "locate cwd p = rev (clean_step True c (rev (locate cwd (Dir p))))"
proof (cases "xs = []")
  case True
  then have p: "p = c" using join_split [of slash p] assms(1) by simp
  have c: "slash \<notin> set c" using split_on_no_sep [of c slash p] assms by simp
  have drop: "rev (dropWhile (\<lambda>x. x \<noteq> slash) (rev c)) = []" using c(1) by auto
  have "Dir p = dot"
    unfolding p Dir_def drop by (simp add: Clean_def Let_def not_abs_empty clean_parts_empty)
  moreover have "\<not> IsAbs c" using c by (auto simp: IsAbs_iff)
  ultimately show ?thesis
    by (simp add: p locate_def split_on_id c IsAbs_iff)
next
  case False
  then have p: "p = join_with slash xs @ slash # c"
    using join_split [of slash p] assms(1) join_with_snoc [of xs slash c] by simp
  have c: "slash \<notin> set c" using split_on_no_sep [of c slash p] assms by simp
  have dir: "Dir p = Clean (join_with slash xs @ [slash])"
    unfolding Dir_def p dropWhile_last_elem [OF c] ..
  have sp: "split_on slash (join_with slash xs) = xs"
    using assms(1) split_on_app [of slash "join_with slash xs" c] c by (simp add: p split_on_id)
  have "IsAbs (join_with slash xs @ [slash]) = IsAbs p"
    by (cases "join_with slash xs") (auto simp: p IsAbs_iff)
  then show ?thesis
    using assms split_on_app [of slash "join_with slash xs" "[]"]
    by (simp add: dir locate_Clean) (simp add: locate_def sp)
qed

lemma locate_Dir:
  "split_on slash p = xs @ [c] \<Longrightarrow> plain c \<Longrightarrow> locate cwd p = locate cwd (Dir p) @ [c]"
  by (simp add: locate_Dir_step clean_step_plain)

text \<open>\<open>Dir\<close> leads to a place on the way to the path, or (after a final \<open>..\<close>) to one below it.\<close>
lemma locate_Dir_near:
  obtains more where "locate cwd p = locate cwd (Dir p) @ more" | more where "locate cwd (Dir p) = locate cwd p @ more"
proof -
  obtain xs c where "split_on slash p = xs @ [c]" by (metis rev_exhaust split_on_nonempty)
  note step = locate_Dir_step [OF this, of cwd]
  show thesis
  proof (cases "c = dotdot")
    case True
    with step that show thesis
      by (cases "locate cwd (Dir p)" rule: rev_cases) (auto simp: clean_step_def split: if_splits)
  next
    case False
    with step that show thesis by (auto simp: clean_step_def split: if_splits)
  qed
qed

lemma split_Join_plain:
  assumes "list_all plain cs" "cs \<noteq> []"
  obtains xs where "split_on slash (Join root (join_with slash cs)) = xs @ [last cs]"
proof -
  let ?ps = "clean_parts (IsAbs root) (split_on slash root)"
  have sp: "split_on slash (join_with slash (?ps @ cs)) = ?ps @ cs"
    using assms clean_parts_elem(1) [of _ "IsAbs root" root]
    by (intro split_join) (auto simp: list_all_iff plain_def)
  have "split_on slash (Join root (join_with slash cs)) = (if IsAbs root then [[]] else []) @ ?ps @ cs"
    using sp by (cases "IsAbs root") (simp_all add: clean_parts_Join [OF assms] Let_def)
  also have "\<dots> = ((if IsAbs root then [[]] else []) @ ?ps @ butlast cs) @ [last cs]"
    using assms(2) by simp
  finally show thesis using that by blast
qed

lemma locate_Dir_Join:
  assumes "list_all plain cs" "cs \<noteq> []"
  shows "locate cwd (Dir (Join root (join_with slash cs))) = locate cwd root @ butlast cs"
proof -
  obtain xs where "split_on slash (Join root (join_with slash cs)) = xs @ [last cs]"
    using split_Join_plain [OF assms] .
  moreover have "plain (last cs)" using assms by (simp add: list_all_iff)
  ultimately have "locate cwd (Join root (join_with slash cs)) =
      locate cwd (Dir (Join root (join_with slash cs))) @ [last cs]"
    by (rule locate_Dir)
  moreover have "locate cwd (Join root (join_with slash cs)) = (locate cwd root @ butlast cs) @ [last cs]"
    using locate_Join_plain [OF assms] assms(2) by simp
  ultimately show ?thesis by (metis append1_eq_conv)
qed

end
