(* ===== verification/Hex_Hash.thy ===== *)
theory Hex_Hash
  imports Go_Prelude
begin

text \<open>
  Digests and their hexadecimal text. The hash function \<open>sha\<close> is a parameter everywhere: it stands
  for \<open>sha256.Sum256\<close>, a function from byte strings to 32 bytes, here a \<^typ>\<open>256 word\<close>. What the
  sources rely on beyond that (no two of the hashed messages collide) is a hypothesis where it is
  used. \<open>encoding/hex\<close> is modelled in full: \<open>EncodeToString\<close> writes two lower-case digits per byte,
  \<open>DecodeString\<close> accepts both cases and rejects an odd length or any other byte.
\<close>

section \<open>Bytes of a digest\<close>

type_synonym hash_fun = "string \<Rightarrow> 256 word"

fun int_bytes :: "nat \<Rightarrow> int \<Rightarrow> string" where
  "int_bytes 0 n = []"
| "int_bytes (Suc k) n = int_bytes k (n div 256) @ [char_of (n mod 256)]"

definition digest_bytes :: "256 word \<Rightarrow> string" where
  "digest_bytes w = int_bytes 32 (uint w)"

lemma length_int_bytes [simp]: "length (int_bytes k n) = k"
  by (induction k arbitrary: n) auto

lemma int_bytes_inj:
  "0 \<le> n \<Longrightarrow> n < 256 ^ k \<Longrightarrow> 0 \<le> m \<Longrightarrow> m < 256 ^ k \<Longrightarrow> int_bytes k n = int_bytes k m \<Longrightarrow> n = m"
proof (induction k arbitrary: n m)
  case 0
  then show ?case by simp
next
  case (Suc k)
  from Suc.prems(5) have eq: "int_bytes k (n div 256) = int_bytes k (m div 256)"
    and ch: "(char_of (n mod 256) :: char) = char_of (m mod 256)" by simp_all
  from ch have "(of_char (char_of (n mod 256) :: char) :: int) = of_char (char_of (m mod 256) :: char)"
    by simp
  then have "n mod 256 = m mod 256" by (simp only: of_char_of mod_mod_trivial)
  moreover have "n div 256 = m div 256"
    using Suc.prems eq by (intro Suc.IH) (auto simp: int_div_less_self pos_imp_zdiv_nonneg_iff div_less_iff_less_mult)
  ultimately show ?case by (metis div_mult_mod_eq)
qed

lemma length_digest_bytes [simp]: "length (digest_bytes w) = 32"
  by (simp add: digest_bytes_def)

lemma digest_bytes_inj [simp]: "digest_bytes v = digest_bytes w \<longleftrightarrow> v = w"
proof
  have bound: "uint (x :: 256 word) < 256 ^ 32" for x using unsigned_less [of x, where ?'a = int] by simp
  assume "digest_bytes v = digest_bytes w"
  then have "uint v = uint w" by (auto simp: digest_bytes_def intro: int_bytes_inj bound)
  then show "v = w" by (simp add: word_uint_eq_iff)
qed simp

section \<open>Package encoding/hex\<close>

definition hex_digit :: "int \<Rightarrow> char" where
  "hex_digit n = (if n < 10 then char_of (48 + n) else char_of (87 + n))"

definition EncodeToString :: "string \<Rightarrow> string" where
  "EncodeToString s =
     concat (map (\<lambda>c. [hex_digit (of_char c div 16), hex_digit (of_char c mod 16)]) s)"

definition from_hex_char :: "char \<Rightarrow> int option" where
  "from_hex_char c =
     (let n = of_char c :: int in
      if 48 \<le> n \<and> n \<le> 57 then Some (n - 48)
      else if 97 \<le> n \<and> n \<le> 102 then Some (n - 87)
      else if 65 \<le> n \<and> n \<le> 70 then Some (n - 55)
      else None)"

fun DecodeString :: "string \<Rightarrow> gerr + string" where
  "DecodeString [] = Inr []"
| "DecodeString [c] = (if from_hex_char c = None then Inl (Errorf ''encoding/hex: invalid byte'')
                       else Inl (Errorf ''encoding/hex: odd length hex string''))"
| "DecodeString (c # d # s) =
     (case (from_hex_char c, from_hex_char d) of
        (Some a, Some b) \<Rightarrow>
          (case DecodeString s of
             Inl e \<Rightarrow> Inl e
           | Inr bs \<Rightarrow> Inr (char_of (16 * a + b) # bs))
      | _ \<Rightarrow> Inl (Errorf ''encoding/hex: invalid byte''))"

lemma of_char_hex_digit:
  "0 \<le> n \<Longrightarrow> n < 16 \<Longrightarrow> (of_char (hex_digit n) :: int) = (if n < 10 then 48 + n else 87 + n)"
  by (auto simp: hex_digit_def)

lemma from_hex_digit [simp]: "0 \<le> n \<Longrightarrow> n < 16 \<Longrightarrow> from_hex_char (hex_digit n) = Some n"
  by (auto simp: from_hex_char_def of_char_hex_digit Let_def)

lemma of_char_int: "(of_char c :: int) = int (of_char c)"
  by (simp only: of_nat_of_char)

lemma char_code_bound:
  "0 \<le> (of_char (c :: char) :: int) div 16" "(of_char (c :: char) :: int) div 16 < 16"
proof -
  have "(of_char c :: nat) < 256" by (rule nat_of_char_less_256)
  then have "0 \<le> (of_char c :: int) \<and> (of_char c :: int) < 256"
    unfolding of_char_int by linarith
  then show "0 \<le> (of_char c :: int) div 16" "(of_char c :: int) div 16 < 16" by auto
qed

lemma char_nibbles: "char_of (16 * (of_char c div 16) + of_char c mod 16 :: int) = c"
  by simp

lemma decode_encode [simp]: "DecodeString (EncodeToString s) = Inr s"
proof (induction s)
  case Nil
  then show ?case by (simp add: EncodeToString_def)
next
  case (Cons c s)
  show ?case using Cons by (simp add: EncodeToString_def char_nibbles char_code_bound)
qed

lemma encode_inj [simp]: "EncodeToString s = EncodeToString t \<longleftrightarrow> s = t"
  by (metis decode_encode sum.inject(2))

lemma length_encode [simp]: "length (EncodeToString s) = 2 * length s"
  by (induction s) (auto simp: EncodeToString_def)

lemma encode_chars: "c \<in> set (EncodeToString s) \<Longrightarrow> from_hex_char c \<noteq> None"
proof -
  assume "c \<in> set (EncodeToString s)"
  then obtain d where "c = hex_digit (of_char d div 16) \<or> c = hex_digit (of_char d mod 16)"
    by (auto simp: EncodeToString_def)
  then show ?thesis by (auto simp: char_code_bound)
qed

section \<open>The digest as the sources write it\<close>

text \<open>\<open>h := sha256.Sum256([]byte(s)); hex.EncodeToString(h[:])\<close>\<close>
definition hex_sum :: "hash_fun \<Rightarrow> string \<Rightarrow> string" where
  "hex_sum sha s = EncodeToString (digest_bytes (sha s))"

lemma length_hex_sum [simp]: "length (hex_sum sha s) = 64"
  by (simp add: hex_sum_def)

lemma hex_sum_eq [simp]: "hex_sum sha s = hex_sum sha t \<longleftrightarrow> sha s = sha t"
  by (simp add: hex_sum_def)

lemma hex_sum_no_colon: "CHR '':'' \<notin> set (hex_sum sha s)"
  using encode_chars [of "CHR '':''"] by (auto simp: hex_sum_def from_hex_char_def)

lemma hex_sum_not_empty [simp]: "hex_sum sha s \<noteq> []" "[] \<noteq> hex_sum sha s"
  using length_hex_sum [of sha s] by (metis length_0_conv zero_neq_numeral)+

text \<open>No two of the listed messages have the same digest.\<close>
definition collision_free :: "hash_fun \<Rightarrow> string list \<Rightarrow> bool" where
  "collision_free sha ms = distinct (map sha (remdups ms))"

lemma collision_free_iff: "collision_free sha ms \<longleftrightarrow> inj_on sha (set ms)"
  by (simp add: collision_free_def distinct_map)

lemma collision_freeD:
  "collision_free sha ms \<Longrightarrow> m \<in> set ms \<Longrightarrow> n \<in> set ms \<Longrightarrow> sha m = sha n \<Longrightarrow> m = n"
  by (auto simp: collision_free_iff inj_on_def)

lemma collision_free_mono: "collision_free sha ms \<Longrightarrow> set ns \<subseteq> set ms \<Longrightarrow> collision_free sha ns"
  unfolding collision_free_iff by (rule inj_on_subset)

text \<open>A small checksum of the shape of a digest function, to run the definitions on examples.\<close>
definition sample_sha :: hash_fun where
  "sample_sha s = word_of_int (fold (\<lambda>c h. (h * 31 + of_char c) mod 1000003) s 7)"

section \<open>Package encoding/base64\<close>

text \<open>\<open>base64.URLEncoding\<close>\<close>
definition base64_chars :: string where
  "base64_chars = ''ABCDEFGHIJKLMNOPQRSTUVWXYZabcdefghijklmnopqrstuvwxyz0123456789-_''"

definition b64 :: "nat \<Rightarrow> char" where
  "b64 n = base64_chars ! (n mod 64)"

fun URLEncode :: "string \<Rightarrow> string" where
  "URLEncode [] = []"
| "URLEncode [a] = (let n = of_char a * 16 in [b64 (n div 64), b64 n, CHR 0x3D, CHR 0x3D])"
| "URLEncode [a, b] =
     (let n = (of_char a * 256 + of_char b) * 4 in [b64 (n div 4096), b64 (n div 64), b64 n, CHR 0x3D])"
| "URLEncode (a # b # c # s) =
     (let n = (of_char a * 256 + of_char b) * 256 + of_char c in
      [b64 (n div 262144), b64 (n div 4096), b64 (n div 64), b64 n] @ URLEncode s)"

text \<open>\<open>base64.RawURLEncoding\<close>, without padding\<close>

definition RawURLEncode :: "string \<Rightarrow> string" where
  "RawURLEncode s = filter (\<lambda>c. c \<noteq> CHR 0x3D) (URLEncode s)"

definition b64_value :: "char \<Rightarrow> nat option" where
  "b64_value c = map_of (zip base64_chars [0..<64]) c"

text \<open>The bytes of a list of 6-bit values; bits left over at the end are ignored.\<close>
fun join_sextets :: "nat list \<Rightarrow> string option" where
  "join_sextets [] = Some []"
| "join_sextets [a] = None"
| "join_sextets [a, b] = Some [char_of ((a * 64 + b) div 16)]"
| "join_sextets [a, b, c] = (let n = ((a * 64 + b) * 64 + c) div 4 in Some [char_of (n div 256), char_of n])"
| "join_sextets (a # b # c # d # s) =
     (let n = ((a * 64 + b) * 64 + c) * 64 + d in
      map_option (\<lambda>r. char_of (n div 65536) # char_of (n div 256) # char_of n # r) (join_sextets s))"

text \<open>\<open>DecodeString\<close> skips line breaks.\<close>
definition RawURLDecode :: "string \<Rightarrow> gerr + string" where
  "RawURLDecode s =
     (case those (map b64_value (filter (\<lambda>c. c \<noteq> CHR 0x0D \<and> c \<noteq> CHR 0x0A) s)) of
        None \<Rightarrow> Inl (Errorf ''illegal base64 data'')
      | Some vs \<Rightarrow> (case join_sextets vs of None \<Rightarrow> Inl (Errorf ''illegal base64 data'') | Some bs \<Rightarrow> Inr bs))"

text \<open>The 6-bit values that \<open>RawURLEncode\<close> writes.\<close>
fun sextets :: "string \<Rightarrow> nat list" where
  "sextets [] = []"
| "sextets [a] = (let n = of_char a * 16 in [n div 64 mod 64, n mod 64])"
| "sextets [a, b] = (let n = (of_char a * 256 + of_char b) * 4 in [n div 4096 mod 64, n div 64 mod 64, n mod 64])"
| "sextets (a # b # c # s) =
     (let n = (of_char a * 256 + of_char b) * 256 + of_char c in
      [n div 262144 mod 64, n div 4096 mod 64, n div 64 mod 64, n mod 64] @ sextets s)"

lemma base64_chars_props: "length base64_chars = 64" "distinct base64_chars"
    "CHR 0x3D \<notin> set base64_chars" "CHR 0x0D \<notin> set base64_chars" "CHR 0x0A \<notin> set base64_chars" "CHR ''.'' \<notin> set base64_chars"
  by (simp_all add: base64_chars_def)

lemma b64_in: "b64 n \<in> set base64_chars"
  unfolding b64_def by (rule nth_mem) (simp add: base64_chars_props)

lemma b64_not [simp]: "b64 n \<noteq> CHR 0x3D" "b64 n \<noteq> CHR 0x0D" "b64 n \<noteq> CHR 0x0A" "b64 n \<noteq> CHR ''.''"
  using b64_in [of n] base64_chars_props by metis+

lemma b64_mod [simp]: "b64 (n mod 64) = b64 n"
  by (simp add: b64_def)

lemma b64_value_b64: "b64_value (b64 n) = Some (n mod 64)"
  unfolding b64_value_def b64_def by (subst map_of_zip_nth) (simp_all add: base64_chars_props)

lemma RawURLEncode_sextets: "RawURLEncode s = map b64 (sextets s)"
  unfolding RawURLEncode_def by (induction s rule: URLEncode.induct) (simp_all add: Let_def)

lemma those_values: "those (map b64_value (map b64 ns)) = Some (map (\<lambda>n. n mod 64) ns)"
  by (induction ns) (simp_all add: b64_value_b64)

lemma two_digits: "(n :: nat) < 4096 \<Longrightarrow> n div 64 mod 64 * 64 + n mod 64 = n"
proof -
  assume "n < 4096"
  then have "n div 64 mod 64 = n div 64" by simp
  then show ?thesis by simp
qed

lemma three_digits: "(n :: nat) < 262144 \<Longrightarrow> (n div 4096 mod 64 * 64 + n div 64 mod 64) * 64 + n mod 64 = n"
proof -
  assume n: "n < 262144"
  have "n div 4096 = n div 64 div 64" by (simp add: div_mult2_eq [symmetric])
  moreover have "n div 64 < 4096" using n by simp
  ultimately have eq: "n div 4096 mod 64 * 64 + n div 64 mod 64 = n div 64" using two_digits [of "n div 64"] by simp
  show ?thesis unfolding eq by (rule div_mult_mod_eq)
qed

lemma four_digits:
  "(n :: nat) < 16777216 \<Longrightarrow> ((n div 262144 mod 64 * 64 + n div 4096 mod 64) * 64 + n div 64 mod 64) * 64 + n mod 64 = n"
proof -
  assume n: "n < 16777216"
  have "n div 262144 = n div 64 div 4096" "n div 4096 = n div 64 div 64" by (simp_all add: div_mult2_eq [symmetric])
  moreover have "n div 64 < 262144" using n by simp
  ultimately have "(n div 262144 mod 64 * 64 + n div 4096 mod 64) * 64 + n div 64 mod 64 = n div 64" using three_digits [of "n div 64"] by simp
  then show ?thesis by (simp only: div_mult_mod_eq)
qed

lemma char_bytes:
  fixes a b c :: char
  defines "m \<equiv> of_char a * 256 + (of_char b :: nat)"
  shows "char_of (m div 256) = a" "char_of m = b" "m < 65536"
    "char_of ((m * 256 + of_char c) div 65536) = a" "char_of ((m * 256 + of_char c) div 256) = b" "char_of (m * 256 + of_char c) = c"
    "m * 256 + of_char c < 16777216"
proof -
  have a: "(of_char a :: nat) < 256" and b: "(of_char b :: nat) < 256" and c: "(of_char c :: nat) < 256" by simp_all
  have m: "m div 256 = of_char a" "m mod 256 = of_char b" using b by (simp_all add: m_def)
  have n: "(m * 256 + of_char c) div 256 = m" "(m * 256 + of_char c) mod 256 = of_char c" using c by simp_all
  show "char_of (m div 256) = a" using m by simp
  show mb: "char_of m = b" using m char_of_mod_256 [of m] by simp
  show "m < 65536" using a b unfolding m_def by linarith
  then have "m \<le> 65535" by simp
  then show "m * 256 + of_char c < 16777216" using c by linarith
  have "(m * 256 + of_char c) div 65536 = m div 256" using n(1) div_mult2_eq [of "m * 256 + of_char c" 256 256] by simp
  then show "char_of ((m * 256 + of_char c) div 65536) = a" using m by simp
  show "char_of ((m * 256 + of_char c) div 256) = b" using mb n(1) by simp
  show "char_of (m * 256 + of_char c) = c" using n(2) char_of_mod_256 [of "m * 256 + of_char c"] by simp
qed

lemma join_sextets_sextets: "join_sextets (sextets s) = Some s"
proof (induction s rule: sextets.induct)
  case 1
  show ?case by simp
next
  case (2 a)
  have "(of_char a * 16 :: nat) < 4096" using nat_of_char_less_256 [of a] by linarith
  then show ?case unfolding sextets.simps Let_def join_sextets.simps by (simp only: two_digits) simp
next
  case (3 a b)
  note cb = char_bytes(1-3) [of a b]
  have "x * 4 < 262144" if "x < 65536" for x :: nat using that by simp
  from this [OF cb(3)] show ?case unfolding sextets.simps Let_def join_sextets.simps
    by (simp only: three_digits nonzero_mult_div_cancel_right) (use cb(1,2) in simp)
next
  case (4 a b c s)
  note cb = char_bytes(4-7) [of a b c]
  show ?case unfolding sextets.simps Let_def join_sextets.simps append.simps four_digits [OF cb(4)] cb(1-3) by (simp add: 4)
qed

lemma sextets_mod: "map (\<lambda>n. n mod 64) (sextets s) = sextets s"
  by (induction s rule: sextets.induct) (simp_all add: Let_def)

theorem RawURL_roundtrip: "RawURLDecode (RawURLEncode s) = Inr s"
proof -
  have "filter (\<lambda>c. c \<noteq> CHR 0x0D \<and> c \<noteq> CHR 0x0A) (map b64 ns) = map b64 ns" for ns
    by (induction ns) simp_all
  then show ?thesis
    by (simp add: RawURLDecode_def RawURLEncode_sextets those_values sextets_mod join_sextets_sextets del: map_map)
qed

lemma RawURLEncode_no_dot: "CHR ''.'' \<notin> set (RawURLEncode s)"
  unfolding RawURLEncode_sextets set_map using b64_not(4) by (metis imageE)

lemma RawURLEncode_inj: "RawURLEncode s = RawURLEncode t \<Longrightarrow> s = t"
  by (metis RawURL_roundtrip sum.inject(2))

end
