(* ===== verification/Merkle.thy ===== *)
theory Merkle
  imports Hex_Hash
begin

text \<open>
  Merkle trees over file listings: \<^verbatim>\<open>internal/sync/merkletree.go\<close>, which the sync engine uses to
  find diverging files, and the domain layer's \<^verbatim>\<open>internal/domain/services/merkle.go\<close>.
  \<open>sort.Slice\<close> is modelled by a stable sort; with distinct paths there is only one sorted order.
  The lemmas show that, as long as the hashed messages do not collide, equal root hashes mean equal
  listings and \<open>Diff\<close> returns exactly the diverging paths.
\<close>

section \<open>The trees of the sync engine\<close>

record FileEntry =
  fe_Path :: string
  fe_Hash :: string
  fe_Size :: int
  fe_ModTime :: gotime

text \<open>A node of the tree; the pointers \<open>Left\<close> and \<open>Right\<close> are \<open>nil\<close> (\<open>None\<close>) at a leaf.\<close>
datatype MerkleNode =
  MerkleNode (mn_Hash: string) (mn_Left: "MerkleNode option") (mn_Right: "MerkleNode option")
    (mn_Path: string)

record MerkleTree =
  mt_Root :: "MerkleNode option"
  mt_entries :: "FileEntry list"

definition leaf_message :: "FileEntry \<Rightarrow> string" where
  "leaf_message f = fe_Path f @ '':'' @ fe_Hash f"

definition hashLeaf :: "hash_fun \<Rightarrow> FileEntry \<Rightarrow> string" where
  "hashLeaf sha f = hex_sum sha (leaf_message f)"

definition hashPair :: "hash_fun \<Rightarrow> string \<Rightarrow> string \<Rightarrow> string" where
  "hashPair sha a b = hex_sum sha (a @ b)"

definition emptyHash :: "hash_fun \<Rightarrow> string" where
  "emptyHash sha = hex_sum sha []"

text \<open>The loop of \<open>buildLevel\<close>: neighbours are paired, an odd last node is paired with itself.\<close>
fun next_level :: "hash_fun \<Rightarrow> MerkleNode list \<Rightarrow> MerkleNode list" where
  "next_level sha [] = []"
| "next_level sha [a] = [MerkleNode (hashPair sha (mn_Hash a) (mn_Hash a)) (Some a) (Some a) []]"
| "next_level sha (a # b # ns) =
     MerkleNode (hashPair sha (mn_Hash a) (mn_Hash b)) (Some a) (Some b) [] # next_level sha ns"

lemma length_next_level: "length (next_level sha ns) = (length ns + 1) div 2"
  by (induction sha ns rule: next_level.induct) auto

text \<open>\<open>buildLevel\<close> calls itself until one node is left. On an empty slice the Go function would
  recurse for ever: that case is the result \<open>None\<close>.\<close>
function (sequential) buildLevel :: "hash_fun \<Rightarrow> MerkleNode list \<Rightarrow> MerkleNode option" where
  "buildLevel sha [] = None"
| "buildLevel sha [n] = Some n"
| "buildLevel sha (a # b # ns) = buildLevel sha (next_level sha (a # b # ns))"
  by pat_completeness auto
termination
  by (relation "measure (\<lambda>(sha, ns). length ns)") (auto simp: length_next_level)

definition leaf_node :: "hash_fun \<Rightarrow> FileEntry \<Rightarrow> MerkleNode" where
  "leaf_node sha f = MerkleNode (hashLeaf sha f) None None (fe_Path f)"

definition BuildMerkleTree :: "hash_fun \<Rightarrow> FileEntry list \<Rightarrow> MerkleTree" where
  "BuildMerkleTree sha files =
     (if files = [] then
        \<lparr>mt_Root = Some (MerkleNode (emptyHash sha) None None []), mt_entries = []\<rparr>
      else
        let sorted = sort_key fe_Path files;
            leaves = map (leaf_node sha) sorted
        in \<lparr>mt_Root = buildLevel sha leaves, mt_entries = sorted\<rparr>)"

definition RootHash :: "hash_fun \<Rightarrow> MerkleTree \<Rightarrow> string" where
  "RootHash sha t = (case mt_Root t of None \<Rightarrow> emptyHash sha | Some n \<Rightarrow> mn_Hash n)"

text \<open>The two loops of \<open>Diff\<close> over the maps path to hash.\<close>
definition diff_paths :: "(string, string) fmap \<Rightarrow> (string, string) fmap \<Rightarrow> string list" where
  "diff_paths aMap bMap =
     filter (\<lambda>p. case fmlookup bMap p of None \<Rightarrow> True | Some bHash \<Rightarrow> fmlookup aMap p \<noteq> Some bHash)
       (range_keys aMap)
     @ filter (\<lambda>p. p \<notin> set (range_keys aMap)) (range_keys bMap)"

definition Diff :: "hash_fun \<Rightarrow> MerkleTree \<Rightarrow> MerkleTree \<Rightarrow> string list" where
  "Diff sha a b =
     (if RootHash sha a = RootHash sha b then []
      else sort (diff_paths (map_from fe_Path fe_Hash (mt_entries a))
                            (map_from fe_Path fe_Hash (mt_entries b))))"

section \<open>The trees of the domain layer\<close>

record SvcMerkleTree =
  svc_Root :: "MerkleNode option"
  svc_files :: "(string \<times> string) list"

definition svc_hashLeaf :: "hash_fun \<Rightarrow> string \<Rightarrow> string \<Rightarrow> string" where
  "svc_hashLeaf sha path fileHash = digest_bytes (sha (path @ fileHash))"

definition svc_hashPair :: "hash_fun \<Rightarrow> string \<Rightarrow> string \<Rightarrow> string" where
  "svc_hashPair sha l r = digest_bytes (sha (l @ r))"

fun svc_parents :: "hash_fun \<Rightarrow> MerkleNode list \<Rightarrow> MerkleNode list" where
  "svc_parents sha [] = []"
| "svc_parents sha [a] = [MerkleNode (svc_hashPair sha (mn_Hash a) (mn_Hash a)) (Some a) (Some a) []]"
| "svc_parents sha (a # b # ns) =
     MerkleNode (svc_hashPair sha (mn_Hash a) (mn_Hash b)) (Some a) (Some b) [] # svc_parents sha ns"

lemma length_svc_parents: "length (svc_parents sha ns) = (length ns + 1) div 2"
  by (induction sha ns rule: svc_parents.induct) auto

function (sequential) buildTree :: "hash_fun \<Rightarrow> MerkleNode list \<Rightarrow> MerkleNode option" where
  "buildTree sha [] = None"
| "buildTree sha [n] = Some n"
| "buildTree sha (a # b # ns) = buildTree sha (svc_parents sha (a # b # ns))"
  by pat_completeness auto
termination
  by (relation "measure (\<lambda>(sha, ns). length ns)") (auto simp: length_svc_parents)

fun svc_leaf_node :: "hash_fun \<Rightarrow> string \<times> string \<Rightarrow> MerkleNode" where
  "svc_leaf_node sha (path, hash) = MerkleNode (svc_hashLeaf sha path hash) None None path"

definition svc_BuildMerkleTree :: "hash_fun \<Rightarrow> (string, string) fmap \<Rightarrow> SvcMerkleTree" where
  "svc_BuildMerkleTree sha files =
     (if range_keys files = [] then \<lparr>svc_Root = None, svc_files = []\<rparr>
      else
        let leaves = sort_key fst (map (\<lambda>p. (p, the (fmlookup files p))) (range_keys files));
            nodes = map (svc_leaf_node sha) leaves
        in \<lparr>svc_Root = buildTree sha nodes, svc_files = leaves\<rparr>)"

definition svc_RootHash :: "SvcMerkleTree \<Rightarrow> string" where
  "svc_RootHash t = (case svc_Root t of None \<Rightarrow> [] | Some n \<Rightarrow> EncodeToString (mn_Hash n))"

definition svc_Diff :: "SvcMerkleTree \<Rightarrow> SvcMerkleTree \<Rightarrow> string list" where
  "svc_Diff t other =
     sort (diff_paths (map_from fst snd (svc_files t)) (map_from fst snd (svc_files other)))"

section \<open>The messages a tree hashes\<close>

text \<open>The shape of a tree with the message each leaf hashes: what a root hash commits to.\<close>
datatype htree = HLeaf string | HPair htree htree

fun hh :: "hash_fun \<Rightarrow> htree \<Rightarrow> string" where
  "hh sha (HLeaf m) = hex_sum sha m"
| "hh sha (HPair l r) = hex_sum sha (hh sha l @ hh sha r)"

fun hmsgs :: "hash_fun \<Rightarrow> htree \<Rightarrow> string list" where
  "hmsgs sha (HLeaf m) = [m]"
| "hmsgs sha (HPair l r) = (hh sha l @ hh sha r) # hmsgs sha l @ hmsgs sha r"

fun hleaves :: "htree \<Rightarrow> string set" where
  "hleaves (HLeaf m) = {m}"
| "hleaves (HPair l r) = hleaves l \<union> hleaves r"

fun next_htrees :: "htree list \<Rightarrow> htree list" where
  "next_htrees [] = []"
| "next_htrees [a] = [HPair a a]"
| "next_htrees (a # b # ns) = HPair a b # next_htrees ns"

lemma length_next_htrees: "length (next_htrees ns) = (length ns + 1) div 2"
  by (induction ns rule: next_htrees.induct) auto

function (sequential) build_htree :: "htree list \<Rightarrow> htree option" where
  "build_htree [] = None"
| "build_htree [n] = Some n"
| "build_htree (a # b # ns) = build_htree (next_htrees (a # b # ns))"
  by pat_completeness auto
termination
  by (relation "measure length") (auto simp: length_next_htrees)

definition file_htree :: "FileEntry list \<Rightarrow> htree option" where
  "file_htree files = build_htree (map (HLeaf \<circ> leaf_message) (sort_key fe_Path files))"

definition merkle_messages :: "hash_fun \<Rightarrow> FileEntry list \<Rightarrow> string list" where
  "merkle_messages sha files =
     [] # (case file_htree files of None \<Rightarrow> [] | Some t \<Rightarrow> hmsgs sha t)"

lemma length_hh [simp]: "length (hh sha t) = 64"
  by (cases t) auto

lemma hh_no_colon: "CHR '':'' \<notin> set (hh sha t)"
  by (cases t) (simp_all add: hex_sum_no_colon)

definition node_of :: "hash_fun \<Rightarrow> MerkleNode \<Rightarrow> htree \<Rightarrow> bool" where
  "node_of sha n t \<longleftrightarrow> mn_Hash n = hh sha t"

lemma next_level_htrees:
  "list_all2 (node_of sha) ns ts \<Longrightarrow> list_all2 (node_of sha) (next_level sha ns) (next_htrees ts)"
proof (induction ts arbitrary: ns rule: next_htrees.induct)
  case 1
  then show ?case by simp
next
  case (2 a)
  then obtain n where "ns = [n]" and "node_of sha n a" by (auto simp: list_all2_Cons2)
  then show ?case by (simp add: node_of_def hashPair_def)
next
  case (3 a b ts)
  then obtain m n ns' where "ns = m # n # ns'" "node_of sha m a" "node_of sha n b"
    "list_all2 (node_of sha) ns' ts" by (auto simp: list_all2_Cons2)
  then show ?case using 3(1) [of ns'] by (simp, simp add: node_of_def hashPair_def)
qed

lemma buildLevel_htree:
  "list_all2 (node_of sha) ns ts \<Longrightarrow> rel_option (node_of sha) (buildLevel sha ns) (build_htree ts)"
proof (induction ts arbitrary: ns rule: build_htree.induct)
  case 1
  then show ?case by simp
next
  case (2 t)
  then show ?case by (auto simp: list_all2_Cons2)
next
  case (3 a b ts)
  from next_level_htrees [OF 3(2)] have
    "rel_option (node_of sha) (buildLevel sha (next_level sha ns)) (build_htree (next_htrees (a # b # ts)))"
    by (rule 3(1))
  with 3(2) show ?case by (auto simp: list_all2_Cons2)
qed

lemma next_htrees_leaves: "\<Union> (hleaves ` set (next_htrees ts)) = \<Union> (hleaves ` set ts)"
  by (induction ts rule: next_htrees.induct) auto

lemma build_htree_leaves: "build_htree ts = Some t \<Longrightarrow> hleaves t = \<Union> (hleaves ` set ts)"
proof (induction ts rule: build_htree.induct)
  case (3 a b ts)
  then show ?case using next_htrees_leaves [of "a # b # ts"] by simp
qed auto

lemma build_htree_total: "ts \<noteq> [] \<Longrightarrow> \<exists>t. build_htree ts = Some t"
proof (induction ts rule: build_htree.induct)
  case (3 a b ts)
  then show ?case by simp
qed auto

lemma file_htree_leaves: "file_htree files = Some t \<Longrightarrow> hleaves t = leaf_message ` set files"
  unfolding file_htree_def by (drule build_htree_leaves) auto

lemma file_htree_total: "files \<noteq> [] \<Longrightarrow> \<exists>t. file_htree files = Some t"
proof -
  assume "files \<noteq> []"
  then have "sort_key fe_Path files \<noteq> []" by (metis length_0_conv length_sort)
  then show ?thesis unfolding file_htree_def by (intro build_htree_total) simp
qed

lemma RootHash_file_htree:
  "RootHash sha (BuildMerkleTree sha files) =
     (case file_htree files of None \<Rightarrow> emptyHash sha | Some t \<Rightarrow> hh sha t)"
proof (cases "files = []")
  case True
  then show ?thesis by (simp add: RootHash_def BuildMerkleTree_def file_htree_def)
next
  case False
  have "list_all2 (node_of sha)
     (map (leaf_node sha) (sort_key fe_Path files))
     (map (HLeaf \<circ> leaf_message) (sort_key fe_Path files))"
    by (auto simp: list_all2_map1 list_all2_map2 node_of_def leaf_node_def hashLeaf_def intro!: list_all2_refl)
  from buildLevel_htree [OF this] False show ?thesis
    unfolding file_htree_def
    by (auto simp: RootHash_def BuildMerkleTree_def Let_def node_of_def split: option.splits
        elim: option.rel_cases)
qed

text \<open>Without collisions, the root hash determines the whole tree.\<close>
lemma hh_inj:
  assumes "collision_free sha (hmsgs sha s @ hmsgs sha t)"
    and "\<And>m. m \<in> hleaves s \<union> hleaves t \<Longrightarrow> CHR '':'' \<in> set m"
    and "hh sha s = hh sha t"
  shows "s = t"
  using assms
proof (induction s arbitrary: t)
  case (HLeaf m)
  show ?case
  proof (cases t)
    case (HLeaf n)
    with HLeaf.prems show ?thesis by (auto dest: collision_freeD)
  next
    case (HPair l r)
    with HLeaf.prems(1,3) have "m = hh sha l @ hh sha r" by (auto dest: collision_freeD)
    moreover have "CHR '':'' \<in> set m" by (rule HLeaf.prems(2)) simp
    ultimately show ?thesis by (simp add: hh_no_colon)
  qed
next
  case (HPair l r)
  show ?case
  proof (cases t)
    case (HLeaf n)
    with HPair.prems(1,3) have "hh sha l @ hh sha r = n" by (auto dest: collision_freeD)
    moreover have "CHR '':'' \<in> set n" by (rule HPair.prems(2)) (simp add: HLeaf)
    ultimately show ?thesis by (auto simp: hh_no_colon)
  next
    case t: (HPair l' r')
    with HPair.prems(1,3) have eq: "hh sha l @ hh sha r = hh sha l' @ hh sha r'"
      by (auto dest: collision_freeD)
    then have "hh sha l = hh sha l'" and "hh sha r = hh sha r'"
      by (simp_all add: append_eq_append_conv)
    moreover have "collision_free sha (hmsgs sha l @ hmsgs sha l')"
      and "collision_free sha (hmsgs sha r @ hmsgs sha r')"
      using HPair.prems(1) t by (auto elim: collision_free_mono)
    ultimately have "l = l'" and "r = r'"
      using HPair.IH HPair.prems(2) t by auto
    then show ?thesis using t by simp
  qed
qed

lemma leaf_message_inj:
  assumes "leaf_message e = leaf_message f"
    and "CHR '':'' \<notin> set (fe_Hash e)" and "CHR '':'' \<notin> set (fe_Hash f)"
  shows "fe_Path e = fe_Path f \<and> fe_Hash e = fe_Hash f"
proof -
  have "rev (fe_Hash e) @ CHR '':'' # rev (fe_Path e) = rev (fe_Hash f) @ CHR '':'' # rev (fe_Path f)"
    using arg_cong [OF assms(1), of rev] by (simp add: leaf_message_def)
  then have "split_on CHR '':'' (rev (fe_Hash e) @ CHR '':'' # rev (fe_Path e))
           = split_on CHR '':'' (rev (fe_Hash f) @ CHR '':'' # rev (fe_Path f))" by simp
  then have "rev (fe_Hash e) = rev (fe_Hash f)"
    using assms(2,3) by (simp add: split_on_append)
  then show ?thesis using assms(1) by (simp add: leaf_message_def)
qed

definition colon_free :: "FileEntry list \<Rightarrow> bool" where
  "colon_free files = list_all (\<lambda>e. CHR '':'' \<notin> set (fe_Hash e)) files"

definition listing :: "FileEntry list \<Rightarrow> (string \<times> string) set" where
  "listing files = (\<lambda>e. (fe_Path e, fe_Hash e)) ` set files"

lemma listing_of_leaf_messages:
  assumes "colon_free a" and "colon_free b" and "leaf_message ` set a = leaf_message ` set b"
  shows "listing a = listing b"
proof -
  have sub: "listing x \<subseteq> listing y"
    if "colon_free x" "colon_free y" "leaf_message ` set x \<subseteq> leaf_message ` set y" for x y
  proof
    fix p assume "p \<in> listing x"
    then obtain e where e: "e \<in> set x" "p = (fe_Path e, fe_Hash e)" by (auto simp: listing_def)
    with that(3) obtain f where f: "f \<in> set y" "leaf_message e = leaf_message f" by blast
    with e that(1,2) have "fe_Path e = fe_Path f \<and> fe_Hash e = fe_Hash f"
      by (intro leaf_message_inj) (auto simp: colon_free_def list_all_iff)
    with e f show "p \<in> listing y" by (force simp: listing_def)
  qed
  from sub [of a b] sub [of b a] assms show ?thesis by auto
qed

lemma hh_not_empty_digest:
  assumes "collision_free sha ([] # hmsgs sha t)"
    and "\<And>m. m \<in> hleaves t \<Longrightarrow> CHR '':'' \<in> set m"
  shows "hh sha t \<noteq> emptyHash sha"
proof
  assume eq: "hh sha t = emptyHash sha"
  show False
  proof (cases t)
    case (HLeaf m)
    with assms eq show False by (auto simp: emptyHash_def dest: collision_freeD)
  next
    case (HPair l r)
    with assms(1) eq have "hh sha l @ hh sha r = []"
      by (auto simp: emptyHash_def dest: collision_freeD)
    then show False using length_hh [of sha l] by simp
  qed
qed

text \<open>Equal roots mean equal listings.\<close>
lemma root_eq_listing_eq:
  assumes cf: "collision_free sha (merkle_messages sha a @ merkle_messages sha b)"
    and col: "colon_free a" "colon_free b"
    and root: "RootHash sha (BuildMerkleTree sha a) = RootHash sha (BuildMerkleTree sha b)"
  shows "listing a = listing b"
proof -
  have colon: "CHR '':'' \<in> set m" if "file_htree x = Some t" "m \<in> hleaves t" for x t m
    using that by (auto simp: file_htree_leaves leaf_message_def)
  have nonempty: "hh sha t \<noteq> emptyHash sha" if "x = a \<or> x = b" "file_htree x = Some t" for x t
    using that cf by (intro hh_not_empty_digest)
      (auto simp: merkle_messages_def colon elim!: collision_free_mono)
  have empty: "x = []" if "file_htree x = None" for x
    using that file_htree_total by fastforce
  show ?thesis
  proof (cases "file_htree a"; cases "file_htree b")
    fix s t assume st: "file_htree a = Some s" "file_htree b = Some t"
    have "s = t"
      using cf root st
      by (intro hh_inj [of sha s t])
        (auto simp: merkle_messages_def RootHash_file_htree colon elim!: collision_free_mono)
    then show ?thesis
      using st col by (intro listing_of_leaf_messages) (metis file_htree_leaves)+
  qed (use root in \<open>auto simp: RootHash_file_htree dest!: empty nonempty [rotated]\<close>)
qed

section \<open>Listings as maps\<close>

abbreviation hash_map :: "FileEntry list \<Rightarrow> (string, string) fmap" where
  "hash_map files \<equiv> map_from fe_Path fe_Hash files"

lemma hash_map_listing:
  "distinct (map fe_Path files) \<Longrightarrow> fmlookup (hash_map files) p = Some h \<longleftrightarrow> (p, h) \<in> listing files"
  by (auto simp: map_from_Some_iff listing_def)

lemma hash_map_eq_iff:
  assumes "distinct (map fe_Path a)" and "distinct (map fe_Path b)"
  shows "hash_map a = hash_map b \<longleftrightarrow> listing a = listing b"
proof
  assume eq: "hash_map a = hash_map b"
  have "x \<in> listing a \<longleftrightarrow> x \<in> listing b" for x
    using eq hash_map_listing [OF assms(1)] hash_map_listing [OF assms(2)] by (cases x) metis
  then show "listing a = listing b" by blast
next
  assume eq: "listing a = listing b"
  show "hash_map a = hash_map b"
  proof (rule fmap_ext)
    fix p
    have "fmlookup (hash_map a) p = Some h \<longleftrightarrow> fmlookup (hash_map b) p = Some h" for h
      using eq hash_map_listing [OF assms(1)] hash_map_listing [OF assms(2)] by metis
    then show "fmlookup (hash_map a) p = fmlookup (hash_map b) p"
      by (metis not_None_eq)
  qed
qed

lemma listing_sort [simp]: "listing (sort_key f files) = listing files"
  by (simp add: listing_def)

lemma distinct_sort_paths: "distinct (map fe_Path files) \<Longrightarrow> distinct (map fe_Path (sort_key fe_Path files))"
  by (metis distinct_map distinct_sort set_sort)

lemma sorted_listing_unique:
  assumes "distinct (map fe_Path a)" "distinct (map fe_Path b)" "sorted (map fe_Path a)"
    "sorted (map fe_Path b)" "listing a = listing b"
  shows "map leaf_message a = map leaf_message b"
proof -
  have "map fe_Path a = map fe_Path b"
  proof (rule sorted_distinct_set_unique)
    have "fst ` listing a = fst ` listing b" using assms(5) by simp
    then show "set (map fe_Path a) = set (map fe_Path b)"
      by (simp add: listing_def image_image)
  qed (use assms in auto)
  moreover have "map fe_Hash a = map fe_Hash b"
  proof (rule nth_equalityI)
    show len: "length (map fe_Hash a) = length (map fe_Hash b)"
      using calculation by (metis length_map)
    fix i assume "i < length (map fe_Hash a)"
    then have i: "i < length a" "i < length b" using len by auto
    have "fe_Path (a ! i) = fe_Path (b ! i)"
      using calculation i by (metis nth_map)
    moreover have "(fe_Path (a ! i), fe_Hash (a ! i)) \<in> listing b"
      unfolding assms(5) [symmetric] using i(1) by (simp add: listing_def)
    ultimately have "fe_Hash (a ! i) = fe_Hash (b ! i)"
      using hash_map_listing [OF assms(2)] i(2)
      by (metis (no_types, lifting) image_eqI listing_def nth_mem option.inject)
    then show "map fe_Hash a ! i = map fe_Hash b ! i" using i by simp
  qed
  moreover have "map leaf_message x = map (\<lambda>(p, h). p @ '':'' @ h) (zip (map fe_Path x) (map fe_Hash x))" for x
    by (induction x) (auto simp: leaf_message_def)
  ultimately show ?thesis by simp
qed

lemma listing_eq_root_eq:
  assumes "distinct (map fe_Path a)" "distinct (map fe_Path b)" "listing a = listing b"
  shows "RootHash sha (BuildMerkleTree sha a) = RootHash sha (BuildMerkleTree sha b)"
proof -
  have "map leaf_message (sort_key fe_Path a) = map leaf_message (sort_key fe_Path b)"
    using assms by (intro sorted_listing_unique) (auto simp: distinct_sort_paths)
  then have "file_htree a = file_htree b"
    unfolding file_htree_def by (metis list.map_comp)
  then show ?thesis by (simp add: RootHash_file_htree)
qed

section \<open>The diverging paths\<close>

lemma set_diff_paths: "set (diff_paths A B) = {p. fmlookup A p \<noteq> fmlookup B p}"
proof -
  have "p |\<in>| fmdom M \<longleftrightarrow> fmlookup M p \<noteq> None" for p and M :: "(string, string) fmap"
    by (simp add: fmlookup_dom_iff)
  then show ?thesis by (auto simp: diff_paths_def split: option.splits)
qed

lemma distinct_diff_paths: "distinct (diff_paths A B)"
  by (auto simp: diff_paths_def)

lemma entries_BuildMerkleTree: "mt_entries (BuildMerkleTree sha files) = sort_key fe_Path files"
  by (simp add: BuildMerkleTree_def Let_def)

lemma hash_map_sort: "distinct (map fe_Path files) \<Longrightarrow> hash_map (sort_key fe_Path files) = hash_map files"
  using hash_map_eq_iff [OF distinct_sort_paths] by simp

lemma Diff_as_maps:
  assumes "distinct (map fe_Path a)" "distinct (map fe_Path b)"
  shows "Diff sha (BuildMerkleTree sha a) (BuildMerkleTree sha b) =
     (if RootHash sha (BuildMerkleTree sha a) = RootHash sha (BuildMerkleTree sha b) then []
      else sort (diff_paths (hash_map a) (hash_map b)))"
  using assms by (simp add: Diff_def entries_BuildMerkleTree hash_map_sort)

lemma Diff_eq_sort:
  assumes "distinct (map fe_Path a)" "distinct (map fe_Path b)"
    and "collision_free sha (merkle_messages sha a @ merkle_messages sha b)"
    and "colon_free a" "colon_free b"
  shows "Diff sha (BuildMerkleTree sha a) (BuildMerkleTree sha b) =
     sort (diff_paths (hash_map a) (hash_map b))"
proof (cases "RootHash sha (BuildMerkleTree sha a) = RootHash sha (BuildMerkleTree sha b)")
  case True
  with assms have "hash_map a = hash_map b" by (simp add: hash_map_eq_iff root_eq_listing_eq)
  then have "set (diff_paths (hash_map a) (hash_map b)) = {}" by (simp add: set_diff_paths)
  with True assms(1,2) show ?thesis by (simp add: Diff_as_maps)
next
  case False
  with assms(1,2) show ?thesis by (simp add: Diff_as_maps)
qed

lemma distinct_map_sort_key: "distinct (map g xs) \<Longrightarrow> distinct (map g (sort_key f xs))"
  unfolding distinct_map by simp

lemma svc_files_list:
  "svc_files (svc_BuildMerkleTree sha files) =
     sort_key fst (map (\<lambda>p. (p, the (fmlookup files p))) (range_keys files))"
  unfolding svc_BuildMerkleTree_def Let_def by simp

lemma svc_leaves_distinct:
  "distinct (map fst (map (\<lambda>p. (p, the (fmlookup files p))) (range_keys files)))"
  by (simp only: map_map comp_def fst_conv map_ident distinct_range_keys)

lemma svc_leaf_iff:
  "(p, h) \<in> set (map (\<lambda>p. (p, the (fmlookup files p))) (range_keys files)) \<longleftrightarrow> fmlookup files p = Some h"
  by (auto simp: fmlookup_dom_iff)

lemma svc_files_map: "map_from fst snd (svc_files (svc_BuildMerkleTree sha files)) = files"
proof (rule fmap_ext)
  fix p
  let ?leaves = "map (\<lambda>p. (p, the (fmlookup files p))) (range_keys files)"
  note d = distinct_map_sort_key [OF svc_leaves_distinct [of files], of fst]
  have "fmlookup (map_from fst snd (sort_key fst ?leaves)) p = Some h \<longleftrightarrow> fmlookup files p = Some h" for h
    unfolding map_from_Some_iff [OF d] set_sort using svc_leaf_iff [of p h files] by force
  then show "fmlookup (map_from fst snd (svc_files (svc_BuildMerkleTree sha files))) p = fmlookup files p"
    unfolding svc_files_list by (metis not_None_eq)
qed

section \<open>Properties\<close>

text \<open>C28: two listings have the same root hash exactly when they hold the same paths with the same
  content hashes, whatever order they were listed in. Only collisions of the digest can break this:
  the hypothesis asks that the messages the two trees hash are not collisions of each other. Content
  hashes are hexadecimal, so they hold no colon.\<close>
theorem RootHash_iff_same_files:
  assumes "distinct (map fe_Path a)" and "distinct (map fe_Path b)"
    and "collision_free sha (merkle_messages sha a @ merkle_messages sha b)"
    and "colon_free a" and "colon_free b"
  shows "RootHash sha (BuildMerkleTree sha a) = RootHash sha (BuildMerkleTree sha b) \<longleftrightarrow>
         hash_map a = hash_map b"
  using assms root_eq_listing_eq listing_eq_root_eq hash_map_eq_iff by metis

definition sample_files :: "(string \<times> string) list \<Rightarrow> FileEntry list" where
  "sample_files = map (\<lambda>(p, h). \<lparr>fe_Path = p, fe_Hash = h, fe_Size = 1, fe_ModTime = 0\<rparr>)"

theorem RootHash_iff_same_files_witness:
  "RootHash sample_sha (BuildMerkleTree sample_sha (sample_files [(''x'', ''01''), (''y'', ''02'')])) =
   RootHash sample_sha (BuildMerkleTree sample_sha (sample_files [(''y'', ''02''), (''x'', ''01'')]))"
proof -
  let ?a = "sample_files [(''x'', ''01''), (''y'', ''02'')]"
  let ?b = "sample_files [(''y'', ''02''), (''x'', ''01'')]"
  have "distinct (map fe_Path ?a)" "distinct (map fe_Path ?b)" "colon_free ?a" "colon_free ?b"
    by code_simp+
  moreover have "collision_free sample_sha (merkle_messages sample_sha ?a @ merkle_messages sample_sha ?b)"
    by code_simp
  moreover have "hash_map ?a = hash_map ?b" by code_simp
  ultimately show ?thesis using RootHash_iff_same_files [of ?a ?b sample_sha] by simp
qed

text \<open>C29: \<open>Diff\<close> returns exactly the paths on which the two listings disagree (a file missing on one
  side, or with another content hash), each once, in ascending order. The shortcut on equal root
  hashes loses nothing.\<close>
theorem Diff_exact:
  assumes "distinct (map fe_Path a)" and "distinct (map fe_Path b)"
    and "collision_free sha (merkle_messages sha a @ merkle_messages sha b)"
    and "colon_free a" and "colon_free b"
  shows "set (Diff sha (BuildMerkleTree sha a) (BuildMerkleTree sha b)) =
           {p. fmlookup (hash_map a) p \<noteq> fmlookup (hash_map b) p} \<and>
         distinct (Diff sha (BuildMerkleTree sha a) (BuildMerkleTree sha b)) \<and>
         sorted (Diff sha (BuildMerkleTree sha a) (BuildMerkleTree sha b))"
  by (simp add: Diff_eq_sort [OF assms] set_diff_paths distinct_diff_paths)

theorem Diff_exact_witness:
  "''y'' \<in> set (Diff sample_sha
      (BuildMerkleTree sample_sha (sample_files [(''x'', ''01''), (''y'', ''02'')]))
      (BuildMerkleTree sample_sha (sample_files [(''x'', ''01'')])))"
proof -
  let ?a = "sample_files [(''x'', ''01''), (''y'', ''02'')]"
  let ?b = "sample_files [(''x'', ''01'')]"
  have "distinct (map fe_Path ?a)" "distinct (map fe_Path ?b)" "colon_free ?a" "colon_free ?b"
    by code_simp+
  moreover have "collision_free sample_sha (merkle_messages sample_sha ?a @ merkle_messages sample_sha ?b)"
    by code_simp
  moreover have "fmlookup (hash_map ?a) ''y'' \<noteq> fmlookup (hash_map ?b) ''y''" by code_simp
  ultimately show ?thesis using Diff_exact [of ?a ?b sample_sha] by simp
qed

text \<open>The domain layer's tree finds the same differences as the sync engine's. It compares every
  path, the sync engine first compares the root hashes; on listings without duplicate paths and
  without collisions both return the same list.\<close>
theorem svc_Diff_equivalent:
  assumes "distinct (map fe_Path a)" and "distinct (map fe_Path b)"
    and "collision_free sha (merkle_messages sha a @ merkle_messages sha b)"
    and "colon_free a" and "colon_free b"
  shows "svc_Diff (svc_BuildMerkleTree sha (hash_map a)) (svc_BuildMerkleTree sha (hash_map b)) =
         Diff sha (BuildMerkleTree sha a) (BuildMerkleTree sha b)"
  by (simp add: Diff_eq_sort [OF assms] svc_Diff_def svc_files_map)

theorem svc_Diff_equivalent_witness:
  "svc_Diff (svc_BuildMerkleTree sample_sha (hash_map (sample_files [(''x'', ''01''), (''y'', ''02'')])))
            (svc_BuildMerkleTree sample_sha (hash_map (sample_files [(''y'', ''03'')]))) =
   Diff sample_sha (BuildMerkleTree sample_sha (sample_files [(''x'', ''01''), (''y'', ''02'')]))
                   (BuildMerkleTree sample_sha (sample_files [(''y'', ''03'')]))"
proof -
  let ?a = "sample_files [(''x'', ''01''), (''y'', ''02'')]"
  let ?b = "sample_files [(''y'', ''03'')]"
  have "distinct (map fe_Path ?a)" "distinct (map fe_Path ?b)" "colon_free ?a" "colon_free ?b"
    by code_simp+
  moreover have "collision_free sample_sha (merkle_messages sample_sha ?a @ merkle_messages sample_sha ?b)"
    by code_simp
  ultimately show ?thesis using svc_Diff_equivalent [of ?a ?b sample_sha] by blast
qed

end
