(* ===== verification/Sync_Node.thy ===== *)
theory Sync_Node
  imports Merkle
begin

text \<open>
  The interface \<open>Node\<close> of \<^verbatim>\<open>internal/sync/node.go\<close>: a record of operations over the world the nodes
  live in. An operation returns an error or a value together with the world it leaves behind.
  An \<open>io.Reader\<close> is the bytes it will deliver and the error, if any, that then interrupts it.
  Contexts are not modelled: no operation is cancelled.
\<close>

type_synonym ('w, 'a) io = "'w \<Rightarrow> (gerr + 'a) \<times> 'w"

datatype reader = Reader (rd_data: string) (rd_err: "gerr option")

record 'w Node =
  ID :: string
  Type :: string
  ListFiles :: "('w, FileEntry list) io"
  ReadFile :: "string \<Rightarrow> ('w, reader) io"
  WriteFile :: "string \<Rightarrow> reader \<Rightarrow> ('w, unit) io"
  DeleteFile :: "string \<Rightarrow> ('w, unit) io"
  MkDir :: "string \<Rightarrow> ('w, unit) io"

end
