(* ===== verification/Os_Fs.thy ===== *)
theory Os_Fs
  imports Go_Path Sync_Node
begin

text \<open>
  The part of package \<open>os\<close> the sources use, over a file tree: regular files with content and
  modification time, directories, permissions as a set of denied locations, media faults as the
  number of bytes that can be read, and the clock. A location is the list of names from the root;
  there are no symbolic links.
\<close>

record fsys =
  fs_cwd :: "string list"
  fs_files :: "(string list, string \<times> gotime) fmap"
  fs_dirs :: "string list fset"
  fs_denied :: "string list fset"
  fs_bad :: "(string list, nat) fmap"
  fs_clock :: gotime

type_synonym location = "string list"

definition at :: "fsys \<Rightarrow> string \<Rightarrow> location" where
  "at fs path = locate (fs_cwd fs) path"

text \<open>\<open>time.Now()\<close>; the clock moves on.\<close>
definition time_Now :: "fsys \<Rightarrow> gotime \<times> fsys" where
  "time_Now fs = (fs_clock fs, fs\<lparr>fs_clock := fs_clock fs + 1\<rparr>)"

text \<open>Why a location that is neither a file nor a directory cannot be reached.\<close>
definition missing :: "fsys \<Rightarrow> location \<Rightarrow> errno" where
  "missing fs l =
     (if list_ex (\<lambda>i. take i l |\<in>| fmdom (fs_files fs)) [0..<length l] then ENOTDIR else ENOENT)"

definition os_Open :: "fsys \<Rightarrow> string \<Rightarrow> gerr + reader" where
  "os_Open fs path =
     (let l = at fs path in
      if l |\<in>| fs_denied fs then Inl (PathError ''open'' path EACCES)
      else case fmlookup (fs_files fs) l of
          Some (d, t) \<Rightarrow>
            Inr (case fmlookup (fs_bad fs) l of None \<Rightarrow> Reader d None
                 | Some n \<Rightarrow> Reader (take n d) (Some (PathError ''read'' path EIO)))
        | None \<Rightarrow>
            if l |\<in>| fs_dirs fs then Inr (Reader [] (Some (PathError ''read'' path EISDIR)))
            else Inl (PathError ''open'' path (missing fs l)))"

text \<open>\<open>os.MkdirAll\<close> goes down from the root and creates what is missing; what was created before an
  error stays.\<close>
fun mkdirs :: "string \<Rightarrow> location \<Rightarrow> location \<Rightarrow> fsys \<Rightarrow> (gerr + unit) \<times> fsys" where
  "mkdirs path l rest fs =
     (if l |\<in>| fs_dirs fs then
        (case rest of [] \<Rightarrow> (Inr (), fs) | c # cs \<Rightarrow> mkdirs path (l @ [c]) cs fs)
      else if l |\<in>| fmdom (fs_files fs) then (Inl (PathError ''mkdir'' path ENOTDIR), fs)
      else if l |\<in>| fs_denied fs then (Inl (PathError ''mkdir'' path EACCES), fs)
      else
        let fs' = fs\<lparr>fs_dirs := finsert l (fs_dirs fs)\<rparr> in
        (case rest of [] \<Rightarrow> (Inr (), fs') | c # cs \<Rightarrow> mkdirs path (l @ [c]) cs fs'))"

declare mkdirs.simps [simp del]

definition os_MkdirAll :: "string \<Rightarrow> fsys \<Rightarrow> (gerr + unit) \<times> fsys" where
  "os_MkdirAll path fs = mkdirs path [] (at fs path) fs"

text \<open>\<open>os.Create\<close>: an existing file is truncated.\<close>
definition os_Create :: "string \<Rightarrow> fsys \<Rightarrow> (gerr + location) \<times> fsys" where
  "os_Create path fs =
     (let l = at fs path in
      if l |\<in>| fs_denied fs then (Inl (PathError ''open'' path EACCES), fs)
      else if l |\<in>| fs_dirs fs then (Inl (PathError ''open'' path EISDIR), fs)
      else if butlast l |\<notin>| fs_dirs fs then (Inl (PathError ''open'' path (missing fs l)), fs)
      else (Inr l, fs\<lparr>fs_files := fmupd l ([], fs_clock fs) (fs_files fs)\<rparr>))"

text \<open>\<open>io.Copy(f, r)\<close>: the bytes the reader delivers are in the file also when it then fails.\<close>
definition io_Copy :: "location \<Rightarrow> reader \<Rightarrow> fsys \<Rightarrow> (gerr + unit) \<times> fsys" where
  "io_Copy l r fs =
     ((case rd_err r of None \<Rightarrow> Inr () | Some err \<Rightarrow> Inl err),
      fs\<lparr>fs_files := fmupd l (rd_data r, fs_clock fs) (fs_files fs)\<rparr>)"

definition has_children :: "fsys \<Rightarrow> location \<Rightarrow> bool" where
  "has_children fs l =
     list_ex (\<lambda>k. length l < length k \<and> take (length l) k = l)
       (sorted_list_of_fset (fs_dirs fs |\<union>| fmdom (fs_files fs)))"

definition os_Remove :: "string \<Rightarrow> fsys \<Rightarrow> (gerr + unit) \<times> fsys" where
  "os_Remove path fs =
     (let l = at fs path in
      if l |\<in>| fs_denied fs then (Inl (PathError ''remove'' path EACCES), fs)
      else if l |\<in>| fmdom (fs_files fs) then (Inr (), fs\<lparr>fs_files := fmdrop l (fs_files fs)\<rparr>)
      else if l |\<in>| fs_dirs fs then
        (if l = [] \<or> has_children fs l then (Inl (PathError ''remove'' path ENOTEMPTY), fs)
         else (Inr (), fs\<lparr>fs_dirs := fs_dirs fs |-| {|l|}\<rparr>))
      else (Inl (PathError ''remove'' path (missing fs l)), fs))"

text \<open>The locations \<open>filepath.WalkDir\<close> visits below a root, in its order: a directory before what it
  holds, the entries of a directory by name. That is the lexicographic order of locations.\<close>
definition walk_order :: "fsys \<Rightarrow> location \<Rightarrow> location list" where
  "walk_order fs root =
     filter (\<lambda>l. take (length root) l = root) (sorted_list_of_fset (fs_dirs fs |\<union>| fmdom (fs_files fs)))"

text \<open>The path \<open>filepath.WalkDir\<close> hands to its callback at a location.\<close>
definition walk_path :: "string \<Rightarrow> location \<Rightarrow> location \<Rightarrow> string" where
  "walk_path rootPath root l =
     (if l = root then rootPath else Join rootPath (join_with slash (drop (length root) l)))"

text \<open>\<open>os.ReadDir\<close>, reduced to the names of the subdirectories, in order.\<close>
definition os_ReadDir_dirs :: "fsys \<Rightarrow> string \<Rightarrow> gerr + string list" where
  "os_ReadDir_dirs fs path =
     (let l = at fs path in
      if l |\<in>| fs_denied fs then Inl (PathError ''open'' path EACCES)
      else if l |\<in>| fs_dirs fs then
        Inr (map last (filter (\<lambda>k. length k = Suc (length l) \<and> take (length l) k = l)
               (sorted_list_of_fset (fs_dirs fs))))
      else if l |\<in>| fmdom (fs_files fs) then Inl (PathError ''readdirent'' path ENOTDIR)
      else Inl (PathError ''open'' path (missing fs l)))"

end
