(* ===== verification/Vector_Clock.thy ===== *)
theory Vector_Clock
  imports Go_Prelude
begin

text \<open>
  Vector clocks: \<^verbatim>\<open>internal/sync/vectorclock.go\<close>, used by the sync engine, and the second
  implementation \<^verbatim>\<open>internal/domain/valueobjects/vectorclock.go\<close> of the domain layer. A clock is a
  finite map from node identifiers to \<open>uint64\<close> counters; an absent key reads as 0 and \<open>++\<close> wraps.
  The locale \<open>causal_clock\<close> is what a client of either implementation relies on.
\<close>

section \<open>The clocks of the sync engine\<close>

type_synonym VectorClock = "(string, uint64) fmap"

definition NewVectorClock :: VectorClock where
  "NewVectorClock = fmempty"

text \<open>The expression \<open>vc[k]\<close>.\<close>
definition vc_at :: "VectorClock \<Rightarrow> string \<Rightarrow> uint64" where
  "vc_at vc k = (case fmlookup vc k of None \<Rightarrow> 0 | Some v \<Rightarrow> v)"

definition Clone :: "VectorClock \<Rightarrow> VectorClock" where
  "Clone vc = fold (\<lambda>k c. fmupd k (vc_at vc k) c) (range_keys vc) fmempty"

definition Increment :: "VectorClock \<Rightarrow> string \<Rightarrow> VectorClock" where
  "Increment vc nodeID = (let nxt = Clone vc in fmupd nodeID (vc_at nxt nodeID + 1) nxt)"

definition merge_step :: "VectorClock \<Rightarrow> string \<Rightarrow> VectorClock \<Rightarrow> VectorClock" where
  "merge_step other k result =
     (if vc_at result k < vc_at other k then fmupd k (vc_at other k) result else result)"

definition Merge :: "VectorClock \<Rightarrow> VectorClock \<Rightarrow> VectorClock" where
  "Merge vc other = fold (merge_step other) (range_keys other) (Clone vc)"

datatype Relation = Before | After | Equal | Concurrent

text \<open>The loop over the union of the keys, with the flags \<open>vcGT\<close> and \<open>otherGT\<close>.\<close>
fun compare_loop :: "VectorClock \<Rightarrow> VectorClock \<Rightarrow> string list \<Rightarrow> bool \<times> bool \<Rightarrow> bool \<times> bool" where
  "compare_loop vc other [] flags = flags"
| "compare_loop vc other (k # ks) (vcGT, otherGT) =
     (let a = vc_at vc k; b = vc_at other k in
      if a > b then compare_loop vc other ks (True, otherGT)
      else if b > a then compare_loop vc other ks (vcGT, True)
      else compare_loop vc other ks (vcGT, otherGT))"

definition Compare :: "VectorClock \<Rightarrow> VectorClock \<Rightarrow> Relation" where
  "Compare vc other =
     (let ks = sorted_list_of_fset (fmdom vc |\<union>| fmdom other);
          (vcGT, otherGT) = compare_loop vc other ks (False, False) in
      if \<not> vcGT \<and> \<not> otherGT then Equal
      else if vcGT \<and> \<not> otherGT then After
      else if \<not> vcGT \<and> otherGT then Before
      else Concurrent)"

section \<open>The clocks of the domain layer\<close>

datatype VectorClockOrder =
  VectorClockBefore | VectorClockConcurrent | VectorClockAfter | VectorClockEqual

definition vo_copy :: "VectorClock \<Rightarrow> VectorClock" where
  "vo_copy vc = fold (\<lambda>k c. fmupd k (vc_at vc k) c) (range_keys vc) fmempty"

definition vo_Increment :: "VectorClock \<Rightarrow> string \<Rightarrow> VectorClock" where
  "vo_Increment vc nodeID = (let result = vo_copy vc in fmupd nodeID (vc_at result nodeID + 1) result)"

definition vo_merge_step :: "VectorClock \<Rightarrow> string \<Rightarrow> VectorClock \<Rightarrow> VectorClock" where
  "vo_merge_step other k result =
     (let ts = vc_at other k in if ts > vc_at result k then fmupd k ts result else result)"

definition vo_Merge :: "VectorClock \<Rightarrow> VectorClock \<Rightarrow> VectorClock" where
  "vo_Merge vc other = fold (vo_merge_step other) (range_keys other) (vo_copy vc)"

text \<open>The domain layer's loop returns as soon as both clocks dominate somewhere; \<open>None\<close> is that
  early return.\<close>
fun vo_compare_loop ::
  "VectorClock \<Rightarrow> VectorClock \<Rightarrow> string list \<Rightarrow> bool \<times> bool \<Rightarrow> (bool \<times> bool) option" where
  "vo_compare_loop vc other [] flags = Some flags"
| "vo_compare_loop vc other (k # ks) (vcDominates, otherDominates) =
     (let a = vc_at vc k; b = vc_at other k;
          vd = (if a > b then True else vcDominates);
          od = (if a > b then otherDominates else if b > a then True else otherDominates) in
      if vd \<and> od then None else vo_compare_loop vc other ks (vd, od))"

definition vo_Compare :: "VectorClock \<Rightarrow> VectorClock \<Rightarrow> VectorClockOrder" where
  "vo_Compare vc other =
     (case vo_compare_loop vc other (sorted_list_of_fset (fmdom vc |\<union>| fmdom other)) (False, False) of
        None \<Rightarrow> VectorClockConcurrent
      | Some (vcDominates, otherDominates) \<Rightarrow>
          if \<not> vcDominates \<and> \<not> otherDominates then VectorClockEqual
          else if vcDominates then VectorClockAfter
          else VectorClockBefore)"

definition IsConcurrentWith :: "VectorClock \<Rightarrow> VectorClock \<Rightarrow> bool" where
  "IsConcurrentWith vc other \<longleftrightarrow> vo_Compare vc other = VectorClockConcurrent"

section \<open>Reading the results\<close>

lemma vc_at_empty [simp]: "vc_at fmempty k = 0" "vc_at NewVectorClock k = 0"
  by (simp_all add: vc_at_def NewVectorClock_def)

lemma vc_at_fmupd [simp]: "vc_at (fmupd k v vc) j = (if j = k then v else vc_at vc j)"
  by (simp add: vc_at_def)

lemma vc_at_notin: "k |\<notin>| fmdom vc \<Longrightarrow> vc_at vc k = 0"
  by (simp add: vc_at_def fmdom_notD)

lemma Clone_id [simp]: "Clone vc = vc"
proof (rule fmap_ext)
  fix k
  have "Clone vc = map_from id (vc_at vc) (range_keys vc)"
    by (simp add: Clone_def map_from_def)
  then show "fmlookup (Clone vc) k = fmlookup vc k"
  proof (cases "k |\<in>| fmdom vc")
    case True
    then have "fmlookup (map_from id (vc_at vc) (range_keys vc)) (id k) = Some (vc_at vc k)"
      by (intro map_from_Some) simp_all
    with True \<open>Clone vc = _\<close> show ?thesis by (auto simp: vc_at_def split: option.splits)
  next
    case False
    then have "fmlookup (map_from id (vc_at vc) (range_keys vc)) k = None"
      by simp
    with False \<open>Clone vc = _\<close> show ?thesis by (simp add: fmdom_notD)
  qed
qed

lemma vc_at_Increment [simp]:
  "vc_at (Increment vc n) k = (if k = n then vc_at vc n + 1 else vc_at vc k)"
  by (simp add: Increment_def Let_def)

lemma vc_at_merge_step:
  "vc_at (merge_step other k r) j = (if j = k then max (vc_at r j) (vc_at other j) else vc_at r j)"
  by (auto simp: merge_step_def max_def)

text \<open>The loop of \<open>Merge\<close>, in whatever order it visits the keys of the other clock.\<close>
lemma vc_at_merge_fold:
  "vc_at (fold (merge_step other) ks r) j =
     (if j \<in> set ks then max (vc_at r j) (vc_at other j) else vc_at r j)"
  by (induction ks arbitrary: r) (auto simp: vc_at_merge_step max_def)

lemma vc_at_Merge [simp]: "vc_at (Merge a b) k = max (vc_at a k) (vc_at b k)"
  by (auto simp: Merge_def vc_at_merge_fold vc_at_notin max_def)

lemma vo_merge_step_eq: "vo_merge_step other k r = merge_step other k r"
  by (simp add: vo_merge_step_def merge_step_def Let_def)

lemma vo_copy_id [simp]: "vo_copy vc = vc"
  unfolding vo_copy_def by (rule Clone_id [unfolded Clone_def])

lemma vo_Increment_eq: "vo_Increment = Increment"
  by (simp add: fun_eq_iff vo_Increment_def Increment_def)

lemma vo_Merge_eq: "vo_Merge = Merge"
proof -
  have "vo_merge_step b = merge_step b" for b by (intro ext) (rule vo_merge_step_eq)
  then show ?thesis by (intro ext) (simp add: vo_Merge_def Merge_def)
qed

section \<open>The causal order\<close>

text \<open>\<open>a\<close> has seen no more changes than \<open>b\<close>: the specification both comparisons implement.\<close>
definition vc_le :: "VectorClock \<Rightarrow> VectorClock \<Rightarrow> bool" where
  "vc_le a b \<longleftrightarrow> (\<forall>k. vc_at a k \<le> vc_at b k)"

lemma vc_le_refl [simp, intro]: "vc_le a a"
  by (simp add: vc_le_def)

lemma vc_le_trans: "vc_le a b \<Longrightarrow> vc_le b c \<Longrightarrow> vc_le a c"
  unfolding vc_le_def using order_trans by blast

lemma vc_le_Merge1 [simp, intro]: "vc_le a (Merge a b)"
  by (simp add: vc_le_def)

lemma vc_le_Merge2 [simp, intro]: "vc_le b (Merge a b)"
  by (simp add: vc_le_def)

lemma Merge_least: "vc_le a c \<Longrightarrow> vc_le b c \<Longrightarrow> vc_le (Merge a b) c"
  by (simp add: vc_le_def)

lemma vc_le_Increment: "vc_at a n \<noteq> - 1 \<Longrightarrow> vc_le a (Increment a n)"
  unfolding vc_le_def by (simp add: uint64_less_Suc less_imp_le)

lemma not_Increment_le: "vc_at a n \<noteq> - 1 \<Longrightarrow> vc_le b a \<Longrightarrow> \<not> vc_le (Increment a n) b"
proof
  assume ne: "vc_at a n \<noteq> - 1" and ba: "vc_le b a" and "vc_le (Increment a n) b"
  then have "vc_at (Increment a n) n \<le> vc_at b n" unfolding vc_le_def by blast
  also have "\<dots> \<le> vc_at a n" using ba by (simp add: vc_le_def)
  finally show False using uint64_less_Suc [OF ne] by simp
qed

text \<open>The flags of both loops say whether some visited key is greater on either side.\<close>
lemma compare_loop_flags:
  "compare_loop vc other ks (g, l) =
     (g \<or> (\<exists>k \<in> set ks. vc_at other k < vc_at vc k), l \<or> (\<exists>k \<in> set ks. vc_at vc k < vc_at other k))"
  by (induction ks arbitrary: g l) (auto simp: Let_def)

definition all_keys :: "VectorClock \<Rightarrow> VectorClock \<Rightarrow> string list" where
  "all_keys a b = sorted_list_of_fset (fmdom a |\<union>| fmdom b)"

lemma set_all_keys: "set (all_keys a b) = fset (fmdom a) \<union> fset (fmdom b)"
  by (simp add: all_keys_def)

lemma compare_keys:
  "(\<exists>k \<in> set (all_keys a b). vc_at a k < vc_at b k) \<longleftrightarrow> \<not> vc_le b a"
  "(\<exists>k \<in> set (all_keys a b). vc_at b k < vc_at a k) \<longleftrightarrow> \<not> vc_le a b"
proof -
  have "vc_at a k \<noteq> vc_at b k \<Longrightarrow> k \<in> set (all_keys a b)" for k
    by (auto simp: set_all_keys vc_at_def split: option.splits intro: fmdomI)
  then show "(\<exists>k \<in> set (all_keys a b). vc_at a k < vc_at b k) \<longleftrightarrow> \<not> vc_le b a"
    and "(\<exists>k \<in> set (all_keys a b). vc_at b k < vc_at a k) \<longleftrightarrow> \<not> vc_le a b"
    unfolding vc_le_def by (metis less_le not_le)+
qed

lemma Compare_flags:
  "Compare a b = (if vc_le a b then (if vc_le b a then Equal else Before)
                  else (if vc_le b a then After else Concurrent))"
  by (simp only: Compare_def all_keys_def [symmetric] compare_loop_flags compare_keys Let_def
      prod.case simp_thms if_True if_False) auto

lemma vo_loop_None:
  "vo_compare_loop vc other ks (g, l) = None \<Longrightarrow> compare_loop vc other ks (g, l) = (True, True)"
proof (induction ks arbitrary: g l)
  case Nil
  then show ?case by simp
next
  case (Cons k ks)
  then show ?case
    by (cases "vc_at vc k" "vc_at other k" rule: linorder_cases)
      (auto simp: Let_def compare_loop_flags split: if_splits)
qed

lemma vo_loop_Some:
  "vo_compare_loop vc other ks (g, l) = Some r \<Longrightarrow> \<not> (g \<and> l) \<Longrightarrow>
     r = compare_loop vc other ks (g, l) \<and> \<not> (fst r \<and> snd r)"
  by (induction ks arbitrary: g l) (auto simp: Let_def split: if_splits)

lemma vo_Compare_flags:
  "vo_Compare a b = (if vc_le a b then (if vc_le b a then VectorClockEqual else VectorClockBefore)
                     else (if vc_le b a then VectorClockAfter else VectorClockConcurrent))"
proof (cases "vo_compare_loop a b (all_keys a b) (False, False)")
  case None
  from vo_loop_None [OF None] have "\<not> vc_le a b \<and> \<not> vc_le b a"
    by (simp add: compare_loop_flags compare_keys)
  then show ?thesis
    by (simp add: vo_Compare_def all_keys_def [symmetric] None)
next
  case (Some r)
  from vo_loop_Some [OF Some] have "r = (\<not> vc_le a b, \<not> vc_le b a)" and "vc_le a b \<or> vc_le b a"
    by (auto simp: compare_loop_flags compare_keys)
  then show ?thesis by (auto simp: vo_Compare_def all_keys_def [symmetric] Some)
qed

section \<open>The contract of a clock\<close>

locale causal_clock =
  fixes le :: "'c \<Rightarrow> 'c \<Rightarrow> bool"
    and inc :: "'c \<Rightarrow> string \<Rightarrow> 'c"
    and mrg :: "'c \<Rightarrow> 'c \<Rightarrow> 'c"
    and headroom :: "'c \<Rightarrow> string \<Rightarrow> bool"
    and cmp :: "'c \<Rightarrow> 'c \<Rightarrow> Relation"
  assumes le_refl: "le a a"
    and le_trans: "le a b \<Longrightarrow> le b c \<Longrightarrow> le a c"
    and mrg_ub1: "le a (mrg a b)"
    and mrg_ub2: "le b (mrg a b)"
    and mrg_lub: "le a c \<Longrightarrow> le b c \<Longrightarrow> le (mrg a b) c"
    and le_inc: "headroom a n \<Longrightarrow> le a (inc a n)"
    and inc_new: "headroom a n \<Longrightarrow> le b a \<Longrightarrow> \<not> le (inc a n) b"
    and inc_other: "headroom a n \<Longrightarrow> headroom b m \<Longrightarrow> le a b \<Longrightarrow> le b a \<Longrightarrow> n \<noteq> m \<Longrightarrow>
                    \<not> le (inc a n) (inc b m)"
    and cmp_def': "cmp a b = (if le a b then (if le b a then Equal else Before)
                              else (if le b a then After else Concurrent))"
begin

lemma cmp_inc_left:
  assumes "le a b" "le b a" "headroom a n"
  shows "cmp (inc a n) b = After"
proof -
  have "le b (inc a n)" using assms le_inc le_trans by blast
  moreover have "\<not> le (inc a n) b" using assms inc_new by blast
  ultimately show ?thesis by (simp add: cmp_def')
qed

lemma cmp_inc_right:
  assumes "le a b" "le b a" "headroom b n"
  shows "cmp a (inc b n) = Before"
proof -
  have "le a (inc b n)" using assms le_inc le_trans by blast
  moreover have "\<not> le (inc b n) a" using assms inc_new by blast
  ultimately show ?thesis by (simp add: cmp_def')
qed

lemma cmp_inc_both:
  assumes "le a b" "le b a" "headroom a n" "headroom b m" "n \<noteq> m"
  shows "cmp (inc a n) (inc b m) = Concurrent"
  using assms inc_other [of a n b m] inc_other [of b m a n] by (auto simp: cmp_def')

lemma cmp_mrg: "cmp a (mrg a b) \<in> {Before, Equal}"
  using mrg_ub1 by (simp add: cmp_def')

lemma cmp_refl: "cmp a a = Equal"
  by (simp add: cmp_def' le_refl)

end

lemma Increment_other:
  assumes "vc_at a n \<noteq> - 1" and "vc_le b a" and "n \<noteq> m"
  shows "\<not> vc_le (Increment a n) (Increment b m)"
proof
  assume "vc_le (Increment a n) (Increment b m)"
  then have "vc_at (Increment a n) n \<le> vc_at (Increment b m) n" unfolding vc_le_def by blast
  also have "\<dots> = vc_at b n" using assms(3) by simp
  also have "\<dots> \<le> vc_at a n" using assms(2) by (simp add: vc_le_def)
  finally show False using uint64_less_Suc [OF assms(1)] by simp
qed

interpretation sync_clock: causal_clock vc_le Increment Merge "\<lambda>c n. vc_at c n \<noteq> - 1" Compare
  by unfold_locales
    (auto simp: Merge_least vc_le_Increment not_Increment_le Increment_other Compare_flags
          intro: vc_le_trans)

section \<open>Properties\<close>

text \<open>C26: \<open>Compare\<close> decides the causal order exactly, whatever keys either clock holds: \<open>Before\<close>
  and \<open>After\<close> are the strict order, \<open>Equal\<close> means that every counter agrees (an absent key counting
  as 0), and \<open>Concurrent\<close> that each clock is ahead somewhere.\<close>
theorem Compare_causal_order:
  "(Compare a b = Before \<longleftrightarrow> vc_le a b \<and> \<not> vc_le b a) \<and>
   (Compare a b = After \<longleftrightarrow> vc_le b a \<and> \<not> vc_le a b) \<and>
   (Compare a b = Equal \<longleftrightarrow> (\<forall>k. vc_at a k = vc_at b k)) \<and>
   (Compare a b = Concurrent \<longleftrightarrow> (\<exists>k. vc_at b k < vc_at a k) \<and> (\<exists>k. vc_at a k < vc_at b k))"
proof -
  have eq: "vc_le a b \<and> vc_le b a \<longleftrightarrow> (\<forall>k. vc_at a k = vc_at b k)"
    unfolding vc_le_def by (metis order.antisym order.refl)
  have ne: "\<not> vc_le x y \<longleftrightarrow> (\<exists>k. vc_at y k < vc_at x k)" for x y
    unfolding vc_le_def by (simp add: not_le)
  show ?thesis
    unfolding eq [symmetric] ne [symmetric] by (auto simp: Compare_flags)
qed

text \<open>\<open>Merge\<close> is the least upper bound of two clocks in the causal order: it has seen what either
  has seen and nothing else, so merging is commutative, associative and idempotent up to \<open>Compare\<close>.\<close>
theorem Merge_least_upper_bound:
  "(vc_le (Merge a b) c \<longleftrightarrow> vc_le a c \<and> vc_le b c) \<and>
   Compare (Merge a b) (Merge b a) = Equal \<and>
   Compare (Merge (Merge a b) c) (Merge a (Merge b c)) = Equal \<and>
   Compare (Merge a a) a = Equal"
proof -
  have "Compare x y = Equal" if "\<And>k. vc_at x k = vc_at y k" for x y
    using that by (simp add: Compare_flags vc_le_def)
  then show ?thesis
    by (auto simp: ac_simps intro: Merge_least vc_le_trans [OF vc_le_Merge1] vc_le_trans [OF vc_le_Merge2])
qed

text \<open>Change detection. From two clocks that agree, an edit on one node is seen as newer, and
  edits on two different nodes are seen as concurrent, in either direction, as long as no counter is
  at its maximum \<open>2^64 - 1\<close> (where \<open>++\<close> wraps to 0).\<close>
theorem edits_detected:
  assumes "Compare a b = Equal" and "vc_at a n \<noteq> - 1" and "vc_at b m \<noteq> - 1" and "n \<noteq> m"
  shows "Compare (Increment a n) b = After \<and> Compare a (Increment b m) = Before \<and>
         Compare (Increment a n) (Increment b m) = Concurrent"
proof -
  have "vc_le a b" "vc_le b a" using assms(1) by (auto simp: Compare_flags split: if_splits)
  with assms(2-4) show ?thesis
    by (simp add: sync_clock.cmp_inc_left sync_clock.cmp_inc_right sync_clock.cmp_inc_both)
qed

theorem edits_detected_witness:
  "Compare (Increment (fmap_of_list [(''a'', 3), (''b'', 1)]) ''a'')
           (Increment (fmap_of_list [(''b'', 1), (''a'', 3)]) ''b'') = Concurrent"
proof -
  let ?a = "fmap_of_list [(''a'', 3), (''b'', 1)] :: VectorClock"
  let ?b = "fmap_of_list [(''b'', 1), (''a'', 3)] :: VectorClock"
  have "Compare ?a ?b = Equal" "vc_at ?a ''a'' \<noteq> - 1" "vc_at ?b ''b'' \<noteq> - 1" by code_simp+
  then show ?thesis using edits_detected [of ?a ?b "''a''" "''b''"] by simp
qed

text \<open>The correspondence between the results of the two comparisons.\<close>
fun order_of :: "Relation \<Rightarrow> VectorClockOrder" where
  "order_of Before = VectorClockBefore"
| "order_of After = VectorClockAfter"
| "order_of Equal = VectorClockEqual"
| "order_of Concurrent = VectorClockConcurrent"

text \<open>C27: the domain layer's clocks and the sync engine's are the same clocks: increments and merges
  build the same map, and the comparison that stops early returns the same relation as the one that
  visits every key.\<close>
theorem domain_clock_equivalent:
  "vo_Increment a n = Increment a n \<and> vo_Merge a b = Merge a b \<and>
   vo_Compare a b = order_of (Compare a b) \<and>
   (IsConcurrentWith a b \<longleftrightarrow> Compare a b = Concurrent)"
  by (simp add: vo_Increment_eq vo_Merge_eq vo_Compare_flags Compare_flags IsConcurrentWith_def)

end
