(* ===== verification/State_Store.thy ===== *)
theory State_Store
  imports Vector_Clock
begin

text \<open>
  The memory of the sync engine (\<^verbatim>\<open>internal/sync/engine.go\<close>): \<open>FileState\<close>, the interface
  \<open>StateStore\<close> as a record of operations over an arbitrary store type, its contract as the locale
  \<open>state_store\<close>, and \<open>InMemoryStateStore\<close>, which is interpreted in it. The \<open>RWMutex\<close> makes every
  operation atomic; an operation is a function of the store.
\<close>

record FileState =
  fs_Path :: string
  fs_Hash :: string
  fs_Size :: int
  fs_Clock :: VectorClock
  fs_UpdatedAt :: gotime
  fs_NodeID :: string
  fs_Deleted :: bool

text \<open>The interface \<open>StateStore\<close>. \<open>Get\<close> returns \<open>nil, false\<close> (\<open>None\<close>) for an unknown file.\<close>
record 's StateStore =
  st_Get :: "'s \<Rightarrow> string \<Rightarrow> string \<Rightarrow> FileState option"
  st_Set :: "'s \<Rightarrow> string \<Rightarrow> string \<Rightarrow> FileState \<Rightarrow> 's"
  st_All :: "'s \<Rightarrow> string \<Rightarrow> FileState list"
  st_DeleteNode :: "'s \<Rightarrow> string \<Rightarrow> 's"

section \<open>The in-memory store\<close>

type_synonym InMemoryStateStore = "(string, (string, FileState) fmap) fmap"

definition NewInMemoryStateStore :: InMemoryStateStore where
  "NewInMemoryStateStore = fmempty"

definition mem_Get :: "InMemoryStateStore \<Rightarrow> string \<Rightarrow> string \<Rightarrow> FileState option" where
  "mem_Get s nodeID path =
     (case fmlookup s nodeID of None \<Rightarrow> None | Some m \<Rightarrow> fmlookup m path)"

definition mem_Set :: "InMemoryStateStore \<Rightarrow> string \<Rightarrow> string \<Rightarrow> FileState \<Rightarrow> InMemoryStateStore" where
  "mem_Set s nodeID path state =
     (let m = (case fmlookup s nodeID of None \<Rightarrow> fmempty | Some m \<Rightarrow> m)
      in fmupd nodeID (fmupd path state m) s)"

definition mem_All :: "InMemoryStateStore \<Rightarrow> string \<Rightarrow> FileState list" where
  "mem_All s nodeID =
     (case fmlookup s nodeID of None \<Rightarrow> []
      | Some m \<Rightarrow> map (\<lambda>p. the (fmlookup m p)) (range_keys m))"

definition mem_DeleteNode :: "InMemoryStateStore \<Rightarrow> string \<Rightarrow> InMemoryStateStore" where
  "mem_DeleteNode s nodeID = fmdrop nodeID s"

definition mem_store :: "InMemoryStateStore StateStore" where
  "mem_store = \<lparr>st_Get = mem_Get, st_Set = mem_Set, st_All = mem_All, st_DeleteNode = mem_DeleteNode\<rparr>"

section \<open>The index the engine builds over a node's states\<close>

definition indexStates :: "FileState list \<Rightarrow> (string, FileState) fmap" where
  "indexStates states = map_from fs_Path id states"

text \<open>Every state is stored under its own path, as the engine stores them.\<close>
definition keyed :: "'s StateStore \<Rightarrow> 's \<Rightarrow> bool" where
  "keyed st s \<longleftrightarrow> (\<forall>n p x. st_Get st s n p = Some x \<longrightarrow> fs_Path x = p)"

section \<open>The contract of a store\<close>

locale state_store =
  fixes st :: "'s StateStore"
  assumes get_set: "st_Get st (st_Set st s n p x) m q = (if m = n \<and> q = p then Some x else st_Get st s m q)"
    and set_all: "set (st_All st s n) = {x. \<exists>p. st_Get st s n p = Some x}"
    and get_delete: "st_Get st (st_DeleteNode st s n) m q = (if m = n then None else st_Get st s m q)"
begin

lemma keyed_set: "keyed st s \<Longrightarrow> fs_Path x = p \<Longrightarrow> keyed st (st_Set st s n p x)"
  by (auto simp: keyed_def get_set)

lemma keyed_delete: "keyed st s \<Longrightarrow> keyed st (st_DeleteNode st s n)"
  by (auto simp: keyed_def get_delete)

lemma index_lookup:
  assumes "keyed st s"
  shows "fmlookup (indexStates (st_All st s n)) p = st_Get st s n p"
proof (cases "st_Get st s n p")
  case None
  with assms have "p \<notin> fs_Path ` set (st_All st s n)" by (auto simp: set_all keyed_def)
  with None show ?thesis by (simp add: indexStates_def)
next
  case (Some x)
  with assms have "p \<in> fs_Path ` set (st_All st s n)" by (auto simp: set_all keyed_def intro!: image_eqI)
  then obtain y where y: "fmlookup (indexStates (st_All st s n)) p = Some y"
    unfolding indexStates_def by (metis map_from_None not_None_eq)
  then have "fs_Path y = p" and "y \<in> set (st_All st s n)"
    unfolding indexStates_def by (auto dest: map_from_value)
  with assms Some y show ?thesis by (auto simp: set_all keyed_def)
qed

end

lemma mem_Get_Set:
  "mem_Get (mem_Set s n p x) m q = (if m = n \<and> q = p then Some x else mem_Get s m q)"
  by (auto simp: mem_Get_def mem_Set_def Let_def split: option.splits)

lemma mem_Get_Delete: "mem_Get (mem_DeleteNode s n) m q = (if m = n then None else mem_Get s m q)"
  by (simp add: mem_Get_def mem_DeleteNode_def)

lemma set_mem_All: "set (mem_All s n) = {x. \<exists>p. mem_Get s n p = Some x}"
proof (cases "fmlookup s n")
  case None
  then show ?thesis by (simp add: mem_All_def mem_Get_def)
next
  case (Some m)
  have "set (mem_All s n) = (\<lambda>p. the (fmlookup m p)) ` fset (fmdom m)"
    by (simp add: mem_All_def Some)
  also have "\<dots> = {x. \<exists>p. fmlookup m p = Some x}"
    by (force simp: fmlookup_dom_iff)
  finally show ?thesis by (simp add: mem_Get_def Some)
qed

interpretation mem: state_store mem_store
  by unfold_locales (simp_all add: mem_store_def mem_Get_Set mem_Get_Delete set_mem_All)

end
