(* ===== verification/Sync_Engine.thy ===== *)
theory Sync_Engine
  imports State_Store Sync_Node
begin

text \<open>
  The sync engine, \<^verbatim>\<open>internal/sync/engine.go\<close>. The state of a run is the store of file states and
  the world the nodes live in; \<open>time.Now\<close> is an operation of the world. \<open>runMu\<close> serialises the runs,
  so a run is one function of the state. Log output is not modelled.
\<close>

section \<open>Data\<close>

datatype ConflictStrategy = KeepNewest | KeepSource | KeepBoth

record ('s, 'w) SyncEngine =
  e_store :: "'s StateStore"
  e_strategy :: ConflictStrategy
  e_now :: "'w \<Rightarrow> gotime \<times> 'w"

record ConflictInfo =
  ci_Path :: string
  ci_SourceNode :: string
  ci_TargetNode :: string
  ci_Resolution :: string

record SyncResult =
  sr_Transferred :: int
  sr_Deleted :: int
  sr_Conflicts :: "ConflictInfo list"
  sr_Errors :: "gerr list"

definition NewSyncEngine :: "'s StateStore \<Rightarrow> ConflictStrategy \<Rightarrow> ('w \<Rightarrow> gotime \<times> 'w) \<Rightarrow> ('s, 'w) SyncEngine" where
  "NewSyncEngine store strategy now = \<lparr>e_store = store, e_strategy = strategy, e_now = now\<rparr>"

definition empty_result :: SyncResult where
  "empty_result = \<lparr>sr_Transferred = 0, sr_Deleted = 0, sr_Conflicts = [], sr_Errors = []\<rparr>"

definition add_error :: "gerr \<Rightarrow> SyncResult \<Rightarrow> SyncResult" where
  "add_error err r = r\<lparr>sr_Errors := sr_Errors r @ [err]\<rparr>"

definition add_transferred :: "SyncResult \<Rightarrow> SyncResult" where
  "add_transferred r = r\<lparr>sr_Transferred := sr_Transferred r + 1\<rparr>"

definition add_deleted :: "SyncResult \<Rightarrow> SyncResult" where
  "add_deleted r = r\<lparr>sr_Deleted := sr_Deleted r + 1\<rparr>"

definition add_conflict :: "ConflictInfo \<Rightarrow> SyncResult \<Rightarrow> SyncResult" where
  "add_conflict c r = r\<lparr>sr_Conflicts := sr_Conflicts r @ [c]\<rparr>"

section \<open>The guards\<close>

definition wipeThreshold :: nat where
  "wipeThreshold = 10"

definition live_states :: "(string, FileState) fmap \<Rightarrow> nat" where
  "live_states states =
     length (filter (\<lambda>p. \<not> fs_Deleted (the (fmlookup states p))) (range_keys states))"

definition wiped_error :: "string \<Rightarrow> nat \<Rightarrow> gerr" where
  "wiped_error nodeID live =
     Errorf (''node '' @ nodeID @ '' returned no files, but '' @ nat_text live
       @ '' files were synced to it before '' @ [CHR 0xE2, CHR 0x80, CHR 0x94]
       @ '' refusing to propagate mass deletion (check that its folder is mounted; ''
       @ ''if the files were removed on purpose, re-register the node)'')"

definition checkNotWiped :: "string \<Rightarrow> FileEntry list \<Rightarrow> (string, FileState) fmap \<Rightarrow> gerr option" where
  "checkNotWiped nodeID files states =
     (if files \<noteq> [] then None
      else if live_states states \<le> wipeThreshold then None
      else Some (wiped_error nodeID (live_states states)))"

fun isCurrent :: "FileState option \<Rightarrow> FileEntry \<Rightarrow> bool" where
  "isCurrent None entry = False"
| "isCurrent (Some state) entry = (\<not> fs_Deleted state \<and> fs_Hash state = fe_Hash entry)"

fun deletedOnOther :: "FileState option \<Rightarrow> FileState option \<Rightarrow> FileEntry \<Rightarrow> bool" where
  "deletedOnOther (Some missingState) (Some presentState) present =
     (\<not> fs_Deleted presentState \<and> fs_Hash presentState = fe_Hash present)"
| "deletedOnOther _ _ present = False"

section \<open>Changing the store\<close>

definition clock_of :: "FileState option \<Rightarrow> VectorClock \<Rightarrow> VectorClock" where
  "clock_of state clock = (case state of None \<Rightarrow> clock | Some st \<Rightarrow> Merge clock (fs_Clock st))"

definition tombstone :: "string \<Rightarrow> string \<Rightarrow> VectorClock \<Rightarrow> gotime \<Rightarrow> FileState" where
  "tombstone nodeID path clock now =
     \<lparr>fs_Path = path, fs_Hash = [], fs_Size = 0, fs_Clock = clock, fs_UpdatedAt = now,
      fs_NodeID = nodeID, fs_Deleted = True\<rparr>"

definition markDeleted ::
  "('s, 'w) SyncEngine \<Rightarrow> string \<Rightarrow> string \<Rightarrow> string \<Rightarrow> FileState option \<Rightarrow> FileState option \<Rightarrow>
   's \<times> 'w \<Rightarrow> 's \<times> 'w" where
  "markDeleted e deleterID targetID path deleterState targetState st =
     (let clock = Increment (clock_of targetState (clock_of deleterState NewVectorClock)) deleterID;
          (now, w) = e_now e (snd st);
          s = fold (\<lambda>nodeID s. st_Set (e_store e) s nodeID path (tombstone nodeID path clock now))
                [deleterID, targetID] (fst st)
      in (s, w))"

definition ForgetNode :: "('s, 'w) SyncEngine \<Rightarrow> string \<Rightarrow> 's \<times> 'w \<Rightarrow> 's \<times> 'w" where
  "ForgetNode e nodeID st = (st_DeleteNode (e_store e) (fst st) nodeID, snd st)"

text \<open>\<open>observe\<close> only reads the clock of the world, so it returns the state and the world.\<close>
definition observe ::
  "('s, 'w) SyncEngine \<Rightarrow> string \<Rightarrow> FileEntry \<Rightarrow> FileState \<Rightarrow> 'w \<Rightarrow> FileState \<times> 'w" where
  "observe e nodeID entry state w =
     (if fs_Hash state = fe_Hash entry then (state, w)
      else let (updatedAt, w') = (if time_IsZero (fe_ModTime entry) then e_now e w else (fe_ModTime entry, w))
        in (\<lparr>fs_Path = fe_Path entry, fs_Hash = fe_Hash entry, fs_Size = fe_Size entry,
             fs_Clock = Increment (fs_Clock state) nodeID, fs_UpdatedAt = updatedAt,
             fs_NodeID = nodeID, fs_Deleted = False\<rparr>, w'))"

fun newClock :: "string \<Rightarrow> FileState option \<Rightarrow> FileState option \<Rightarrow> VectorClock" where
  "newClock fromID (Some fromState) (Some toState) = Merge (fs_Clock fromState) (fs_Clock toState)"
| "newClock fromID (Some fromState) None = Clone (fs_Clock fromState)"
| "newClock fromID None (Some toState) = Increment (fs_Clock toState) fromID"
| "newClock fromID None None = Increment NewVectorClock fromID"

definition live_state :: "string \<Rightarrow> FileEntry \<Rightarrow> VectorClock \<Rightarrow> gotime \<Rightarrow> FileState" where
  "live_state nodeID entry clock now =
     \<lparr>fs_Path = fe_Path entry, fs_Hash = fe_Hash entry, fs_Size = fe_Size entry, fs_Clock = clock,
      fs_UpdatedAt = now, fs_NodeID = nodeID, fs_Deleted = False\<rparr>"

definition updateState ::
  "('s, 'w) SyncEngine \<Rightarrow> string \<Rightarrow> string \<Rightarrow> FileEntry \<Rightarrow> FileState option \<Rightarrow> FileState option \<Rightarrow>
   's \<times> 'w \<Rightarrow> 's \<times> 'w" where
  "updateState e fromID toID entry fromState toState st =
     (let (now, w) = e_now e (snd st);
          clock = newClock fromID fromState toState;
          s1 = st_Set (e_store e) (fst st) fromID (fe_Path entry) (live_state fromID entry clock now);
          s2 = st_Set (e_store e) s1 toID (fe_Path entry) (live_state toID entry clock now)
      in (s2, w))"

section \<open>Moving files\<close>

definition transfer :: "'w Node \<Rightarrow> 'w Node \<Rightarrow> FileEntry \<Rightarrow> ('w, unit) io" where
  "transfer from to entry w =
     (case ReadFile from (fe_Path entry) w of
        (Inl err, w') \<Rightarrow> (Inl (Wrapf ''read: '' err), w')
      | (Inr r, w') \<Rightarrow> WriteFile to (fe_Path entry) r w')"

text \<open>A transfer followed by \<open>updateState\<close> when it succeeds: the shape every branch shares.\<close>
definition transfer_update ::
  "('s, 'w) SyncEngine \<Rightarrow> 'w Node \<Rightarrow> 'w Node \<Rightarrow> FileEntry \<Rightarrow> FileState option \<Rightarrow> FileState option \<Rightarrow>
   's \<times> 'w \<Rightarrow> (gerr + unit) \<times> ('s \<times> 'w)" where
  "transfer_update e from to entry fromState toState st =
     (case transfer from to entry (snd st) of
        (Inl err, w) \<Rightarrow> (Inl err, (fst st, w))
      | (Inr _, w) \<Rightarrow> (Inr (), updateState e (ID from) (ID to) entry fromState toState (fst st, w)))"

definition resolved :: "string \<Rightarrow> (gerr + unit) \<times> 'st \<Rightarrow> (gerr + string) \<times> 'st" where
  "resolved name r = (case fst r of Inl err \<Rightarrow> Inl err | Inr _ \<Rightarrow> Inr name, snd r)"

definition conflict_path :: "'w Node \<Rightarrow> FileEntry \<Rightarrow> string" where
  "conflict_path source srcEntry = fe_Path srcEntry @ ''.conflict.'' @ ID source"

definition resolveConflict ::
  "('s, 'w) SyncEngine \<Rightarrow> 'w Node \<Rightarrow> 'w Node \<Rightarrow> FileEntry \<Rightarrow> FileEntry \<Rightarrow> FileState \<Rightarrow> FileState \<Rightarrow>
   's \<times> 'w \<Rightarrow> (gerr + string) \<times> ('s \<times> 'w)" where
  "resolveConflict e source target srcEntry dstEntry srcState dstState st =
     (case e_strategy e of
        KeepNewest \<Rightarrow>
          if fs_UpdatedAt srcState > fs_UpdatedAt dstState
          then resolved ''kept_source_newer''
                 (transfer_update e source target srcEntry (Some srcState) (Some dstState) st)
          else resolved ''kept_target_newer''
                 (transfer_update e target source dstEntry (Some dstState) (Some srcState) st)
      | KeepSource \<Rightarrow>
          resolved ''kept_source''
            (transfer_update e source target srcEntry (Some srcState) (Some dstState) st)
      | KeepBoth \<Rightarrow>
          (case ReadFile source (fe_Path srcEntry) (snd st) of
             (Inl err, w) \<Rightarrow> (Inl (Wrapf ''read: '' err), (fst st, w))
           | (Inr r, w) \<Rightarrow>
               (case WriteFile target (conflict_path source srcEntry) r w of
                  (Inl err, w') \<Rightarrow> (Inl err, (fst st, w'))
                | (Inr _, w') \<Rightarrow>
                    resolved ''kept_both''
                      (transfer_update e target source dstEntry (Some dstState) (Some srcState) (fst st, w')))))"

section \<open>One diverging file\<close>

definition transfer_step ::
  "('s, 'w) SyncEngine \<Rightarrow> 'w Node \<Rightarrow> 'w Node \<Rightarrow> FileEntry \<Rightarrow> FileState option \<Rightarrow> FileState option \<Rightarrow> string \<Rightarrow>
   SyncResult \<times> ('s \<times> 'w) \<Rightarrow> SyncResult \<times> ('s \<times> 'w)" where
  "transfer_step e from to entry fromState toState path rs =
     (case transfer_update e from to entry fromState toState (snd rs) of
        (Inl err, st) \<Rightarrow> (add_error (Wrapf (''transfer '' @ path @ '': '') err) (fst rs), st)
      | (Inr _, st) \<Rightarrow> (add_transferred (fst rs), st))"

definition delete_step ::
  "('s, 'w) SyncEngine \<Rightarrow> 'w Node \<Rightarrow> 'w Node \<Rightarrow> FileState option \<Rightarrow> FileState option \<Rightarrow> string \<Rightarrow>
   SyncResult \<times> ('s \<times> 'w) \<Rightarrow> SyncResult \<times> ('s \<times> 'w)" where
  "delete_step e deleter holder deleterState holderState path rs =
     (case DeleteFile holder path (snd (snd rs)) of
        (Inl err, w) \<Rightarrow> (add_error (Wrapf (''delete '' @ path @ '': '') err) (fst rs), (fst (snd rs), w))
      | (Inr _, w) \<Rightarrow>
          (add_deleted (fst rs),
           markDeleted e (ID deleter) (ID holder) path deleterState holderState (fst (snd rs), w)))"

definition conflict_step ::
  "('s, 'w) SyncEngine \<Rightarrow> 'w Node \<Rightarrow> 'w Node \<Rightarrow> FileEntry \<Rightarrow> FileEntry \<Rightarrow> FileState \<Rightarrow> FileState \<Rightarrow> string \<Rightarrow>
   SyncResult \<times> ('s \<times> 'w) \<Rightarrow> SyncResult \<times> ('s \<times> 'w)" where
  "conflict_step e source target srcEntry dstEntry srcState dstState path rs =
     (case resolveConflict e source target srcEntry dstEntry srcState dstState (snd rs) of
        (Inl err, st) \<Rightarrow> (add_error (Wrapf (''resolve conflict '' @ path @ '': '') err) (fst rs), st)
      | (Inr resolution, st) \<Rightarrow>
          (add_conflict \<lparr>ci_Path = path, ci_SourceNode = ID source, ci_TargetNode = ID target,
             ci_Resolution = resolution\<rparr> (fst rs), st))"

definition both_step ::
  "('s, 'w) SyncEngine \<Rightarrow> 'w Node \<Rightarrow> 'w Node \<Rightarrow> FileEntry \<Rightarrow> FileEntry \<Rightarrow>
   FileState option \<Rightarrow> FileState option \<Rightarrow> string \<Rightarrow>
   SyncResult \<times> ('s \<times> 'w) \<Rightarrow> SyncResult \<times> ('s \<times> 'w)" where
  "both_step e source target srcEntry dstEntry srcState dstState path rs =
     (case (srcState, dstState) of
        (Some ss0, Some ds0) \<Rightarrow>
          let (ss, w1) = observe e (ID source) srcEntry ss0 (snd (snd rs));
              (ds, w2) = observe e (ID target) dstEntry ds0 w1;
              rs' = (fst rs, (fst (snd rs), w2))
          in (case Compare (fs_Clock ss) (fs_Clock ds) of
                After \<Rightarrow> transfer_step e source target srcEntry (Some ss) (Some ds) path rs'
              | Equal \<Rightarrow> transfer_step e source target srcEntry (Some ss) (Some ds) path rs'
              | Before \<Rightarrow> transfer_step e target source dstEntry (Some ds) (Some ss) path rs'
              | Concurrent \<Rightarrow> conflict_step e source target srcEntry dstEntry ss ds path rs')
      | _ \<Rightarrow> transfer_step e source target srcEntry srcState dstState path rs)"

text \<open>The body of the loop over the diverging paths.\<close>
definition sync_path ::
  "('s, 'w) SyncEngine \<Rightarrow> 'w Node \<Rightarrow> 'w Node \<Rightarrow> (string, FileEntry) fmap \<Rightarrow> (string, FileEntry) fmap \<Rightarrow>
   (string, FileState) fmap \<Rightarrow> (string, FileState) fmap \<Rightarrow> string \<Rightarrow>
   SyncResult \<times> ('s \<times> 'w) \<Rightarrow> SyncResult \<times> ('s \<times> 'w)" where
  "sync_path e source target srcMap dstMap srcStates dstStates path rs =
     (let srcState = fmlookup srcStates path; dstState = fmlookup dstStates path in
      case (fmlookup srcMap path, fmlookup dstMap path) of
        (Some srcEntry, None) \<Rightarrow>
          if deletedOnOther dstState srcState srcEntry
          then delete_step e target source dstState srcState path rs
          else transfer_step e source target srcEntry srcState dstState path rs
      | (None, Some dstEntry) \<Rightarrow>
          if deletedOnOther srcState dstState dstEntry
          then delete_step e source target srcState dstState path rs
          else transfer_step e target source dstEntry dstState srcState path rs
      | (Some srcEntry, Some dstEntry) \<Rightarrow>
          both_step e source target srcEntry dstEntry srcState dstState path rs
      | (None, None) \<Rightarrow> rs)"

section \<open>A synchronisation\<close>

text \<open>The body of the loop over the files of the source: a file that is the same on both nodes gets
  its state recorded.\<close>
definition record_identical ::
  "('s, 'w) SyncEngine \<Rightarrow> 'w Node \<Rightarrow> 'w Node \<Rightarrow> (string, FileEntry) fmap \<Rightarrow> (string, FileEntry) fmap \<Rightarrow>
   (string, FileState) fmap \<Rightarrow> (string, FileState) fmap \<Rightarrow> string \<Rightarrow> 's \<times> 'w \<Rightarrow> 's \<times> 'w" where
  "record_identical e source target srcMap dstMap srcStates dstStates path st =
     (case (fmlookup srcMap path, fmlookup dstMap path) of
        (Some srcEntry, Some dstEntry) \<Rightarrow>
          if fe_Hash srcEntry \<noteq> fe_Hash dstEntry then st
          else if isCurrent (fmlookup srcStates path) srcEntry \<and> isCurrent (fmlookup dstStates path) dstEntry
          then st
          else updateState e (ID source) (ID target) srcEntry (fmlookup srcStates path)
                 (fmlookup dstStates path) st
      | _ \<Rightarrow> st)"

text \<open>The run once both listings are there.\<close>
definition sync_listed ::
  "hash_fun \<Rightarrow> ('s, 'w) SyncEngine \<Rightarrow> 'w Node \<Rightarrow> 'w Node \<Rightarrow> FileEntry list \<Rightarrow> FileEntry list \<Rightarrow>
   's \<times> 'w \<Rightarrow> (gerr + SyncResult) \<times> ('s \<times> 'w)" where
  "sync_listed sha e source target srcFiles dstFiles st =
     (let srcTree = BuildMerkleTree sha srcFiles;
          dstTree = BuildMerkleTree sha dstFiles;
          srcMap = map_from fe_Path id srcFiles;
          dstMap = map_from fe_Path id dstFiles;
          srcStates = indexStates (st_All (e_store e) (fst st) (ID source));
          dstStates = indexStates (st_All (e_store e) (fst st) (ID target))
      in case checkNotWiped (ID source) srcFiles srcStates of
           Some err \<Rightarrow> (Inl err, st)
         | None \<Rightarrow>
             (case checkNotWiped (ID target) dstFiles dstStates of
                Some err \<Rightarrow> (Inl err, st)
              | None \<Rightarrow>
                  let st1 = fold (record_identical e source target srcMap dstMap srcStates dstStates)
                              (range_keys srcMap) st
                  in if RootHash sha srcTree = RootHash sha dstTree then (Inr empty_result, st1)
                     else let (result, st2) =
                                fold (sync_path e source target srcMap dstMap srcStates dstStates)
                                  (Diff sha srcTree dstTree) (empty_result, st1)
                          in (Inr result, st2)))"

definition Sync ::
  "hash_fun \<Rightarrow> ('s, 'w) SyncEngine \<Rightarrow> 'w Node \<Rightarrow> 'w Node \<Rightarrow> 's \<times> 'w \<Rightarrow>
   (gerr + SyncResult) \<times> ('s \<times> 'w)" where
  "Sync sha e source target st =
     (case ListFiles source (snd st) of
        (Inl err, w) \<Rightarrow> (Inl (Wrapf ''failed to list source files: '' err), (fst st, w))
      | (Inr srcFiles, w) \<Rightarrow>
          (case ListFiles target w of
             (Inl err, w') \<Rightarrow> (Inl (Wrapf ''failed to list target files: '' err), (fst st, w'))
           | (Inr dstFiles, w') \<Rightarrow> sync_listed sha e source target srcFiles dstFiles (fst st, w')))"

text \<open>The pairs \<open>(nodes[i], nodes[j])\<close> with \<open>i < j\<close>, in the order of the two loops.\<close>
fun node_pairs :: "'w Node list \<Rightarrow> ('w Node \<times> 'w Node) list" where
  "node_pairs [] = []"
| "node_pairs (n # ns) = map (Pair n) ns @ node_pairs ns"

definition sync_pair_step ::
  "hash_fun \<Rightarrow> ('s, 'w) SyncEngine \<Rightarrow> 'w Node \<times> 'w Node \<Rightarrow> SyncResult list \<times> ('s \<times> 'w) \<Rightarrow>
   SyncResult list \<times> ('s \<times> 'w)" where
  "sync_pair_step sha e ns rs =
     (case Sync sha e (fst ns) (snd ns) (snd rs) of
        (Inl err, st) \<Rightarrow> (fst rs, st)
      | (Inr r, st) \<Rightarrow> (fst rs @ [r], st))"

definition SyncAll ::
  "hash_fun \<Rightarrow> ('s, 'w) SyncEngine \<Rightarrow> 'w Node list \<Rightarrow> 's \<times> 'w \<Rightarrow> SyncResult list \<times> ('s \<times> 'w)" where
  "SyncAll sha e nodes st = fold (sync_pair_step sha e) (node_pairs nodes) ([], st)"

end
