(* ===== verification/Sync_Store_Laws.thy ===== *)
theory Sync_Store_Laws
  imports Sync_Engine
begin

text \<open>
  What a run of the engine does to the store, for every behaviour of the nodes: the two primitive
  changes \<open>updateState\<close> and \<open>markDeleted\<close>, and the rule that a property of the store they keep is
  kept by a whole run, on every branch and after every error.
\<close>

section \<open>The primitive changes\<close>

locale engine = state_store "e_store e" for e :: "('s, 'w) SyncEngine"
begin

lemma get_updateState:
  "st_Get (e_store e) (fst (updateState e f t entry fs ts st)) n p =
     (if p = fe_Path entry \<and> (n = f \<or> n = t)
      then Some (live_state n entry (newClock f fs ts) (fst (e_now e (snd st))))
      else st_Get (e_store e) (fst st) n p)"
  by (auto simp: updateState_def Let_def get_set split: prod.splits)

lemma get_markDeleted:
  "st_Get (e_store e) (fst (markDeleted e d t path ds ts st)) n p =
     (if p = path \<and> (n = d \<or> n = t)
      then Some (tombstone n path (Increment (clock_of ts (clock_of ds NewVectorClock)) d)
                   (fst (e_now e (snd st))))
      else st_Get (e_store e) (fst st) n p)"
  by (auto simp: markDeleted_def Let_def get_set split: prod.splits)

end

lemma snd_updateState [simp]: "snd (updateState e f t entry fs ts st) = snd (e_now e (snd st))"
  by (simp add: updateState_def Let_def split: prod.splits)

lemma snd_markDeleted [simp]: "snd (markDeleted e d t path ds ts st) = snd (e_now e (snd st))"
  by (simp add: markDeleted_def Let_def split: prod.splits)

section \<open>Properties of the store that a run keeps\<close>

text \<open>A property of the store that the primitive changes between two nodes keep. The nodes' own
  operations do not touch the store, whatever they do and return.\<close>
locale kept_in_store =
  fixes e :: "('s, 'w) SyncEngine" and a b :: "'w Node" and P :: "'s \<Rightarrow> bool"
  assumes update_ab: "P (fst st) \<Longrightarrow> P (fst (updateState e (ID a) (ID b) entry fs ts st))"
    and update_ba: "P (fst st) \<Longrightarrow> P (fst (updateState e (ID b) (ID a) entry fs ts st))"
    and mark_ab: "P (fst st) \<Longrightarrow> P (fst (markDeleted e (ID a) (ID b) path fs ts st))"
    and mark_ba: "P (fst st) \<Longrightarrow> P (fst (markDeleted e (ID b) (ID a) path fs ts st))"
begin

lemma kept_transfer_update:
  "P (fst st) \<Longrightarrow> P (fst (snd (transfer_update e a b entry fs ts st)))"
  "P (fst st) \<Longrightarrow> P (fst (snd (transfer_update e b a entry fs ts st)))"
  by (auto simp: transfer_update_def update_ab update_ba split: prod.splits sum.splits)

lemma kept_transfer_step:
  "P (fst (snd rs)) \<Longrightarrow> P (fst (snd (transfer_step e a b entry fs ts path rs)))"
  "P (fst (snd rs)) \<Longrightarrow> P (fst (snd (transfer_step e b a entry fs ts path rs)))"
  using kept_transfer_update [of "snd rs" entry fs ts]
  by (auto simp: transfer_step_def split: prod.splits sum.splits)

lemma kept_delete_step:
  "P (fst (snd rs)) \<Longrightarrow> P (fst (snd (delete_step e a b ds hs path rs)))"
  "P (fst (snd rs)) \<Longrightarrow> P (fst (snd (delete_step e b a ds hs path rs)))"
  by (auto simp: delete_step_def mark_ab mark_ba split: prod.splits sum.splits)

lemma kept_resolveConflict:
  "P (fst st) \<Longrightarrow> P (fst (snd (resolveConflict e a b ae be as bs st)))"
  by (auto simp: resolveConflict_def resolved_def kept_transfer_update
      split: ConflictStrategy.splits prod.splits sum.splits)

lemma kept_conflict_step:
  "P (fst (snd rs)) \<Longrightarrow> P (fst (snd (conflict_step e a b ae be as bs path rs)))"
  using kept_resolveConflict [of "snd rs" ae be as bs]
  by (auto simp: conflict_step_def split: prod.splits sum.splits)

lemma kept_both_step:
  "P (fst (snd rs)) \<Longrightarrow> P (fst (snd (both_step e a b ae be as bs path rs)))"
  by (auto simp: both_step_def Let_def kept_transfer_step kept_conflict_step
      split: option.splits Relation.splits prod.splits)

lemma kept_sync_path:
  "P (fst (snd rs)) \<Longrightarrow> P (fst (snd (sync_path e a b am bm as bs path rs)))"
  by (auto simp: sync_path_def Let_def kept_transfer_step kept_delete_step kept_both_step
      split: option.splits)

lemma kept_record_identical:
  "P (fst st) \<Longrightarrow> P (fst (record_identical e a b am bm as bs path st))"
  by (auto simp: record_identical_def update_ab split: option.splits)

lemma kept_record_loop:
  "P (fst st) \<Longrightarrow> P (fst (fold (record_identical e a b am bm as bs) ps st))"
  by (induction ps arbitrary: st) (auto simp: kept_record_identical)

lemma kept_diff_loop:
  "P (fst (snd rs)) \<Longrightarrow> P (fst (snd (fold (sync_path e a b am bm as bs) ps rs)))"
proof (induction ps arbitrary: rs)
  case Nil
  then show ?case by simp
next
  case (Cons p ps)
  then show ?case using kept_sync_path [of rs] by simp
qed

lemma kept_sync_listed:
  assumes "P (fst st)"
  shows "P (fst (snd (sync_listed sha e a b af bf st)))"
proof -
  have "P (fst (snd (fold (sync_path e a b am bm as bs) qs
                       (r, fold (record_identical e a b am bm as bs) ps st))))"
    for am bm as bs ps qs r
    using kept_diff_loop [of "(r, _)"] kept_record_loop [OF assms] by simp
  with kept_record_loop [OF assms] assms show ?thesis
    by (simp add: sync_listed_def Let_def case_prod_unfold split: option.splits)
qed

lemma kept_Sync: "P (fst st) \<Longrightarrow> P (fst (snd (Sync sha e a b st)))"
  by (auto simp: Sync_def kept_sync_listed split: prod.splits sum.splits)

end

section \<open>The states of a pair\<close>

text \<open>Both nodes know the same files with the same clock, hash and tombstone: what a run leaves behind.\<close>
definition same_knowledge :: "FileState option \<Rightarrow> FileState option \<Rightarrow> bool" where
  "same_knowledge x y \<longleftrightarrow>
     (case (x, y) of
        (None, None) \<Rightarrow> True
      | (Some x, Some y) \<Rightarrow> fs_Clock x = fs_Clock y \<and> fs_Hash x = fs_Hash y \<and> fs_Deleted x = fs_Deleted y
      | _ \<Rightarrow> False)"

definition paired :: "'s StateStore \<Rightarrow> 's \<Rightarrow> string \<Rightarrow> string \<Rightarrow> bool" where
  "paired st s a b \<longleftrightarrow> (\<forall>p. same_knowledge (st_Get st s a p) (st_Get st s b p))"

lemma same_knowledge_new [simp]:
  "same_knowledge (Some (live_state a entry c t)) (Some (live_state b entry c t))"
  "same_knowledge (Some (tombstone a p c t)) (Some (tombstone b p c t))"
  by (simp_all add: same_knowledge_def live_state_def tombstone_def)

lemma same_knowledge_cases:
  assumes "same_knowledge x y"
  obtains "x = None" "y = None"
  | x' y' where "x = Some x'" "y = Some y'" "fs_Clock x' = fs_Clock y'" "fs_Hash x' = fs_Hash y'"
      "fs_Deleted x' = fs_Deleted y'"
  using assms by (auto simp: same_knowledge_def split: option.splits)

lemma path_of_new [simp]:
  "fs_Path (live_state n entry c t) = fe_Path entry" "fs_Path (tombstone n p c t) = p"
  by (simp_all add: live_state_def tombstone_def)

sublocale engine \<subseteq> keyed_run: kept_in_store e a b "keyed (e_store e)" for a b
  by unfold_locales (auto simp: keyed_def get_updateState get_markDeleted)

sublocale engine \<subseteq> paired_run: kept_in_store e a b "\<lambda>s. paired (e_store e) s (ID a) (ID b)" for a b
  by unfold_locales (auto simp: paired_def get_updateState get_markDeleted)

sublocale engine \<subseteq> frame_run: kept_in_store e a b
    "\<lambda>s. n \<noteq> ID a \<longrightarrow> n \<noteq> ID b \<longrightarrow> (\<forall>p. st_Get (e_store e) s n p = g p)" for a b n g
  by unfold_locales (auto simp: get_updateState get_markDeleted)

interpretation mem_engine: engine "NewSyncEngine mem_store strategy now" for strategy now
  unfolding engine_def NewSyncEngine_def by (simp add: mem.state_store_axioms)

end
