(* ===== verification/Sync_Correct.thy ===== *)
theory Sync_Correct
  imports Sync_Store_Laws
begin

text \<open>
  Convergence of a run. The locale \<open>sync_side\<close> is what the engine relies on from a node that works:
  an exact listing, reads that return the content, writes and deletions that do what they say and
  leave the other node alone. Two such sides and an engine make a \<open>sync_pair\<close>; inside it a run is
  shown to end without errors, with the same files on both nodes, each chosen by \<open>source_wins\<close>.
\<close>

section \<open>Which version wins\<close>

text \<open>The decision of the engine about a path, separated from the transfers that carry it out.\<close>
definition source_wins ::
  "('s, 'w) SyncEngine \<Rightarrow> string \<Rightarrow> string \<Rightarrow> FileEntry option \<Rightarrow> FileEntry option \<Rightarrow>
   FileState option \<Rightarrow> FileState option \<Rightarrow> 'w \<Rightarrow> bool" where
  "source_wins e a b ea eb sa sb w =
     (case (ea, eb) of
        (None, None) \<Rightarrow> True
      | (Some x, None) \<Rightarrow> \<not> deletedOnOther sb sa x
      | (None, Some y) \<Rightarrow> deletedOnOther sa sb y
      | (Some x, Some y) \<Rightarrow>
          (case (sa, sb) of
             (Some s0, Some t0) \<Rightarrow>
               let (s, w1) = observe e a x s0 w; (t, w2) = observe e b y t0 w1 in
               (case Compare (fs_Clock s) (fs_Clock t) of
                  After \<Rightarrow> True | Equal \<Rightarrow> True | Before \<Rightarrow> False
                | Concurrent \<Rightarrow>
                    (case e_strategy e of
                       KeepNewest \<Rightarrow> fs_UpdatedAt s > fs_UpdatedAt t
                     | KeepSource \<Rightarrow> True | KeepBoth \<Rightarrow> False))
           | _ \<Rightarrow> True))"

text \<open>Setting a path to a content, or to nothing.\<close>
definition put :: "'k \<Rightarrow> 'v option \<Rightarrow> ('k, 'v) fmap \<Rightarrow> ('k, 'v) fmap" where
  "put p v m = (case v of None \<Rightarrow> fmdrop p m | Some d \<Rightarrow> fmupd p d m)"

lemma lookup_put [simp]: "fmlookup (put p v m) q = (if q = p then v else fmlookup m q)"
  by (simp add: put_def split: option.splits)

lemma put_same [simp]: "fmlookup m p = v \<Longrightarrow> put p v m = m"
  by (intro fmap_ext) simp

lemma fmupd_same [simp]: "fmlookup m p = Some d \<Longrightarrow> fmupd p d m = m"
  by (intro fmap_ext) auto

lemma fmdrop_same [simp]: "fmlookup m p = None \<Longrightarrow> fmdrop p m = m"
  by (intro fmap_ext) simp

section \<open>The contract of a node\<close>

locale sync_side =
  fixes n :: "'w Node" and ok :: "'w \<Rightarrow> bool"
    and mine other :: "'w \<Rightarrow> (string, string) fmap" and hsh :: "string \<Rightarrow> string"
  assumes lists: "ok w \<Longrightarrow> \<exists>fs. ListFiles n w = (Inr fs, w) \<and> distinct (map fe_Path fs) \<and>
                    map_from fe_Path fe_Hash fs = fmmap hsh (mine w)"
    and reads: "ok w \<Longrightarrow> fmlookup (mine w) p = Some d \<Longrightarrow> ReadFile n p w = (Inr (Reader d None), w)"
    and writes: "ok w \<Longrightarrow> fmlookup (other w) p = Some d \<Longrightarrow>
                   \<exists>w'. WriteFile n p (Reader d None) w = (Inr (), w') \<and> ok w' \<and>
                        mine w' = fmupd p d (mine w) \<and> other w' = other w"
    and deletes: "ok w \<Longrightarrow> fmlookup (mine w) p = Some d \<Longrightarrow>
                    \<exists>w'. DeleteFile n p w = (Inr (), w') \<and> ok w' \<and>
                         mine w' = fmdrop p (mine w) \<and> other w' = other w"

lemma transfer_step_done:
  assumes "ReadFile from (fe_Path entry) w = (Inr rd, w)" "WriteFile to (fe_Path entry) rd w = (Inr (), w')"
  shows "transfer_step e from to entry fs ts p (r, (s, w)) =
           (add_transferred r, updateState e (ID from) (ID to) entry fs ts (s, w'))"
    and "transfer_update e from to entry fs ts (s, w) =
           (Inr (), updateState e (ID from) (ID to) entry fs ts (s, w'))"
  using assms by (simp_all add: transfer_step_def transfer_update_def transfer_def)

locale sync_pair =
  a: sync_side na ok ca cb hsh + b: sync_side nb ok cb ca hsh + engine e
  for na nb :: "'w Node" and ok ca cb hsh and e :: "('s, 'w) SyncEngine" +
  assumes now_ok: "ok w \<Longrightarrow> e_now e w = (t, w') \<Longrightarrow> ok w' \<and> ca w' = ca w \<and> cb w' = cb w"
    and two_nodes: "ok w \<Longrightarrow> ID na \<noteq> ID nb"
    and hsh_inj: "ok w \<Longrightarrow> d \<in> fmran' (ca w) \<union> fmran' (cb w) \<Longrightarrow> d' \<in> fmran' (ca w) \<union> fmran' (cb w) \<Longrightarrow>
                  hsh d = hsh d' \<Longrightarrow> d = d'"
    and hsh_plain: "CHR '':'' \<notin> set (hsh d)"
begin

text \<open>Both nodes have a live state for the file with this content.\<close>
definition known :: "'s \<Rightarrow> string \<Rightarrow> string \<Rightarrow> bool" where
  "known s p d \<longleftrightarrow>
     (\<forall>n \<in> {ID na, ID nb}.
        \<exists>x. st_Get (e_store e) s n p = Some x \<and> \<not> fs_Deleted x \<and> fs_Hash x = hsh d)"

text \<open>The state after a path has been settled to \<open>v\<close>: both nodes hold \<open>v\<close>, nothing else has changed,
  no error was recorded, and the store knows the file if there is one.\<close>
definition settled ::
  "string \<Rightarrow> string option \<Rightarrow> SyncResult \<times> ('s \<times> 'w) \<Rightarrow> SyncResult \<times> ('s \<times> 'w) \<Rightarrow> bool" where
  "settled p v rs rs' \<longleftrightarrow>
     sr_Errors (fst rs') = sr_Errors (fst rs) \<and> ok (snd (snd rs')) \<and>
     ca (snd (snd rs')) = put p v (ca (snd (snd rs))) \<and>
     cb (snd (snd rs')) = put p v (cb (snd (snd rs))) \<and>
     (\<forall>n q. q \<noteq> p \<longrightarrow> st_Get (e_store e) (fst (snd rs')) n q = st_Get (e_store e) (fst (snd rs)) n q) \<and>
     (\<forall>d. v = Some d \<longrightarrow> known (fst (snd rs')) p d)"

lemma now_kept:
  assumes "ok w"
  shows "ok (snd (e_now e w))" "ca (snd (e_now e w)) = ca w" "cb (snd (e_now e w)) = cb w"
  using now_ok [OF assms] by (metis prod.collapse)+

lemma settled_update:
  assumes "ok w'" "ca w' = put p (Some d) (ca w)" "cb w' = put p (Some d) (cb w)"
    and "fe_Path entry = p" "fe_Hash entry = hsh d" "sr_Errors r' = sr_Errors r"
  shows "settled p (Some d) (r, (s, w)) (r', updateState e (ID na) (ID nb) entry fs ts (s, w'))"
    and "settled p (Some d) (r, (s, w)) (r', updateState e (ID nb) (ID na) entry fs ts (s, w'))"
  using assms now_kept [OF assms(1)]
  by (simp_all add: settled_def known_def get_updateState live_state_def)

lemma transfers_ab:
  assumes "ok w" "fmlookup (ca w) p = Some d" "fe_Path entry = p"
  obtains w' where "ok w'" "ca w' = put p (Some d) (ca w)" "cb w' = put p (Some d) (cb w)"
    "ReadFile na (fe_Path entry) w = (Inr (Reader d None), w)"
    "WriteFile nb (fe_Path entry) (Reader d None) w = (Inr (), w')"
proof -
  obtain w' where "WriteFile nb p (Reader d None) w = (Inr (), w')" "ok w'"
      "cb w' = fmupd p d (cb w)" "ca w' = ca w"
    using b.writes [OF assms(1,2)] by blast
  with that [of w'] a.reads [OF assms(1,2)] assms(2,3) show thesis by (simp add: put_def)
qed

lemma transfers_ba:
  assumes "ok w" "fmlookup (cb w) p = Some d" "fe_Path entry = p"
  obtains w' where "ok w'" "ca w' = put p (Some d) (ca w)" "cb w' = put p (Some d) (cb w)"
    "ReadFile nb (fe_Path entry) w = (Inr (Reader d None), w)"
    "WriteFile na (fe_Path entry) (Reader d None) w = (Inr (), w')"
proof -
  obtain w' where "WriteFile na p (Reader d None) w = (Inr (), w')" "ok w'"
      "ca w' = fmupd p d (ca w)" "cb w' = cb w"
    using a.writes [OF assms(1,2)] by blast
  with that [of w'] b.reads [OF assms(1,2)] assms(2,3) show thesis by (simp add: put_def)
qed

lemma settled_transfer:
  assumes "ok w" "fe_Path entry = p" "fe_Hash entry = hsh d"
  shows "fmlookup (ca w) p = Some d \<Longrightarrow>
           settled p (Some d) (r, (s, w)) (transfer_step e na nb entry fs ts p (r, (s, w)))"
    and "fmlookup (cb w) p = Some d \<Longrightarrow>
           settled p (Some d) (r, (s, w)) (transfer_step e nb na entry fs ts p (r, (s, w)))"
proof -
  assume "fmlookup (ca w) p = Some d"
  from transfers_ab [OF assms(1) this assms(2)] obtain w' where
    w': "ok w'" "ca w' = put p (Some d) (ca w)" "cb w' = put p (Some d) (cb w)"
    and io: "ReadFile na (fe_Path entry) w = (Inr (Reader d None), w)"
      "WriteFile nb (fe_Path entry) (Reader d None) w = (Inr (), w')" .
  show "settled p (Some d) (r, (s, w)) (transfer_step e na nb entry fs ts p (r, (s, w)))"
    unfolding transfer_step_done(1) [OF io]
    by (rule settled_update(1) [OF w' assms(2,3)]) (simp add: add_transferred_def)
next
  assume "fmlookup (cb w) p = Some d"
  from transfers_ba [OF assms(1) this assms(2)] obtain w' where
    w': "ok w'" "ca w' = put p (Some d) (ca w)" "cb w' = put p (Some d) (cb w)"
    and io: "ReadFile nb (fe_Path entry) w = (Inr (Reader d None), w)"
      "WriteFile na (fe_Path entry) (Reader d None) w = (Inr (), w')" .
  show "settled p (Some d) (r, (s, w)) (transfer_step e nb na entry fs ts p (r, (s, w)))"
    unfolding transfer_step_done(1) [OF io]
    by (rule settled_update(2) [OF w' assms(2,3)]) (simp add: add_transferred_def)
qed

lemma settled_delete:
  assumes "ok w"
  shows "fmlookup (ca w) p = Some d \<Longrightarrow> fmlookup (cb w) p = None \<Longrightarrow>
           settled p None (r, (s, w)) (delete_step e nb na ds hs p (r, (s, w)))"
    and "fmlookup (cb w) p = Some d \<Longrightarrow> fmlookup (ca w) p = None \<Longrightarrow>
           settled p None (r, (s, w)) (delete_step e na nb ds hs p (r, (s, w)))"
proof -
  assume h: "fmlookup (ca w) p = Some d" "fmlookup (cb w) p = None"
  obtain w' where "DeleteFile na p w = (Inr (), w')" "ok w'" "ca w' = fmdrop p (ca w)" "cb w' = cb w"
    using a.deletes [OF assms h(1)] by blast
  with h now_kept [of w'] show "settled p None (r, (s, w)) (delete_step e nb na ds hs p (r, (s, w)))"
    by (simp add: settled_def delete_step_def get_markDeleted add_deleted_def put_def)
next
  assume h: "fmlookup (cb w) p = Some d" "fmlookup (ca w) p = None"
  obtain w' where "DeleteFile nb p w = (Inr (), w')" "ok w'" "cb w' = fmdrop p (cb w)" "ca w' = ca w"
    using b.deletes [OF assms h(1)] by blast
  with h now_kept [of w'] show "settled p None (r, (s, w)) (delete_step e na nb ds hs p (r, (s, w)))"
    by (simp add: settled_def delete_step_def get_markDeleted add_deleted_def put_def)
qed

lemma settled_conflict:
  assumes "ok w" "e_strategy e \<noteq> KeepBoth"
    and "fmlookup (ca w) p = Some da" "fe_Path ea = p" "fe_Hash ea = hsh da"
    and "fmlookup (cb w) p = Some db" "fe_Path eb = p" "fe_Hash eb = hsh db"
  shows "settled p (if e_strategy e = KeepSource \<or> fs_UpdatedAt x > fs_UpdatedAt y then Some da else Some db)
           (r, (s, w)) (conflict_step e na nb ea eb x y p (r, (s, w)))"
proof -
  from transfers_ab [OF assms(1,3,4)] obtain wa where
    wa: "ok wa" "ca wa = put p (Some da) (ca w)" "cb wa = put p (Some da) (cb w)"
    and ioa: "ReadFile na (fe_Path ea) w = (Inr (Reader da None), w)"
      "WriteFile nb (fe_Path ea) (Reader da None) w = (Inr (), wa)" .
  from transfers_ba [OF assms(1,6,7)] obtain wb where
    wb: "ok wb" "ca wb = put p (Some db) (ca w)" "cb wb = put p (Some db) (cb w)"
    and iob: "ReadFile nb (fe_Path eb) w = (Inr (Reader db None), w)"
      "WriteFile na (fe_Path eb) (Reader db None) w = (Inr (), wb)" .
  have "\<not> (e_strategy e = KeepNewest \<and> e_strategy e = KeepSource)" by simp
  with assms(2) show ?thesis
    using settled_update(1) [OF wa assms(4,5)] settled_update(2) [OF wb assms(7,8)]
    by (cases "e_strategy e")
      (auto simp: conflict_step_def resolveConflict_def resolved_def add_conflict_def
        transfer_step_done(2) [OF ioa] transfer_step_done(2) [OF iob])
qed

lemma observe_kept:
  assumes "ok w"
  shows "ok (snd (observe e n entry x w))" "ca (snd (observe e n entry x w)) = ca w"
    "cb (snd (observe e n entry x w)) = cb w"
  using assms now_kept [OF assms] by (auto simp: observe_def Let_def split: prod.splits)

lemma settled_same_world:
  "settled p v (r, (s, w')) rs \<Longrightarrow> ca w' = ca w \<Longrightarrow> cb w' = cb w \<Longrightarrow> settled p v (r, (s, w)) rs"
  by (simp add: settled_def)

lemma settled_both:
  assumes ok: "ok w" and strategy: "e_strategy e \<noteq> KeepBoth"
    and A: "fmlookup (ca w) p = Some da" "fe_Path ea = p" "fe_Hash ea = hsh da"
    and B: "fmlookup (cb w) p = Some db" "fe_Path eb = p" "fe_Hash eb = hsh db"
  shows "settled p (if source_wins e (ID na) (ID nb) (Some ea) (Some eb) sa sb w then Some da else Some db)
           (r, (s, w)) (both_step e na nb ea eb sa sb p (r, (s, w)))"
proof (cases "sa = None \<or> sb = None")
  case True
  then have "source_wins e (ID na) (ID nb) (Some ea) (Some eb) sa sb w"
    and "both_step e na nb ea eb sa sb p (r, (s, w)) = transfer_step e na nb ea sa sb p (r, (s, w))"
    by (auto simp: source_wins_def both_step_def split: option.splits)
  then show ?thesis using settled_transfer(1) [OF ok A(2,3,1)] by simp
next
  case False
  then obtain x0 y0 where s0: "sa = Some x0" "sb = Some y0" by auto
  obtain x w1 where o1: "observe e (ID na) ea x0 w = (x, w1)" by fastforce
  obtain y w2 where o2: "observe e (ID nb) eb y0 w1 = (y, w2)" by fastforce
  have w1: "ok w1" "ca w1 = ca w" "cb w1 = cb w"
    using observe_kept [OF ok, of "ID na" ea x0] o1 by simp_all
  have w2: "ok w2" "ca w2 = ca w" "cb w2 = cb w"
    using observe_kept [OF w1(1), of "ID nb" eb y0] o2 w1 by simp_all
  have A': "fmlookup (ca w2) p = Some da" and B': "fmlookup (cb w2) p = Some db"
    using A(1) B(1) w2 by simp_all
  show ?thesis
    using settled_same_world [OF settled_transfer(1) [OF w2(1) A(2,3) A'] w2(2,3)]
      settled_same_world [OF settled_transfer(2) [OF w2(1) B(2,3) B'] w2(2,3)]
      settled_same_world [OF settled_conflict [OF w2(1) strategy A' A(2,3) B' B(2,3)] w2(2,3)]
      strategy
    by (cases "e_strategy e"; cases "Compare (fs_Clock x) (fs_Clock y)")
      (auto simp: both_step_def source_wins_def s0 o1 o2 Let_def split: if_splits)
qed

text \<open>An entry of a listing snapshot that still describes what the node holds.\<close>
definition entry_for :: "string \<Rightarrow> FileEntry option \<Rightarrow> string option \<Rightarrow> bool" where
  "entry_for p x v \<longleftrightarrow>
     (case (x, v) of (None, None) \<Rightarrow> True | (Some entry, Some d) \<Rightarrow> fe_Path entry = p \<and> fe_Hash entry = hsh d
      | _ \<Rightarrow> False)"

lemma settled_sync_path:
  assumes ok: "ok w" and strategy: "e_strategy e \<noteq> KeepBoth"
    and A: "entry_for p (fmlookup am p) (fmlookup (ca w) p)"
    and B: "entry_for p (fmlookup bm p) (fmlookup (cb w) p)"
  shows "settled p
           (if source_wins e (ID na) (ID nb) (fmlookup am p) (fmlookup bm p) (fmlookup as p) (fmlookup bs p) w
            then fmlookup (ca w) p else fmlookup (cb w) p)
           (r, (s, w)) (sync_path e na nb am bm as bs p (r, (s, w)))"
proof (cases "fmlookup (ca w) p"; cases "fmlookup (cb w) p")
  assume "fmlookup (ca w) p = None" "fmlookup (cb w) p = None"
  with A B ok show ?thesis
    by (auto simp: sync_path_def entry_for_def settled_def source_wins_def split: option.splits)
next
  fix d assume h: "fmlookup (ca w) p = None" "fmlookup (cb w) p = Some d"
  with A B obtain eb where "fmlookup am p = None" "fmlookup bm p = Some eb" "fe_Path eb = p" "fe_Hash eb = hsh d"
    by (auto simp: entry_for_def split: option.splits)
  then show ?thesis
    using h settled_delete(2) [OF ok h(2,1)] settled_transfer(2) [OF ok, of eb p d] 
    by (simp add: sync_path_def source_wins_def)
next
  fix d assume h: "fmlookup (ca w) p = Some d" "fmlookup (cb w) p = None"
  with A B obtain ea where "fmlookup bm p = None" "fmlookup am p = Some ea" "fe_Path ea = p" "fe_Hash ea = hsh d"
    by (auto simp: entry_for_def split: option.splits)
  then show ?thesis
    using h settled_delete(1) [OF ok h] settled_transfer(1) [OF ok, of ea p d]
    by (simp add: sync_path_def source_wins_def)
next
  fix da db assume h: "fmlookup (ca w) p = Some da" "fmlookup (cb w) p = Some db"
  with A B obtain ea eb where "fmlookup am p = Some ea" "fe_Path ea = p" "fe_Hash ea = hsh da"
      "fmlookup bm p = Some eb" "fe_Path eb = p" "fe_Hash eb = hsh db"
    by (auto simp: entry_for_def split: option.splits)
  then show ?thesis
    using h settled_both [OF ok strategy h(1) _ _ h(2), of ea eb "fmlookup as p" "fmlookup bs p" r s]
    by (simp add: sync_path_def split: if_splits)
qed

section \<open>The loops\<close>

text \<open>The version of a path that wins, at the moment its turn comes.\<close>
definition wins ::
  "(string, FileEntry) fmap \<Rightarrow> (string, FileEntry) fmap \<Rightarrow> (string, FileState) fmap \<Rightarrow>
   (string, FileState) fmap \<Rightarrow> string \<Rightarrow> 'w \<Rightarrow> string option \<Rightarrow> bool" where
  "wins am bm as bs p w v \<longleftrightarrow>
     (\<exists>u. ok u \<and> v = (if source_wins e (ID na) (ID nb) (fmlookup am p) (fmlookup bm p)
                             (fmlookup as p) (fmlookup bs p) u
                        then fmlookup (ca w) p else fmlookup (cb w) p))"

lemma wins_cong:
  "fmlookup (ca w) p = fmlookup (ca w') p \<Longrightarrow> fmlookup (cb w) p = fmlookup (cb w') p \<Longrightarrow>
   wins am bm as bs p w v = wins am bm as bs p w' v"
  by (simp add: wins_def)

text \<open>What the loop over the diverging paths leaves: each is settled to one of its two versions, the
  others are as they were.\<close>
definition all_settled ::
  "(string, FileEntry) fmap \<Rightarrow> (string, FileEntry) fmap \<Rightarrow> (string, FileState) fmap \<Rightarrow>
   (string, FileState) fmap \<Rightarrow> string list \<Rightarrow> 's \<times> 'w \<Rightarrow> 's \<times> 'w \<Rightarrow> bool" where
  "all_settled am bm as bs ps st st' \<longleftrightarrow>
     ok (snd st') \<and>
     (\<forall>p. p \<notin> set ps \<longrightarrow> fmlookup (ca (snd st')) p = fmlookup (ca (snd st)) p \<and>
        fmlookup (cb (snd st')) p = fmlookup (cb (snd st)) p \<and>
        (\<forall>n. st_Get (e_store e) (fst st') n p = st_Get (e_store e) (fst st) n p)) \<and>
     (\<forall>p \<in> set ps. fmlookup (ca (snd st')) p = fmlookup (cb (snd st')) p \<and>
        wins am bm as bs p (snd st) (fmlookup (ca (snd st')) p) \<and>
        (\<forall>d. fmlookup (ca (snd st')) p = Some d \<longrightarrow> known (fst st') p d))"

lemma known_cong:
  "(\<And>n. st_Get (e_store e) s' n p = st_Get (e_store e) s n p) \<Longrightarrow> known s' p d = known s p d"
  by (simp add: known_def)

lemma all_settled_Cons:
  assumes "ok w" "q \<notin> set ps" "settled q v (r, (s, w)) (r1, (s1, w1))" "wins am bm as bs q w v"
    and "all_settled am bm as bs ps (s1, w1) (s', w')"
  shows "all_settled am bm as bs (q # ps) (s, w) (s', w')"
  unfolding all_settled_def
proof (intro conjI ballI allI impI)
  fix p assume p: "p \<in> set (q # ps)"
  show "fmlookup (ca (snd (s', w'))) p = fmlookup (cb (snd (s', w'))) p"
    using assms p by (cases "p = q") (auto simp: settled_def all_settled_def)
  show "wins am bm as bs p (snd (s, w)) (fmlookup (ca (snd (s', w'))) p)"
    using assms p wins_cong [of w1 p w am bm as bs]
    by (cases "p = q") (auto simp: settled_def all_settled_def)
  fix d assume "fmlookup (ca (snd (s', w'))) p = Some d"
  then show "known (fst (s', w')) p d"
    using assms p known_cong [of s' q s1]
    by (cases "p = q") (auto simp: settled_def all_settled_def)
qed (use assms in \<open>auto simp: settled_def all_settled_def\<close>)

lemma diff_loop_settles:
  assumes "ok w" "e_strategy e \<noteq> KeepBoth" "distinct ps"
    and "\<And>p. p \<in> set ps \<Longrightarrow> entry_for p (fmlookup am p) (fmlookup (ca w) p)"
    and "\<And>p. p \<in> set ps \<Longrightarrow> entry_for p (fmlookup bm p) (fmlookup (cb w) p)"
    and "fold (sync_path e na nb am bm as bs) ps (r, (s, w)) = (r', (s', w'))"
  shows "sr_Errors r' = sr_Errors r \<and> all_settled am bm as bs ps (s, w) (s', w')"
  using assms(1,3-)
proof (induction ps arbitrary: r s w)
  case Nil
  then show ?case by (simp add: all_settled_def)
next
  case (Cons q ps)
  obtain r1 s1 w1 where step: "sync_path e na nb am bm as bs q (r, (s, w)) = (r1, (s1, w1))"
    by (metis prod.collapse)
  obtain v where st: "settled q v (r, (s, w)) (r1, (s1, w1))" and v: "wins am bm as bs q w v"
    using settled_sync_path [OF Cons.prems(1) assms(2), of q am bm as bs r s] Cons.prems(1,3,4) step
    unfolding wins_def by fastforce
  have "sr_Errors r' = sr_Errors r1 \<and> all_settled am bm as bs ps (s1, w1) (s', w')"
  proof (rule Cons.IH)
    show "fold (sync_path e na nb am bm as bs) ps (r1, (s1, w1)) = (r', (s', w'))"
      using Cons.prems(5) step by simp
    fix p assume "p \<in> set ps"
    then have "p \<noteq> q" using Cons.prems(2) by auto
    then show "entry_for p (fmlookup am p) (fmlookup (ca w1) p)"
      and "entry_for p (fmlookup bm p) (fmlookup (cb w1) p)"
      using st Cons.prems(3,4) \<open>p \<in> set ps\<close> by (simp_all add: settled_def)
  qed (use st Cons.prems(2) in \<open>simp_all add: settled_def\<close>)
  moreover have "sr_Errors r1 = sr_Errors r" using st by (simp add: settled_def)
  ultimately show ?case
    using all_settled_Cons [OF Cons.prems(1) _ st v] Cons.prems(2) by simp
qed

text \<open>The loop that records the files both nodes already share.\<close>
lemma record_step:
  assumes "ok w" and A: "entry_for p (fmlookup am p) (fmlookup (ca w) p)"
    and "fmlookup as p = st_Get (e_store e) s (ID na) p" "fmlookup bs p = st_Get (e_store e) s (ID nb) p"
    and "record_identical e na nb am bm as bs p (s, w) = (s', w')"
  shows "ok w' \<and> ca w' = ca w \<and> cb w' = cb w \<and>
    (\<forall>n q. q \<noteq> p \<longrightarrow> st_Get (e_store e) s' n q = st_Get (e_store e) s n q) \<and>
    (\<forall>ea eb d. fmlookup am p = Some ea \<longrightarrow> fmlookup bm p = Some eb \<longrightarrow> fe_Hash ea = fe_Hash eb \<longrightarrow>
       fmlookup (ca w) p = Some d \<longrightarrow> known s' p d)"
proof (cases "\<exists>ea eb. fmlookup am p = Some ea \<and> fmlookup bm p = Some eb \<and> fe_Hash ea = fe_Hash eb")
  case True
  then obtain ea eb where h: "fmlookup am p = Some ea" "fmlookup bm p = Some eb" "fe_Hash ea = fe_Hash eb"
    by blast
  with A obtain d where d: "fmlookup (ca w) p = Some d" "fe_Path ea = p" "fe_Hash ea = hsh d"
    by (auto simp: entry_for_def split: option.splits)
  show ?thesis
  proof (cases "isCurrent (fmlookup as p) ea \<and> isCurrent (fmlookup bs p) eb")
    case True
    then have "known s p d"
      using assms(3,4) h d by (auto simp: known_def elim!: isCurrent.elims)
    moreover have "s' = s" "w' = w" using True h assms(5) by (auto simp: record_identical_def)
    ultimately show ?thesis using assms(1) d by simp
  next
    case False
    then have eq: "(s', w') = updateState e (ID na) (ID nb) ea (fmlookup as p) (fmlookup bs p) (s, w)"
      using h assms(5) by (simp add: record_identical_def split: if_splits)
    have "st_Get (e_store e) s' n q = (if q = p \<and> (n = ID na \<or> n = ID nb)
        then Some (live_state n ea (newClock (ID na) (fmlookup as p) (fmlookup bs p)) (fst (e_now e w)))
        else st_Get (e_store e) s n q)" for n q
      using arg_cong [OF eq, of fst] get_updateState [of "ID na" "ID nb" ea] d(2) by auto
    moreover have "w' = snd (e_now e w)" using arg_cong [OF eq, of snd] by simp
    ultimately show ?thesis
      using now_kept [OF assms(1)] d h by (auto simp: known_def live_state_def)
  qed
next
  case False
  then have "s' = s" "w' = w"
    using assms(5) by (auto simp: record_identical_def split: option.splits if_splits)
  with False assms(1) show ?thesis by blast
qed

lemma record_loop:
  assumes "ok w" "distinct ps"
    and "\<And>p. entry_for p (fmlookup am p) (fmlookup (ca w) p)"
    and "\<And>p. p \<in> set ps \<Longrightarrow> fmlookup as p = st_Get (e_store e) s (ID na) p \<and>
                              fmlookup bs p = st_Get (e_store e) s (ID nb) p"
    and "fold (record_identical e na nb am bm as bs) ps (s, w) = (s', w')"
  shows "ok w' \<and> ca w' = ca w \<and> cb w' = cb w \<and>
    (\<forall>p. p \<notin> set ps \<longrightarrow> (\<forall>n. st_Get (e_store e) s' n p = st_Get (e_store e) s n p)) \<and>
    (\<forall>p ea eb d. p \<in> set ps \<longrightarrow> fmlookup am p = Some ea \<longrightarrow> fmlookup bm p = Some eb \<longrightarrow>
       fe_Hash ea = fe_Hash eb \<longrightarrow> fmlookup (ca w) p = Some d \<longrightarrow> known s' p d)"
  using assms
proof (induction ps arbitrary: s w)
  case Nil
  then show ?case by simp
next
  case (Cons q ps)
  obtain s1 w1 where step: "record_identical e na nb am bm as bs q (s, w) = (s1, w1)" by fastforce
  have 1: "ok w1 \<and> ca w1 = ca w \<and> cb w1 = cb w \<and>
    (\<forall>n p. p \<noteq> q \<longrightarrow> st_Get (e_store e) s1 n p = st_Get (e_store e) s n p) \<and>
    (\<forall>ea eb d. fmlookup am q = Some ea \<longrightarrow> fmlookup bm q = Some eb \<longrightarrow> fe_Hash ea = fe_Hash eb \<longrightarrow>
       fmlookup (ca w) q = Some d \<longrightarrow> known s1 q d)"
    using Cons.prems(3,4) by (intro record_step [OF Cons.prems(1) _ _ _ step]) simp_all
  have 2: "ok w' \<and> ca w' = ca w1 \<and> cb w' = cb w1 \<and>
    (\<forall>p. p \<notin> set ps \<longrightarrow> (\<forall>n. st_Get (e_store e) s' n p = st_Get (e_store e) s1 n p)) \<and>
    (\<forall>p ea eb d. p \<in> set ps \<longrightarrow> fmlookup am p = Some ea \<longrightarrow> fmlookup bm p = Some eb \<longrightarrow>
       fe_Hash ea = fe_Hash eb \<longrightarrow> fmlookup (ca w1) p = Some d \<longrightarrow> known s' p d)"
  proof (rule Cons.IH)
    fix p assume "p \<in> set ps"
    then have "p \<noteq> q" using Cons.prems(2) by auto
    then show "fmlookup as p = st_Get (e_store e) s1 (ID na) p \<and>
               fmlookup bs p = st_Get (e_store e) s1 (ID nb) p"
      using 1 Cons.prems(4) \<open>p \<in> set ps\<close> by simp
  qed (use 1 Cons.prems(2,3,5) step in \<open>simp_all\<close>)
  have "known s' q d = known s1 q d" for d
    using 2 Cons.prems(2) by (intro known_cong) simp
  with 1 2 show ?case by (metis set_ConsD list.set_intros)
qed

section \<open>A whole run\<close>

lemma listed_entry_for:
  assumes "distinct (map fe_Path fs)" "hash_map fs = fmmap hsh c"
  shows "entry_for p (fmlookup (map_from fe_Path id fs) p) (fmlookup c p)"
proof (cases "fmlookup c p")
  case None
  then have "fmlookup (hash_map fs) p = None" using assms(2) by simp
  with None show ?thesis by (simp add: entry_for_def split: option.splits)
next
  case (Some d)
  then have "fmlookup (hash_map fs) p = Some (hsh d)" using assms(2) by simp
  then obtain en where "en \<in> set fs" "fe_Path en = p" "fe_Hash en = hsh d"
    using map_from_value by fastforce
  with map_from_Some [OF this(1) assms(1), of id] Some show ?thesis by (simp add: entry_for_def)
qed

lemma listed_colon_free:
  assumes "distinct (map fe_Path fs)" "hash_map fs = fmmap hsh c"
  shows "colon_free fs"
  unfolding colon_free_def list_all_iff
proof
  fix en assume "en \<in> set fs"
  with map_from_Some [OF this assms(1), of fe_Hash] assms(2) have "fmlookup (fmmap hsh c) (fe_Path en) = Some (fe_Hash en)"
    by simp
  then obtain z where "hsh z = fe_Hash en" by auto
  then show "CHR '':'' \<notin> set (fe_Hash en)" using hsh_plain [of z] by simp
qed

lemma sync_listed_unwiped:
  assumes "checkNotWiped (ID na) fa (indexStates (st_All (e_store e) s (ID na))) = None"
    and "checkNotWiped (ID nb) fb (indexStates (st_All (e_store e) s (ID nb))) = None"
  shows "sync_listed sha e na nb fa fb (s, w) =
    (let am = map_from fe_Path id fa; bm = map_from fe_Path id fb;
         as = indexStates (st_All (e_store e) s (ID na)); bs = indexStates (st_All (e_store e) s (ID nb));
         rs = fold (sync_path e na nb am bm as bs) (Diff sha (BuildMerkleTree sha fa) (BuildMerkleTree sha fb))
                (empty_result, fold (record_identical e na nb am bm as bs) (range_keys am) (s, w))
     in (Inr (fst rs), snd rs))"
  using assms by (simp add: sync_listed_def Let_def Diff_def case_prod_unfold)

lemma same_hash_same_content:
  assumes "ok w" "fmlookup (fmmap hsh (ca w)) p = fmlookup (fmmap hsh (cb w)) p"
  shows "fmlookup (ca w) p = fmlookup (cb w) p"
  using assms hsh_inj [OF assms(1)]
  by (cases "fmlookup (ca w) p"; cases "fmlookup (cb w) p") (auto intro: fmran'I)

lemma run_settles:
  assumes ok: "ok w" and strategy: "e_strategy e \<noteq> KeepBoth" and keyed: "keyed (e_store e) s"
    and fa: "ListFiles na w = (Inr fa, w)" and fb: "ListFiles nb w = (Inr fb, w)"
    and nwa: "checkNotWiped (ID na) fa (indexStates (st_All (e_store e) s (ID na))) = None"
    and nwb: "checkNotWiped (ID nb) fb (indexStates (st_All (e_store e) s (ID nb))) = None"
    and cf: "collision_free sha (merkle_messages sha fa @ merkle_messages sha fb)"
  obtains r s' w' where "Sync sha e na nb (s, w) = (Inr r, (s', w'))" "sr_Errors r = []" "ok w'"
    "ca w' = cb w'" "\<And>p d. fmlookup (ca w') p = Some d \<Longrightarrow> known s' p d"
    "\<And>p. \<exists>u. ok u \<and> fmlookup (ca w') p =
       (if source_wins e (ID na) (ID nb) (fmlookup (map_from fe_Path id fa) p) (fmlookup (map_from fe_Path id fb) p)
             (st_Get (e_store e) s (ID na) p) (st_Get (e_store e) s (ID nb) p) u
        then fmlookup (ca w) p else fmlookup (cb w) p)"
proof -
  let ?am = "map_from fe_Path id fa" and ?bm = "map_from fe_Path id fb"
  let ?as = "indexStates (st_All (e_store e) s (ID na))" and ?bs = "indexStates (st_All (e_store e) s (ID nb))"
  let ?ps = "Diff sha (BuildMerkleTree sha fa) (BuildMerkleTree sha fb)"
  from a.lists [OF ok] fa have da: "distinct (map fe_Path fa)" and ha: "hash_map fa = fmmap hsh (ca w)" by auto
  from b.lists [OF ok] fb have db: "distinct (map fe_Path fb)" and hb: "hash_map fb = fmmap hsh (cb w)" by auto
  note ea = listed_entry_for [OF da ha] and eb = listed_entry_for [OF db hb]
  have diff: "?ps = sort (diff_paths (hash_map fa) (hash_map fb))"
    by (rule Diff_eq_sort [OF da db cf listed_colon_free [OF da ha] listed_colon_free [OF db hb]])
  obtain s1 w1 where rec: "fold (record_identical e na nb ?am ?bm ?as ?bs) (range_keys ?am) (s, w) = (s1, w1)"
    by fastforce
  note 1 = record_loop [OF ok distinct_range_keys ea _ rec]
  then have w1: "ok w1" "ca w1 = ca w" "cb w1 = cb w" by (simp_all add: index_lookup [OF keyed])
  obtain r s' w' where loop: "fold (sync_path e na nb ?am ?bm ?as ?bs) ?ps (empty_result, (s1, w1)) = (r, (s', w'))"
    by (metis prod.collapse)
  have 2: "sr_Errors r = sr_Errors empty_result \<and> all_settled ?am ?bm ?as ?bs ?ps (s1, w1) (s', w')"
    by (rule diff_loop_settles [OF w1(1) strategy _ _ _ loop])
      (simp_all add: diff distinct_diff_paths w1 ea eb)
  have same: "fmlookup (ca w) p = fmlookup (cb w) p" if "p \<notin> set ?ps" for p
    using that by (intro same_hash_same_content [OF ok]) (simp add: diff set_diff_paths ha hb)
  show thesis
  proof (rule that)
    show "Sync sha e na nb (s, w) = (Inr r, (s', w'))"
      by (simp add: Sync_def fa fb sync_listed_unwiped [OF nwa nwb] Let_def rec loop)
    show "sr_Errors r = []" "ok w'" using 2 by (simp_all add: empty_result_def all_settled_def)
    show eq: "ca w' = cb w'"
    proof (rule fmap_ext)
      fix p show "fmlookup (ca w') p = fmlookup (cb w') p"
        using 2 same [of p] w1 by (cases "p \<in> set ?ps") (auto simp: all_settled_def)
    qed
    fix p
    show "\<exists>u. ok u \<and> fmlookup (ca w') p =
       (if source_wins e (ID na) (ID nb) (fmlookup ?am p) (fmlookup ?bm p)
             (st_Get (e_store e) s (ID na) p) (st_Get (e_store e) s (ID nb) p) u
        then fmlookup (ca w) p else fmlookup (cb w) p)"
    proof (cases "p \<in> set ?ps")
      case True
      with 2 have "wins ?am ?bm ?as ?bs p w1 (fmlookup (ca w') p)"
        unfolding all_settled_def by (metis snd_conv)
      then show ?thesis unfolding wins_def w1(2,3) index_lookup [OF keyed] .
    next
      case False
      with 2 have "fmlookup (ca w') p = fmlookup (ca w) p" using w1 by (simp add: all_settled_def)
      with same [OF False] ok show ?thesis by auto
    qed
    fix d assume d: "fmlookup (ca w') p = Some d"
    show "known s' p d"
    proof (cases "p \<in> set ?ps")
      case True
      with 2 d show ?thesis by (simp add: all_settled_def)
    next
      case False
      with 2 w1 d have "fmlookup (ca w) p = Some d" by (simp add: all_settled_def)
      moreover from this same [OF False] have "fmlookup (cb w) p = Some d" by simp
      ultimately obtain xa xb where x: "fmlookup ?am p = Some xa" "fmlookup ?bm p = Some xb"
          "fe_Hash xa = fe_Hash xb" "fmlookup (ca w) p = Some d"
        using ea [of p] eb [of p] by (auto simp: entry_for_def split: option.splits)
      then have "p \<in> set (range_keys ?am)" by (metis fmdomI set_range_keys)
      with 1 x have "known s1 p d" by (simp add: index_lookup [OF keyed])
      moreover have "known s' p d = known s1 p d"
        using 2 False by (intro known_cong) (simp add: all_settled_def)
      ultimately show ?thesis by simp
    qed
  qed
qed

text \<open>When both nodes hold the same files and the store knows them, a run does nothing at all.\<close>
lemma run_idle:
  assumes ok: "ok w" and keyed: "keyed (e_store e) s" and same: "ca w = cb w" and files: "ca w \<noteq> fmempty"
    and known: "\<And>p d. fmlookup (ca w) p = Some d \<Longrightarrow> known s p d"
  shows "Sync sha e na nb (s, w) = (Inr empty_result, (s, w))"
proof -
  obtain fa where fa: "ListFiles na w = (Inr fa, w)" "distinct (map fe_Path fa)" "hash_map fa = fmmap hsh (ca w)"
    using a.lists [OF ok] by blast
  obtain fb where fb: "ListFiles nb w = (Inr fb, w)" "distinct (map fe_Path fb)" "hash_map fb = fmmap hsh (cb w)"
    using b.lists [OF ok] by blast
  let ?am = "map_from fe_Path id fa" and ?bm = "map_from fe_Path id fb"
  let ?as = "indexStates (st_All (e_store e) s (ID na))" and ?bs = "indexStates (st_All (e_store e) s (ID nb))"
  have step: "record_identical e na nb ?am ?bm ?as ?bs p (s, w) = (s, w)" for p
  proof (cases "fmlookup (ca w) p")
    case None
    with listed_entry_for [OF fa(2,3), of p] have "fmlookup ?am p = None"
      by (cases "fmlookup ?am p") (simp_all add: entry_for_def)
    then show ?thesis by (simp del: map_from_None add: record_identical_def)
  next
    case (Some d)
    then obtain xa xb where "fmlookup ?am p = Some xa" "fe_Hash xa = hsh d" "fmlookup ?bm p = Some xb" "fe_Hash xb = hsh d"
      using listed_entry_for [OF fa(2,3), of p] listed_entry_for [OF fb(2,3), of p] same
      by (auto simp: entry_for_def split: option.splits)
    with known [OF Some] show ?thesis
      by (auto simp: record_identical_def known_def index_lookup [OF keyed])
  qed
  note fold_id = fold_fixed_point [of _ "record_identical e na nb ?am ?bm ?as ?bs" "(s, w)", OF step]
  obtain p d where "fmlookup (ca w) p = Some d" "fmlookup (cb w) p = Some d"
    using files same by (metis fmap_ext fmempty_lookup not_None_eq)
  then have "fmlookup (hash_map fa) p \<noteq> None" "fmlookup (hash_map fb) p \<noteq> None"
    unfolding fa(3) fb(3) by simp_all
  then have "fa \<noteq> []" "fb \<noteq> []" by auto
  then have "sync_listed sha e na nb fa fb (s, w) = (Inr empty_result, (s, w))"
    using fa fb same listing_eq_root_eq [of fa fb sha] hash_map_eq_iff [of fa fb]
    by (simp add: sync_listed_unwiped checkNotWiped_def Let_def fold_id Diff_def)
  then show ?thesis by (simp add: Sync_def fa(1) fb(1))
qed

end

section \<open>The decision is a three-way merge\<close>

text \<open>The hash both nodes had after the last run, unless the file was deleted since or is unknown.\<close>
definition last_hash :: "FileState option \<Rightarrow> string option" where
  "last_hash x = (case x of None \<Rightarrow> None | Some st \<Rightarrow> if fs_Deleted st then None else Some (fs_Hash st))"

text \<open>Which side a three-way merge takes, given what both sides last agreed on.\<close>
definition three_way ::
  "ConflictStrategy \<Rightarrow> FileState option \<Rightarrow> FileEntry option \<Rightarrow> FileEntry option \<Rightarrow> bool" where
  "three_way strategy base ea eb =
     (case (ea, eb) of
        (None, None) \<Rightarrow> True
      | (Some x, None) \<Rightarrow> last_hash base \<noteq> Some (fe_Hash x)
      | (None, Some y) \<Rightarrow> last_hash base = Some (fe_Hash y)
      | (Some x, Some y) \<Rightarrow>
          (case base of None \<Rightarrow> True
           | Some st \<Rightarrow>
               if fe_Hash y = fs_Hash st then True
               else if fe_Hash x = fs_Hash st then False
               else (case strategy of KeepNewest \<Rightarrow> fe_ModTime x > fe_ModTime y
                     | KeepSource \<Rightarrow> True | KeepBoth \<Rightarrow> False)))"

definition headroom :: "string \<Rightarrow> string \<Rightarrow> FileState option \<Rightarrow> bool" where
  "headroom a b x = (case x of None \<Rightarrow> True
     | Some st \<Rightarrow> vc_at (fs_Clock st) a \<noteq> - 1 \<and> vc_at (fs_Clock st) b \<noteq> - 1)"

definition dated :: "FileEntry option \<Rightarrow> bool" where
  "dated x = (case x of None \<Rightarrow> True | Some en \<Rightarrow> \<not> time_IsZero (fe_ModTime en))"

lemma observe_clock:
  "fs_Clock (fst (observe e n entry x w)) =
     (if fs_Hash x = fe_Hash entry then fs_Clock x else Increment (fs_Clock x) n)"
  by (simp add: observe_def Let_def split: prod.splits)

lemma observe_dated:
  "\<not> time_IsZero (fe_ModTime entry) \<Longrightarrow> fs_Hash x \<noteq> fe_Hash entry \<Longrightarrow>
   fs_UpdatedAt (fst (observe e n entry x w)) = fe_ModTime entry"
  by (simp add: observe_def Let_def)

lemma source_wins_three_way:
  assumes "same_knowledge sa sb" "a \<noteq> b" "headroom a b sa" "dated ea" "dated eb"
  shows "source_wins e a b ea eb sa sb w = three_way (e_strategy e) sa ea eb"
  using assms(1)
proof (cases rule: same_knowledge_cases)
  case 1
  then show ?thesis
    by (auto simp: source_wins_def three_way_def last_hash_def split: option.splits)
next
  case (2 x y)
  show ?thesis
  proof (cases "ea = None \<or> eb = None")
    case True
    with 2 show ?thesis
      by (auto simp: source_wins_def three_way_def last_hash_def split: option.splits)
  next
    case False
    then obtain xa xb where en: "ea = Some xa" "eb = Some xb" by auto
    let ?c = "fs_Clock x"
    have h: "vc_at ?c a \<noteq> - 1" "vc_at ?c b \<noteq> - 1" using assms(3) 2(1) by (simp_all add: headroom_def)
    have cmp: "Compare (Increment ?c a) ?c = After" "Compare ?c (Increment ?c b) = Before"
      "Compare (Increment ?c a) (Increment ?c b) = Concurrent" "Compare ?c ?c = Equal"
      using h assms(2) by (simp_all add: sync_clock.cmp_inc_left sync_clock.cmp_inc_right
          sync_clock.cmp_inc_both sync_clock.cmp_refl)
    have dated: "\<not> time_IsZero (fe_ModTime xa)" "\<not> time_IsZero (fe_ModTime xb)"
      using assms(4,5) en by (simp_all add: dated_def)
    show ?thesis
      unfolding source_wins_def three_way_def
      using 2 en cmp
      by (cases "fs_Hash x = fe_Hash xa"; cases "fs_Hash x = fe_Hash xb")
        (auto simp: Let_def case_prod_unfold observe_clock
          observe_dated [OF dated(1)] observe_dated [OF dated(2)] split: ConflictStrategy.splits)
  qed
qed

end
