(* ===== verification/Storage_Laws.thy ===== *)
theory Storage_Laws
  imports Simple_Storage Sync_Correct
begin

text \<open>
  Two folders of one file system satisfy the contract of the engine: \<open>SimpleStorage\<close> is interpreted
  in \<open>sync_side\<close> and \<open>sync_pair\<close>. \<open>pair_ok\<close> says when: a well-formed tree, two existing folders that
  do not contain each other, no denied or faulty location below them, no file of one where the other
  has a directory (or below a file of the other), and contents that are not collisions of SHA-256.
\<close>

section \<open>Well-formed trees\<close>

definition is_under :: "location \<Rightarrow> location \<Rightarrow> bool" where
  "is_under l k = (take (length l) k = l)"

lemma is_under_iff: "is_under l k \<longleftrightarrow> (\<exists>cs. k = l @ cs)"
  unfolding is_under_def by (metis append_eq_conv_conj append_take_drop_id)

lemma is_under_append [simp]: "is_under l (l @ cs)"
  by (simp add: is_under_def)

definition fs_wf :: "fsys \<Rightarrow> bool" where
  "fs_wf fs \<longleftrightarrow>
     [] |\<in>| fs_dirs fs \<and>
     fBall (fs_dirs fs) (\<lambda>k. list_all plain k \<and> butlast k |\<in>| fs_dirs fs) \<and>
     fBall (fmdom (fs_files fs)) (\<lambda>k. k \<noteq> [] \<and> list_all plain k \<and> butlast k |\<in>| fs_dirs fs \<and> k |\<notin>| fs_dirs fs)"

lemma wf_dir:
  assumes "fs_wf fs" "k |\<in>| fs_dirs fs"
  shows "list_all plain k" "take i k |\<in>| fs_dirs fs"
proof -
  show "list_all plain k" using assms by (auto simp: fs_wf_def)
  have "take (length k - j) k |\<in>| fs_dirs fs" for j
  proof (induction j)
    case (Suc j)
    have "take (length k - Suc j) k = butlast (take (length k - j) k)"
      by (simp add: butlast_take)
    with Suc assms(1) show ?case by (auto simp: fs_wf_def)
  qed (simp add: assms)
  from this [of "length k - i"] show "take i k |\<in>| fs_dirs fs"
    by (cases "i \<le> length k") (simp_all add: assms)
qed

lemma wf_file:
  assumes "fs_wf fs" "k |\<in>| fmdom (fs_files fs)"
  shows "k \<noteq> []" "list_all plain k" "k |\<notin>| fs_dirs fs" "i < length k \<Longrightarrow> take i k |\<in>| fs_dirs fs"
proof -
  show k: "k \<noteq> []" "list_all plain k" "k |\<notin>| fs_dirs fs" using assms by (auto simp: fs_wf_def)
  assume "i < length k"
  then have "take i k = take i (butlast k)" by (simp add: take_butlast)
  moreover have "butlast k |\<in>| fs_dirs fs" using assms by (auto simp: fs_wf_def)
  ultimately show "take i k |\<in>| fs_dirs fs" using wf_dir(2) [OF assms(1)] by simp
qed

lemma wf_no_nested_files:
  assumes "fs_wf fs" "l @ cs |\<in>| fmdom (fs_files fs)" "l @ ds |\<in>| fmdom (fs_files fs)" "cs = take i ds"
  shows "cs = ds"
proof (rule ccontr)
  assume "cs \<noteq> ds"
  with assms(4) have "i < length ds" by (metis not_le take_all)
  then have "take (length l + i) (l @ ds) |\<in>| fs_dirs fs"
    using wf_file(4) [OF assms(1,3), of "length l + i"] by simp
  with assms(4) have "l @ cs |\<in>| fs_dirs fs" by simp
  with wf_file(3) [OF assms(1,2)] show False by simp
qed

section \<open>The files below a folder\<close>

definition rel_path :: "location \<Rightarrow> location \<Rightarrow> string" where
  "rel_path l k = join_with slash (drop (length l) k)"

definition files_below :: "fsys \<Rightarrow> location \<Rightarrow> location list" where
  "files_below fs l = filter (is_under l) (range_keys (fs_files fs))"

definition content_at :: "fsys \<Rightarrow> location \<Rightarrow> string" where
  "content_at fs k = (case fmlookup (fs_files fs) k of None \<Rightarrow> [] | Some (d, t) \<Rightarrow> d)"

text \<open>A folder as a map from relative paths to contents.\<close>
definition tree :: "fsys \<Rightarrow> location \<Rightarrow> (string, string) fmap" where
  "tree fs l = map_from (rel_path l) (content_at fs) (files_below fs l)"

lemma set_files_below: "set (files_below fs l) = {l @ cs | cs. l @ cs |\<in>| fmdom (fs_files fs)}"
  by (auto simp: files_below_def is_under_iff)

lemma distinct_files_below: "distinct (files_below fs l)"
  by (simp add: files_below_def)

lemma below_plain:
  assumes "fs_wf fs" "l |\<in>| fs_dirs fs" "l @ cs |\<in>| fmdom (fs_files fs)"
  shows "list_all plain cs" "cs \<noteq> []"
  using wf_file(2,3) [OF assms(1,3)] assms(2) by auto

lemma inj_rel_path:
  assumes "fs_wf fs" "l |\<in>| fs_dirs fs"
  shows "inj_on (rel_path l) (set (files_below fs l))"
proof (rule inj_onI)
  fix x y assume "x \<in> set (files_below fs l)" "y \<in> set (files_below fs l)" "rel_path l x = rel_path l y"
  then obtain cs ds where x: "x = l @ cs" "l @ cs |\<in>| fmdom (fs_files fs)"
      and y: "y = l @ ds" "l @ ds |\<in>| fmdom (fs_files fs)"
      and eq: "join_with slash cs = join_with slash ds"
    by (auto simp: set_files_below rel_path_def)
  have "cs = ds"
    by (rule join_plain_inj [OF below_plain [OF assms x(2)] below_plain [OF assms y(2)] eq])
  then show "x = y" by (simp add: x y)
qed

lemma file_content_iff:
  "k |\<in>| fmdom (fs_files fs) \<and> content_at fs k = d \<longleftrightarrow> (\<exists>t. fmlookup (fs_files fs) k = Some (d, t))"
proof (cases "fmlookup (fs_files fs) k")
  case None
  then show ?thesis by (simp add: fmdom_notI)
next
  case (Some x)
  then show ?thesis by (cases x) (simp add: content_at_def fmdomI)
qed

lemma tree_lookup:
  assumes "fs_wf fs" "l |\<in>| fs_dirs fs"
  shows "fmlookup (tree fs l) p = Some d \<longleftrightarrow>
         (\<exists>cs t. p = join_with slash cs \<and> fmlookup (fs_files fs) (l @ cs) = Some (d, t))"
proof -
  have "distinct (map (rel_path l) (files_below fs l))"
    using inj_rel_path [OF assms] distinct_files_below by (simp add: distinct_map)
  then have "fmlookup (tree fs l) p = Some d \<longleftrightarrow>
      (\<exists>k \<in> set (files_below fs l). rel_path l k = p \<and> content_at fs k = d)"
    unfolding tree_def by (rule map_from_Some_iff)
  also have "\<dots> \<longleftrightarrow> (\<exists>cs. p = join_with slash cs \<and> l @ cs |\<in>| fmdom (fs_files fs) \<and> content_at fs (l @ cs) = d)"
    by (auto simp: set_files_below rel_path_def)
  also have "\<dots> \<longleftrightarrow> (\<exists>cs t. p = join_with slash cs \<and> fmlookup (fs_files fs) (l @ cs) = Some (d, t))"
    by (simp add: file_content_iff)
  finally show ?thesis .
qed

lemma tree_at:
  assumes "fs_wf fs" "l |\<in>| fs_dirs fs" "list_all plain cs" "cs \<noteq> []"
  shows "fmlookup (tree fs l) (join_with slash cs) = map_option fst (fmlookup (fs_files fs) (l @ cs))"
proof (cases "fmlookup (fs_files fs) (l @ cs)")
  case (Some x)
  then have "fmlookup (tree fs l) (join_with slash cs) = Some (fst x)"
    unfolding tree_lookup [OF assms(1,2)] by (metis prod.collapse)
  with Some show ?thesis by simp
next
  case None
  have "fmlookup (tree fs l) (join_with slash cs) \<noteq> Some d" for d
  proof
    assume "fmlookup (tree fs l) (join_with slash cs) = Some d"
    then obtain ds t where ds: "join_with slash cs = join_with slash ds"
        "fmlookup (fs_files fs) (l @ ds) = Some (d, t)"
      using tree_lookup [OF assms(1,2)] by blast
    have "cs = ds"
      by (rule join_plain_inj [OF assms(3,4) below_plain [OF assms(1,2) fmdomI [OF ds(2)]] ds(1)])
    with ds(2) None show False by simp
  qed
  with None show ?thesis by (cases "fmlookup (tree fs l) (join_with slash cs)") auto
qed

lemma tree_path:
  assumes "fs_wf fs" "l |\<in>| fs_dirs fs" "fmlookup (tree fs l) p = Some d"
  obtains cs t where "p = join_with slash cs" "list_all plain cs" "cs \<noteq> []"
    "fmlookup (fs_files fs) (l @ cs) = Some (d, t)"
proof -
  obtain cs t where "p = join_with slash cs" "fmlookup (fs_files fs) (l @ cs) = Some (d, t)"
    using assms tree_lookup by blast
  with below_plain [OF assms(1,2)] that show thesis by (metis fmdomI)
qed

section \<open>What the operations do\<close>

lemma fs_cwd_update [simp]:
  "at (fs\<lparr>fs_files := f\<rparr>) p = at fs p" "at (fs\<lparr>fs_dirs := d\<rparr>) p = at fs p"
  "at (fs\<lparr>fs_clock := c\<rparr>) p = at fs p"
  by (simp_all add: at_def)

text \<open>The locations on the way to a folder.\<close>
definition way :: "location \<Rightarrow> location \<Rightarrow> location fset" where
  "way l rest = fset_of_list (map (\<lambda>i. l @ take i rest) [0..<Suc (length rest)])"

lemma way_iff: "k |\<in>| way l rest \<longleftrightarrow> (\<exists>i \<le> length rest. k = l @ take i rest)"
  by (auto simp: way_def fset_of_list_elem image_iff less_Suc_eq_le Bex_def simp del: upt_Suc)

lemma way_Nil [simp]: "way l [] = {|l|}"
  by (simp add: way_def)

lemma way_Cons: "way l (c # cs) = finsert l (way (l @ [c]) cs)"
proof -
  have "k |\<in>| way l (c # cs) \<longleftrightarrow> k |\<in>| finsert l (way (l @ [c]) cs)" for k
  proof
    assume "k |\<in>| way l (c # cs)"
    then obtain i where i: "i \<le> Suc (length cs)" "k = l @ take i (c # cs)" by (auto simp: way_iff)
    then show "k |\<in>| finsert l (way (l @ [c]) cs)" by (cases i) (auto simp: way_iff)
  next
    assume "k |\<in>| finsert l (way (l @ [c]) cs)"
    then consider "k = l" | i where "i \<le> length cs" "k = l @ [c] @ take i cs" by (auto simp: way_iff)
    then show "k |\<in>| way l (c # cs)"
    proof cases
      case 1
      then show ?thesis unfolding way_iff by (intro exI [of _ 0]) simp
    next
      case 2
      then show ?thesis unfolding way_iff by (intro exI [of _ "Suc i"]) simp
    qed
  qed
  then show ?thesis by blast
qed

lemma mkdirs_done:
  assumes "\<And>k. k |\<in>| way l rest \<Longrightarrow> k |\<notin>| fmdom (fs_files fs) \<and> (k |\<in>| fs_dirs fs \<or> k |\<notin>| fs_denied fs)"
  shows "mkdirs path l rest fs = (Inr (), fs\<lparr>fs_dirs := fs_dirs fs |\<union>| way l rest\<rparr>)"
  using assms
proof (induction rest arbitrary: l fs)
  case Nil
  then show ?case by (subst mkdirs.simps) (auto simp: finsert_absorb)
next
  case (Cons c cs)
  have l: "l |\<notin>| fmdom (fs_files fs)" "l |\<in>| fs_dirs fs \<or> l |\<notin>| fs_denied fs"
    using Cons.prems [of l] by (simp_all add: way_Cons)
  have IH: "mkdirs path (l @ [c]) cs fs' = (Inr (), fs'\<lparr>fs_dirs := fs_dirs fs' |\<union>| way (l @ [c]) cs\<rparr>)"
    if "fs' = fs \<or> fs' = fs\<lparr>fs_dirs := finsert l (fs_dirs fs)\<rparr>" for fs'
    using that Cons.prems by (intro Cons.IH) (auto simp: way_Cons, blast)
  show ?case
    using l IH by (subst mkdirs.simps) (auto simp: way_Cons finsert_absorb)
qed

lemma resolve_plain:
  assumes "list_all plain cs" "cs \<noteq> []"
  shows "ss_resolve s (join_with slash cs) = Inr (Join (ss_rootPath s) (join_with slash cs))"
    and "at fs (Join (ss_rootPath s) (join_with slash cs)) = at fs (ss_rootPath s) @ cs"
    and "at fs (Dir (Join (ss_rootPath s) (join_with slash cs))) = at fs (ss_rootPath s) @ butlast cs"
  by (simp_all add: ss_resolve_def join_plain_local [OF assms] at_def locate_Join_plain [OF assms]
      locate_Dir_Join [OF assms])

lemma read_done:
  assumes "list_all plain cs" "cs \<noteq> []" "fmlookup (fs_files fs) (at fs (ss_rootPath s) @ cs) = Some (d, t)"
    and "at fs (ss_rootPath s) @ cs |\<notin>| fs_denied fs" "fmlookup (fs_bad fs) (at fs (ss_rootPath s) @ cs) = None"
  shows "ss_ReadFile s (join_with slash cs) fs = (Inr (Reader d None), fs)"
  using assms by (simp add: ss_ReadFile_def resolve_plain os_Open_def Let_def)

lemma delete_done:
  assumes "list_all plain cs" "cs \<noteq> []" "at fs (ss_rootPath s) @ cs |\<in>| fmdom (fs_files fs)"
    and "at fs (ss_rootPath s) @ cs |\<notin>| fs_denied fs"
  shows "ss_DeleteFile s (join_with slash cs) fs =
         (Inr (), fs\<lparr>fs_files := fmdrop (at fs (ss_rootPath s) @ cs) (fs_files fs)\<rparr>)"
  using assms by (simp add: ss_DeleteFile_def resolve_plain os_Remove_def Let_def)

text \<open>A write that meets no obstacle makes the folders on the way and the file.\<close>
lemma write_done:
  fixes s and fs
  defines "l \<equiv> at fs (ss_rootPath s)"
  assumes cs: "list_all plain cs" "cs \<noteq> []"
    and way: "\<And>k. k |\<in>| way [] (l @ butlast cs) \<Longrightarrow>
              k |\<notin>| fmdom (fs_files fs) \<and> (k |\<in>| fs_dirs fs \<or> k |\<notin>| fs_denied fs)"
    and new: "l @ cs |\<notin>| fs_denied fs" "l @ cs |\<notin>| fs_dirs fs"
  shows "ss_WriteFile s (join_with slash cs) (Reader d None) fs =
    (Inr (), fs\<lparr>fs_dirs := fs_dirs fs |\<union>| way [] (l @ butlast cs),
                fs_files := fmupd (l @ cs) (d, fs_clock fs) (fs_files fs)\<rparr>)"
proof -
  let ?fs1 = "fs\<lparr>fs_dirs := fs_dirs fs |\<union>| way [] (l @ butlast cs)\<rparr>"
  have mk: "os_MkdirAll (Dir (Join (ss_rootPath s) (join_with slash cs))) fs = (Inr (), ?fs1)"
    using mkdirs_done [OF way] by (simp add: os_MkdirAll_def resolve_plain [OF cs] l_def [symmetric])
  have "l @ cs |\<notin>| way [] (l @ butlast cs)"
  proof
    assume "l @ cs |\<in>| way [] (l @ butlast cs)"
    then obtain i where "l @ cs = take i (l @ butlast cs)" by (auto simp: way_iff)
    then have "length (l @ cs) \<le> length (l @ butlast cs)" by (metis length_take min.cobounded1)
    moreover have "length (l @ butlast cs) < length (l @ cs)" using cs(2) by simp
    ultimately show False by linarith
  qed
  moreover have "butlast (l @ cs) |\<in>| way [] (l @ butlast cs)"
    using cs(2) by (auto simp: way_iff butlast_append intro: exI [of _ "length (l @ butlast cs)"])
  ultimately have "os_Create (Join (ss_rootPath s) (join_with slash cs)) ?fs1 =
      (Inr (l @ cs), ?fs1\<lparr>fs_files := fmupd (l @ cs) ([], fs_clock fs) (fs_files fs)\<rparr>)"
    using new by (simp add: os_Create_def resolve_plain [OF cs] Let_def l_def [symmetric])
  then show ?thesis
    by (simp add: ss_WriteFile_def resolve_plain [OF cs] mk io_Copy_def)
qed

section \<open>Two folders in good order\<close>

definition healthy :: "fsys \<Rightarrow> location \<Rightarrow> bool" where
  "healthy fs l \<longleftrightarrow>
     fBall (fs_denied fs) (\<lambda>k. \<not> is_under l k) \<and> fBall (fmdom (fs_bad fs)) (\<lambda>k. \<not> is_under l k)"

text \<open>A file with these names can be put below \<open>l\<close>.\<close>
definition fits :: "fsys \<Rightarrow> location \<Rightarrow> location \<Rightarrow> bool" where
  "fits fs l cs \<longleftrightarrow>
     l @ cs |\<notin>| fs_dirs fs \<and> list_all (\<lambda>i. l @ take i cs |\<notin>| fmdom (fs_files fs)) [0..<length cs]"

definition compatible :: "fsys \<Rightarrow> location \<Rightarrow> location \<Rightarrow> bool" where
  "compatible fs la lb \<longleftrightarrow> list_all (\<lambda>k. fits fs lb (drop (length la) k)) (files_below fs la)"

definition pair_ok :: "hash_fun \<Rightarrow> SimpleStorage \<Rightarrow> SimpleStorage \<Rightarrow> fsys \<Rightarrow> bool" where
  "pair_ok sha a b fs \<longleftrightarrow>
     (let la = at fs (ss_rootPath a); lb = at fs (ss_rootPath b) in
      ss_id a \<noteq> ss_id b \<and> fs_wf fs \<and> la |\<in>| fs_dirs fs \<and> lb |\<in>| fs_dirs fs \<and>
      \<not> is_under la lb \<and> \<not> is_under lb la \<and> healthy fs la \<and> healthy fs lb \<and>
      compatible fs la lb \<and> compatible fs lb la \<and>
      collision_free sha (map (content_at fs) (files_below fs la @ files_below fs lb)))"

lemma fits_iff:
  "fits fs l cs \<longleftrightarrow> l @ cs |\<notin>| fs_dirs fs \<and> (\<forall>i < length cs. l @ take i cs |\<notin>| fmdom (fs_files fs))"
  by (auto simp: fits_def list_all_iff)

lemma compatible_iff:
  "compatible fs la lb \<longleftrightarrow> (\<forall>cs. la @ cs |\<in>| fmdom (fs_files fs) \<longrightarrow> fits fs lb cs)"
  by (auto simp: compatible_def list_all_iff set_files_below)

lemma healthyD: "healthy fs l \<Longrightarrow> l @ cs |\<notin>| fs_denied fs" "healthy fs l \<Longrightarrow> fmlookup (fs_bad fs) (l @ cs) = None"
  unfolding healthy_def by (auto intro!: fmdom_notD)

lemma pair_ok_sym: "pair_ok sha a b fs = pair_ok sha b a fs"
  by (auto simp: pair_ok_def Let_def collision_free_iff Un_commute)

lemma pair_okD:
  assumes "pair_ok sha a b fs"
  defines "la \<equiv> at fs (ss_rootPath a)" and "lb \<equiv> at fs (ss_rootPath b)"
  shows "ss_id a \<noteq> ss_id b" "fs_wf fs" "la |\<in>| fs_dirs fs" "lb |\<in>| fs_dirs fs" "\<not> is_under la lb" "\<not> is_under lb la"
    "healthy fs la" "healthy fs lb" "compatible fs la lb" "compatible fs lb la"
    "inj_on sha (content_at fs ` (set (files_below fs la) \<union> set (files_below fs lb)))"
  using assms unfolding pair_ok_def Let_def la_def lb_def by (simp_all add: collision_free_iff image_Un)

lemma apart_append: "\<not> is_under la lb \<Longrightarrow> \<not> is_under lb la \<Longrightarrow> la @ cs \<noteq> lb @ ds"
  by (auto simp: is_under_iff append_eq_append_conv2)

section \<open>The listing\<close>

lemma walk_files_done:
  assumes "\<And>l. l \<in> set ls \<Longrightarrow> l |\<in>| fs_dirs fs \<Longrightarrow> l |\<notin>| fs_denied fs"
    and "\<And>l. l \<in> set ls \<Longrightarrow> l |\<notin>| fs_dirs fs \<Longrightarrow> hashLocalFile sha fs (walk_path rp root l) = Inr (h l)"
  shows "walk_files sha fs rp root ls acc =
    Inr (acc @ map (\<lambda>l. file_entry fs rp (walk_path rp root l) l (h l)) (filter (\<lambda>l. l |\<notin>| fs_dirs fs) ls))"
  using assms by (induction ls arbitrary: acc) (simp_all add: Let_def)

lemma set_walk_order: "set (walk_order fs root) = {l. is_under root l \<and> (l |\<in>| fs_dirs fs \<or> l |\<in>| fmdom (fs_files fs))}"
  by (auto simp: walk_order_def is_under_def)

lemma listing_done:
  fixes fs s
  defines "l \<equiv> at fs (ss_rootPath s)"
  assumes wf: "fs_wf fs" and root: "l |\<in>| fs_dirs fs" and healthy: "healthy fs l"
  obtains es where "ss_ListFiles sha s fs = (Inr es, fs)" "distinct (map fe_Path es)"
    "hash_map es = fmmap (hex_sum sha) (tree fs l)"
    "\<And>en. en \<in> set es \<Longrightarrow> \<exists>k d. k |\<in>| fmdom (fs_files fs) \<and> fmlookup (fs_files fs) k = Some (d, fe_ModTime en)"
proof -
  let ?rp = "ss_rootPath s"
  define ks where "ks = filter (\<lambda>k. k |\<notin>| fs_dirs fs) (walk_order fs l)"
  define entry where "entry k = file_entry fs ?rp (walk_path ?rp l k) k (hex_sum sha (content_at fs k))" for k
  have ks: "set ks = set (files_below fs l)"
    using wf_file(3) [OF wf] by (auto simp: ks_def set_walk_order set_files_below is_under_iff)
  have path: "walk_path ?rp l k = Join ?rp (rel_path l k)" "at fs (walk_path ?rp l k) = k"
      "Rel ?rp (walk_path ?rp l k) = Inr (rel_path l k)" if below: "k \<in> set (files_below fs l)" for k
  proof -
    obtain cs where k: "k = l @ cs" "l @ cs |\<in>| fmdom (fs_files fs)" using below by (auto simp: set_files_below)
    note cs = below_plain [OF wf root k(2)]
    show 1: "walk_path ?rp l k = Join ?rp (rel_path l k)"
      using cs(2) by (simp add: walk_path_def rel_path_def k)
    show "at fs (walk_path ?rp l k) = k" and "Rel ?rp (walk_path ?rp l k) = Inr (rel_path l k)"
      unfolding 1 using resolve_plain(2) [OF cs, of fs s] Rel_Join [OF cs] by (simp_all add: rel_path_def k l_def)
  qed
  have hash: "hashLocalFile sha fs (walk_path ?rp l k) = Inr (hex_sum sha (content_at fs k))"
    if below: "k \<in> set (files_below fs l)" for k
  proof -
    obtain cs d t where "k = l @ cs" "fmlookup (fs_files fs) k = Some (d, t)"
      using below by (auto simp: set_files_below dest!: fmlookup_dom_iff [THEN iffD1])
    then show ?thesis
      using path(2) [OF below] healthyD [OF healthy, of cs]
      by (simp add: hashLocalFile_def os_Open_def Let_def content_at_def)
  qed
  have walk: "walk_files sha fs ?rp l (walk_order fs l) [] = Inr (map entry ks)"
    unfolding entry_def ks_def
    by (subst walk_files_done [where h = "\<lambda>k. hex_sum sha (content_at fs k)"])
      (use hash healthyD(1) [OF healthy] in \<open>auto simp: set_walk_order set_files_below is_under_iff\<close>)
  have entry: "fe_Path (entry k) = rel_path l k" "fe_Hash (entry k) = hex_sum sha (content_at fs k)"
    if "k \<in> set ks" for k
    using path(3) that by (simp_all add: entry_def file_entry_def ks)
  have dist: "distinct (map fe_Path (map entry ks))"
  proof -
    have "distinct ks" by (simp add: ks_def walk_order_def sorted_list_of_fset.rep_eq)
    moreover have "map fe_Path (map entry ks) = map (rel_path l) ks" using entry(1) by simp
    ultimately show ?thesis
      using inj_rel_path [OF wf root] by (simp add: distinct_map ks del: map_map)
  qed
  have "fmlookup (hash_map (map entry ks)) p = fmlookup (fmmap (hex_sum sha) (tree fs l)) p" for p
  proof -
    have "fmlookup (hash_map (map entry ks)) p = Some h \<longleftrightarrow>
        (\<exists>k \<in> set (files_below fs l). rel_path l k = p \<and> hex_sum sha (content_at fs k) = h)" for h
      unfolding map_from_Some_iff [OF dist] using entry ks by auto
    moreover have "fmlookup (fmmap (hex_sum sha) (tree fs l)) p = Some h \<longleftrightarrow>
        (\<exists>k \<in> set (files_below fs l). rel_path l k = p \<and> hex_sum sha (content_at fs k) = h)" for h
    proof -
      have "distinct (map (rel_path l) (files_below fs l))"
        using inj_rel_path [OF wf root] distinct_files_below by (simp add: distinct_map)
      then have "fmlookup (tree fs l) p = Some d \<longleftrightarrow>
          (\<exists>k \<in> set (files_below fs l). rel_path l k = p \<and> content_at fs k = d)" for d
        unfolding tree_def by (rule map_from_Some_iff)
      then show ?thesis by auto
    qed
    ultimately show ?thesis by (metis not_None_eq)
  qed
  then have map: "hash_map (map entry ks) = fmmap (hex_sum sha) (tree fs l)" by (rule fmap_ext)
  show thesis
  proof (rule that [OF _ dist map])
    show "ss_ListFiles sha s fs = (Inr (map entry ks), fs)"
      using walk root by (simp add: ss_ListFiles_def Let_def l_def [symmetric])
    fix en assume "en \<in> set (map entry ks)"
    then obtain k where k: "k \<in> set (files_below fs l)" "en = entry k" using ks by auto
    then have dom: "k |\<in>| fmdom (fs_files fs)" by (auto simp: set_files_below)
    then obtain d t where "fmlookup (fs_files fs) k = Some (d, t)" by (auto simp: fmlookup_dom_iff)
    with dom show "\<exists>k d. k |\<in>| fmdom (fs_files fs) \<and> fmlookup (fs_files fs) k = Some (d, fe_ModTime en)"
      by (intro exI [of _ k] exI [of _ d]) (simp add: k entry_def file_entry_def)
  qed
qed

section \<open>Writing and deleting keep the folders in order\<close>

text \<open>The tree after a file was written at \<open>m\<close>.\<close>
definition written :: "fsys \<Rightarrow> location \<Rightarrow> string \<Rightarrow> fsys" where
  "written fs m d =
     fs\<lparr>fs_dirs := fs_dirs fs |\<union>| way [] (butlast m), fs_files := fmupd m (d, fs_clock fs) (fs_files fs)\<rparr>"

lemma way_butlast:
  assumes "m \<noteq> []"
  shows "k |\<in>| way [] (butlast m) \<longleftrightarrow> (\<exists>i < length m. k = take i m)"
proof -
  have "(i \<le> length (butlast m)) = (i < length m)" for i
    using assms by (cases m) (simp_all add: less_Suc_eq_le)
  moreover have "i < length m \<Longrightarrow> take i (butlast m) = take i m" for i by (rule take_butlast)
  ultimately show ?thesis unfolding way_iff by auto
qed

lemma dirs_written: "m \<noteq> [] \<Longrightarrow>
  k |\<in>| fs_dirs (written fs m d) \<longleftrightarrow> k |\<in>| fs_dirs fs \<or> (\<exists>i < length m. k = take i m)"
  by (simp add: written_def way_butlast)

lemma files_written:
  "fmlookup (fs_files (written fs m d)) k = (if k = m then Some (d, fs_clock fs) else fmlookup (fs_files fs) k)"
  by (simp add: written_def)

lemma dom_written: "k |\<in>| fmdom (fs_files (written fs m d)) \<longleftrightarrow> k = m \<or> k |\<in>| fmdom (fs_files fs)"
  by (auto simp: written_def)

text \<open>The directories made on the way below \<open>la\<close>.\<close>
lemma new_dir_below:
  assumes "fs_wf fs" "la |\<in>| fs_dirs fs" "i < length (la @ cs)" "take i (la @ cs) |\<notin>| fs_dirs fs"
  obtains j where "j < length cs" "take i (la @ cs) = la @ take j cs"
proof (cases "i \<le> length la")
  case True
  then have "take i (la @ cs) |\<in>| fs_dirs fs" using wf_dir(2) [OF assms(1,2), of i] by simp
  with assms(4) show thesis by simp
next
  case False
  with assms(3) that [of "i - length la"] show thesis by simp
qed

lemma no_file_on_way:
  assumes "fs_wf fs" "la |\<in>| fs_dirs fs" "fits fs la cs" "i < length (la @ cs)"
  shows "take i (la @ cs) |\<notin>| fmdom (fs_files fs)"
proof
  assume f: "take i (la @ cs) |\<in>| fmdom (fs_files fs)"
  then have "take i (la @ cs) |\<notin>| fs_dirs fs" using wf_file(3) [OF assms(1)] by simp
  then obtain j where "j < length cs" "take i (la @ cs) = la @ take j cs"
    using new_dir_below [OF assms(1,2,4)] by blast
  with f assms(3) show False by (auto simp: fits_iff)
qed

lemma wf_written:
  assumes wf: "fs_wf fs" and m: "m \<noteq> []" "list_all plain m" "m |\<notin>| fs_dirs fs"
    and nofile: "\<And>i. i < length m \<Longrightarrow> take i m |\<notin>| fmdom (fs_files fs)"
  shows "fs_wf (written fs m d)"
proof -
  have pl: "list_all plain (take i m)" for i using m(2) by (metis append_take_drop_id list_all_append)
  have proper: "m \<noteq> take i m" if "i < length m" for i using that by (metis length_take min.absorb4 less_irrefl)
  have bl: "butlast (take i m) = take (i - 1) m" "i - 1 < length m" if "i < length m" for i
    using that by (simp_all add: butlast_take)
  show ?thesis
    unfolding fs_wf_def
  proof (intro conjI fBallI)
    show "[] |\<in>| fs_dirs (written fs m d)" using wf m(1) by (simp add: dirs_written fs_wf_def)
  next
    fix k assume k: "k |\<in>| fs_dirs (written fs m d)"
    show "list_all plain k" using k m(1) pl wf_dir(1) [OF wf] by (auto simp: dirs_written)
    show "butlast k |\<in>| fs_dirs (written fs m d)"
      using k m(1) bl wf by (auto simp: dirs_written fs_wf_def) metis
  next
    fix k assume k: "k |\<in>| fmdom (fs_files (written fs m d))"
    show "k \<noteq> []" "list_all plain k" using k m wf_file(1,2) [OF wf, of k] by (auto simp: dom_written)
    show "butlast k |\<in>| fs_dirs (written fs m d)"
      using k m(1) wf by (auto simp: dom_written dirs_written fs_wf_def butlast_conv_take
          intro!: exI [of _ "length m - 1"])
    show "k |\<notin>| fs_dirs (written fs m d)"
      using k m nofile proper wf_file(3) [OF wf, of k] by (auto simp: dom_written dirs_written)
  qed
qed

lemma files_below_written:
  "set (files_below (written fs m d) l) = set (files_below fs l) \<union> (if is_under l m then {m} else {})"
  by (auto simp: set_files_below dom_written is_under_iff)

lemma content_written: "content_at (written fs m d) k = (if k = m then d else content_at fs k)"
  by (simp add: content_at_def files_written)

text \<open>A file of the folder at \<open>lb\<close>, copied to the same place below \<open>la\<close>.\<close>
lemma compatible_written:
  assumes wf: "fs_wf fs" and la: "la |\<in>| fs_dirs fs" and lb: "lb |\<in>| fs_dirs fs"
    and apart: "\<not> is_under la lb" "\<not> is_under lb la"
    and ab: "compatible fs la lb" and ba: "compatible fs lb la"
    and src: "lb @ cs |\<in>| fmdom (fs_files fs)" and cs: "cs \<noteq> []"
  shows "compatible (written fs (la @ cs) d) la lb" "compatible (written fs (la @ cs) d) lb la"
proof -
  let ?fs = "written fs (la @ cs) d"
  have m: "la @ cs \<noteq> []" using cs by simp
  have dirs: "k |\<in>| fs_dirs ?fs \<longleftrightarrow> k |\<in>| fs_dirs fs \<or> (\<exists>j < length cs. k = la @ take j cs)" for k
    using new_dir_below [OF wf la, of _ cs] unfolding dirs_written [OF m]
    by (metis add_less_cancel_left length_append take_add append_eq_conv_conj take_append)
  have no_a: "la @ ds \<noteq> lb @ es" for ds es using apart by (rule apart_append)
  show "compatible ?fs la lb"
    unfolding compatible_iff
  proof (intro allI impI)
    fix ds assume "la @ ds |\<in>| fmdom (fs_files ?fs)"
    then consider "ds = cs" | "la @ ds |\<in>| fmdom (fs_files fs)" by (auto simp: dom_written)
    then have "fits fs lb ds"
    proof cases
      case 1
      have "lb @ take i cs |\<notin>| fmdom (fs_files fs)" if "i < length cs" for i
        using wf_no_nested_files [OF wf _ src, of "take i cs" i] that by auto
      then show ?thesis using wf_file(3) [OF wf src] 1 by (simp add: fits_iff)
    next
      case 2
      then show ?thesis using ab by (simp add: compatible_iff)
    qed
    then show "fits ?fs lb ds" using no_a [symmetric] by (auto simp: fits_iff dirs dom_written)
  qed
  show "compatible ?fs lb la"
    unfolding compatible_iff
  proof (intro allI impI)
    fix ds assume "lb @ ds |\<in>| fmdom (fs_files ?fs)"
    then have ds: "lb @ ds |\<in>| fmdom (fs_files fs)" using no_a [symmetric] by (auto simp: dom_written)
    then have "fits fs la ds" using ba by (simp add: compatible_iff)
    moreover have "ds \<noteq> take j cs" if "j < length cs" for j
      using wf_no_nested_files [OF wf ds src, of j] that by auto
    moreover have "cs \<noteq> take j ds" if "j < length ds" for j
      using wf_no_nested_files [OF wf src ds, of j] that by auto
    ultimately show "fits ?fs la ds" by (auto simp: fits_iff dirs dom_written)
  qed
qed

lemma tree_eqI:
  assumes "fs_wf fs" "l |\<in>| fs_dirs fs"
    and "\<And>ds. list_all plain ds \<Longrightarrow> ds \<noteq> [] \<Longrightarrow>
           fmlookup M (join_with slash ds) = map_option fst (fmlookup (fs_files fs) (l @ ds))"
    and "\<And>q x. fmlookup M q = Some x \<Longrightarrow> \<exists>ds. list_all plain ds \<and> ds \<noteq> [] \<and> q = join_with slash ds"
  shows "tree fs l = M"
proof (rule fmap_ext)
  fix q
  show "fmlookup (tree fs l) q = fmlookup M q"
  proof (cases "\<exists>ds. list_all plain ds \<and> ds \<noteq> [] \<and> q = join_with slash ds")
    case True
    then show ?thesis using tree_at [OF assms(1,2)] assms(3) by auto
  next
    case False
    then have "fmlookup M q = None" using assms(4) by (meson not_None_eq)
    moreover have "fmlookup (tree fs l) q = None"
      using False tree_path [OF assms(1,2), of q] by (metis not_None_eq)
    ultimately show ?thesis by simp
  qed
qed

lemma tree_keys:
  assumes "fs_wf fs" "l |\<in>| fs_dirs fs" "fmlookup (tree fs l) q = Some x"
  shows "\<exists>ds. list_all plain ds \<and> ds \<noteq> [] \<and> q = join_with slash ds"
  using tree_path [OF assms] by metis

lemma tree_written:
  assumes "fs_wf fs" "fs_wf (written fs (la @ cs) d)" "la |\<in>| fs_dirs fs" "list_all plain cs" "cs \<noteq> []"
  shows "tree (written fs (la @ cs) d) la = fmupd (join_with slash cs) d (tree fs la)"
proof (rule tree_eqI [OF assms(2)])
  show "la |\<in>| fs_dirs (written fs (la @ cs) d)" using assms(3,5) by (simp add: dirs_written)
next
  fix ds :: location assume ds: "list_all plain ds" "ds \<noteq> []"
  show "fmlookup (fmupd (join_with slash cs) d (tree fs la)) (join_with slash ds) =
        map_option fst (fmlookup (fs_files (written fs (la @ cs) d)) (la @ ds))"
    using tree_at [OF assms(1,3) ds] join_plain_inj [OF assms(4,5) ds]
    by (cases "ds = cs") (auto simp: files_written)
next
  fix q x assume "fmlookup (fmupd (join_with slash cs) d (tree fs la)) q = Some x"
  then show "\<exists>ds. list_all plain ds \<and> ds \<noteq> [] \<and> q = join_with slash ds"
    using assms(4,5) tree_keys [OF assms(1,3), of q] by (cases "q = join_with slash cs") auto
qed

lemma tree_written_other:
  assumes "fs_wf fs" "fs_wf (written fs m d)" "lb |\<in>| fs_dirs fs" "m \<noteq> []" "\<not> is_under lb m"
  shows "tree (written fs m d) lb = tree fs lb"
proof (rule tree_eqI [OF assms(2)])
  show "lb |\<in>| fs_dirs (written fs m d)" using assms(3,4) by (simp add: dirs_written)
next
  fix ds :: location assume ds: "list_all plain ds" "ds \<noteq> []"
  have "lb @ ds \<noteq> m" using assms(5) by auto
  then show "fmlookup (tree fs lb) (join_with slash ds) = map_option fst (fmlookup (fs_files (written fs m d)) (lb @ ds))"
    using tree_at [OF assms(1,3) ds] by (simp add: files_written)
qed (rule tree_keys [OF assms(1,3)])

lemma pair_ok_write:
  assumes ok: "pair_ok sha a b fs" and d: "fmlookup (tree fs (at fs (ss_rootPath b))) p = Some d"
  defines "la \<equiv> at fs (ss_rootPath a)" and "lb \<equiv> at fs (ss_rootPath b)"
  shows "\<exists>fs'. ss_WriteFile a p (Reader d None) fs = (Inr (), fs') \<and> pair_ok sha a b fs' \<and>
           tree fs' (at fs' (ss_rootPath a)) = fmupd p d (tree fs la) \<and>
           tree fs' (at fs' (ss_rootPath b)) = tree fs lb"
proof -
  note okD = pair_okD [OF ok, folded la_def lb_def]
  obtain cs t where p: "p = join_with slash cs" and cs: "list_all plain cs" "cs \<noteq> []"
      and fb: "fmlookup (fs_files fs) (lb @ cs) = Some (d, t)"
    using tree_path [OF okD(2,4) d [folded lb_def]] by blast
  let ?m = "la @ cs" and ?fs = "written fs (la @ cs) d"
  have src: "lb @ cs |\<in>| fmdom (fs_files fs)" using fb by (rule fmdomI)
  have fits: "fits fs la cs" using okD(10) src by (simp add: compatible_iff)
  note nofile = no_file_on_way [OF okD(2,3) fits]
  have m: "?m \<noteq> []" "list_all plain ?m" "?m |\<notin>| fs_dirs fs"
    using cs wf_dir(1) [OF okD(2,3)] fits by (simp_all add: fits_iff)
  have wf: "fs_wf ?fs" by (rule wf_written [OF okD(2) m nofile])
  have roots: "at ?fs (ss_rootPath a) = la" "at ?fs (ss_rootPath b) = lb"
    by (simp_all add: written_def at_def la_def lb_def)
  have other: "\<not> is_under lb ?m" using apart_append [OF okD(5,6)] by (metis is_under_iff)
  have bl: "butlast ?m = la @ butlast cs" using cs(2) by (simp add: butlast_append)
  have way: "k |\<notin>| fmdom (fs_files fs) \<and> (k |\<in>| fs_dirs fs \<or> k |\<notin>| fs_denied fs)"
    if k_way: "k |\<in>| way [] (butlast ?m)" for k
  proof -
    obtain i where i: "i < length ?m" "k = take i ?m" using k_way way_butlast [OF m(1)] by blast
    then show ?thesis
      using nofile [OF i(1)] new_dir_below [OF okD(2,3) i(1)] healthyD(1) [OF okD(7)] by metis
  qed
  have "ss_WriteFile a p (Reader d None) fs = (Inr (), ?fs)"
    unfolding p written_def bl
    by (rule write_done [OF cs, of fs a d, folded la_def])
      (use way [unfolded bl] healthyD(1) [OF okD(7)] m(3) in auto)
  moreover have "pair_ok sha a b ?fs"
  proof -
    have "d = content_at fs (lb @ cs)" "lb @ cs \<in> set (files_below fs lb)"
      using fb src by (auto simp: content_at_def set_files_below)
    then have "content_at ?fs ` (set (files_below ?fs la) \<union> set (files_below ?fs lb)) \<subseteq>
          content_at fs ` (set (files_below fs la) \<union> set (files_below fs lb))"
      using other by (auto simp: files_below_written content_written)
    then show ?thesis
      using okD wf compatible_written [OF okD(2-6,9,10) src cs(2)] m(1)
      unfolding pair_ok_def Let_def roots
      by (simp add: dirs_written collision_free_iff image_Un healthy_def written_def inj_on_subset)
  qed
  moreover have "tree ?fs la = fmupd p d (tree fs la)" unfolding p by (rule tree_written [OF okD(2) wf okD(3) cs])
  moreover have "tree ?fs lb = tree fs lb" by (rule tree_written_other [OF okD(2) wf okD(4) m(1) other])
  ultimately show ?thesis using roots by metis
qed

text \<open>Removing a file.\<close>
definition removed :: "fsys \<Rightarrow> location \<Rightarrow> fsys" where
  "removed fs m = fs\<lparr>fs_files := fmdrop m (fs_files fs)\<rparr>"

lemma wf_removed: "fs_wf fs \<Longrightarrow> fs_wf (removed fs m)"
  by (auto simp: fs_wf_def removed_def)

lemma dom_removed: "k |\<in>| fmdom (fs_files (removed fs m)) \<longleftrightarrow> k \<noteq> m \<and> k |\<in>| fmdom (fs_files fs)"
  by (auto simp: removed_def)

lemma compatible_removed: "compatible fs la lb \<Longrightarrow> compatible (removed fs m) la lb"
  by (auto simp: compatible_iff fits_iff dom_removed) (simp_all add: removed_def)

lemma tree_removed:
  assumes "fs_wf fs" "la |\<in>| fs_dirs fs" "list_all plain cs" "cs \<noteq> []"
  shows "tree (removed fs (la @ cs)) la = fmdrop (join_with slash cs) (tree fs la)"
proof (rule tree_eqI [OF wf_removed [OF assms(1)]])
  show "la |\<in>| fs_dirs (removed fs (la @ cs))" using assms(2) by (simp add: removed_def)
next
  fix ds :: location assume ds: "list_all plain ds" "ds \<noteq> []"
  show "fmlookup (fmdrop (join_with slash cs) (tree fs la)) (join_with slash ds) =
        map_option fst (fmlookup (fs_files (removed fs (la @ cs))) (la @ ds))"
    using tree_at [OF assms(1,2) ds] join_plain_inj [OF assms(3,4) ds]
    by (cases "ds = cs") (auto simp: removed_def)
next
  fix q x assume "fmlookup (fmdrop (join_with slash cs) (tree fs la)) q = Some x"
  then show "\<exists>ds. list_all plain ds \<and> ds \<noteq> [] \<and> q = join_with slash ds"
    using tree_keys [OF assms(1,2), of q] by (cases "q = join_with slash cs") auto
qed

lemma tree_removed_other:
  assumes "fs_wf fs" "lb |\<in>| fs_dirs fs" "\<not> is_under lb m"
  shows "tree (removed fs m) lb = tree fs lb"
proof (rule tree_eqI [OF wf_removed [OF assms(1)]])
  show "lb |\<in>| fs_dirs (removed fs m)" using assms(2) by (simp add: removed_def)
next
  fix ds :: location assume ds: "list_all plain ds" "ds \<noteq> []"
  have "lb @ ds \<noteq> m" using assms(3) by auto
  then show "fmlookup (tree fs lb) (join_with slash ds) = map_option fst (fmlookup (fs_files (removed fs m)) (lb @ ds))"
    using tree_at [OF assms(1,2) ds] by (simp add: removed_def)
qed (rule tree_keys [OF assms(1,2)])

lemma pair_ok_delete:
  assumes ok: "pair_ok sha a b fs" and d: "fmlookup (tree fs (at fs (ss_rootPath a))) p = Some d"
  defines "la \<equiv> at fs (ss_rootPath a)" and "lb \<equiv> at fs (ss_rootPath b)"
  shows "\<exists>fs'. ss_DeleteFile a p fs = (Inr (), fs') \<and> pair_ok sha a b fs' \<and>
           tree fs' (at fs' (ss_rootPath a)) = fmdrop p (tree fs la) \<and>
           tree fs' (at fs' (ss_rootPath b)) = tree fs lb"
proof -
  note okD = pair_okD [OF ok, folded la_def lb_def]
  obtain cs t where p: "p = join_with slash cs" and cs: "list_all plain cs" "cs \<noteq> []"
      and fa: "fmlookup (fs_files fs) (la @ cs) = Some (d, t)"
    using tree_path [OF okD(2,3) d [folded la_def]] by blast
  let ?fs = "removed fs (la @ cs)"
  have roots: "at ?fs (ss_rootPath a) = la" "at ?fs (ss_rootPath b) = lb"
    by (simp_all add: removed_def at_def la_def lb_def)
  have other: "\<not> is_under lb (la @ cs)" using apart_append [OF okD(5,6)] by (metis is_under_iff)
  have "ss_DeleteFile a p fs = (Inr (), ?fs)"
    unfolding p removed_def la_def
    by (rule delete_done [OF cs]) (use fa healthyD(1) [OF okD(7)] in \<open>auto simp: la_def intro: fmdomI\<close>)
  moreover have "pair_ok sha a b ?fs"
  proof -
    have "content_at ?fs ` (set (files_below ?fs la) \<union> set (files_below ?fs lb)) \<subseteq>
          content_at fs ` (set (files_below fs la) \<union> set (files_below fs lb))"
      unfolding set_files_below dom_removed by (auto simp: content_at_def removed_def)
    then show ?thesis
      using okD wf_removed [OF okD(2)] compatible_removed [OF okD(9)] compatible_removed [OF okD(10)]
      unfolding pair_ok_def Let_def roots
      by (simp add: collision_free_iff image_Un healthy_def removed_def inj_on_subset)
  qed
  moreover have "tree ?fs la = fmdrop p (tree fs la)" unfolding p by (rule tree_removed [OF okD(2,3) cs])
  moreover have "tree ?fs lb = tree fs lb" by (rule tree_removed_other [OF okD(2,4) other])
  ultimately show ?thesis using roots by metis
qed

lemma pair_ok_read:
  assumes ok: "pair_ok sha a b fs" and d: "fmlookup (tree fs (at fs (ss_rootPath a))) p = Some d"
  shows "ss_ReadFile a p fs = (Inr (Reader d None), fs)"
proof -
  note okD = pair_okD [OF ok]
  obtain cs t where "p = join_with slash cs" and cs: "list_all plain cs" "cs \<noteq> []"
      and fa: "fmlookup (fs_files fs) (at fs (ss_rootPath a) @ cs) = Some (d, t)"
    using tree_path [OF okD(2,3) d] by blast
  then show ?thesis using read_done [OF cs fa] healthyD [OF okD(7)] by simp
qed

lemma pair_ok_list:
  assumes "pair_ok sha a b fs"
  shows "\<exists>es. ss_ListFiles sha a fs = (Inr es, fs) \<and> distinct (map fe_Path es) \<and>
           hash_map es = fmmap (hex_sum sha) (tree fs (at fs (ss_rootPath a)))"
  using listing_done [of fs a sha] pair_okD [OF assms] by metis

lemma content_clock: "content_at (fs\<lparr>fs_clock := c\<rparr>) = content_at fs"
  by (intro ext) (simp add: content_at_def)

lemma pair_ok_clock:
  assumes "pair_ok sha a b fs"
  shows "pair_ok sha a b (fs\<lparr>fs_clock := c\<rparr>)" "tree (fs\<lparr>fs_clock := c\<rparr>) l = tree fs l"
  using assms
  by (simp_all add: pair_ok_def Let_def fs_wf_def healthy_def compatible_def files_below_def fits_def
      content_clock tree_def)

section \<open>SimpleStorage meets the contract\<close>

lemma simple_side:
  "sync_side (simple_node sha a) (pair_ok sha a b) (\<lambda>fs. tree fs (at fs (ss_rootPath a)))
     (\<lambda>fs. tree fs (at fs (ss_rootPath b))) (hex_sum sha)"
  by unfold_locales (simp_all add: simple_node_def pair_ok_list pair_ok_read pair_ok_write pair_ok_delete)

interpretation simple_a: sync_side "simple_node sha a" "pair_ok sha a b"
    "\<lambda>fs. tree fs (at fs (ss_rootPath a))" "\<lambda>fs. tree fs (at fs (ss_rootPath b))" "hex_sum sha" for sha a b
  by (rule simple_side)

lemma tree_values:
  assumes "fs_wf fs" "l |\<in>| fs_dirs fs"
  shows "fmran' (tree fs l) \<subseteq> content_at fs ` set (files_below fs l)"
  using map_from_value [of "rel_path l" "content_at fs" "files_below fs l"]
  by (fastforce simp: tree_def fmran'_alt_def elim!: fmran'E)

interpretation simple_pair: sync_pair "simple_node sha a" "simple_node sha b" "pair_ok sha a b"
    "\<lambda>fs. tree fs (at fs (ss_rootPath a))" "\<lambda>fs. tree fs (at fs (ss_rootPath b))" "hex_sum sha"
    "NewSyncEngine mem_store strategy time_Now" for sha a b strategy
proof -
  have flip: "pair_ok sha a b = pair_ok sha b a" by (intro ext) (rule pair_ok_sym)
  have inj: "d = d'" if "pair_ok sha a b fs" "sha d = sha d'"
      "d \<in> fmran' (tree fs (at fs (ss_rootPath a))) \<union> fmran' (tree fs (at fs (ss_rootPath b)))"
      "d' \<in> fmran' (tree fs (at fs (ss_rootPath a))) \<union> fmran' (tree fs (at fs (ss_rootPath b)))" for fs d d'
    using that pair_okD(11) [OF that(1)] tree_values [OF pair_okD(2,3) [OF that(1)]]
      tree_values [OF pair_okD(2,4) [OF that(1)]]
    by (auto simp: inj_on_def) blast+
  show "sync_pair (simple_node sha a) (simple_node sha b) (pair_ok sha a b)
     (\<lambda>fs. tree fs (at fs (ss_rootPath a))) (\<lambda>fs. tree fs (at fs (ss_rootPath b))) (hex_sum sha)
     (NewSyncEngine mem_store strategy time_Now)"
    by (intro sync_pair.intro sync_pair_axioms.intro simple_side
          simple_side [of sha b a, folded flip] mem_engine.engine_axioms)
      (auto simp: NewSyncEngine_def time_Now_def pair_ok_clock hex_sum_no_colon simple_node_def
        dest: pair_okD(1) intro: inj)
qed

end
