(* ===== verification/Sync_Properties.thy ===== *)
theory Sync_Properties
  imports Storage_Laws
begin

text \<open>
  The properties of a synchronisation of two folders, stated over the whole \<open>Sync\<close> with the
  in-memory store and \<open>SimpleStorage\<close> nodes. The proofs use the interpretations of \<open>sync_pair\<close> and
  \<open>engine\<close>.
\<close>

section \<open>Runs\<close>

abbreviation sync_folders ::
  "hash_fun \<Rightarrow> ConflictStrategy \<Rightarrow> SimpleStorage \<Rightarrow> SimpleStorage \<Rightarrow> InMemoryStateStore \<times> fsys \<Rightarrow>
   (gerr + SyncResult) \<times> (InMemoryStateStore \<times> fsys)" where
  "sync_folders sha strategy a b \<equiv>
     Sync sha (NewSyncEngine mem_store strategy time_Now) (simple_node sha a) (simple_node sha b)"

abbreviation folder :: "fsys \<Rightarrow> SimpleStorage \<Rightarrow> (string, string) fmap" where
  "folder fs a \<equiv> tree fs (at fs (ss_rootPath a))"

abbreviation listed :: "hash_fun \<Rightarrow> fsys \<Rightarrow> SimpleStorage \<Rightarrow> FileEntry list" where
  "listed sha fs a \<equiv> projr (fst (ss_ListFiles sha a fs))"

abbreviation entry_at :: "hash_fun \<Rightarrow> fsys \<Rightarrow> SimpleStorage \<Rightarrow> string \<Rightarrow> FileEntry option" where
  "entry_at sha fs a p \<equiv> fmlookup (map_from fe_Path id (listed sha fs a)) p"

text \<open>The conditions of a run without incidents: both folders in order, neither suspected to be wiped,
  and no collision among the messages of the two Merkle trees.\<close>
definition run_ready :: "hash_fun \<Rightarrow> SimpleStorage \<Rightarrow> SimpleStorage \<Rightarrow> InMemoryStateStore \<Rightarrow> fsys \<Rightarrow> bool" where
  "run_ready sha a b s fs \<longleftrightarrow>
     pair_ok sha a b fs \<and> keyed mem_store s \<and>
     checkNotWiped (ss_id a) (listed sha fs a) (indexStates (mem_All s (ss_id a))) = None \<and>
     checkNotWiped (ss_id b) (listed sha fs b) (indexStates (mem_All s (ss_id b))) = None \<and>
     collision_free sha (merkle_messages sha (listed sha fs a) @ merkle_messages sha (listed sha fs b))"

lemma engine_fields [simp]:
  "e_store (NewSyncEngine st strategy now) = st" "e_strategy (NewSyncEngine st strategy now) = strategy"
  "e_now (NewSyncEngine st strategy now) = now"
  by (simp_all add: NewSyncEngine_def)

lemma mem_store_ops [simp]:
  "st_Get mem_store = mem_Get" "st_All mem_store = mem_All" "st_Set mem_store = mem_Set"
  "st_DeleteNode mem_store = mem_DeleteNode"
  by (simp_all add: mem_store_def)

lemma simple_node_ops [simp]:
  "ID (simple_node sha a) = ss_id a" "ListFiles (simple_node sha a) = ss_ListFiles sha a"
  by (simp_all add: simple_node_def)

lemma listed_ok: "pair_ok sha a b fs \<Longrightarrow> ss_ListFiles sha a fs = (Inr (listed sha fs a), fs)"
  using pair_ok_list by fastforce

lemma run_settled:
  assumes "run_ready sha a b s fs" "strategy \<noteq> KeepBoth"
  obtains r s' fs' where "sync_folders sha strategy a b (s, fs) = (Inr r, (s', fs'))" "sr_Errors r = []"
    "pair_ok sha a b fs'" "folder fs' a = folder fs' b"
    "\<And>p d. fmlookup (folder fs' a) p = Some d \<Longrightarrow> simple_pair.known sha a b strategy s' p d"
    "\<And>p. \<exists>u. pair_ok sha a b u \<and> fmlookup (folder fs' a) p =
       (if source_wins (NewSyncEngine mem_store strategy time_Now) (ss_id a) (ss_id b)
             (entry_at sha fs a p) (entry_at sha fs b p) (mem_Get s (ss_id a) p) (mem_Get s (ss_id b) p) u
        then fmlookup (folder fs a) p else fmlookup (folder fs b) p)"
proof -
  have ok: "pair_ok sha a b fs" and ok': "pair_ok sha b a fs"
    using assms(1) pair_ok_sym by (auto simp: run_ready_def)
  show thesis
    by (rule simple_pair.run_settles [of sha a b fs strategy s "listed sha fs a" "listed sha fs b"])
      (use assms ok listed_ok [OF ok] listed_ok [OF ok'] that in \<open>auto simp: run_ready_def\<close>)
qed

text \<open>An example: folder \<open>/a\<close> has two files, folder \<open>/b\<close> one other.\<close>
definition ex_fs :: fsys where
  "ex_fs = \<lparr>fs_cwd = [],
     fs_files = fmap_of_list [([''a'', ''x''], (''one'', 5)), ([''a'', ''d'', ''z''], (''two'', 7)),
                              ([''b'', ''y''], (''three'', 6))],
     fs_dirs = {|[], [''a''], [''b''], [''a'', ''d'']|}, fs_denied = {||}, fs_bad = fmempty, fs_clock = 100\<rparr>"

definition ex_a :: SimpleStorage where "ex_a = NewSimpleStorage ''A'' ''/a''"
definition ex_b :: SimpleStorage where "ex_b = NewSimpleStorage ''B'' ''/b''"

lemma keyed_empty: "keyed mem_store fmempty"
  by (simp add: keyed_def mem_Get_def)

lemma ex_pair_ok: "pair_ok sample_sha ex_a ex_b ex_fs"
  by code_simp

lemma ex_not_wiped:
  "checkNotWiped (ss_id ex_a) (listed sample_sha ex_fs ex_a) (indexStates (mem_All fmempty (ss_id ex_a))) = None"
  "checkNotWiped (ss_id ex_b) (listed sample_sha ex_fs ex_b) (indexStates (mem_All fmempty (ss_id ex_b))) = None"
  by code_simp+

lemma ex_messages:
  "collision_free sample_sha (merkle_messages sample_sha (listed sample_sha ex_fs ex_a) @
     merkle_messages sample_sha (listed sample_sha ex_fs ex_b))"
  by code_simp

lemma ex_ready: "run_ready sample_sha ex_a ex_b fmempty ex_fs"
  unfolding run_ready_def using keyed_empty ex_pair_ok ex_not_wiped ex_messages by blast

section \<open>Convergence\<close>

text \<open>C1: convergence. A synchronisation of two folders that are in order, with \<open>KeepNewest\<close> or \<open>KeepSource\<close>, returns a result without
  errors and leaves both folders with the same files; every file is one of the two versions there were
  (a deletion being the version of the folder that lacks the file), nothing is invented.\<close>
theorem Sync_converges:
  assumes "run_ready sha a b s fs" and "strategy \<noteq> KeepBoth"
  shows "\<exists>r s' fs'. sync_folders sha strategy a b (s, fs) = (Inr r, (s', fs')) \<and> sr_Errors r = [] \<and>
           folder fs' a = folder fs' b \<and>
           (\<forall>p. fmlookup (folder fs' a) p \<in> {fmlookup (folder fs a) p, fmlookup (folder fs b) p})"
proof -
  obtain r s' fs' where run: "sync_folders sha strategy a b (s, fs) = (Inr r, (s', fs'))" "sr_Errors r = []"
      "folder fs' a = folder fs' b"
    and v: "\<And>p. \<exists>u. pair_ok sha a b u \<and> fmlookup (folder fs' a) p =
       (if source_wins (NewSyncEngine mem_store strategy time_Now) (ss_id a) (ss_id b)
             (entry_at sha fs a p) (entry_at sha fs b p) (mem_Get s (ss_id a) p) (mem_Get s (ss_id b) p) u
        then fmlookup (folder fs a) p else fmlookup (folder fs b) p)"
    using run_settled [OF assms] by metis
  have "fmlookup (folder fs' a) p \<in> {fmlookup (folder fs a) p, fmlookup (folder fs b) p}" for p
    using v [of p] by (auto split: if_splits)
  with run show ?thesis by blast
qed

theorem Sync_converges_witness:
  "\<exists>r s' fs'. sync_folders sample_sha KeepNewest ex_a ex_b (fmempty, ex_fs) = (Inr r, (s', fs')) \<and>
     sr_Errors r = [] \<and> folder fs' ex_a = folder fs' ex_b"
  using Sync_converges [OF ex_ready, of KeepNewest] by auto

section \<open>Three-way merge\<close>

text \<open>Every file has a modification time (none is Go's zero time).\<close>
definition all_dated :: "hash_fun \<Rightarrow> fsys \<Rightarrow> SimpleStorage \<Rightarrow> bool" where
  "all_dated sha fs a \<longleftrightarrow> list_all (\<lambda>en. \<not> time_IsZero (fe_ModTime en)) (listed sha fs a)"

definition all_headroom :: "SimpleStorage \<Rightarrow> SimpleStorage \<Rightarrow> InMemoryStateStore \<Rightarrow> bool" where
  "all_headroom a b s \<longleftrightarrow> (\<forall>p. headroom (ss_id a) (ss_id b) (mem_Get s (ss_id a) p))"

lemma dated_entry: "all_dated sha fs a \<Longrightarrow> dated (entry_at sha fs a p)"
  by (auto simp: all_dated_def dated_def list_all_iff dest!: map_from_value split: option.splits)

text \<open>C2: the synchronisation is a three-way merge, with \<open>KeepNewest\<close> or \<open>KeepSource\<close>. When the two nodes remember the same history (as
  every run leaves it), the outcome for a file is decided by comparing each version with what both
  sides last agreed on: the side that changed wins; a file deleted on one side and unchanged on the
  other is deleted; a file deleted on one side and changed on the other comes back; when both changed,
  the strategy decides (newest modification time, or the source).\<close>
theorem Sync_three_way:
  assumes "run_ready sha a b s fs" and "strategy \<noteq> KeepBoth"
    and "paired mem_store s (ss_id a) (ss_id b)" and "all_headroom a b s"
    and "all_dated sha fs a" and "all_dated sha fs b"
  shows "fmlookup (folder (snd (snd (sync_folders sha strategy a b (s, fs)))) a) p =
         (if three_way strategy (mem_Get s (ss_id a) p) (entry_at sha fs a p) (entry_at sha fs b p)
          then fmlookup (folder fs a) p else fmlookup (folder fs b) p)"
proof -
  obtain r s' fs' where run: "sync_folders sha strategy a b (s, fs) = (Inr r, (s', fs'))"
    and v: "\<exists>u. pair_ok sha a b u \<and> fmlookup (folder fs' a) p =
       (if source_wins (NewSyncEngine mem_store strategy time_Now) (ss_id a) (ss_id b)
             (entry_at sha fs a p) (entry_at sha fs b p) (mem_Get s (ss_id a) p) (mem_Get s (ss_id b) p) u
        then fmlookup (folder fs a) p else fmlookup (folder fs b) p)"
    using run_settled [OF assms(1,2)] by metis
  have "same_knowledge (mem_Get s (ss_id a) p) (mem_Get s (ss_id b) p)"
    using assms(3) by (simp add: paired_def)
  moreover have "ss_id a \<noteq> ss_id b" using assms(1) by (auto simp: run_ready_def dest: pair_okD(1))
  ultimately show ?thesis
    using v run assms(4) dated_entry [OF assms(5), of p] dated_entry [OF assms(6), of p]
    by (auto simp: source_wins_three_way all_headroom_def)
qed

theorem Sync_three_way_witness:
  "fmlookup (folder (snd (snd (sync_folders sample_sha KeepNewest ex_a ex_b (fmempty, ex_fs)))) ex_a) ''y'' =
     Some ''three''"
proof -
  have "paired mem_store fmempty (ss_id ex_a) (ss_id ex_b)" "all_headroom ex_a ex_b fmempty"
    by (simp_all add: paired_def same_knowledge_def mem_Get_def all_headroom_def headroom_def)
  moreover have "all_dated sample_sha ex_fs ex_a" "all_dated sample_sha ex_fs ex_b" by code_simp+
  moreover have "\<not> three_way KeepNewest (mem_Get fmempty (ss_id ex_a) ''y'')
      (entry_at sample_sha ex_fs ex_a ''y'') (entry_at sample_sha ex_fs ex_b ''y'')" by code_simp
  moreover have "fmlookup (folder ex_fs ex_b) ''y'' = Some ''three''" by code_simp
  ultimately show ?thesis
    using Sync_three_way [OF ex_ready, of KeepNewest "''y''"] by simp
qed

section \<open>Idempotence\<close>

text \<open>C3: a synchronisation with \<open>KeepNewest\<close> or \<open>KeepSource\<close> is idempotent as long as a file is left. Right after a run
  under the conditions of \<open>run_ready\<close> that leaves at least one file, a second one finds nothing to do: it transfers, deletes
  and reports nothing and leaves store and folders exactly as they are. Both restrictions matter: with \<open>KeepBoth\<close> the
  second run copies the conflict file, and two emptied folders are the case of the findings.\<close>
theorem Sync_idempotent:
  assumes "run_ready sha a b s fs" and "strategy \<noteq> KeepBoth"
    and "folder (snd (snd (sync_folders sha strategy a b (s, fs)))) a \<noteq> fmempty"
  shows "sync_folders sha strategy a b (snd (sync_folders sha strategy a b (s, fs))) =
         (Inr empty_result, snd (sync_folders sha strategy a b (s, fs)))"
proof -
  obtain r s' fs' where run: "sync_folders sha strategy a b (s, fs) = (Inr r, (s', fs'))"
      "pair_ok sha a b fs'" "folder fs' a = folder fs' b"
      "\<And>p d. fmlookup (folder fs' a) p = Some d \<Longrightarrow> simple_pair.known sha a b strategy s' p d"
    using run_settled [OF assms(1,2)] by metis
  have "keyed mem_store s'"
    using mem_engine.keyed_run.kept_Sync [of strategy time_Now "(s, fs)" sha "simple_node sha a" "simple_node sha b"]
      assms(1) run(1) by (simp add: run_ready_def)
  then have "sync_folders sha strategy a b (s', fs') = (Inr empty_result, (s', fs'))"
    using assms(3) run by (intro simple_pair.run_idle) simp_all
  with run(1) show ?thesis by simp
qed

theorem Sync_idempotent_witness:
  "sync_folders sample_sha KeepNewest ex_a ex_b (snd (sync_folders sample_sha KeepNewest ex_a ex_b (fmempty, ex_fs))) =
   (Inr empty_result, snd (sync_folders sample_sha KeepNewest ex_a ex_b (fmempty, ex_fs)))"
proof -
  have "fmlookup (folder (snd (snd (sync_folders sample_sha KeepNewest ex_a ex_b (fmempty, ex_fs)))) ex_a) ''y'' =
        Some ''three''" by code_simp
  then have "folder (snd (snd (sync_folders sample_sha KeepNewest ex_a ex_b (fmempty, ex_fs)))) ex_a \<noteq> fmempty"
    by auto
  then show ?thesis by (rule Sync_idempotent [OF ex_ready, of KeepNewest, rotated]) simp
qed

section \<open>Deletions\<close>

lemma source_wins_deletion:
  assumes "source_wins e a b ea eb sa sb w" "ea = None" "eb = Some y"
  obtains x z where "sa = Some x" "sb = Some z" "\<not> fs_Deleted z" "fs_Hash z = fe_Hash y"
  using assms by (cases sa; cases sb) (auto simp: source_wins_def)

lemma target_wins_deletion:
  assumes "\<not> source_wins e a b ea eb sa sb w" "ea = Some y" "eb = None"
  obtains x z where "sa = Some z" "sb = Some x" "\<not> fs_Deleted z" "fs_Hash z = fe_Hash y"
  using assms by (cases sa; cases sb) (auto simp: source_wins_def)

lemma entry_of_file:
  assumes "pair_ok sha a b fs"
  shows "entry_at sha fs a p = None \<longleftrightarrow> fmlookup (folder fs a) p = None"
    and "fmlookup (folder fs a) p = Some d \<Longrightarrow> entry_at sha fs a p = Some en \<Longrightarrow> fe_Hash en = hex_sum sha d"
proof -
  have l: "distinct (map fe_Path (listed sha fs a))" "hash_map (listed sha fs a) = fmmap (hex_sum sha) (folder fs a)"
    using pair_ok_list [OF assms] by auto
  have "simple_pair.entry_for sha p (entry_at sha fs a p) (fmlookup (folder fs a) p)"
    by (rule simple_pair.listed_entry_for [OF l])
  then show "entry_at sha fs a p = None \<longleftrightarrow> fmlookup (folder fs a) p = None"
    and "fmlookup (folder fs a) p = Some d \<Longrightarrow> entry_at sha fs a p = Some en \<Longrightarrow> fe_Hash en = hex_sum sha d"
    by (auto simp: simple_pair.entry_for_def simp del: map_from_None split: option.splits)
qed

lemma deletion_of_known:
  assumes "run_ready sha a b s fs" and "strategy \<noteq> KeepBoth" and "(x, y) \<in> {(a, b), (b, a)}"
    and "fmlookup (folder fs x) p = Some d"
    and "fmlookup (folder (snd (snd (sync_folders sha strategy a b (s, fs)))) x) p = None"
  shows "fmlookup (folder fs y) p = None \<and> mem_Get s (ss_id y) p \<noteq> None \<and>
         (\<exists>z. mem_Get s (ss_id x) p = Some z \<and> \<not> fs_Deleted z \<and> fs_Hash z = hex_sum sha d)"
proof -
  have ok: "pair_ok sha a b fs" "pair_ok sha b a fs" using assms(1) pair_ok_sym by (auto simp: run_ready_def)
  let ?wins = "source_wins (NewSyncEngine mem_store strategy time_Now) (ss_id a) (ss_id b)
             (entry_at sha fs a p) (entry_at sha fs b p) (mem_Get s (ss_id a) p) (mem_Get s (ss_id b) p)"
  obtain r s' fs' where run: "sync_folders sha strategy a b (s, fs) = (Inr r, (s', fs'))" "folder fs' a = folder fs' b"
    and v: "\<exists>u. pair_ok sha a b u \<and> fmlookup (folder fs' a) p =
       (if ?wins u then fmlookup (folder fs a) p else fmlookup (folder fs b) p)"
    using run_settled [OF assms(1,2)] by metis
  have gone: "fmlookup (folder fs' a) p = None" using assms(3,5) run by auto
  then obtain u where u: "(if ?wins u then fmlookup (folder fs a) p else fmlookup (folder fs b) p) = None" using v by metis
  note none = entry_of_file(1) [OF ok(1), of p] entry_of_file(1) [OF ok(2), of p]
  show ?thesis
  proof (cases "x = a \<and> y = b")
    case True
    with assms(4) u have nw: "\<not> ?wins u" and b: "fmlookup (folder fs b) p = None" by (auto split: if_splits)
    obtain e where e: "entry_at sha fs a p = Some e" using none(1) assms(4) True by (metis not_None_eq)
    from target_wins_deletion [OF nw e] none(2) b True show ?thesis
      using entry_of_file(2) [OF ok(1) _ e] assms(4) by (metis option.distinct(1))
  next
    case False
    with assms(3) have xy: "x = b" "y = a" by auto
    with assms(4) u have nw: "?wins u" and a: "fmlookup (folder fs a) p = None" by (auto split: if_splits)
    obtain e where e: "entry_at sha fs b p = Some e" using none(2) assms(4) xy by (metis not_None_eq)
    have "entry_at sha fs a p = None" using none(1) a by blast
    from source_wins_deletion [OF nw this e] a xy show ?thesis
      using entry_of_file(2) [OF ok(2) _ e] assms(4) by (metis option.distinct(1))
  qed
qed

text \<open>C4: a run with \<open>KeepNewest\<close> or \<open>KeepSource\<close> deletes a file, from whichever of the two folders, only when that is
  warranted: the file is missing in the other folder, the other node has known it before, and the copy to be deleted is
  exactly the one recorded at the last synchronisation. A file that is new, or was changed since, is never deleted.\<close>
theorem Sync_deletes_only_known:
  assumes "run_ready sha a b s fs" and "strategy \<noteq> KeepBoth" and "(x, y) \<in> {(a, b), (b, a)}"
    and "fmlookup (folder fs x) p = Some d"
    and "fmlookup (folder (snd (snd (sync_folders sha strategy a b (s, fs)))) x) p = None"
  shows "fmlookup (folder fs y) p = None \<and> mem_Get s (ss_id y) p \<noteq> None \<and>
         (\<exists>z. mem_Get s (ss_id x) p = Some z \<and> \<not> fs_Deleted z \<and> fs_Hash z = hex_sum sha d)"
  using deletion_of_known [OF assms] .

text \<open>A file that both nodes know, deleted in \<open>/b\<close> since the last run.\<close>
definition ex_known :: "string \<Rightarrow> FileState" where
  "ex_known n = \<lparr>fs_Path = ''x'', fs_Hash = hex_sum sample_sha ''one'', fs_Size = 3,
     fs_Clock = fmap_of_list [(''A'', 1)], fs_UpdatedAt = 9, fs_NodeID = n, fs_Deleted = False\<rparr>"

definition ex_store :: InMemoryStateStore where
  "ex_store = mem_Set (mem_Set fmempty ''A'' ''x'' (ex_known ''A'')) ''B'' ''x'' (ex_known ''B'')"

definition ex_deleted :: fsys where
  "ex_deleted = ex_fs\<lparr>fs_files := fmap_of_list [([''a'', ''x''], (''one'', 5))]\<rparr>"

lemma ex_store_keyed: "keyed mem_store ex_store"
  unfolding ex_store_def
  using mem.keyed_set [OF mem.keyed_set [OF keyed_empty], of "ex_known ''A''" "''x''" "ex_known ''B''" "''x''" "''A''" "''B''"]
  by (simp add: ex_known_def)

lemma ex_deleted_ok: "pair_ok sample_sha ex_a ex_b ex_deleted"
  by code_simp

lemma ex_deleted_not_wiped:
  "checkNotWiped (ss_id ex_a) (listed sample_sha ex_deleted ex_a) (indexStates (mem_All ex_store (ss_id ex_a))) = None"
  "checkNotWiped (ss_id ex_b) (listed sample_sha ex_deleted ex_b) (indexStates (mem_All ex_store (ss_id ex_b))) = None"
  by code_simp+

lemma ex_deleted_messages:
  "collision_free sample_sha (merkle_messages sample_sha (listed sample_sha ex_deleted ex_a) @
     merkle_messages sample_sha (listed sample_sha ex_deleted ex_b))"
  by code_simp

lemma ex_deleted_ready: "run_ready sample_sha ex_a ex_b ex_store ex_deleted"
  unfolding run_ready_def using ex_store_keyed ex_deleted_ok ex_deleted_not_wiped ex_deleted_messages by blast

text \<open>The same with the roles of source and target exchanged: the copy in \<open>/a\<close> is then deleted on the target.\<close>
lemma ex_deleted_ready': "run_ready sample_sha ex_b ex_a ex_store ex_deleted"
proof -
  have "collision_free sample_sha (merkle_messages sample_sha (listed sample_sha ex_deleted ex_b) @
     merkle_messages sample_sha (listed sample_sha ex_deleted ex_a))" by code_simp
  then show ?thesis
    unfolding run_ready_def using ex_store_keyed ex_deleted_ok pair_ok_sym [of sample_sha ex_b ex_a ex_deleted] ex_deleted_not_wiped by blast
qed

theorem Sync_deletes_only_known_witness:
  "fmlookup (folder (snd (snd (sync_folders sample_sha KeepNewest ex_a ex_b (ex_store, ex_deleted)))) ex_a) ''x'' = None \<and>
   fmlookup (folder (snd (snd (sync_folders sample_sha KeepNewest ex_b ex_a (ex_store, ex_deleted)))) ex_a) ''x'' = None \<and>
   mem_Get ex_store (ss_id ex_b) ''x'' \<noteq> None"
proof -
  have 1: "fmlookup (folder ex_deleted ex_a) ''x'' = Some ''one''" by code_simp
  have 2: "fmlookup (folder (snd (snd (sync_folders sample_sha KeepNewest ex_a ex_b (ex_store, ex_deleted)))) ex_a) ''x'' = None"
    by code_simp
  have 3: "fmlookup (folder (snd (snd (sync_folders sample_sha KeepNewest ex_b ex_a (ex_store, ex_deleted)))) ex_a) ''x'' = None"
    by code_simp
  show ?thesis
    using Sync_deletes_only_known [OF ex_deleted_ready _ _ 1 2, of ex_b] Sync_deletes_only_known [OF ex_deleted_ready' _ _ 1 3, of ex_b] 2 3
    by simp
qed

section \<open>Protection against a wiped node\<close>

lemma sync_listed_source_wiped:
  assumes "checkNotWiped (ID na) fa (indexStates (st_All (e_store e) (fst st) (ID na))) = Some err"
  shows "sync_listed sha e na nb fa fb st = (Inl err, st)"
  unfolding sync_listed_def Let_def assms by simp

lemma sync_listed_target_wiped:
  assumes "checkNotWiped (ID na) fa (indexStates (st_All (e_store e) (fst st) (ID na))) = None"
    and "checkNotWiped (ID nb) fb (indexStates (st_All (e_store e) (fst st) (ID nb))) = Some err"
  shows "sync_listed sha e na nb fa fb st = (Inl err, st)"
  unfolding sync_listed_def Let_def assms by simp

text \<open>C5: mass deletion is never propagated. If a node lists no files although more than
  \<open>wipeThreshold\<close> files of it are on record (an unmounted disk, a replaced folder), the run stops with
  an error before it touches anything: the store is unchanged and the nodes are only listed. This
  holds for every kind of node.\<close>
theorem Sync_refuses_wiped:
  assumes "ListFiles source w = (Inr srcFiles, w1)" and "ListFiles target w1 = (Inr dstFiles, w2)"
    and "(srcFiles = [] \<and> live_states (indexStates (mem_All s (ID source))) > wipeThreshold) \<or>
         (dstFiles = [] \<and> live_states (indexStates (mem_All s (ID target))) > wipeThreshold)"
  shows "\<exists>n \<in> {ID source, ID target}.
           Sync sha (NewSyncEngine mem_store strategy now) source target (s, w) =
             (Inl (wiped_error n (live_states (indexStates (mem_All s n)))), (s, w2))"
proof (cases "srcFiles = [] \<and> live_states (indexStates (mem_All s (ID source))) > wipeThreshold")
  case True
  then have "checkNotWiped (ID source) srcFiles (indexStates (mem_All s (ID source))) =
      Some (wiped_error (ID source) (live_states (indexStates (mem_All s (ID source)))))"
    by (simp add: checkNotWiped_def)
  then show ?thesis using assms(1,2) by (simp add: Sync_def sync_listed_source_wiped)
next
  case False
  then have "checkNotWiped (ID source) srcFiles (indexStates (mem_All s (ID source))) = None"
    and "checkNotWiped (ID target) dstFiles (indexStates (mem_All s (ID target))) =
      Some (wiped_error (ID target) (live_states (indexStates (mem_All s (ID target)))))"
    using assms(3) by (auto simp: checkNotWiped_def)
  then show ?thesis using assms(1,2) by (simp add: Sync_def sync_listed_target_wiped)
qed

definition ex_state :: "string \<Rightarrow> FileState" where
  "ex_state p = \<lparr>fs_Path = p, fs_Hash = ''00'', fs_Size = 1, fs_Clock = fmempty, fs_UpdatedAt = 1,
     fs_NodeID = ''B'', fs_Deleted = False\<rparr>"

definition ex_wiped_store :: InMemoryStateStore where
  "ex_wiped_store = fmap_of_list [(''B'', fmap_of_list (map (\<lambda>p. (p, ex_state p))
     [''a'', ''b'', ''c'', ''d'', ''e'', ''f'', ''g'', ''h'', ''i'', ''j'', ''k'']))]"

definition ex_wiped_fs :: fsys where
  "ex_wiped_fs = ex_fs\<lparr>fs_files := fmdrop [''b'', ''y''] (fs_files ex_fs)\<rparr>"

theorem Sync_refuses_wiped_witness:
  "\<exists>n \<in> {''A'', ''B''}. sync_folders sample_sha KeepNewest ex_a ex_b (ex_wiped_store, ex_wiped_fs) =
     (Inl (wiped_error n (live_states (indexStates (mem_All ex_wiped_store n)))), (ex_wiped_store, ex_wiped_fs))"
proof -
  have a: "\<not> isl (fst (ss_ListFiles sample_sha ex_a ex_wiped_fs))" by code_simp
  have b: "fst (ss_ListFiles sample_sha ex_b ex_wiped_fs) = Inr []" by code_simp
  have st: "snd (ss_ListFiles sha x fs) = fs" for sha x fs by (simp add: ss_ListFiles_def Let_def)
  have la: "ss_ListFiles sample_sha ex_a ex_wiped_fs = (Inr (listed sample_sha ex_wiped_fs ex_a), ex_wiped_fs)"
    using sum.collapse(2) [OF a] st [of sample_sha ex_a ex_wiped_fs] by (metis prod.collapse)
  have lb: "ss_ListFiles sample_sha ex_b ex_wiped_fs = (Inr [], ex_wiped_fs)"
    using b st [of sample_sha ex_b ex_wiped_fs] by (metis prod.collapse)
  have "live_states (indexStates (mem_All ex_wiped_store ''B'')) > wipeThreshold" by code_simp
  moreover have "ss_id ex_a = ''A''" "ss_id ex_b = ''B''" by code_simp+
  ultimately show ?thesis
    using Sync_refuses_wiped [of "simple_node sample_sha ex_a" ex_wiped_fs "listed sample_sha ex_wiped_fs ex_a"
        ex_wiped_fs "simple_node sample_sha ex_b" "[]" ex_wiped_fs ex_wiped_store sample_sha KeepNewest time_Now]
      la lb by simp
qed

section \<open>The store\<close>

text \<open>C6: the store stays consistent through every run, whatever the nodes do, also when operations
  fail halfway: each state is kept under its own path, both nodes of the pair remember the same history
  (clock, hash and tombstone of every file), and the states of all other nodes are untouched.\<close>
theorem Sync_keeps_history:
  assumes "keyed mem_store s" and "paired mem_store s (ID source) (ID target)"
  shows "keyed mem_store (fst (snd (Sync sha (NewSyncEngine mem_store strategy now) source target (s, w)))) \<and>
         paired mem_store (fst (snd (Sync sha (NewSyncEngine mem_store strategy now) source target (s, w))))
           (ID source) (ID target) \<and>
         (n = ID source \<or> n = ID target \<or>
          mem_Get (fst (snd (Sync sha (NewSyncEngine mem_store strategy now) source target (s, w)))) n p =
          mem_Get s n p)"
  using mem_engine.keyed_run.kept_Sync [where st = "(s, w)" and sha = sha and a = source and b = target
      and strategy = strategy and now = now]
    mem_engine.paired_run.kept_Sync [where st = "(s, w)" and sha = sha and a = source and b = target
      and strategy = strategy and now = now]
    mem_engine.frame_run.kept_Sync [where st = "(s, w)" and sha = sha and a = source and b = target
      and strategy = strategy and now = now and n = n and g = "mem_Get s n"]
    assms by auto

theorem Sync_keeps_history_witness:
  "paired mem_store (fst (snd (sync_folders sample_sha KeepNewest ex_a ex_b (fmempty, ex_fs)))) ''A'' ''B'' \<and>
   mem_Get (fst (snd (sync_folders sample_sha KeepNewest ex_a ex_b (fmempty, ex_fs)))) ''C'' ''x'' = None"
proof -
  have "paired mem_store fmempty (ID (simple_node sample_sha ex_a)) (ID (simple_node sample_sha ex_b))"
    by (simp add: paired_def same_knowledge_def mem_Get_def)
  moreover have "ss_id ex_a = ''A''" "ss_id ex_b = ''B''" by code_simp+
  ultimately show ?thesis
    using Sync_keeps_history [OF keyed_empty, of "simple_node sample_sha ex_a" "simple_node sample_sha ex_b"
        sample_sha KeepNewest time_Now ex_fs "''C''" "''x''"]
    by (simp add: mem_Get_def)
qed

section \<open>Findings\<close>

text \<open>a file deleted in both folders keeps its live state in the store: the run sees no difference and
  writes no tombstone. When the same file is put back into one folder later, the other folder's
  absence is taken for a fresh deletion and the run deletes the restored file.\<close>
theorem restored_file_is_deleted:
  "let st = snd (sync_folders sample_sha KeepNewest ex_a ex_b (ex_store, ex_fs\<lparr>fs_files := fmempty\<rparr>));
       fs = snd (ss_WriteFile ex_a ''x'' (Reader ''one'' None) (snd st))
   in fmlookup (folder fs ex_a) ''x'' = Some ''one'' \<and>
      folder (snd (snd (sync_folders sample_sha KeepNewest ex_a ex_b (fst st, fs)))) ex_a = fmempty"
  by code_simp

text \<open>\<open>WriteFile\<close> truncates the target before it copies. When the copy of \<open>y\<close> from \<open>/b\<close> to \<open>/a\<close> breaks
  off after two bytes, \<open>/a\<close> keeps the fragment, and since no state was recorded the next run takes the
  fragment for the source's version and overwrites the good copy in \<open>/b\<close>.\<close>
theorem broken_transfer_destroys_original:
  "let fs = snd (ss_WriteFile ex_a ''y'' (Reader ''th'' (Some (Errorf ''unexpected EOF''))) ex_fs)
   in fmlookup (folder fs ex_b) ''y'' = Some ''three'' \<and>
      fmlookup (folder (snd (snd (sync_folders sample_sha KeepNewest ex_a ex_b (fmempty, fs)))) ex_b) ''y'' = Some ''th''"
  by code_simp

end
