(* ===== verification/Http_Agent.thy ===== *)
theory Http_Agent
  imports Simple_Storage
begin

text \<open>
  The agent that serves a folder of another machine over HTTP (\<^verbatim>\<open>internal/sync/agent/http_agent.go\<close>)
  and the node the server uses to reach it (\<^verbatim>\<open>internal/sync/remote_node.go\<close>). A request carries its
  method, endpoint, the query parameters \<open>path\<close> and \<open>root\<close> (absent is the empty string, as
  \<open>Query().Get\<close> reads it), the token header and its body. A JSON body is kept as the value it encodes.
\<close>

section \<open>HTTP\<close>

record Request =
  rq_URL :: string
  rq_Method :: string
  rq_Endpoint :: string
  rq_path :: string
  rq_root :: string
  rq_token :: string
  rq_body :: "reader option"

datatype Body =
    Bytes reader
  | Text string
  | JFiles "FileEntry list"
  | JDirs string string "string list"
  | JStatus string string
  | JHealth string string gotime

record Response =
  rs_Status :: nat
  rs_Body :: Body

text \<open>\<open>http.Error\<close> ends the text with a newline.\<close>
definition http_Error :: "string \<Rightarrow> nat \<Rightarrow> Response" where
  "http_Error msg status = \<lparr>rs_Status = status, rs_Body = Text (msg @ [CHR 0x0A])\<rparr>"

definition http_OK :: "Body \<Rightarrow> Response" where
  "http_OK b = \<lparr>rs_Status = 200, rs_Body = b\<rparr>"

definition status_text :: "nat \<Rightarrow> string" where
  "status_text n =
     (if n = 200 then ''200 OK'' else if n = 400 then ''400 Bad Request''
      else if n = 401 then ''401 Unauthorized'' else if n = 404 then ''404 Not Found''
      else if n = 405 then ''405 Method Not Allowed'' else if n = 500 then ''500 Internal Server Error''
      else nat_text n)"

definition ValidAgentToken :: "string \<Rightarrow> string \<Rightarrow> bool" where
  "ValidAgentToken expected got \<longleftrightarrow> expected \<noteq> [] \<and> expected = got"

section \<open>The agent\<close>

record HTTPAgent =
  ag_nodeID :: string
  ag_rootPath :: string
  ag_port :: string
  ag_serverURL :: string
  ag_advertise :: string
  ag_token :: string

definition contains :: "string \<Rightarrow> string \<Rightarrow> bool" where
  "contains s sub = list_ex (\<lambda>i. take (length sub) (drop i s) = sub) [0..<Suc (length s)]"

definition trim_right_slash :: "string \<Rightarrow> string" where
  "trim_right_slash s = rev (dropWhile (\<lambda>c. c = slash) (rev s))"

definition NewHTTPAgent :: "string \<Rightarrow> string \<Rightarrow> string \<Rightarrow> string \<Rightarrow> string \<Rightarrow> string \<Rightarrow> HTTPAgent" where
  "NewHTTPAgent nodeID rootPath port serverAddr advertise token =
     (let u = trim_right_slash serverAddr;
          serverURL = (if \<not> contains u ''://'' then ''http://'' @ u else u)
      in \<lparr>ag_nodeID = nodeID, ag_rootPath = rootPath, ag_port = port, ag_serverURL = serverURL,
          ag_advertise = advertise, ag_token = token\<rparr>)"

definition ag_storage :: "HTTPAgent \<Rightarrow> Request \<Rightarrow> gerr + SimpleStorage" where
  "ag_storage a r =
     (case ResolveInside (ag_rootPath a) (rq_root r) of
        Inl err \<Rightarrow> Inl err
      | Inr root \<Rightarrow> Inr (NewSimpleStorage (ag_nodeID a) root))"

definition handleListFiles :: "hash_fun \<Rightarrow> HTTPAgent \<Rightarrow> Request \<Rightarrow> fsys \<Rightarrow> Response \<times> fsys" where
  "handleListFiles sha a r fs =
     (case ag_storage a r of
        Inl err \<Rightarrow> (http_Error (err_text err) 400, fs)
      | Inr st \<Rightarrow>
          (case ss_ListFiles sha st fs of
             (Inl err, fs') \<Rightarrow> (http_Error (err_text err) 500, fs')
           | (Inr entries, fs') \<Rightarrow> (http_OK (JFiles entries), fs')))"

text \<open>The error of \<open>io.Copy(w, f)\<close> is not looked at: the response ends normally with the bytes that
  could be read.\<close>
definition handleDownload :: "HTTPAgent \<Rightarrow> Request \<Rightarrow> fsys \<Rightarrow> Response \<times> fsys" where
  "handleDownload a r fs =
     (if rq_path r = [] then (http_Error ''path required'' 400, fs)
      else case ag_storage a r of
          Inl err \<Rightarrow> (http_Error (err_text err) 400, fs)
        | Inr st \<Rightarrow>
            (case ss_ReadFile st (rq_path r) fs of
               (Inl err, fs') \<Rightarrow> (http_Error (err_text err) 404, fs')
             | (Inr f, fs') \<Rightarrow> (http_OK (Bytes (Reader (rd_data f) None)), fs')))"

definition body_reader :: "reader option \<Rightarrow> reader" where
  "body_reader b = (case b of None \<Rightarrow> Reader [] None | Some r \<Rightarrow> r)"

definition handleUpload :: "HTTPAgent \<Rightarrow> Request \<Rightarrow> fsys \<Rightarrow> Response \<times> fsys" where
  "handleUpload a r fs =
     (if rq_path r = [] then (http_Error ''path required'' 400, fs)
      else case ag_storage a r of
          Inl err \<Rightarrow> (http_Error (err_text err) 400, fs)
        | Inr st \<Rightarrow>
            (case ss_WriteFile st (rq_path r) (body_reader (rq_body r)) fs of
               (Inl err, fs') \<Rightarrow> (http_Error (err_text err) 500, fs')
             | (Inr _, fs') \<Rightarrow> (http_OK (JStatus ''ok'' (rq_path r)), fs')))"

definition handleDelete :: "HTTPAgent \<Rightarrow> Request \<Rightarrow> fsys \<Rightarrow> Response \<times> fsys" where
  "handleDelete a r fs =
     (if rq_path r = [] then (http_Error ''path required'' 400, fs)
      else case ag_storage a r of
          Inl err \<Rightarrow> (http_Error (err_text err) 400, fs)
        | Inr st \<Rightarrow>
            (case ss_DeleteFile st (rq_path r) fs of
               (Inl err, fs') \<Rightarrow> (http_Error (err_text err) 500, fs')
             | (Inr _, fs') \<Rightarrow> (http_OK (JStatus ''ok'' []), fs')))"

definition handleMkDir :: "HTTPAgent \<Rightarrow> Request \<Rightarrow> fsys \<Rightarrow> Response \<times> fsys" where
  "handleMkDir a r fs =
     (if rq_path r = [] then (http_Error ''path required'' 400, fs)
      else case ag_storage a r of
          Inl err \<Rightarrow> (http_Error (err_text err) 400, fs)
        | Inr st \<Rightarrow>
            (case ss_MkDir st (rq_path r) fs of
               (Inl err, fs') \<Rightarrow> (http_Error (err_text err) 500, fs')
             | (Inr _, fs') \<Rightarrow> (http_OK (JStatus ''ok'' []), fs')))"

definition handleDirs :: "HTTPAgent \<Rightarrow> Request \<Rightarrow> fsys \<Rightarrow> Response \<times> fsys" where
  "handleDirs a r fs =
     (case ListSubdirs fs (ag_rootPath a) (rq_path r) of
        Inl err \<Rightarrow> (http_Error (err_text err) (if is_not_exist err then 404 else 400), fs)
      | Inr dirs \<Rightarrow> (http_OK (JDirs (ag_rootPath a) (rq_path r) dirs), fs))"

definition handleHealth :: "HTTPAgent \<Rightarrow> Request \<Rightarrow> fsys \<Rightarrow> Response \<times> fsys" where
  "handleHealth a r fs =
     (let (now, fs') = time_Now fs in (http_OK (JHealth (ag_nodeID a) (ag_rootPath a) now), fs'))"

definition is_get :: "Request \<Rightarrow> bool" where
  "is_get r \<longleftrightarrow> rq_Method r = ''GET'' \<or> rq_Method r = ''HEAD''"

text \<open>The routes of \<open>Handler\<close>; a known path with another method is answered with 405.\<close>
definition agent_mux :: "hash_fun \<Rightarrow> HTTPAgent \<Rightarrow> Request \<Rightarrow> fsys \<Rightarrow> Response \<times> fsys" where
  "agent_mux sha a r fs =
     (if rq_Endpoint r = ''/agent/files'' \<and> is_get r then handleListFiles sha a r fs
      else if rq_Endpoint r = ''/agent/files/download'' \<and> is_get r then handleDownload a r fs
      else if rq_Endpoint r = ''/agent/files/upload'' \<and> rq_Method r = ''POST'' then handleUpload a r fs
      else if rq_Endpoint r = ''/agent/files/delete'' \<and> rq_Method r = ''DELETE'' then handleDelete a r fs
      else if rq_Endpoint r = ''/agent/mkdir'' \<and> rq_Method r = ''POST'' then handleMkDir a r fs
      else if rq_Endpoint r = ''/agent/dirs'' \<and> is_get r then handleDirs a r fs
      else if rq_Endpoint r = ''/agent/health'' \<and> is_get r then handleHealth a r fs
      else if rq_Endpoint r \<in> {''/agent/files'', ''/agent/files/download'', ''/agent/files/upload'',
                ''/agent/files/delete'', ''/agent/mkdir'', ''/agent/dirs'', ''/agent/health''}
      then (http_Error ''Method Not Allowed'' 405, fs)
      else (http_Error ''404 page not found'' 404, fs))"

definition authMiddleware ::
  "HTTPAgent \<Rightarrow> (Request \<Rightarrow> fsys \<Rightarrow> Response \<times> fsys) \<Rightarrow> Request \<Rightarrow> fsys \<Rightarrow> Response \<times> fsys" where
  "authMiddleware a nxt r fs =
     (if \<not> ValidAgentToken (ag_token a) (rq_token r) then (http_Error ''invalid agent token'' 401, fs)
      else nxt r fs)"

definition agent_Handler :: "hash_fun \<Rightarrow> HTTPAgent \<Rightarrow> Request \<Rightarrow> fsys \<Rightarrow> Response \<times> fsys" where
  "agent_Handler sha a = authMiddleware a (agent_mux sha a)"

section \<open>The server's node for an agent\<close>

record HTTPRemoteNode =
  rn_id :: string
  rn_agentURL :: string
  rn_token :: string
  rn_root :: string

definition NewHTTPAgentNode :: "string \<Rightarrow> string \<Rightarrow> string \<Rightarrow> HTTPRemoteNode" where
  "NewHTTPAgentNode nodeID agentURL token =
     \<lparr>rn_id = nodeID, rn_agentURL = agentURL, rn_token = token, rn_root = []\<rparr>"

definition NewHTTPAgentFolder :: "string \<Rightarrow> string \<Rightarrow> string \<Rightarrow> string \<Rightarrow> HTTPRemoteNode" where
  "NewHTTPAgentFolder nodeID agentURL token root =
     \<lparr>rn_id = nodeID, rn_agentURL = agentURL, rn_token = token, rn_root = root\<rparr>"

text \<open>What \<open>agentHTTPClient\<close> and package \<open>encoding/json\<close> provide: sending a request, which can fail and
  can take effect all the same, and the bytes of a JSON value.\<close>
record 'w transport =
  tr_Do :: "Request \<Rightarrow> ('w, Response) io"
  tr_bytes :: "Body \<Rightarrow> string"

fun reader_of :: "'w transport \<Rightarrow> Body \<Rightarrow> reader" where
  "reader_of tr (Bytes r) = r"
| "reader_of tr (Text s) = Reader s None"
| "reader_of tr b = Reader (tr_bytes tr b) None"

definition rn_do ::
  "'w transport \<Rightarrow> HTTPRemoteNode \<Rightarrow> string \<Rightarrow> string \<Rightarrow> string \<Rightarrow> reader option \<Rightarrow> ('w, Response) io" where
  "rn_do tr n method endpoint path body w =
     (case tr_Do tr \<lparr>rq_URL = rn_agentURL n, rq_Method = method, rq_Endpoint = endpoint, rq_path = path,
                     rq_root = rn_root n, rq_token = rn_token n, rq_body = body\<rparr> w of
        (Inl err, w') \<Rightarrow> (Inl err, w')
      | (Inr resp, w') \<Rightarrow>
          if rs_Status resp < 200 \<or> rs_Status resp \<ge> 300 then
            (Inl (Errorf (''agent '' @ method @ '' '' @ endpoint @ '': '' @ status_text (rs_Status resp) @ '': ''
                    @ take 1024 (rd_data (reader_of tr (rs_Body resp))))), w')
          else (Inr resp, w'))"

definition rn_doClose ::
  "'w transport \<Rightarrow> HTTPRemoteNode \<Rightarrow> string \<Rightarrow> string \<Rightarrow> string \<Rightarrow> reader option \<Rightarrow> ('w, unit) io" where
  "rn_doClose tr n method endpoint path body w =
     (case rn_do tr n method endpoint path body w of
        (Inl err, w') \<Rightarrow> (Inl err, w')
      | (Inr resp, w') \<Rightarrow> (Inr (), w'))"

definition json_error :: gerr where
  "json_error = Errorf ''json: cannot unmarshal''"

definition rn_ListFiles :: "'w transport \<Rightarrow> HTTPRemoteNode \<Rightarrow> ('w, FileEntry list) io" where
  "rn_ListFiles tr n w =
     (case rn_do tr n ''GET'' ''/agent/files'' [] None w of
        (Inl err, w') \<Rightarrow> (Inl err, w')
      | (Inr resp, w') \<Rightarrow> ((case rs_Body resp of JFiles files \<Rightarrow> Inr files | _ \<Rightarrow> Inl json_error), w'))"

definition rn_ReadFile :: "'w transport \<Rightarrow> HTTPRemoteNode \<Rightarrow> string \<Rightarrow> ('w, reader) io" where
  "rn_ReadFile tr n path w =
     (case rn_do tr n ''GET'' ''/agent/files/download'' path None w of
        (Inl err, w') \<Rightarrow> (Inl err, w')
      | (Inr resp, w') \<Rightarrow> (Inr (reader_of tr (rs_Body resp)), w'))"

definition rn_WriteFile :: "'w transport \<Rightarrow> HTTPRemoteNode \<Rightarrow> string \<Rightarrow> reader \<Rightarrow> ('w, unit) io" where
  "rn_WriteFile tr n path r = rn_doClose tr n ''POST'' ''/agent/files/upload'' path (Some r)"

definition rn_DeleteFile :: "'w transport \<Rightarrow> HTTPRemoteNode \<Rightarrow> string \<Rightarrow> ('w, unit) io" where
  "rn_DeleteFile tr n path = rn_doClose tr n ''DELETE'' ''/agent/files/delete'' path None"

definition rn_MkDir :: "'w transport \<Rightarrow> HTTPRemoteNode \<Rightarrow> string \<Rightarrow> ('w, unit) io" where
  "rn_MkDir tr n path = rn_doClose tr n ''POST'' ''/agent/mkdir'' path None"

definition remote_node :: "'w transport \<Rightarrow> HTTPRemoteNode \<Rightarrow> 'w Node" where
  "remote_node tr n =
     \<lparr>ID = rn_id n, Type = ''remote_simple'', ListFiles = rn_ListFiles tr n, ReadFile = rn_ReadFile tr n,
      WriteFile = rn_WriteFile tr n, DeleteFile = rn_DeleteFile tr n, MkDir = rn_MkDir tr n\<rparr>"

text \<open>\<open>ListDirs\<close> asks for a folder relative to the agent's base folder, whatever the node's \<open>root\<close>.\<close>
definition rn_ListDirs :: "'w transport \<Rightarrow> HTTPRemoteNode \<Rightarrow> string \<Rightarrow> ('w, string list) io" where
  "rn_ListDirs tr n rel w =
     (case tr_Do tr \<lparr>rq_URL = rn_agentURL n, rq_Method = ''GET'', rq_Endpoint = ''/agent/dirs'', rq_path = rel,
                     rq_root = [], rq_token = rn_token n, rq_body = None\<rparr> w of
        (Inl err, w') \<Rightarrow> (Inl err, w')
      | (Inr resp, w') \<Rightarrow>
          if rs_Status resp = 404 then (Inl (Wrapf (rel @ '': '') ErrNotExist), w')
          else if rs_Status resp \<noteq> 200 then
            (Inl (Errorf (''agent dirs: '' @ status_text (rs_Status resp) @ '': ''
                    @ take 1024 (rd_data (reader_of tr (rs_Body resp))))), w')
          else ((case rs_Body resp of JDirs root path dirs \<Rightarrow> Inr dirs | _ \<Rightarrow> Inl json_error), w'))"

end
