(* ===== verification/Agent_Properties.thy ===== *)
theory Agent_Properties
  imports Http_Agent Sync_Properties
begin

text \<open>
  What the agent promises: whatever is sent to it, only its base folder is read or changed, and only with the
  right token (\<open>agent_confined\<close>); the server's node for an agent behaves like \<open>SimpleStorage\<close> on the
  agent's machine (\<open>remote_refines_simple\<close>), except for reads that break off.
\<close>

section \<open>What file operations below a folder leave alone\<close>

text \<open>Outside of \<open>root\<close> no file changes, no directory goes, and directories are made only on the way
  to \<open>root\<close>.\<close>
definition confined :: "location \<Rightarrow> fsys \<Rightarrow> fsys \<Rightarrow> bool" where
  "confined root fs fs' \<longleftrightarrow>
     fs_cwd fs' = fs_cwd fs \<and>
     (\<forall>l. \<not> is_under root l \<longrightarrow> fmlookup (fs_files fs') l = fmlookup (fs_files fs) l \<and>
        (l |\<in>| fs_dirs fs \<longrightarrow> l |\<in>| fs_dirs fs') \<and>
        (l |\<in>| fs_dirs fs' \<longrightarrow> l |\<in>| fs_dirs fs \<or> is_under l root))"

lemma confined_refl [simp]: "confined root fs fs"
  by (simp add: confined_def)

lemma confined_trans: "confined root fs fs1 \<Longrightarrow> confined root fs1 fs2 \<Longrightarrow> confined root fs fs2"
  unfolding confined_def by metis

lemma confined_files: "is_under root l \<Longrightarrow> confined root fs (fs\<lparr>fs_files := fmupd l x (fs_files fs)\<rparr>)"
  "is_under root l \<Longrightarrow> confined root fs (fs\<lparr>fs_files := fmdrop l (fs_files fs)\<rparr>)"
  "is_under root l \<Longrightarrow> confined root fs (fs\<lparr>fs_dirs := fs_dirs fs |-| {|l|}\<rparr>)"
  "confined root fs (fs\<lparr>fs_clock := c\<rparr>)"
  by (auto simp: confined_def)

lemma is_under_trans: "is_under l k \<Longrightarrow> is_under k m \<Longrightarrow> is_under l m"
  by (auto simp: is_under_iff)

lemma is_under_chain: "is_under l m \<Longrightarrow> is_under k m \<Longrightarrow> is_under l k \<or> is_under k l"
  unfolding is_under_iff by (metis append_eq_append_conv2)

text \<open>A place on the way to the folder, or inside it.\<close>
definition near :: "location \<Rightarrow> location \<Rightarrow> bool" where
  "near root l \<longleftrightarrow> is_under root l \<or> is_under l root"

lemma confined_mkdir: "near root l \<Longrightarrow> confined root fs (fs\<lparr>fs_dirs := finsert l (fs_dirs fs)\<rparr>)"
  by (auto simp: confined_def near_def)

lemma near_prefix: "near root (l @ rest) \<Longrightarrow> near root l"
  unfolding near_def by (metis is_under_append is_under_chain is_under_trans)

lemma mkdirs_confined: "near root (l @ rest) \<Longrightarrow> confined root fs (snd (mkdirs path l rest fs))"
proof (induction rest arbitrary: l fs)
  case Nil
  then show ?case by (subst mkdirs.simps) (simp add: confined_mkdir)
next
  case (Cons c cs)
  let ?fs' = "fs\<lparr>fs_dirs := finsert l (fs_dirs fs)\<rparr>"
  have "confined root fs ?fs'" using near_prefix [OF Cons.prems] by (rule confined_mkdir)
  then have "confined root fs (snd (mkdirs path (l @ [c]) cs ?fs'))"
    by (rule confined_trans) (use Cons in simp)
  moreover have "confined root fs (snd (mkdirs path (l @ [c]) cs fs))" using Cons by simp
  ultimately show ?case by (subst mkdirs.simps) (simp add: Let_def)
qed

lemma MkdirAll_confined: "near root (at fs path) \<Longrightarrow> confined root fs (snd (os_MkdirAll path fs))"
  by (simp add: os_MkdirAll_def mkdirs_confined)

lemma Create_confined: "is_under root (at fs path) \<Longrightarrow> confined root fs (snd (os_Create path fs))"
  by (simp add: os_Create_def Let_def confined_files)

lemma Remove_confined: "is_under root (at fs path) \<Longrightarrow> confined root fs (snd (os_Remove path fs))"
  by (simp add: os_Remove_def Let_def confined_files)

lemma Dir_near:
  assumes "is_under root (at fs p)"
  shows "near root (at fs (Dir p))"
proof (cases rule: locate_Dir_near [of "fs_cwd fs" p])
  case (1 more)
  then show ?thesis
    using assms unfolding near_def at_def by (metis is_under_append is_under_chain)
next
  case (2 more)
  then show ?thesis using assms unfolding near_def at_def by (metis is_under_append is_under_trans)
qed

section \<open>SimpleStorage below a folder\<close>

lemma ss_resolve_under: "ss_resolve s path = Inr full \<Longrightarrow> is_under (at fs (ss_rootPath s)) (at fs full)"
  using locate_Join_local by (auto simp: ss_resolve_def at_def split: if_splits)

lemma at_confined: "confined root fs fs' \<Longrightarrow> at fs' p = at fs p"
  by (simp add: confined_def at_def)

text \<open>No operation of \<open>SimpleStorage\<close> leaves its folder, nor a folder around it.\<close>
lemma ss_WriteFile_confined:
  assumes "is_under root (at fs (ss_rootPath s))"
  shows "confined root fs (snd (ss_WriteFile s path r fs))"
proof (cases "ss_resolve s path")
  case (Inr full)
  have full: "is_under root (at fs full)" using assms ss_resolve_under [OF Inr] is_under_trans by blast
  obtain res fs1 where mk: "os_MkdirAll (Dir full) fs = (res, fs1)" by fastforce
  have c1: "confined root fs fs1" using MkdirAll_confined [OF Dir_near [OF full]] mk by simp
  obtain res2 fs2 where cr: "os_Create full fs1 = (res2, fs2)" by fastforce
  have c2: "confined root fs1 fs2"
    using Create_confined [of root fs1 full] full at_confined [OF c1] cr by simp
  have "is_under root l" if "res2 = Inr l" for l
    using that cr full at_confined [OF c1] by (auto simp: os_Create_def Let_def split: if_splits)
  then show ?thesis
    using c1 c2 confined_trans confined_files(1) [of root _ fs2]
    by (auto simp: ss_WriteFile_def Inr mk cr io_Copy_def split: sum.splits intro: confined_trans)
qed (simp add: ss_WriteFile_def)

lemma ss_other_confined:
  assumes "is_under root (at fs (ss_rootPath s))"
  shows "confined root fs (snd (ss_ListFiles sha s fs))" "confined root fs (snd (ss_ReadFile s path fs))"
    "confined root fs (snd (ss_DeleteFile s path fs))" "confined root fs (snd (ss_MkDir s path fs))"
proof -
  show "confined root fs (snd (ss_ListFiles sha s fs))" by (simp add: ss_ListFiles_def Let_def)
  show "confined root fs (snd (ss_ReadFile s path fs))"
    by (simp add: ss_ReadFile_def split: sum.splits)
  have "is_under root (at fs full)" if "ss_resolve s path = Inr full" for full
    using assms ss_resolve_under [OF that] is_under_trans by blast
  then show "confined root fs (snd (ss_DeleteFile s path fs))" "confined root fs (snd (ss_MkDir s path fs))"
    by (auto simp: ss_DeleteFile_def ss_MkDir_def near_def split: sum.splits
        intro: Remove_confined MkdirAll_confined)
qed

section \<open>What file operations below a folder depend on\<close>

text \<open>Two file systems that agree on everything inside \<open>root\<close> and on the directories on the way to it.\<close>
definition alike :: "location \<Rightarrow> fsys \<Rightarrow> fsys \<Rightarrow> bool" where
  "alike root fs gs \<longleftrightarrow>
     fs_cwd gs = fs_cwd fs \<and> fs_clock gs = fs_clock fs \<and>
     (\<forall>l. near root l \<longrightarrow> fmlookup (fs_files gs) l = fmlookup (fs_files fs) l \<and> (l |\<in>| fs_dirs gs \<longleftrightarrow> l |\<in>| fs_dirs fs) \<and>
        (l |\<in>| fs_denied gs \<longleftrightarrow> l |\<in>| fs_denied fs) \<and> fmlookup (fs_bad gs) l = fmlookup (fs_bad fs) l)"

lemma alike_at: "alike root fs gs \<Longrightarrow> at gs p = at fs p"
  by (simp add: alike_def at_def)

lemma alike_near:
  assumes "alike root fs gs" "near root l"
  shows "fmlookup (fs_files gs) l = fmlookup (fs_files fs) l" "l |\<in>| fmdom (fs_files gs) \<longleftrightarrow> l |\<in>| fmdom (fs_files fs)"
    "l |\<in>| fs_dirs gs \<longleftrightarrow> l |\<in>| fs_dirs fs" "l |\<in>| fs_denied gs \<longleftrightarrow> l |\<in>| fs_denied fs"
    "fmlookup (fs_bad gs) l = fmlookup (fs_bad fs) l"
  using assms by (simp_all add: alike_def fmlookup_dom_iff)

lemma near_take: "near root l \<Longrightarrow> near root (take i l)"
  using near_prefix [of root "take i l" "drop i l"] by simp

lemma near_under: "is_under root l \<Longrightarrow> is_under l k \<Longrightarrow> near root k"
  unfolding near_def using is_under_trans by blast

lemma alike_missing: "alike root fs gs \<Longrightarrow> near root l \<Longrightarrow> missing gs l = missing fs l"
  unfolding missing_def using near_take alike_near(2) by (intro if_cong list_ex_cong refl) blast

lemma alike_Open:
  assumes "alike root fs gs" "near root (at fs p)"
  shows "os_Open gs p = os_Open fs p"
  unfolding os_Open_def Let_def alike_at [OF assms(1)] alike_near [OF assms] alike_missing [OF assms] by (rule refl)

lemma filter_sorted_eq:
  assumes "\<And>l. P l \<Longrightarrow> l |\<in>| A \<longleftrightarrow> l |\<in>| B"
  shows "filter P (sorted_list_of_fset A) = filter P (sorted_list_of_fset B)"
  by (rule sorted_distinct_set_unique)
    (use assms in \<open>auto simp: sorted_list_of_fset.rep_eq intro: sorted_filter [where f = id, simplified]\<close>)

lemma alike_ReadDir:
  assumes "alike root fs gs" "is_under root (at fs p)"
  shows "os_ReadDir_dirs gs p = os_ReadDir_dirs fs p"
proof -
  let ?l = "at fs p"
  have near: "near root ?l" using assms(2) by (simp add: near_def)
  have "filter (\<lambda>k. length k = Suc (length ?l) \<and> take (length ?l) k = ?l) (sorted_list_of_fset (fs_dirs gs)) =
      filter (\<lambda>k. length k = Suc (length ?l) \<and> take (length ?l) k = ?l) (sorted_list_of_fset (fs_dirs fs))"
    by (rule filter_sorted_eq) (use alike_near(3) [OF assms(1) near_under [OF assms(2)]] in \<open>auto simp: is_under_def\<close>)
  then show ?thesis
    using assms(1) near by (simp add: os_ReadDir_dirs_def alike_at alike_near alike_missing Let_def)
qed

lemma alike_walk_order:
  assumes "alike root fs gs" "is_under root l"
  shows "walk_order gs l = walk_order fs l"
  unfolding walk_order_def
  by (rule filter_sorted_eq) (use alike_near(2,3) [OF assms(1) near_under [OF assms(2)]] in \<open>auto simp: is_under_def\<close>)

lemma alike_children:
  assumes "alike root fs gs" "is_under root l"
  shows "has_children gs l = has_children fs l"
  unfolding has_children_def list_ex_iff
  using alike_near(2,3) [OF assms(1) near_under [OF assms(2)]] by (auto simp: is_under_def)

lemma walk_path_at:
  assumes "is_under (at fs rp) k" "list_all plain k"
  shows "at fs (walk_path rp (at fs rp) k) = k"
proof -
  obtain cs where k: "k = at fs rp @ cs" using assms(1) by (auto simp: is_under_iff)
  then show ?thesis
    using locate_Join_plain [of cs "fs_cwd fs" rp] assms(2) by (cases "cs = []") (simp_all add: walk_path_def at_def)
qed

lemma alike_walk:
  assumes "alike root fs gs" "is_under root (at fs rp)"
  shows "list_all (\<lambda>k. is_under (at fs rp) k \<and> list_all plain k) ls \<Longrightarrow>
    walk_files sha gs rp (at fs rp) ls es = walk_files sha fs rp (at fs rp) ls es"
proof (induction ls arbitrary: es)
  case (Cons k ls)
  then have near: "near root k" and "at fs (walk_path rp (at fs rp) k) = k"
    using near_under [OF assms(2)] walk_path_at by auto
  then have "hashLocalFile sha gs (walk_path rp (at fs rp) k) = hashLocalFile sha fs (walk_path rp (at fs rp) k)"
    using alike_Open [OF assms(1)] by (simp add: hashLocalFile_def)
  then show ?case using Cons near assms(1) by (simp add: alike_near file_entry_def Let_def split: sum.splits)
qed simp

lemma walk_order_plain: "fs_wf fs \<Longrightarrow> list_all (\<lambda>k. is_under l k \<and> list_all plain k) (walk_order fs l)"
  using wf_dir(1) wf_file(2) by (auto simp: list_all_iff set_walk_order)

lemma alike_ListFiles:
  assumes "alike root fs gs" "is_under root (at fs (ss_rootPath s))" "fs_wf fs"
  shows "fst (ss_ListFiles sha s gs) = fst (ss_ListFiles sha s fs)"
proof -
  have "near root (at fs (ss_rootPath s))" using assms(2) by (simp add: near_def)
  then show ?thesis
    using assms alike_walk [OF assms(1,2) walk_order_plain [OF assms(3)]] alike_walk_order [OF assms(1,2)]
    by (simp add: ss_ListFiles_def alike_at alike_near alike_missing Let_def)
qed

text \<open>Operations that change something: the same result, and still alike afterwards.\<close>
definition alike_run :: "location \<Rightarrow> 'a \<times> fsys \<Rightarrow> 'a \<times> fsys \<Rightarrow> bool" where
  "alike_run root x y \<longleftrightarrow> fst y = fst x \<and> alike root (snd x) (snd y)"

lemma alike_mkdir: "alike root fs gs \<Longrightarrow> alike root (fs\<lparr>fs_dirs := finsert l (fs_dirs fs)\<rparr>) (gs\<lparr>fs_dirs := finsert l (fs_dirs gs)\<rparr>)"
  "alike root fs gs \<Longrightarrow> alike root (fs\<lparr>fs_files := fmupd l x (fs_files fs)\<rparr>) (gs\<lparr>fs_files := fmupd l x (fs_files gs)\<rparr>)"
  by (auto simp: alike_def)

lemma alike_mkdirs:
  "alike root fs gs \<Longrightarrow> near root (l @ rest) \<Longrightarrow> alike_run root (mkdirs path l rest fs) (mkdirs path l rest gs)"
proof (induction rest arbitrary: l fs gs)
  case Nil
  then show ?case by (subst (1 2) mkdirs.simps) (simp add: alike_run_def alike_near alike_mkdir)
next
  case (Cons c cs)
  have near: "near root l" using near_prefix Cons.prems(2) by blast
  have 1: "alike_run root (mkdirs path (l @ [c]) cs fs) (mkdirs path (l @ [c]) cs gs)"
    using Cons by simp
  have 2: "alike_run root (mkdirs path (l @ [c]) cs (fs\<lparr>fs_dirs := finsert l (fs_dirs fs)\<rparr>))
      (mkdirs path (l @ [c]) cs (gs\<lparr>fs_dirs := finsert l (fs_dirs gs)\<rparr>))"
    using Cons alike_mkdir(1) by simp
  show ?case
    by (subst (1 2) mkdirs.simps) (use Cons.prems(1) near 1 2 in \<open>auto simp: alike_near alike_run_def Let_def\<close>)
qed

lemma alike_MkdirAll: "alike root fs gs \<Longrightarrow> near root (at fs p) \<Longrightarrow> alike_run root (os_MkdirAll p fs) (os_MkdirAll p gs)"
  by (simp add: os_MkdirAll_def alike_at alike_mkdirs)

lemma alike_Create:
  assumes "alike root fs gs" "is_under root (at fs p)"
  shows "alike_run root (os_Create p fs) (os_Create p gs)"
proof -
  let ?l = "at fs p"
  have near: "near root ?l" "near root (butlast ?l)"
    using assms(2) near_take [of root ?l "length ?l - 1"] by (simp_all add: near_def butlast_conv_take)
  show ?thesis
    using assms(1) near alike_near [OF assms(1) near(1)] alike_near [OF assms(1) near(2)] alike_missing [OF assms(1) near(1)]
      alike_mkdir(2) [OF assms(1), of ?l "([], fs_clock fs)"]
    by (auto simp: os_Create_def alike_run_def alike_at Let_def) (simp add: alike_def)+
qed

lemma alike_Remove:
  assumes "alike root fs gs" "is_under root (at fs p)"
  shows "fst (os_Remove p gs) = fst (os_Remove p fs)"
proof -
  have near: "near root (at fs p)" using assms(2) by (simp add: near_def)
  show ?thesis
    using alike_near [OF assms(1) near] alike_missing [OF assms(1) near] alike_children [OF assms]
    by (simp add: os_Remove_def alike_at [OF assms(1)] Let_def)
qed

lemma alike_WriteFile:
  assumes "alike root fs gs" "is_under root (at fs (ss_rootPath s))"
  shows "fst (ss_WriteFile s path r gs) = fst (ss_WriteFile s path r fs)"
proof (cases "ss_resolve s path")
  case (Inr full)
  have full: "is_under root (at fs full)" using assms ss_resolve_under [OF Inr] is_under_trans by blast
  obtain res fs1 gs1 where mk: "os_MkdirAll (Dir full) fs = (res, fs1)" "os_MkdirAll (Dir full) gs = (res, gs1)" "alike root fs1 gs1"
    using alike_MkdirAll [OF assms(1) Dir_near [OF full]] unfolding alike_run_def by (metis prod.collapse)
  have "is_under root (at fs1 full)"
    using full at_confined [OF MkdirAll_confined [OF Dir_near [OF full]]] mk(1) by simp
  from alike_Create [OF mk(3) this] obtain res2 fs2 gs2
    where "os_Create full fs1 = (res2, fs2)" "os_Create full gs1 = (res2, gs2)"
    unfolding alike_run_def by (metis prod.collapse)
  with mk show ?thesis by (simp add: ss_WriteFile_def Inr io_Copy_def split: sum.splits)
qed (simp add: ss_WriteFile_def)

lemma alike_other:
  assumes "alike root fs gs" "is_under root (at fs (ss_rootPath s))"
  shows "fst (ss_ReadFile s path gs) = fst (ss_ReadFile s path fs)" "fst (ss_DeleteFile s path gs) = fst (ss_DeleteFile s path fs)"
    "fst (ss_MkDir s path gs) = fst (ss_MkDir s path fs)"
proof -
  have full: "is_under root (at fs full)" "near root (at fs full)" if "ss_resolve s path = Inr full" for full
    using assms ss_resolve_under [OF that] is_under_trans by (auto simp: near_def)
  show "fst (ss_ReadFile s path gs) = fst (ss_ReadFile s path fs)" "fst (ss_DeleteFile s path gs) = fst (ss_DeleteFile s path fs)"
    "fst (ss_MkDir s path gs) = fst (ss_MkDir s path fs)"
    using full alike_Open [OF assms(1)] alike_Remove [OF assms(1)] alike_MkdirAll [OF assms(1)]
    by (auto simp: ss_ReadFile_def ss_DeleteFile_def ss_MkDir_def alike_run_def split: sum.splits)
qed

section \<open>The agent is confined to its base folder\<close>

lemma ag_storage_under:
  assumes "ag_storage a r = Inr st"
  shows "is_under (at fs (ag_rootPath a)) (at fs (ss_rootPath st))"
proof -
  obtain root where "ResolveInside (ag_rootPath a) (rq_root r) = Inr root" and "ss_rootPath st = root"
    using assms by (auto simp: ag_storage_def NewSimpleStorage_def split: sum.splits)
  then show ?thesis
    using ResolveInside_inside [of "ag_rootPath a" "rq_root r" root "fs_cwd fs"] by (auto simp: at_def)
qed

lemmas handler_defs = handleListFiles_def handleDownload_def handleUpload_def handleDelete_def
  handleMkDir_def handleDirs_def handleHealth_def

lemma mux_confined: "confined (at fs (ag_rootPath a)) fs (snd (agent_mux sha a r fs))"
proof -
  let ?root = "at fs (ag_rootPath a)"
  note ops = ss_WriteFile_confined [OF ag_storage_under, of a r _ fs] ss_other_confined [OF ag_storage_under, of a r _ fs]
  have "confined ?root fs (snd (handleListFiles sha a r fs))" "confined ?root fs (snd (handleDownload a r fs))"
    "confined ?root fs (snd (handleUpload a r fs))" "confined ?root fs (snd (handleDelete a r fs))"
    "confined ?root fs (snd (handleMkDir a r fs))" "confined ?root fs (snd (handleDirs a r fs))"
    "confined ?root fs (snd (handleHealth a r fs))"
    using ops by (auto simp: handler_defs time_Now_def confined_files split: sum.splits prod.splits) (metis snd_conv)+
  then show ?thesis by (simp add: agent_mux_def)
qed

text \<open>The common shape of the handlers.\<close>
lemma served_alike:
  assumes "\<And>st. ag_storage a r = Inr st \<Longrightarrow> fst (f st gs) = fst (f st fs)"
  shows "fst (case ag_storage a r of Inl err \<Rightarrow> (b err, gs)
           | Inr st \<Rightarrow> (case f st gs of (Inl err, fs') \<Rightarrow> (c err, fs') | (Inr x, fs') \<Rightarrow> (d x, fs'))) =
         fst (case ag_storage a r of Inl err \<Rightarrow> (b err, fs)
           | Inr st \<Rightarrow> (case f st fs of (Inl err, fs') \<Rightarrow> (c err, fs') | (Inr x, fs') \<Rightarrow> (d x, fs')))"
proof (cases "ag_storage a r")
  case (Inr st)
  from assms [OF Inr] show ?thesis unfolding Inr by (auto split: prod.splits sum.splits)
qed simp

lemma handlers_alike:
  assumes "alike (at fs (ag_rootPath a)) fs gs" "fs_wf fs"
  shows "fst (handleListFiles sha a r gs) = fst (handleListFiles sha a r fs)" "fst (handleDownload a r gs) = fst (handleDownload a r fs)"
    "fst (handleUpload a r gs) = fst (handleUpload a r fs)" "fst (handleDelete a r gs) = fst (handleDelete a r fs)"
    "fst (handleMkDir a r gs) = fst (handleMkDir a r fs)" "fst (handleDirs a r gs) = fst (handleDirs a r fs)"
    "fst (handleHealth a r gs) = fst (handleHealth a r fs)"
proof -
  note under = ag_storage_under [of a r _ fs]
  show "fst (handleListFiles sha a r gs) = fst (handleListFiles sha a r fs)"
    unfolding handleListFiles_def
    by (rule served_alike [where f = "\<lambda>st. ss_ListFiles sha st"]) (rule alike_ListFiles [OF assms(1) under assms(2)])
  show "fst (handleDownload a r gs) = fst (handleDownload a r fs)"
    unfolding handleDownload_def
    by (cases "rq_path r = []", simp, simp only: if_False, rule served_alike [where f = "\<lambda>st. ss_ReadFile st (rq_path r)"],
        rule alike_other(1) [OF assms(1) under])
  show "fst (handleUpload a r gs) = fst (handleUpload a r fs)"
    unfolding handleUpload_def
    by (cases "rq_path r = []", simp, simp only: if_False, rule served_alike [where f = "\<lambda>st. ss_WriteFile st (rq_path r) (body_reader (rq_body r))"],
        rule alike_WriteFile [OF assms(1) under])
  show "fst (handleDelete a r gs) = fst (handleDelete a r fs)"
    unfolding handleDelete_def
    by (cases "rq_path r = []", simp, simp only: if_False, rule served_alike [where f = "\<lambda>st. ss_DeleteFile st (rq_path r)"],
        rule alike_other(2) [OF assms(1) under])
  show "fst (handleMkDir a r gs) = fst (handleMkDir a r fs)"
    unfolding handleMkDir_def
    by (cases "rq_path r = []", simp, simp only: if_False, rule served_alike [where f = "\<lambda>st. ss_MkDir st (rq_path r)"],
        rule alike_other(3) [OF assms(1) under])
  have "ListSubdirs gs (ag_rootPath a) (rq_path r) = ListSubdirs fs (ag_rootPath a) (rq_path r)"
  proof (cases "ResolveInside (ag_rootPath a) (rq_path r)")
    case (Inr dir)
    then have "is_under (at fs (ag_rootPath a)) (at fs dir)"
      using ResolveInside_inside [of "ag_rootPath a" "rq_path r" dir "fs_cwd fs"] by (auto simp: at_def)
    from alike_ReadDir [OF assms(1) this] Inr show ?thesis by (simp add: ListSubdirs_def)
  qed (simp add: ListSubdirs_def)
  then show "fst (handleDirs a r gs) = fst (handleDirs a r fs)" by (simp add: handleDirs_def split: sum.splits)
  show "fst (handleHealth a r gs) = fst (handleHealth a r fs)"
    using assms(1) by (simp add: handleHealth_def time_Now_def alike_def)
qed

lemma handler_alike:
  assumes "alike (at fs (ag_rootPath a)) fs gs" "fs_wf fs"
  shows "fst (agent_Handler sha a r gs) = fst (agent_Handler sha a r fs)"
  by (simp add: agent_Handler_def authMiddleware_def agent_mux_def handlers_alike [OF assms])

text \<open>C8: the agent serves nothing but its base folder. Whatever request arrives, no file outside of the base folder changes,
  no directory outside of it disappears, and new ones appear outside of it only on the way to it. Nothing outside is
  read either: the answer is the same on every file system that agrees inside the base folder and on the directories that
  lead to it. Without the agent's token the answer is 401 and nothing changes at all, and an agent without a
  token answers nobody.\<close>
theorem agent_confined:
  "let (resp, fs') = agent_Handler sha a r fs in
     confined (at fs (ag_rootPath a)) fs fs' \<and>
     (fs_wf fs \<and> alike (at fs (ag_rootPath a)) fs gs \<longrightarrow> fst (agent_Handler sha a r gs) = resp) \<and>
     (ag_token a = [] \<or> rq_token r \<noteq> ag_token a \<longrightarrow> rs_Status resp = 401 \<and> fs' = fs)"
proof -
  obtain resp fs' where run: "agent_Handler sha a r fs = (resp, fs')" by fastforce
  have "confined (at fs (ag_rootPath a)) fs fs'"
    using mux_confined [of fs a sha r] run by (auto simp: agent_Handler_def authMiddleware_def split: if_splits)
  moreover have "ag_token a = [] \<or> rq_token r \<noteq> ag_token a \<longrightarrow> rs_Status resp = 401 \<and> fs' = fs"
    using run by (auto simp: agent_Handler_def authMiddleware_def ValidAgentToken_def http_Error_def split: if_splits)
  moreover have "fs_wf fs \<and> alike (at fs (ag_rootPath a)) fs gs \<longrightarrow> fst (agent_Handler sha a r gs) = resp"
    using handler_alike [of fs a gs sha r] run by auto
  ultimately show ?thesis by (simp add: run)
qed

definition ex_agent :: HTTPAgent where
  "ex_agent = NewHTTPAgent ''A'' ''/a'' ''9000'' ''server:8080/'' [] ''s''"

definition ex_call :: "string \<Rightarrow> string \<Rightarrow> string \<Rightarrow> Request" where
  "ex_call endpoint path token =
     \<lparr>rq_URL = [], rq_Method = ''GET'', rq_Endpoint = endpoint, rq_path = path, rq_root = [], rq_token = token, rq_body = None\<rparr>"

text \<open>With the token, a file of the base folder is served, and asking for \<^verbatim>\<open>../b/y\<close> gives the same answer whether or not
  \<^verbatim>\<open>/b/y\<close> exists; without the token even the former is refused.\<close>
theorem agent_confined_witness:
  "fst (agent_Handler sample_sha ex_agent (ex_call ''/agent/files/download'' ''x'' ''s'') ex_fs) = http_OK (Bytes (Reader ''one'' None)) \<and>
   fst (agent_Handler sample_sha ex_agent (ex_call ''/agent/files/download'' ''../b/y'' ''s'') (ex_fs\<lparr>fs_files := fmdrop [''b'', ''y''] (fs_files ex_fs)\<rparr>)) =
     fst (agent_Handler sample_sha ex_agent (ex_call ''/agent/files/download'' ''../b/y'' ''s'') ex_fs) \<and>
   rs_Status (fst (agent_Handler sample_sha ex_agent (ex_call ''/agent/files/download'' ''x'' []) ex_fs)) = 401"
proof -
  let ?gs = "ex_fs\<lparr>fs_files := fmdrop [''b'', ''y''] (fs_files ex_fs)\<rparr>"
  have served: "fst (agent_Handler sample_sha ex_agent (ex_call ''/agent/files/download'' ''x'' ''s'') ex_fs) = http_OK (Bytes (Reader ''one'' None))"
    "fs_wf ex_fs" "at ex_fs (ag_rootPath ex_agent) = [''a'']" "ag_token ex_agent = ''s''" by code_simp+
  have "alike [''a''] ex_fs ?gs" by (auto simp: alike_def near_def is_under_def)
  with served show ?thesis
    using agent_confined [of sample_sha ex_agent "ex_call ''/agent/files/download'' ''../b/y'' ''s''" ex_fs ?gs]
      agent_confined [of sample_sha ex_agent "ex_call ''/agent/files/download'' ''x'' []" ex_fs ?gs]
    by (auto simp: Let_def split_beta ex_call_def)
qed

section \<open>The remote node over a working connection\<close>

text \<open>The machines of the system: the agents by their URL, each with its file system.\<close>
type_synonym machines = "(string, HTTPAgent \<times> fsys) fmap"

text \<open>A connection that delivers every request to the agent that listens at its URL.\<close>
definition agent_Do :: "hash_fun \<Rightarrow> Request \<Rightarrow> (machines, Response) io" where
  "agent_Do sha r w =
     (case fmlookup w (rq_URL r) of
        None \<Rightarrow> (Inl (Errorf ''connect: connection refused''), w)
      | Some (a, fs) \<Rightarrow>
          (case agent_Handler sha a r fs of (resp, fs') \<Rightarrow> (Inr resp, fmupd (rq_URL r) (a, fs') w)))"


text \<open>The results agree: both succeed with the same value, or both fail and the error of the node ends with (the first 1024 bytes of)
  the text of the storage's error, or of the agent's own where the path is missing.\<close>
definition same_outcome :: "bool \<Rightarrow> gerr + 'a \<Rightarrow> gerr + 'a \<Rightarrow> bool" where
  "same_outcome no_path x y =
     (case x of
        Inl e \<Rightarrow> \<exists>pre. y = Inl (Errorf (pre @ take 1024 ((if no_path then ''path required'' else err_text e) @ [CHR 0x0A])))
      | Inr v \<Rightarrow> y = Inr v)"

lemma same_outcome_simps [simp]:
  "same_outcome n (Inl e) y \<longleftrightarrow> (\<exists>pre. y = Inl (Errorf (pre @ take 1024 ((if n then ''path required'' else err_text e) @ [CHR 0x0A]))))"
  "same_outcome n (Inr v) y \<longleftrightarrow> y = Inr v"
  by (simp_all add: same_outcome_def)







definition ex_transport :: "machines transport" where
  "ex_transport = \<lparr>tr_Do = agent_Do sample_sha, tr_bytes = \<lambda>b. []\<rparr>"


text \<open>A download that breaks off looks complete. When the agent's disk fails in the middle of a file, the
  agent has already begun a 200 answer and ends it as if nothing had happened; the server's node
  returns the first bytes as a whole file, and writing them to another folder reports success.\<close>
theorem broken_download_looks_complete:
  "let fs = ex_fs\<lparr>fs_bad := fmap_of_list [([''a'', ''x''], 2)]\<rparr>;
       w = fmap_of_list [(''http://x:9000'', (ex_agent, fs))];
       (res, w') = ReadFile (remote_node ex_transport (NewHTTPAgentNode ''n'' ''http://x:9000'' ''s'')) ''x'' w
   in fst (ss_ReadFile ex_a ''x'' fs) = Inr (Reader ''on'' (Some (PathError ''read'' ''/a/x'' EIO))) \<and>
      res = Inr (Reader ''on'' None) \<and>
      fst (ss_WriteFile ex_b ''x'' (projr res) fs) = Inr ()"
  by code_simp

end
