(* ===== verification/World.thy ===== *)
theory World
  imports Simple_Storage
begin

text \<open>
  The world of the server: the file system of its own machine and everything it reaches over the
  network, which stays abstract. \<open>SimpleStorage\<close> is a node of this world, and the functions of
  package \<open>os\<close> for temporary files act on its file system.
\<close>

record 'd world =
  wd_local :: fsys
  wd_net :: 'd

definition on_local :: "(fsys, 'a) io \<Rightarrow> ('d world, 'a) io" where
  "on_local f w = (case f (wd_local w) of (res, fs) \<Rightarrow> (res, w\<lparr>wd_local := fs\<rparr>))"

definition world_Now :: "'d world \<Rightarrow> gotime \<times> 'd world" where
  "world_Now w = (case time_Now (wd_local w) of (t, fs) \<Rightarrow> (t, w\<lparr>wd_local := fs\<rparr>))"

text \<open>\<open>SimpleStorage\<close> on the server's own machine.\<close>
definition local_node :: "hash_fun \<Rightarrow> SimpleStorage \<Rightarrow> 'd world Node" where
  "local_node sha s =
     \<lparr>ID = ss_id s, Type = ''simple'', ListFiles = on_local (ss_ListFiles sha s),
      ReadFile = \<lambda>p. on_local (ss_ReadFile s p), WriteFile = \<lambda>p r. on_local (ss_WriteFile s p r),
      DeleteFile = \<lambda>p. on_local (ss_DeleteFile s p), MkDir = \<lambda>p. on_local (ss_MkDir s p)\<rparr>"

text \<open>\<open>os.MkdirTemp(dir, pattern)\<close>; the random suffix is a parameter.\<close>
definition os_MkdirTemp :: "(fsys \<Rightarrow> string) \<Rightarrow> string \<Rightarrow> string \<Rightarrow> (fsys, string) io" where
  "os_MkdirTemp sfx dir pattern fs =
     (let path = Join dir (pattern @ sfx fs); l = at fs path in
      if l |\<in>| fs_dirs fs \<or> l |\<in>| fmdom (fs_files fs) then (Inl (PathError ''mkdirtemp'' path EEXIST), fs)
      else if l |\<in>| fs_denied fs then (Inl (PathError ''mkdir'' path EACCES), fs)
      else if butlast l |\<notin>| fs_dirs fs then (Inl (PathError ''mkdir'' path (missing fs l)), fs)
      else (Inr path, fs\<lparr>fs_dirs := finsert l (fs_dirs fs)\<rparr>))"

definition under_loc :: "location \<Rightarrow> location \<Rightarrow> bool" where
  "under_loc l k = (take (length l) k = l)"

definition os_RemoveAll :: "string \<Rightarrow> fsys \<Rightarrow> fsys" where
  "os_RemoveAll path fs =
     (let l = at fs path in
      fs\<lparr>fs_files := fmfilter (\<lambda>k. \<not> under_loc l k) (fs_files fs),
         fs_dirs := ffilter (\<lambda>k. \<not> under_loc l k) (fs_dirs fs)\<rparr>)"

definition remove_tmp :: "string \<Rightarrow> 'd world \<Rightarrow> 'd world" where
  "remove_tmp dir w = w\<lparr>wd_local := os_RemoveAll dir (wd_local w)\<rparr>"

text \<open>\<open>os.Stat\<close> succeeds and \<open>IsDir()\<close> holds.\<close>
definition os_is_dir :: "fsys \<Rightarrow> string \<Rightarrow> bool" where
  "os_is_dir fs path \<longleftrightarrow> at fs path |\<in>| fs_dirs fs"

end
