(* ===== verification/Google_Drive.thy ===== *)
theory Google_Drive
  imports World
begin

text \<open>
  The part of \<open>google.DriveAdapter\<close> that works on one Google account (\<^verbatim>\<open>internal/oauth/google/drive.go\<close>).
  Google's API, the token service and the formats of package \<open>time\<close> are parameters: records of
  functions. The files of the server's machine are those of the world.
\<close>

section \<open>Google's API\<close>

text \<open>A file as the API describes it (\<open>drive.File\<close>); times are RFC 3339 texts.\<close>
record ApiFile =
  af_Id :: string
  af_Name :: string
  af_MimeType :: string
  af_Size :: int
  af_Sha256Checksum :: string
  af_CreatedTime :: string
  af_ModifiedTime :: string
  af_Parents :: "string list"
  af_WebViewLink :: string
  af_Trashed :: bool

text \<open>\<open>api_List query pageSize pageToken\<close> is one page and the token of the next; \<open>api_Create\<close> and
  \<open>api_Update\<close> have an optional content.\<close>
record 'w drive_service =
  api_List :: "string \<Rightarrow> nat \<Rightarrow> string \<Rightarrow> ('w, ApiFile list \<times> string) io"
  api_Get :: "string \<Rightarrow> ('w, ApiFile) io"
  api_Download :: "string \<Rightarrow> ('w, reader) io"
  api_Create :: "ApiFile \<Rightarrow> reader option \<Rightarrow> ('w, ApiFile) io"
  api_Update :: "string \<Rightarrow> bool \<Rightarrow> reader option \<Rightarrow> ('w, ApiFile) io"
  api_About :: "('w, unit) io"

record time_format =
  tf_Parse :: "string \<Rightarrow> gotime option"
  tf_String :: "gotime \<Rightarrow> string"

record 'w DriveAdapter =
  da_token :: "string \<Rightarrow> string \<Rightarrow> ('w, string) io"
  da_NewService :: "string \<Rightarrow> gerr + 'w drive_service"
  da_time :: time_format

record GoogleDriveFile =
  gf_ID :: string
  gf_Name :: string
  gf_MimeType :: string
  gf_Size :: int
  gf_CreatedTime :: gotime
  gf_ModifiedTime :: gotime
  gf_Parents :: "string list"
  gf_WebViewLink :: string
  gf_Sha256Checksum :: string

record GoogleDriveFolder =
  gfo_ID :: string
  gfo_Name :: string
  gfo_CreatedTime :: gotime
  gfo_ModifiedTime :: gotime
  gfo_Parents :: "string list"
  gfo_WebViewLink :: string

abbreviation folder_mime :: string where
  "folder_mime \<equiv> ''application/vnd.google-apps.folder''"

definition new_api_file :: ApiFile where
  "new_api_file = \<lparr>af_Id = [], af_Name = [], af_MimeType = [], af_Size = 0, af_Sha256Checksum = [],
     af_CreatedTime = [], af_ModifiedTime = [], af_Parents = [], af_WebViewLink = [], af_Trashed = False\<rparr>"

section \<open>The adapter\<close>

definition parseTime :: "time_format \<Rightarrow> string \<Rightarrow> gotime" where
  "parseTime tf s =
     (if s = [] then 0 else case tf_Parse tf s of None \<Rightarrow> 0 | Some t \<Rightarrow> t)"

definition convertDriveFile :: "time_format \<Rightarrow> ApiFile \<Rightarrow> GoogleDriveFile" where
  "convertDriveFile tf f =
     \<lparr>gf_ID = af_Id f, gf_Name = af_Name f, gf_MimeType = af_MimeType f, gf_Size = af_Size f,
      gf_CreatedTime = parseTime tf (af_CreatedTime f), gf_ModifiedTime = parseTime tf (af_ModifiedTime f),
      gf_Parents = af_Parents f, gf_WebViewLink = af_WebViewLink f, gf_Sha256Checksum = af_Sha256Checksum f\<rparr>"

definition getDriveServiceByAccount :: "'w DriveAdapter \<Rightarrow> string \<Rightarrow> string \<Rightarrow> ('w, 'w drive_service) io" where
  "getDriveServiceByAccount d userID accountID w =
     (case da_token d userID accountID w of
        (Inl err, w') \<Rightarrow> (Inl (Wrapf (''failed to get token for account '' @ accountID @ '': '') err), w')
      | (Inr token, w') \<Rightarrow> (da_NewService d token, w'))"

text \<open>\<open>escapeQuery\<close>: a backslash and a quote get a backslash before them.\<close>
fun escapeQuery :: "string \<Rightarrow> string" where
  "escapeQuery [] = []"
| "escapeQuery (c # cs) =
     (if c = CHR 0x5C \<or> c = CHR 0x27 then CHR 0x5C # c # escapeQuery cs else c # escapeQuery cs)"

definition list_query :: "string \<Rightarrow> string" where
  "list_query folderID = ''trashed=false and '' @ [CHR 0x27] @ escapeQuery folderID @ [CHR 0x27] @ '' in parents''"

text \<open>The loop over the pages; the fuel bounds their number.\<close>
fun list_pages ::
  "nat \<Rightarrow> time_format \<Rightarrow> 'w drive_service \<Rightarrow> string \<Rightarrow> nat \<Rightarrow> string \<Rightarrow> GoogleDriveFile list \<Rightarrow>
   ('w, GoogleDriveFile list) io" where
  "list_pages 0 tf service query pageSize pageToken files w = (Inl (Errorf ''the pages do not end''), w)"
| "list_pages (Suc n) tf service query pageSize pageToken files w =
     (case api_List service query pageSize pageToken w of
        (Inl err, w') \<Rightarrow> (Inl (Wrapf ''failed to list files: '' err), w')
      | (Inr (page, nextToken), w') \<Rightarrow>
          let files' = files @ map (convertDriveFile tf) page in
          if nextToken = [] then (Inr files', w')
          else list_pages n tf service query pageSize nextToken files' w')"

definition ListFilesByAccount ::
  "nat \<Rightarrow> 'w DriveAdapter \<Rightarrow> string \<Rightarrow> string \<Rightarrow> string \<Rightarrow> nat \<Rightarrow> ('w, GoogleDriveFile list) io" where
  "ListFilesByAccount pages d userID accountID folderID pageSize w =
     (case getDriveServiceByAccount d userID accountID w of
        (Inl err, w') \<Rightarrow> (Inl err, w')
      | (Inr service, w') \<Rightarrow>
          let folder = (if folderID = [] then ''root'' else folderID)
          in list_pages pages (da_time d) service (list_query folder) pageSize [] [] w')"

definition DownloadFileByAccount ::
  "'d world DriveAdapter \<Rightarrow> string \<Rightarrow> string \<Rightarrow> string \<Rightarrow> string \<Rightarrow> ('d world, unit) io" where
  "DownloadFileByAccount d userID accountID fileID localPath w =
     (case getDriveServiceByAccount d userID accountID w of
        (Inl err, w1) \<Rightarrow> (Inl err, w1)
      | (Inr service, w1) \<Rightarrow>
          (case on_local (os_MkdirAll (Dir localPath)) w1 of
             (Inl err, w2) \<Rightarrow> (Inl err, w2)
           | (Inr _, w2) \<Rightarrow>
               (case on_local (os_Create localPath) w2 of
                  (Inl err, w3) \<Rightarrow> (Inl err, w3)
                | (Inr f, w3) \<Rightarrow>
                    (case api_Download service fileID w3 of
                       (Inl err, w4) \<Rightarrow> (Inl (Wrapf ''failed to download: '' err), w4)
                     | (Inr body, w4) \<Rightarrow> on_local (io_Copy f body) w4))))"

definition UploadFileByAccount ::
  "'d world DriveAdapter \<Rightarrow> string \<Rightarrow> string \<Rightarrow> string \<Rightarrow> string \<Rightarrow> ('d world, GoogleDriveFile) io" where
  "UploadFileByAccount d userID accountID localPath folderID w =
     (case getDriveServiceByAccount d userID accountID w of
        (Inl err, w1) \<Rightarrow> (Inl err, w1)
      | (Inr service, w1) \<Rightarrow>
          (case os_Open (wd_local w1) localPath of
             Inl err \<Rightarrow> (Inl err, w1)
           | Inr f \<Rightarrow>
               (case api_Create service (new_api_file\<lparr>af_Name := Base localPath,
                       af_Parents := (if folderID \<noteq> [] then [folderID] else [])\<rparr>) (Some f) w1 of
                  (Inl err, w2) \<Rightarrow> (Inl (Wrapf ''failed to upload: '' err), w2)
                | (Inr uploaded, w2) \<Rightarrow> (Inr (convertDriveFile (da_time d) uploaded), w2))))"

definition CreateFolderByAccount ::
  "'w DriveAdapter \<Rightarrow> string \<Rightarrow> string \<Rightarrow> string \<Rightarrow> string \<Rightarrow> ('w, GoogleDriveFolder) io" where
  "CreateFolderByAccount d userID accountID name parentID w =
     (case getDriveServiceByAccount d userID accountID w of
        (Inl err, w1) \<Rightarrow> (Inl err, w1)
      | (Inr service, w1) \<Rightarrow>
          (case api_Create service (new_api_file\<lparr>af_Name := name, af_MimeType := folder_mime,
                  af_Parents := (if parentID \<noteq> [] then [parentID] else [])\<rparr>) None w1 of
             (Inl err, w2) \<Rightarrow> (Inl (Wrapf ''failed to create folder: '' err), w2)
           | (Inr f, w2) \<Rightarrow>
               (Inr \<lparr>gfo_ID = af_Id f, gfo_Name = af_Name f,
                     gfo_CreatedTime = parseTime (da_time d) (af_CreatedTime f),
                     gfo_ModifiedTime = parseTime (da_time d) (af_ModifiedTime f),
                     gfo_Parents = af_Parents f, gfo_WebViewLink = af_WebViewLink f\<rparr>, w2)))"

definition UpdateFileByAccount ::
  "'d world DriveAdapter \<Rightarrow> string \<Rightarrow> string \<Rightarrow> string \<Rightarrow> string \<Rightarrow> ('d world, GoogleDriveFile) io" where
  "UpdateFileByAccount d userID accountID fileID localPath w =
     (case getDriveServiceByAccount d userID accountID w of
        (Inl err, w1) \<Rightarrow> (Inl err, w1)
      | (Inr service, w1) \<Rightarrow>
          (case os_Open (wd_local w1) localPath of
             Inl err \<Rightarrow> (Inl err, w1)
           | Inr f \<Rightarrow>
               (case api_Update service fileID False (Some f) w1 of
                  (Inl err, w2) \<Rightarrow> (Inl (Wrapf ''failed to update: '' err), w2)
                | (Inr updated, w2) \<Rightarrow> (Inr (convertDriveFile (da_time d) updated), w2))))"

definition TrashFileByAccount :: "'w DriveAdapter \<Rightarrow> string \<Rightarrow> string \<Rightarrow> string \<Rightarrow> ('w, unit) io" where
  "TrashFileByAccount d userID accountID fileID w =
     (case getDriveServiceByAccount d userID accountID w of
        (Inl err, w1) \<Rightarrow> (Inl err, w1)
      | (Inr service, w1) \<Rightarrow>
          (case api_Update service fileID True None w1 of
             (Inl err, w2) \<Rightarrow> (Inl (Wrapf ''failed to trash: '' err), w2)
           | (Inr _, w2) \<Rightarrow> (Inr (), w2)))"

definition CheckAccount :: "'w DriveAdapter \<Rightarrow> string \<Rightarrow> string \<Rightarrow> string \<Rightarrow> ('w, unit) io" where
  "CheckAccount d userID accountID folderID w =
     (case getDriveServiceByAccount d userID accountID w of
        (Inl err, w1) \<Rightarrow> (Inl err, w1)
      | (Inr service, w1) \<Rightarrow>
          (case api_About service w1 of
             (Inl err, w2) \<Rightarrow> (Inl (Wrapf (''google drive is not accessible for account '' @ accountID @ '': '') err), w2)
           | (Inr _, w2) \<Rightarrow>
               if folderID = [] \<or> folderID = ''root'' then (Inr (), w2)
               else (case api_Get service folderID w2 of
                       (Inl err, w3) \<Rightarrow> (Inl (Wrapf (''folder '' @ folderID @ '' not found: '') err), w3)
                     | (Inr folder, w3) \<Rightarrow>
                         if af_MimeType folder \<noteq> folder_mime \<or> af_Trashed folder
                         then (Inl (Errorf (folderID @ '' is not an active folder'')), w3)
                         else (Inr (), w3))))"

section \<open>Quoting a folder ID\<close>

text \<open>A string literal of the query language: up to the closing quote, a backslash takes the next character
  as it is.\<close>
fun read_literal :: "string \<Rightarrow> (string \<times> string) option" where
  "read_literal [] = None"
| "read_literal (c # cs) =
     (if c = CHR 0x27 then Some ([], cs)
      else if c = CHR 0x5C then
        (case cs of [] \<Rightarrow> None
         | d # ds \<Rightarrow> map_option (\<lambda>(s, rest). (d # s, rest)) (read_literal ds))
      else map_option (\<lambda>(s, rest). (c # s, rest)) (read_literal cs))"

text \<open>Quoting is undone by reading. Whatever a folder ID contains, quotes and backslashes included, the
  quoted ID is read back as exactly that ID and the rest of the query is what the code wrote after it:
  an ID cannot change the query.\<close>
theorem escapeQuery_roundtrip:
  "read_literal (escapeQuery folderID @ [CHR 0x27] @ rest) = Some (folderID, rest)"
  by (induction folderID) auto

section \<open>All pages are read\<close>

text \<open>The pages behind a token, as the server would hand them out without errors.\<close>
inductive pages_from :: "'w drive_service \<Rightarrow> string \<Rightarrow> nat \<Rightarrow> 'w \<Rightarrow> string \<Rightarrow> ApiFile list list \<Rightarrow> 'w \<Rightarrow> bool" where
  last_page: "api_List service q n token w = (Inr (page, []), w') \<Longrightarrow> pages_from service q n w token [page] w'"
| more_pages: "api_List service q n token w = (Inr (page, nextToken), w') \<Longrightarrow> nextToken \<noteq> [] \<Longrightarrow>
    pages_from service q n w' nextToken pages w'' \<Longrightarrow> pages_from service q n w token (page # pages) w''"

lemma list_pages_all:
  assumes "pages_from service q n w token pages w'" "length pages \<le> fuel"
  shows "list_pages fuel tf service q n token files w = (Inr (files @ map (convertDriveFile tf) (concat pages)), w')"
  using assms
proof (induction arbitrary: fuel files rule: pages_from.induct)
  case (last_page service q n token w page w')
  then obtain k where "fuel = Suc k" by (cases fuel) auto
  with last_page show ?case by simp
next
  case (more_pages service q n token w page nextToken w' pages w'')
  then obtain k where "fuel = Suc k" "length pages \<le> k" by (cases fuel) auto
  with more_pages show ?case by simp
qed

text \<open>The listing of a Drive folder is complete. When the server hands out the folder in any number of
  pages, \<open>ListFilesByAccount\<close> ends after the last one and returns the files of all of them, in order.\<close>
theorem ListFilesByAccount_complete:
  assumes "getDriveServiceByAccount d userID accountID w = (Inr service, w1)"
    and "pages_from service (list_query (if folderID = [] then ''root'' else folderID)) pageSize w1 [] pages w'"
    and "length pages \<le> fuel"
  shows "ListFilesByAccount fuel d userID accountID folderID pageSize w =
     (Inr (map (convertDriveFile (da_time d)) (concat pages)), w')"
  using assms list_pages_all [OF assms(2,3), of "da_time d" "[]"] by (simp add: ListFilesByAccount_def)

definition ex_page :: "string \<Rightarrow> ApiFile list" where
  "ex_page token = [new_api_file\<lparr>af_Id := ''f'' @ token, af_Name := ''n'' @ token\<rparr>]"

definition ex_service :: "unit drive_service" where
  "ex_service = \<lparr>api_List = \<lambda>q n token w. (Inr (ex_page token, if token = [] then ''2'' else []), w),
     api_Get = \<lambda>f w. (Inr new_api_file, w), api_Download = \<lambda>f w. (Inr (Reader [] None), w),
     api_Create = \<lambda>f r w. (Inr f, w), api_Update = \<lambda>f t r w. (Inr new_api_file, w), api_About = \<lambda>w. (Inr (), w)\<rparr>"

definition ex_drive :: "unit DriveAdapter" where
  "ex_drive = \<lparr>da_token = \<lambda>u a w. (Inr ''t'', w), da_NewService = \<lambda>t. Inr ex_service,
     da_time = \<lparr>tf_Parse = \<lambda>s. None, tf_String = \<lambda>t. []\<rparr>\<rparr>"

theorem ListFilesByAccount_complete_witness:
  "ListFilesByAccount 2 ex_drive ''u'' ''a'' [] 1000 () =
     (Inr (map (convertDriveFile (da_time ex_drive)) (ex_page [] @ ex_page ''2'')), ())"
proof -
  have "getDriveServiceByAccount ex_drive ''u'' ''a'' () = (Inr ex_service, ())"
    by (simp add: getDriveServiceByAccount_def ex_drive_def)
  moreover have "pages_from ex_service (list_query ''root'') 1000 () [] [ex_page [], ex_page ''2''] ()"
    by (rule more_pages [of _ _ _ _ _ _ "''2''"], simp add: ex_service_def, simp)
      (rule last_page, simp add: ex_service_def)
  ultimately show ?thesis
    using ListFilesByAccount_complete [of ex_drive "''u''" "''a''" "()" ex_service "()" "[]" 1000
        "[ex_page [], ex_page ''2'']" "()" 2] by simp
qed

end
