(* ===== verification/Registry.thy ===== *)
theory Registry
  imports Sync_Node
begin

text \<open>
  \<open>NodeRegistry\<close> (\<^verbatim>\<open>internal/sync/registry.go\<close>): what is known about the devices, and a live
  implementation for each. The mutex makes every operation atomic; \<open>time.Now()\<close> is an argument. An entry
  \<open>None\<close> of \<open>rg_impls\<close> is a nil interface value stored under the key.
\<close>

record NodeInfo =
  ni_ID :: string
  ni_Type :: string
  ni_Endpoint :: string
  ni_AccountID :: string
  ni_UserID :: string
  ni_FolderID :: string
  ni_Root :: string
  ni_LastSeen :: gotime
  ni_Online :: bool

record 'w NodeRegistry =
  rg_nodes :: "(string, NodeInfo) fmap"
  rg_impls :: "(string, 'w Node option) fmap"

definition NewNodeRegistry :: "'w NodeRegistry" where
  "NewNodeRegistry = \<lparr>rg_nodes = fmempty, rg_impls = fmempty\<rparr>"

definition rg_Register :: "gotime \<Rightarrow> NodeInfo \<Rightarrow> 'w Node option \<Rightarrow> 'w NodeRegistry \<Rightarrow> 'w NodeRegistry" where
  "rg_Register now info impl r =
     r\<lparr>rg_nodes := fmupd (ni_ID info) (info\<lparr>ni_LastSeen := now, ni_Online := True\<rparr>) (rg_nodes r),
       rg_impls := (if impl \<noteq> None then fmupd (ni_ID info) impl (rg_impls r) else rg_impls r)\<rparr>"

definition rg_SetDriveNode :: "string \<Rightarrow> 'w Node option \<Rightarrow> 'w NodeRegistry \<Rightarrow> 'w NodeRegistry" where
  "rg_SetDriveNode nodeID impl r = r\<lparr>rg_impls := fmupd nodeID impl (rg_impls r)\<rparr>"

definition rg_Unregister :: "string \<Rightarrow> 'w NodeRegistry \<Rightarrow> 'w NodeRegistry" where
  "rg_Unregister nodeID r = r\<lparr>rg_nodes := fmdrop nodeID (rg_nodes r), rg_impls := fmdrop nodeID (rg_impls r)\<rparr>"

definition rg_Info :: "'w NodeRegistry \<Rightarrow> string \<Rightarrow> NodeInfo option" where
  "rg_Info r nodeID = fmlookup (rg_nodes r) nodeID"

definition rg_Get :: "'w NodeRegistry \<Rightarrow> string \<Rightarrow> gerr + 'w Node" where
  "rg_Get r nodeID =
     (case fmlookup (rg_impls r) nodeID of
        None \<Rightarrow> Inl (Errorf (''node '' @ nodeID @ '' not found''))
      | Some None \<Rightarrow> Inl (Errorf (''node '' @ nodeID @ '' has no implementation (drive node not yet wired)''))
      | Some (Some impl) \<Rightarrow> Inr impl)"

definition rg_List :: "'w NodeRegistry \<Rightarrow> NodeInfo list" where
  "rg_List r = filter ni_Online (map (\<lambda>k. the (fmlookup (rg_nodes r) k)) (range_keys (rg_nodes r)))"

definition rg_AllNodes :: "'w NodeRegistry \<Rightarrow> 'w Node list" where
  "rg_AllNodes r =
     concat (map (\<lambda>k. if ni_Online (the (fmlookup (rg_nodes r) k))
                      then (case fmlookup (rg_impls r) k of Some (Some impl) \<Rightarrow> [impl] | _ \<Rightarrow> [])
                      else [])
       (range_keys (rg_nodes r)))"

definition rg_Heartbeat :: "gotime \<Rightarrow> string \<Rightarrow> 'w NodeRegistry \<Rightarrow> 'w NodeRegistry" where
  "rg_Heartbeat now nodeID r =
     (case fmlookup (rg_nodes r) nodeID of
        None \<Rightarrow> r
      | Some n \<Rightarrow> r\<lparr>rg_nodes := fmupd nodeID (n\<lparr>ni_LastSeen := now, ni_Online := True\<rparr>) (rg_nodes r)\<rparr>)"

definition rg_MarkOffline :: "string \<Rightarrow> 'w NodeRegistry \<Rightarrow> 'w NodeRegistry" where
  "rg_MarkOffline nodeID r =
     (case fmlookup (rg_nodes r) nodeID of
        None \<Rightarrow> r
      | Some n \<Rightarrow> r\<lparr>rg_nodes := fmupd nodeID (n\<lparr>ni_Online := False\<rparr>) (rg_nodes r)\<rparr>)"

section \<open>Lookups after updates\<close>

lemma Info_Register [simp]:
  "rg_Info (rg_Register now info impl r) k =
     (if k = ni_ID info then Some (info\<lparr>ni_LastSeen := now, ni_Online := True\<rparr>) else rg_Info r k)"
  by (simp add: rg_Info_def rg_Register_def)

lemma Info_Unregister [simp]: "rg_Info (rg_Unregister n r) k = (if k = n then None else rg_Info r k)"
  by (simp add: rg_Info_def rg_Unregister_def)

lemma Info_Heartbeat [simp]:
  "rg_Info (rg_Heartbeat now n r) k =
     (if k = n then map_option (\<lambda>i. i\<lparr>ni_LastSeen := now, ni_Online := True\<rparr>) (rg_Info r n) else rg_Info r k)"
  by (simp add: rg_Info_def rg_Heartbeat_def split: option.split)

lemma Info_MarkOffline [simp]:
  "rg_Info (rg_MarkOffline n r) k =
     (if k = n then map_option (\<lambda>i. i\<lparr>ni_Online := False\<rparr>) (rg_Info r n) else rg_Info r k)"
  by (simp add: rg_Info_def rg_MarkOffline_def split: option.split)

lemma set_rg_List: "set (rg_List r) = {i. ni_Online i \<and> (\<exists>k. rg_Info r k = Some i)}"
  by (force simp: rg_List_def rg_Info_def fmlookup_dom_iff)

section \<open>The life of a device\<close>

text \<open>The events of a registry, as sequences of calls.\<close>
datatype 'w registry_call =
    Register gotime NodeInfo "'w Node option"
  | SetDriveNode string "'w Node option"
  | Unregister string
  | Heartbeat gotime string
  | MarkOffline string

fun rg_step :: "'w registry_call \<Rightarrow> 'w NodeRegistry \<Rightarrow> 'w NodeRegistry" where
  "rg_step (Register now info impl) r = rg_Register now info impl r"
| "rg_step (SetDriveNode n impl) r = rg_SetDriveNode n impl r"
| "rg_step (Unregister n) r = rg_Unregister n r"
| "rg_step (Heartbeat now n) r = rg_Heartbeat now n r"
| "rg_step (MarkOffline n) r = rg_MarkOffline n r"

text \<open>What the calls say about one device, by itself: an abstract specification. A registration opens the
  record of the device and puts it online, a heartbeat puts a known device online, and so on.\<close>
fun device_step :: "string \<Rightarrow> 'w registry_call \<Rightarrow> NodeInfo option \<Rightarrow> NodeInfo option" where
  "device_step n (Register now info impl) i =
     (if ni_ID info = n then Some (info\<lparr>ni_LastSeen := now, ni_Online := True\<rparr>) else i)"
| "device_step n (SetDriveNode m impl) i = i"
| "device_step n (Unregister m) i = (if m = n then None else i)"
| "device_step n (Heartbeat now m) i =
     (if m = n then map_option (\<lambda>x. x\<lparr>ni_LastSeen := now, ni_Online := True\<rparr>) i else i)"
| "device_step n (MarkOffline m) i = (if m = n then map_option (\<lambda>x. x\<lparr>ni_Online := False\<rparr>) i else i)"

lemma Info_SetDriveNode [simp]: "rg_Info (rg_SetDriveNode n impl r) k = rg_Info r k"
  by (simp add: rg_Info_def rg_SetDriveNode_def)

lemma rg_step_device: "rg_Info (rg_step c r) n = device_step n c (rg_Info r n)"
  by (cases c) auto

lemma device_step_ID: "(\<forall>x. i = Some x \<longrightarrow> ni_ID x = n) \<Longrightarrow> device_step n c i = Some y \<Longrightarrow> ni_ID y = n"
  by (cases c) (auto split: if_splits)

text \<open>the registry keeps the record of each device separately. After any sequence of calls \<open>Info\<close> returns
  for every device what its own calls alone make of it, the record carries the device's own ID, and \<open>List\<close>
  returns exactly the devices that are online.\<close>
theorem registry_devices:
  fixes calls :: "'w registry_call list"
  defines "r \<equiv> fold rg_step calls (NewNodeRegistry :: 'w NodeRegistry)"
  shows "rg_Info r n = fold (device_step n) calls None \<and>
    (case rg_Info r n of None \<Rightarrow> True | Some i \<Rightarrow> ni_ID i = n) \<and>
    set (rg_List r) = {i. ni_Online i \<and> rg_Info r (ni_ID i) = Some i}"
proof -
  have sim: "rg_Info (fold rg_step cs q) m = fold (device_step m) cs (rg_Info q m)" for cs m and q :: "'w NodeRegistry"
    by (induction cs arbitrary: q) (simp_all add: rg_step_device)
  have keyed: "ni_ID x = m" if "fold (device_step m) cs i = Some x" "\<And>y. i = Some y \<Longrightarrow> ni_ID y = m"
    for m i x and cs :: "'w registry_call list"
    using that
  proof (induction cs arbitrary: i)
    case (Cons c cs)
    from Cons.prems(1) have "fold (device_step m) cs (device_step m c i) = Some x" by simp
    then show ?case
      by (rule Cons.IH) (rule device_step_ID [of i m c], use Cons.prems(2) in blast)
  qed simp
  have empty: "rg_Info (NewNodeRegistry :: 'w NodeRegistry) m = None" for m
    by (simp add: rg_Info_def NewNodeRegistry_def)
  have spec: "rg_Info r m = fold (device_step m) calls None" for m
    unfolding r_def sim empty ..
  have own: "ni_ID x = m" if "rg_Info r m = Some x" for m x
    using that unfolding spec by (rule keyed) simp
  have "set (rg_List r) = {i. ni_Online i \<and> rg_Info r (ni_ID i) = Some i}"
    using own by (auto simp: set_rg_List)
  then show ?thesis using spec own by (simp split: option.splits)
qed

end
