(* ===== verification/Complex_Storage.thy ===== *)
theory Complex_Storage
  imports Google_Drive Registry
begin

text \<open>
  \<open>ComplexStorage\<close> of \<^verbatim>\<open>internal/sync/node.go\<close>: a node over a storage that knows files by ID (the
  interface \<open>ComplexStorageAPI\<close>, a record of operations), and the adapter that provides this interface for
  Google Drive (\<^verbatim>\<open>internal/sync/adapters/googledrive.go\<close>). Temporary files are made on the server's file
  system. The client of Google's API is a parameter of the adapter.
\<close>

section \<open>The interface\<close>

record RemoteFile =
  rf_ID :: string
  rf_Path :: string
  rf_Hash :: string
  rf_Size :: int
  rf_IsDir :: bool
  rf_MimeType :: string
  rf_ModTime :: gotime

record 'w ComplexStorageAPI =
  ca_ListFiles :: "string \<Rightarrow> ('w, RemoteFile list) io"
  ca_Download :: "string \<Rightarrow> string \<Rightarrow> ('w, unit) io"
  ca_Upload :: "string \<Rightarrow> string \<Rightarrow> ('w, string) io"
  ca_Update :: "string \<Rightarrow> string \<Rightarrow> ('w, unit) io"
  ca_Delete :: "string \<Rightarrow> ('w, unit) io"
  ca_MkDir :: "string \<Rightarrow> string \<Rightarrow> ('w, string) io"

record 'w ComplexStorage =
  cs_id :: string
  cs_kind :: string
  cs_api :: "'w ComplexStorageAPI"
  cs_tmpDir :: string

definition NewComplexStorage :: "string \<Rightarrow> string \<Rightarrow> string \<Rightarrow> 'w ComplexStorageAPI \<Rightarrow> 'w ComplexStorage" where
  "NewComplexStorage nodeID kind tmpDir api = \<lparr>cs_id = nodeID, cs_kind = kind, cs_api = api, cs_tmpDir = tmpDir\<rparr>"

section \<open>Paths\<close>

definition parentPath :: "string \<Rightarrow> string" where
  "parentPath path = (let dir = Dir path in if dir = dot then [] else dir)"

definition splitPath :: "string \<Rightarrow> string list" where
  "splitPath path = filter (\<lambda>p. p \<noteq> [] \<and> p \<noteq> dot) (split_on slash path)"

section \<open>Listing\<close>

definition child_path :: "string \<Rightarrow> RemoteFile \<Rightarrow> string" where
  "child_path prefix item = (if prefix \<noteq> [] then prefix @ ''/'' @ rf_Path item else rf_Path item)"

definition remote_entry :: "string \<Rightarrow> RemoteFile \<Rightarrow> FileEntry" where
  "remote_entry path item =
     \<lparr>fe_Path = path, fe_Hash = rf_Hash item, fe_Size = rf_Size item, fe_ModTime = rf_ModTime item\<rparr>"

text \<open>The recursion follows the folders of the storage and need not end; the fuel is its depth, and
  \<open>None\<close> says that it was not enough. \<open>list_items\<close> is the loop over the items of one folder.\<close>
fun cs_listRecursive ::
  "nat \<Rightarrow> 'w ComplexStorageAPI \<Rightarrow> string \<Rightarrow> string \<Rightarrow> 'w \<Rightarrow> ((gerr + FileEntry list) \<times> 'w) option"
and list_items ::
  "nat \<Rightarrow> 'w ComplexStorageAPI \<Rightarrow> string \<Rightarrow> RemoteFile list \<Rightarrow> string list \<Rightarrow> FileEntry list \<Rightarrow> 'w \<Rightarrow>
   ((gerr + FileEntry list) \<times> 'w) option" where
  "cs_listRecursive 0 api folderID prefix w = None"
| "cs_listRecursive (Suc n) api folderID prefix w =
     (case ca_ListFiles api folderID w of
        (Inl err, w') \<Rightarrow> Some (Inl err, w')
      | (Inr items, w') \<Rightarrow> list_items n api prefix items [] [] w')"
| "list_items n api prefix [] seen entries w = Some (Inr entries, w)"
| "list_items n api prefix (item # items) seen entries w =
     (let logicalPath = child_path prefix item in
      if rf_IsDir item then
        (case cs_listRecursive n api (rf_ID item) logicalPath w of
           None \<Rightarrow> None
         | Some (Inl err, w') \<Rightarrow> Some (Inl err, w')
         | Some (Inr sub, w') \<Rightarrow> list_items n api prefix items seen (entries @ sub) w')
      else if logicalPath \<in> set seen then list_items n api prefix items seen entries w
      else list_items n api prefix items (logicalPath # seen) (entries @ [remote_entry logicalPath item]) w)"

text \<open>A recursion that is too deep exhausts the stack and ends the process; the node reports an error.\<close>
definition cs_ListFiles :: "nat \<Rightarrow> 'w ComplexStorage \<Rightarrow> ('w, FileEntry list) io" where
  "cs_ListFiles fuel s w =
     (case cs_listRecursive fuel (cs_api s) [] [] w of
        None \<Rightarrow> (Inl (Errorf ''stack overflow''), w)
      | Some r \<Rightarrow> r)"

section \<open>Finding files and folders\<close>

definition cs_findChild :: "'w ComplexStorageAPI \<Rightarrow> string \<Rightarrow> string \<Rightarrow> bool \<Rightarrow> ('w, RemoteFile option) io" where
  "cs_findChild api folderID name isDir w =
     (case ca_ListFiles api folderID w of
        (Inl err, w') \<Rightarrow> (Inl err, w')
      | (Inr items, w') \<Rightarrow> (Inr (find (\<lambda>i. rf_Path i = name \<and> rf_IsDir i = isDir) items), w'))"

fun findDir_parts ::
  "'w ComplexStorageAPI \<Rightarrow> string \<Rightarrow> bool \<Rightarrow> string \<Rightarrow> string list \<Rightarrow> ('w, string) io" where
  "findDir_parts api path create parentID [] w = (Inr parentID, w)"
| "findDir_parts api path create parentID (part # parts) w =
     (case cs_findChild api parentID part True w of
        (Inl err, w') \<Rightarrow> (Inl err, w')
      | (Inr (Some dir), w') \<Rightarrow> findDir_parts api path create (rf_ID dir) parts w'
      | (Inr None, w') \<Rightarrow>
          if \<not> create then (Inl (Wrapf (path @ '': '') ErrNotExist), w')
          else (case ca_MkDir api part parentID w' of
                  (Inl err, w'') \<Rightarrow> (Inl err, w'')
                | (Inr newID, w'') \<Rightarrow> findDir_parts api path create newID parts w''))"

definition cs_findDir :: "'w ComplexStorageAPI \<Rightarrow> string \<Rightarrow> bool \<Rightarrow> ('w, string) io" where
  "cs_findDir api path create = findDir_parts api path create [] (splitPath path)"

definition cs_ensureDir :: "'w ComplexStorageAPI \<Rightarrow> string \<Rightarrow> ('w, string) io" where
  "cs_ensureDir api path = cs_findDir api path True"

definition cs_resolve :: "'w ComplexStorageAPI \<Rightarrow> string \<Rightarrow> ('w, RemoteFile) io" where
  "cs_resolve api path w =
     (case cs_findDir api (parentPath path) False w of
        (Inl err, w1) \<Rightarrow> (Inl err, w1)
      | (Inr folderID, w1) \<Rightarrow>
          (case cs_findChild api folderID (Base path) False w1 of
             (Inl err, w2) \<Rightarrow> (Inl err, w2)
           | (Inr None, w2) \<Rightarrow> (Inl (Wrapf (path @ '': '') ErrNotExist), w2)
           | (Inr (Some child), w2) \<Rightarrow> (Inr child, w2)))"

section \<open>The operations of the node\<close>

definition cs_makeTmpDir :: "(fsys \<Rightarrow> string) \<Rightarrow> 'd world ComplexStorage \<Rightarrow> ('d world, string) io" where
  "cs_makeTmpDir sfx s w =
     (case on_local (os_MkdirAll (cs_tmpDir s)) w of
        (Inl err, w') \<Rightarrow> (Inl err, w')
      | (Inr _, w') \<Rightarrow> on_local (os_MkdirTemp sfx (cs_tmpDir s) ''syncvault-'') w')"

text \<open>The file is removed when the reader is closed (\<open>autoRemoveFile\<close>); a reader is the bytes it delivers, so
  the model removes it once they are known.\<close>
definition cs_ReadFile :: "(fsys \<Rightarrow> string) \<Rightarrow> 'd world ComplexStorage \<Rightarrow> string \<Rightarrow> ('d world, reader) io" where
  "cs_ReadFile sfx s path w =
     (case cs_resolve (cs_api s) path w of
        (Inl err, w1) \<Rightarrow> (Inl err, w1)
      | (Inr item, w1) \<Rightarrow>
          (case cs_makeTmpDir sfx s w1 of
             (Inl err, w2) \<Rightarrow> (Inl err, w2)
           | (Inr dir, w2) \<Rightarrow>
               let tmp = Join dir (Base path) in
               (case ca_Download (cs_api s) (rf_ID item) tmp w2 of
                  (Inl err, w3) \<Rightarrow> (Inl err, remove_tmp dir w3)
                | (Inr _, w3) \<Rightarrow>
                    (case os_Open (wd_local w3) tmp of
                       Inl err \<Rightarrow> (Inl err, remove_tmp dir w3)
                     | Inr f \<Rightarrow> (Inr f, remove_tmp dir w3)))))"

text \<open>\<open>write_remote\<close> is what follows the temporary file in \<open>WriteFile\<close>.\<close>
definition write_remote :: "'w ComplexStorageAPI \<Rightarrow> string \<Rightarrow> string \<Rightarrow> ('w, unit) io" where
  "write_remote api path tmp w =
     (case cs_resolve api path w of
        (Inr existing, w1) \<Rightarrow> ca_Update api (rf_ID existing) tmp w1
      | (Inl err, w1) \<Rightarrow>
          if \<not> is_not_exist err then (Inl err, w1)
          else (case cs_ensureDir api (parentPath path) w1 of
                  (Inl err, w2) \<Rightarrow> (Inl err, w2)
                | (Inr folderID, w2) \<Rightarrow>
                    (case ca_Upload api tmp folderID w2 of
                       (Inl err, w3) \<Rightarrow> (Inl err, w3)
                     | (Inr _, w3) \<Rightarrow> (Inr (), w3))))"

definition cs_WriteFile :: "(fsys \<Rightarrow> string) \<Rightarrow> 'd world ComplexStorage \<Rightarrow> string \<Rightarrow> reader \<Rightarrow> ('d world, unit) io" where
  "cs_WriteFile sfx s path r w =
     (case cs_makeTmpDir sfx s w of
        (Inl err, w1) \<Rightarrow> (Inl err, w1)
      | (Inr dir, w1) \<Rightarrow>
          let tmp = Join dir (Base path) in
          (case on_local (os_Create tmp) w1 of
             (Inl err, w2) \<Rightarrow> (Inl err, remove_tmp dir w2)
           | (Inr f, w2) \<Rightarrow>
               (case on_local (io_Copy f r) w2 of
                  (Inl err, w3) \<Rightarrow> (Inl err, remove_tmp dir w3)
                | (Inr _, w3) \<Rightarrow>
                    (case write_remote (cs_api s) path tmp w3 of
                       (res, w4) \<Rightarrow> (res, remove_tmp dir w4)))))"

definition cs_DeleteFile :: "'w ComplexStorage \<Rightarrow> string \<Rightarrow> ('w, unit) io" where
  "cs_DeleteFile s path w =
     (case cs_resolve (cs_api s) path w of
        (Inl err, w') \<Rightarrow> (Inl err, w')
      | (Inr item, w') \<Rightarrow> ca_Delete (cs_api s) (rf_ID item) w')"

definition cs_MkDir :: "'w ComplexStorage \<Rightarrow> string \<Rightarrow> ('w, unit) io" where
  "cs_MkDir s path w =
     (case cs_ensureDir (cs_api s) path w of (Inl err, w') \<Rightarrow> (Inl err, w') | (Inr _, w') \<Rightarrow> (Inr (), w'))"

definition complex_node :: "nat \<Rightarrow> (fsys \<Rightarrow> string) \<Rightarrow> 'd world ComplexStorage \<Rightarrow> 'd world Node" where
  "complex_node fuel sfx s =
     \<lparr>ID = cs_id s, Type = cs_kind s, ListFiles = cs_ListFiles fuel s, ReadFile = cs_ReadFile sfx s,
      WriteFile = cs_WriteFile sfx s, DeleteFile = cs_DeleteFile s, MkDir = cs_MkDir s\<rparr>"

section \<open>Google Drive\<close>

record 'w GoogleDriveAdapter =
  gd_drive :: "'w DriveAdapter"
  gd_userID :: string
  gd_accountID :: string
  gd_rootID :: string

definition listPageSize :: nat where
  "listPageSize = 1000"

definition NewGoogleDriveAdapter :: "'w DriveAdapter \<Rightarrow> string \<Rightarrow> string \<Rightarrow> string \<Rightarrow> 'w GoogleDriveAdapter" where
  "NewGoogleDriveAdapter drive userID accountID rootFolderID =
     \<lparr>gd_drive = drive, gd_userID = userID, gd_accountID = accountID,
      gd_rootID = (if rootFolderID = [] then ''root'' else rootFolderID)\<rparr>"

definition gd_folder :: "'w GoogleDriveAdapter \<Rightarrow> string \<Rightarrow> string" where
  "gd_folder a folderID = (if folderID = [] then gd_rootID a else folderID)"

text \<open>One turn of the loop of \<open>ListFiles\<close>.\<close>
definition drive_item :: "time_format \<Rightarrow> GoogleDriveFile \<Rightarrow> RemoteFile list" where
  "drive_item tf f =
     (let isDir = (gf_MimeType f = folder_mime) in
      if \<not> isDir \<and> HasPrefix (gf_MimeType f) ''application/vnd.google-apps.'' then []
      else
        let hash = (if gf_Sha256Checksum f = [] \<and> \<not> isDir
                    then ''drive:'' @ gf_ID f @ '':'' @ tf_String tf (gf_ModifiedTime f) else gf_Sha256Checksum f)
        in [\<lparr>rf_ID = gf_ID f, rf_Path = gf_Name f, rf_Hash = hash, rf_Size = gf_Size f, rf_IsDir = isDir,
             rf_MimeType = gf_MimeType f, rf_ModTime = gf_ModifiedTime f\<rparr>])"

definition gd_ListFiles :: "nat \<Rightarrow> 'w GoogleDriveAdapter \<Rightarrow> string \<Rightarrow> ('w, RemoteFile list) io" where
  "gd_ListFiles pages a folderID w =
     (case ListFilesByAccount pages (gd_drive a) (gd_userID a) (gd_accountID a) (gd_folder a folderID) listPageSize w of
        (Inl err, w') \<Rightarrow> (Inl (Wrapf ''google drive list: '' err), w')
      | (Inr files, w') \<Rightarrow> (Inr (concat (map (drive_item (da_time (gd_drive a))) files)), w'))"

definition gd_Download :: "'d world GoogleDriveAdapter \<Rightarrow> string \<Rightarrow> string \<Rightarrow> ('d world, unit) io" where
  "gd_Download a fileID localPath =
     DownloadFileByAccount (gd_drive a) (gd_userID a) (gd_accountID a) fileID localPath"

definition gd_Upload :: "'d world GoogleDriveAdapter \<Rightarrow> string \<Rightarrow> string \<Rightarrow> ('d world, string) io" where
  "gd_Upload a localPath folderID w =
     (case UploadFileByAccount (gd_drive a) (gd_userID a) (gd_accountID a) localPath (gd_folder a folderID) w of
        (Inl err, w') \<Rightarrow> (Inl (Wrapf ''google drive upload: '' err), w')
      | (Inr uploaded, w') \<Rightarrow> (Inr (gf_ID uploaded), w'))"

definition gd_Update :: "'d world GoogleDriveAdapter \<Rightarrow> string \<Rightarrow> string \<Rightarrow> ('d world, unit) io" where
  "gd_Update a fileID localPath w =
     (case UpdateFileByAccount (gd_drive a) (gd_userID a) (gd_accountID a) fileID localPath w of
        (Inl err, w') \<Rightarrow> (Inl (Wrapf ''google drive update: '' err), w')
      | (Inr _, w') \<Rightarrow> (Inr (), w'))"

definition gd_Delete :: "'w GoogleDriveAdapter \<Rightarrow> string \<Rightarrow> ('w, unit) io" where
  "gd_Delete a fileID = TrashFileByAccount (gd_drive a) (gd_userID a) (gd_accountID a) fileID"

definition gd_MkDir :: "'w GoogleDriveAdapter \<Rightarrow> string \<Rightarrow> string \<Rightarrow> ('w, string) io" where
  "gd_MkDir a name parentID w =
     (case CreateFolderByAccount (gd_drive a) (gd_userID a) (gd_accountID a) name (gd_folder a parentID) w of
        (Inl err, w') \<Rightarrow> (Inl (Wrapf ''google drive mkdir: '' err), w')
      | (Inr folder, w') \<Rightarrow> (Inr (gfo_ID folder), w'))"

definition drive_api :: "nat \<Rightarrow> 'd world GoogleDriveAdapter \<Rightarrow> 'd world ComplexStorageAPI" where
  "drive_api pages a =
     \<lparr>ca_ListFiles = gd_ListFiles pages a, ca_Download = gd_Download a, ca_Upload = gd_Upload a,
      ca_Update = gd_Update a, ca_Delete = gd_Delete a, ca_MkDir = gd_MkDir a\<rparr>"

section \<open>The factory of Drive nodes\<close>

text \<open>The interface \<open>DriveNodeFactory\<close> and its implementation in \<^verbatim>\<open>cmd/oauth-service/main.go\<close>. The two
  bounds are the pages of one folder and the depth of the folders.\<close>
record 'w DriveNodeFactory =
  df_NewDriveNode :: "NodeInfo \<Rightarrow> gerr + 'w Node"
  df_CheckDriveNode :: "NodeInfo \<Rightarrow> ('w, unit) io"

definition driveNodeFactory ::
  "nat \<Rightarrow> nat \<Rightarrow> (fsys \<Rightarrow> string) \<Rightarrow> 'd world DriveAdapter \<Rightarrow> string \<Rightarrow> 'd world DriveNodeFactory" where
  "driveNodeFactory pages depth sfx drive tmpDir =
     \<lparr>df_NewDriveNode = \<lambda>info.
        Inr (complex_node depth sfx (NewComplexStorage (ni_ID info) ''google_drive'' tmpDir
               (drive_api pages (NewGoogleDriveAdapter drive (ni_UserID info) (ni_AccountID info) (ni_FolderID info))))),
      df_CheckDriveNode = \<lambda>info. CheckAccount drive (ni_UserID info) (ni_AccountID info) (ni_FolderID info)\<rparr>"

end
