(* ===== verification/Pair_Store.thy ===== *)
theory Pair_Store
  imports Sync_Engine
begin

text \<open>
  The data of a pair of folders and the interface \<open>PairStore\<close> (\<^verbatim>\<open>internal/sync/pairs.go\<close>). The interface
  is a record of operations over an arbitrary store; its contract is the locale \<open>pair_store\<close>, whose
  parameter \<open>rows\<close> reads the pairs a store holds.
\<close>

record PairSide =
  ps_Device :: string
  ps_Path :: string
  ps_Drive :: string
  ps_FolderID :: string
  ps_UserID :: string

definition PairSide_String :: "PairSide \<Rightarrow> string" where
  "PairSide_String s =
     (if ps_Drive s \<noteq> [] then
        let folder = (if ps_FolderID s = [] then ''root'' else ps_FolderID s)
        in ''drive:'' @ ps_Drive s @ ''/'' @ folder
      else ps_Device s @ '':'' @ ps_Path s)"

record Pair =
  pr_ID :: int
  pr_Name :: string
  pr_A :: PairSide
  pr_B :: PairSide
  pr_CreatedAt :: gotime
  pr_LastSyncAt :: "gotime option"
  pr_LastStatus :: string
  pr_LastError :: string
  pr_LastTransferred :: int
  pr_LastDeleted :: int
  pr_LastConflicts :: int

text \<open>\<open>CreatePair\<close> fills in the ID and the creation time of the pair it is given: it returns that pair.\<close>
record 'p PairStore =
  st_CreatePair :: "Pair \<Rightarrow> 'p \<Rightarrow> (gerr + Pair) \<times> 'p"
  st_ListPairs :: "'p \<Rightarrow> gerr + Pair list"
  st_GetPair :: "'p \<Rightarrow> int \<Rightarrow> gerr + Pair"
  st_DeletePair :: "int \<Rightarrow> 'p \<Rightarrow> (gerr + unit) \<times> 'p"
  st_SavePairResult :: "int \<Rightarrow> gotime \<Rightarrow> string \<Rightarrow> string \<Rightarrow> SyncResult option \<Rightarrow> 'p \<Rightarrow> (gerr + unit) \<times> 'p"

text \<open>What identifies a pair and its folders; a synchronisation changes only the other fields.\<close>
definition identity :: "Pair \<Rightarrow> int \<times> string \<times> PairSide \<times> PairSide" where
  "identity p = (pr_ID p, pr_Name p, pr_A p, pr_B p)"

locale pair_store =
  fixes ps :: "'p PairStore"
    and rows :: "'p \<Rightarrow> (int, Pair) fmap"
    and wf :: "'p \<Rightarrow> bool"
  assumes create: "wf s \<Longrightarrow> st_CreatePair ps p s = (created, s') \<Longrightarrow> wf s' \<and>
      (case created of Inl err \<Rightarrow> rows s' = rows s
       | Inr q \<Rightarrow> fmlookup (rows s) (pr_ID q) = None \<and> identity q = identity (p\<lparr>pr_ID := pr_ID q\<rparr>) \<and>
           (\<exists>row. rows s' = fmupd (pr_ID q) row (rows s) \<and> identity row = identity q))"
    and list: "wf s \<Longrightarrow> st_ListPairs ps s = Inr l \<Longrightarrow> distinct (map pr_ID l) \<and> set l = fmran' (rows s)"
    and get: "wf s \<Longrightarrow> st_GetPair ps s i = Inr p \<Longrightarrow> fmlookup (rows s) i = Some p"
    and get_missing: "wf s \<Longrightarrow> st_GetPair ps s i = Inl err \<Longrightarrow> is_pair_not_found err \<Longrightarrow> fmlookup (rows s) i = None"
    and delete: "wf s \<Longrightarrow> st_DeletePair ps i s = (res, s') \<Longrightarrow> wf s' \<and>
      (case res of Inl err \<Rightarrow> rows s' = rows s
       | Inr _ \<Rightarrow> fmlookup (rows s) i \<noteq> None \<and> rows s' = fmdrop i (rows s))"
    and save: "wf s \<Longrightarrow> st_SavePairResult ps i t status msg r s = (res, s') \<Longrightarrow> wf s' \<and>
      (\<forall>k. map_option identity (fmlookup (rows s') k) = map_option identity (fmlookup (rows s) k))"
    and keyed: "wf s \<Longrightarrow> fmlookup (rows s) i = Some p \<Longrightarrow> pr_ID p = i"
begin

lemma listed_rows: "wf s \<Longrightarrow> st_ListPairs ps s = Inr l \<Longrightarrow> p \<in> set l \<longleftrightarrow> fmlookup (rows s) (pr_ID p) = Some p"
  using list keyed by (metis fmlookup_ran'_iff)

end

end
