(* ===== verification/Pairs.thy ===== *)
theory Pairs
  imports Complex_Storage Http_Agent Pair_Store
begin

text \<open>
  \<open>PairManager\<close> (\<^verbatim>\<open>internal/sync/pairs.go\<close>) with the scheduler (\<^verbatim>\<open>internal/sync/scheduler.go\<close>). The
  configuration is a record; the mutable parts, the devices, the pairs, the file states and the world, are
  the state the operations pass on. SHA-256 and the connection to the agents are parameters.
\<close>

section \<open>State\<close>

definition LocalDevice :: string where
  "LocalDevice = ''local''"

record ('s, 'p, 'd) PairManager =
  pm_engine :: "('s, 'd world) SyncEngine"
  pm_pairs :: "'p PairStore"
  pm_drive :: "'d world DriveNodeFactory option"
  pm_localRoot :: string
  pm_agentToken :: string

record ('s, 'p, 'd) sync_state =
  sy_devices :: "'d world NodeRegistry"
  sy_pairs :: 'p
  sy_states :: 's
  sy_world :: "'d world"

definition NewPairManager ::
  "('s, 'd world) SyncEngine \<Rightarrow> 'p PairStore \<Rightarrow> string \<Rightarrow> string \<Rightarrow> ('s, 'p, 'd) PairManager" where
  "NewPairManager engine pairs localRoot agentToken =
     \<lparr>pm_engine = engine, pm_pairs = pairs, pm_drive = None, pm_localRoot = localRoot, pm_agentToken = agentToken\<rparr>"

definition SetDriveFactory ::
  "'d world DriveNodeFactory \<Rightarrow> ('s, 'p, 'd) PairManager \<Rightarrow> ('s, 'p, 'd) PairManager" where
  "SetDriveFactory f m = m\<lparr>pm_drive := Some f\<rparr>"

text \<open>An operation of the world, run inside the state.\<close>
definition on_world ::
  "('d world, 'a) io \<Rightarrow> ('s, 'p, 'd) sync_state \<Rightarrow> (gerr + 'a) \<times> ('s, 'p, 'd) sync_state" where
  "on_world f st = (case f (sy_world st) of (res, w) \<Rightarrow> (res, st\<lparr>sy_world := w\<rparr>))"

section \<open>The sides of a pair\<close>

definition sideNodeID :: "int \<Rightarrow> string \<Rightarrow> string" where
  "sideNodeID pairID key = ''pair'' @ int_text pairID @ '':'' @ key"

text \<open>The bytes of the arrow are its UTF-8 encoding.\<close>
definition Pair_label :: "Pair \<Rightarrow> string" where
  "Pair_label p =
     (if pr_Name p \<noteq> [] then ''#'' @ int_text (pr_ID p) @ '' '' @ pr_Name p
      else ''#'' @ int_text (pr_ID p) @ '' '' @ PairSide_String (pr_A p) @ '' ''
             @ [CHR 0xE2, CHR 0x86, CHR 0x94] @ '' '' @ PairSide_String (pr_B p))"

definition driveInfo :: "string \<Rightarrow> PairSide \<Rightarrow> NodeInfo" where
  "driveInfo nodeID side =
     \<lparr>ni_ID = nodeID, ni_Type = ''google_drive'', ni_Endpoint = [], ni_AccountID = ps_Drive side,
      ni_UserID = ps_UserID side, ni_FolderID = ps_FolderID side, ni_Root = [], ni_LastSeen = 0, ni_Online = False\<rparr>"

definition local_disabled :: gerr where
  "local_disabled = Errorf ''local device is disabled (sync.localRoot is not set)''"

definition localDir :: "('s, 'p, 'd) PairManager \<Rightarrow> string \<Rightarrow> gerr + string" where
  "localDir m path =
     (if pm_localRoot m = [] then Inl local_disabled else ResolveInside (pm_localRoot m) path)"

definition no_device :: "string \<Rightarrow> gerr" where
  "no_device device = Errorf (''device '' @ device @ '' is not registered (is its agent running?)'')"

definition pm_node ::
  "hash_fun \<Rightarrow> 'd world transport \<Rightarrow> ('s, 'p, 'd) PairManager \<Rightarrow> 'd world NodeRegistry \<Rightarrow> int \<Rightarrow> string \<Rightarrow>
   PairSide \<Rightarrow> gerr + 'd world Node" where
  "pm_node sha tr m devices pairID key side =
     (let nodeID = sideNodeID pairID key in
      if ps_Drive side \<noteq> [] then
        (case pm_drive m of
           None \<Rightarrow> Inl (Errorf ''google drive is not configured'')
         | Some f \<Rightarrow> df_NewDriveNode f (driveInfo nodeID side))
      else if ps_Device side = LocalDevice then
        (case localDir m (ps_Path side) of
           Inl err \<Rightarrow> Inl err
         | Inr dir \<Rightarrow> Inr (local_node sha (NewSimpleStorage nodeID dir)))
      else
        (case rg_Info devices (ps_Device side) of
           None \<Rightarrow> Inl (no_device (ps_Device side))
         | Some info \<Rightarrow>
             Inr (remote_node tr (NewHTTPAgentFolder nodeID (ni_Endpoint info) (pm_agentToken m) (ps_Path side)))))"

definition pm_ListDirs ::
  "'d world transport \<Rightarrow> ('s, 'p, 'd) PairManager \<Rightarrow> string \<Rightarrow> string \<Rightarrow> ('s, 'p, 'd) sync_state \<Rightarrow>
   (gerr + string list) \<times> ('s, 'p, 'd) sync_state" where
  "pm_ListDirs tr m device path st =
     (if device = LocalDevice then
        (if pm_localRoot m = [] then (Inl local_disabled, st)
         else (ListSubdirs (wd_local (sy_world st)) (pm_localRoot m) path, st))
      else case rg_Info (sy_devices st) device of
          None \<Rightarrow> (Inl (Wrapf (''device '' @ device @ '': '') ErrNotExist), st)
        | Some info \<Rightarrow>
            on_world (rn_ListDirs tr (NewHTTPAgentNode device (ni_Endpoint info) (pm_agentToken m)) path) st)"

text \<open>The canonical path of a folder on an agent: relative to the agent's base folder where it is absolute
  and the base is known, and cleaned.\<close>
definition agent_path :: "NodeInfo \<Rightarrow> PairSide \<Rightarrow> gerr + string" where
  "agent_path info side =
     (let cleaned = (\<lambda>p. if p \<noteq> [] then Clean p else p) in
      if ps_Path side \<noteq> [] \<and> IsAbs (ps_Path side) \<and> ni_Root info \<noteq> [] then
        (let outside = Errorf (''folder '' @ ps_Path side @ '' is outside of '' @ ni_Root info @ '' on device '' @ ps_Device side)
         in case Rel (ni_Root info) (ps_Path side) of
              Inl err \<Rightarrow> Inl outside
            | Inr rel \<Rightarrow> if \<not> IsLocal rel then Inl outside else Inr (cleaned rel))
      else Inr (cleaned (ps_Path side)))"

definition validateSide ::
  "'d world transport \<Rightarrow> ('s, 'p, 'd) PairManager \<Rightarrow> PairSide \<Rightarrow> ('s, 'p, 'd) sync_state \<Rightarrow>
   (gerr + PairSide) \<times> ('s, 'p, 'd) sync_state" where
  "validateSide tr m side st =
     (if ps_Drive side \<noteq> [] \<and> ps_Device side \<noteq> [] then
        (Inl (Errorf ''side must be either a device folder or a google drive folder, not both''), st)
      else if ps_Drive side \<noteq> [] then
        (case pm_drive m of
           None \<Rightarrow> (Inl (Errorf ''google drive is not configured''), st)
         | Some f \<Rightarrow>
             if ps_UserID side = [] then (Inl (Errorf ''google drive side requires an authenticated user''), st)
             else (case on_world (df_CheckDriveNode f (driveInfo [] side)) st of
                     (Inl err, st') \<Rightarrow> (Inl err, st')
                   | (Inr _, st') \<Rightarrow> (Inr side, st')))
      else if ps_Device side = [] then (Inl (Errorf ''side requires device (and path) or drive''), st)
      else if ps_Device side = LocalDevice then
        (case localDir m (ps_Path side) of
           Inl err \<Rightarrow> (Inl err, st)
         | Inr dir \<Rightarrow>
             if \<not> os_is_dir (wd_local (sy_world st)) dir then
               (Inl (Errorf (''folder '' @ dir @ '' does not exist on this computer (only folders inside ''
                       @ pm_localRoot m @ '' are available)'')), st)
             else (Inr (side\<lparr>ps_Path := dir\<rparr>), st))
      else
        (case rg_Info (sy_devices st) (ps_Device side) of
           None \<Rightarrow> (Inl (no_device (ps_Device side)), st)
         | Some info \<Rightarrow>
             (case agent_path info side of
                Inl err \<Rightarrow> (Inl err, st)
              | Inr path \<Rightarrow>
                  (case on_world (rn_ListDirs tr (NewHTTPAgentNode (ps_Device side) (ni_Endpoint info) (pm_agentToken m)) path) st of
                     (Inl err, st') \<Rightarrow>
                       if is_not_exist err
                       then (Inl (Errorf (''folder '' @ go_quote path @ '' does not exist on device '' @ ps_Device side)), st')
                       else (Inl (Wrapf (''device '' @ ps_Device side @ '' is not reachable: '') err), st')
                   | (Inr _, st') \<Rightarrow> (Inr (side\<lparr>ps_Path := path\<rparr>), st')))))"

definition overlaps :: "PairSide \<Rightarrow> PairSide \<Rightarrow> bool" where
  "overlaps a b =
     (if ps_Drive a \<noteq> [] \<or> ps_Drive b \<noteq> [] then
        ps_Drive a \<noteq> [] \<and> ps_Drive a = ps_Drive b \<and> ps_FolderID a = ps_FolderID b
      else if ps_Device a \<noteq> ps_Device b then False
      else let pa = trim_char slash (ps_Path a); pb = trim_char slash (ps_Path b) in
        pa = pb \<or> pa = [] \<or> pb = [] \<or> HasPrefix (pa @ ''/'') (pb @ ''/'') \<or> HasPrefix (pb @ ''/'') (pa @ ''/''))"

section \<open>Managing pairs\<close>

text \<open>The pair is returned with what the calls wrote into it.\<close>
definition pm_Create ::
  "'d world transport \<Rightarrow> ('s, 'p, 'd) PairManager \<Rightarrow> Pair \<Rightarrow> ('s, 'p, 'd) sync_state \<Rightarrow>
   (gerr + Pair) \<times> ('s, 'p, 'd) sync_state" where
  "pm_Create tr m p st =
     (case validateSide tr m (pr_A p) st of
        (Inl err, st1) \<Rightarrow> (Inl (Wrapf ''side a: '' err), st1)
      | (Inr a, st1) \<Rightarrow>
          (case validateSide tr m (pr_B p) st1 of
             (Inl err, st2) \<Rightarrow> (Inl (Wrapf ''side b: '' err), st2)
           | (Inr b, st2) \<Rightarrow>
               if overlaps a b
               then (Inl (Errorf ''sides point to the same folder or one is inside the other''), st2)
               else (case st_CreatePair (pm_pairs m) (p\<lparr>pr_A := a, pr_B := b, pr_LastStatus := ''pending''\<rparr>) (sy_pairs st2) of
                       (res, ps) \<Rightarrow> (res, st2\<lparr>sy_pairs := ps\<rparr>))))"

definition forget :: "('s, 'p, 'd) PairManager \<Rightarrow> string \<Rightarrow> ('s, 'p, 'd) sync_state \<Rightarrow> ('s, 'p, 'd) sync_state" where
  "forget m nodeID st =
     (case ForgetNode (pm_engine m) nodeID (sy_states st, sy_world st) of
        (s, w) \<Rightarrow> st\<lparr>sy_states := s, sy_world := w\<rparr>)"

definition pm_Delete ::
  "('s, 'p, 'd) PairManager \<Rightarrow> int \<Rightarrow> ('s, 'p, 'd) sync_state \<Rightarrow> (gerr + unit) \<times> ('s, 'p, 'd) sync_state" where
  "pm_Delete m i st =
     (case st_DeletePair (pm_pairs m) i (sy_pairs st) of
        (Inl err, ps) \<Rightarrow> (Inl err, st\<lparr>sy_pairs := ps\<rparr>)
      | (Inr _, ps) \<Rightarrow>
          (Inr (), forget m (sideNodeID i ''b'') (forget m (sideNodeID i ''a'') (st\<lparr>sy_pairs := ps\<rparr>))))"

definition pm_List :: "('s, 'p, 'd) PairManager \<Rightarrow> ('s, 'p, 'd) sync_state \<Rightarrow> gerr + Pair list" where
  "pm_List m st = st_ListPairs (pm_pairs m) (sy_pairs st)"

definition pm_Get :: "('s, 'p, 'd) PairManager \<Rightarrow> int \<Rightarrow> ('s, 'p, 'd) sync_state \<Rightarrow> gerr + Pair" where
  "pm_Get m i st = st_GetPair (pm_pairs m) (sy_pairs st) i"

definition PairsUsingDevice ::
  "('s, 'p, 'd) PairManager \<Rightarrow> string \<Rightarrow> ('s, 'p, 'd) sync_state \<Rightarrow> gerr + int list" where
  "PairsUsingDevice m device st =
     (case st_ListPairs (pm_pairs m) (sy_pairs st) of
        Inl err \<Rightarrow> Inl err
      | Inr pairs \<Rightarrow> Inr (map pr_ID (filter (\<lambda>p. ps_Device (pr_A p) = device \<or> ps_Device (pr_B p) = device) pairs)))"

section \<open>Running pairs\<close>

definition pm_run ::
  "hash_fun \<Rightarrow> 'd world transport \<Rightarrow> ('s, 'p, 'd) PairManager \<Rightarrow> Pair \<Rightarrow> ('s, 'p, 'd) sync_state \<Rightarrow>
   (gerr + SyncResult) \<times> ('s, 'p, 'd) sync_state" where
  "pm_run sha tr m p st =
     (case pm_node sha tr m (sy_devices st) (pr_ID p) ''a'' (pr_A p) of
        Inl err \<Rightarrow> (Inl (Wrapf ''side a: '' err), st)
      | Inr a \<Rightarrow>
          (case pm_node sha tr m (sy_devices st) (pr_ID p) ''b'' (pr_B p) of
             Inl err \<Rightarrow> (Inl (Wrapf ''side b: '' err), st)
           | Inr b \<Rightarrow>
               (case Sync sha (pm_engine m) a b (sy_states st, sy_world st) of
                  (res, (s, w)) \<Rightarrow> (res, st\<lparr>sy_states := s, sy_world := w\<rparr>))))"

text \<open>The status and the message \<open>Run\<close> records.\<close>
definition run_status :: "gerr + SyncResult \<Rightarrow> string \<times> string" where
  "run_status res =
     (case res of
        Inl err \<Rightarrow> (''error'', err_text err)
      | Inr r \<Rightarrow>
          (case sr_Errors r of
             [] \<Rightarrow> (''ok'', [])
           | e # es \<Rightarrow> (''error'', err_text e @ (if es = [] then [] else '' (and '' @ int_text (int (length es)) @ '' more)''))))"

definition result_of :: "gerr + SyncResult \<Rightarrow> SyncResult option" where
  "result_of res = (case res of Inl _ \<Rightarrow> None | Inr r \<Rightarrow> Some r)"

text \<open>\<open>Run\<close>; that the result could not be saved is only logged.\<close>
definition pm_Run ::
  "hash_fun \<Rightarrow> 'd world transport \<Rightarrow> ('s, 'p, 'd) PairManager \<Rightarrow> Pair \<Rightarrow> ('s, 'p, 'd) sync_state \<Rightarrow>
   (gerr + SyncResult) \<times> ('s, 'p, 'd) sync_state" where
  "pm_Run sha tr m p st =
     (case pm_run sha tr m p st of
        (res, st1) \<Rightarrow>
          let (status, msg) = run_status res;
              (now, w) = world_Now (sy_world st1);
              (saved, ps) = st_SavePairResult (pm_pairs m) (pr_ID p) now status msg (result_of res) (sy_pairs st1)
          in (res, st1\<lparr>sy_world := w, sy_pairs := ps\<rparr>))"

definition run_failed :: "gerr + SyncResult \<Rightarrow> bool" where
  "run_failed res = (case res of Inl _ \<Rightarrow> True | Inr r \<Rightarrow> sr_Errors r \<noteq> [])"

text \<open>The loop of \<open>RunAll\<close>; \<open>failed\<close> counts the runs with errors for the log. The context is not cancelled.\<close>
fun run_pairs ::
  "hash_fun \<Rightarrow> 'd world transport \<Rightarrow> ('s, 'p, 'd) PairManager \<Rightarrow> Pair list \<Rightarrow> nat \<times> ('s, 'p, 'd) sync_state \<Rightarrow>
   nat \<times> ('s, 'p, 'd) sync_state" where
  "run_pairs sha tr m [] (failed, st) = (failed, st)"
| "run_pairs sha tr m (p # ps) (failed, st) =
     (case pm_Run sha tr m p st of
        (res, st') \<Rightarrow> run_pairs sha tr m ps (if run_failed res then failed + 1 else failed, st'))"

definition pm_RunAll ::
  "hash_fun \<Rightarrow> 'd world transport \<Rightarrow> ('s, 'p, 'd) PairManager \<Rightarrow> ('s, 'p, 'd) sync_state \<Rightarrow>
   nat \<times> ('s, 'p, 'd) sync_state" where
  "pm_RunAll sha tr m st =
     (case st_ListPairs (pm_pairs m) (sy_pairs st) of
        Inl err \<Rightarrow> (0, st)
      | Inr pairs \<Rightarrow> run_pairs sha tr m pairs (0, st))"

section \<open>The scheduler\<close>

text \<open>\<open>RunScheduler\<close> up to the moment its context is cancelled: each time the timer fires before that, all
  pairs are run.\<close>
datatype scheduler_event = TimerFired | Cancelled

fun RunScheduler ::
  "hash_fun \<Rightarrow> 'd world transport \<Rightarrow> ('s, 'p, 'd) PairManager \<Rightarrow> scheduler_event list \<Rightarrow> ('s, 'p, 'd) sync_state \<Rightarrow>
   ('s, 'p, 'd) sync_state" where
  "RunScheduler sha tr m [] st = st"
| "RunScheduler sha tr m (Cancelled # es) st = st"
| "RunScheduler sha tr m (TimerFired # es) st = RunScheduler sha tr m es (snd (pm_RunAll sha tr m st))"

end
