(* ===== verification/Pg_Store.thy ===== *)
theory Pg_Store
  imports Pair_Store Registry "HOL-Library.Product_Lexorder"
begin

text \<open>
  The stores on PostgreSQL (\<^verbatim>\<open>internal/sync/pgstore.go\<close>) over a model of the three tables the migrations
  0009 and 0010 create. A statement fails when the server cannot be reached (\<open>pg_up\<close>) or when a text is
  one the server does not take (\<open>ok\<close>, a parameter: PostgreSQL refuses NUL and bytes that are not UTF-8), and
  then changes nothing. \<open>TIMESTAMPTZ\<close> has microseconds; a JSON column is the value it encodes.
\<close>

section \<open>The database\<close>

record state_row =
  sw_hash :: string
  sw_size :: int
  sw_clock :: VectorClock
  sw_deleted :: bool
  sw_updated_at :: gotime

record pgdb =
  pg_up :: bool
  pg_tables :: "string list"
  pg_now :: gotime
  pg_states :: "(string \<times> string, state_row) fmap"
  pg_nodes :: "NodeInfo list"
  pg_pairs :: "(int, Pair) fmap"
  pg_seq :: int

definition pg_error :: gerr where
  "pg_error = Errorf ''failed to connect to postgres''"

definition timestamptz :: "gotime \<Rightarrow> gotime" where
  "timestamptz t = t - t mod 1000"

section \<open>PgStateStore\<close>

definition pg_Check :: "pgdb \<Rightarrow> gerr option" where
  "pg_Check db =
     (if \<not> pg_up db then Some pg_error
      else case find (\<lambda>t. t \<notin> set (pg_tables db)) [''sync_file_states'', ''sync_nodes'', ''sync_pairs''] of
          None \<Rightarrow> None
        | Some t \<Rightarrow> Some (Errorf (''table '' @ t @ '' does not exist'')))"

definition scan_state :: "string \<Rightarrow> string \<Rightarrow> state_row \<Rightarrow> FileState" where
  "scan_state nodeID path w =
     \<lparr>fs_Path = path, fs_Hash = sw_hash w, fs_Size = sw_size w, fs_Clock = sw_clock w,
      fs_UpdatedAt = sw_updated_at w, fs_NodeID = nodeID, fs_Deleted = sw_deleted w\<rparr>"

definition pg_Get :: "(string \<Rightarrow> bool) \<Rightarrow> pgdb \<Rightarrow> string \<Rightarrow> string \<Rightarrow> FileState option" where
  "pg_Get ok db nodeID path =
     (if \<not> pg_up db \<or> \<not> ok nodeID \<or> \<not> ok path then None
      else map_option (scan_state nodeID path) (fmlookup (pg_states db) (nodeID, path)))"

definition state_ok :: "(string \<Rightarrow> bool) \<Rightarrow> string \<Rightarrow> string \<Rightarrow> FileState \<Rightarrow> bool" where
  "state_ok ok nodeID path state \<longleftrightarrow>
     ok nodeID \<and> ok path \<and> ok (fs_Hash state) \<and> list_all ok (range_keys (fs_Clock state))"

text \<open>The upsert; a failure is only logged.\<close>
definition pg_Set :: "(string \<Rightarrow> bool) \<Rightarrow> pgdb \<Rightarrow> string \<Rightarrow> string \<Rightarrow> FileState \<Rightarrow> pgdb" where
  "pg_Set ok db nodeID path state =
     (if \<not> pg_up db \<or> \<not> state_ok ok nodeID path state then db
      else db\<lparr>pg_states := fmupd (nodeID, path)
              \<lparr>sw_hash = fs_Hash state, sw_size = fs_Size state, sw_clock = fs_Clock state,
               sw_deleted = fs_Deleted state, sw_updated_at = timestamptz (fs_UpdatedAt state)\<rparr> (pg_states db)\<rparr>)"

definition node_rows :: "pgdb \<Rightarrow> string \<Rightarrow> (string \<times> string) list" where
  "node_rows db nodeID = filter (\<lambda>k. fst k = nodeID) (sorted_list_of_fset (fmdom (pg_states db)))"

definition pg_All :: "(string \<Rightarrow> bool) \<Rightarrow> pgdb \<Rightarrow> string \<Rightarrow> FileState list" where
  "pg_All ok db nodeID =
     (if \<not> pg_up db \<or> \<not> ok nodeID then []
      else map (\<lambda>k. scan_state nodeID (snd k) (the (fmlookup (pg_states db) k))) (node_rows db nodeID))"

definition pg_DeleteNode :: "(string \<Rightarrow> bool) \<Rightarrow> pgdb \<Rightarrow> string \<Rightarrow> pgdb" where
  "pg_DeleteNode ok db nodeID =
     (if \<not> pg_up db \<or> \<not> ok nodeID then db
      else db\<lparr>pg_states := fmfilter (\<lambda>k. fst k \<noteq> nodeID) (pg_states db)\<rparr>)"

definition pg_store :: "(string \<Rightarrow> bool) \<Rightarrow> pgdb StateStore" where
  "pg_store ok = \<lparr>st_Get = pg_Get ok, st_Set = pg_Set ok, st_All = pg_All ok, st_DeleteNode = pg_DeleteNode ok\<rparr>"

section \<open>PgNodeStore\<close>

text \<open>The interface \<open>NodeStore\<close>.\<close>
record 'n NodeStore =
  ns_SaveNode :: "NodeInfo \<Rightarrow> 'n \<Rightarrow> (gerr + unit) \<times> 'n"
  ns_DeleteNode :: "string \<Rightarrow> 'n \<Rightarrow> (gerr + unit) \<times> 'n"
  ns_LoadNodes :: "'n \<Rightarrow> gerr + NodeInfo list"

text \<open>The columns of \<open>sync_nodes\<close>; the rest is left at its zero value when a row is read.\<close>
definition node_columns :: "NodeInfo \<Rightarrow> NodeInfo" where
  "node_columns info = info\<lparr>ni_LastSeen := 0, ni_Online := False\<rparr>"

definition info_ok :: "(string \<Rightarrow> bool) \<Rightarrow> NodeInfo \<Rightarrow> bool" where
  "info_ok ok i \<longleftrightarrow> list_all ok [ni_ID i, ni_Type i, ni_Endpoint i, ni_AccountID i, ni_UserID i, ni_FolderID i, ni_Root i]"

text \<open>A new row comes last in the order of \<open>created_at\<close>; a row that exists keeps its place.\<close>
definition upsert_node :: "NodeInfo \<Rightarrow> NodeInfo list \<Rightarrow> NodeInfo list" where
  "upsert_node i rows =
     (if list_ex (\<lambda>j. ni_ID j = ni_ID i) rows then map (\<lambda>j. if ni_ID j = ni_ID i then i else j) rows
      else rows @ [i])"

definition pg_SaveNode :: "(string \<Rightarrow> bool) \<Rightarrow> NodeInfo \<Rightarrow> pgdb \<Rightarrow> (gerr + unit) \<times> pgdb" where
  "pg_SaveNode ok info db =
     (if \<not> pg_up db \<or> \<not> info_ok ok info then (Inl pg_error, db)
      else (Inr (), db\<lparr>pg_nodes := upsert_node (node_columns info) (pg_nodes db)\<rparr>))"

definition pg_DeleteNodeInfo :: "(string \<Rightarrow> bool) \<Rightarrow> string \<Rightarrow> pgdb \<Rightarrow> (gerr + unit) \<times> pgdb" where
  "pg_DeleteNodeInfo ok nodeID db =
     (if \<not> pg_up db \<or> \<not> ok nodeID then (Inl pg_error, db)
      else (Inr (), db\<lparr>pg_nodes := filter (\<lambda>j. ni_ID j \<noteq> nodeID) (pg_nodes db)\<rparr>))"

definition pg_LoadNodes :: "pgdb \<Rightarrow> gerr + NodeInfo list" where
  "pg_LoadNodes db = (if \<not> pg_up db then Inl pg_error else Inr (pg_nodes db))"

definition pg_node_store :: "(string \<Rightarrow> bool) \<Rightarrow> pgdb NodeStore" where
  "pg_node_store ok =
     \<lparr>ns_SaveNode = pg_SaveNode ok, ns_DeleteNode = pg_DeleteNodeInfo ok, ns_LoadNodes = pg_LoadNodes\<rparr>"

section \<open>PgPairStore\<close>

definition side_ok :: "(string \<Rightarrow> bool) \<Rightarrow> PairSide \<Rightarrow> bool" where
  "side_ok ok s \<longleftrightarrow> list_all ok [ps_Device s, ps_Path s, ps_Drive s, ps_FolderID s, ps_UserID s]"

text \<open>The columns not named in the \<open>INSERT\<close> have their defaults; \<open>BIGSERIAL\<close> never gives an ID twice.\<close>
definition pg_CreatePair :: "(string \<Rightarrow> bool) \<Rightarrow> Pair \<Rightarrow> pgdb \<Rightarrow> (gerr + Pair) \<times> pgdb" where
  "pg_CreatePair ok p db =
     (if \<not> pg_up db \<or> \<not> ok (pr_Name p) \<or> \<not> side_ok ok (pr_A p) \<or> \<not> side_ok ok (pr_B p) \<or> \<not> ok (pr_LastStatus p)
      then (Inl pg_error, db)
      else
        let i = pg_seq db; created = timestamptz (pg_now db);
            row = \<lparr>pr_ID = i, pr_Name = pr_Name p, pr_A = pr_A p, pr_B = pr_B p, pr_CreatedAt = created,
                   pr_LastSyncAt = None, pr_LastStatus = pr_LastStatus p, pr_LastError = [],
                   pr_LastTransferred = 0, pr_LastDeleted = 0, pr_LastConflicts = 0\<rparr>
        in (Inr (p\<lparr>pr_ID := i, pr_CreatedAt := created\<rparr>),
            db\<lparr>pg_seq := i + 1, pg_pairs := fmupd i row (pg_pairs db)\<rparr>))"

definition pg_ListPairs :: "pgdb \<Rightarrow> gerr + Pair list" where
  "pg_ListPairs db =
     (if \<not> pg_up db then Inl pg_error
      else Inr (map (\<lambda>i. the (fmlookup (pg_pairs db) i)) (range_keys (pg_pairs db))))"

definition pg_GetPair :: "pgdb \<Rightarrow> int \<Rightarrow> gerr + Pair" where
  "pg_GetPair db i =
     (if \<not> pg_up db then Inl pg_error
      else case fmlookup (pg_pairs db) i of None \<Rightarrow> Inl ErrPairNotFound | Some p \<Rightarrow> Inr p)"

definition pg_DeletePair :: "int \<Rightarrow> pgdb \<Rightarrow> (gerr + unit) \<times> pgdb" where
  "pg_DeletePair i db =
     (if \<not> pg_up db then (Inl pg_error, db)
      else if i |\<notin>| fmdom (pg_pairs db) then (Inl ErrPairNotFound, db)
      else (Inr (), db\<lparr>pg_pairs := fmdrop i (pg_pairs db)\<rparr>))"

definition int4 :: "int \<Rightarrow> bool" where
  "int4 n \<longleftrightarrow> - (2 ^ 31) \<le> n \<and> n < 2 ^ 31"

definition pg_SavePairResult ::
  "(string \<Rightarrow> bool) \<Rightarrow> int \<Rightarrow> gotime \<Rightarrow> string \<Rightarrow> string \<Rightarrow> SyncResult option \<Rightarrow> pgdb \<Rightarrow> (gerr + unit) \<times> pgdb" where
  "pg_SavePairResult ok i t status errMsg res db =
     (let (transferred, deleted, conflicts) =
            (case res of None \<Rightarrow> (0, 0, 0)
             | Some r \<Rightarrow> (sr_Transferred r, sr_Deleted r, int (length (sr_Conflicts r))))
      in if \<not> pg_up db \<or> \<not> ok status \<or> \<not> ok errMsg \<or> \<not> (int4 transferred \<and> int4 deleted \<and> int4 conflicts)
         then (Inl pg_error, db)
         else case fmlookup (pg_pairs db) i of
             None \<Rightarrow> (Inr (), db)
           | Some p \<Rightarrow>
               (Inr (), db\<lparr>pg_pairs := fmupd i (p\<lparr>pr_LastSyncAt := Some (timestamptz t), pr_LastStatus := status,
                    pr_LastError := errMsg, pr_LastTransferred := transferred, pr_LastDeleted := deleted,
                    pr_LastConflicts := conflicts\<rparr>) (pg_pairs db)\<rparr>))"

definition pg_pair_store :: "(string \<Rightarrow> bool) \<Rightarrow> pgdb PairStore" where
  "pg_pair_store ok =
     \<lparr>st_CreatePair = pg_CreatePair ok, st_ListPairs = pg_ListPairs, st_GetPair = pg_GetPair,
      st_DeletePair = pg_DeletePair, st_SavePairResult = pg_SavePairResult ok\<rparr>"


section \<open>The pair store meets its contract\<close>

text \<open>Rows are stored under their ID, and the sequence is ahead of every ID given so far.\<close>
definition pairs_wf :: "pgdb \<Rightarrow> bool" where
  "pairs_wf db \<longleftrightarrow> (\<forall>i p. fmlookup (pg_pairs db) i = Some p \<longrightarrow> pr_ID p = i \<and> i < pg_seq db)"

lemma pg_CreatePair_law:
  assumes "pairs_wf db" "pg_CreatePair ok p db = (created, db')"
  shows "pairs_wf db' \<and>
      (case created of Inl err \<Rightarrow> pg_pairs db' = pg_pairs db
       | Inr q \<Rightarrow> fmlookup (pg_pairs db) (pr_ID q) = None \<and> identity q = identity (p\<lparr>pr_ID := pr_ID q\<rparr>) \<and>
           (\<exists>row. pg_pairs db' = fmupd (pr_ID q) row (pg_pairs db) \<and> identity row = identity q))"
proof -
  have fresh: "fmlookup (pg_pairs db) (pg_seq db) = None"
    using assms(1) by (cases "fmlookup (pg_pairs db) (pg_seq db)") (auto simp: pairs_wf_def)
  show ?thesis
    using assms fresh by (force simp: pg_CreatePair_def pairs_wf_def identity_def Let_def split: if_splits)
qed

lemma pg_ListPairs_law:
  assumes "pairs_wf db" "pg_ListPairs db = Inr l"
  shows "distinct (map pr_ID l) \<and> set l = fmran' (pg_pairs db)"
proof -
  have l: "l = map (\<lambda>i. the (fmlookup (pg_pairs db) i)) (range_keys (pg_pairs db))"
    using assms(2) by (simp add: pg_ListPairs_def split: if_splits)
  have "pr_ID (the (fmlookup (pg_pairs db) i)) = i" if "i \<in> set (range_keys (pg_pairs db))" for i
    using that assms(1) by (auto simp: pairs_wf_def fmlookup_dom_iff)
  then have "map pr_ID l = range_keys (pg_pairs db)"
    unfolding l by (auto intro!: map_idI)
  moreover have "set l = fmran' (pg_pairs db)"
    unfolding l by (force simp: fmlookup_dom_iff fmlookup_ran'_iff)
  ultimately show ?thesis by simp
qed

interpretation pg_pair: pair_store "pg_pair_store ok" pg_pairs pairs_wf for ok
proof
  fix s :: pgdb and p created s'
  assume "pairs_wf s" "st_CreatePair (pg_pair_store ok) p s = (created, s')"
  then show "pairs_wf s' \<and>
      (case created of Inl err \<Rightarrow> pg_pairs s' = pg_pairs s
       | Inr q \<Rightarrow> fmlookup (pg_pairs s) (pr_ID q) = None \<and> identity q = identity (p\<lparr>pr_ID := pr_ID q\<rparr>) \<and>
           (\<exists>row. pg_pairs s' = fmupd (pr_ID q) row (pg_pairs s) \<and> identity row = identity q))"
    using pg_CreatePair_law by (simp add: pg_pair_store_def)
next
  fix s :: pgdb and i t status msg r res s'
  assume "pairs_wf s" "st_SavePairResult (pg_pair_store ok) i t status msg r s = (res, s')"
  then show "pairs_wf s' \<and> (\<forall>k. map_option identity (fmlookup (pg_pairs s') k) = map_option identity (fmlookup (pg_pairs s) k))"
    by (auto simp: pg_pair_store_def pg_SavePairResult_def Let_def identity_def pairs_wf_def
        split: if_splits option.splits prod.splits)
qed (auto simp: pg_pair_store_def pg_ListPairs_law pg_GetPair_def pg_DeletePair_def pg_error_def pairs_wf_def
      fmdom_notI fmlookup_dom_iff split: if_splits option.splits)

section \<open>The state store against the in-memory store\<close>

text \<open>What a state becomes in the table: the key columns and a time in microseconds.\<close>
definition stored :: "string \<Rightarrow> string \<Rightarrow> FileState \<Rightarrow> FileState" where
  "stored n p x = x\<lparr>fs_NodeID := n, fs_Path := p, fs_UpdatedAt := timestamptz (fs_UpdatedAt x)\<rparr>"

text \<open>The table holds what an in-memory store holds.\<close>
definition holds :: "(string \<Rightarrow> bool) \<Rightarrow> pgdb \<Rightarrow> InMemoryStateStore \<Rightarrow> bool" where
  "holds ok db s \<longleftrightarrow> (\<forall>n p. pg_Get ok db n p = mem_Get s n p)"

lemma pg_Get_Set:
  assumes "pg_up db" "state_ok ok n p x"
  shows "pg_Get ok (pg_Set ok db n p x) m q = (if m = n \<and> q = p then Some (stored n p x) else pg_Get ok db m q)"
  using assms by (simp add: pg_Get_def pg_Set_def state_ok_def stored_def scan_state_def)

lemma pg_Get_DeleteNode:
  assumes "pg_up db" "ok n"
  shows "pg_Get ok (pg_DeleteNode ok db n) m q = (if m = n then None else pg_Get ok db m q)"
  using assms by (simp add: pg_Get_def pg_DeleteNode_def)

lemma set_pg_All:
  assumes "pg_up db" "ok n" "\<And>m p. (m, p) |\<in>| fmdom (pg_states db) \<Longrightarrow> ok p"
  shows "set (pg_All ok db n) = {x. \<exists>p. pg_Get ok db n p = Some x}"
proof -
  have get: "pg_Get ok db n p = map_option (scan_state n p) (fmlookup (pg_states db) (n, p))" for p
    using assms(1,2) assms(3) [OF fmdomI, of n p]
    by (cases "fmlookup (pg_states db) (n, p)") (auto simp: pg_Get_def)
  have "set (pg_All ok db n) = (\<lambda>k. scan_state n (snd k) (the (fmlookup (pg_states db) k))) `
      {k. fst k = n \<and> k |\<in>| fmdom (pg_states db)}"
    using assms(1,2) by (auto simp: pg_All_def node_rows_def)
  also have "\<dots> = {x. \<exists>p. pg_Get ok db n p = Some x}"
  proof (intro set_eqI iffI)
    fix x assume "x \<in> {x. \<exists>p. pg_Get ok db n p = Some x}"
    then obtain p w where "fmlookup (pg_states db) (n, p) = Some w" "x = scan_state n p w" unfolding get by auto
    then show "x \<in> (\<lambda>k. scan_state n (snd k) (the (fmlookup (pg_states db) k))) ` {k. fst k = n \<and> k |\<in>| fmdom (pg_states db)}"
      by (intro image_eqI [of _ _ "(n, p)"]) (simp_all add: fmdomI)
  qed (auto simp: get fmlookup_dom_iff, blast)
  finally show ?thesis .
qed

text \<open>Only accepted texts are in the table.\<close>
definition states_wf :: "(string \<Rightarrow> bool) \<Rightarrow> pgdb \<Rightarrow> bool" where
  "states_wf ok db \<longleftrightarrow> (\<forall>m p. (m, p) |\<in>| fmdom (pg_states db) \<longrightarrow> ok m \<and> ok p)"

text \<open>C30: the persistent store of file states refines the in-memory one. While the server is up, each operation
  on a table that holds what an in-memory store holds returns the same and again leaves the table with what
  the in-memory store then holds; a state comes back with its time rounded down to a microsecond and
  everything else unchanged. A state with a text the server does not take is silently not stored, and
  while the server is down every read is empty and every write is lost.\<close>
theorem pg_refines_mem:
  assumes "states_wf ok db" and "holds ok db s" and "pg_up db" and "ok n"
  shows "pg_Get ok db n p = mem_Get s n p \<and> set (pg_All ok db n) = set (mem_All s n) \<and>
    holds ok (pg_DeleteNode ok db n) (mem_DeleteNode s n) \<and>
    (state_ok ok n p x \<longrightarrow> holds ok (pg_Set ok db n p x) (mem_Set s n p (stored n p x))) \<and>
    (\<not> state_ok ok n p x \<longrightarrow> pg_Set ok db n p x = db) \<and>
    states_wf ok (pg_Set ok db n p x) \<and> states_wf ok (pg_DeleteNode ok db n) \<and>
    (let down = db\<lparr>pg_up := False\<rparr> in
       pg_Get ok down n p = None \<and> pg_All ok down n = [] \<and> pg_Set ok down n p x = down \<and> pg_DeleteNode ok down n = down)"
proof -
  have get: "\<And>m q. pg_Get ok db m q = mem_Get s m q" using assms(2) by (simp add: holds_def)
  have all: "set (pg_All ok db n) = set (mem_All s n)"
    using set_pg_All [OF assms(3), of ok n] assms(1,4) get by (simp add: states_wf_def set_mem_All)
  have del: "holds ok (pg_DeleteNode ok db n) (mem_DeleteNode s n)"
    using pg_Get_DeleteNode [OF assms(3), of ok n] assms(4) get by (simp add: holds_def mem_Get_Delete)
  have put: "state_ok ok n p x \<longrightarrow> holds ok (pg_Set ok db n p x) (mem_Set s n p (stored n p x))"
    using pg_Get_Set [OF assms(3), of ok n p x] get by (simp add: holds_def mem_Get_Set)
  have wf: "states_wf ok (pg_Set ok db n p x)" "states_wf ok (pg_DeleteNode ok db n)"
    using assms(1) by (auto simp: states_wf_def pg_Set_def pg_DeleteNode_def state_ok_def)
  show ?thesis
    using get all del put wf by (simp add: pg_Set_def pg_Get_def pg_All_def pg_DeleteNode_def)
qed

definition ex_db :: pgdb where
  "ex_db = \<lparr>pg_up = True, pg_tables = [''sync_file_states'', ''sync_nodes'', ''sync_pairs''], pg_now = 5000,
            pg_states = fmempty, pg_nodes = [], pg_pairs = fmempty, pg_seq = 1\<rparr>"

definition ex_state :: FileState where
  "ex_state = \<lparr>fs_Path = ''x'', fs_Hash = ''h'', fs_Size = 3, fs_Clock = fmempty, fs_UpdatedAt = 1234567,
               fs_NodeID = ''pair1:a'', fs_Deleted = False\<rparr>"

theorem pg_refines_mem_witness:
  "holds (\<lambda>t. True) (pg_Set (\<lambda>t. True) ex_db ''pair1:a'' ''x'' ex_state)
     (mem_Set NewInMemoryStateStore ''pair1:a'' ''x'' (ex_state\<lparr>fs_UpdatedAt := 1234000\<rparr>))"
proof -
  have st: "stored ''pair1:a'' ''x'' ex_state = ex_state\<lparr>fs_UpdatedAt := 1234000\<rparr>"
    by (simp add: stored_def ex_state_def timestamptz_def)
  have "holds (\<lambda>t. True) ex_db NewInMemoryStateStore" "states_wf (\<lambda>t. True) ex_db"
    by (simp_all add: holds_def states_wf_def ex_db_def pg_Get_def mem_Get_def NewInMemoryStateStore_def)
  moreover have "pg_up ex_db" by (simp add: ex_db_def)
  moreover have "state_ok (\<lambda>t. True) ''pair1:a'' ''x'' ex_state" by (simp add: state_ok_def list_all_iff)
  ultimately show ?thesis
    using pg_refines_mem [of "\<lambda>t. True" ex_db NewInMemoryStateStore "''pair1:a''" "''x''" ex_state] st by simp
qed

end
