(* ===== verification/Sync_Handlers.thy ===== *)
theory Sync_Handlers
  imports Pairs Pg_Store
begin

text \<open>
  The HTTP API of devices, pairs and agents (\<^verbatim>\<open>internal/sync/handlers.go\<close>). A handler is a function of the
  request's parts it reads and of the server's state; a decoded JSON body is the value, or the error of
  the decoder. The runs that handlers start in the background are jobs of the state. Package \<open>net/url\<close> is a
  parameter.
\<close>

section \<open>State, requests and answers\<close>

text \<open>What is still to be done in the background: the pairs of one \<open>go h.pairs.Run\<close> or of a \<open>RunAll\<close> that
  has read its list, or a \<open>RunAll\<close> that has not begun.\<close>
datatype job = RunPairs "Pair list" | RunAllJob

type_synonym ('s, 'd) srv = "('s, pgdb, 'd) sync_state \<times> job list"

record ('s, 'd) SyncHTTPHandlers =
  hh_pairs :: "('s, pgdb, 'd) PairManager"
  hh_nodeStore :: "pgdb NodeStore option"
  hh_agentToken :: string

definition NewSyncHTTPHandlers :: "('s, pgdb, 'd) PairManager \<Rightarrow> string \<Rightarrow> ('s, 'd) SyncHTTPHandlers" where
  "NewSyncHTTPHandlers pairs agentToken = \<lparr>hh_pairs = pairs, hh_nodeStore = None, hh_agentToken = agentToken\<rparr>"

definition SetNodeStore :: "pgdb NodeStore \<Rightarrow> ('s, 'd) SyncHTTPHandlers \<Rightarrow> ('s, 'd) SyncHTTPHandlers" where
  "SetNodeStore ns h = h\<lparr>hh_nodeStore := Some ns\<rparr>"

record deviceView =
  dv_ID :: string
  dv_Type :: string
  dv_Root :: string
  dv_Endpoint :: string
  dv_Online :: bool
  dv_LastSeen :: "gotime option"

datatype answer =
    ErrorText string
  | Devices "deviceView list"
  | DeviceDirs string string "string list"
  | Message string string
  | PairMessage string int
  | PairCreated Pair
  | PairList "Pair list"
  | AgentRegistered string string
  | Beat string gotime

type_synonym reply = "nat \<times> answer"

definition error_reply :: "string \<Rightarrow> nat \<Rightarrow> reply" where
  "error_reply msg status = (status, ErrorText (msg @ [CHR 0x0A]))"

definition heartbeatTimeout :: int where
  "heartbeatTimeout = 30 * 1000000000"

definition agentOfflineAfter :: int where
  "agentOfflineAfter = 2 * heartbeatTimeout"

section \<open>Devices\<close>

definition register_saved ::
  "'d world transport \<Rightarrow> ('s, 'd) SyncHTTPHandlers \<Rightarrow> NodeInfo \<Rightarrow> ('s, 'd) srv \<Rightarrow> ('s, 'd) srv" where
  "register_saved tr h info st =
     (if ni_Type info \<noteq> ''remote_simple'' then st
      else let (now, w) = world_Now (sy_world (fst st)) in
        ((fst st)\<lparr>sy_world := w,
           sy_devices := rg_Register now info
             (Some (remote_node tr (NewHTTPAgentNode (ni_ID info) (ni_Endpoint info) (hh_agentToken h)))) (sy_devices (fst st))\<rparr>,
         snd st))"

definition RestoreDevices ::
  "'d world transport \<Rightarrow> ('s, 'd) SyncHTTPHandlers \<Rightarrow> ('s, 'd) srv \<Rightarrow> (gerr + unit) \<times> ('s, 'd) srv" where
  "RestoreDevices tr h st =
     (case hh_nodeStore h of
        None \<Rightarrow> (Inr (), st)
      | Some ns \<Rightarrow>
          (case ns_LoadNodes ns (sy_pairs (fst st)) of
             Inl err \<Rightarrow> (Inl (Wrapf ''failed to load devices: '' err), st)
           | Inr infos \<Rightarrow> (Inr (), fold (register_saved tr h) infos st)))"

text \<open>One \<open>time.Now\<close> stands for the readings of \<open>time.Since\<close>.\<close>
definition agent_view :: "gotime \<Rightarrow> NodeInfo \<Rightarrow> deviceView" where
  "agent_view now info =
     \<lparr>dv_ID = ni_ID info, dv_Type = ''agent'', dv_Root = ni_Root info, dv_Endpoint = ni_Endpoint info,
      dv_Online = (now - ni_LastSeen info < agentOfflineAfter), dv_LastSeen = Some (ni_LastSeen info)\<rparr>"

definition ListDevices :: "('s, 'd) SyncHTTPHandlers \<Rightarrow> ('s, 'd) srv \<Rightarrow> reply \<times> ('s, 'd) srv" where
  "ListDevices h st =
     (let root = pm_localRoot (hh_pairs h); (now, w) = world_Now (sy_world (fst st));
          local = (if root \<noteq> [] then [\<lparr>dv_ID = LocalDevice, dv_Type = ''local'', dv_Root = root, dv_Endpoint = [],
                                       dv_Online = True, dv_LastSeen = None\<rparr>] else [])
      in ((200, Devices (local @ map (agent_view now) (rg_List (sy_devices (fst st))))),
          ((fst st)\<lparr>sy_world := w\<rparr>, snd st)))"

definition ListDeviceDirs ::
  "'d world transport \<Rightarrow> ('s, 'd) SyncHTTPHandlers \<Rightarrow> string \<Rightarrow> string \<Rightarrow> ('s, 'd) srv \<Rightarrow> reply \<times> ('s, 'd) srv" where
  "ListDeviceDirs tr h device path st =
     (case pm_ListDirs tr (hh_pairs h) device path (fst st) of
        (Inl err, s) \<Rightarrow> (error_reply (err_text err) (if is_not_exist err then 404 else 502), (s, snd st))
      | (Inr dirs, s) \<Rightarrow> ((200, DeviceDirs device path dirs), (s, snd st)))"

text \<open>\<open>%v\<close> of a list of numbers.\<close>
definition ints_text :: "int list \<Rightarrow> string" where
  "ints_text is = ''['' @ join_with (CHR '' '') (map int_text is) @ '']''"

definition delete_saved ::
  "('s, 'd) SyncHTTPHandlers \<Rightarrow> string \<Rightarrow> pgdb \<Rightarrow> (gerr + unit) \<times> pgdb" where
  "delete_saved h nodeID db = (case hh_nodeStore h of None \<Rightarrow> (Inr (), db) | Some ns \<Rightarrow> ns_DeleteNode ns nodeID db)"

definition DeleteDevice :: "('s, 'd) SyncHTTPHandlers \<Rightarrow> string \<Rightarrow> ('s, 'd) srv \<Rightarrow> reply \<times> ('s, 'd) srv" where
  "DeleteDevice h nodeID st =
     (if rg_Info (sy_devices (fst st)) nodeID = None then (error_reply ''device not found'' 404, st)
      else case PairsUsingDevice (hh_pairs h) nodeID (fst st) of
          Inl err \<Rightarrow> (error_reply (err_text err) 500, st)
        | Inr used \<Rightarrow>
            if used \<noteq> [] then
              (error_reply (''device is used by pairs '' @ ints_text used @ '' '' @ [CHR 0xE2, CHR 0x80, CHR 0x94]
                 @ '' delete them first'') 409, st)
            else (case delete_saved h nodeID (sy_pairs (fst st)) of
                (Inl err, db) \<Rightarrow>
                  (error_reply (''failed to delete device: '' @ err_text err) 500, ((fst st)\<lparr>sy_pairs := db\<rparr>, snd st))
              | (Inr _, db) \<Rightarrow>
                  ((200, Message ''device deleted'' nodeID),
                   ((fst st)\<lparr>sy_pairs := db, sy_devices := rg_Unregister nodeID (sy_devices (fst st))\<rparr>, snd st))))"

section \<open>Pairs\<close>

text \<open>The user a side is created for: a Drive side gets the user of the request and may not name another.\<close>
definition own_side :: "string \<Rightarrow> PairSide \<Rightarrow> PairSide option" where
  "own_side userID side =
     (if ps_Drive side = [] then Some (side\<lparr>ps_UserID := []\<rparr>)
      else if ps_UserID side \<noteq> [] \<and> ps_UserID side \<noteq> userID then None
      else Some (side\<lparr>ps_UserID := userID\<rparr>))"

definition new_pair :: "string \<Rightarrow> PairSide \<Rightarrow> PairSide \<Rightarrow> Pair" where
  "new_pair name a b =
     \<lparr>pr_ID = 0, pr_Name = name, pr_A = a, pr_B = b, pr_CreatedAt = 0, pr_LastSyncAt = None, pr_LastStatus = [],
      pr_LastError = [], pr_LastTransferred = 0, pr_LastDeleted = 0, pr_LastConflicts = 0\<rparr>"

definition CreatePair ::
  "'d world transport \<Rightarrow> ('s, 'd) SyncHTTPHandlers \<Rightarrow> gerr + string \<times> PairSide \<times> PairSide \<Rightarrow> string option \<Rightarrow>
   ('s, 'd) srv \<Rightarrow> reply \<times> ('s, 'd) srv" where
  "CreatePair tr h body user st =
     (case body of
        Inl err \<Rightarrow> (error_reply (''invalid request body: '' @ err_text err) 400, st)
      | Inr (name, a, b) \<Rightarrow>
          (case user of
             None \<Rightarrow> (error_reply ''Unauthorized'' 401, st)
           | Some userID \<Rightarrow>
               (case (own_side userID a, own_side userID b) of
                  (Some a', Some b') \<Rightarrow>
                    (case pm_Create tr (hh_pairs h) (new_pair name a' b') (fst st) of
                       (Inl err, s) \<Rightarrow> (error_reply (err_text err) 400, (s, snd st))
                     | (Inr p, s) \<Rightarrow> ((201, PairCreated p), (s, snd st)))
                | _ \<Rightarrow> (error_reply ''user_id does not match authenticated user'' 403, st))))"

definition ListPairs :: "('s, 'd) SyncHTTPHandlers \<Rightarrow> ('s, 'd) srv \<Rightarrow> reply \<times> ('s, 'd) srv" where
  "ListPairs h st =
     (case pm_List (hh_pairs h) (fst st) of
        Inl err \<Rightarrow> (error_reply (err_text err) 500, st)
      | Inr pairs \<Rightarrow> ((200, PairList pairs), st))"

definition pair_error :: "gerr \<Rightarrow> reply" where
  "pair_error err = error_reply (err_text err) (if is_pair_not_found err then 404 else 500)"

definition DeletePair :: "('s, 'd) SyncHTTPHandlers \<Rightarrow> string \<Rightarrow> ('s, 'd) srv \<Rightarrow> reply \<times> ('s, 'd) srv" where
  "DeletePair h idText st =
     (case ParseInt idText of
        None \<Rightarrow> (error_reply ''invalid pair id'' 400, st)
      | Some i \<Rightarrow>
          (case pm_Delete (hh_pairs h) i (fst st) of
             (Inl err, s) \<Rightarrow> (pair_error err, (s, snd st))
           | (Inr _, s) \<Rightarrow> ((200, PairMessage ''pair deleted'' i), (s, snd st))))"

definition RunPair :: "('s, 'd) SyncHTTPHandlers \<Rightarrow> string \<Rightarrow> ('s, 'd) srv \<Rightarrow> reply \<times> ('s, 'd) srv" where
  "RunPair h idText st =
     (case ParseInt idText of
        None \<Rightarrow> (error_reply ''invalid pair id'' 400, st)
      | Some i \<Rightarrow>
          (case pm_Get (hh_pairs h) i (fst st) of
             Inl err \<Rightarrow> (pair_error err, st)
           | Inr pair \<Rightarrow>
               ((202, PairMessage ''sync started, see GET /sync/pairs for the result'' i),
                (fst st, snd st @ [RunPairs [pair]]))))"

definition RunAllPairs :: "('s, 'd) srv \<Rightarrow> reply \<times> ('s, 'd) srv" where
  "RunAllPairs st = ((202, Message ''sync of all pairs started'' []), (fst st, snd st @ [RunAllJob]))"

section \<open>Agents\<close>

definition AgentAuth ::
  "('s, 'd) SyncHTTPHandlers \<Rightarrow> (('s, 'd) srv \<Rightarrow> reply \<times> ('s, 'd) srv) \<Rightarrow> string \<Rightarrow> ('s, 'd) srv \<Rightarrow> reply \<times> ('s, 'd) srv" where
  "AgentAuth h nxt token st =
     (if hh_agentToken h = [] then (error_reply ''agents are disabled: sync.agentToken is not configured'' 503, st)
      else if \<not> ValidAgentToken (hh_agentToken h) token then (error_reply ''invalid agent token'' 401, st)
      else nxt st)"

definition agentAutoDetectHost :: string where
  "agentAutoDetectHost = ''AUTO_DETECT''"

text \<open>The functions of \<open>net/url\<close> and \<open>net\<close> the resolution uses.\<close>
record 'u net_pkg =
  url_Parse :: "string \<Rightarrow> 'u option"
  url_Hostname :: "'u \<Rightarrow> string"
  url_Port :: "'u \<Rightarrow> string"
  url_with_Host :: "string \<Rightarrow> 'u \<Rightarrow> 'u"
  url_String :: "'u \<Rightarrow> string"
  net_SplitHostPort :: "string \<Rightarrow> (string \<times> string) option"
  net_JoinHostPort :: "string \<Rightarrow> string \<Rightarrow> string"

definition resolveAgentEndpoint :: "'u net_pkg \<Rightarrow> string \<Rightarrow> string \<Rightarrow> string" where
  "resolveAgentEndpoint net endpoint remoteAddr =
     (case url_Parse net endpoint of
        None \<Rightarrow> endpoint
      | Some u \<Rightarrow>
          if url_Hostname net u \<noteq> agentAutoDetectHost then endpoint
          else (case net_SplitHostPort net remoteAddr of
                  None \<Rightarrow> endpoint
                | Some (host, port) \<Rightarrow>
                    url_String net (url_with_Host net (net_JoinHostPort net host (url_Port net u)) u)))"

record register_request =
  rr_ID :: string
  rr_Port :: string
  rr_Endpoint :: string
  rr_Root :: string

definition save_device :: "('s, 'd) SyncHTTPHandlers \<Rightarrow> NodeInfo \<Rightarrow> pgdb \<Rightarrow> (gerr + unit) \<times> pgdb" where
  "save_device h info db = (case hh_nodeStore h of None \<Rightarrow> (Inr (), db) | Some ns \<Rightarrow> ns_SaveNode ns info db)"

definition RegisterAgent ::
  "'u net_pkg \<Rightarrow> 'd world transport \<Rightarrow> ('s, 'd) SyncHTTPHandlers \<Rightarrow> gerr + register_request \<Rightarrow> string \<Rightarrow>
   ('s, 'd) srv \<Rightarrow> reply \<times> ('s, 'd) srv" where
  "RegisterAgent net tr h body remoteAddr st =
     (case body of
        Inl err \<Rightarrow> (error_reply ''id and port (or endpoint) are required'' 400, st)
      | Inr req \<Rightarrow>
          if rr_ID req = [] \<or> (rr_Port req = [] \<and> rr_Endpoint req = []) then
            (error_reply ''id and port (or endpoint) are required'' 400, st)
          else if rr_ID req = LocalDevice then
            (error_reply (''device id '' @ [CHR 0x22] @ ''local'' @ [CHR 0x22] @ '' is reserved for this computer'') 409, st)
          else
            let endpoint0 = (if rr_Endpoint req = [] then ''http://'' @ agentAutoDetectHost @ '':'' @ rr_Port req
                             else rr_Endpoint req);
                endpoint = resolveAgentEndpoint net endpoint0 remoteAddr;
                info = \<lparr>ni_ID = rr_ID req, ni_Type = ''remote_simple'', ni_Endpoint = endpoint, ni_AccountID = [],
                        ni_UserID = [], ni_FolderID = [], ni_Root = rr_Root req, ni_LastSeen = 0, ni_Online = False\<rparr>
            in (case save_device h info (sy_pairs (fst st)) of
                  (Inl err, db) \<Rightarrow>
                    (error_reply (''failed to save device: '' @ err_text err) 500, ((fst st)\<lparr>sy_pairs := db\<rparr>, snd st))
                | (Inr _, db) \<Rightarrow>
                    ((200, AgentRegistered (rr_ID req) endpoint),
                     register_saved tr h info ((fst st)\<lparr>sy_pairs := db\<rparr>, snd st))))"

definition AgentHeartbeat ::
  "('s, 'd) SyncHTTPHandlers \<Rightarrow> gerr + string \<Rightarrow> ('s, 'd) srv \<Rightarrow> reply \<times> ('s, 'd) srv" where
  "AgentHeartbeat h body st =
     (case body of
        Inl err \<Rightarrow> (error_reply ''node_id required'' 400, st)
      | Inr nodeID \<Rightarrow>
          if nodeID = [] then (error_reply ''node_id required'' 400, st)
          else if rg_Info (sy_devices (fst st)) nodeID = None then (error_reply ''unknown device'' 404, st)
          else let (now, w) = world_Now (sy_world (fst st)) in
            ((200, Beat nodeID now),
             ((fst st)\<lparr>sy_world := w, sy_devices := rg_Heartbeat now nodeID (sy_devices (fst st))\<rparr>, snd st)))"

section \<open>Background runs\<close>

text \<open>The next piece of the \<open>k\<close>-th background job: a \<open>RunAll\<close> reads its list, a list loses its first pair.\<close>
definition job_step ::
  "hash_fun \<Rightarrow> 'd world transport \<Rightarrow> ('s, 'd) SyncHTTPHandlers \<Rightarrow> nat \<Rightarrow> ('s, 'd) srv \<Rightarrow> ('s, 'd) srv" where
  "job_step sha tr h k st =
     (if k \<ge> length (snd st) then st
      else case snd st ! k of
          RunAllJob \<Rightarrow>
            (case pm_List (hh_pairs h) (fst st) of
               Inl err \<Rightarrow> (fst st, (snd st)[k := RunPairs []])
             | Inr pairs \<Rightarrow> (fst st, (snd st)[k := RunPairs pairs]))
        | RunPairs [] \<Rightarrow> st
        | RunPairs (p # ps) \<Rightarrow> (snd (pm_Run sha tr (hh_pairs h) p (fst st)), (snd st)[k := RunPairs ps]))"

end
