(* ===== verification/Server_Properties.thy ===== *)
theory Server_Properties
  imports Sync_Handlers Storage_Laws
begin

text \<open>
  The server as a state machine: requests, pieces of background runs, ticks of the scheduler, outages of the
  database and changes of the world, in any order. Shown for the configuration \<^verbatim>\<open>cmd/oauth-service\<close> sets
  up: all stores on PostgreSQL, Drive nodes from \<open>driveNodeFactory\<close>.
\<close>

section \<open>The names of a pair's states\<close>

lemma int_text_chars: "set (int_text i) \<subseteq> insert (CHR ''-'') (set dec_digits)"
  using nat_text_digits by (auto simp: int_text_def)

lemma append_sep_inj: "x \<notin> set as \<Longrightarrow> x \<notin> set bs \<Longrightarrow> as @ x # cs = bs @ x # ds \<Longrightarrow> as = bs \<and> cs = ds"
proof (induction as arbitrary: bs)
  case Nil
  then show ?case by (cases bs) auto
next
  case (Cons a as)
  then show ?case by (cases bs) auto
qed

lemma sideNodeID_inj: "sideNodeID i k = sideNodeID j l \<longleftrightarrow> i = j \<and> k = l"
proof -
  have no_colon: "CHR '':'' \<notin> set (int_text n)" for n
    using int_text_chars [of n] by (auto simp: dec_digits_def)
  show ?thesis
    using append_sep_inj [OF no_colon no_colon, of i k j l] int_text_inj [of i j] by (auto simp: sideNodeID_def)
qed

section \<open>The configuration\<close>

text \<open>The parameters of the deployment: accepted texts, hash, connection, Drive client, temporary names and
  bounds.\<close>
record 'd deployment =
  dp_ok :: "string \<Rightarrow> bool"
  dp_sha :: hash_fun
  dp_tr :: "'d world transport"
  dp_drive :: "'d world DriveAdapter"
  dp_sfx :: "fsys \<Rightarrow> string"
  dp_pages :: nat
  dp_depth :: nat
  dp_localRoot :: string
  dp_token :: string

definition the_engine :: "'d deployment \<Rightarrow> (pgdb, 'd world) SyncEngine" where
  "the_engine c = NewSyncEngine (pg_store (dp_ok c)) KeepNewest world_Now"

definition the_pairs :: "'d deployment \<Rightarrow> (pgdb, pgdb, 'd) PairManager" where
  "the_pairs c = SetDriveFactory (driveNodeFactory (dp_pages c) (dp_depth c) (dp_sfx c) (dp_drive c) ''/tmp'')
     (NewPairManager (the_engine c) (pg_pair_store (dp_ok c)) (dp_localRoot c) (dp_token c))"

definition the_handlers :: "'d deployment \<Rightarrow> (pgdb, 'd) SyncHTTPHandlers" where
  "the_handlers c = SetNodeStore (pg_node_store (dp_ok c)) (NewSyncHTTPHandlers (the_pairs c) (dp_token c))"

lemma the_pairs_fields [simp]:
  "pm_engine (the_pairs c) = the_engine c" "pm_pairs (the_pairs c) = pg_pair_store (dp_ok c)"
  "pm_localRoot (the_pairs c) = dp_localRoot c" "pm_agentToken (the_pairs c) = dp_token c"
  "pm_drive (the_pairs c) = Some (driveNodeFactory (dp_pages c) (dp_depth c) (dp_sfx c) (dp_drive c) ''/tmp'')"
  by (simp_all add: the_pairs_def SetDriveFactory_def NewPairManager_def)

lemma the_handlers_fields [simp]:
  "hh_pairs (the_handlers c) = the_pairs c" "hh_nodeStore (the_handlers c) = Some (pg_node_store (dp_ok c))"
  "hh_agentToken (the_handlers c) = dp_token c"
  by (simp_all add: the_handlers_def SetNodeStore_def NewSyncHTTPHandlers_def)

section \<open>Steps\<close>

datatype request =
    GetDevices
  | GetDeviceDirs string string
  | DeleteDeviceReq string
  | GetPairs
  | PostPair "gerr + string \<times> PairSide \<times> PairSide" "string option"
  | DeletePairReq string
  | PostRunPair string
  | PostRunAll
  | PostRegister string "gerr + register_request" string
  | PostHeartbeat string "gerr + string"

fun serve :: "'u net_pkg \<Rightarrow> 'd deployment \<Rightarrow> request \<Rightarrow> (pgdb, 'd) srv \<Rightarrow> reply \<times> (pgdb, 'd) srv" where
  "serve net c GetDevices st = ListDevices (the_handlers c) st"
| "serve net c (GetDeviceDirs device path) st = ListDeviceDirs (dp_tr c) (the_handlers c) device path st"
| "serve net c (DeleteDeviceReq nodeID) st = DeleteDevice (the_handlers c) nodeID st"
| "serve net c GetPairs st = ListPairs (the_handlers c) st"
| "serve net c (PostPair body user) st = CreatePair (dp_tr c) (the_handlers c) body user st"
| "serve net c (DeletePairReq i) st = DeletePair (the_handlers c) i st"
| "serve net c (PostRunPair i) st = RunPair (the_handlers c) i st"
| "serve net c PostRunAll st = RunAllPairs st"
| "serve net c (PostRegister token body addr) st =
     AgentAuth (the_handlers c) (RegisterAgent net (dp_tr c) (the_handlers c) body addr) token st"
| "serve net c (PostHeartbeat token body) st =
     AgentAuth (the_handlers c) (AgentHeartbeat (the_handlers c) body) token st"

inductive server_step :: "'u net_pkg \<Rightarrow> 'd deployment \<Rightarrow> (pgdb, 'd) srv \<Rightarrow> (pgdb, 'd) srv \<Rightarrow> bool" for net c where
  request: "serve net c r st = (rep, st') \<Longrightarrow> server_step net c st st'"
| background: "server_step net c st (job_step (dp_sha c) (dp_tr c) (the_handlers c) k st)"
| tick: "server_step net c st (fst st, snd st @ [RunAllJob])"
| pairs_db: "server_step net c st ((fst st)\<lparr>sy_pairs := (sy_pairs (fst st))\<lparr>pg_up := b, pg_now := t\<rparr>\<rparr>, snd st)"
| states_db: "server_step net c st ((fst st)\<lparr>sy_states := (sy_states (fst st))\<lparr>pg_up := b\<rparr>\<rparr>, snd st)"
| outside: "server_step net c st ((fst st)\<lparr>sy_world := w\<rparr>, snd st)"

text \<open>A fresh installation.\<close>
definition initial :: "(pgdb, 'd) srv \<Rightarrow> bool" where
  "initial st \<longleftrightarrow> sy_devices (fst st) = NewNodeRegistry \<and> pg_pairs (sy_pairs (fst st)) = fmempty \<and>
     pg_states (sy_states (fst st)) = fmempty \<and> snd st = []"

inductive reachable :: "'u net_pkg \<Rightarrow> 'd deployment \<Rightarrow> (pgdb, 'd) srv \<Rightarrow> bool" for net c where
  start: "initial st \<Longrightarrow> reachable net c st"
| step: "reachable net c st \<Longrightarrow> server_step net c st st' \<Longrightarrow> reachable net c st'"

section \<open>The invariant\<close>

text \<open>Every recorded file state belongs to a side of a pair whose ID has been given.\<close>
definition owned :: "int \<Rightarrow> pgdb \<Rightarrow> bool" where
  "owned bound db \<longleftrightarrow> (\<forall>n p. (n, p) |\<in>| fmdom (pg_states db) \<longrightarrow> (\<exists>i k. i < bound \<and> n = sideNodeID i k))"

fun job_pairs :: "job \<Rightarrow> Pair list" where
  "job_pairs (RunPairs ps) = ps"
| "job_pairs RunAllJob = []"

definition server_inv :: "(pgdb, 'd) srv \<Rightarrow> bool" where
  "server_inv st \<longleftrightarrow>
     pairs_wf (sy_pairs (fst st)) \<and> owned (pg_seq (sy_pairs (fst st))) (sy_states (fst st)) \<and>
     (\<forall>j \<in> set (snd st). \<forall>p \<in> set (job_pairs j). pr_ID p < pg_seq (sy_pairs (fst st))) \<and>
     rg_Info (sy_devices (fst st)) LocalDevice = None"

lemma pg_store_ops [simp]:
  "st_Get (pg_store ok) = pg_Get ok" "st_Set (pg_store ok) = pg_Set ok" "st_All (pg_store ok) = pg_All ok"
  "st_DeleteNode (pg_store ok) = pg_DeleteNode ok"
  by (simp_all add: pg_store_def)

lemma the_engine_fields [simp]:
  "e_store (the_engine c) = pg_store (dp_ok c)" "e_now (the_engine c) = world_Now"
  by (simp_all add: the_engine_def NewSyncEngine_def)

lemma owned_Set: "owned bound db \<Longrightarrow> \<exists>i k. i < bound \<and> n = sideNodeID i k \<Longrightarrow> owned bound (pg_Set ok db n p x)"
  by (auto simp: owned_def pg_Set_def)

lemma owned_Delete: "owned bound db \<Longrightarrow> owned bound (pg_DeleteNode ok db n)"
  by (auto simp: owned_def pg_DeleteNode_def)

lemma owned_kept:
  assumes "\<exists>i k. i < bound \<and> ID a = sideNodeID i k" "\<exists>i k. i < bound \<and> ID b = sideNodeID i k"
  shows "kept_in_store (the_engine c) a b (owned bound)"
  using assms by unfold_locales (auto simp: updateState_def markDeleted_def Let_def owned_Set split: prod.splits)

lemma pm_node_ID: "pm_node sha tr (the_pairs c) devs i k side = Inr n \<Longrightarrow> ID n = sideNodeID i k"
  by (auto simp: pm_node_def Let_def driveNodeFactory_def complex_node_def NewComplexStorage_def driveInfo_def
      local_node_def NewSimpleStorage_def remote_node_def NewHTTPAgentFolder_def split: if_splits sum.splits option.splits)


lemma pm_run_frame:
  assumes "pm_run sha tr (the_pairs c) p st = (res, st')" "owned bound (sy_states st)" "pr_ID p < bound"
  shows "sy_pairs st' = sy_pairs st" "sy_devices st' = sy_devices st" "owned bound (sy_states st')"
proof -
  have sync: "owned bound s"
    if "pm_node sha tr (the_pairs c) (sy_devices st) (pr_ID p) ''a'' (pr_A p) = Inr a"
       "pm_node sha tr (the_pairs c) (sy_devices st) (pr_ID p) ''b'' (pr_B p) = Inr b"
       "Sync sha (the_engine c) a b (sy_states st, sy_world st) = (r, s, w)" for a b r s w
    using kept_in_store.kept_Sync [OF owned_kept, of bound a b "(sy_states st, sy_world st)" sha c]
      pm_node_ID [OF that(1)] pm_node_ID [OF that(2)] that(3) assms(2,3) by auto
  show "sy_pairs st' = sy_pairs st" "sy_devices st' = sy_devices st"
    using assms(1) by (auto simp: pm_run_def split: sum.splits prod.splits)
  show "owned bound (sy_states st')"
    using assms(1,2) by (auto simp: pm_run_def sync split: sum.splits prod.splits)
qed

lemma SavePairResult_seq: "pg_seq (snd (pg_SavePairResult ok i t status msg r db)) = pg_seq db"
  by (simp add: pg_SavePairResult_def Let_def split: option.splits prod.splits)

lemma pm_Run_frame:
  assumes "pm_Run sha tr (the_pairs c) p st = (res, st')" "owned bound (sy_states st)" "pr_ID p < bound"
    "pairs_wf (sy_pairs st)"
  shows "sy_devices st' = sy_devices st" "owned bound (sy_states st')" "pairs_wf (sy_pairs st')"
    "pg_seq (sy_pairs st') = pg_seq (sy_pairs st)"
proof -
  obtain r st1 where run: "pm_run sha tr (the_pairs c) p st = (r, st1)" by fastforce
  note kept = pm_run_frame [OF run assms(2,3)]
  obtain status msg now w where sm: "run_status r = (status, msg)" "world_Now (sy_world st1) = (now, w)" by fastforce
  obtain res' db where save: "pg_SavePairResult (dp_ok c) (pr_ID p) now status msg (result_of r) (sy_pairs st) = (res', db)"
    by fastforce
  have st': "st' = st1\<lparr>sy_world := w, sy_pairs := db\<rparr>"
    using assms(1) run sm save kept(1) by (simp add: pm_Run_def pg_pair_store_def)
  have "pairs_wf db" using pg_pair.save [OF assms(4), of "dp_ok c"] save by (simp add: pg_pair_store_def)
  then show "sy_devices st' = sy_devices st" "owned bound (sy_states st')" "pairs_wf (sy_pairs st')"
    "pg_seq (sy_pairs st') = pg_seq (sy_pairs st)"
    using kept save SavePairResult_seq [of "dp_ok c" "pr_ID p" now status msg "result_of r" "sy_pairs st"]
    by (simp_all add: st')
qed

lemma validateSide_frame:
  assumes "validateSide tr m side st = (res, st')"
  shows "sy_pairs st' = sy_pairs st" "sy_devices st' = sy_devices st" "sy_states st' = sy_states st"
  using assms
  by (auto simp: validateSide_def on_world_def split: if_splits option.splits sum.splits prod.splits)

lemma owned_mono: "owned b db \<Longrightarrow> b \<le> b' \<Longrightarrow> owned b' db"
  unfolding owned_def by (meson order_less_le_trans)

lemma pm_Create_cases:
  assumes "pm_Create tr m p st = (res, st')"
  obtains (refused) err where "res = Inl err" "sy_pairs st' = sy_pairs st" "sy_devices st' = sy_devices st"
      "sy_states st' = sy_states st"
  | (tried) st1 st2 a b db where "validateSide tr m (pr_A p) st = (Inr a, st1)"
      "validateSide tr m (pr_B p) st1 = (Inr b, st2)" "\<not> overlaps a b"
      "st_CreatePair (pm_pairs m) (p\<lparr>pr_A := a, pr_B := b, pr_LastStatus := ''pending''\<rparr>) (sy_pairs st) = (res, db)"
      "sy_pairs st' = db" "sy_devices st' = sy_devices st" "sy_states st' = sy_states st"
proof -
  obtain ra st1 where a: "validateSide tr m (pr_A p) st = (ra, st1)" by fastforce
  obtain rb st2 where b: "validateSide tr m (pr_B p) st1 = (rb, st2)" by fastforce
  note frame = validateSide_frame [OF a] validateSide_frame [OF b]
  show thesis
    using assms a b frame refused tried
    by (cases ra; cases rb) (auto simp: pm_Create_def split: if_splits prod.splits)
qed

lemma pg_CreatePair_seq:
  "pg_CreatePair ok q db = (r, db') \<Longrightarrow> pg_seq db \<le> pg_seq db' \<and> (\<forall>q'. r = Inr q' \<longrightarrow> pr_ID q' = pg_seq db)"
  by (auto simp: pg_CreatePair_def Let_def split: if_splits)

lemma pm_Create_frame:
  assumes "pm_Create tr (the_pairs c) p st = (res, st')" "pairs_wf (sy_pairs st)"
  shows "sy_devices st' = sy_devices st" "sy_states st' = sy_states st" "pairs_wf (sy_pairs st')"
    "pg_seq (sy_pairs st) \<le> pg_seq (sy_pairs st')" "\<And>q. res = Inr q \<Longrightarrow> pr_ID q = pg_seq (sy_pairs st)"
  by (rule pm_Create_cases [OF assms(1)];
      use assms(2) pg_CreatePair_law pg_CreatePair_seq in \<open>fastforce simp: pg_pair_store_def\<close>)+

section \<open>Every step keeps the invariant\<close>

lemma inv_world: "server_inv st \<Longrightarrow> server_inv ((fst st)\<lparr>sy_world := w\<rparr>, snd st)"
  by (simp add: server_inv_def)

lemma inv_register:
  "server_inv st \<Longrightarrow> ni_ID info \<noteq> LocalDevice \<Longrightarrow> server_inv (register_saved tr h info st)"
  by (auto simp: server_inv_def register_saved_def split: prod.splits)

lemma pg_node_store_frame:
  "ns_SaveNode (pg_node_store ok) info db = (r, db') \<Longrightarrow> pg_pairs db' = pg_pairs db \<and> pg_seq db' = pg_seq db"
  "ns_DeleteNode (pg_node_store ok) n db = (r, db') \<Longrightarrow> pg_pairs db' = pg_pairs db \<and> pg_seq db' = pg_seq db"
  by (auto simp: pg_node_store_def pg_SaveNode_def pg_DeleteNodeInfo_def split: if_splits)

lemma inv_nodes_table:
  "server_inv st \<Longrightarrow> pg_pairs db = pg_pairs (sy_pairs (fst st)) \<Longrightarrow> pg_seq db = pg_seq (sy_pairs (fst st)) \<Longrightarrow>
   server_inv ((fst st)\<lparr>sy_pairs := db\<rparr>, snd st)"
  by (simp add: server_inv_def pairs_wf_def)

lemma inv_unregister: "server_inv st \<Longrightarrow> server_inv ((fst st)\<lparr>sy_devices := rg_Unregister n (sy_devices (fst st))\<rparr>, snd st)"
  "server_inv st \<Longrightarrow> server_inv ((fst st)\<lparr>sy_devices := rg_Heartbeat t n (sy_devices (fst st))\<rparr>, snd st)"
  by (auto simp: server_inv_def)

lemma inv_jobs:
  "server_inv st \<Longrightarrow> (\<And>p. p \<in> set (job_pairs j) \<Longrightarrow> pr_ID p < pg_seq (sy_pairs (fst st))) \<Longrightarrow> server_inv (fst st, snd st @ [j])"
  by (auto simp: server_inv_def)

lemma inv_pairs:
  assumes "server_inv st" "sy_devices s = sy_devices (fst st)" "owned (pg_seq (sy_pairs s)) (sy_states s)" "pairs_wf (sy_pairs s)"
    "pg_seq (sy_pairs (fst st)) \<le> pg_seq (sy_pairs s)"
  shows "server_inv (s, snd st)"
  using assms unfolding server_inv_def by (auto intro: order_less_le_trans)

lemma inv_CreatePair:
  assumes "server_inv st"
  shows "server_inv (snd (CreatePair tr (the_handlers c) body user st))"
proof -
  have "server_inv (s, snd st)" if "pm_Create tr (the_pairs c) p (fst st) = (r, s)" for p r s
  proof -
    have "pairs_wf (sy_pairs (fst st))" using assms by (simp add: server_inv_def)
    note frame = pm_Create_frame [OF that this]
    show ?thesis
      using assms frame owned_mono [of _ "sy_states (fst st)"] by (intro inv_pairs [OF assms]) (auto simp: server_inv_def)
  qed
  then show ?thesis
    using assms by (auto simp: CreatePair_def split: sum.splits option.splits prod.splits)
qed

lemma inv_DeletePair:
  assumes "server_inv st"
  shows "server_inv (snd (DeletePair (the_handlers c) i st))"
proof -
  have wf: "pairs_wf (sy_pairs (fst st))" "owned (pg_seq (sy_pairs (fst st))) (sy_states (fst st))"
    using assms by (simp_all add: server_inv_def)
  have "server_inv (s, snd st)" if "pm_Delete (the_pairs c) k (fst st) = (r, s)" for k r s
  proof (rule inv_pairs [OF assms])
    show "sy_devices s = sy_devices (fst st)"
      using that by (auto simp: pm_Delete_def forget_def ForgetNode_def split: sum.splits prod.splits)
    have seq: "pg_seq (sy_pairs s) = pg_seq (sy_pairs (fst st))"
      using that by (auto simp: pm_Delete_def forget_def ForgetNode_def pg_pair_store_def pg_DeletePair_def
          split: sum.splits prod.splits if_splits)
    then show "pg_seq (sy_pairs (fst st)) \<le> pg_seq (sy_pairs s)" by simp
    show "pairs_wf (sy_pairs s)"
      using that wf(1) by (auto simp: pm_Delete_def forget_def ForgetNode_def pg_pair_store_def pg_DeletePair_def pairs_wf_def
          split: sum.splits prod.splits if_splits)
    show "owned (pg_seq (sy_pairs s)) (sy_states s)"
      unfolding seq using that wf(2)
      by (auto simp: pm_Delete_def forget_def ForgetNode_def owned_Delete split: sum.splits prod.splits)
  qed
  then show ?thesis using assms by (auto simp: DeletePair_def split: option.splits sum.splits prod.splits)
qed

lemma inv_RunPair:
  assumes "server_inv st"
  shows "server_inv (snd (RunPair (the_handlers c) i st))"
proof -
  have "pr_ID p < pg_seq (sy_pairs (fst st))" if "pm_Get (the_pairs c) k (fst st) = Inr p" for k p
    using that assms pg_pair.get [of "sy_pairs (fst st)" "dp_ok c" k p]
    by (auto simp: pm_Get_def server_inv_def pairs_wf_def)
  then show ?thesis
    using assms by (auto simp: RunPair_def intro!: inv_jobs split: option.splits sum.splits)
qed

lemma inv_job:
  assumes "server_inv st"
  shows "server_inv (job_step sha tr (the_handlers c) k st)"
proof (cases "k < length (snd st)")
  case True
  then have mem: "snd st ! k \<in> set (snd st)" by simp
  have upd: "server_inv (s, (snd st)[k := j])"
    if "server_inv (s, snd st)" "\<And>p. p \<in> set (job_pairs j) \<Longrightarrow> pr_ID p < pg_seq (sy_pairs s)" for s j
    using that set_update_subset_insert [of "snd st" k j] by (auto simp: server_inv_def)
  have same: "server_inv (fst st, snd st)" using assms by simp
  show ?thesis
  proof (cases "snd st ! k")
    case RunAllJob
    have "pr_ID p < pg_seq (sy_pairs (fst st))" if "pm_List (the_pairs c) (fst st) = Inr ps" "p \<in> set ps" for p ps
    proof -
      have wf: "pairs_wf (sy_pairs (fst st))" using assms by (simp add: server_inv_def)
      have "st_ListPairs (pg_pair_store (dp_ok c)) (sy_pairs (fst st)) = Inr ps"
        using that(1) by (simp add: pm_List_def)
      from iffD1 [OF pg_pair.listed_rows [OF wf this] that(2)]
      have "fmlookup (pg_pairs (sy_pairs (fst st))) (pr_ID p) = Some p" .
      with wf show ?thesis unfolding pairs_wf_def by blast
    qed
    then show ?thesis
      using RunAllJob True upd [OF same, of "RunPairs []"] upd [OF same, of "RunPairs _"]
      by (auto simp: job_step_def split: sum.splits)
  next
    case (RunPairs l)
    show ?thesis
    proof (cases l)
      case Nil
      with RunPairs True assms show ?thesis by (simp add: job_step_def)
    next
      case (Cons p ps)
      with RunPairs mem assms have ids: "\<And>q. q \<in> set (p # ps) \<Longrightarrow> pr_ID q < pg_seq (sy_pairs (fst st))"
        by (force simp: server_inv_def)
      obtain r s where run: "pm_Run sha tr (the_pairs c) p (fst st) = (r, s)" by fastforce
      have wf: "owned (pg_seq (sy_pairs (fst st))) (sy_states (fst st))" "pairs_wf (sy_pairs (fst st))"
        using assms by (simp_all add: server_inv_def)
      note frame = pm_Run_frame [OF run wf(1) ids wf(2), simplified]
      have "server_inv (s, snd st)" by (rule inv_pairs [OF assms]) (use frame in simp_all)
      then have "server_inv (s, (snd st)[k := RunPairs ps])" using ids frame by (intro upd) simp_all
      then show ?thesis using True RunPairs Cons run by (simp add: job_step_def)
    qed
  qed
qed (simp add: job_step_def assms)

lemma inv_serve:
  assumes "server_inv st"
  shows "server_inv (snd (serve net c r st))"
proof (cases r)
  case (GetDeviceDirs device path)
  then show ?thesis
    using inv_world [OF assms] assms
    by (auto simp: ListDeviceDirs_def pm_ListDirs_def on_world_def split: sum.splits prod.splits if_splits option.splits)
next
  case (DeleteDeviceReq n)
  have table: "server_inv ((fst st)\<lparr>sy_pairs := db\<rparr>, snd st)"
    if "delete_saved (the_handlers c) n (sy_pairs (fst st)) = (d, db)" for d db
    using that pg_node_store_frame(2) by (intro inv_nodes_table [OF assms]) (auto simp: delete_saved_def)
  have both: "server_inv ((fst st)\<lparr>sy_pairs := db, sy_devices := rg_Unregister n (sy_devices (fst st))\<rparr>, snd st)"
    if "delete_saved (the_handlers c) n (sy_pairs (fst st)) = (d, db)" for d db
    using inv_unregister(1) [OF table [OF that], of n] by simp
  show ?thesis
    unfolding DeleteDeviceReq using assms table both
    by (auto simp: DeleteDevice_def split: sum.splits prod.splits)
next
  case (PostRegister token body addr)
  have "server_inv ((fst st)\<lparr>sy_pairs := db\<rparr>, snd st)"
    if "save_device (the_handlers c) info (sy_pairs (fst st)) = (d, db)" for info d db
    using that pg_node_store_frame(1) by (intro inv_nodes_table [OF assms]) (auto simp: save_device_def)
  then show ?thesis
    unfolding PostRegister using assms
    by (auto simp: AgentAuth_def RegisterAgent_def Let_def intro!: inv_register split: sum.splits prod.splits)
next
  case (PostHeartbeat token body)
  have "server_inv ((fst st)\<lparr>sy_world := w, sy_devices := rg_Heartbeat t n (sy_devices (fst st))\<rparr>, snd st)" for w t n
    using inv_unregister(2) [OF inv_world [OF assms, of w], of t n] by simp
  then show ?thesis
    unfolding PostHeartbeat using assms
    by (auto simp: AgentAuth_def AgentHeartbeat_def Let_def split: sum.splits prod.splits)
qed (use assms in \<open>auto simp: ListDevices_def ListPairs_def RunAllPairs_def inv_world inv_CreatePair inv_DeletePair
      inv_RunPair Let_def split: prod.splits sum.splits intro!: inv_jobs\<close>)

lemma reachable_inv: "reachable net c st \<Longrightarrow> server_inv st"
proof (induction rule: reachable.induct)
  case (start st)
  then show ?case
    by (simp add: initial_def server_inv_def pairs_wf_def owned_def rg_Info_def NewNodeRegistry_def)
next
  case (step st st')
  from step.hyps(2) step.IH show ?case
  proof (cases rule: server_step.cases)
    case (request r rep)
    then show ?thesis using inv_serve [OF step.IH, of net c r] by simp
  next
    case (tick)
    then show ?thesis using inv_jobs [OF step.IH, of RunAllJob] by simp
  next
    case (pairs_db b t)
    then show ?thesis using inv_nodes_table [OF step.IH] by simp
  next
    case (states_db b)
    then show ?thesis using step.IH by (simp add: server_inv_def owned_def)
  qed (auto simp: inv_job inv_world)
qed

end
