(* ===== verification/Pair_Properties.thy ===== *)
theory Pair_Properties
  imports Server_Properties
begin

text \<open>
  What the API promises about pairs and devices, on the configuration of \<open>Server_Properties\<close>: fresh pairs,
  owners of Drive sides, deletion of pairs and devices, and folders that overlap. A small installation serves
  as the example.
\<close>

section \<open>An example\<close>

text \<open>An installation with one agent \<open>dev\<close> at \<open>http://x:9000\<close> serving \<open>/a\<close>, which holds the folders \<open>d\<close> and \<open>e\<close>;
  the folders \<open>l\<close> and \<open>l/m\<close> of the server itself are below \<open>/srv\<close>.\<close>
definition srv_fs :: fsys where
  "srv_fs = \<lparr>fs_cwd = [], fs_files = fmempty,
     fs_dirs = {|[], [''a''], [''a'', ''d''], [''a'', ''e''], [''srv''], [''srv'', ''l''], [''srv'', ''l'', ''m'']|},
     fs_denied = {||}, fs_bad = fmempty, fs_clock = 100\<rparr>"

definition srv_agent :: HTTPAgent where
  "srv_agent = NewHTTPAgent ''dev'' ''/a'' ''9000'' ''server:8081'' [] ''s''"

definition srv_Do :: "Request \<Rightarrow> ('d world, Response) io" where
  "srv_Do r w =
     (if rq_URL r = ''http://x:9000'' then
        (case agent_Handler (\<lambda>s. 0) srv_agent r srv_fs of (resp, fs') \<Rightarrow> (Inr resp, w))
      else (Inl (Errorf ''connect: connection refused''), w))"

definition srv_drive :: "'w DriveAdapter" where
  "srv_drive = \<lparr>da_token = \<lambda>u a w. (Inl (Errorf ''no token''), w), da_NewService = \<lambda>t. Inl (Errorf ''no service''),
     da_time = \<lparr>tf_Parse = \<lambda>s. None, tf_String = \<lambda>t. []\<rparr>\<rparr>"

definition srv_config :: "unit deployment" where
  "srv_config = \<lparr>dp_ok = \<lambda>t. True, dp_sha = \<lambda>s. 0, dp_tr = \<lparr>tr_Do = srv_Do, tr_bytes = \<lambda>b. []\<rparr>, dp_drive = srv_drive,
     dp_sfx = \<lambda>fs. ''1'', dp_pages = 1, dp_depth = 1, dp_localRoot = ''/srv'', dp_token = ''s''\<rparr>"

definition srv_start :: "(pgdb, unit) srv" where
  "srv_start = (\<lparr>sy_devices = NewNodeRegistry, sy_pairs = ex_db, sy_states = ex_db,
     sy_world = \<lparr>wd_local = srv_fs, wd_net = ()\<rparr>\<rparr>, [])"

text \<open>Parsing of an endpoint that has no host to detect.\<close>
definition srv_net :: "string net_pkg" where
  "srv_net = \<lparr>url_Parse = Some, url_Hostname = id, url_Port = (\<lambda>u. []), url_with_Host = (\<lambda>h u. h), url_String = id,
     net_SplitHostPort = (\<lambda>a. None), net_JoinHostPort = (\<lambda>h p. h)\<rparr>"

definition srv_registered :: "(pgdb, unit) srv" where
  "srv_registered = snd (serve srv_net srv_config (PostRegister ''s''
     (Inr \<lparr>rr_ID = ''dev'', rr_Port = ''9000'', rr_Endpoint = ''http://x:9000'', rr_Root = ''/a''\<rparr>) ''1.2.3.4:5'') srv_start)"

definition side :: "string \<Rightarrow> string \<Rightarrow> PairSide" where
  "side device path = \<lparr>ps_Device = device, ps_Path = path, ps_Drive = [], ps_FolderID = [], ps_UserID = []\<rparr>"

lemma srv_registered_reachable: "reachable srv_net srv_config srv_registered"
proof -
  have "reachable srv_net srv_config srv_start"
    by (intro start) (simp add: initial_def srv_start_def ex_db_def)
  then show ?thesis
    unfolding srv_registered_def by (rule step) (rule request, rule surjective_pairing)
qed

lemma srv_creates:
  "fst (CreatePair (dp_tr srv_config) (the_handlers srv_config)
     (Inr (''docs'', side ''local'' ''l'', side ''dev'' ''/a/d'')) (Some ''u'') srv_registered) =
   (201, PairCreated \<lparr>pr_ID = 1, pr_Name = ''docs'', pr_A = side ''local'' ''/srv/l'', pr_B = side ''dev'' ''d'',
     pr_CreatedAt = 5000, pr_LastSyncAt = None, pr_LastStatus = ''pending'', pr_LastError = [], pr_LastTransferred = 0,
     pr_LastDeleted = 0, pr_LastConflicts = 0\<rparr>)"
  by code_simp

section \<open>Pairs and devices\<close>

text \<open>C10: a new pair starts without history. In every state the server can reach, through any order of requests,
  background runs (also of pairs deleted meanwhile), database outages and restarts of the network, a pair that
  \<open>CreatePair\<close> creates has no recorded file states: no earlier run can make its first run delete a file.
  The sides of two pairs never share states, and no agent is ever registered as the built-in device.\<close>
theorem new_pair_starts_clean:
  assumes "reachable net c st"
    and "CreatePair (dp_tr c) (the_handlers c) body user st = ((201, PairCreated q), st')"
  shows "(sideNodeID (pr_ID q) k, path) |\<notin>| fmdom (pg_states (sy_states (fst st'))) \<and>
    rg_Info (sy_devices (fst st')) LocalDevice = None \<and>
    (sideNodeID i k = sideNodeID j l \<longleftrightarrow> i = j \<and> k = l)"
proof -
  have inv: "server_inv st" using reachable_inv [OF assms(1)] .
  then have wf: "pairs_wf (sy_pairs (fst st))" by (simp add: server_inv_def)
  obtain p s where create: "pm_Create (dp_tr c) (the_pairs c) p (fst st) = (Inr q, s)" "st' = (s, snd st)"
    using assms(2) by (auto simp: CreatePair_def error_reply_def split: sum.splits option.splits prod.splits)
  note frame = pm_Create_frame [OF create(1) wf]
  have "pr_ID q = pg_seq (sy_pairs (fst st))" using frame(5) by simp
  then have "(sideNodeID (pr_ID q) k, path) |\<notin>| fmdom (pg_states (sy_states s))"
    using inv frame(2) by (auto simp: server_inv_def owned_def sideNodeID_inj)
  with inv frame(1) create(2) show ?thesis by (simp add: server_inv_def sideNodeID_inj)
qed

theorem new_pair_starts_clean_witness:
  "(sideNodeID 1 ''a'', ''x'') |\<notin>| fmdom (pg_states (sy_states (fst (snd (CreatePair (dp_tr srv_config)
     (the_handlers srv_config) (Inr (''docs'', side ''local'' ''l'', side ''dev'' ''/a/d'')) (Some ''u'') srv_registered)))))"
proof -
  obtain st' where run: "CreatePair (dp_tr srv_config) (the_handlers srv_config)
      (Inr (''docs'', side ''local'' ''l'', side ''dev'' ''/a/d'')) (Some ''u'') srv_registered =
     ((201, PairCreated \<lparr>pr_ID = 1, pr_Name = ''docs'', pr_A = side ''local'' ''/srv/l'', pr_B = side ''dev'' ''d'',
       pr_CreatedAt = 5000, pr_LastSyncAt = None, pr_LastStatus = ''pending'', pr_LastError = [], pr_LastTransferred = 0,
       pr_LastDeleted = 0, pr_LastConflicts = 0\<rparr>), st')"
    using srv_creates by (metis prod.collapse)
  show ?thesis
    using new_pair_starts_clean [OF srv_registered_reachable run, of "''a''" "''x''" 1 2 "''b''"] by (simp add: run)
qed

lemma validateSide_owner:
  "validateSide tr m x st = (Inr y, st') \<Longrightarrow> ps_Drive y = ps_Drive x \<and> ps_UserID y = ps_UserID x"
  by (auto simp: validateSide_def split: if_splits option.splits sum.splits prod.splits)

lemma own_side_owner:
  "own_side u x = Some y \<Longrightarrow> (if ps_Drive y = [] then ps_UserID y = [] else ps_UserID y = u)"
  by (auto simp: own_side_def split: if_splits)

lemma Create_owner:
  assumes "pm_Create tr (the_pairs c) (new_pair name a b) st = (Inr q, st')"
  shows "ps_Drive (pr_A q) = ps_Drive a \<and> ps_UserID (pr_A q) = ps_UserID a \<and>
    ps_Drive (pr_B q) = ps_Drive b \<and> ps_UserID (pr_B q) = ps_UserID b"
  by (rule pm_Create_cases [OF assms])
    (auto simp: new_pair_def pg_pair_store_def pg_CreatePair_def Let_def dest: validateSide_owner split: if_splits)

text \<open>C19: who may attach a Drive. Without an authenticated user \<open>CreatePair\<close> answers 401 and changes nothing; a request
  that names another user's Drive on either side is refused with 403 and changes nothing; and in a pair that
  is created every Drive side is bound to the user of the request, every other side to nobody.\<close>
theorem CreatePair_own_drive:
  "case CreatePair tr (the_handlers c) (Inr (name, a, b)) user st of
     (rep, st') \<Rightarrow>
       (user = None \<longrightarrow> rep = error_reply ''Unauthorized'' 401 \<and> st' = st) \<and>
       (\<forall>u. user = Some u \<and> (\<exists>s \<in> {a, b}. ps_Drive s \<noteq> [] \<and> ps_UserID s \<noteq> [] \<and> ps_UserID s \<noteq> u) \<longrightarrow>
          fst rep = 403 \<and> st' = st) \<and>
       (\<forall>u q. user = Some u \<and> rep = (201, PairCreated q) \<longrightarrow>
          (\<forall>s \<in> {pr_A q, pr_B q}. ps_UserID s = (if ps_Drive s = [] then [] else u)))"
proof (cases user)
  case None
  then show ?thesis by (simp add: CreatePair_def)
next
  case (Some u)
  have own: "ps_UserID s = (if ps_Drive s = [] then [] else u)"
    if "own_side u a = Some a'" "own_side u b = Some b'" "s \<in> {pr_A q, pr_B q}"
      "pm_Create tr (the_pairs c) (new_pair name a' b') (fst st) = (Inr q, t)" for a' b' q t s
    using Create_owner [OF that(4)] own_side_owner [OF that(1)] own_side_owner [OF that(2)] that(3)
    by (auto split: if_splits)
  show ?thesis
  proof (cases "own_side u a = None \<or> own_side u b = None")
    case True
    then show ?thesis
      using Some by (auto simp: CreatePair_def error_reply_def split: option.splits)
  next
    case False
    then obtain a' b' where sides: "own_side u a = Some a'" "own_side u b = Some b'" by auto
    obtain r t where run: "pm_Create tr (the_pairs c) (new_pair name a' b') (fst st) = (r, t)" by fastforce
    have "\<not> (\<exists>s \<in> {a, b}. ps_Drive s \<noteq> [] \<and> ps_UserID s \<noteq> [] \<and> ps_UserID s \<noteq> u)"
      using sides by (auto simp: own_side_def split: if_splits)
    moreover have "\<forall>s \<in> {pr_A q, pr_B q}. ps_UserID s = (if ps_Drive s = [] then [] else u)" if "r = Inr q" for q
      using own [OF sides _ run [unfolded that]] by blast
    ultimately show ?thesis
      using Some sides run by (cases r) (simp_all add: CreatePair_def error_reply_def)
  qed
qed

theorem CreatePair_own_drive_witness:
  "fst (fst (CreatePair (dp_tr srv_config) (the_handlers srv_config)
     (Inr (''p'', side ''local'' ''l'', (side [] [])\<lparr>ps_Drive := ''x@y'', ps_UserID := ''other''\<rparr>)) (Some ''u'') srv_start)) = 403"
  using CreatePair_own_drive [where tr = "dp_tr srv_config" and c = srv_config and name = "''p''" and a = "side ''local'' ''l''"
      and b = "(side [] [])\<lparr>ps_Drive := ''x@y'', ps_UserID := ''other''\<rparr>" and user = "Some ''u''" and st = srv_start]
  by (auto simp: side_def split: prod.splits)

text \<open>deleting a pair forgets it. When \<open>Delete\<close> succeeds, the pair is gone from the table, all recorded states of its two
  sides are gone, and the rest is as before: the other pairs, the states of all other sides and the
  registered devices. When it fails, for an unknown ID or a database that is down, nothing has changed.\<close>
theorem Delete_forgets:
  assumes "pg_up (sy_states st)" and "\<And>t. dp_ok c t"
  shows "case pm_Delete (the_pairs c) i st of
      (Inl err, st') \<Rightarrow> st' = st \<and> (is_pair_not_found err \<longrightarrow> fmlookup (pg_pairs (sy_pairs st)) i = None)
    | (Inr _, st') \<Rightarrow>
        pg_pairs (sy_pairs st') = fmdrop i (pg_pairs (sy_pairs st)) \<and> sy_devices st' = sy_devices st \<and>
        (\<forall>n p. fmlookup (pg_states (sy_states st')) (n, p) =
           (if n \<in> {sideNodeID i ''a'', sideNodeID i ''b''} then None else fmlookup (pg_states (sy_states st)) (n, p)))"
  using assms
  by (auto simp: pm_Delete_def forget_def ForgetNode_def pg_pair_store_def pg_DeletePair_def pg_DeleteNode_def pg_error_def
      fmdom_notI fmdom_notD)

text \<open>a device that is in use stays. As long as some stored pair has a side on the device, \<open>DeleteDevice\<close> answers with
  an error and changes nothing; it answers 200 only when no pair uses the device, and then the device is
  forgotten by the registry and by the table, and every other device is kept.\<close>
theorem DeleteDevice_in_use:
  assumes "pairs_wf (sy_pairs (fst st))"
  shows "case DeleteDevice (the_handlers c) n st of (rep, st') \<Rightarrow>
      ((\<exists>i p. fmlookup (pg_pairs (sy_pairs (fst st))) i = Some p \<and> n \<in> {ps_Device (pr_A p), ps_Device (pr_B p)}) \<longrightarrow>
         fst rep \<noteq> 200 \<and> st' = st) \<and>
      (fst rep = 200 \<longrightarrow> (\<forall>m. rg_Info (sy_devices (fst st')) m = (if m = n then None else rg_Info (sy_devices (fst st)) m)) \<and>
         pg_nodes (sy_pairs (fst st')) = filter (\<lambda>j. ni_ID j \<noteq> n) (pg_nodes (sy_pairs (fst st))))"
proof -
  have used: "used \<noteq> []"
    if "fmlookup (pg_pairs (sy_pairs (fst st))) i = Some p" "n \<in> {ps_Device (pr_A p), ps_Device (pr_B p)}"
      "PairsUsingDevice (the_pairs c) n (fst st) = Inr used" for i p used
  proof -
    note row = that
    obtain l where l: "st_ListPairs (pg_pair_store (dp_ok c)) (sy_pairs (fst st)) = Inr l"
        "used = map pr_ID (filter (\<lambda>p. ps_Device (pr_A p) = n \<or> ps_Device (pr_B p) = n) l)"
      using row(3) by (auto simp: PairsUsingDevice_def split: sum.splits)
    have "pr_ID p = i" using assms row(1) unfolding pairs_wf_def by blast
    with row(1) have "p \<in> set l" using pg_pair.listed_rows [OF assms l(1), of p] by simp
    with row(2) l(2) show ?thesis by (auto simp: filter_empty_conv)
  qed
  show ?thesis
    using used
    by (auto simp: DeleteDevice_def delete_saved_def error_reply_def pg_node_store_def pg_DeleteNodeInfo_def
        split: sum.splits prod.splits if_splits)
qed

definition srv_paired :: "(pgdb, unit) srv" where
  "srv_paired = snd (serve srv_net srv_config
     (PostPair (Inr (''docs'', side ''local'' ''l'', side ''dev'' ''/a/d'')) (Some ''u'')) srv_registered)"

lemma srv_paired_reachable: "reachable srv_net srv_config srv_paired"
  unfolding srv_paired_def
  by (rule step [OF srv_registered_reachable]) (rule request, rule surjective_pairing)

theorem Delete_forgets_witness:
  "fst (pm_Delete (the_pairs srv_config) 1 (fst srv_paired)) = Inr () \<and>
   fmlookup (pg_pairs (sy_pairs (snd (pm_Delete (the_pairs srv_config) 1 (fst srv_paired))))) 1 = None"
proof -
  have ok: "\<And>t. dp_ok srv_config t" by (simp add: srv_config_def)
  have up: "pg_up (sy_states (fst srv_paired))" by code_simp
  have "fst (pm_Delete (the_pairs srv_config) 1 (fst srv_paired)) = Inr ()" by code_simp
  then show ?thesis
    using Delete_forgets [OF up ok, of 1] by (auto split: prod.splits)
qed

theorem DeleteDevice_in_use_witness:
  "fst (fst (DeleteDevice (the_handlers srv_config) ''dev'' srv_paired)) \<noteq> 200 \<and>
   snd (DeleteDevice (the_handlers srv_config) ''dev'' srv_paired) = srv_paired"
proof -
  have wf: "pairs_wf (sy_pairs (fst srv_paired))"
    using reachable_inv [OF srv_paired_reachable] by (simp add: server_inv_def)
  have "map_option (\<lambda>p. ps_Device (pr_B p)) (fmlookup (pg_pairs (sy_pairs (fst srv_paired))) 1) = Some ''dev''"
    by code_simp
  then have "\<exists>i p. fmlookup (pg_pairs (sy_pairs (fst srv_paired))) i = Some p \<and> ''dev'' \<in> {ps_Device (pr_A p), ps_Device (pr_B p)}"
    by (auto intro!: exI [of _ 1])
  then show ?thesis
    using DeleteDevice_in_use [OF wf, where c = srv_config and n = "''dev''"] by (auto split: prod.splits)
qed

text \<open>A pair of a folder and its own subfolder is accepted. On an agent the base folder, given as \<open>.\<close> or by its
  absolute path, is stored as the path \<open>.\<close>, which \<open>overlaps\<close> compares as a name: the pair of the base
  folder with its subfolder \<open>d\<close> passes the check that refuses the same pair on the server's own machine.\<close>
theorem nested_pair_accepted:
  "fst (fst (CreatePair (dp_tr srv_config) (the_handlers srv_config)
     (Inr (''n'', side ''dev'' ''/a'', side ''dev'' ''d'')) (Some ''u'') srv_registered)) = 201 \<and>
   fst (fst (CreatePair (dp_tr srv_config) (the_handlers srv_config)
     (Inr (''n'', side ''dev'' [], side ''dev'' ''d'')) (Some ''u'') srv_registered)) = 400 \<and>
   fst (fst (CreatePair (dp_tr srv_config) (the_handlers srv_config)
     (Inr (''n'', side ''local'' ''l'', side ''local'' ''l/m'')) (Some ''u'') srv_registered)) = 400"
  by code_simp

section \<open>Folders of the server's own machine do not overlap\<close>

text \<open>A cleaned absolute path is the text of its location.\<close>
lemma clean_abs_path:
  assumes "IsAbs d" "Clean d = d"
  shows "d = slash # join_with slash (locate cwd d)" "list_all plain (locate cwd d)"
proof -
  have loc: "locate cwd d = clean_parts True (split_on slash d)" using assms(1) by (simp add: locate_def clean_parts_def)
  show "d = slash # join_with slash (locate cwd d)" using assms by (simp add: loc Clean_def Let_def)
  show "list_all plain (locate cwd d)" unfolding loc by (rule clean_parts_rooted_plain)
qed

lemma hd_last_plain:
  assumes "list_all plain cs" "cs \<noteq> []"
  shows "join_with slash cs \<noteq> []" "hd (join_with slash cs) \<noteq> slash" "last (join_with slash cs) \<noteq> slash"
proof -
  have elem: "c \<noteq> [] \<and> slash \<notin> set c" if "c \<in> set cs" for c using assms(1) that by (auto simp: list_all_iff plain_def)
  show ne: "join_with slash cs \<noteq> []" using assms elem by (auto simp: join_with_empty_iff)
  obtain c r where "cs = c # r" using assms(2) by (cases cs) auto
  moreover have "hd c \<noteq> slash" if "c \<in> set cs" for c using elem [OF that] by (metis hd_in_set)
  ultimately show "hd (join_with slash cs) \<noteq> slash"
    using elem by (cases r) (auto simp: hd_append)
  obtain b where b: "cs = b @ [last cs]" "last cs \<in> set cs" using assms(2) by (metis append_butlast_last_id last_in_set)
  have "last (last cs) \<noteq> slash" using elem [OF b(2)] by (metis last_in_set)
  moreover have "last (join_with slash (b @ [last cs])) = last (last cs)"
    using elem [OF b(2)] by (cases "b = []") (simp_all add: join_with_snoc)
  ultimately show "last (join_with slash cs) \<noteq> slash" using b(1) by simp
qed

lemma dropWhile_hd: "xs = [] \<or> hd xs \<noteq> c \<Longrightarrow> dropWhile (\<lambda>x. x = c) xs = xs"
  by (cases xs) auto

lemma trim_abs:
  assumes "list_all plain cs"
  shows "trim_char slash (slash # join_with slash cs) = join_with slash cs"
proof (cases "cs = []")
  case True
  then show ?thesis by (simp add: trim_char_def)
next
  case False
  let ?s = "join_with slash cs"
  have "dropWhile (\<lambda>x. x = slash) (slash # ?s) = ?s"
    using hd_last_plain(2) [OF assms False] by (simp add: dropWhile_hd)
  moreover have "dropWhile (\<lambda>x. x = slash) (rev ?s) = rev ?s"
    using hd_last_plain(1,3) [OF assms False] by (simp add: dropWhile_hd hd_rev)
  ultimately show ?thesis by (simp add: trim_char_def)
qed

lemma prefix_join:
  assumes "list_all plain cs" "cs \<noteq> []" "list_all plain ds" "ds \<noteq> []"
  shows "HasPrefix (join_with slash cs @ ''/'') (join_with slash ds @ ''/'') \<longleftrightarrow> is_under ds cs"
proof
  assume "HasPrefix (join_with slash cs @ ''/'') (join_with slash ds @ ''/'')"
  then obtain r where "join_with slash cs @ slash # [] = join_with slash ds @ slash # r" by (auto simp: HasPrefix_append)
  then have "split_on slash (join_with slash cs @ slash # []) = split_on slash (join_with slash ds @ slash # r)" by simp
  then have eq: "cs @ [[]] = ds @ split_on slash r"
    using assms by (simp add: split_on_app split_join_plain)
  obtain es e where "split_on slash r = es @ [e]" by (metis rev_exhaust split_on_nonempty)
  with eq have "cs = ds @ es" by (metis append1_eq_conv append_assoc)
  then show "is_under ds cs" by simp
next
  assume "is_under ds cs"
  then obtain es where "cs = ds @ es" by (auto simp: is_under_iff)
  then show "HasPrefix (join_with slash cs @ ''/'') (join_with slash ds @ ''/'')"
    using assms(4) by (cases "es = []") (auto simp: HasPrefix_append join_with_append)
qed

lemma localDir_clean:
  assumes "IsAbs (pm_localRoot m)" "Clean (pm_localRoot m) = pm_localRoot m" "localDir m p = Inr d"
  shows "IsAbs d" "Clean d = d"
proof -
  have "d = pm_localRoot m \<or> (\<exists>x. d = Join (pm_localRoot m) x)"
    using assms(3) by (auto simp: localDir_def ResolveInside_def Let_def split: if_splits sum.splits)
  moreover have "IsAbs (Join (pm_localRoot m) x)" for x
    using assms(1) by (auto simp: Join_def IsAbs_append not_abs_empty)
  moreover have "Clean (Join (pm_localRoot m) x) = Join (pm_localRoot m) x" for x
    using assms(1) by (auto simp: Join_def not_abs_empty)
  ultimately show "IsAbs d" "Clean d = d" using assms(1,2) by auto
qed

text \<open>C20: overlapping folders. For two folders of the server's own machine that \<open>validateSide\<close> has put into canonical form
  below an absolute, cleaned root, \<open>overlaps\<close> decides exactly whether they are the same folder or one lies
  inside the other; a pair of local folders that is created never feeds a folder into itself. \<open>overlaps\<close> does
  not depend on the order of the sides.\<close>
theorem overlaps_local_exact:
  assumes "IsAbs (pm_localRoot m)" and "Clean (pm_localRoot m) = pm_localRoot m"
    and "localDir m p = Inr da" and "localDir m q = Inr db"
    and "a = (side LocalDevice p)\<lparr>ps_Path := da\<rparr>" and "b = (side LocalDevice q)\<lparr>ps_Path := db\<rparr>"
  shows "(overlaps a b \<longleftrightarrow> is_under (at fs da) (at fs db) \<or> is_under (at fs db) (at fs da)) \<and>
    overlaps x y = overlaps y x"
proof -
  note da = clean_abs_path [OF localDir_clean [OF assms(1,2,3)], of "fs_cwd fs", folded at_def]
  note db = clean_abs_path [OF localDir_clean [OF assms(1,2,4)], of "fs_cwd fs", folded at_def]
  let ?ja = "join_with slash (at fs da)" and ?jb = "join_with slash (at fs db)"
  have trim: "trim_char slash da = ?ja" "trim_char slash db = ?jb"
    using da(1) db(1) trim_abs [OF da(2)] trim_abs [OF db(2)] by (metis)+
  have "overlaps a b \<longleftrightarrow> ?ja = ?jb \<or> ?ja = [] \<or> ?jb = [] \<or> HasPrefix (?ja @ ''/'') (?jb @ ''/'') \<or>
      HasPrefix (?jb @ ''/'') (?ja @ ''/'')"
    using assms(5,6) trim by (simp add: overlaps_def side_def Let_def)
  also have "\<dots> \<longleftrightarrow> is_under (at fs da) (at fs db) \<or> is_under (at fs db) (at fs da)"
  proof (cases "at fs da = [] \<or> at fs db = []")
    case True
    then show ?thesis by (auto simp: is_under_def)
  next
    case False
    have "?ja = ?jb \<Longrightarrow> at fs da = at fs db" using join_plain_inj da(2) db(2) False by blast
    moreover have "?ja \<noteq> []" "?jb \<noteq> []" using hd_last_plain(1) da(2) db(2) False by auto
    ultimately show ?thesis
      using prefix_join [OF da(2) _ db(2)] prefix_join [OF db(2) _ da(2)] False by (auto simp: is_under_def)
  qed
  finally show ?thesis by (auto simp: overlaps_def Let_def)
qed

theorem overlaps_local_exact_witness:
  "overlaps (side ''local'' ''/srv/l'') (side ''local'' ''/srv/l/m'')"
proof -
  have "IsAbs (pm_localRoot (the_pairs srv_config))" "Clean (pm_localRoot (the_pairs srv_config)) = pm_localRoot (the_pairs srv_config)"
    "localDir (the_pairs srv_config) ''l'' = Inr ''/srv/l''" "localDir (the_pairs srv_config) ''l/m'' = Inr ''/srv/l/m''"
    by code_simp+
  moreover have "is_under (at srv_fs ''/srv/l'') (at srv_fs ''/srv/l/m'')" by code_simp
  ultimately show ?thesis
    using overlaps_local_exact [of "the_pairs srv_config" "''l''" "''/srv/l''" "''l/m''" "''/srv/l/m''"
        "side ''local'' ''/srv/l''" "side ''local'' ''/srv/l/m''" srv_fs]
    by (simp add: side_def LocalDevice_def)
qed

end
