(* ===== verification/Agent_Loop.thy ===== *)
theory Agent_Loop
  imports Pair_Properties
begin

text \<open>
  The agent's side of registration: \<open>serverLoop\<close>, \<open>register\<close> and \<open>post\<close> of
  \<^verbatim>\<open>internal/sync/agent/http_agent.go\<close>. The connection to the server is a parameter; the property puts the
  server's own handlers behind it.
\<close>

section \<open>Messages\<close>

text \<open>The bodies the agent posts, by their path.\<close>
datatype agent_message = RegisterMsg register_request | HeartbeatMsg string

datatype wait = NoWait | WaitHeartbeat | WaitRetry

text \<open>\<open>post\<close> returns the status, or the error of the connection. The token is sent along.\<close>
type_synonym 'w poster = "string \<Rightarrow> string \<Rightarrow> agent_message \<Rightarrow> ('w, nat) io"

definition ag_post :: "'w poster \<Rightarrow> HTTPAgent \<Rightarrow> agent_message \<Rightarrow> ('w, nat) io" where
  "ag_post po a msg = po (ag_serverURL a) (ag_token a) msg"

definition ag_register :: "'w poster \<Rightarrow> HTTPAgent \<Rightarrow> ('w, unit) io" where
  "ag_register po a w =
     (let body = \<lparr>rr_ID = ag_nodeID a, rr_Port = ag_port a, rr_Endpoint = ag_advertise a, rr_Root = ag_rootPath a\<rparr> in
      case ag_post po a (RegisterMsg body) w of
        (Inl err, w') \<Rightarrow> (Inl err, w')
      | (Inr status, w') \<Rightarrow>
          if status \<noteq> 200 then (Inl (Errorf (''server responded '' @ nat_text status)), w') else (Inr (), w'))"

text \<open>One turn of the loop: the flag \<open>registered\<close> after it and how long it waits. After a heartbeat that the
  server answers with 404 the next turn follows at once.\<close>
definition loop_turn :: "'w poster \<Rightarrow> HTTPAgent \<Rightarrow> bool \<Rightarrow> 'w \<Rightarrow> bool \<times> wait \<times> 'w" where
  "loop_turn po a registered w =
     (if \<not> registered then
        (case ag_register po a w of
           (Inl err, w') \<Rightarrow> (False, WaitRetry, w')
         | (Inr _, w') \<Rightarrow> (True, WaitHeartbeat, w'))
      else
        (case ag_post po a (HeartbeatMsg (ag_nodeID a)) w of
           (Inl err, w') \<Rightarrow> (True, WaitHeartbeat, w')
         | (Inr status, w') \<Rightarrow>
             if status = 404 then (False, NoWait, w') else (True, WaitHeartbeat, w')))"

text \<open>\<open>serverLoop\<close> for the given number of turns, up to the cancellation of its context.\<close>
fun serverLoop :: "nat \<Rightarrow> 'w poster \<Rightarrow> HTTPAgent \<Rightarrow> bool \<Rightarrow> 'w \<Rightarrow> bool \<times> 'w" where
  "serverLoop 0 po a registered w = (registered, w)"
| "serverLoop (Suc n) po a registered w =
     (case loop_turn po a registered w of (registered', wait, w') \<Rightarrow> serverLoop n po a registered' w')"

section \<open>The server behind the connection\<close>

text \<open>The agent's posts as requests of the server; \<open>addr\<close> is the address they come from.\<close>
definition to_server :: "'u net_pkg \<Rightarrow> 'd deployment \<Rightarrow> string \<Rightarrow> (pgdb, 'd) srv poster" where
  "to_server net c addr url token msg st =
     (case serve net c (case msg of RegisterMsg body \<Rightarrow> PostRegister token (Inr body) addr
                         | HeartbeatMsg n \<Rightarrow> PostHeartbeat token (Inr n)) st of
        ((status, ans), st') \<Rightarrow> (Inr status, st'))"

text \<open>What the server needs to take the agent.\<close>
definition admissible :: "'d deployment \<Rightarrow> HTTPAgent \<Rightarrow> (pgdb, 'd) srv \<Rightarrow> bool" where
  "admissible c a st \<longleftrightarrow>
     dp_token c \<noteq> [] \<and> ag_token a = dp_token c \<and> ag_nodeID a \<noteq> [] \<and> ag_nodeID a \<noteq> LocalDevice \<and>
     (ag_port a \<noteq> [] \<or> ag_advertise a \<noteq> []) \<and> pg_up (sy_pairs (fst st)) \<and> (\<forall>t. dp_ok c t)"

definition known :: "HTTPAgent \<Rightarrow> (pgdb, 'd) srv \<Rightarrow> bool" where
  "known a st \<longleftrightarrow> (\<exists>i. rg_Info (sy_devices (fst st)) (ag_nodeID a) = Some i \<and> ni_Online i)"

lemma register_turn:
  assumes "admissible c a st" "loop_turn (to_server net c addr) a False st = (r, wt, st')"
  shows "r \<and> wt = WaitHeartbeat \<and> known a st' \<and> admissible c a st'"
  using assms
  by (auto simp: loop_turn_def ag_register_def ag_post_def to_server_def admissible_def AgentAuth_def ValidAgentToken_def
      RegisterAgent_def Let_def save_device_def pg_node_store_def pg_SaveNode_def info_ok_def register_saved_def known_def
      split: prod.splits)

lemma heartbeat_turn:
  assumes "admissible c a st" "loop_turn (to_server net c addr) a True st = (r, wt, st')"
  shows "if rg_Info (sy_devices (fst st)) (ag_nodeID a) = None then \<not> r \<and> wt = NoWait \<and> st' = st
         else r \<and> wt = WaitHeartbeat \<and> known a st' \<and> admissible c a st'"
  using assms
  by (auto simp: loop_turn_def ag_post_def to_server_def admissible_def AgentAuth_def ValidAgentToken_def AgentHeartbeat_def
      error_reply_def known_def Let_def split: prod.splits if_splits)

lemma known_heartbeat:
  assumes "admissible c a st" "known a st"
  shows "case loop_turn (to_server net c addr) a True st of (r, wt, st') \<Rightarrow> r \<and> known a st'"
  using heartbeat_turn [OF assms(1)] assms(2) by (fastforce simp: known_def)

text \<open>C21: an agent gets back in. Whatever the server and the agent believe of each other (the server may have been
  restarted and have forgotten the agent, or the agent may never have registered), two turns of the agent's
  loop suffice: after them the agent counts itself as registered, and the server knows it as an online
  device. When the server has forgotten the agent, the second turn follows the first without waiting.\<close>
theorem agent_gets_back_in:
  assumes "admissible c a st"
  shows "(case serverLoop 2 (to_server net c addr) a registered st of (r, st') \<Rightarrow> r \<and> known a st') \<and>
    (registered \<and> rg_Info (sy_devices (fst st)) (ag_nodeID a) = None \<longrightarrow>
       fst (snd (loop_turn (to_server net c addr) a registered st)) = NoWait)"
proof -
  obtain r1 wt1 st1 where t1: "loop_turn (to_server net c addr) a registered st = (r1, wt1, st1)" by (metis prod_cases3)
  obtain r2 wt2 st2 where t2: "loop_turn (to_server net c addr) a r1 st1 = (r2, wt2, st2)" by (metis prod_cases3)
  have run: "serverLoop 2 (to_server net c addr) a registered st = (r2, st2)"
    by (simp add: numeral_2_eq_2 t1 t2)
  show ?thesis
  proof (cases "registered \<and> rg_Info (sy_devices (fst st)) (ag_nodeID a) = None")
    case True
    then have first: "\<not> r1" "wt1 = NoWait" "st1 = st"
      using heartbeat_turn [OF assms, of net addr r1 wt1 st1] t1 by auto
    then have "r2 \<and> known a st2" using register_turn [OF assms, of net addr r2 wt2 st2] t2 by simp
    then show ?thesis using first t1 run True by auto
  next
    case False
    then have "r1 \<and> known a st1 \<and> admissible c a st1"
      using heartbeat_turn [OF assms, of net addr r1 wt1 st1] register_turn [OF assms, of net addr r1 wt1 st1] t1
      by (cases registered) (auto split: if_splits)
    then show ?thesis using known_heartbeat [of c a st1 net addr] t2 run False by auto
  qed
qed

theorem agent_gets_back_in_witness:
  "case serverLoop 2 (to_server srv_net srv_config ''1.2.3.4:5'') srv_agent True srv_start of (r, st') \<Rightarrow>
     r \<and> known srv_agent st'"
proof -
  have "ag_nodeID srv_agent = ''dev'' \<and> ag_port srv_agent = ''9000'' \<and> ag_token srv_agent = ''s''" by code_simp
  then have "admissible srv_config srv_agent srv_start"
    by (simp add: admissible_def srv_config_def LocalDevice_def srv_start_def ex_db_def)
  from agent_gets_back_in [OF this, of srv_net "''1.2.3.4:5''" True] show ?thesis by (rule conjunct1)
qed

end
