(* ===== verification/Complex_Properties.thy ===== *)
theory Complex_Properties
  imports Complex_Storage
begin

text \<open>
  What \<open>ComplexStorage\<close> promises: its listing ends, and the listed paths are exactly those that \<open>resolve\<close>
  finds, as long as no folder holds two folders of one name.
\<close>

section \<open>Listing and finding agree\<close>

text \<open>A moment of the storage: what each folder holds, and listing changes nothing.\<close>
definition snapshot :: "'w ComplexStorageAPI \<Rightarrow> (string \<Rightarrow> RemoteFile list) \<Rightarrow> 'w \<Rightarrow> bool" where
  "snapshot api ch w \<longleftrightarrow> (\<forall>f. ca_ListFiles api f w = (Inr (ch f), w))"

text \<open>Names that can be elements of a path, and no two folders of one name in a folder.\<close>
definition tidy_folders :: "(string \<Rightarrow> RemoteFile list) \<Rightarrow> bool" where
  "tidy_folders ch \<longleftrightarrow>
     (\<forall>f. \<forall>i \<in> set (ch f). plain (rf_Path i) \<and>
        (rf_IsDir i \<longrightarrow> (\<forall>j \<in> set (ch f). rf_IsDir j \<and> rf_Path j = rf_Path i \<longrightarrow> j = i)))"

definition child :: "(string \<Rightarrow> RemoteFile list) \<Rightarrow> string \<Rightarrow> string \<Rightarrow> bool \<Rightarrow> RemoteFile option" where
  "child ch f name isDir = find (\<lambda>i. rf_Path i = name \<and> rf_IsDir i = isDir) (ch f)"

fun descend :: "(string \<Rightarrow> RemoteFile list) \<Rightarrow> string \<Rightarrow> string list \<Rightarrow> string option" where
  "descend ch f [] = Some f"
| "descend ch f (p # ps) = (case child ch f p True of None \<Rightarrow> None | Some d \<Rightarrow> descend ch (rf_ID d) ps)"

lemma descend_snoc:
  "descend ch f (ps @ [p]) = (case descend ch f ps of None \<Rightarrow> None | Some g \<Rightarrow> map_option rf_ID (child ch g p True))"
  by (induction ps arbitrary: f) (auto split: option.splits)

lemma findChild_snapshot: "snapshot api ch w \<Longrightarrow> cs_findChild api f name d w = (Inr (child ch f name d), w)"
  by (simp add: cs_findChild_def snapshot_def child_def)

lemma findDir_snapshot:
  assumes "snapshot api ch w" "descend ch f ps = Some g"
  shows "findDir_parts api path create f ps w = (Inr g, w)"
  using assms(2) by (induction ps arbitrary: f) (auto simp: findChild_snapshot [OF assms(1)] split: option.splits)

lemma Clean_plain:
  assumes "list_all plain ps" "ps \<noteq> []"
  shows "Clean (join_with slash ps @ [slash]) = join_with slash ps"
proof -
  have "join_with slash ps \<noteq> []" using assms by (auto simp: join_with_empty_iff plain_def)
  then have "\<not> IsAbs (join_with slash ps @ [slash])"
    using IsLocal_not_abs [OF join_plain_local [OF assms]] by (simp add: IsAbs_append)
  moreover have "clean_parts False (split_on slash (join_with slash ps @ [slash])) = ps"
    using split_on_app [of slash "join_with slash ps" "[]"] clean_plain_parts [OF assms(1), of False]
    by (simp add: split_join_plain [OF assms] clean_parts_def)
  ultimately show ?thesis using assms(2) by (simp add: Clean_def Let_def)
qed

lemma splitPath_plain: "list_all plain ps \<Longrightarrow> ps \<noteq> [] \<Longrightarrow> splitPath (join_with slash ps) = ps"
  by (simp add: splitPath_def split_join_plain filter_id_conv list_all_iff plain_def)

lemma parent_of_path:
  assumes "list_all plain ps" "plain c"
  shows "splitPath (parentPath (join_with slash (ps @ [c]))) = ps"
proof (cases "ps = []")
  case True
  have "slash \<notin> set c" using assms(2) by (simp add: plain_def)
  then have drop: "rev (dropWhile (\<lambda>x. x \<noteq> slash) (rev c)) = []" by auto
  have "Dir c = dot"
    unfolding Dir_def drop by (simp add: Clean_def Let_def not_abs_empty clean_parts_empty)
  with True show ?thesis by (simp add: parentPath_def splitPath_def)
next
  case False
  have c: "slash \<notin> set c" using assms(2) by (simp add: plain_def)
  have "Dir (join_with slash (ps @ [c])) = join_with slash ps"
    unfolding join_with_snoc [OF False] Dir_def dropWhile_last_elem [OF c] by (rule Clean_plain [OF assms(1) False])
  moreover have "join_with slash ps \<noteq> dot"
  proof
    assume "join_with slash ps = dot"
    with split_join_plain [OF assms(1) False] have "ps = [dot]" by simp
    with assms(1) show False by (simp add: plain_def)
  qed
  ultimately show ?thesis by (simp add: parentPath_def Let_def splitPath_plain [OF assms(1) False])
qed

lemma Base_of_path:
  assumes "plain c"
  shows "Base (join_with slash (ps @ [c])) = c"
proof -
  have c: "slash \<notin> set c" "c \<noteq> []" using assms by (simp_all add: plain_def)
  obtain q where p: "join_with slash (ps @ [c]) = q @ c" "q = [] \<or> last q = slash"
    by (cases "ps = []") (auto simp: join_with_snoc)
  have "dropWhile (\<lambda>x. x = slash) (rev c @ rev q) = rev c @ rev q"
    using c by (cases "rev c") (auto simp: in_set_conv_decomp)
  moreover have "takeWhile (\<lambda>x. x \<noteq> slash) (rev c @ rev q) = rev c"
    using c p(2) by (cases q rule: rev_cases) (auto simp: takeWhile_append)
  ultimately show ?thesis using c by (simp add: Base_def Let_def p(1))
qed

lemma resolve_snapshot:
  assumes "snapshot api ch w" "descend ch [] ps = Some f" "child ch f c False = Some item" "list_all plain ps" "plain c"
  shows "cs_resolve api (join_with slash (ps @ [c])) w = (Inr item, w)"
proof -
  have "cs_findDir api (parentPath (join_with slash (ps @ [c]))) False w = (Inr f, w)"
    unfolding cs_findDir_def parent_of_path [OF assms(4,5)] by (rule findDir_snapshot [OF assms(1,2)])
  then show ?thesis
    by (simp add: cs_resolve_def findChild_snapshot [OF assms(1)] Base_of_path [OF assms(5)] assms(3))
qed

text \<open>An entry of a listing that finding leads back to.\<close>
definition found :: "(string \<Rightarrow> RemoteFile list) \<Rightarrow> FileEntry \<Rightarrow> bool" where
  "found ch e \<longleftrightarrow> (\<exists>ps c f item. list_all plain ps \<and> plain c \<and> descend ch [] ps = Some f \<and>
     child ch f c False = Some item \<and> e = remote_entry (join_with slash (ps @ [c])) item)"

lemma child_path_join: "list_all plain ps \<Longrightarrow> child_path (join_with slash ps) i = join_with slash (ps @ [rf_Path i])"
  by (cases "ps = []") (auto simp: child_path_def join_with_snoc join_with_empty_iff plain_def)

lemma find_split: "\<forall>x \<in> set xs. \<not> P x \<Longrightarrow> P y \<Longrightarrow> find P (xs @ y # ys) = Some y"
  by (induction xs) auto

lemma child_dir:
  assumes "tidy_folders ch" "i \<in> set (ch f)" "rf_IsDir i"
  shows "child ch f (rf_Path i) True = Some i"
proof (cases "child ch f (rf_Path i) True")
  case None
  with assms show ?thesis by (auto simp: child_def find_None_iff)
next
  case (Some j)
  then have "j \<in> set (ch f)" "rf_IsDir j" "rf_Path j = rf_Path i"
    by (auto simp: child_def find_Some_iff)
  with assms Some show ?thesis unfolding tidy_folders_def by blast
qed

text \<open>What is shown of a listing.\<close>
definition all_found :: "(string \<Rightarrow> RemoteFile list) \<Rightarrow> 'w \<Rightarrow> (gerr + FileEntry list) \<times> 'w \<Rightarrow> bool" where
  "all_found ch w r \<longleftrightarrow> snd r = w \<and> (\<exists>es. fst r = Inr es \<and> (\<forall>e \<in> set es. found ch e))"

lemma items_found:
  assumes tidy: "tidy_folders ch" and f: "descend ch [] ps = Some f" and ps: "list_all plain ps"
    and sub: "\<And>g qs r. cs_listRecursive n api g (join_with slash qs) w = Some r \<Longrightarrow>
      descend ch [] qs = Some g \<Longrightarrow> list_all plain qs \<Longrightarrow> all_found ch w r"
  shows "list_items n api (join_with slash ps) items seen entries w = Some r \<Longrightarrow> ch f = earlier @ items \<Longrightarrow>
      set seen = child_path (join_with slash ps) ` {i \<in> set earlier. \<not> rf_IsDir i} \<Longrightarrow>
      \<forall>e \<in> set entries. found ch e \<Longrightarrow> all_found ch w r"
proof (induction items arbitrary: earlier seen entries)
  case Nil
  then show ?case by (auto simp: all_found_def)
next
  case (Cons item items)
  let ?pre = "join_with slash ps" and ?qs = "ps @ [rf_Path item]"
  let ?p = "child_path ?pre item"
  have item: "item \<in> set (ch f)" using Cons.prems(2) by simp
  with tidy have "plain (rf_Path item)" by (auto simp: tidy_folders_def)
  with ps have plain: "list_all plain ?qs" by simp
  have path: "?p = join_with slash ?qs" using child_path_join [OF ps] .
  have earlier: "ch f = (earlier @ [item]) @ items" using Cons.prems(2) by simp
  consider (dir) "rf_IsDir item" | (dup) "\<not> rf_IsDir item" "?p \<in> set seen" | (new) "\<not> rf_IsDir item" "?p \<notin> set seen"
    by blast
  then show ?case
  proof cases
    case dir
    have down: "descend ch [] ?qs = Some (rf_ID item)"
      using f child_dir [OF tidy item dir] by (simp add: descend_snoc)
    obtain r1 where r1: "cs_listRecursive n api (rf_ID item) ?p w = Some r1"
      using Cons.prems(1) dir by (auto simp: Let_def split: option.splits)
    have "all_found ch w r1" using sub [OF r1 [unfolded path] down plain] .
    then obtain es where es: "r1 = (Inr es, w)" "\<forall>e \<in> set es. found ch e"
      by (metis all_found_def prod.collapse)
    have "list_items n api ?pre items seen (entries @ es) w = Some r"
      using Cons.prems(1) dir r1 es by (simp add: Let_def)
    then show ?thesis
      by (rule Cons.IH [OF _ earlier]) (use Cons.prems(3,4) dir es(2) in auto)
  next
    case dup
    then have "list_items n api ?pre items seen entries w = Some r"
      using Cons.prems(1) by (simp add: Let_def)
    then show ?thesis
      by (rule Cons.IH [OF _ earlier]) (use Cons.prems(3,4) dup in auto)
  next
    case new
    have "\<forall>i \<in> set earlier. \<not> (rf_Path i = rf_Path item \<and> rf_IsDir i = False)"
    proof (intro ballI notI)
      fix i assume i: "i \<in> set earlier" "rf_Path i = rf_Path item \<and> rf_IsDir i = False"
      then have "child_path ?pre i \<in> set seen" unfolding Cons.prems(3) by (intro imageI) simp
      moreover have "child_path ?pre i = ?p" using i(2) by (simp add: child_path_def)
      ultimately show False using new(2) by simp
    qed
    then have "child ch f (rf_Path item) False = Some item"
      unfolding child_def Cons.prems(2) by (rule find_split) (use new in simp)
    then have "found ch (remote_entry ?p item)"
      unfolding found_def path using f ps plain
      by (intro exI [of _ ps] exI [of _ "rf_Path item"] exI [of _ f] exI [of _ item]) simp
    moreover have "list_items n api ?pre items (?p # seen) (entries @ [remote_entry ?p item]) w = Some r"
      using Cons.prems(1) new by (simp add: Let_def)
    ultimately show ?thesis
      by (intro Cons.IH [OF _ earlier, of "?p # seen" "entries @ [remote_entry ?p item]"])
        (use Cons.prems(3,4) new in auto)
  qed
qed

lemma listing_found:
  assumes "snapshot api ch w" "tidy_folders ch"
  shows "cs_listRecursive n api f (join_with slash ps) w = Some r \<Longrightarrow> descend ch [] ps = Some f \<Longrightarrow>
      list_all plain ps \<Longrightarrow> all_found ch w r"
proof (induction n arbitrary: f ps r)
  case (Suc n)
  have "list_items n api (join_with slash ps) (ch f) [] [] w = Some r"
    using Suc.prems(1) assms(1) by (simp add: snapshot_def)
  with items_found [OF assms(2) Suc.prems(2,3) Suc.IH, where items = "ch f" and seen = "[]" and entries = "[]"
      and earlier = "[]" and r = r]
  show ?case by simp
qed simp

text \<open>All files below a folder.\<close>
definition below :: "(string \<Rightarrow> RemoteFile list) \<Rightarrow> string \<Rightarrow> string list \<Rightarrow> FileEntry set" where
  "below ch f ps = {remote_entry (join_with slash (ps @ rs @ [c])) item | rs c item h.
     descend ch f rs = Some h \<and> child ch h c False = Some item}"

lemma items_complete:
  assumes tidy: "tidy_folders ch" and snap: "snapshot api ch w" and f: "descend ch [] ps = Some f" and ps: "list_all plain ps"
    and sub: "\<And>g qs es. cs_listRecursive n api g (join_with slash qs) w = Some (Inr es, w) \<Longrightarrow>
      descend ch [] qs = Some g \<Longrightarrow> list_all plain qs \<Longrightarrow> below ch g qs \<subseteq> set es"
  shows "list_items n api (join_with slash ps) items seen entries w = Some (Inr es, w) \<Longrightarrow> set items \<subseteq> set (ch f) \<Longrightarrow>
      set entries \<subseteq> set es \<and>
      (\<forall>d \<in> set items. rf_IsDir d \<longrightarrow> below ch (rf_ID d) (ps @ [rf_Path d]) \<subseteq> set es) \<and>
      (\<forall>c item. find (\<lambda>i. rf_Path i = c \<and> rf_IsDir i = False) items = Some item \<longrightarrow>
         child_path (join_with slash ps) item \<notin> set seen \<longrightarrow>
         remote_entry (child_path (join_with slash ps) item) item \<in> set es)"
proof (induction items arbitrary: seen entries)
  case (Cons item items)
  let ?pre = "join_with slash ps" and ?qs = "ps @ [rf_Path item]"
  let ?p = "child_path ?pre item"
  have item: "item \<in> set (ch f)" "set items \<subseteq> set (ch f)" using Cons.prems(2) by simp_all
  with tidy ps have plain: "list_all plain ?qs" by (auto simp: tidy_folders_def)
  have path: "?p = join_with slash ?qs" using child_path_join [OF ps] .
  have other: "child_path ?pre j \<noteq> ?p" if "rf_Path j \<noteq> rf_Path item" for j
    using that by (simp add: child_path_def)
  show ?case
  proof (cases "rf_IsDir item")
    case True
    have down: "descend ch [] ?qs = Some (rf_ID item)"
      using f child_dir [OF tidy item(1) True] by (simp add: descend_snoc)
    obtain r1 where r1: "cs_listRecursive n api (rf_ID item) ?p w = Some r1"
      using Cons.prems(1) True by (auto simp: Let_def split: option.splits)
    then obtain es1 where es1: "r1 = (Inr es1, w)"
      using listing_found [OF snap tidy _ down plain] path by (metis all_found_def prod.collapse)
    have "below ch (rf_ID item) ?qs \<subseteq> set es1" using sub [OF _ down plain] r1 es1 path by simp
    moreover have "list_items n api ?pre items seen (entries @ es1) w = Some (Inr es, w)"
      using Cons.prems(1) True r1 es1 by (simp add: Let_def)
    note Cons.IH [OF this item(2)]
    ultimately show ?thesis using True by auto
  next
    case False
    show ?thesis
    proof (cases "?p \<in> set seen")
      case True
      then have "list_items n api ?pre items seen entries w = Some (Inr es, w)"
        using Cons.prems(1) False by (simp add: Let_def)
      from Cons.IH [OF this item(2)] show ?thesis using False True by auto
    next
      case new: False
      then have "list_items n api ?pre items (?p # seen) (entries @ [remote_entry ?p item]) w = Some (Inr es, w)"
        using Cons.prems(1) False by (simp add: Let_def)
      note IH = Cons.IH [OF this item(2)]
      have "remote_entry (child_path ?pre j) j \<in> set es"
        if "find (\<lambda>i. rf_Path i = c \<and> rf_IsDir i = False) (item # items) = Some j" "child_path ?pre j \<notin> set seen" for c j
      proof (cases "rf_Path item = c")
        case True
        with that False IH show ?thesis by simp
      next
        case ne: False
        with that(1) have find: "find (\<lambda>i. rf_Path i = c \<and> rf_IsDir i = False) items = Some j" by simp
        then have "rf_Path j = c" by (auto simp: find_Some_iff)
        with ne other that(2) find IH show ?thesis by auto
      qed
      with IH False show ?thesis by auto
    qed
  qed
qed simp

lemma listing_complete:
  assumes snap: "snapshot api ch w" and tidy: "tidy_folders ch"
  shows "cs_listRecursive n api f (join_with slash ps) w = Some (Inr es, w) \<Longrightarrow> descend ch [] ps = Some f \<Longrightarrow>
      list_all plain ps \<Longrightarrow> below ch f ps \<subseteq> set es"
proof (induction n arbitrary: f ps es)
  case (Suc n)
  have "list_items n api (join_with slash ps) (ch f) [] [] w = Some (Inr es, w)"
    using Suc.prems(1) snap by (simp add: snapshot_def)
  then have dirs: "\<And>d. d \<in> set (ch f) \<Longrightarrow> rf_IsDir d \<Longrightarrow> below ch (rf_ID d) (ps @ [rf_Path d]) \<subseteq> set es"
    and files: "\<And>c item. child ch f c False = Some item \<Longrightarrow> remote_entry (child_path (join_with slash ps) item) item \<in> set es"
    using items_complete [OF tidy snap Suc.prems(2,3) Suc.IH, where items = "ch f" and seen = "[]" and entries = "[]" and es = es]
    by (simp_all add: child_def)
  show ?case
  proof
    fix e assume "e \<in> below ch f ps"
    then obtain rs c item h where e: "e = remote_entry (join_with slash (ps @ rs @ [c])) item"
        and h: "descend ch f rs = Some h" "child ch h c False = Some item"
      by (auto simp: below_def)
    show "e \<in> set es"
    proof (cases rs)
      case Nil
      moreover have "rf_Path item = c" using h(2) by (auto simp: child_def find_Some_iff)
      ultimately show ?thesis using h files [of c item] child_path_join [OF Suc.prems(3), of item] e by simp
    next
      case (Cons r rs')
      then obtain d where d: "child ch f r True = Some d" "descend ch (rf_ID d) rs' = Some h"
        using h(1) by (auto split: option.splits)
      then have mem: "d \<in> set (ch f)" "rf_IsDir d" "rf_Path d = r" by (auto simp: child_def find_Some_iff)
      have "e \<in> below ch (rf_ID d) (ps @ [rf_Path d])"
        unfolding below_def e using Cons d h(2) mem(3) by auto
      then show ?thesis using dirs [OF mem(1,2)] by blast
    qed
  qed
qed simp

text \<open>The folders below \<open>f\<close> are at most \<open>n\<close> deep.\<close>
fun depth_within :: "(string \<Rightarrow> RemoteFile list) \<Rightarrow> nat \<Rightarrow> string \<Rightarrow> bool" where
  "depth_within ch 0 f = False"
| "depth_within ch (Suc n) f = list_all (\<lambda>i. rf_IsDir i \<longrightarrow> depth_within ch n (rf_ID i)) (ch f)"

lemma listing_ends:
  assumes "snapshot api ch w"
  shows "depth_within ch n f \<Longrightarrow> \<exists>es. cs_listRecursive n api f prefix w = Some (Inr es, w)"
proof (induction n arbitrary: f prefix)
  case (Suc n)
  have "\<exists>es. list_items n api prefix items seen entries w = Some (Inr es, w)"
    if "\<forall>i \<in> set items. rf_IsDir i \<longrightarrow> depth_within ch n (rf_ID i)" for items seen entries
    using that
  proof (induction items arbitrary: seen entries)
    case (Cons i items)
    then show ?case
      using Suc.IH [of "rf_ID i" "child_path prefix i"] by (cases "rf_IsDir i") (auto simp: Let_def)
  qed simp
  then show ?case using Suc.prems assms by (auto simp: snapshot_def list_all_iff)
qed simp

text \<open>C31: listing a remote storage ends and is exact. When the folders are at most \<open>fuel\<close> deep, the names can be
  elements of a path and no folder holds two folders of one name, \<open>ListFiles\<close> succeeds, and its entries are exactly the files that can be found: every
  entry's path is resolved to the file it describes, and every file on a path of folders is listed under
  that path, the first one where a folder has several files of one name.\<close>
theorem cs_ListFiles_exact:
  assumes "snapshot (cs_api s) ch w" and "tidy_folders ch" and "depth_within ch fuel []"
  shows "\<exists>es. cs_ListFiles fuel s w = (Inr es, w) \<and> set es = below ch [] [] \<and>
     (\<forall>e \<in> set es. \<exists>item. cs_resolve (cs_api s) (fe_Path e) w = (Inr item, w) \<and> e = remote_entry (fe_Path e) item)"
proof -
  obtain es where run: "cs_listRecursive fuel (cs_api s) [] [] w = Some (Inr es, w)"
    using listing_ends [OF assms(1,3)] by blast
  then have found: "\<forall>e \<in> set es. found ch e"
    using listing_found [OF assms(1,2), of fuel "[]" "[]" "(Inr es, w)"] by (simp add: all_found_def)
  have "below ch [] [] \<subseteq> set es"
    using listing_complete [OF assms(1,2), of fuel "[]" "[]" es] run by simp
  moreover have "set es \<subseteq> below ch [] []"
    using found by (force simp: below_def found_def)
  moreover have "\<exists>item. cs_resolve (cs_api s) (fe_Path e) w = (Inr item, w) \<and> e = remote_entry (fe_Path e) item"
    if "e \<in> set es" for e
    using found that resolve_snapshot [OF assms(1)] by (fastforce simp: found_def remote_entry_def)
  ultimately show ?thesis using run by (auto simp: cs_ListFiles_def)
qed

text \<open>A storage that only lists, for examples.\<close>
definition listing_api :: "(string \<Rightarrow> RemoteFile list) \<Rightarrow> unit ComplexStorageAPI" where
  "listing_api ch = \<lparr>ca_ListFiles = \<lambda>f w. (Inr (ch f), w), ca_Download = \<lambda>f p w. (Inr (), w),
     ca_Upload = \<lambda>p f w. (Inr [], w), ca_Update = \<lambda>f p w. (Inr (), w), ca_Delete = \<lambda>f w. (Inr (), w),
     ca_MkDir = \<lambda>n f w. (Inr [], w)\<rparr>"

definition ex_item :: "string \<Rightarrow> string \<Rightarrow> bool \<Rightarrow> RemoteFile" where
  "ex_item i name d = \<lparr>rf_ID = i, rf_Path = name, rf_Hash = ''h'' @ i, rf_Size = 1, rf_IsDir = d, rf_MimeType = [],
     rf_ModTime = 7\<rparr>"

definition ex_tree :: "string \<Rightarrow> RemoteFile list" where
  "ex_tree f = (if f = [] then [ex_item ''1'' ''d'' True, ex_item ''2'' ''x'' False, ex_item ''3'' ''x'' False]
                else if f = ''1'' then [ex_item ''4'' ''y'' False] else [])"

lemma snapshot_listing: "snapshot (listing_api ch) ch w"
  by (simp add: snapshot_def listing_api_def)

theorem cs_ListFiles_exact_witness:
  "\<exists>es. cs_ListFiles 2 (NewComplexStorage ''n'' ''google_drive'' ''/tmp'' (listing_api ex_tree)) () = (Inr es, ()) \<and>
     set es = below ex_tree [] []"
proof -
  have "tidy_folders ex_tree" by (auto simp: tidy_folders_def ex_tree_def ex_item_def plain_def)
  moreover have "depth_within ex_tree 2 []"
    by (simp add: ex_tree_def ex_item_def numeral_2_eq_2)
  ultimately show ?thesis
    using cs_ListFiles_exact [of "NewComplexStorage ''n'' ''google_drive'' ''/tmp'' (listing_api ex_tree)" ex_tree "()" 2]
    by (auto simp: NewComplexStorage_def snapshot_listing)
qed

text \<open>Two folders of one name. Google Drive allows them; a file in the second one is listed, but it cannot be
  found under the path it is listed with, so that reading, replacing and deleting it fail with
  \<open>os.ErrNotExist\<close>, in every run.\<close>
theorem second_folder_unreachable:
  "let ch = (\<lambda>f. if f = [] then [ex_item ''1'' ''d'' True, ex_item ''2'' ''d'' True]
                 else if f = ''2'' then [ex_item ''3'' ''y'' False] else []);
       s = NewComplexStorage ''n'' ''google_drive'' ''/tmp'' (listing_api ch)
   in fst (cs_ListFiles 2 s ()) = Inr [remote_entry ''d/y'' (ex_item ''3'' ''y'' False)] \<and>
      fst (cs_resolve (cs_api s) ''d/y'' ()) = Inl (Wrapf ''d/y: '' ErrNotExist) \<and>
      fst (cs_DeleteFile s ''d/y'' ()) = Inl (Wrapf ''d/y: '' ErrNotExist)"
  by code_simp

end
