(* ===== verification/Value_Objects.thy ===== *)
theory Value_Objects
  imports Hex_Hash Go_Path
begin

text \<open>
  The value objects of the domain layer (\<^verbatim>\<open>internal/domain/valueobjects\<close>): content hashes, absolute paths and
  identifiers. Random bytes are arguments. \<open>json.Unmarshal\<close> into a string is a parameter \<open>js\<close>; what the
  properties need of it is \<open>json_text\<close>.
\<close>

section \<open>Hashes\<close>

record FileHash =
  fh_value :: string

definition NewFileHash :: "hash_fun \<Rightarrow> string \<Rightarrow> FileHash" where
  "NewFileHash sha data = \<lparr>fh_value = hex_sum sha data\<rparr>"

definition FileHashFromString :: "string \<Rightarrow> gerr + FileHash" where
  "FileHashFromString s =
     (if length s \<noteq> 64
      then Inl (Errorf (''invalid hash length: expected 64 characters, got '' @ nat_text (length s)))
      else case DecodeString s of
          Inl err \<Rightarrow> Inl (Wrapf ''invalid hex format: '' err)
        | Inr _ \<Rightarrow> Inr \<lparr>fh_value = s\<rparr>)"

definition FileHash_IsEmpty :: "FileHash \<Rightarrow> bool" where
  "FileHash_IsEmpty f \<longleftrightarrow> fh_value f = []"

definition FileHash_Equals :: "FileHash \<Rightarrow> FileHash \<Rightarrow> bool" where
  "FileHash_Equals f g \<longleftrightarrow> fh_value f = fh_value g"

definition FileHash_IsValid :: "FileHash \<Rightarrow> bool" where
  "FileHash_IsValid f =
     (if length (fh_value f) \<noteq> 64 then False
      else case DecodeString (fh_value f) of Inl _ \<Rightarrow> False | Inr _ \<Rightarrow> True)"

definition quoted :: "string \<Rightarrow> string" where
  "quoted s = [CHR 0x22] @ s @ [CHR 0x22]"

definition FileHash_MarshalJSON :: "FileHash \<Rightarrow> string" where
  "FileHash_MarshalJSON f = quoted (fh_value f)"

definition FileHash_UnmarshalJSON :: "(string \<Rightarrow> gerr + string) \<Rightarrow> string \<Rightarrow> gerr + FileHash" where
  "FileHash_UnmarshalJSON js data = (case js data of Inl err \<Rightarrow> Inl err | Inr s \<Rightarrow> Inr \<lparr>fh_value = s\<rparr>)"

section \<open>Paths\<close>

record FilePath =
  fp_value :: string

definition NewFilePath :: "string \<Rightarrow> gerr + FilePath" where
  "NewFilePath path =
     (if path = [] then Inl (Errorf ''file path cannot be empty'')
      else let cleanPath = Clean path in
        if \<not> IsAbs cleanPath then Inl (Errorf (''file path must be absolute: '' @ path))
        else Inr \<lparr>fp_value = cleanPath\<rparr>)"

definition FilePathFromString :: "string \<Rightarrow> FilePath" where
  "FilePathFromString s = \<lparr>fp_value = s\<rparr>"

definition FilePath_IsEmpty :: "FilePath \<Rightarrow> bool" where
  "FilePath_IsEmpty f \<longleftrightarrow> fp_value f = []"

definition FilePath_Equals :: "FilePath \<Rightarrow> FilePath \<Rightarrow> bool" where
  "FilePath_Equals f g \<longleftrightarrow> fp_value f = fp_value g"

definition BaseName :: "FilePath \<Rightarrow> string" where
  "BaseName f = Base (fp_value f)"

definition FilePath_Dir :: "FilePath \<Rightarrow> string" where
  "FilePath_Dir f = Dir (fp_value f)"

text \<open>\<open>filepath.Ext\<close>: from the last dot of the last element.\<close>
definition Ext :: "string \<Rightarrow> string" where
  "Ext p =
     (let c = rev (takeWhile (\<lambda>x. x \<noteq> slash) (rev p))
      in if CHR ''.'' \<notin> set c then [] else CHR ''.'' # rev (takeWhile (\<lambda>x. x \<noteq> CHR ''.'') (rev c)))"

definition FilePath_Ext :: "FilePath \<Rightarrow> string" where
  "FilePath_Ext f = Ext (fp_value f)"

text \<open>\<open>filepath.Join\<close> of a list: the elements from the first that is not empty, joined and cleaned.\<close>
definition JoinAll :: "string list \<Rightarrow> string" where
  "JoinAll elems = (case dropWhile (\<lambda>e. e = []) elems of [] \<Rightarrow> [] | es \<Rightarrow> Clean (join_with slash es))"

definition FilePath_Join :: "FilePath \<Rightarrow> string list \<Rightarrow> FilePath" where
  "FilePath_Join f parts = \<lparr>fp_value = JoinAll (fp_value f # parts)\<rparr>"

definition RelativeTo :: "FilePath \<Rightarrow> FilePath \<Rightarrow> gerr + string" where
  "RelativeTo f base =
     (case Rel (fp_value base) (fp_value f) of
        Inl err \<Rightarrow> Inl (Wrapf ''cannot get relative path: '' err)
      | Inr rel \<Rightarrow> Inr rel)"

definition FilePath_MarshalJSON :: "FilePath \<Rightarrow> string" where
  "FilePath_MarshalJSON f = quoted (fp_value f)"

definition FilePath_UnmarshalJSON :: "(string \<Rightarrow> gerr + string) \<Rightarrow> string \<Rightarrow> gerr + FilePath" where
  "FilePath_UnmarshalJSON js data = (case js data of Inl err \<Rightarrow> Inl err | Inr s \<Rightarrow> Inr \<lparr>fp_value = s\<rparr>)"

section \<open>Identifiers\<close>

record FileID = fi_value :: string
record StorageNodeID = sn_value :: string
record SyncJobID = sj_value :: string
record ConflictID = cf_value :: string
record SyncEventID = se_value :: string

text \<open>\<open>generateID\<close> over the 16 bytes it reads from \<open>crypto/rand\<close>.\<close>
definition generateID :: "string \<Rightarrow> string" where
  "generateID bytes = EncodeToString bytes"

definition NewFileID :: "string \<Rightarrow> FileID" where "NewFileID bytes = \<lparr>fi_value = generateID bytes\<rparr>"
definition NewStorageNodeID :: "string \<Rightarrow> StorageNodeID" where "NewStorageNodeID bytes = \<lparr>sn_value = generateID bytes\<rparr>"
definition NewSyncJobID :: "string \<Rightarrow> SyncJobID" where "NewSyncJobID bytes = \<lparr>sj_value = generateID bytes\<rparr>"
definition NewConflictID :: "string \<Rightarrow> ConflictID" where "NewConflictID bytes = \<lparr>cf_value = generateID bytes\<rparr>"
definition NewSyncEventID :: "string \<Rightarrow> SyncEventID" where "NewSyncEventID bytes = \<lparr>se_value = generateID bytes\<rparr>"

definition bad_length :: "string \<Rightarrow> string \<Rightarrow> gerr" where
  "bad_length what s = Errorf (''invalid '' @ what @ '' format: expected 32 characters, got '' @ nat_text (length s))"

definition FileIDFromString :: "string \<Rightarrow> gerr + FileID" where
  "FileIDFromString s =
     (if length s \<noteq> 32 then Inl (bad_length ''file ID'' s)
      else case DecodeString s of
          Inl err \<Rightarrow> Inl (Wrapf ''invalid file ID format: '' err)
        | Inr _ \<Rightarrow> Inr \<lparr>fi_value = s\<rparr>)"

definition StorageNodeIDFromString :: "string \<Rightarrow> gerr + StorageNodeID" where
  "StorageNodeIDFromString s =
     (if length s \<noteq> 32 then Inl (bad_length ''storage node ID'' s)
      else case DecodeString s of
          Inl err \<Rightarrow> Inl (Wrapf ''invalid storage node ID format: '' err)
        | Inr _ \<Rightarrow> Inr \<lparr>sn_value = s\<rparr>)"

definition SyncJobIDFromString :: "string \<Rightarrow> gerr + SyncJobID" where
  "SyncJobIDFromString s =
     (if length s \<noteq> 32 then Inl (bad_length ''sync job ID'' s)
      else case DecodeString s of
          Inl err \<Rightarrow> Inl (Wrapf ''invalid sync job ID format: '' err)
        | Inr _ \<Rightarrow> Inr \<lparr>sj_value = s\<rparr>)"

definition ConflictIDFromString :: "string \<Rightarrow> gerr + ConflictID" where
  "ConflictIDFromString s =
     (if length s \<noteq> 32 then Inl (bad_length ''conflict ID'' s)
      else case DecodeString s of
          Inl err \<Rightarrow> Inl (Wrapf ''invalid conflict ID format: '' err)
        | Inr _ \<Rightarrow> Inr \<lparr>cf_value = s\<rparr>)"

definition SyncEventIDFromString :: "string \<Rightarrow> SyncEventID" where
  "SyncEventIDFromString s = \<lparr>se_value = s\<rparr>"

definition FileIDFromInt64 :: "int \<Rightarrow> FileID" where
  "FileIDFromInt64 i = \<lparr>fi_value = int_text i\<rparr>"

definition FileID_Int64 :: "FileID \<Rightarrow> gerr + int" where
  "FileID_Int64 f =
     (case ParseInt (fi_value f) of
        None \<Rightarrow> Inl (Wrapf ''invalid FileID format: '' (Errorf (''strconv.ParseInt: parsing '' @ quoted (fi_value f))))
      | Some i \<Rightarrow> Inr i)"

definition FileID_MarshalJSON :: "FileID \<Rightarrow> string" where
  "FileID_MarshalJSON f = quoted (fi_value f)"

definition FileID_UnmarshalJSON :: "(string \<Rightarrow> gerr + string) \<Rightarrow> string \<Rightarrow> gerr + FileID" where
  "FileID_UnmarshalJSON js data = (case js data of Inl err \<Rightarrow> Inl err | Inr s \<Rightarrow> Inr \<lparr>fi_value = s\<rparr>)"

definition StorageNodeID_MarshalJSON :: "StorageNodeID \<Rightarrow> string" where
  "StorageNodeID_MarshalJSON n = quoted (sn_value n)"

definition StorageNodeID_UnmarshalJSON :: "(string \<Rightarrow> gerr + string) \<Rightarrow> string \<Rightarrow> gerr + StorageNodeID" where
  "StorageNodeID_UnmarshalJSON js data = (case js data of Inl err \<Rightarrow> Inl err | Inr s \<Rightarrow> Inr \<lparr>sn_value = s\<rparr>)"

definition SyncJobID_MarshalJSON :: "SyncJobID \<Rightarrow> string" where
  "SyncJobID_MarshalJSON n = quoted (sj_value n)"

definition SyncJobID_UnmarshalJSON :: "(string \<Rightarrow> gerr + string) \<Rightarrow> string \<Rightarrow> gerr + SyncJobID" where
  "SyncJobID_UnmarshalJSON js data = (case js data of Inl err \<Rightarrow> Inl err | Inr s \<Rightarrow> Inr \<lparr>sj_value = s\<rparr>)"

definition ConflictID_MarshalJSON :: "ConflictID \<Rightarrow> string" where
  "ConflictID_MarshalJSON n = quoted (cf_value n)"

definition ConflictID_UnmarshalJSON :: "(string \<Rightarrow> gerr + string) \<Rightarrow> string \<Rightarrow> gerr + ConflictID" where
  "ConflictID_UnmarshalJSON js data = (case js data of Inl err \<Rightarrow> Inl err | Inr s \<Rightarrow> Inr \<lparr>cf_value = s\<rparr>)"

section \<open>Round trips\<close>

text \<open>A JSON string literal of printable ASCII characters other than the quote and the backslash stands for
  these characters (RFC 8259).\<close>
definition json_text :: "(string \<Rightarrow> gerr + string) \<Rightarrow> bool" where
  "json_text js \<longleftrightarrow>
     (\<forall>s. list_all (\<lambda>c. 32 \<le> (of_char c :: nat) \<and> (of_char c :: nat) < 127 \<and> c \<noteq> CHR 0x22 \<and> c \<noteq> CHR 0x5C) s \<longrightarrow>
        js (quoted s) = Inr s)"

lemma hex_printable:
  "from_hex_char c \<noteq> None \<Longrightarrow> 32 \<le> (of_char c :: nat) \<and> (of_char c :: nat) < 127 \<and> c \<noteq> CHR 0x22 \<and> c \<noteq> CHR 0x5C"
proof -
  assume "from_hex_char c \<noteq> None"
  then have n: "(48 \<le> (of_char c :: int) \<and> (of_char c :: int) \<le> 102) \<and> (of_char c :: int) \<noteq> 92"
    by (auto simp: from_hex_char_def Let_def split: if_splits)
  then have "48 \<le> (of_char c :: nat)" "(of_char c :: nat) \<le> 102" unfolding of_char_int by linarith+
  moreover have "c \<noteq> CHR 0x22" "c \<noteq> CHR 0x5C" using n by auto
  ultimately show ?thesis by simp
qed


lemma js_hex:
  assumes "json_text js"
  shows "js (quoted (EncodeToString s)) = Inr (EncodeToString s)"
proof -
  have "list_all (\<lambda>c. 32 \<le> (of_char c :: nat) \<and> (of_char c :: nat) < 127 \<and> c \<noteq> CHR 0x22 \<and> c \<noteq> CHR 0x5C) (EncodeToString s)"
    using encode_chars hex_printable unfolding list_all_iff by blast
  then show ?thesis using assms unfolding json_text_def by blast
qed

text \<open>identifiers and hashes survive being written and read. An identifier generated from 16 random bytes is accepted
  by its \<open>FromString\<close> and comes back unchanged from its text and from its JSON form, and different bytes give
  different identifiers; a number of 64 bits comes back from \<open>FileIDFromInt64\<close>; the hash of any data is a valid hash.\<close>
theorem ids_roundtrip:
  assumes "length bytes = 16" and "json_text js" and "- (2 ^ 63) \<le> i" and "i < 2 ^ 63"
  shows "FileIDFromString (fi_value (NewFileID bytes)) = Inr (NewFileID bytes) \<and>
    StorageNodeIDFromString (sn_value (NewStorageNodeID bytes)) = Inr (NewStorageNodeID bytes) \<and>
    SyncJobIDFromString (sj_value (NewSyncJobID bytes)) = Inr (NewSyncJobID bytes) \<and>
    ConflictIDFromString (cf_value (NewConflictID bytes)) = Inr (NewConflictID bytes) \<and>
    FileID_UnmarshalJSON js (FileID_MarshalJSON (NewFileID bytes)) = Inr (NewFileID bytes) \<and>
    StorageNodeID_UnmarshalJSON js (StorageNodeID_MarshalJSON (NewStorageNodeID bytes)) = Inr (NewStorageNodeID bytes) \<and>
    SyncJobID_UnmarshalJSON js (SyncJobID_MarshalJSON (NewSyncJobID bytes)) = Inr (NewSyncJobID bytes) \<and>
    ConflictID_UnmarshalJSON js (ConflictID_MarshalJSON (NewConflictID bytes)) = Inr (NewConflictID bytes) \<and>
    (NewFileID bytes = NewFileID other \<longleftrightarrow> bytes = other) \<and>
    FileID_Int64 (FileIDFromInt64 i) = Inr i \<and>
    FileHashFromString (fh_value (NewFileHash sha data)) = Inr (NewFileHash sha data) \<and>
    FileHash_UnmarshalJSON js (FileHash_MarshalJSON (NewFileHash sha data)) = Inr (NewFileHash sha data) \<and>
    FileHash_IsValid (NewFileHash sha data)"
  using assms js_hex [OF assms(2), of bytes] js_hex [OF assms(2), of "digest_bytes (sha data)"]
  by (simp add: FileIDFromString_def StorageNodeIDFromString_def SyncJobIDFromString_def ConflictIDFromString_def
      NewFileID_def NewStorageNodeID_def NewSyncJobID_def NewConflictID_def generateID_def
      FileID_UnmarshalJSON_def FileID_MarshalJSON_def StorageNodeID_UnmarshalJSON_def StorageNodeID_MarshalJSON_def
      SyncJobID_UnmarshalJSON_def SyncJobID_MarshalJSON_def ConflictID_UnmarshalJSON_def ConflictID_MarshalJSON_def
      FileID_Int64_def FileIDFromInt64_def ParseInt_int_text FileHashFromString_def NewFileHash_def hex_sum_def
      FileHash_UnmarshalJSON_def FileHash_MarshalJSON_def FileHash_IsValid_def)

text \<open>A reader of quoted texts, for examples.\<close>
definition unquote :: "string \<Rightarrow> gerr + string" where
  "unquote s = (if length s \<ge> 2 then Inr (butlast (tl s)) else Inl (Errorf ''unexpected end of JSON input''))"

theorem ids_roundtrip_witness:
  "FileID_UnmarshalJSON unquote (FileID_MarshalJSON (NewFileID ''0123456789abcdef'')) = Inr (NewFileID ''0123456789abcdef'') \<and>
   FileID_Int64 (FileIDFromInt64 (- 42)) = Inr (- 42)"
proof -
  have "json_text unquote" by (simp add: json_text_def unquote_def quoted_def)
  then show ?thesis using ids_roundtrip [of "''0123456789abcdef''" unquote "- 42"] by simp
qed

section \<open>Decimal texts are not identifiers\<close>

lemma length_nat_text: "n < 10 ^ k \<Longrightarrow> length (nat_text n) \<le> max 1 k"
proof (induction k arbitrary: n)
  case 0
  then show ?case by (subst nat_text.simps) simp
next
  case (Suc k)
  show ?case
  proof (cases "n < 10")
    case True
    then show ?thesis by (subst nat_text.simps) simp
  next
    case False
    then have "n div 10 < 10 ^ k" "k \<noteq> 0" using Suc.prems by (auto simp: less_mult_imp_div_less intro!: gr0I)
    with Suc.IH have "length (nat_text (n div 10)) \<le> k" by (metis One_nat_def Suc_leI max.absorb2 neq0_conv)
    then show ?thesis using False by (subst nat_text.simps) simp
  qed
qed

lemma length_int_text:
  assumes "- (2 ^ 63) \<le> i" "i < 2 ^ 63"
  shows "length (int_text i) < 32"
proof -
  have "nat \<bar>i\<bar> < 10 ^ 19" using assms by (simp add: nat_less_iff)
  then have "length (nat_text (nat \<bar>i\<bar>)) \<le> 19" using length_nat_text [of "nat \<bar>i\<bar>" 19] by simp
  then show ?thesis by (auto simp: int_text_def)
qed

lemma FileIDFromString_int:
  assumes "- (2 ^ 63) \<le> i" "i < 2 ^ 63"
  shows "FileIDFromString (int_text i) = Inl (bad_length ''file ID'' (int_text i))"
  using length_int_text [OF assms] by (simp add: FileIDFromString_def)

end
