(* ===== verification/Sync_Job.thy ===== *)
theory Sync_Job
  imports Value_Objects
begin

text \<open>
  The aggregate \<open>SyncJob\<close> with its file operations (\<^verbatim>\<open>internal/domain/aggregates/syncjob.go\<close>): two state
  machines. The job holds pointers to its operations, which callers change in place: a call names the
  operation by its index. \<open>time.Now()\<close> and random bytes are arguments.
\<close>

section \<open>File operations\<close>

datatype JobPriority = PriorityLow | PriorityNormal | PriorityHigh
datatype SyncJobStatus = JobPending | JobRunning | JobCompleted | JobFailed | JobCancelled
datatype FileOperationStatus = OpPending | OpRunning | OpCompleted | OpFailed | OpSkipped

record FileOperation =
  op_id :: FileID
  op_fileID :: FileID
  op_operation :: string
  op_status :: FileOperationStatus
  op_startedAt :: "gotime option"
  op_completedAt :: "gotime option"
  op_errorMsg :: string
  op_attempts :: int
  op_maxAttempts :: int

definition NewFileOperation :: "string \<Rightarrow> FileID \<Rightarrow> string \<Rightarrow> FileOperation" where
  "NewFileOperation bytes fileID operation =
     \<lparr>op_id = NewFileID bytes, op_fileID = fileID, op_operation = operation, op_status = OpPending,
      op_startedAt = None, op_completedAt = None, op_errorMsg = [], op_attempts = 0, op_maxAttempts = 3\<rparr>"

definition op_Start :: "gotime \<Rightarrow> FileOperation \<Rightarrow> FileOperation" where
  "op_Start now op =
     (if op_status op = OpPending
      then op\<lparr>op_status := OpRunning, op_startedAt := Some now, op_attempts := op_attempts op + 1\<rparr>
      else op)"

definition op_Complete :: "gotime \<Rightarrow> FileOperation \<Rightarrow> FileOperation" where
  "op_Complete now op =
     (if op_status op = OpRunning then op\<lparr>op_status := OpCompleted, op_completedAt := Some now\<rparr> else op)"

definition op_Fail :: "gotime \<Rightarrow> string \<Rightarrow> FileOperation \<Rightarrow> FileOperation" where
  "op_Fail now errorMsg op =
     (if op_status op = OpRunning then
        let op' = op\<lparr>op_status := OpFailed, op_errorMsg := errorMsg\<rparr> in
        if op_attempts op \<ge> op_maxAttempts op then op'\<lparr>op_completedAt := Some now\<rparr> else op'
      else op)"

definition op_Retry :: "FileOperation \<Rightarrow> FileOperation" where
  "op_Retry op =
     (if op_status op = OpFailed \<and> op_attempts op < op_maxAttempts op
      then op\<lparr>op_status := OpPending, op_errorMsg := []\<rparr> else op)"

definition op_Skip :: "gotime \<Rightarrow> string \<Rightarrow> FileOperation \<Rightarrow> FileOperation" where
  "op_Skip now reason op = op\<lparr>op_status := OpSkipped, op_completedAt := Some now, op_errorMsg := reason\<rparr>"

definition CanRetry :: "FileOperation \<Rightarrow> bool" where
  "CanRetry op \<longleftrightarrow> op_status op = OpFailed \<and> op_attempts op < op_maxAttempts op"

definition op_IsCompleted :: "FileOperation \<Rightarrow> bool" where
  "op_IsCompleted op \<longleftrightarrow> op_status op = OpCompleted \<or> op_status op = OpSkipped"

definition op_IsFailed :: "FileOperation \<Rightarrow> bool" where
  "op_IsFailed op \<longleftrightarrow> op_status op = OpFailed \<and> op_attempts op \<ge> op_maxAttempts op"

section \<open>Jobs\<close>

record SyncJob =
  j_id :: SyncJobID
  j_sourceNode :: StorageNodeID
  j_targetNode :: StorageNodeID
  j_status :: SyncJobStatus
  j_operations :: "FileOperation list"
  j_createdAt :: gotime
  j_startedAt :: "gotime option"
  j_completedAt :: "gotime option"
  j_errorMsg :: string
  j_progress :: int
  j_total :: int
  j_priority :: JobPriority
  j_retryCount :: int
  j_timeout :: int
  j_metadata :: "(string, string) fmap"

text \<open>The random bytes of the job are \<open>rnd 0\<close>, those of the \<open>i\<close>-th operation \<open>rnd (i + 1)\<close>.\<close>
definition NewSyncJob ::
  "(nat \<Rightarrow> string) \<Rightarrow> gotime \<Rightarrow> StorageNodeID \<Rightarrow> StorageNodeID \<Rightarrow> FileID list \<Rightarrow> SyncJob" where
  "NewSyncJob rnd now sourceNode targetNode fileIDs =
     \<lparr>j_id = NewSyncJobID (rnd 0), j_sourceNode = sourceNode, j_targetNode = targetNode, j_status = JobPending,
      j_operations = map (\<lambda>(i, f). NewFileOperation (rnd (i + 1)) f ''sync'') (enumerate 0 fileIDs),
      j_createdAt = now, j_startedAt = None, j_completedAt = None, j_errorMsg = [], j_progress = 0,
      j_total = int (length fileIDs), j_priority = PriorityNormal, j_retryCount = 3,
      j_timeout = 30 * 60 * 1000000000, j_metadata = fmempty\<rparr>"

definition job_Start :: "gotime \<Rightarrow> SyncJob \<Rightarrow> SyncJob" where
  "job_Start now job =
     (if j_status job = JobPending then job\<lparr>j_status := JobRunning, j_startedAt := Some now\<rparr> else job)"

definition job_Complete :: "gotime \<Rightarrow> SyncJob \<Rightarrow> SyncJob" where
  "job_Complete now job =
     (if j_status job = JobRunning then job\<lparr>j_status := JobCompleted, j_completedAt := Some now\<rparr> else job)"

definition job_Fail :: "gotime \<Rightarrow> string \<Rightarrow> SyncJob \<Rightarrow> SyncJob" where
  "job_Fail now errorMsg job =
     (if j_status job = JobRunning
      then job\<lparr>j_status := JobFailed, j_completedAt := Some now, j_errorMsg := errorMsg\<rparr> else job)"

definition job_Cancel :: "gotime \<Rightarrow> SyncJob \<Rightarrow> SyncJob" where
  "job_Cancel now job =
     (if j_status job = JobPending \<or> j_status job = JobRunning
      then job\<lparr>j_status := JobCancelled, j_completedAt := Some now\<rparr> else job)"

definition UpdateProgress :: "gotime \<Rightarrow> SyncJob \<Rightarrow> SyncJob" where
  "UpdateProgress now job =
     (let completed = length (filter op_IsCompleted (j_operations job));
          job' = job\<lparr>j_progress := int completed\<rparr>
      in if completed = length (j_operations job) \<and> j_status job = JobRunning then job_Complete now job' else job')"

definition GetPendingOperations :: "SyncJob \<Rightarrow> FileOperation list" where
  "GetPendingOperations job = filter (\<lambda>op. op_status op = OpPending) (j_operations job)"

definition GetFailedOperations :: "SyncJob \<Rightarrow> FileOperation list" where
  "GetFailedOperations job = filter op_IsFailed (j_operations job)"

definition GetRunningOperations :: "SyncJob \<Rightarrow> FileOperation list" where
  "GetRunningOperations job = filter (\<lambda>op. op_status op = OpRunning) (j_operations job)"

definition HasFailures :: "SyncJob \<Rightarrow> bool" where
  "HasFailures job = list_ex op_IsFailed (j_operations job)"

definition job_IsCompleted :: "SyncJob \<Rightarrow> bool" where
  "job_IsCompleted job \<longleftrightarrow> j_status job = JobCompleted \<or> j_status job = JobFailed \<or> j_status job = JobCancelled"

text \<open>The percentage, as the exact rational the floating-point number approximates.\<close>
definition GetProgressPercentage :: "SyncJob \<Rightarrow> rat" where
  "GetProgressPercentage job =
     (if j_total job = 0 then 0 else of_int (j_progress job) / of_int (j_total job) * 100)"

definition SetPriority :: "JobPriority \<Rightarrow> SyncJob \<Rightarrow> SyncJob" where
  "SetPriority priority job = job\<lparr>j_priority := priority\<rparr>"

definition SetRetryCount :: "int \<Rightarrow> SyncJob \<Rightarrow> SyncJob" where
  "SetRetryCount count job = job\<lparr>j_retryCount := count\<rparr>"

definition SetTimeout :: "int \<Rightarrow> SyncJob \<Rightarrow> SyncJob" where
  "SetTimeout timeout job = job\<lparr>j_timeout := timeout\<rparr>"

definition job_SetMetadata :: "string \<Rightarrow> string \<Rightarrow> SyncJob \<Rightarrow> SyncJob" where
  "job_SetMetadata key v job = job\<lparr>j_metadata := fmupd key v (j_metadata job)\<rparr>"

section \<open>Calls\<close>

datatype op_call = StartOp gotime | CompleteOp gotime | FailOp gotime string | RetryOp | SkipOp gotime string

fun op_exec :: "op_call \<Rightarrow> FileOperation \<Rightarrow> FileOperation" where
  "op_exec (StartOp now) = op_Start now"
| "op_exec (CompleteOp now) = op_Complete now"
| "op_exec (FailOp now msg) = op_Fail now msg"
| "op_exec RetryOp = op_Retry"
| "op_exec (SkipOp now reason) = op_Skip now reason"

datatype job_call = StartJob gotime | CompleteJob gotime | FailJob gotime string | CancelJob gotime
  | Progress gotime | OnOp nat op_call | Priority JobPriority | RetryCount int | Timeout int | Metadata string string

fun job_exec :: "job_call \<Rightarrow> SyncJob \<Rightarrow> SyncJob" where
  "job_exec (StartJob now) job = job_Start now job"
| "job_exec (CompleteJob now) job = job_Complete now job"
| "job_exec (FailJob now msg) job = job_Fail now msg job"
| "job_exec (CancelJob now) job = job_Cancel now job"
| "job_exec (Progress now) job = UpdateProgress now job"
| "job_exec (OnOp i c) job =
     (if i < length (j_operations job)
      then job\<lparr>j_operations := (j_operations job)[i := op_exec c (j_operations job ! i)]\<rparr> else job)"
| "job_exec (Priority p) job = SetPriority p job"
| "job_exec (RetryCount n) job = SetRetryCount n job"
| "job_exec (Timeout t) job = SetTimeout t job"
| "job_exec (Metadata k v) job = job_SetMetadata k v job"

section \<open>Invariants\<close>

text \<open>At most three attempts; an operation that waits has one left.\<close>
definition op_inv :: "FileOperation \<Rightarrow> bool" where
  "op_inv op \<longleftrightarrow> op_maxAttempts op = 3 \<and> 0 \<le> op_attempts op \<and> op_attempts op \<le> 3 \<and>
     (op_status op = OpPending \<longrightarrow> op_attempts op < 3) \<and>
     (op_status op = OpRunning \<longrightarrow> op_startedAt op \<noteq> None \<and> 1 \<le> op_attempts op) \<and>
     (op_IsCompleted op \<or> op_IsFailed op \<longrightarrow> op_completedAt op \<noteq> None)"

lemmas op_defs = op_Start_def op_Complete_def op_Fail_def op_Retry_def op_Skip_def op_IsCompleted_def op_IsFailed_def

lemma op_inv_exec: "op_inv op \<Longrightarrow> op_inv (op_exec c op)"
  by (cases c) (auto simp: op_inv_def op_defs Let_def)

lemma op_inv_new: "op_inv (NewFileOperation bytes f s)"
  by (simp add: op_inv_def NewFileOperation_def op_IsCompleted_def op_IsFailed_def)

text \<open>The times of a job tell its status, and the progress counts at most all operations.\<close>
definition job_inv :: "SyncJob \<Rightarrow> bool" where
  "job_inv job \<longleftrightarrow>
     list_all op_inv (j_operations job) \<and>
     j_total job = int (length (j_operations job)) \<and> 0 \<le> j_progress job \<and> j_progress job \<le> j_total job \<and>
     (j_startedAt job = None \<longleftrightarrow> j_status job = JobPending \<or> (j_status job = JobCancelled \<and> j_startedAt job = None)) \<and>
     (j_completedAt job \<noteq> None \<longleftrightarrow> job_IsCompleted job)"

lemmas job_defs = job_Start_def job_Complete_def job_Fail_def job_Cancel_def UpdateProgress_def SetPriority_def
  SetRetryCount_def SetTimeout_def job_SetMetadata_def job_IsCompleted_def

lemma job_inv_exec:
  assumes "job_inv job"
  shows "job_inv (job_exec c job)"
proof (cases c)
  case (OnOp i d)
  then show ?thesis
    using assms by (auto simp: job_inv_def job_IsCompleted_def list_all_length op_inv_exec nth_list_update)
qed (use assms in \<open>auto simp: job_inv_def job_defs Let_def\<close>)

lemma job_inv_new: "job_inv (NewSyncJob rnd now a b files)"
  by (auto simp: job_inv_def NewSyncJob_def job_IsCompleted_def list_all_iff op_inv_new)

text \<open>What one call can do to the status.\<close>
lemma status_exec:
  "j_status (job_exec c job) =
     (case c of
        StartJob _ \<Rightarrow> if j_status job = JobPending then JobRunning else j_status job
      | CompleteJob _ \<Rightarrow> if j_status job = JobRunning then JobCompleted else j_status job
      | FailJob _ _ \<Rightarrow> if j_status job = JobRunning then JobFailed else j_status job
      | CancelJob _ \<Rightarrow> if j_status job = JobPending \<or> j_status job = JobRunning then JobCancelled else j_status job
      | Progress _ \<Rightarrow> if list_all op_IsCompleted (j_operations job) \<and> j_status job = JobRunning
                      then JobCompleted else j_status job
      | _ \<Rightarrow> j_status job)"
proof -
  have "length (filter P xs) = length xs \<longleftrightarrow> list_all P xs" for P :: "FileOperation \<Rightarrow> bool" and xs
    by (metis filter_True length_filter_less less_irrefl list_all_iff)
  then show ?thesis by (cases c) (simp_all add: job_defs Let_def)
qed

lemma terminal_fold: "job_IsCompleted job \<Longrightarrow> j_status (fold job_exec calls job) = j_status job"
proof (induction calls arbitrary: job)
  case (Cons c cs)
  have "j_status (job_exec c job) = j_status job"
    using Cons.prems by (auto simp: status_exec job_IsCompleted_def split: job_call.splits)
  then show ?case using Cons.IH [of "job_exec c job"] Cons.prems by (simp add: job_IsCompleted_def)
qed simp

text \<open>C23: the life of a job. Whatever is called on a new job and its operations, in any order, no operation is attempted
  more than three times, an operation that is pending can still be attempted, the progress lies between 0 and
  the number of operations, and the completion time is set exactly when the job is completed, failed or
  cancelled. Once it is, no further calls change its status. \<open>UpdateProgress\<close> completes a running job exactly
  when all its operations are completed or skipped; a job with an operation that has failed for good is never
  completed by it. \<open>Complete\<close> asks for nothing: it completes a running job whatever its operations are.\<close>
theorem job_lifecycle:
  assumes job: "job = fold job_exec calls (NewSyncJob rnd now a b files)"
  shows "list_all (\<lambda>op. op_attempts op \<le> 3 \<and> (op_status op = OpPending \<longrightarrow> op_attempts op < 3)) (j_operations job) \<and>
    0 \<le> j_progress job \<and> j_progress job \<le> j_total job \<and> j_total job = int (length files) \<and>
    (j_completedAt job \<noteq> None \<longleftrightarrow> job_IsCompleted job) \<and>
    (job_IsCompleted job \<longrightarrow> j_status (fold job_exec later job) = j_status job) \<and>
    (j_status job = JobRunning \<longrightarrow>
       (j_status (UpdateProgress t job) = JobCompleted \<longleftrightarrow> list_all op_IsCompleted (j_operations job)) \<and>
       (HasFailures job \<longrightarrow> j_status (UpdateProgress t job) = JobRunning) \<and> j_status (job_Complete t job) = JobCompleted)"
proof -
  have len: "length (j_operations (job_exec c j)) = length (j_operations j) \<and> j_total (job_exec c j) = j_total j" for c j
    by (cases c) (auto simp: job_defs Let_def)
  have total: "j_total (fold job_exec cs j) = j_total j" for cs j
    by (induction cs arbitrary: j) (simp_all add: len)
  have inv: "job_inv job"
    unfolding job by (rule fold_invariant_step [of job_inv]) (simp_all add: job_inv_new job_inv_exec)
  have fail: "\<not> list_all op_IsCompleted (j_operations job)" if "HasFailures job"
    using that by (fastforce simp: HasFailures_def list_ex_iff list_all_iff op_IsFailed_def op_IsCompleted_def)
  have upd: "j_status (UpdateProgress t job) =
      (if list_all op_IsCompleted (j_operations job) \<and> j_status job = JobRunning then JobCompleted else j_status job)"
    using status_exec [of "Progress t" job] by simp
  have "j_total job = int (length files)" unfolding job total by (simp add: NewSyncJob_def)
  moreover have "list_all (\<lambda>op. op_attempts op \<le> 3 \<and> (op_status op = OpPending \<longrightarrow> op_attempts op < 3)) (j_operations job)"
    using inv by (auto simp: job_inv_def op_inv_def list_all_iff)
  moreover have "j_status job = JobRunning \<Longrightarrow> j_status (UpdateProgress t job) =
      (if list_all op_IsCompleted (j_operations job) then JobCompleted else JobRunning)" by (simp add: upd)
  moreover have "j_status job = JobRunning \<Longrightarrow> j_status (job_Complete t job) = JobCompleted" by (simp add: job_Complete_def)
  ultimately show ?thesis using inv fail terminal_fold [of job later] unfolding job_inv_def by simp
qed

theorem job_lifecycle_witness:
  "let job = fold job_exec [StartJob 1, OnOp 0 (StartOp 2), OnOp 0 (FailOp 3 ''e''), OnOp 0 RetryOp, OnOp 0 (StartOp 4),
       OnOp 0 (CompleteOp 5), Progress 6] (NewSyncJob (\<lambda>i. []) 0 \<lparr>sn_value = ''a''\<rparr> \<lparr>sn_value = ''b''\<rparr> [\<lparr>fi_value = ''f''\<rparr>])
   in job_IsCompleted job \<and> j_status (fold job_exec [CancelJob 7, FailJob 8 ''late''] job) = j_status job"
proof -
  let ?calls = "[StartJob 1, OnOp 0 (StartOp 2), OnOp 0 (FailOp 3 ''e''), OnOp 0 RetryOp, OnOp 0 (StartOp 4),
       OnOp 0 (CompleteOp 5), Progress 6]"
  let ?job = "fold job_exec ?calls (NewSyncJob (\<lambda>i. []) 0 \<lparr>sn_value = ''a''\<rparr> \<lparr>sn_value = ''b''\<rparr> [\<lparr>fi_value = ''f''\<rparr>])"
  have "job_IsCompleted ?job" by code_simp
  then show ?thesis
    using job_lifecycle [where job = ?job and calls = ?calls and rnd = "\<lambda>i. []" and now = 0 and a = "\<lparr>sn_value = ''a''\<rparr>"
        and b = "\<lparr>sn_value = ''b''\<rparr>" and files = "[\<lparr>fi_value = ''f''\<rparr>]" and later = "[CancelJob 7, FailJob 8 ''late'']"]
    unfolding Let_def by blast
qed

end
