(* ===== verification/Entities.thy ===== *)
theory Entities
  imports Value_Objects
begin

text \<open>
  The entities of the domain layer (\<^verbatim>\<open>internal/domain/entities\<close>): files, storage nodes, conflicts and
  events. A constant of a string type is a constructor; \<open>time.Now()\<close> and random bytes are arguments. An
  \<open>int64\<close> is an \<open>int\<close> whose arithmetic wraps (\<open>int64\<close>).
\<close>

section \<open>64-bit arithmetic\<close>

definition int64 :: "int \<Rightarrow> int" where
  "int64 x = (x + 2 ^ 63) mod 2 ^ 64 - 2 ^ 63"

definition in_int64 :: "int \<Rightarrow> bool" where
  "in_int64 x \<longleftrightarrow> - (2 ^ 63) \<le> x \<and> x < 2 ^ 63"

lemma int64_id: "in_int64 x \<Longrightarrow> int64 x = x"
  by (simp add: int64_def in_int64_def)

lemma in_int64_int64: "in_int64 (int64 x)"
proof -
  have "0 \<le> (x + 2 ^ 63) mod 2 ^ 64" "(x + 2 ^ 63) mod 2 ^ 64 < 2 ^ 64" by simp_all
  then show ?thesis unfolding in_int64_def int64_def by simp
qed

section \<open>Files\<close>

datatype FileStatus = FileCreated | FileModified | FileDeleted | FileSynced | FileConflict | FileUploaded

record File =
  f_FileID :: FileID
  f_ID :: int
  f_FilePath :: FilePath
  f_FileHash :: FileHash
  f_FileSize :: int
  f_FileStatus :: FileStatus
  f_StorageNodeID :: StorageNodeID
  f_UserID :: int
  f_CreatedAt :: gotime
  f_ModifiedAt :: gotime
  f_SyncedAt :: "gotime option"
  f_Version :: int

definition NewFile :: "string \<Rightarrow> gotime \<Rightarrow> FilePath \<Rightarrow> FileHash \<Rightarrow> int \<Rightarrow> StorageNodeID \<Rightarrow> File" where
  "NewFile bytes now path hash sz nodeID =
     \<lparr>f_FileID = NewFileID bytes, f_ID = 0, f_FilePath = path, f_FileHash = hash, f_FileSize = sz,
      f_FileStatus = FileCreated, f_StorageNodeID = nodeID, f_UserID = 0, f_CreatedAt = now, f_ModifiedAt = now,
      f_SyncedAt = None, f_Version = 1\<rparr>"

definition HasSameContent :: "File \<Rightarrow> File \<Rightarrow> bool" where
  "HasSameContent f other \<longleftrightarrow> fh_value (f_FileHash f) = fh_value (f_FileHash other)"

definition MarkAsSynced :: "gotime \<Rightarrow> File \<Rightarrow> File" where
  "MarkAsSynced now f = f\<lparr>f_FileStatus := FileSynced, f_ModifiedAt := now\<rparr>"

section \<open>Storage nodes\<close>

datatype NodeStatus = NodeOnline | NodeOffline | NodeError | NodeSyncing
datatype NodeType = NodeLocal | NodeCloud | NodeNetwork

record StorageNode =
  n_id :: StorageNodeID
  n_name :: string
  n_nodeType :: NodeType
  n_status :: NodeStatus
  n_endpoint :: string
  n_createdAt :: gotime
  n_lastSeenAt :: gotime
  n_capacity :: int
  n_usedSpace :: int
  n_metadata :: "(string, string) fmap"

definition NewStorageNode :: "string \<Rightarrow> gotime \<Rightarrow> string \<Rightarrow> NodeType \<Rightarrow> string \<Rightarrow> int \<Rightarrow> StorageNode" where
  "NewStorageNode bytes now name nodeType endpoint capacity =
     \<lparr>n_id = NewStorageNodeID bytes, n_name = name, n_nodeType = nodeType, n_status = NodeOffline,
      n_endpoint = endpoint, n_createdAt = now, n_lastSeenAt = now, n_capacity = capacity, n_usedSpace = 0,
      n_metadata = fmempty\<rparr>"

definition FreeSpace :: "StorageNode \<Rightarrow> int" where
  "FreeSpace n = int64 (n_capacity n - n_usedSpace n)"

definition SetOnline :: "gotime \<Rightarrow> StorageNode \<Rightarrow> StorageNode" where
  "SetOnline now n = n\<lparr>n_status := NodeOnline, n_lastSeenAt := now\<rparr>"

definition SetOffline :: "StorageNode \<Rightarrow> StorageNode" where
  "SetOffline n = n\<lparr>n_status := NodeOffline\<rparr>"

definition SetError :: "StorageNode \<Rightarrow> StorageNode" where
  "SetError n = n\<lparr>n_status := NodeError\<rparr>"

definition SetSyncing :: "StorageNode \<Rightarrow> StorageNode" where
  "SetSyncing n = n\<lparr>n_status := NodeSyncing\<rparr>"

definition UpdateLastSeen :: "gotime \<Rightarrow> StorageNode \<Rightarrow> StorageNode" where
  "UpdateLastSeen now n =
     n\<lparr>n_lastSeenAt := now, n_status := (if n_status n = NodeOffline then NodeOnline else n_status n)\<rparr>"

definition UpdateUsedSpace :: "int \<Rightarrow> StorageNode \<Rightarrow> StorageNode" where
  "UpdateUsedSpace space n = n\<lparr>n_usedSpace := space\<rparr>"

definition AddUsedSpace :: "int \<Rightarrow> StorageNode \<Rightarrow> StorageNode" where
  "AddUsedSpace delta n =
     (let newUsedSpace = int64 (n_usedSpace n + delta) in
      if newUsedSpace \<ge> 0 \<and> newUsedSpace \<le> n_capacity n then n\<lparr>n_usedSpace := newUsedSpace\<rparr> else n)"

definition Node_SetMetadata :: "string \<Rightarrow> string \<Rightarrow> StorageNode \<Rightarrow> StorageNode" where
  "Node_SetMetadata key v n = n\<lparr>n_metadata := fmupd key v (n_metadata n)\<rparr>"

definition Node_GetMetadata :: "StorageNode \<Rightarrow> string \<Rightarrow> string" where
  "Node_GetMetadata n key = (case fmlookup (n_metadata n) key of None \<Rightarrow> [] | Some v \<Rightarrow> v)"

definition IsOnline :: "StorageNode \<Rightarrow> bool" where
  "IsOnline n \<longleftrightarrow> n_status n = NodeOnline \<or> n_status n = NodeSyncing"

definition HasEnoughSpace :: "StorageNode \<Rightarrow> int \<Rightarrow> bool" where
  "HasEnoughSpace n requiredSpace \<longleftrightarrow> FreeSpace n \<ge> requiredSpace"

definition Node_IsLocal :: "StorageNode \<Rightarrow> bool" where
  "Node_IsLocal n \<longleftrightarrow> n_nodeType n = NodeLocal"

definition Node_IsCloud :: "StorageNode \<Rightarrow> bool" where
  "Node_IsCloud n \<longleftrightarrow> n_nodeType n = NodeCloud"

section \<open>Conflicts\<close>

datatype ConflictType = ContentConflict | DeletionConflict | RenameConflict | PermissionConflict
text \<open>Callers pass a resolution as a string: \<open>OtherResolution\<close> is one without a constant.\<close>
datatype ConflictResolution = KeepSourceFile | KeepTargetFile | KeepBothFiles | ManualMerge | OtherResolution string
datatype ConflictSeverity = SeverityLow | SeverityMedium | SeverityHigh

record Conflict =
  c_id :: ConflictID
  c_fileID :: FileID
  c_sourceNode :: StorageNodeID
  c_targetNode :: StorageNodeID
  c_conflictType :: ConflictType
  c_description :: string
  c_resolution :: "ConflictResolution option"
  c_resolvedAt :: "gotime option"
  c_createdAt :: gotime
  c_UpdatedAt :: gotime
  c_sourceFile :: File
  c_targetFile :: File

definition NewConflict ::
  "string \<Rightarrow> gotime \<Rightarrow> FileID \<Rightarrow> StorageNodeID \<Rightarrow> StorageNodeID \<Rightarrow> ConflictType \<Rightarrow> string \<Rightarrow> File \<Rightarrow> File \<Rightarrow> Conflict" where
  "NewConflict bytes now fileID sourceNode targetNode conflictType description sourceFile targetFile =
     \<lparr>c_id = NewConflictID bytes, c_fileID = fileID, c_sourceNode = sourceNode, c_targetNode = targetNode,
      c_conflictType = conflictType, c_description = description, c_resolution = None, c_resolvedAt = None,
      c_createdAt = now, c_UpdatedAt = now, c_sourceFile = sourceFile, c_targetFile = targetFile\<rparr>"

definition IsResolved :: "Conflict \<Rightarrow> bool" where
  "IsResolved c \<longleftrightarrow> c_resolution c \<noteq> None"

definition Resolve :: "gotime \<Rightarrow> ConflictResolution \<Rightarrow> Conflict \<Rightarrow> Conflict" where
  "Resolve now resolution c = c\<lparr>c_resolution := Some resolution, c_resolvedAt := Some now\<rparr>"

definition GetSeverity :: "Conflict \<Rightarrow> ConflictSeverity" where
  "GetSeverity c =
     (if c_conflictType c = ContentConflict then SeverityHigh
      else if c_conflictType c = DeletionConflict then SeverityMedium
      else SeverityLow)"

section \<open>Events\<close>

datatype EventType = EvFileCreated | EvFileModified | EvFileDeleted | EvFileMoved | EvSyncStarted | EvSyncCompleted
  | EvSyncFailed | EvConflictDetected | EvConflictResolved

record SyncEvent =
  ev_id :: SyncEventID
  ev_eventType :: EventType
  ev_nodeID :: StorageNodeID
  ev_filePath :: FilePath
  ev_description :: string
  ev_timestamp :: gotime
  ev_metadata :: "(string, string) fmap"
  ev_jobID :: "SyncJobID option"

definition NewSyncEvent :: "string \<Rightarrow> gotime \<Rightarrow> EventType \<Rightarrow> StorageNodeID \<Rightarrow> FilePath \<Rightarrow> string \<Rightarrow> SyncEvent" where
  "NewSyncEvent bytes now eventType nodeID filePath description =
     \<lparr>ev_id = NewSyncEventID bytes, ev_eventType = eventType, ev_nodeID = nodeID, ev_filePath = filePath,
      ev_description = description, ev_timestamp = now, ev_metadata = fmempty, ev_jobID = None\<rparr>"

definition SetJobID :: "SyncJobID \<Rightarrow> SyncEvent \<Rightarrow> SyncEvent" where
  "SetJobID jobID e = e\<lparr>ev_jobID := Some jobID\<rparr>"

definition Event_SetMetadata :: "string \<Rightarrow> string \<Rightarrow> SyncEvent \<Rightarrow> SyncEvent" where
  "Event_SetMetadata key v e = e\<lparr>ev_metadata := fmupd key v (ev_metadata e)\<rparr>"

definition Event_GetMetadata :: "SyncEvent \<Rightarrow> string \<Rightarrow> string" where
  "Event_GetMetadata e key = (case fmlookup (ev_metadata e) key of None \<Rightarrow> [] | Some v \<Rightarrow> v)"

definition IsFileEvent :: "SyncEvent \<Rightarrow> bool" where
  "IsFileEvent e \<longleftrightarrow> ev_eventType e = EvFileCreated \<or> ev_eventType e = EvFileModified \<or>
     ev_eventType e = EvFileDeleted \<or> ev_eventType e = EvFileMoved"

definition IsSyncEvent :: "SyncEvent \<Rightarrow> bool" where
  "IsSyncEvent e \<longleftrightarrow> ev_eventType e = EvSyncStarted \<or> ev_eventType e = EvSyncCompleted \<or> ev_eventType e = EvSyncFailed"

definition IsConflictEvent :: "SyncEvent \<Rightarrow> bool" where
  "IsConflictEvent e \<longleftrightarrow> ev_eventType e = EvConflictDetected \<or> ev_eventType e = EvConflictResolved"

definition IsFailureEvent :: "SyncEvent \<Rightarrow> bool" where
  "IsFailureEvent e \<longleftrightarrow> ev_eventType e = EvSyncFailed"

definition IsSuccessEvent :: "SyncEvent \<Rightarrow> bool" where
  "IsSuccessEvent e \<longleftrightarrow> ev_eventType e = EvSyncCompleted \<or> ev_eventType e = EvConflictResolved"

section \<open>The space of a node\<close>

text \<open>The node's books are in order.\<close>
definition space_ok :: "StorageNode \<Rightarrow> bool" where
  "space_ok n \<longleftrightarrow> 0 \<le> n_usedSpace n \<and> n_usedSpace n \<le> n_capacity n \<and> in_int64 (n_capacity n)"

lemma free_space: "space_ok n \<Longrightarrow> FreeSpace n = n_capacity n - n_usedSpace n"
  by (simp add: FreeSpace_def space_ok_def in_int64_def int64_id)

lemma add_used:
  assumes "space_ok n" "in_int64 delta"
  shows "n_usedSpace (AddUsedSpace delta n) =
    (if 0 \<le> n_usedSpace n + delta \<and> n_usedSpace n + delta \<le> n_capacity n then n_usedSpace n + delta else n_usedSpace n)"
proof (cases "in_int64 (n_usedSpace n + delta)")
  case True
  then show ?thesis by (simp add: AddUsedSpace_def int64_id Let_def)
next
  case False
  then have big: "2 ^ 63 \<le> n_usedSpace n + delta" "n_usedSpace n + delta < 2 ^ 64"
    using assms by (auto simp: space_ok_def in_int64_def)
  then have "(n_usedSpace n + delta + 2 ^ 63) mod 2 ^ 64 = n_usedSpace n + delta + 2 ^ 63 - 2 ^ 64"
    by (intro int_mod_pos_eq [of _ _ 1]) auto
  then have "int64 (n_usedSpace n + delta) < 0" using big unfolding int64_def by linarith
  moreover have "n_capacity n < n_usedSpace n + delta" using assms big by (auto simp: space_ok_def in_int64_def)
  ultimately show ?thesis by (simp add: AddUsedSpace_def Let_def)
qed

text \<open>The space of a storage node. Starting from books that are in order, any sequence of bookings through
  \<open>AddUsedSpace\<close>, of any 64-bit amounts, keeps the used space between 0 and the capacity, also where the 64-bit
  sum wraps: a booking takes effect exactly when the true sum fits, and is ignored otherwise. The free
  space is then the exact difference.\<close>
theorem used_space_bounded:
  assumes "space_ok n" and "list_all in_int64 deltas"
  shows "space_ok (fold AddUsedSpace deltas n) \<and>
    n_usedSpace (fold AddUsedSpace deltas n) =
      fold (\<lambda>d u. if 0 \<le> u + d \<and> u + d \<le> n_capacity n then u + d else u) deltas (n_usedSpace n) \<and>
    FreeSpace (fold AddUsedSpace deltas n) = n_capacity n - n_usedSpace (fold AddUsedSpace deltas n)"
proof -
  have cap: "n_capacity (AddUsedSpace d m) = n_capacity m" for d m by (simp add: AddUsedSpace_def Let_def)
  have "space_ok (fold AddUsedSpace deltas n) \<and> n_capacity (fold AddUsedSpace deltas n) = n_capacity n \<and>
    n_usedSpace (fold AddUsedSpace deltas n) =
      fold (\<lambda>d u. if 0 \<le> u + d \<and> u + d \<le> n_capacity n then u + d else u) deltas (n_usedSpace n)"
    using assms
  proof (induction deltas arbitrary: n)
    case (Cons d ds)
    have "space_ok (AddUsedSpace d n)"
      using add_used [of n d] Cons.prems by (simp add: space_ok_def cap)
    with Cons.IH [of "AddUsedSpace d n"] Cons.prems add_used [of n d] show ?case by (simp add: cap)
  qed simp
  then show ?thesis by (simp add: free_space)
qed

theorem used_space_bounded_witness:
  "n_usedSpace (fold AddUsedSpace [60, 9223372036854775807, 50, - 20] (NewStorageNode [] 0 ''n'' NodeLocal [] 100)) = 40"
proof -
  have "space_ok (NewStorageNode [] 0 ''n'' NodeLocal [] 100)" by (simp add: space_ok_def NewStorageNode_def in_int64_def)
  moreover have "list_all in_int64 [60, 9223372036854775807, 50, - 20]" by (simp add: in_int64_def)
  ultimately show ?thesis
    using used_space_bounded [of "NewStorageNode [] 0 ''n'' NodeLocal [] 100" "[60, 9223372036854775807, 50, - 20]"]
    by (simp add: NewStorageNode_def)
qed

end
