(* ===== verification/Sync_Service.thy ===== *)
theory Sync_Service
  imports Sync_Job Entities Sync_Node
begin

text \<open>
  The domain service for synchronisation (\<^verbatim>\<open>internal/domain/services/sync_service.go\<close>) over the repositories of
  \<^verbatim>\<open>internal/domain/repositories\<close>, records of operations on a world \<open>'w\<close>. A repository takes and returns
  pointers: \<open>Save\<close> of a file returns the file as the call leaves it. The \<open>i\<close>-th random bytes and the \<open>i\<close>-th
  reading of the clock are \<open>rnd i\<close> and \<open>now i\<close>; \<open>layout\<close> is \<open>Format\<close> in the local time zone.
\<close>

section \<open>Repositories\<close>

record 'w FileRepository =
  fr_Save :: "File \<Rightarrow> ('w, File) io"
  fr_FindByID :: "FileID \<Rightarrow> ('w, File) io"
  fr_FindByPath :: "StorageNodeID \<Rightarrow> FilePath \<Rightarrow> ('w, File) io"
  fr_FindByNode :: "StorageNodeID \<Rightarrow> ('w, File list) io"
  fr_FindModifiedSince :: "StorageNodeID \<Rightarrow> gotime \<Rightarrow> ('w, File list) io"
  fr_Delete :: "FileID \<Rightarrow> ('w, unit) io"
  fr_Exists :: "StorageNodeID \<Rightarrow> FilePath \<Rightarrow> ('w, bool) io"

record 'w StorageNodeRepository =
  nr_Save :: "StorageNode \<Rightarrow> ('w, unit) io"
  nr_FindByID :: "StorageNodeID \<Rightarrow> ('w, StorageNode) io"
  nr_FindAll :: "('w, StorageNode list) io"
  nr_FindByType :: "NodeType \<Rightarrow> ('w, StorageNode list) io"
  nr_FindOnline :: "('w, StorageNode list) io"
  nr_Delete :: "StorageNodeID \<Rightarrow> ('w, unit) io"
  nr_UpdateStatus :: "StorageNodeID \<Rightarrow> NodeStatus \<Rightarrow> ('w, unit) io"

record 'w ConflictRepository =
  cr_Save :: "Conflict \<Rightarrow> ('w, unit) io"
  cr_FindByID :: "ConflictID \<Rightarrow> ('w, Conflict) io"
  cr_FindByFileID :: "FileID \<Rightarrow> ('w, Conflict list) io"
  cr_FindByNodes :: "StorageNodeID \<Rightarrow> StorageNodeID \<Rightarrow> ('w, Conflict list) io"
  cr_FindUnresolved :: "('w, Conflict list) io"
  cr_Delete :: "ConflictID \<Rightarrow> ('w, unit) io"

text \<open>The event \<open>ConflictDetected\<close> of \<^verbatim>\<open>internal/domain/domainevents/events.go\<close>.\<close>
record ConflictDetected =
  cd_eventID :: string
  cd_occurredAt :: gotime
  cd_conflictID :: ConflictID
  cd_fileID :: FileID
  cd_sourceNode :: StorageNodeID
  cd_targetNode :: StorageNodeID
  cd_conflictType :: ConflictType
  cd_description :: string
  cd_sourceFile :: File
  cd_targetFile :: File

definition NewConflictDetected ::
  "string \<Rightarrow> gotime \<Rightarrow> ConflictID \<Rightarrow> FileID \<Rightarrow> StorageNodeID \<Rightarrow> StorageNodeID \<Rightarrow> ConflictType \<Rightarrow> string \<Rightarrow> File \<Rightarrow> File \<Rightarrow>
   ConflictDetected" where
  "NewConflictDetected bytes now conflictID fileID sourceNode targetNode conflictType description sourceFile targetFile =
     \<lparr>cd_eventID = fi_value (NewFileID bytes), cd_occurredAt = now, cd_conflictID = conflictID, cd_fileID = fileID,
      cd_sourceNode = sourceNode, cd_targetNode = targetNode, cd_conflictType = conflictType,
      cd_description = description, cd_sourceFile = sourceFile, cd_targetFile = targetFile\<rparr>"

text \<open>The interface \<open>EventBus\<close> is its one operation \<open>Publish\<close>.\<close>
record 'w SyncDomainService =
  sv_fileRepo :: "'w FileRepository"
  sv_nodeRepo :: "'w StorageNodeRepository"
  sv_conflictRepo :: "'w ConflictRepository"
  sv_Publish :: "ConflictDetected \<Rightarrow> ('w, unit) io"

section \<open>Finding conflicts\<close>

definition analyzeFileConflict ::
  "(gotime \<Rightarrow> string) \<Rightarrow> string \<Rightarrow> gotime \<Rightarrow> File \<Rightarrow> File \<Rightarrow> StorageNodeID \<Rightarrow> StorageNodeID \<Rightarrow> Conflict option" where
  "analyzeFileConflict layout bytes now sourceFile targetFile sourceNode targetNode =
     (if \<not> HasSameContent sourceFile targetFile \<and> f_FileStatus sourceFile = FileModified \<and>
         f_FileStatus targetFile = FileModified
      then Some (NewConflict bytes now (f_FileID sourceFile) sourceNode targetNode ContentConflict
             (''Content conflict: both files modified on '' @ layout (f_ModifiedAt sourceFile) @ '' and '' @
              layout (f_ModifiedAt targetFile)) sourceFile targetFile)
      else let fileID = FileIDFromInt64 (f_ID sourceFile) in
        if f_FileStatus sourceFile = FileDeleted \<and> f_FileStatus targetFile = FileModified
        then Some (NewConflict bytes now fileID sourceNode targetNode DeletionConflict
               ''File deleted on source but modified on target'' sourceFile targetFile)
        else if f_FileStatus targetFile = FileDeleted \<and> f_FileStatus sourceFile = FileModified
        then Some (NewConflict bytes now fileID sourceNode targetNode DeletionConflict
               ''File deleted on target but modified on source'' sourceFile targetFile)
        else None)"

text \<open>The loop over the source files; \<open>i\<close> counts them.\<close>
primrec find_conflicts ::
  "(gotime \<Rightarrow> string) \<Rightarrow> (nat \<Rightarrow> string) \<Rightarrow> (nat \<Rightarrow> gotime) \<Rightarrow> (string, File) fmap \<Rightarrow> StorageNodeID \<Rightarrow> StorageNodeID \<Rightarrow>
   nat \<Rightarrow> File list \<Rightarrow> Conflict list" where
  "find_conflicts layout rnd now targets sourceNode targetNode i [] = []"
| "find_conflicts layout rnd now targets sourceNode targetNode i (sourceFile # rest) =
     (let later = find_conflicts layout rnd now targets sourceNode targetNode (Suc i) rest in
      case fmlookup targets (fp_value (f_FilePath sourceFile)) of
        None \<Rightarrow> later
      | Some targetFile \<Rightarrow>
          (case analyzeFileConflict layout (rnd i) (now i) sourceFile targetFile sourceNode targetNode of
             None \<Rightarrow> later
           | Some conflict \<Rightarrow> conflict # later))"

text \<open>The loop that publishes the conflicts; an error is only printed.\<close>
primrec publish_conflicts ::
  "'w SyncDomainService \<Rightarrow> (nat \<Rightarrow> string) \<Rightarrow> (nat \<Rightarrow> gotime) \<Rightarrow> nat \<Rightarrow> Conflict list \<Rightarrow> 'w \<Rightarrow> 'w" where
  "publish_conflicts s rnd now i [] w = w"
| "publish_conflicts s rnd now i (c # cs) w =
     publish_conflicts s rnd now (Suc i) cs
       (snd (sv_Publish s (NewConflictDetected (rnd i) (now i) (c_id c) (c_fileID c) (c_sourceNode c) (c_targetNode c)
               (c_conflictType c) (c_description c) (c_sourceFile c) (c_targetFile c)) w))"

definition DetectConflicts ::
  "(gotime \<Rightarrow> string) \<Rightarrow> (nat \<Rightarrow> string) \<Rightarrow> (nat \<Rightarrow> gotime) \<Rightarrow> 'w SyncDomainService \<Rightarrow> StorageNodeID \<Rightarrow> StorageNodeID \<Rightarrow>
   ('w, Conflict list) io" where
  "DetectConflicts layout rnd now s sourceNode targetNode w =
     (case fr_FindByNode (sv_fileRepo s) sourceNode w of
        (Inl err, w1) \<Rightarrow> (Inl (Wrapf ''failed to get source files: '' err), w1)
      | (Inr sourceFiles, w1) \<Rightarrow>
     (case fr_FindByNode (sv_fileRepo s) targetNode w1 of
        (Inl err, w2) \<Rightarrow> (Inl (Wrapf ''failed to get target files: '' err), w2)
      | (Inr targetFiles, w2) \<Rightarrow>
          let targetFileMap = map_from (\<lambda>f. fp_value (f_FilePath f)) id targetFiles;
              conflicts = find_conflicts layout rnd now targetFileMap sourceNode targetNode 0 sourceFiles
          in (Inr conflicts, publish_conflicts s rnd now (length sourceFiles) conflicts w2)))"

section \<open>Creating a job\<close>

primrec getFileDetails :: "'w SyncDomainService \<Rightarrow> FileID list \<Rightarrow> ('w, File list) io" where
  "getFileDetails s [] w = (Inr [], w)"
| "getFileDetails s (fileID # rest) w =
     (case fr_FindByID (sv_fileRepo s) fileID w of
        (Inl err, w1) \<Rightarrow> (Inl (Wrapf (''failed to find file '' @ fi_value fileID @ '': '') err), w1)
      | (Inr f, w1) \<Rightarrow>
          (case getFileDetails s rest w1 of
             (Inl err, w2) \<Rightarrow> (Inl err, w2)
           | (Inr files, w2) \<Rightarrow> (Inr (f # files), w2)))"

definition total_size :: "File list \<Rightarrow> int" where
  "total_size files = fold (\<lambda>f total. int64 (total + f_FileSize f)) files 0"

definition check_space :: "StorageNode \<Rightarrow> File list \<Rightarrow> gerr option" where
  "check_space target files =
     (let totalSize = total_size files in
      if HasEnoughSpace target totalSize then None
      else Some (Errorf (''target node doesn'' @ [CHR 0x27] @ ''t have enough space. Required: '' @ int_text totalSize @
             '', Available: '' @ int_text (FreeSpace target))))"

definition CreateSyncJob ::
  "(nat \<Rightarrow> string) \<Rightarrow> gotime \<Rightarrow> 'w SyncDomainService \<Rightarrow> StorageNodeID \<Rightarrow> StorageNodeID \<Rightarrow> FileID list \<Rightarrow> ('w, SyncJob) io" where
  "CreateSyncJob rnd now s sourceNode targetNode fileIDs w =
     (case nr_FindByID (sv_nodeRepo s) sourceNode w of
        (Inl err, w1) \<Rightarrow> (Inl (Wrapf ''source node not found: '' err), w1)
      | (Inr source, w1) \<Rightarrow>
     (case nr_FindByID (sv_nodeRepo s) targetNode w1 of
        (Inl err, w2) \<Rightarrow> (Inl (Wrapf ''target node not found: '' err), w2)
      | (Inr target, w2) \<Rightarrow>
          if \<not> IsOnline source then (Inl (Errorf ''source node is not online''), w2)
          else if \<not> IsOnline target then (Inl (Errorf ''target node is not online''), w2)
          else if fileIDs = [] then (Inr (NewSyncJob rnd now sourceNode targetNode fileIDs), w2)
          else case getFileDetails s fileIDs w2 of
              (Inl err, w3) \<Rightarrow> (Inl (Wrapf ''failed to get file details: '' err), w3)
            | (Inr files, w3) \<Rightarrow>
                (case check_space target files of
                   Some err \<Rightarrow> (Inl err, w3)
                 | None \<Rightarrow> (Inr (NewSyncJob rnd now sourceNode targetNode fileIDs), w3))))"

section \<open>Resolving a conflict\<close>

text \<open>\<open>Save\<close> of a file of the conflict, which the conflict points to.\<close>
definition keepSourceFile :: "(nat \<Rightarrow> gotime) \<Rightarrow> 'w SyncDomainService \<Rightarrow> Conflict \<Rightarrow> ('w, unit) io" where
  "keepSourceFile now s conflict w =
     (case fr_Save (sv_fileRepo s) (MarkAsSynced (now 0) (c_sourceFile conflict)) w of
        (Inl err, w1) \<Rightarrow> (Inl (Wrapf ''failed to save source file: '' err), w1)
      | (Inr sourceFile, w1) \<Rightarrow>
          cr_Save (sv_conflictRepo s) (Resolve (now 1) KeepSourceFile (conflict\<lparr>c_sourceFile := sourceFile\<rparr>)) w1)"

definition keepTargetFile :: "(nat \<Rightarrow> gotime) \<Rightarrow> 'w SyncDomainService \<Rightarrow> Conflict \<Rightarrow> ('w, unit) io" where
  "keepTargetFile now s conflict w =
     (case fr_Save (sv_fileRepo s) (MarkAsSynced (now 0) (c_targetFile conflict)) w of
        (Inl err, w1) \<Rightarrow> (Inl (Wrapf ''failed to save target file: '' err), w1)
      | (Inr targetFile, w1) \<Rightarrow>
          cr_Save (sv_conflictRepo s) (Resolve (now 1) KeepTargetFile (conflict\<lparr>c_targetFile := targetFile\<rparr>)) w1)"

definition keepBothFiles :: "(nat \<Rightarrow> gotime) \<Rightarrow> 'w SyncDomainService \<Rightarrow> Conflict \<Rightarrow> ('w, unit) io" where
  "keepBothFiles now s conflict w =
     (case fr_Save (sv_fileRepo s) (MarkAsSynced (now 0) (c_sourceFile conflict)) w of
        (Inl err, w1) \<Rightarrow> (Inl (Wrapf ''failed to save source file: '' err), w1)
      | (Inr sourceFile, w1) \<Rightarrow>
     (case fr_Save (sv_fileRepo s) (MarkAsSynced (now 1) (c_targetFile conflict)) w1 of
        (Inl err, w2) \<Rightarrow> (Inl (Wrapf ''failed to save target file: '' err), w2)
      | (Inr targetFile, w2) \<Rightarrow>
          cr_Save (sv_conflictRepo s)
            (Resolve (now 2) KeepBothFiles (conflict\<lparr>c_sourceFile := sourceFile, c_targetFile := targetFile\<rparr>)) w2))"

definition ResolveConflict ::
  "(nat \<Rightarrow> gotime) \<Rightarrow> 'w SyncDomainService \<Rightarrow> ConflictID \<Rightarrow> ConflictResolution \<Rightarrow> ('w, unit) io" where
  "ResolveConflict now s conflictID resolution w =
     (case cr_FindByID (sv_conflictRepo s) conflictID w of
        (Inl err, w1) \<Rightarrow> (Inl (Wrapf ''conflict not found: '' err), w1)
      | (Inr conflict, w1) \<Rightarrow>
          (case (case resolution of
                   KeepSourceFile \<Rightarrow> keepSourceFile now s conflict w1
                 | KeepTargetFile \<Rightarrow> keepTargetFile now s conflict w1
                 | KeepBothFiles \<Rightarrow> keepBothFiles now s conflict w1
                 | ManualMerge \<Rightarrow> cr_Save (sv_conflictRepo s) (Resolve (now 0) resolution conflict) w1
                 | OtherResolution _ \<Rightarrow> (Inr (), w1)) of
             (Inl err, w2) \<Rightarrow> (Inl (Wrapf ''failed to apply resolution: '' err), w2)
           | (Inr _, w2) \<Rightarrow> (Inr (), w2)))"

section \<open>Examples\<close>

text \<open>Repositories kept as a list of files, with the given nodes and no conflicts on record; nobody listens to events.\<close>
definition list_service :: "StorageNode list \<Rightarrow> File list SyncDomainService" where
  "list_service nodes =
     \<lparr>sv_fileRepo =
        \<lparr>fr_Save = \<lambda>f w. (Inr f, f # filter (\<lambda>g. f_FileID g \<noteq> f_FileID f) w),
         fr_FindByID = \<lambda>i w. (case find (\<lambda>f. f_FileID f = i) w of None \<Rightarrow> Inl (Errorf ''no rows'') | Some f \<Rightarrow> Inr f, w),
         fr_FindByPath = \<lambda>n p w. (case find (\<lambda>f. f_StorageNodeID f = n \<and> f_FilePath f = p) w of
             None \<Rightarrow> Inl (Errorf ''no rows'') | Some f \<Rightarrow> Inr f, w),
         fr_FindByNode = \<lambda>n w. (Inr (filter (\<lambda>f. f_StorageNodeID f = n) w), w),
         fr_FindModifiedSince = \<lambda>n t w. (Inr (filter (\<lambda>f. f_StorageNodeID f = n \<and> f_ModifiedAt f > t) w), w),
         fr_Delete = \<lambda>i w. (Inr (), filter (\<lambda>f. f_FileID f \<noteq> i) w),
         fr_Exists = \<lambda>n p w. (Inr (list_ex (\<lambda>f. f_StorageNodeID f = n \<and> f_FilePath f = p) w), w)\<rparr>,
      sv_nodeRepo =
        \<lparr>nr_Save = \<lambda>n w. (Inr (), w),
         nr_FindByID = \<lambda>i w. (case find (\<lambda>n. n_id n = i) nodes of None \<Rightarrow> Inl (Errorf ''no rows'') | Some n \<Rightarrow> Inr n, w),
         nr_FindAll = \<lambda>w. (Inr nodes, w), nr_FindByType = \<lambda>t w. (Inr (filter (\<lambda>n. n_nodeType n = t) nodes), w),
         nr_FindOnline = \<lambda>w. (Inr (filter IsOnline nodes), w), nr_Delete = \<lambda>i w. (Inr (), w),
         nr_UpdateStatus = \<lambda>i t w. (Inr (), w)\<rparr>,
      sv_conflictRepo =
        \<lparr>cr_Save = \<lambda>c w. (Inr (), w), cr_FindByID = \<lambda>i w. (Inl (Errorf ''no rows''), w),
         cr_FindByFileID = \<lambda>i w. (Inr [], w), cr_FindByNodes = \<lambda>a b w. (Inr [], w),
         cr_FindUnresolved = \<lambda>w. (Inr [], w), cr_Delete = \<lambda>i w. (Inr (), w)\<rparr>,
      sv_Publish = \<lambda>e w. (Inl (Errorf ''no broker''), w)\<rparr>"

definition example_file :: "string \<Rightarrow> string \<Rightarrow> string \<Rightarrow> int \<Rightarrow> FileStatus \<Rightarrow> File" where
  "example_file node path hash sz status =
     (NewFile path 0 \<lparr>fp_value = path\<rparr> \<lparr>fh_value = hash\<rparr> sz \<lparr>sn_value = node\<rparr>)\<lparr>f_FileStatus := status\<rparr>"

definition example_files :: "File list" where
  "example_files =
     [example_file ''a'' ''/x'' ''h1'' 1 FileModified, example_file ''a'' ''/y'' ''h2'' 2 FileModified,
      example_file ''a'' ''/z'' ''h3'' 3 FileDeleted, example_file ''b'' ''/x'' ''h4'' 4 FileModified,
      example_file ''b'' ''/y'' ''h2'' 5 FileModified, example_file ''b'' ''/z'' ''h3'' 6 FileModified]"

section \<open>What the service promises\<close>

abbreviation path_of :: "File \<Rightarrow> string" where
  "path_of f \<equiv> fp_value (f_FilePath f)"

text \<open>When two versions of a file conflict, and how.\<close>
definition conflict_kind :: "File \<Rightarrow> File \<Rightarrow> ConflictType option" where
  "conflict_kind f g =
     (if f_FileStatus f = FileModified \<and> f_FileStatus g = FileModified then
        (if fh_value (f_FileHash f) = fh_value (f_FileHash g) then None else Some ContentConflict)
      else if {f_FileStatus f, f_FileStatus g} = {FileDeleted, FileModified} then Some DeletionConflict
      else None)"

lemma analyze_kind:
  "map_option (\<lambda>c. (c_sourceFile c, c_targetFile c, c_conflictType c, c_sourceNode c, c_targetNode c, IsResolved c))
     (analyzeFileConflict layout bytes now f g a b) =
   map_option (\<lambda>k. (f, g, k, a, b, False)) (conflict_kind f g)"
  by (cases "f_FileStatus f"; cases "f_FileStatus g")
    (simp_all add: analyzeFileConflict_def conflict_kind_def HasSameContent_def NewConflict_def IsResolved_def Let_def
      doubleton_eq_iff)

lemma find_conflicts_pairs:
  "map (\<lambda>c. (c_sourceFile c, c_targetFile c, c_conflictType c, c_sourceNode c, c_targetNode c, IsResolved c))
     (find_conflicts layout rnd now targets a b i files) =
   List.map_filter (\<lambda>f. case fmlookup targets (path_of f) of None \<Rightarrow> None
                     | Some g \<Rightarrow> map_option (\<lambda>k. (f, g, k, a, b, False)) (conflict_kind f g)) files"
proof (induction files arbitrary: i)
  case (Cons f files)
  show ?case
  proof (cases "fmlookup targets (path_of f)")
    case (Some g)
    show ?thesis
      using Cons.IH analyze_kind [of layout "rnd i" "now i" f g a b] Some
      by (cases "conflict_kind f g") (auto simp: List.map_filter_simps Let_def split: option.splits)
  qed (use Cons.IH in \<open>simp add: List.map_filter_simps Let_def\<close>)
qed (simp add: List.map_filter_simps)

lemma set_map_filter: "set (List.map_filter h xs) = {y. \<exists>x \<in> set xs. h x = Some y}"
  by (induction xs) (auto simp: List.map_filter_simps split: option.splits)

lemma distinct_map_filter:
  assumes "distinct (map k xs)" and "\<And>x y. h x = Some y \<Longrightarrow> k' y = k x"
  shows "distinct (map k' (List.map_filter h xs))"
  using assms(1)
proof (induction xs)
  case (Cons x xs)
  have "k' y \<noteq> k x" if "y \<in> set (List.map_filter h xs)" for y
  proof -
    from that obtain z where "z \<in> set xs" "h z = Some y" unfolding set_map_filter by blast
    then show ?thesis using assms(2) [of z y] Cons.prems by (metis distinct.simps(2) image_eqI list.simps(9) set_map)
  qed
  then have "k x \<notin> k' ` set (List.map_filter h xs)" by (metis imageE)
  then show ?case using Cons assms(2) [of x] by (cases "h x") (auto simp: List.map_filter_simps)
qed (simp add: List.map_filter_simps)

text \<open>C22: finding conflicts. When both nodes' files are read, each path at most once, \<open>DetectConflicts\<close> succeeds, whatever becomes of
  the events it publishes, and reports exactly the pairs of a source and a target file of the same path that
  are both modified with different content, or of which one is deleted and the other modified; each path once,
  unresolved and with its nodes.\<close>
theorem DetectConflicts_exact:
  assumes "fr_FindByNode (sv_fileRepo s) a w = (Inr sourceFiles, w1)"
    and "fr_FindByNode (sv_fileRepo s) b w1 = (Inr targetFiles, w2)"
    and "distinct (map path_of sourceFiles)" and "distinct (map path_of targetFiles)"
  shows "\<exists>cs w3. DetectConflicts layout rnd now s a b w = (Inr cs, w3) \<and>
    (\<lambda>c. (c_sourceFile c, c_targetFile c, c_conflictType c)) ` set cs =
      {(f, g, k). f \<in> set sourceFiles \<and> g \<in> set targetFiles \<and> path_of g = path_of f \<and> conflict_kind f g = Some k} \<and>
    distinct (map (\<lambda>c. path_of (c_sourceFile c)) cs) \<and>
    list_all (\<lambda>c. c_sourceNode c = a \<and> c_targetNode c = b \<and> \<not> IsResolved c) cs"
proof -
  let ?m = "map_from path_of id targetFiles"
  let ?key = "\<lambda>c. (c_sourceFile c, c_targetFile c, c_conflictType c, c_sourceNode c, c_targetNode c, IsResolved c)"
  let ?hit = "\<lambda>f. case fmlookup ?m (path_of f) of None \<Rightarrow> None
    | Some g \<Rightarrow> map_option (\<lambda>k. (f, g, k, a, b, False)) (conflict_kind f g)"
  let ?cs = "find_conflicts layout rnd now ?m a b 0 sourceFiles"
  have keys: "map ?key ?cs = List.map_filter ?hit sourceFiles" by (rule find_conflicts_pairs)
  have look: "fmlookup ?m p = Some g \<longleftrightarrow> g \<in> set targetFiles \<and> path_of g = p" for p g
    using map_from_Some_iff [OF assms(4), of id p g] by auto
  have hit: "?hit f = Some y \<longleftrightarrow> (\<exists>g k. y = (f, g, k, a, b, False) \<and> g \<in> set targetFiles \<and> path_of g = path_of f \<and>
      conflict_kind f g = Some k)" for f y
  proof -
    have "?hit f = Some y \<longleftrightarrow> (\<exists>g k. y = (f, g, k, a, b, False) \<and> fmlookup ?m (path_of f) = Some g \<and> conflict_kind f g = Some k)"
      by (cases "fmlookup ?m (path_of f)") (simp_all del: map_from_None, auto)
    then show ?thesis unfolding look by simp
  qed
  have mem: "?key ` set ?cs = {y. \<exists>f \<in> set sourceFiles. ?hit f = Some y}"
    unfolding set_map [symmetric] keys set_map_filter by auto
  have dist: "distinct (map (path_of \<circ> fst) (map ?key ?cs))"
    unfolding keys using hit by (intro distinct_map_filter [OF assms(3)]) auto
  have nodes: "list_all (\<lambda>(f, g, k, m, n, r). m = a \<and> n = b \<and> \<not> r) (map ?key ?cs)"
    unfolding list_all_iff set_map mem hit by auto
  have "(\<lambda>c. (c_sourceFile c, c_targetFile c, c_conflictType c)) ` set ?cs = (\<lambda>(f, g, k, r). (f, g, k)) ` ?key ` set ?cs"
    by (simp add: image_image)
  also have "\<dots> = {(f, g, k). f \<in> set sourceFiles \<and> g \<in> set targetFiles \<and> path_of g = path_of f \<and> conflict_kind f g = Some k}"
    unfolding mem hit by (auto intro!: image_eqI)
  finally have pairs: "(\<lambda>c. (c_sourceFile c, c_targetFile c, c_conflictType c)) ` set ?cs =
      {(f, g, k). f \<in> set sourceFiles \<and> g \<in> set targetFiles \<and> path_of g = path_of f \<and> conflict_kind f g = Some k}" .
  have "DetectConflicts layout rnd now s a b w =
      (Inr ?cs, publish_conflicts s rnd now (length sourceFiles) ?cs w2)"
    using assms(1,2) by (simp add: DetectConflicts_def Let_def)
  with pairs dist nodes show ?thesis by (simp add: list.pred_map comp_def)
qed

theorem DetectConflicts_exact_witness:
  "\<exists>cs w3. DetectConflicts (\<lambda>t. ''now'') (\<lambda>i. ''0123456789abcdef'') int (list_service []) \<lparr>sn_value = ''a''\<rparr> \<lparr>sn_value = ''b''\<rparr>
       example_files = (Inr cs, w3) \<and>
     distinct (map (\<lambda>c. path_of (c_sourceFile c)) cs)"
proof -
  let ?s = "list_service []" and ?a = "\<lparr>sn_value = ''a''\<rparr>" and ?b = "\<lparr>sn_value = ''b''\<rparr>"
  have "fr_FindByNode (sv_fileRepo ?s) ?a example_files = (Inr (take 3 example_files), example_files)" by code_simp
  moreover have "fr_FindByNode (sv_fileRepo ?s) ?b example_files = (Inr (drop 3 example_files), example_files)" by code_simp
  moreover have "distinct (map path_of (take 3 example_files))" "distinct (map path_of (drop 3 example_files))" by code_simp+
  ultimately show ?thesis
    using DetectConflicts_exact [where s = ?s and a = ?a and b = ?b and w = example_files and ?w1.0 = example_files and
        ?w2.0 = example_files and sourceFiles = "take 3 example_files" and targetFiles = "drop 3 example_files"
        and layout = "\<lambda>t. ''now''" and rnd = "\<lambda>i. ''0123456789abcdef''" and now = int] by blast
qed

lemma total_size_exact:
  assumes "list_all (\<lambda>f. 0 \<le> f_FileSize f) files" and "sum_list (map f_FileSize files) < 2 ^ 63"
  shows "total_size files = sum_list (map f_FileSize files)"
proof -
  have "fold (\<lambda>f total. int64 (total + f_FileSize f)) files acc = acc + sum_list (map f_FileSize files)"
    if "0 \<le> acc" and "acc + sum_list (map f_FileSize files) < 2 ^ 63" for acc
    using assms(1) that
  proof (induction files arbitrary: acc)
    case (Cons f files)
    have "0 \<le> sum_list (map f_FileSize files)" using Cons.prems(1) by (auto simp: list_all_iff intro!: sum_list_nonneg)
    then have "int64 (acc + f_FileSize f) = acc + f_FileSize f"
      using Cons.prems by (intro int64_id) (simp add: in_int64_def)
    then show ?case using Cons.IH [of "acc + f_FileSize f"] Cons.prems by (simp add: algebra_simps)
  qed simp
  from this [of 0] assms(2) show ?thesis by (simp add: total_size_def)
qed

text \<open>C24: a job is created only when it can be carried out. When both nodes and all files are found, the target's books are in order and
  the sizes add up without overflow, \<open>CreateSyncJob\<close> succeeds exactly when both nodes are online and the
  files fit into the target's free space. The job is then pending, with one pending operation per file in the given
  order; otherwise the error says what is wrong, the source's state being looked at first.\<close>
theorem CreateSyncJob_exact:
  assumes "nr_FindByID (sv_nodeRepo s) a w = (Inr source, w1)" and "nr_FindByID (sv_nodeRepo s) b w1 = (Inr target, w2)"
    and "fileIDs \<noteq> []" and "getFileDetails s fileIDs w2 = (Inr files, w3)"
    and "space_ok target" and "list_all (\<lambda>f. 0 \<le> f_FileSize f) files" and "sum_list (map f_FileSize files) < 2 ^ 63"
  shows "(case fst (CreateSyncJob rnd now s a b fileIDs w) of
      Inr job \<Rightarrow> IsOnline source \<and> IsOnline target \<and>
        n_usedSpace target + sum_list (map f_FileSize files) \<le> n_capacity target \<and>
        j_status job = JobPending \<and> j_sourceNode job = a \<and> j_targetNode job = b \<and>
        map op_fileID (j_operations job) = fileIDs \<and> GetPendingOperations job = j_operations job \<and>
        j_total job = int (length fileIDs)
    | Inl err \<Rightarrow>
        if \<not> IsOnline source then err_text err = ''source node is not online''
        else if \<not> IsOnline target then err_text err = ''target node is not online''
        else n_usedSpace target + sum_list (map f_FileSize files) > n_capacity target \<and>
          err_text err = ''target node doesn'' @ [CHR 0x27] @ ''t have enough space. Required: '' @
            int_text (sum_list (map f_FileSize files)) @ '', Available: '' @ int_text (n_capacity target - n_usedSpace target))"
proof -
  have ops: "map op_fileID (map (\<lambda>(i, f). NewFileOperation (rnd (i + 1)) f ''sync'') (enumerate n xs)) = xs" for n xs
    by (induction xs arbitrary: n) (simp_all add: NewFileOperation_def)
  have pending: "GetPendingOperations (NewSyncJob rnd now a b fileIDs) = j_operations (NewSyncJob rnd now a b fileIDs)"
    by (auto simp: GetPendingOperations_def NewSyncJob_def NewFileOperation_def filter_id_conv)
  have job: "map op_fileID (j_operations (NewSyncJob rnd now a b fileIDs)) = fileIDs"
    unfolding NewSyncJob_def using ops [of 0 fileIDs] by simp
  have space: "check_space target files =
      (if n_usedSpace target + sum_list (map f_FileSize files) \<le> n_capacity target then None
       else Some (Errorf (''target node doesn'' @ [CHR 0x27] @ ''t have enough space. Required: '' @
            int_text (sum_list (map f_FileSize files)) @ '', Available: '' @ int_text (n_capacity target - n_usedSpace target))))"
    using assms by (simp add: check_space_def total_size_exact HasEnoughSpace_def free_space Let_def le_diff_eq add.commute)
  show ?thesis
    using assms(1-4) space pending job
    by (auto simp: CreateSyncJob_def NewSyncJob_def split: option.splits if_splits)
qed

theorem CreateSyncJob_exact_witness:
  "\<exists>job. fst (CreateSyncJob (\<lambda>i. ''0123456789abcdef'') 5
       (list_service [SetOnline 0 (NewStorageNode ''a'' 0 ''a'' NodeLocal [] 100),
                      SetOnline 0 (NewStorageNode ''b'' 0 ''b'' NodeCloud [] 3)])
       (NewStorageNodeID ''a'') (NewStorageNodeID ''b'') [NewFileID ''/x'', NewFileID ''/y''] example_files) = Inr job \<and>
     map op_fileID (j_operations job) = [NewFileID ''/x'', NewFileID ''/y'']"
proof -
  let ?na = "SetOnline 0 (NewStorageNode ''a'' 0 ''a'' NodeLocal [] 100)"
  let ?nb = "SetOnline 0 (NewStorageNode ''b'' 0 ''b'' NodeCloud [] 3)"
  let ?s = "list_service [?na, ?nb]" and ?a = "NewStorageNodeID ''a''" and ?b = "NewStorageNodeID ''b''"
  let ?ids = "[NewFileID ''/x'', NewFileID ''/y'']"
  have found: "nr_FindByID (sv_nodeRepo ?s) ?a example_files = (Inr ?na, example_files)"
    "nr_FindByID (sv_nodeRepo ?s) ?b example_files = (Inr ?nb, example_files)"
    "getFileDetails ?s ?ids example_files = (Inr (take 2 example_files), example_files)"
    "space_ok ?nb" "list_all (\<lambda>f. 0 \<le> f_FileSize f) (take 2 example_files)"
    "sum_list (map f_FileSize (take 2 example_files)) = 3" "IsOnline ?na" "IsOnline ?nb" "n_usedSpace ?nb = 0" "n_capacity ?nb = 3"
    by code_simp+
  show ?thesis
    using CreateSyncJob_exact [where s = ?s and a = ?a and b = ?b and w = example_files and source = ?na and
        ?w1.0 = example_files and target = ?nb and ?w2.0 = example_files and fileIDs = ?ids and
        files = "take 2 example_files" and ?w3.0 = example_files and rnd = "\<lambda>i. ''0123456789abcdef''" and now = 5] found
    by (simp split: sum.splits)
qed

end
