(* ===== verification/File_Service.thy ===== *)
theory File_Service
  imports Entities Sync_Node
begin

text \<open>
  The domain service for files (\<^verbatim>\<open>internal/domain/services/file_service.go\<close>) over the ports \<open>FileRepository\<close> and
  \<open>Storage\<close> (\<^verbatim>\<open>internal/domain/ports/interfaces.go\<close>), records of operations on a world \<open>'w\<close>. Log output is left out.
\<close>

section \<open>Ports\<close>

record FileFilter =
  ff_UserID :: "int option"
  ff_Status :: "FileStatus option"
  ff_PathLike :: "string option"
  ff_Limit :: int
  ff_Offset :: int

text \<open>\<open>Save\<close> returns the file as the call leaves it.\<close>
record 'w PortFileRepository =
  rp_Create :: "File \<Rightarrow> ('w, int) io"
  rp_FindByID :: "FileID \<Rightarrow> ('w, File) io"
  rp_GetByUserID :: "int \<Rightarrow> int \<Rightarrow> int \<Rightarrow> ('w, File list) io"
  rp_Update :: "File \<Rightarrow> ('w, unit) io"
  rp_Delete :: "FileID \<Rightarrow> ('w, unit) io"
  rp_List :: "FileFilter \<Rightarrow> ('w, File list) io"
  rp_Save :: "File \<Rightarrow> ('w, File) io"
  rp_FindByPath :: "StorageNodeID \<Rightarrow> FilePath \<Rightarrow> ('w, File) io"
  rp_FindByNode :: "StorageNodeID \<Rightarrow> ('w, File list) io"
  rp_FindModifiedSince :: "StorageNodeID \<Rightarrow> gotime \<Rightarrow> ('w, File list) io"
  rp_Exists :: "StorageNodeID \<Rightarrow> FilePath \<Rightarrow> ('w, bool) io"

record FileInfo =
  in_Path :: FilePath
  in_Size :: int
  in_ModifiedAt :: gotime
  in_IsDir :: bool
  in_Hash :: FileHash
  in_Permissions :: string

record SpaceInfo =
  sp_TotalSpace :: int
  sp_UsedSpace :: int
  sp_FreeSpace :: int

record 'w Storage =
  st_PutFile :: "FilePath \<Rightarrow> reader \<Rightarrow> int \<Rightarrow> ('w, unit) io"
  st_GetFile :: "FilePath \<Rightarrow> ('w, reader \<times> int) io"
  st_DeleteFile :: "FilePath \<Rightarrow> ('w, unit) io"
  st_FileExists :: "FilePath \<Rightarrow> ('w, bool) io"
  st_CreateDir :: "FilePath \<Rightarrow> ('w, unit) io"
  st_ListDir :: "FilePath \<Rightarrow> ('w, FileInfo list) io"
  st_GetFileInfo :: "FilePath \<Rightarrow> ('w, FileInfo) io"
  st_GetSpaceInfo :: "('w, SpaceInfo) io"
  st_Connect :: "('w, unit) io"
  st_Disconnect :: "('w, unit) io"
  st_IsConnected :: "'w \<Rightarrow> bool"

section \<open>The service\<close>

text \<open>The storage may be \<open>nil\<close>.\<close>
record 'w FileService =
  fs_fileRepo :: "'w PortFileRepository"
  fs_storage :: "'w Storage option"

record CreateFileRequest =
  cq_Path :: string
  cq_Size :: int
  cq_NodeID :: string
  cq_UserID :: int

record UploadFileRequest =
  uq_Path :: string
  uq_UserID :: int
  uq_NodeID :: string

text \<open>\<open>CreateFileResponse\<close> and \<open>UploadFileResponse\<close> have the same fields.\<close>
record FileResponse =
  fr_ID :: int
  fr_Path :: string
  fr_Size :: int
  fr_Status :: string

record ListFilesRequest =
  lq_UserID :: int
  lq_Limit :: int
  lq_Offset :: int

record ListFilesResponse =
  lr_Files :: "File list"
  lr_Total :: int

text \<open>A file record as a composite literal gives it: the remaining fields are zero.\<close>
definition file_object :: "FilePath \<Rightarrow> FileHash \<Rightarrow> int \<Rightarrow> FileStatus \<Rightarrow> StorageNodeID \<Rightarrow> int \<Rightarrow> File" where
  "file_object path hash sz status nodeID userID =
     \<lparr>f_FileID = \<lparr>fi_value = []\<rparr>, f_ID = 0, f_FilePath = path, f_FileHash = hash, f_FileSize = sz, f_FileStatus = status,
      f_StorageNodeID = nodeID, f_UserID = userID, f_CreatedAt = 0, f_ModifiedAt = 0, f_SyncedAt = None, f_Version = 0\<rparr>"

definition CreateFile :: "hash_fun \<Rightarrow> 'w FileService \<Rightarrow> CreateFileRequest \<Rightarrow> ('w, FileResponse) io" where
  "CreateFile sha s req w =
     (if cq_Path req = [] then (Inl (Errorf ''file path cannot be empty''), w)
      else if cq_Size req < 0 then (Inl (Errorf ''file size cannot be negative''), w)
      else if cq_UserID req \<le> 0 then (Inl (Errorf ''user ID must be positive''), w)
      else case NewFilePath (cq_Path req) of
          Inl err \<Rightarrow> (Inl (Wrapf ''invalid file path: '' err), w)
        | Inr filePath \<Rightarrow>
      (case StorageNodeIDFromString (cq_NodeID req) of
          Inl err \<Rightarrow> (Inl (Wrapf ''invalid storage node ID: '' err), w)
        | Inr storageNodeID \<Rightarrow>
      (case rp_Create (fs_fileRepo s) (file_object filePath (NewFileHash sha ''placeholder'') (cq_Size req) FileCreated
              storageNodeID (cq_UserID req)) w of
          (Inl err, w1) \<Rightarrow> (Inl (Wrapf ''failed to create file: '' err), w1)
        | (Inr fileID, w1) \<Rightarrow>
            (Inr \<lparr>fr_ID = fileID, fr_Path = cq_Path req, fr_Size = cq_Size req, fr_Status = ''created''\<rparr>, w1))))"

text \<open>\<open>io.ReadAll\<close>\<close>
definition ReadAll :: "reader \<Rightarrow> gerr + string" where
  "ReadAll r = (case rd_err r of None \<Rightarrow> Inr (rd_data r) | Some err \<Rightarrow> Inl err)"

definition store_content :: "'w FileService \<Rightarrow> FilePath \<Rightarrow> string \<Rightarrow> ('w, unit) io" where
  "store_content s filePath bytes w =
     (case fs_storage s of
        None \<Rightarrow> (Inr (), w)
      | Some storage \<Rightarrow>
          (case st_PutFile storage filePath (Reader bytes None) (int (length bytes)) w of
             (Inl err, w1) \<Rightarrow> (Inl (Wrapf ''failed to store file in GridFS: '' err), w1)
           | (Inr _, w1) \<Rightarrow> (Inr (), w1)))"

definition UploadFile :: "hash_fun \<Rightarrow> 'w FileService \<Rightarrow> UploadFileRequest \<Rightarrow> reader \<Rightarrow> ('w, FileResponse) io" where
  "UploadFile sha s req content w =
     (if uq_Path req = [] then (Inl (Errorf ''file path cannot be empty''), w)
      else if uq_UserID req \<le> 0 then (Inl (Errorf ''user ID must be positive''), w)
      else case NewFilePath (uq_Path req) of
          Inl err \<Rightarrow> (Inl (Wrapf ''invalid file path: '' err), w)
        | Inr filePath \<Rightarrow>
      (case ReadAll content of
          Inl err \<Rightarrow> (Inl (Wrapf ''failed to read file content: '' err), w)
        | Inr contentBytes \<Rightarrow>
      (case store_content s filePath contentBytes w of
          (Inl err, w1) \<Rightarrow> (Inl err, w1)
        | (Inr _, w1) \<Rightarrow>
      (case StorageNodeIDFromString (uq_NodeID req) of
          Inl err \<Rightarrow> (Inl (Wrapf ''invalid storage node ID: '' err), w1)
        | Inr storageNodeID \<Rightarrow>
      (case rp_Create (fs_fileRepo s) (file_object filePath (NewFileHash sha contentBytes) (int (length contentBytes))
              FileUploaded storageNodeID (uq_UserID req)) w1 of
          (Inl err, w2) \<Rightarrow> (Inl (Wrapf ''failed to create file record: '' err), w2)
        | (Inr fileID, w2) \<Rightarrow>
            (Inr \<lparr>fr_ID = fileID, fr_Path = uq_Path req, fr_Size = int (length contentBytes), fr_Status = ''uploaded''\<rparr>, w2))))))"

text \<open>What \<open>DownloadFile\<close>, \<open>GetFile\<close> and \<open>DeleteFile\<close> begin with: the file of a number, if it is the user's.\<close>
definition own_file :: "'w FileService \<Rightarrow> int \<Rightarrow> int \<Rightarrow> ('w, FileID \<times> File) io" where
  "own_file s userID fileID w =
     (case FileIDFromString (int_text fileID) of
        Inl err \<Rightarrow> (Inl (Wrapf ''invalid file ID: '' err), w)
      | Inr voFileID \<Rightarrow>
          (case rp_FindByID (fs_fileRepo s) voFileID w of
             (Inl err, w1) \<Rightarrow> (Inl (Wrapf ''failed to get file: '' err), w1)
           | (Inr f, w1) \<Rightarrow>
               if f_UserID f \<noteq> userID then (Inl (Errorf ''access denied: file does not belong to user''), w1)
               else (Inr (voFileID, f), w1)))"

definition DownloadFile :: "'w FileService \<Rightarrow> int \<Rightarrow> int \<Rightarrow> ('w, reader \<times> int) io" where
  "DownloadFile s userID fileID w =
     (case own_file s userID fileID w of
        (Inl err, w1) \<Rightarrow> (Inl err, w1)
      | (Inr (_, f), w1) \<Rightarrow>
          (case fs_storage s of
             None \<Rightarrow> (Inl (Errorf ''storage not available''), w1)
           | Some storage \<Rightarrow>
               (case st_GetFile storage (f_FilePath f) w1 of
                  (Inl err, w2) \<Rightarrow> (Inl (Wrapf ''failed to download file from GridFS: '' err), w2)
                | (Inr res, w2) \<Rightarrow> (Inr res, w2))))"

definition svc_ListFiles :: "'w FileService \<Rightarrow> ListFilesRequest \<Rightarrow> ('w, ListFilesResponse) io" where
  "svc_ListFiles s req w =
     (if lq_UserID req \<le> 0 then (Inl (Errorf ''user ID must be positive''), w)
      else
        let limit = (if lq_Limit req \<le> 0 then 10 else lq_Limit req);
            offset = (if lq_Offset req < 0 then 0 else lq_Offset req)
        in case rp_GetByUserID (fs_fileRepo s) (lq_UserID req) limit offset w of
            (Inl err, w1) \<Rightarrow> (Inl (Wrapf ''failed to list files: '' err), w1)
          | (Inr files, w1) \<Rightarrow> (Inr \<lparr>lr_Files = files, lr_Total = int (length files)\<rparr>, w1))"

definition svc_GetFile :: "'w FileService \<Rightarrow> int \<Rightarrow> int \<Rightarrow> ('w, File) io" where
  "svc_GetFile s userID fileID w =
     (case own_file s userID fileID w of (Inl err, w1) \<Rightarrow> (Inl err, w1) | (Inr (_, f), w1) \<Rightarrow> (Inr f, w1))"

text \<open>A failure to delete the content is only logged.\<close>
definition svc_DeleteFile :: "'w FileService \<Rightarrow> int \<Rightarrow> int \<Rightarrow> ('w, unit) io" where
  "svc_DeleteFile s userID fileID w =
     (case own_file s userID fileID w of
        (Inl err, w1) \<Rightarrow> (Inl err, w1)
      | (Inr (voFileID, f), w1) \<Rightarrow>
          let w2 = (case fs_storage s of None \<Rightarrow> w1 | Some storage \<Rightarrow> snd (st_DeleteFile storage (f_FilePath f) w1))
          in case rp_Delete (fs_fileRepo s) voFileID w2 of
              (Inl err, w3) \<Rightarrow> (Inl (Wrapf ''failed to delete file: '' err), w3)
            | (Inr _, w3) \<Rightarrow> (Inr (), w3))"

section \<open>Files cannot be looked up by their number\<close>

text \<open>No file can be read, downloaded or deleted through the service. The three operations turn the 64-bit number of the file into
  decimal text and parse that as an identifier of 32 hexadecimal digits; a decimal text is shorter, so
  each of them fails for every user and every number, before it asks the repository, and changes nothing.\<close>
theorem file_numbers_refused:
  assumes "in_int64 fileID"
  shows "svc_GetFile s userID fileID w = (Inl (Wrapf ''invalid file ID: '' (bad_length ''file ID'' (int_text fileID))), w) \<and>
    DownloadFile s userID fileID w = (Inl (Wrapf ''invalid file ID: '' (bad_length ''file ID'' (int_text fileID))), w) \<and>
    svc_DeleteFile s userID fileID w = (Inl (Wrapf ''invalid file ID: '' (bad_length ''file ID'' (int_text fileID))), w)"
  using FileIDFromString_int [of fileID] assms
  by (simp add: in_int64_def own_file_def svc_GetFile_def DownloadFile_def svc_DeleteFile_def)

theorem file_numbers_refused_witness:
  "\<forall>s :: unit FileService. \<exists>err. fst (svc_GetFile s 1 42 ()) = Inl err \<and>
     err_text err = ''invalid file ID: invalid file ID format: expected 32 characters, got 2''"
proof -
  have "in_int64 42" by (simp add: in_int64_def)
  moreover have "err_text (Wrapf ''invalid file ID: '' (bad_length ''file ID'' (int_text 42))) =
      ''invalid file ID: invalid file ID format: expected 32 characters, got 2''" by code_simp
  ultimately show ?thesis using file_numbers_refused [of 42 _ 1 "()"] by (metis fst_conv)
qed

end
