(* ===== verification/File_Cache.thy ===== *)
theory File_Cache
  imports File_Service
begin

text \<open>
  The cache of file records in Redis and the repository it decorates (\<^verbatim>\<open>internal/cache/file_cache.go\<close>). The Redis
  client and \<open>json.Marshal\<close>/\<open>Unmarshal\<close> of a file are parameters; \<open>redis_works\<close> and \<open>file_store\<close> say what the
  refinement needs of Redis and of the repository. \<open>InvalidateByPattern\<close> is not modelled.
\<close>

section \<open>FileCache\<close>

text \<open>The calls of the Redis client: \<open>Get\<close> of a missing key (\<open>redis.Nil\<close>) is \<open>None\<close>.\<close>
record 'r redis_client =
  rc_Get :: "string \<Rightarrow> ('r, string option) io"
  rc_Set :: "string \<Rightarrow> string \<Rightarrow> int \<Rightarrow> ('r, unit) io"
  rc_Del :: "string list \<Rightarrow> ('r, unit) io"

record file_json =
  fj_Marshal :: "File \<Rightarrow> gerr + string"
  fj_Unmarshal :: "string \<Rightarrow> gerr + File"

record 'r FileCache =
  fc_rdb :: "'r redis_client"
  fc_ttl :: int
  fc_prefix :: string

definition NewFileCache :: "'r redis_client \<Rightarrow> int \<Rightarrow> 'r FileCache" where
  "NewFileCache rdb ttl = \<lparr>fc_rdb = rdb, fc_ttl = ttl, fc_prefix = ''file_metadata:''\<rparr>"

definition fc_key :: "'r FileCache \<Rightarrow> string \<Rightarrow> string" where
  "fc_key fc fileID = fc_prefix fc @ fileID"

definition fc_Get :: "file_json \<Rightarrow> 'r FileCache \<Rightarrow> string \<Rightarrow> ('r, File option) io" where
  "fc_Get js fc fileID r =
     (case rc_Get (fc_rdb fc) (fc_key fc fileID) r of
        (Inl err, r1) \<Rightarrow> (Inl (Wrapf ''redis get error: '' err), r1)
      | (Inr None, r1) \<Rightarrow> (Inr None, r1)
      | (Inr (Some data), r1) \<Rightarrow>
          (case fj_Unmarshal js data of
             Inl err \<Rightarrow> (Inl (Wrapf ''json unmarshal error: '' err), r1)
           | Inr f \<Rightarrow> (Inr (Some f), r1)))"

definition fc_Set :: "file_json \<Rightarrow> 'r FileCache \<Rightarrow> File \<Rightarrow> ('r, unit) io" where
  "fc_Set js fc f r =
     (case fj_Marshal js f of
        Inl err \<Rightarrow> (Inl (Wrapf ''json marshal error: '' err), r)
      | Inr data \<Rightarrow>
          (case rc_Set (fc_rdb fc) (fc_key fc (fi_value (f_FileID f))) data (fc_ttl fc) r of
             (Inl err, r1) \<Rightarrow> (Inl (Wrapf ''redis set error: '' err), r1)
           | (Inr _, r1) \<Rightarrow> (Inr (), r1)))"

definition fc_Delete :: "'r FileCache \<Rightarrow> string \<Rightarrow> ('r, unit) io" where
  "fc_Delete fc fileID r =
     (case rc_Del (fc_rdb fc) [fc_key fc fileID] r of
        (Inl err, r1) \<Rightarrow> (Inl (Wrapf ''redis delete error: '' err), r1)
      | (Inr _, r1) \<Rightarrow> (Inr (), r1))"

section \<open>CachedFileRepository\<close>

text \<open>A call that is passed on to the repository below.\<close>
definition pass :: "('w, 'a) io \<Rightarrow> ('w \<times> 'r, 'a) io" where
  "pass f wr = (case f (fst wr) of (res, w) \<Rightarrow> (res, (w, snd wr)))"

record ('w, 'r) CachedFileRepository =
  cf_underlying :: "'w PortFileRepository"
  cf_cache :: "'r FileCache"

definition NewCachedFileRepository :: "'w PortFileRepository \<Rightarrow> 'r FileCache \<Rightarrow> ('w, 'r) CachedFileRepository" where
  "NewCachedFileRepository underlying cache = \<lparr>cf_underlying = underlying, cf_cache = cache\<rparr>"

definition cf_FindByID :: "file_json \<Rightarrow> ('w, 'r) CachedFileRepository \<Rightarrow> FileID \<Rightarrow> ('w \<times> 'r, File) io" where
  "cf_FindByID js c fileID wr =
     (case fc_Get js (cf_cache c) (fi_value fileID) (snd wr) of
        (Inl err, r1) \<Rightarrow> (Inl err, (fst wr, r1))
      | (Inr (Some f), r1) \<Rightarrow> (Inr f, (fst wr, r1))
      | (Inr None, r1) \<Rightarrow>
          (case rp_FindByID (cf_underlying c) fileID (fst wr) of
             (Inl err, w1) \<Rightarrow> (Inl err, (w1, r1))
           | (Inr f, w1) \<Rightarrow> (Inr f, (w1, snd (fc_Set js (cf_cache c) f r1)))))"

definition cf_Save :: "file_json \<Rightarrow> ('w, 'r) CachedFileRepository \<Rightarrow> File \<Rightarrow> ('w \<times> 'r, File) io" where
  "cf_Save js c f wr =
     (case rp_Save (cf_underlying c) f (fst wr) of
        (Inl err, w1) \<Rightarrow> (Inl err, (w1, snd wr))
      | (Inr f1, w1) \<Rightarrow> (Inr f1, (w1, snd (fc_Set js (cf_cache c) f1 (snd wr)))))"

definition cf_Delete :: "('w, 'r) CachedFileRepository \<Rightarrow> FileID \<Rightarrow> ('w \<times> 'r, unit) io" where
  "cf_Delete c fileID wr =
     (case rp_Delete (cf_underlying c) fileID (fst wr) of
        (Inl err, w1) \<Rightarrow> (Inl err, (w1, snd wr))
      | (Inr _, w1) \<Rightarrow> (Inr (), (w1, snd (fc_Delete (cf_cache c) (fi_value fileID) (snd wr)))))"

definition cached_repository :: "file_json \<Rightarrow> ('w, 'r) CachedFileRepository \<Rightarrow> ('w \<times> 'r) PortFileRepository" where
  "cached_repository js c =
     \<lparr>rp_Create = \<lambda>f. pass (rp_Create (cf_underlying c) f),
      rp_FindByID = cf_FindByID js c,
      rp_GetByUserID = \<lambda>u l k. pass (rp_GetByUserID (cf_underlying c) u l k),
      rp_Update = \<lambda>f. pass (rp_Update (cf_underlying c) f),
      rp_Delete = cf_Delete c,
      rp_List = \<lambda>filter. pass (rp_List (cf_underlying c) filter),
      rp_Save = cf_Save js c,
      rp_FindByPath = \<lambda>n p. pass (rp_FindByPath (cf_underlying c) n p),
      rp_FindByNode = \<lambda>n. pass (rp_FindByNode (cf_underlying c) n),
      rp_FindModifiedSince = \<lambda>n t. pass (rp_FindModifiedSince (cf_underlying c) n t),
      rp_Exists = \<lambda>n p. pass (rp_Exists (cf_underlying c) n p)\<rparr>"

section \<open>The decorated repository refines the one below\<close>

text \<open>Calls on a repository and what they return. Reads of many files go through \<open>ReadNode\<close>.\<close>
datatype repo_call = Find FileID | SaveFile File | Remove FileID | ReadNode StorageNodeID

fun repo_exec :: "'w PortFileRepository \<Rightarrow> repo_call \<Rightarrow> ('w, File list) io" where
  "repo_exec repo (Find i) w = (case rp_FindByID repo i w of (res, w1) \<Rightarrow> (map_sum id (\<lambda>f. [f]) res, w1))"
| "repo_exec repo (SaveFile f) w = (case rp_Save repo f w of (res, w1) \<Rightarrow> (map_sum id (\<lambda>f. [f]) res, w1))"
| "repo_exec repo (Remove i) w = (case rp_Delete repo i w of (res, w1) \<Rightarrow> (map_sum id (\<lambda>_. []) res, w1))"
| "repo_exec repo (ReadNode n) w = rp_FindByNode repo n w"

primrec repo_run :: "'w PortFileRepository \<Rightarrow> repo_call list \<Rightarrow> 'w \<Rightarrow> (gerr + File list) list \<times> 'w" where
  "repo_run repo [] w = ([], w)"
| "repo_run repo (c # cs) w =
     (case repo_exec repo c w of (res, w1) \<Rightarrow> (case repo_run repo cs w1 of (ress, w2) \<Rightarrow> (res # ress, w2)))"

text \<open>Redis answers and holds at most what was last written: \<open>content\<close> may lose entries at any time.\<close>
definition redis_works :: "'r redis_client \<Rightarrow> ('r \<Rightarrow> string \<rightharpoonup> string) \<Rightarrow> bool" where
  "redis_works rdb content \<longleftrightarrow>
     (\<forall>k r. \<exists>r1. rc_Get rdb k r = (Inr (content r1 k), r1) \<and> content r1 \<subseteq>\<^sub>m content r) \<and>
     (\<forall>k d t r. \<exists>r1. rc_Set rdb k d t r = (Inr (), r1) \<and> content r1 \<subseteq>\<^sub>m (content r)(k \<mapsto> d)) \<and>
     (\<forall>ks r. \<exists>r1. rc_Del rdb ks r = (Inr (), r1) \<and> content r1 \<subseteq>\<^sub>m content r |` (- set ks))"

text \<open>The repository below keeps one file per identifier: \<open>look\<close> reads it.\<close>
definition file_store :: "'w PortFileRepository \<Rightarrow> ('w \<Rightarrow> FileID \<Rightarrow> gerr + File) \<Rightarrow> bool" where
  "file_store repo look \<longleftrightarrow>
     (\<forall>i w. rp_FindByID repo i w = (look w i, w)) \<and>
     (\<forall>i w f. look w i = Inr f \<longrightarrow> f_FileID f = i) \<and>
     (\<forall>f w err w1. rp_Save repo f w = (Inl err, w1) \<longrightarrow> look w1 = look w) \<and>
     (\<forall>f w f1 w1. rp_Save repo f w = (Inr f1, w1) \<longrightarrow> look w1 = (look w)(f_FileID f1 := Inr f1)) \<and>
     (\<forall>i w err w1. rp_Delete repo i w = (Inl err, w1) \<longrightarrow> look w1 = look w) \<and>
     (\<forall>i w w1 j. rp_Delete repo i w = (Inr (), w1) \<longrightarrow> j \<noteq> i \<longrightarrow> look w1 j = look w j) \<and>
     (\<forall>n w res w1. rp_FindByNode repo n w = (res, w1) \<longrightarrow> look w1 = look w)"

text \<open>The files the repository holds come back from their JSON form.\<close>
definition json_faithful :: "file_json \<Rightarrow> ('w \<Rightarrow> FileID \<Rightarrow> gerr + File) \<Rightarrow> bool" where
  "json_faithful js look \<longleftrightarrow>
     (\<forall>w i f. look w i = Inr f \<longrightarrow> (\<exists>data. fj_Marshal js f = Inr data \<and> fj_Unmarshal js data = Inr f))"

text \<open>Every entry of the cache is the file the repository holds.\<close>
definition coherent ::
  "file_json \<Rightarrow> 'r FileCache \<Rightarrow> ('r \<Rightarrow> string \<rightharpoonup> string) \<Rightarrow> (FileID \<Rightarrow> gerr + File) \<Rightarrow> 'r \<Rightarrow> bool" where
  "coherent js fc content files r \<longleftrightarrow>
     (\<forall>i d. content r (fc_key fc (fi_value i)) = Some d \<longrightarrow> (\<exists>f. fj_Unmarshal js d = Inr f \<and> files i = Inr f))"

lemma fc_key_eq [simp]: "fc_key fc (fi_value i) = fc_key fc (fi_value (j :: FileID)) \<longleftrightarrow> i = j"
  by (cases i, cases j) (simp add: fc_key_def)

lemma coherent_Get:
  assumes "redis_works (fc_rdb fc) content" and "coherent js fc content files r"
  obtains r1 where "coherent js fc content files r1"
    and "fc_Get js fc (fi_value i) r = (Inr None, r1) \<or> (\<exists>f. fc_Get js fc (fi_value i) r = (Inr (Some f), r1) \<and> files i = Inr f)"
proof -
  from assms(1) obtain r1 where r1: "rc_Get (fc_rdb fc) (fc_key fc (fi_value i)) r = (Inr (content r1 (fc_key fc (fi_value i))), r1)"
      "content r1 \<subseteq>\<^sub>m content r"
    unfolding redis_works_def by metis
  have coh: "coherent js fc content files r1"
    using assms(2) r1(2) unfolding coherent_def map_le_def by (metis domI)
  show thesis
  proof (cases "content r1 (fc_key fc (fi_value i))")
    case None
    with r1(1) that [OF coh] show thesis by (simp add: fc_Get_def)
  next
    case (Some d)
    with coh obtain f where "fj_Unmarshal js d = Inr f" "files i = Inr f" unfolding coherent_def by blast
    with r1(1) Some that [OF coh] show thesis by (simp add: fc_Get_def)
  qed
qed

lemma coherent_Set:
  assumes "redis_works (fc_rdb fc) content" and "coherent js fc content files r"
    and "fj_Marshal js f = Inr data" and "fj_Unmarshal js data = Inr f"
  shows "coherent js fc content (files(f_FileID f := Inr f)) (snd (fc_Set js fc f r))"
proof -
  let ?k = "fc_key fc (fi_value (f_FileID f))"
  from assms(1) obtain r1 where r1: "rc_Set (fc_rdb fc) ?k data (fc_ttl fc) r = (Inr (), r1)"
      "content r1 \<subseteq>\<^sub>m (content r)(?k \<mapsto> data)"
    unfolding redis_works_def by metis
  have "\<exists>g. fj_Unmarshal js d = Inr g \<and> (files(f_FileID f := Inr f)) i = Inr g" if "content r1 (fc_key fc (fi_value i)) = Some d" for i d
  proof (cases "i = f_FileID f")
    case True
    with that r1(2) have "d = data" unfolding map_le_def by (metis domI fun_upd_same option.inject)
    with True assms(4) show ?thesis by simp
  next
    case False
    with that r1(2) have "content r (fc_key fc (fi_value i)) = Some d"
      unfolding map_le_def by (metis domI fc_key_eq fun_upd_other)
    with False assms(2) show ?thesis unfolding coherent_def by simp
  qed
  with r1(1) assms(3) show ?thesis by (simp add: coherent_def fc_Set_def)
qed

lemma coherent_Delete:
  assumes "redis_works (fc_rdb fc) content" and "coherent js fc content files r" and "\<And>j. j \<noteq> i \<Longrightarrow> files' j = files j"
  shows "coherent js fc content files' (snd (fc_Delete fc (fi_value i) r))"
proof -
  let ?k = "fc_key fc (fi_value i)"
  from assms(1) obtain r1 where r1: "rc_Del (fc_rdb fc) [?k] r = (Inr (), r1)" "content r1 \<subseteq>\<^sub>m content r |` (- set [?k])"
    unfolding redis_works_def by metis
  have "j \<noteq> i \<and> content r (fc_key fc (fi_value j)) = Some d" if "content r1 (fc_key fc (fi_value j)) = Some d" for j d
  proof -
    have "(content r |` (- set [?k])) (fc_key fc (fi_value j)) = Some d"
      using that r1(2) unfolding map_le_def by (metis domI)
    then show ?thesis by (auto simp: restrict_map_def split: if_splits)
  qed
  with r1(1) assms(2,3) show ?thesis by (fastforce simp: coherent_def fc_Delete_def)
qed

text \<open>The laws of the repository below, one by one.\<close>
lemma file_store_laws:
  assumes "file_store repo look"
  shows "rp_FindByID repo i w = (look w i, w)" and "look w i = Inr f \<Longrightarrow> f_FileID f = i"
    and "rp_Save repo f w = (Inl err, w1) \<Longrightarrow> look w1 = look w"
    and "rp_Save repo f w = (Inr f1, w1) \<Longrightarrow> look w1 = (look w)(f_FileID f1 := Inr f1)"
    and "rp_Delete repo i w = (Inl err, w1) \<Longrightarrow> look w1 = look w"
    and "rp_Delete repo i w = (Inr (), w1) \<Longrightarrow> j \<noteq> i \<Longrightarrow> look w1 j = look w j"
    and "rp_FindByNode repo n w = (res, w1) \<Longrightarrow> look w1 = look w"
  using assms unfolding file_store_def by - ((elim conjE, metis)+)

text \<open>What a call on the decorated repository returns, compared with the one below.\<close>
definition agrees ::
  "file_json \<Rightarrow> ('w, 'r) CachedFileRepository \<Rightarrow> ('r \<Rightarrow> string \<rightharpoonup> string) \<Rightarrow> ('w \<Rightarrow> FileID \<Rightarrow> gerr + File) \<Rightarrow> repo_call \<Rightarrow> 'w \<times> 'r \<Rightarrow> bool" where
  "agrees js c content look call wr \<longleftrightarrow>
     (\<exists>res w1 r1. repo_exec (cached_repository js c) call wr = (res, (w1, r1)) \<and>
        repo_exec (cf_underlying c) call (fst wr) = (res, w1) \<and> coherent js (cf_cache c) content (look w1) r1)"

lemma agrees_Find:
  assumes "redis_works (fc_rdb (cf_cache c)) content" and "file_store (cf_underlying c) look" and "json_faithful js look"
    and "coherent js (cf_cache c) content (look w) r"
  shows "agrees js c content look (Find i) (w, r)"
proof -
  note bare = file_store_laws(1) [OF assms(2), of i w]
  obtain r1 where r1: "coherent js (cf_cache c) content (look w) r1"
    and get: "fc_Get js (cf_cache c) (fi_value i) r = (Inr None, r1) \<or>
      (\<exists>f. fc_Get js (cf_cache c) (fi_value i) r = (Inr (Some f), r1) \<and> look w i = Inr f)"
    using coherent_Get [OF assms(1,4)] by metis
  show ?thesis
  proof (cases "look w i")
    case (Inl err)
    with get bare r1 show ?thesis by (simp add: agrees_def cached_repository_def cf_FindByID_def)
  next
    case (Inr f)
    have upd: "(look w)(f_FileID f := Inr f) = look w" using file_store_laws(2) [OF assms(2) Inr] Inr by auto
    obtain data where "fj_Marshal js f = Inr data" "fj_Unmarshal js data = Inr f"
      using assms(3) Inr unfolding json_faithful_def by blast
    from coherent_Set [OF assms(1) r1 this]
    have "coherent js (cf_cache c) content (look w) (snd (fc_Set js (cf_cache c) f r1))" unfolding upd .
    with get bare r1 Inr show ?thesis by (auto simp: agrees_def cached_repository_def cf_FindByID_def)
  qed
qed

lemma agrees_SaveFile:
  assumes "redis_works (fc_rdb (cf_cache c)) content" and "file_store (cf_underlying c) look" and "json_faithful js look"
    and "coherent js (cf_cache c) content (look w) r"
  shows "agrees js c content look (SaveFile f) (w, r)"
proof -
  obtain res w1 where save: "rp_Save (cf_underlying c) f w = (res, w1)" by force
  show ?thesis
  proof (cases res)
    case (Inl err)
    with save file_store_laws(3) [OF assms(2)] assms(4) show ?thesis
      by (simp add: agrees_def cached_repository_def cf_Save_def)
  next
    case (Inr f1)
    have look: "look w1 = (look w)(f_FileID f1 := Inr f1)"
      using file_store_laws(4) [OF assms(2) save [unfolded Inr]] .
    then have "look w1 (f_FileID f1) = Inr f1" by simp
    then obtain data where "fj_Marshal js f1 = Inr data" "fj_Unmarshal js data = Inr f1"
      using assms(3) unfolding json_faithful_def by blast
    from coherent_Set [OF assms(1,4) this] save Inr show ?thesis
      by (simp add: agrees_def cached_repository_def cf_Save_def look)
  qed
qed

lemma agrees_Remove:
  assumes "redis_works (fc_rdb (cf_cache c)) content" and "file_store (cf_underlying c) look"
    and "coherent js (cf_cache c) content (look w) r"
  shows "agrees js c content look (Remove i) (w, r)"
proof -
  obtain res w1 where del: "rp_Delete (cf_underlying c) i w = (res, w1)" by force
  show ?thesis
  proof (cases res)
    case (Inl err)
    with del file_store_laws(5) [OF assms(2)] assms(3) show ?thesis
      by (simp add: agrees_def cached_repository_def cf_Delete_def)
  next
    case (Inr u)
    with del have gone: "rp_Delete (cf_underlying c) i w = (Inr (), w1)" by simp
    have "coherent js (cf_cache c) content (look w1) (snd (fc_Delete (cf_cache c) (fi_value i) r))"
      using coherent_Delete [OF assms(1,3)] file_store_laws(6) [OF assms(2) gone] .
    with gone show ?thesis by (simp add: agrees_def cached_repository_def cf_Delete_def)
  qed
qed

lemma agrees_ReadNode:
  assumes "file_store (cf_underlying c) look" and "coherent js (cf_cache c) content (look w) r"
  shows "agrees js c content look (ReadNode n) (w, r)"
proof -
  obtain res w1 where rd: "rp_FindByNode (cf_underlying c) n w = (res, w1)" by force
  with file_store_laws(7) [OF assms(1) rd] assms(2) show ?thesis
    by (simp add: agrees_def cached_repository_def pass_def)
qed

text \<open>While Redis answers, and it may forget entries at any time, any sequence of \<open>FindByID\<close>, \<open>Save\<close>, \<open>Delete\<close> and \<open>FindByNode\<close> on the
  decorated repository returns what the repository below would return and leaves it in the same state, starting from a cache that agrees with
  it, such as an empty one, and for a repository whose files carry their identifier. \<open>Update\<close> is not among these calls: see \<open>update_leaves_stale\<close>.\<close>
theorem cached_repository_refines:
  assumes "redis_works (fc_rdb (cf_cache c)) content" and "file_store (cf_underlying c) look" and "json_faithful js look"
    and "coherent js (cf_cache c) content (look w) r"
  shows "fst (repo_run (cached_repository js c) calls (w, r)) = fst (repo_run (cf_underlying c) calls w) \<and>
    fst (snd (repo_run (cached_repository js c) calls (w, r))) = snd (repo_run (cf_underlying c) calls w)"
  using assms(4)
proof (induction calls arbitrary: w r)
  case (Cons call calls)
  have "agrees js c content look call (w, r)"
    using agrees_Find [OF assms(1-3) Cons.prems] agrees_SaveFile [OF assms(1-3) Cons.prems]
      agrees_Remove [OF assms(1,2) Cons.prems] agrees_ReadNode [OF assms(2) Cons.prems] by (cases call) simp_all
  then obtain res w1 r1 where "repo_exec (cached_repository js c) call (w, r) = (res, (w1, r1))"
      "repo_exec (cf_underlying c) call w = (res, w1)" "coherent js (cf_cache c) content (look w1) r1"
    unfolding agrees_def by auto
  with Cons.IH [of w1 r1] show ?case by (auto split: prod.splits)
qed simp

text \<open>An example: Redis as a list of entries, and a repository that keeps only the identifiers of its files.\<close>
definition list_redis :: "(string \<times> string) list redis_client" where
  "list_redis =
     \<lparr>rc_Get = \<lambda>k r. (Inr (map_of r k), r), rc_Set = \<lambda>k d t r. (Inr (), (k, d) # r),
      rc_Del = \<lambda>ks r. (Inr (), filter (\<lambda>e. fst e \<notin> set ks) r)\<rparr>"

definition plain_file :: "FileID \<Rightarrow> File" where
  "plain_file i = (file_object \<lparr>fp_value = ''/f''\<rparr> \<lparr>fh_value = []\<rparr> 0 FileCreated \<lparr>sn_value = ''n''\<rparr> 1)\<lparr>f_FileID := i\<rparr>"

definition plain_look :: "FileID list \<Rightarrow> FileID \<Rightarrow> gerr + File" where
  "plain_look w i = (if i \<in> set w then Inr (plain_file i) else Inl (Errorf ''no rows''))"

definition plain_repository :: "FileID list PortFileRepository" where
  "plain_repository =
     \<lparr>rp_Create = \<lambda>f w. (Inr 0, w), rp_FindByID = \<lambda>i w. (plain_look w i, w), rp_GetByUserID = \<lambda>u l k w. (Inr [], w),
      rp_Update = \<lambda>f w. (Inr (), w), rp_Delete = \<lambda>i w. (Inr (), removeAll i w), rp_List = \<lambda>filter w. (Inr [], w),
      rp_Save = \<lambda>f w. (Inr (plain_file (f_FileID f)), f_FileID f # w), rp_FindByPath = \<lambda>n p w. (Inl (Errorf ''no rows''), w),
      rp_FindByNode = \<lambda>n w. (Inr (map plain_file w), w), rp_FindModifiedSince = \<lambda>n t w. (Inr [], w),
      rp_Exists = \<lambda>n p w. (Inr False, w)\<rparr>"

definition plain_json :: file_json where
  "plain_json = \<lparr>fj_Marshal = \<lambda>f. Inr (fi_value (f_FileID f)), fj_Unmarshal = \<lambda>s. Inr (plain_file \<lparr>fi_value = s\<rparr>)\<rparr>"

lemma list_redis_works: "redis_works list_redis map_of"
proof -
  have "map_of (filter (\<lambda>e. fst e \<notin> set ks) r) \<subseteq>\<^sub>m map_of r |` (- set ks)" for ks and r :: "(string \<times> string) list"
    by (induction r) (auto simp: map_le_def restrict_map_def)
  then show ?thesis by (simp add: redis_works_def list_redis_def)
qed

lemma plain_file_store: "file_store plain_repository plain_look"
  by (auto simp: file_store_def plain_repository_def plain_look_def plain_file_def fun_eq_iff)

lemma plain_json_faithful: "json_faithful plain_json plain_look"
  by (auto simp: json_faithful_def plain_json_def plain_look_def plain_file_def)

theorem cached_repository_refines_witness:
  "fst (repo_run (cached_repository plain_json (NewCachedFileRepository plain_repository (NewFileCache list_redis 60)))
     [SaveFile (plain_file \<lparr>fi_value = ''a''\<rparr>), Find \<lparr>fi_value = ''a''\<rparr>, Remove \<lparr>fi_value = ''a''\<rparr>, Find \<lparr>fi_value = ''a''\<rparr>] ([], [])) =
   [Inr [plain_file \<lparr>fi_value = ''a''\<rparr>], Inr [plain_file \<lparr>fi_value = ''a''\<rparr>], Inr [], Inl (Errorf ''no rows'')]"
proof -
  let ?c = "NewCachedFileRepository plain_repository (NewFileCache list_redis 60)"
  let ?calls = "[SaveFile (plain_file \<lparr>fi_value = ''a''\<rparr>), Find \<lparr>fi_value = ''a''\<rparr>, Remove \<lparr>fi_value = ''a''\<rparr>, Find \<lparr>fi_value = ''a''\<rparr>]"
  have parts: "fc_rdb (cf_cache ?c) = list_redis" "cf_underlying ?c = plain_repository"
    by (simp_all add: NewCachedFileRepository_def NewFileCache_def)
  have "coherent plain_json (cf_cache ?c) map_of (plain_look []) []" by (simp add: coherent_def)
  then have "fst (repo_run (cached_repository plain_json ?c) ?calls ([], [])) = fst (repo_run plain_repository ?calls [])"
    using cached_repository_refines [where c = ?c and content = map_of and look = plain_look and js = plain_json and
        w = "[]" and r = "[]" and calls = ?calls] list_redis_works plain_file_store plain_json_faithful
    unfolding parts by blast
  also have "\<dots> = [Inr [plain_file \<lparr>fi_value = ''a''\<rparr>], Inr [plain_file \<lparr>fi_value = ''a''\<rparr>], Inr [], Inl (Errorf ''no rows'')]"
    by code_simp
  finally show ?thesis .
qed

text \<open>A repository of one file that can be updated.\<close>
definition one_file :: "int PortFileRepository" where
  "one_file = \<lparr>rp_Create = \<lambda>f w. (Inr 0, w), rp_FindByID = \<lambda>i w. (Inr ((plain_file i)\<lparr>f_FileSize := w\<rparr>), w), rp_GetByUserID = \<lambda>u l k w. (Inr [], w),
     rp_Update = \<lambda>f w. (Inr (), f_FileSize f), rp_Delete = \<lambda>i w. (Inr (), w), rp_List = \<lambda>filter w. (Inr [], w),
     rp_Save = \<lambda>f w. (Inr f, f_FileSize f), rp_FindByPath = \<lambda>n p w. (Inl (Errorf ''no rows''), w),
     rp_FindByNode = \<lambda>n w. (Inr [], w), rp_FindModifiedSince = \<lambda>n t w. (Inr [], w), rp_Exists = \<lambda>n p w. (Inr False, w)\<rparr>"

definition size_json :: file_json where
  "size_json = \<lparr>fj_Marshal = \<lambda>f. Inr (replicate (nat (f_FileSize f)) CHR ''x''),
     fj_Unmarshal = \<lambda>s. Inr ((plain_file \<lparr>fi_value = ''a''\<rparr>)\<lparr>f_FileSize := int (length s)\<rparr>)\<rparr>"

text \<open>\<open>Update\<close> is passed on and leaves the entry of the cache: who looked at the file before sees the old one afterwards.\<close>
lemma update_leaves_stale:
  "let repo = cached_repository size_json (NewCachedFileRepository one_file (NewFileCache list_redis 60));
       (r1, s1) = rp_FindByID repo \<lparr>fi_value = ''a''\<rparr> (1, []);
       (r2, s2) = rp_Update repo ((plain_file \<lparr>fi_value = ''a''\<rparr>)\<lparr>f_FileSize := 2\<rparr>) s1;
       (r3, s3) = rp_FindByID repo \<lparr>fi_value = ''a''\<rparr> s2
   in r2 = Inr () \<and> fst s3 = 2 \<and> map_sum id f_FileSize r3 = Inr 1"
  by code_simp

end
