(* ===== verification/Gridfs.thy ===== *)
theory Gridfs
  imports File_Service
begin

text \<open>
  The storage of file contents in MongoDB's GridFS (\<^verbatim>\<open>internal/infrastructure/storage/gridfs_adapter.go\<close>). The bucket
  is the driver's: a parameter. \<open>Find\<close> gives the documents in the cursor's order, each of which may fail to
  decode, and the error that ends the cursor, if any. The metadata of an upload is left out.
\<close>

datatype find_filter = ByName string | ByRegex string | AllFiles

record file_doc =
  fd_ID :: string
  fd_Name :: string
  fd_Length :: int
  fd_UploadDate :: gotime

record ('w, 'u) bucket =
  gb_OpenUploadStream :: "string \<Rightarrow> ('w, 'u) io"
  gb_Write :: "'u \<Rightarrow> string \<Rightarrow> ('w, unit) io"
  gb_Close :: "'u \<Rightarrow> ('w, unit) io"
  gb_Find :: "find_filter \<Rightarrow> ('w, (gerr + file_doc) list \<times> gerr option) io"
  gb_OpenDownloadStream :: "string \<Rightarrow> ('w, reader) io"
  gb_Delete :: "string \<Rightarrow> ('w, unit) io"

section \<open>The adapter\<close>

text \<open>\<open>io.Copy\<close> into an upload stream.\<close>
definition copy_in :: "('w, 'u) bucket \<Rightarrow> 'u \<Rightarrow> reader \<Rightarrow> ('w, unit) io" where
  "copy_in b u content w =
     (case gb_Write b u (rd_data content) w of
        (Inl err, w1) \<Rightarrow> (Inl err, w1)
      | (Inr _, w1) \<Rightarrow> (case rd_err content of None \<Rightarrow> Inr () | Some err \<Rightarrow> Inl err, w1))"

text \<open>The deferred \<open>Close\<close> runs on every way out; its error is dropped.\<close>
definition PutFile :: "('w, 'u) bucket \<Rightarrow> FilePath \<Rightarrow> reader \<Rightarrow> int \<Rightarrow> ('w, unit) io" where
  "PutFile b filePath content sz w =
     (case gb_OpenUploadStream b (fp_value filePath) w of
        (Inl err, w1) \<Rightarrow> (Inl (Wrapf ''failed to open upload stream: '' err), w1)
      | (Inr u, w1) \<Rightarrow>
          (case copy_in b u content w1 of
             (Inl err, w2) \<Rightarrow> (Inl (Wrapf ''failed to copy content to GridFS: '' err), snd (gb_Close b u w2))
           | (Inr _, w2) \<Rightarrow> (Inr (), snd (gb_Close b u w2))))"

text \<open>The first document of that name, with which \<open>GetFile\<close>, \<open>DeleteFile\<close> and \<open>GetFileInfo\<close> begin.\<close>
definition find_first :: "('w, 'u) bucket \<Rightarrow> FilePath \<Rightarrow> ('w, file_doc) io" where
  "find_first b filePath w =
     (case gb_Find b (ByName (fp_value filePath)) w of
        (Inl err, w1) \<Rightarrow> (Inl (Wrapf ''failed to find file in GridFS: '' err), w1)
      | (Inr ([], _), w1) \<Rightarrow> (Inl (Errorf (''file not found in GridFS: '' @ fp_value filePath)), w1)
      | (Inr (Inl err # _, _), w1) \<Rightarrow> (Inl (Wrapf ''failed to decode file document: '' err), w1)
      | (Inr (Inr d # _, _), w1) \<Rightarrow> (Inr d, w1))"

definition GetFile :: "('w, 'u) bucket \<Rightarrow> FilePath \<Rightarrow> ('w, reader \<times> int) io" where
  "GetFile b filePath w =
     (case find_first b filePath w of
        (Inl err, w1) \<Rightarrow> (Inl err, w1)
      | (Inr d, w1) \<Rightarrow>
          (case gb_OpenDownloadStream b (fd_ID d) w1 of
             (Inl err, w2) \<Rightarrow> (Inl (Wrapf ''failed to open download stream: '' err), w2)
           | (Inr stream, w2) \<Rightarrow> (Inr (stream, fd_Length d), w2)))"

definition gr_DeleteFile :: "('w, 'u) bucket \<Rightarrow> FilePath \<Rightarrow> ('w, unit) io" where
  "gr_DeleteFile b filePath w =
     (case find_first b filePath w of
        (Inl err, w1) \<Rightarrow> (Inl err, w1)
      | (Inr d, w1) \<Rightarrow>
          (case gb_Delete b (fd_ID d) w1 of
             (Inl err, w2) \<Rightarrow> (Inl (Wrapf ''failed to delete file from GridFS: '' err), w2)
           | (Inr _, w2) \<Rightarrow> (Inr (), w2)))"

text \<open>A found file and the error of the cursor are returned together; a caller looks at the error first.\<close>
definition FileExists :: "('w, 'u) bucket \<Rightarrow> FilePath \<Rightarrow> ('w, bool) io" where
  "FileExists b filePath w =
     (case gb_Find b (ByName (fp_value filePath)) w of
        (Inl err, w1) \<Rightarrow> (Inl (Wrapf ''failed to find file in GridFS: '' err), w1)
      | (Inr (d # _, _), w1) \<Rightarrow> (Inr True, w1)
      | (Inr ([], Some err), w1) \<Rightarrow> (Inl err, w1)
      | (Inr ([], None), w1) \<Rightarrow> (Inr False, w1))"

definition CreateDir :: "('w, 'u) bucket \<Rightarrow> FilePath \<Rightarrow> ('w, unit) io" where
  "CreateDir b path w =
     (case gb_OpenUploadStream b (fp_value path @ ''/.dir'') w of
        (Inl err, w1) \<Rightarrow> (Inl (Wrapf ''failed to create directory placeholder: '' err), w1)
      | (Inr u, w1) \<Rightarrow> (Inr (), snd (gb_Close b u w1)))"

definition file_info :: "FilePath \<Rightarrow> file_doc \<Rightarrow> FileInfo" where
  "file_info path d =
     \<lparr>in_Path = path, in_Size = fd_Length d, in_ModifiedAt = fd_UploadDate d, in_IsDir = False,
      in_Hash = \<lparr>fh_value = []\<rparr>, in_Permissions = []\<rparr>"

definition decoded :: "(gerr + file_doc) list \<Rightarrow> file_doc list" where
  "decoded ds = concat (map (case_sum (\<lambda>_. []) (\<lambda>d. [d])) ds)"

definition ListDir :: "('w, 'u) bucket \<Rightarrow> FilePath \<Rightarrow> ('w, FileInfo list) io" where
  "ListDir b path w =
     (case gb_Find b (ByRegex (''^'' @ fp_value path)) w of
        (Inl err, w1) \<Rightarrow> (Inl (Wrapf ''failed to list files in GridFS: '' err), w1)
      | (Inr (ds, Some err), w1) \<Rightarrow> (Inl err, w1)
      | (Inr (ds, None), w1) \<Rightarrow> (Inr (map (\<lambda>d. file_info (FilePathFromString (fd_Name d)) d) (decoded ds)), w1))"

definition GetFileInfo :: "('w, 'u) bucket \<Rightarrow> FilePath \<Rightarrow> ('w, FileInfo) io" where
  "GetFileInfo b filePath w =
     (case find_first b filePath w of (Inl err, w1) \<Rightarrow> (Inl err, w1) | (Inr d, w1) \<Rightarrow> (Inr (file_info filePath d), w1))"

definition GetSpaceInfo :: "('w, 'u) bucket \<Rightarrow> ('w, SpaceInfo) io" where
  "GetSpaceInfo b w =
     (case gb_Find b AllFiles w of
        (Inl err, w1) \<Rightarrow> (Inl (Wrapf ''failed to query GridFS: '' err), w1)
      | (Inr (ds, _), w1) \<Rightarrow>
          (Inr \<lparr>sp_TotalSpace = 0, sp_UsedSpace = fold (\<lambda>d total. int64 (total + fd_Length d)) (decoded ds) 0, sp_FreeSpace = 0\<rparr>, w1))"

definition gridfs_storage :: "('w, 'u) bucket \<Rightarrow> 'w Storage" where
  "gridfs_storage b =
     \<lparr>st_PutFile = PutFile b, st_GetFile = GetFile b, st_DeleteFile = gr_DeleteFile b, st_FileExists = FileExists b,
      st_CreateDir = CreateDir b, st_ListDir = ListDir b, st_GetFileInfo = GetFileInfo b, st_GetSpaceInfo = GetSpaceInfo b,
      st_Connect = \<lambda>w. (Inr (), w), st_Disconnect = \<lambda>w. (Inr (), w), st_IsConnected = \<lambda>w. True\<rparr>"

section \<open>An upload that is not stored\<close>

text \<open>An upload can be lost unnoticed. The driver stores the end of a file, for a small file all of it, when the stream is
  closed, and \<open>PutFile\<close> drops the error of \<open>Close\<close>: once the stream is open and the bytes are handed over, \<open>UploadFile\<close>
  creates the record and answers "uploaded" with the full size, whatever \<open>Close\<close> returns.\<close>
theorem upload_ignores_close:
  assumes "NewFilePath (uq_Path req) = Inr path" and "0 < uq_UserID req" and "StorageNodeIDFromString (uq_NodeID req) = Inr node"
    and "gb_OpenUploadStream b (fp_value path) w = (Inr u, w1)" and "gb_Write b u data w1 = (Inr (), w2)"
    and "gb_Close b u w2 = (res, w3)"
    and "rp_Create repo (file_object path (NewFileHash sha data) (int (length data)) FileUploaded node (uq_UserID req)) w3 = (Inr i, w4)"
  shows "UploadFile sha \<lparr>fs_fileRepo = repo, fs_storage = Some (gridfs_storage b)\<rparr> req (Reader data None) w =
    (Inr \<lparr>fr_ID = i, fr_Path = uq_Path req, fr_Size = int (length data), fr_Status = ''uploaded''\<rparr>, w4)"
proof -
  have "uq_Path req \<noteq> []" using assms(1) by (auto simp: NewFilePath_def)
  with assms show ?thesis
    by (simp add: UploadFile_def ReadAll_def store_content_def gridfs_storage_def PutFile_def copy_in_def)
qed

text \<open>An example: a bucket that cannot be closed, and a repository that numbers its files.\<close>
definition failing_bucket :: "(nat, unit) bucket" where
  "failing_bucket =
     \<lparr>gb_OpenUploadStream = \<lambda>n w. (Inr (), w), gb_Write = \<lambda>u d w. (Inr (), w),
      gb_Close = \<lambda>u w. (Inl (Errorf ''server selection error''), w), gb_Find = \<lambda>q w. (Inr ([], None), w),
      gb_OpenDownloadStream = \<lambda>i w. (Inl (Errorf ''file with given parameters not found''), w),
      gb_Delete = \<lambda>i w. (Inl (Errorf ''file with given parameters not found''), w)\<rparr>"

definition counting_repository :: "nat PortFileRepository" where
  "counting_repository =
     \<lparr>rp_Create = \<lambda>f w. (Inr (int w), Suc w), rp_FindByID = \<lambda>i w. (Inl (Errorf ''no rows''), w),
      rp_GetByUserID = \<lambda>u l k w. (Inr [], w), rp_Update = \<lambda>f w. (Inr (), w), rp_Delete = \<lambda>i w. (Inr (), w),
      rp_List = \<lambda>filter w. (Inr [], w), rp_Save = \<lambda>f w. (Inr f, Suc w), rp_FindByPath = \<lambda>n p w. (Inl (Errorf ''no rows''), w),
      rp_FindByNode = \<lambda>n w. (Inr [], w), rp_FindModifiedSince = \<lambda>n t w. (Inr [], w), rp_Exists = \<lambda>n p w. (Inr False, w)\<rparr>"

theorem upload_ignores_close_witness:
  "\<forall>sha. fst (UploadFile sha \<lparr>fs_fileRepo = counting_repository, fs_storage = Some (gridfs_storage failing_bucket)\<rparr>
        \<lparr>uq_Path = ''/a'', uq_UserID = 7, uq_NodeID = ''00112233445566778899aabbccddeeff''\<rparr> (Reader ''abc'' None) 0) =
      Inr \<lparr>fr_ID = 0, fr_Path = ''/a'', fr_Size = 3, fr_Status = ''uploaded''\<rparr> \<and>
    fst (GetFile failing_bucket \<lparr>fp_value = ''/a''\<rparr> 1) = Inl (Errorf ''file not found in GridFS: /a'')"
proof -
  let ?req = "\<lparr>uq_Path = ''/a'', uq_UserID = 7, uq_NodeID = ''00112233445566778899aabbccddeeff''\<rparr>"
  have path: "NewFilePath (uq_Path ?req) = Inr \<lparr>fp_value = ''/a''\<rparr>" by code_simp
  have node: "StorageNodeIDFromString (uq_NodeID ?req) = Inr \<lparr>sn_value = ''00112233445566778899aabbccddeeff''\<rparr>" by code_simp
  have lost: "fst (GetFile failing_bucket \<lparr>fp_value = ''/a''\<rparr> 1) = Inl (Errorf ''file not found in GridFS: /a'')" by code_simp
  have "UploadFile sha \<lparr>fs_fileRepo = counting_repository, fs_storage = Some (gridfs_storage failing_bucket)\<rparr> ?req (Reader ''abc'' None) 0 =
      (Inr \<lparr>fr_ID = 0, fr_Path = uq_Path ?req, fr_Size = int (length ''abc''), fr_Status = ''uploaded''\<rparr>, 1)" for sha
    by (rule upload_ignores_close [OF path _ node, of failing_bucket 0 "()" 0 _ 0 _ 0])
      (simp_all add: failing_bucket_def counting_repository_def)
  with lost show ?thesis by simp
qed

end
