(* ===== verification/Redis_Kv.thy ===== *)
theory Redis_Kv
  imports Sync_Node
begin

text \<open>
  Redis as the sources use it for plain values. The server and its client library are a parameter: a record of
  commands over a state \<open>'r\<close> with values \<open>'v\<close> (the encoded form of what is stored). \<open>kv_laws\<close> states what the
  commands promise about \<open>content\<close>, the values that can be read: a command may fail, a failed write may have
  taken effect, and entries may expire at any time. \<open>kv_answers\<close> adds that commands succeed.
\<close>

text \<open>\<open>Get\<close> of a missing key, for which the client returns \<open>redis.Nil\<close>, is \<open>None\<close>. A time to live is in
  nanoseconds. \<open>Keys\<close> takes the literal text before the \<open>*\<close> of its pattern.\<close>
record ('r, 'v) redis_kv =
  kv_Get :: "string \<Rightarrow> ('r, 'v option) io"
  kv_Set :: "string \<Rightarrow> 'v \<Rightarrow> int \<Rightarrow> ('r, unit) io"
  kv_Del :: "string \<Rightarrow> ('r, unit) io"
  kv_Keys :: "string \<Rightarrow> ('r, string list) io"

definition kv_laws :: "('r, 'v) redis_kv \<Rightarrow> ('r \<Rightarrow> string \<rightharpoonup> 'v) \<Rightarrow> bool" where
  "kv_laws kv content \<longleftrightarrow>
     (\<forall>k r res r1. kv_Get kv k r = (res, r1) \<longrightarrow>
        content r1 \<subseteq>\<^sub>m content r \<and> (\<forall>v. res = Inr v \<longrightarrow> v = content r1 k)) \<and>
     (\<forall>k d t r res r1 j v. kv_Set kv k d t r = (res, r1) \<longrightarrow> content r1 j = Some v \<longrightarrow>
        (j = k \<and> v = d) \<or> (content r j = Some v \<and> (j \<noteq> k \<or> res \<noteq> Inr ()))) \<and>
     (\<forall>k r res r1 j v. kv_Del kv k r = (res, r1) \<longrightarrow> content r1 j = Some v \<longrightarrow>
        content r j = Some v \<and> (j \<noteq> k \<or> res \<noteq> Inr ())) \<and>
     (\<forall>p r res r1. kv_Keys kv p r = (res, r1) \<longrightarrow> content r1 \<subseteq>\<^sub>m content r \<and>
        (\<forall>ks k. res = Inr ks \<longrightarrow> HasPrefix k p \<longrightarrow> content r1 k \<noteq> None \<longrightarrow> k \<in> set ks))"

definition kv_answers :: "('r, 'v) redis_kv \<Rightarrow> bool" where
  "kv_answers kv \<longleftrightarrow>
     (\<forall>k r. \<exists>v. fst (kv_Get kv k r) = Inr v) \<and> (\<forall>k d t r. fst (kv_Set kv k d t r) = Inr ()) \<and>
     (\<forall>k r. fst (kv_Del kv k r) = Inr ()) \<and> (\<forall>p r. \<exists>ks. fst (kv_Keys kv p r) = Inr ks)"

section \<open>The laws one by one\<close>

lemma kv_Get_less: "kv_laws kv content \<Longrightarrow> kv_Get kv k r = (res, r1) \<Longrightarrow> content r1 j = Some v \<Longrightarrow> content r j = Some v"
  unfolding kv_laws_def map_le_def by (metis domI)

lemma kv_Get_reads: "kv_laws kv content \<Longrightarrow> kv_Get kv k r = (Inr v, r1) \<Longrightarrow> v = content r1 k"
  unfolding kv_laws_def by metis

lemma kv_Set_cases:
  "kv_laws kv content \<Longrightarrow> kv_Set kv k d t r = (res, r1) \<Longrightarrow> content r1 j = Some v \<Longrightarrow>
   (j = k \<and> v = d) \<or> (content r j = Some v \<and> (j \<noteq> k \<or> res \<noteq> Inr ()))"
  unfolding kv_laws_def by metis

lemma kv_Del_cases:
  "kv_laws kv content \<Longrightarrow> kv_Del kv k r = (res, r1) \<Longrightarrow> content r1 j = Some v \<Longrightarrow>
   content r j = Some v \<and> (j \<noteq> k \<or> res \<noteq> Inr ())"
  unfolding kv_laws_def by metis

lemma kv_Keys_less: "kv_laws kv content \<Longrightarrow> kv_Keys kv p r = (res, r1) \<Longrightarrow> content r1 j = Some v \<Longrightarrow> content r j = Some v"
  unfolding kv_laws_def map_le_def by (metis domI)

lemma kv_Keys_all:
  "kv_laws kv content \<Longrightarrow> kv_Keys kv p r = (Inr ks, r1) \<Longrightarrow> HasPrefix k p \<Longrightarrow> content r1 k = Some v \<Longrightarrow> k \<in> set ks"
  unfolding kv_laws_def by (metis option.distinct(1))

section \<open>An instance\<close>

text \<open>A server that never fails and keeps everything, for examples.\<close>
definition list_kv :: "((string \<times> 'v) list, 'v) redis_kv" where
  "list_kv =
     \<lparr>kv_Get = \<lambda>k r. (Inr (map_of r k), r), kv_Set = \<lambda>k d t r. (Inr (), (k, d) # r),
      kv_Del = \<lambda>k r. (Inr (), filter (\<lambda>e. fst e \<noteq> k) r),
      kv_Keys = \<lambda>p r. (Inr (remdups (map fst (filter (\<lambda>e. HasPrefix (fst e) p) r))), r)\<rparr>"

lemma map_of_filter_key: "map_of (filter (\<lambda>e. fst e \<noteq> k) r) j = (if j = k then None else map_of r j)"
  by (induction r) auto

lemma list_kv_laws: "kv_laws list_kv map_of"
proof -
  have "k \<in> fst ` {x \<in> set r. HasPrefix (fst x) p}" if "HasPrefix k p" "map_of r k = Some v"
    for k p v and r :: "(string \<times> 'a) list"
    using map_of_SomeD [OF that(2)] that(1) by force
  then show ?thesis
    by (auto simp: kv_laws_def list_kv_def map_of_filter_key split: if_splits)
qed

lemma list_kv_answers: "kv_answers list_kv"
  by (simp add: kv_answers_def list_kv_def)

end
