(* ===== verification/Jwt_Service.thy ===== *)
theory Jwt_Service
  imports Redis_Kv
begin

text \<open>
  Tokens (\<^verbatim>\<open>internal/auth/jwt_models.go\<close>, \<^verbatim>\<open>jwt_service.go\<close>, \<^verbatim>\<open>redis_config.go\<close>). Parameters are the JWT
  library (\<open>jwt\<close>), Redis (\<open>kv\<close>) and \<open>encoding/json\<close> for the stored record (\<open>js\<close>). The \<open>i\<close>-th reading of the clock
  and the \<open>i\<close>-th random bytes of a call are \<open>jv_now env i\<close> and \<open>jv_rnd env i\<close>.
\<close>

section \<open>Data\<close>

text \<open>The claims with the registered ones they embed. Dates are whole seconds.\<close>
record JWTClaims =
  jc_UserID :: string
  jc_Email :: string
  jc_Role :: string
  jc_TokenID :: string
  jc_TokenType :: string
  jc_Issuer :: string
  jc_Subject :: string
  jc_Audience :: "string list"
  jc_ExpiresAt :: gotime
  jc_IssuedAt :: gotime
  jc_NotBefore :: gotime
  jc_ID :: string

record TokenPair =
  tp_AccessToken :: string
  tp_RefreshToken :: string
  tp_TokenType :: string
  tp_ExpiresIn :: int

record RefreshTokenData =
  td_UserID :: string
  td_TokenID :: string
  td_CreatedAt :: gotime
  td_ExpiresAt :: gotime
  td_IsRevoked :: bool

record JWTConfig =
  jg_AccessSecret :: string
  jg_RefreshSecret :: string
  jg_AccessTTL :: int
  jg_RefreshTTL :: int
  jg_Issuer :: string

definition DefaultJWTConfig :: JWTConfig where
  "DefaultJWTConfig =
     \<lparr>jg_AccessSecret = [], jg_RefreshSecret = [], jg_AccessTTL = 15 * 60 * 1000000000,
      jg_RefreshTTL = 30 * 24 * 3600 * 1000000000, jg_Issuer = ''syncvault''\<rparr>"

definition AccessTokenType :: string where "AccessTokenType = ''access''"
definition RefreshTokenType :: string where "RefreshTokenType = ''refresh''"
definition RefreshTokenKeyPrefix :: string where "RefreshTokenKeyPrefix = ''refresh_token:''"

text \<open>Signing with HS256 and \<open>ParseWithClaims\<close>, which gets the key function and reads the clock.\<close>
record jwt_lib =
  jw_SignedString :: "string \<Rightarrow> JWTClaims \<Rightarrow> gerr + string"
  jw_Parse :: "string \<Rightarrow> (string \<Rightarrow> gerr + string) \<Rightarrow> gotime \<Rightarrow> gerr + JWTClaims"

record 'v token_json =
  tj_Marshal :: "RefreshTokenData \<Rightarrow> gerr + 'v"
  tj_Unmarshal :: "'v \<Rightarrow> gerr + RefreshTokenData"

record jwt_env =
  jv_now :: "nat \<Rightarrow> gotime"
  jv_rnd :: "nat \<Rightarrow> gerr + string"

definition later_env :: "jwt_env \<Rightarrow> jwt_env" where
  "later_env env = env\<lparr>jv_now := \<lambda>i. jv_now env (Suc i)\<rparr>"

record ('r, 'v) JWTService =
  js_config :: JWTConfig
  js_redis :: "('r, 'v) redis_kv"
  js_jwt :: jwt_lib
  js_json :: "'v token_json"

section \<open>The service\<close>

definition generateTokenID :: "gerr + string \<Rightarrow> gerr + string" where
  "generateTokenID bytes = (case bytes of Inl err \<Rightarrow> Inl err | Inr b \<Rightarrow> Inr (URLEncode b))"

text \<open>\<open>jwt.NewNumericDate\<close>\<close>
definition NewNumericDate :: "gotime \<Rightarrow> gotime" where
  "NewNumericDate t = t - t mod 1000000000"

definition new_claims :: "JWTConfig \<Rightarrow> gotime \<Rightarrow> int \<Rightarrow> string \<Rightarrow> string \<Rightarrow> string \<Rightarrow> string \<Rightarrow> string \<Rightarrow> JWTClaims" where
  "new_claims cfg now ttl tokenType userID email role tokenID =
     \<lparr>jc_UserID = userID, jc_Email = email, jc_Role = role, jc_TokenID = tokenID, jc_TokenType = tokenType,
      jc_Issuer = jg_Issuer cfg, jc_Subject = userID, jc_Audience = [''syncvault-api''],
      jc_ExpiresAt = NewNumericDate (now + ttl), jc_IssuedAt = NewNumericDate now, jc_NotBefore = NewNumericDate now,
      jc_ID = tokenID\<rparr>"

definition storeRefreshToken ::
  "('r, 'v) JWTService \<Rightarrow> gotime \<Rightarrow> string \<Rightarrow> string \<Rightarrow> gotime \<Rightarrow> ('r, unit) io" where
  "storeRefreshToken s now tokenID userID expiresAt r =
     (case tj_Marshal (js_json s) \<lparr>td_UserID = userID, td_TokenID = tokenID, td_CreatedAt = now, td_ExpiresAt = expiresAt,
               td_IsRevoked = False\<rparr> of
        Inl err \<Rightarrow> (Inl (Wrapf ''failed to marshal token data: '' err), r)
      | Inr data \<Rightarrow> kv_Set (js_redis s) (RefreshTokenKeyPrefix @ tokenID) data (jg_RefreshTTL (js_config s)) r)"

definition GenerateTokenPair ::
  "jwt_env \<Rightarrow> ('r, 'v) JWTService \<Rightarrow> string \<Rightarrow> string \<Rightarrow> string \<Rightarrow> ('r, TokenPair) io" where
  "GenerateTokenPair env s userID email role r =
     (let cfg = js_config s; now = jv_now env 0 in
      case generateTokenID (jv_rnd env 0) of
        Inl err \<Rightarrow> (Inl (Wrapf ''failed to generate token ID: '' err), r)
      | Inr tokenID \<Rightarrow>
      (case jw_SignedString (js_jwt s) (jg_AccessSecret cfg)
              (new_claims cfg now (jg_AccessTTL cfg) AccessTokenType userID email role tokenID) of
        Inl err \<Rightarrow> (Inl (Wrapf ''failed to sign access token: '' err), r)
      | Inr accessToken \<Rightarrow>
      (case generateTokenID (jv_rnd env 1) of
        Inl err \<Rightarrow> (Inl (Wrapf ''failed to generate refresh token ID: '' err), r)
      | Inr refreshTokenID \<Rightarrow>
      (case jw_SignedString (js_jwt s) (jg_RefreshSecret cfg)
              (new_claims cfg now (jg_RefreshTTL cfg) RefreshTokenType userID email role refreshTokenID) of
        Inl err \<Rightarrow> (Inl (Wrapf ''failed to sign refresh token: '' err), r)
      | Inr refreshToken \<Rightarrow>
      (case storeRefreshToken s (jv_now env 1) refreshTokenID userID (now + jg_RefreshTTL cfg) r of
        (Inl err, r1) \<Rightarrow> (Inl (Wrapf ''failed to store refresh token: '' err), r1)
      | (Inr _, r1) \<Rightarrow>
          (Inr \<lparr>tp_AccessToken = accessToken, tp_RefreshToken = refreshToken, tp_TokenType = ''Bearer'',
                tp_ExpiresIn = jg_AccessTTL cfg div 1000000000\<rparr>, r1))))))"

definition keyfunc :: "string \<Rightarrow> string \<Rightarrow> gerr + string" where
  "keyfunc secret alg =
     (if alg = ''HS256'' \<or> alg = ''HS384'' \<or> alg = ''HS512'' then Inr secret
      else Inl (Errorf (''unexpected signing method: '' @ alg)))"

definition secret_of :: "JWTConfig \<Rightarrow> string \<Rightarrow> gerr + string" where
  "secret_of cfg tokenType =
     (if tokenType = AccessTokenType then Inr (jg_AccessSecret cfg)
      else if tokenType = RefreshTokenType then Inr (jg_RefreshSecret cfg)
      else Inl (Errorf (''unsupported token type: '' @ tokenType)))"

text \<open>A token that parses without error is valid and has these claims.\<close>
definition ValidateToken :: "('r, 'v) JWTService \<Rightarrow> gotime \<Rightarrow> string \<Rightarrow> string \<Rightarrow> gerr + JWTClaims" where
  "ValidateToken s now tokenString tokenType =
     (case secret_of (js_config s) tokenType of
        Inl err \<Rightarrow> Inl err
      | Inr secret \<Rightarrow>
          (case jw_Parse (js_jwt s) tokenString (keyfunc secret) now of
             Inl err \<Rightarrow> Inl (Wrapf ''failed to parse token: '' err)
           | Inr claims \<Rightarrow>
               if jc_TokenType claims \<noteq> tokenType
               then Inl (Errorf (''token type mismatch: expected '' @ tokenType @ '', got '' @ jc_TokenType claims))
               else Inr claims))"

definition getRefreshTokenBykey :: "('r, 'v) JWTService \<Rightarrow> string \<Rightarrow> ('r, RefreshTokenData) io" where
  "getRefreshTokenBykey s key r =
     (case kv_Get (js_redis s) key r of
        (Inl err, r1) \<Rightarrow> (Inl err, r1)
      | (Inr None, r1) \<Rightarrow> (Inl (Errorf ''redis: nil''), r1)
      | (Inr (Some data), r1) \<Rightarrow>
          (case tj_Unmarshal (js_json s) data of
             Inl err \<Rightarrow> (Inl (Wrapf ''failed to unmarshal token data: '' err), r1)
           | Inr tokenData \<Rightarrow> (Inr tokenData, r1)))"

definition getRefreshToken :: "('r, 'v) JWTService \<Rightarrow> string \<Rightarrow> ('r, RefreshTokenData) io" where
  "getRefreshToken s tokenID = getRefreshTokenBykey s (RefreshTokenKeyPrefix @ tokenID)"

definition revokeRefreshToken :: "gotime \<Rightarrow> ('r, 'v) JWTService \<Rightarrow> string \<Rightarrow> ('r, unit) io" where
  "revokeRefreshToken now s tokenID r =
     (case getRefreshToken s tokenID r of
        (Inl err, r1) \<Rightarrow> (Inl err, r1)
      | (Inr tokenData, r1) \<Rightarrow>
          (case tj_Marshal (js_json s) (tokenData\<lparr>td_IsRevoked := True\<rparr>) of
             Inl err \<Rightarrow> (Inl (Wrapf ''failed to marshal revoked token data: '' err), r1)
           | Inr data \<Rightarrow> kv_Set (js_redis s) (RefreshTokenKeyPrefix @ tokenID) data (td_ExpiresAt tokenData - now) r1))"

definition RevokeRefreshToken :: "gotime \<Rightarrow> ('r, 'v) JWTService \<Rightarrow> string \<Rightarrow> ('r, unit) io" where
  "RevokeRefreshToken = revokeRefreshToken"

text \<open>The two halves of \<open>RefreshTokens\<close>: the checks, then the rotation.\<close>
definition refresh_check :: "gotime \<Rightarrow> ('r, 'v) JWTService \<Rightarrow> string \<Rightarrow> ('r, JWTClaims) io" where
  "refresh_check now s refreshToken r =
     (case ValidateToken s now refreshToken RefreshTokenType of
        Inl err \<Rightarrow> (Inl (Wrapf ''invalid refresh token: '' err), r)
      | Inr claims \<Rightarrow>
      (case getRefreshToken s (jc_TokenID claims) r of
        (Inl err, r1) \<Rightarrow> (Inl (Wrapf ''refresh token not found or revoked: '' err), r1)
      | (Inr tokenData, r1) \<Rightarrow>
          if td_UserID tokenData \<noteq> jc_UserID claims then (Inl (Errorf ''token user mismatch''), r1)
          else if td_IsRevoked tokenData
          then (Inl (Errorf ''refresh token has been revoked - possible theft detected''), r1)
          else (Inr claims, r1)))"

definition refresh_rotate :: "jwt_env \<Rightarrow> ('r, 'v) JWTService \<Rightarrow> JWTClaims \<Rightarrow> ('r, TokenPair) io" where
  "refresh_rotate env s claims r =
     (case revokeRefreshToken (jv_now env 0) s (jc_TokenID claims) r of
        (Inl err, r1) \<Rightarrow> (Inl (Wrapf ''failed to revoke old refresh token: '' err), r1)
      | (Inr _, r1) \<Rightarrow>
      (case GenerateTokenPair (later_env env) s (jc_UserID claims) (jc_Email claims) (jc_Role claims) r1 of
        (Inl err, r2) \<Rightarrow> (Inl (Wrapf ''failed to generate new tokens: '' err), r2)
      | (Inr newTokenPair, r2) \<Rightarrow> (Inr newTokenPair, r2)))"

definition RefreshTokens :: "jwt_env \<Rightarrow> ('r, 'v) JWTService \<Rightarrow> string \<Rightarrow> ('r, TokenPair) io" where
  "RefreshTokens env s refreshToken r =
     (case refresh_check (jv_now env 0) s refreshToken r of
        (Inl err, r1) \<Rightarrow> (Inl err, r1)
      | (Inr claims, r1) \<Rightarrow> refresh_rotate (later_env env) s claims r1)"

text \<open>The loop of \<open>Logout\<close>; what \<open>Del\<close> returns is not looked at.\<close>
primrec logout_keys :: "('r, 'v) JWTService \<Rightarrow> string \<Rightarrow> string list \<Rightarrow> 'r \<Rightarrow> 'r" where
  "logout_keys s userID [] r = r"
| "logout_keys s userID (key # ks) r =
     (case getRefreshTokenBykey s key r of
        (Inl _, r1) \<Rightarrow> logout_keys s userID ks r1
      | (Inr tokenData, r1) \<Rightarrow>
          logout_keys s userID ks (if td_UserID tokenData = userID then snd (kv_Del (js_redis s) key r1) else r1))"

definition jwt_Logout :: "('r, 'v) JWTService \<Rightarrow> string \<Rightarrow> ('r, unit) io" where
  "jwt_Logout s userID r =
     (case kv_Keys (js_redis s) RefreshTokenKeyPrefix r of
        (Inl err, r1) \<Rightarrow> (Inl (Wrapf ''failed to find user tokens: '' err), r1)
      | (Inr ks, r1) \<Rightarrow> (Inr (), logout_keys s userID ks r1))"


section \<open>What the library and the encoding promise\<close>

definition token_json_law :: "'v token_json \<Rightarrow> bool" where
  "token_json_law js \<longleftrightarrow> (\<forall>d v. tj_Marshal js d = Inr v \<longrightarrow> tj_Unmarshal js v = Inr d)"

text \<open>The claims are written in the token: parsing it again gives the same ones.\<close>
definition claims_fixed :: "jwt_lib \<Rightarrow> bool" where
  "claims_fixed jwt \<longleftrightarrow>
     (\<forall>t kf now now' c c'. jw_Parse jwt t kf now = Inr c \<longrightarrow> jw_Parse jwt t kf now' = Inr c' \<longrightarrow> c = c')"

text \<open>The claims as they come back: two pairs of fields share a JSON name, and the outer one wins.\<close>
definition wire :: "JWTClaims \<Rightarrow> JWTClaims" where
  "wire c = c\<lparr>jc_Subject := [], jc_ID := []\<rparr>"

text \<open>A signed token is accepted exactly under its key and between its dates.\<close>
definition signing_law :: "jwt_lib \<Rightarrow> bool" where
  "signing_law jwt \<longleftrightarrow>
     (\<forall>key c t kf now. jw_SignedString jwt key c = Inr t \<longrightarrow>
        (\<forall>c'. jw_Parse jwt t kf now = Inr c' \<longleftrightarrow>
           kf ''HS256'' = Inr key \<and> jc_NotBefore c \<le> now \<and> now < jc_ExpiresAt c \<and> c' = wire c))"

section \<open>Using a refresh token once\<close>

lemma get_less:
  assumes "kv_laws (js_redis s) content" and "getRefreshTokenBykey s key r = (res, r1)" and "content r1 j = Some v"
  shows "content r j = Some v"
  using assms kv_Get_less [OF assms(1), of key r]
  by (auto simp: getRefreshTokenBykey_def split: prod.splits sum.splits option.splits)

lemma get_reads:
  assumes "kv_laws (js_redis s) content" and "getRefreshTokenBykey s key r = (Inr d, r1)"
  shows "\<exists>v. content r1 key = Some v \<and> tj_Unmarshal (js_json s) v = Inr d"
  using assms(2) kv_Get_reads [OF assms(1), of key r]
  by (fastforce simp: getRefreshTokenBykey_def split: prod.splits sum.splits option.splits)

text \<open>A token that its user cannot use any more: its record is gone, unreadable, marked as revoked or someone else's.\<close>
definition spent :: "('r, 'v) JWTService \<Rightarrow> ('r \<Rightarrow> string \<rightharpoonup> 'v) \<Rightarrow> string \<Rightarrow> string \<Rightarrow> 'r \<Rightarrow> bool" where
  "spent s content u tokenID r \<longleftrightarrow>
     (\<forall>v d. content r (RefreshTokenKeyPrefix @ tokenID) = Some v \<longrightarrow> tj_Unmarshal (js_json s) v = Inr d \<longrightarrow>
        td_IsRevoked d \<or> td_UserID d \<noteq> u)"

lemma spent_less:
  "spent s content u i r \<Longrightarrow> (\<And>j v. content r1 j = Some v \<Longrightarrow> content r j = Some v) \<Longrightarrow> spent s content u i r1"
  unfolding spent_def by blast

lemma spent_get:
  "kv_laws (js_redis s) content \<Longrightarrow> spent s content u i r \<Longrightarrow> getRefreshTokenBykey s key r = (res, r1) \<Longrightarrow> spent s content u i r1"
  by (erule spent_less) (rule get_less)

lemma spent_revoke:
  assumes laws: "kv_laws (js_redis s) content" "token_json_law (js_json s)"
    and rev: "revokeRefreshToken now s i r = (res, r1)" and pre: "j \<noteq> i \<Longrightarrow> spent s content u j r" "j = i \<Longrightarrow> res = Inr () \<or> spent s content u j r"
  shows "spent s content u j r1"
proof -
  obtain d0 r0 where get: "getRefreshToken s i r = (d0, r0)" by force
  have r0: "spent s content u j r0" if "spent s content u j r"
    using spent_get [OF laws(1) that get [unfolded getRefreshToken_def]] .
  show ?thesis
  proof (cases "\<exists>d data. d0 = Inr d \<and> tj_Marshal (js_json s) (d\<lparr>td_IsRevoked := True\<rparr>) = Inr data")
    case False
    then have "r1 = r0 \<and> res \<noteq> Inr ()"
      using rev get by (auto simp: revokeRefreshToken_def split: sum.splits)
    with pre r0 show ?thesis by blast
  next
    case True
    then obtain d data where d: "d0 = Inr d" "tj_Marshal (js_json s) (d\<lparr>td_IsRevoked := True\<rparr>) = Inr data" by blast
    then have data: "tj_Unmarshal (js_json s) data = Inr (d\<lparr>td_IsRevoked := True\<rparr>)"
      using laws(2) unfolding token_json_law_def by blast
    have set: "kv_Set (js_redis s) (RefreshTokenKeyPrefix @ i) data (td_ExpiresAt d - now) r0 = (res, r1)"
      using rev get d by (simp add: revokeRefreshToken_def)
    show ?thesis
      unfolding spent_def
    proof (intro allI impI)
      fix v dv assume v: "content r1 (RefreshTokenKeyPrefix @ j) = Some v" and dv: "tj_Unmarshal (js_json s) v = Inr dv"
      from kv_Set_cases [OF laws(1) set v]
      consider "v = data" | "content r0 (RefreshTokenKeyPrefix @ j) = Some v" "j \<noteq> i \<or> res \<noteq> Inr ()" by auto
      then show "td_IsRevoked dv \<or> td_UserID dv \<noteq> u"
      proof cases
        case 2
        with pre r0 have "spent s content u j r0" by blast
        with 2(1) dv show ?thesis unfolding spent_def by blast
      qed (use data dv in auto)
    qed
  qed
qed

lemma spent_generate:
  assumes laws: "kv_laws (js_redis s) content" and gen: "GenerateTokenPair env s usr e ro r = (res, r1)"
    and fresh: "generateTokenID (jv_rnd env 1) \<noteq> Inr i" and pre: "spent s content u i r"
  shows "spent s content u i r1"
proof (cases "r1 = r")
  case False
  then obtain k d t res' where "generateTokenID (jv_rnd env 1) = Inr k"
    and set: "kv_Set (js_redis s) (RefreshTokenKeyPrefix @ k) d t r = (res', r1)"
    using gen by (auto simp: GenerateTokenPair_def storeRefreshToken_def Let_def split: sum.splits prod.splits)
  with fresh have "k \<noteq> i" by auto
  with kv_Set_cases [OF laws set] pre show ?thesis unfolding spent_def by fastforce
qed (use pre in simp)

lemma spent_check:
  assumes "kv_laws (js_redis s) content" and "refresh_check now s t r = (res, r1)" and "spent s content u i r"
  shows "spent s content u i r1"
  using assms(2,3) spent_get [OF assms(1,3)]
  by (auto simp: refresh_check_def getRefreshToken_def split: sum.splits prod.splits if_splits)

lemma spent_rotate:
  assumes laws: "kv_laws (js_redis s) content" "token_json_law (js_json s)"
    and rot: "refresh_rotate env s claims r = (res, r1)" and fresh: "generateTokenID (jv_rnd env 1) \<noteq> Inr i"
    and pre: "spent s content u i r \<or> (jc_TokenID claims = i \<and> (\<exists>p. res = Inr p))"
  shows "spent s content u i r1"
proof -
  obtain res0 r0 where rev: "revokeRefreshToken (jv_now env 0) s (jc_TokenID claims) r = (res0, r0)" by force
  have ok: "(\<exists>p. res = Inr p) \<Longrightarrow> res0 = Inr ()"
    using rot rev by (auto simp: refresh_rotate_def split: sum.splits)
  have r0: "spent s content u i r0"
    using spent_revoke [OF laws rev, of i] pre ok by blast
  show ?thesis
  proof (cases res0)
    case (Inl err)
    with rot rev r0 show ?thesis by (simp add: refresh_rotate_def)
  next
    case (Inr x)
    then obtain res2 where "GenerateTokenPair (later_env env) s (jc_UserID claims) (jc_Email claims) (jc_Role claims) r0 = (res2, r1)"
      using rot rev by (auto simp: refresh_rotate_def split: sum.splits prod.splits)
    from spent_generate [OF laws(1) this _ r0] fresh show ?thesis by (simp add: later_env_def)
  qed
qed

lemma spent_logout_keys:
  assumes "kv_laws (js_redis s) content" and "spent s content u i r"
  shows "spent s content u i (logout_keys s usr ks r)"
  using assms(2)
proof (induction ks arbitrary: r)
  case (Cons k ks)
  obtain res r1 where get: "getRefreshTokenBykey s k r = (res, r1)" by force
  have r1: "spent s content u i r1" by (rule spent_get [OF assms(1) Cons.prems get])
  have "spent s content u i (snd (kv_Del (js_redis s) k r1))"
    by (rule spent_less [OF r1]) (metis assms(1) kv_Del_cases prod.collapse)
  with get r1 Cons.IH show ?case by (auto split: sum.splits)
qed simp

section \<open>Runs of the service\<close>

datatype token_event = Issue jwt_env string string string | Rotate jwt_env string | LogOut string | Revoke gotime string

fun token_exec :: "('r, 'v) JWTService \<Rightarrow> token_event \<Rightarrow> 'r \<Rightarrow> 'r" where
  "token_exec s (Issue env userID email role) r = snd (GenerateTokenPair env s userID email role r)"
| "token_exec s (Rotate env token) r = snd (RefreshTokens env s token r)"
| "token_exec s (LogOut userID) r = snd (jwt_Logout s userID r)"
| "token_exec s (Revoke now tokenID) r = snd (RevokeRefreshToken now s tokenID r)"

text \<open>The event does not draw this identifier for a refresh token.\<close>
fun draws_other :: "string \<Rightarrow> token_event \<Rightarrow> bool" where
  "draws_other i (Issue env userID email role) = (generateTokenID (jv_rnd env 1) \<noteq> Inr i)"
| "draws_other i (Rotate env token) = (generateTokenID (jv_rnd env 1) \<noteq> Inr i)"
| "draws_other i _ = True"

lemma spent_exec:
  assumes laws: "kv_laws (js_redis s) content" "token_json_law (js_json s)" and "draws_other i ev" and "spent s content u i r"
  shows "spent s content u i (token_exec s ev r)"
proof (cases ev)
  case (Issue env usr e ro)
  with assms show ?thesis
    by (cases "GenerateTokenPair env s usr e ro r") (auto intro: spent_generate [OF laws(1)])
next
  case (Rotate env t)
  obtain res0 r0 where check: "refresh_check (jv_now env 0) s t r = (res0, r0)" by force
  note r0 = spent_check [OF laws(1) check assms(4)]
  show ?thesis
  proof (cases res0)
    case (Inr claims)
    obtain res1 r1 where rot: "refresh_rotate (later_env env) s claims r0 = (res1, r1)" by force
    have "spent s content u i r1"
      by (rule spent_rotate [OF laws rot]) (use assms(3) Rotate r0 in \<open>simp_all add: later_env_def\<close>)
    with Rotate check Inr rot show ?thesis by (simp add: RefreshTokens_def)
  qed (use Rotate check r0 in \<open>simp add: RefreshTokens_def\<close>)
next
  case (LogOut usr)
  obtain res0 r0 where keys: "kv_Keys (js_redis s) RefreshTokenKeyPrefix r = (res0, r0)" by force
  have "spent s content u i r0" by (rule spent_less [OF assms(4)]) (rule kv_Keys_less [OF laws(1) keys])
  with keys LogOut spent_logout_keys [OF laws(1)] show ?thesis by (auto simp: jwt_Logout_def split: sum.splits)
next
  case (Revoke now j)
  obtain res0 r0 where rev: "revokeRefreshToken now s j r = (res0, r0)" by force
  then show ?thesis
    using spent_revoke [OF laws rev, of i] assms(4) Revoke by (auto simp: RevokeRefreshToken_def)
qed

lemma spent_run:
  assumes "kv_laws (js_redis s) content" "token_json_law (js_json s)" and "list_all (draws_other i) evs" and "spent s content u i r"
  shows "spent s content u i (fold (token_exec s) evs r)"
  using assms(3,4) by (induction evs arbitrary: r) (simp_all add: spent_exec [OF assms(1,2)])

lemma spent_refused:
  assumes "kv_laws (js_redis s) content" and "spent s content (jc_UserID claims) (jc_TokenID claims) r"
    and "\<And>c. ValidateToken s now t RefreshTokenType = Inr c \<Longrightarrow> c = claims"
  shows "\<exists>err. fst (refresh_check now s t r) = Inl err"
proof -
  obtain res r1 where get: "getRefreshToken s (jc_TokenID claims) r = (res, r1)" by force
  have "spent s content (jc_UserID claims) (jc_TokenID claims) r1"
    using spent_get [OF assms(1,2) get [unfolded getRefreshToken_def]] .
  then have "td_IsRevoked d \<or> td_UserID d \<noteq> jc_UserID claims" if "res = Inr d" for d
    using get_reads [OF assms(1), of "RefreshTokenKeyPrefix @ jc_TokenID claims" r d r1] get that
    unfolding getRefreshToken_def spent_def by auto
  with get assms(3) show ?thesis
    by (cases "ValidateToken s now t RefreshTokenType"; cases res) (auto simp: refresh_check_def)
qed

lemma refused_run:
  assumes "kv_laws (js_redis s) content" and "token_json_law (js_json s)" and "claims_fixed (js_jwt s)"
    and "ValidateToken s now t RefreshTokenType = Inr claims" and "list_all (draws_other (jc_TokenID claims)) evs"
    and "spent s content (jc_UserID claims) (jc_TokenID claims) r"
  shows "\<exists>err. fst (RefreshTokens env s t (fold (token_exec s) evs r)) = Inl err"
proof -
  have same: "c = claims" if "ValidateToken s (jv_now env 0) t RefreshTokenType = Inr c" for c
    using that assms(3,4) unfolding claims_fixed_def
    by (auto simp: ValidateToken_def split: sum.splits if_splits)
  have "\<exists>err. fst (refresh_check (jv_now env 0) s t (fold (token_exec s) evs r)) = Inl err"
    by (rule spent_refused [OF assms(1) spent_run [OF assms(1,2,5,6)]]) (rule same)
  then show ?thesis by (auto simp: RefreshTokens_def split: prod.splits)
qed

text \<open>C11: a refresh token works once. After a successful \<open>RefreshTokens\<close> every later attempt with the same token is refused,
  whatever tokens are issued, refreshed or revoked and whoever logs out in between, while commands of Redis may
  fail and entries expire, provided that the random identifiers drawn meanwhile are not that of the token.\<close>
theorem refresh_single_use:
  assumes "kv_laws (js_redis s) content" and "token_json_law (js_json s)" and "claims_fixed (js_jwt s)"
    and "RefreshTokens env s t r = (Inr pair, r1)"
    and "ValidateToken s (jv_now env 0) t RefreshTokenType = Inr claims"
    and "generateTokenID (jv_rnd env 1) \<noteq> Inr (jc_TokenID claims)" and "list_all (draws_other (jc_TokenID claims)) evs"
  shows "\<exists>err. fst (RefreshTokens env' s t (fold (token_exec s) evs r1)) = Inl err"
proof -
  obtain r0 where "refresh_rotate (later_env env) s claims r0 = (Inr pair, r1)"
    using assms(4,5) by (auto simp: RefreshTokens_def refresh_check_def split: sum.splits prod.splits if_splits)
  from spent_rotate [OF assms(1,2) this, of "jc_TokenID claims" "jc_UserID claims"] assms(6)
  have "spent s content (jc_UserID claims) (jc_TokenID claims) r1" by (simp add: later_env_def)
  from refused_run [OF assms(1,2,3,5,7) this] show ?thesis .
qed

section \<open>Logging out\<close>

lemma get_answers:
  assumes "kv_laws (js_redis s) content" and "kv_answers (js_redis s)" and "getRefreshTokenBykey s key r = (res, r1)"
    and "content r1 key = Some v" and "tj_Unmarshal (js_json s) v = Inr d"
  shows "res = Inr d"
proof -
  obtain res0 r0 where get: "kv_Get (js_redis s) key r = (res0, r0)" by force
  then obtain x where x: "res0 = Inr x" using assms(2) unfolding kv_answers_def by (metis fst_conv)
  with get assms(3) have "r0 = r1"
    by (auto simp: getRefreshTokenBykey_def split: option.splits sum.splits)
  with kv_Get_reads [OF assms(1)] get x assms(4) have "x = Some v" by auto
  with get x assms(3,5) show ?thesis by (simp add: getRefreshTokenBykey_def)
qed

lemma kv_Del_drops:
  assumes "kv_laws kv content" and "kv_answers kv" and "content (snd (kv_Del kv k r)) j = Some v"
  shows "content r j = Some v \<and> j \<noteq> k"
proof -
  obtain res r1 where del: "kv_Del kv k r = (res, r1)" by force
  with assms(2) have "res = Inr ()" unfolding kv_answers_def by (metis fst_conv)
  with kv_Del_cases [OF assms(1) del] del assms(3) show ?thesis by auto
qed

text \<open>Whatever is left after the loop was there before, and at the keys of the loop it is not the user's.\<close>
lemma logout_keys_clears:
  assumes laws: "kv_laws (js_redis s) content" "kv_answers (js_redis s)"
    and "content (logout_keys s u ks r) k = Some v"
  shows "content r k = Some v \<and> (k \<in> set ks \<longrightarrow> (\<forall>d. tj_Unmarshal (js_json s) v = Inr d \<longrightarrow> td_UserID d \<noteq> u))"
  using assms(3)
proof (induction ks arbitrary: r)
  case (Cons key ks)
  obtain res r1 where get: "getRefreshTokenBykey s key r = (res, r1)" by force
  define r2 where "r2 = (case res of Inl _ \<Rightarrow> r1
    | Inr d \<Rightarrow> if td_UserID d = u then snd (kv_Del (js_redis s) key r1) else r1)"
  have "content (logout_keys s u ks r2) k = Some v"
    using Cons.prems get unfolding r2_def by (auto split: sum.splits if_splits)
  note ih = Cons.IH [OF this]
  have step: "content r1 k = Some v \<and> (k = key \<longrightarrow> (\<forall>d. tj_Unmarshal (js_json s) v = Inr d \<longrightarrow> td_UserID d \<noteq> u))"
  proof (cases "\<exists>d. res = Inr d \<and> td_UserID d = u")
    case True
    with ih have "content (snd (kv_Del (js_redis s) key r1)) k = Some v" unfolding r2_def by auto
    from kv_Del_drops [OF laws this] show ?thesis by blast
  next
    case False
    then have "r2 = r1" unfolding r2_def by (auto split: sum.splits)
    with ih get_answers [OF laws get] False show ?thesis by blast
  qed
  with ih get_less [OF laws(1) get] show ?case by auto
qed simp

lemma logout_spends:
  assumes "kv_laws (js_redis s) content" and "kv_answers (js_redis s)"
  shows "fst (jwt_Logout s u r) = Inr () \<and> spent s content u i (snd (jwt_Logout s u r))"
proof -
  obtain res r0 where keys: "kv_Keys (js_redis s) RefreshTokenKeyPrefix r = (res, r0)" by force
  then obtain ks where ks: "res = Inr ks" using assms(2) unfolding kv_answers_def by (metis fst_conv)
  have "spent s content u i (logout_keys s u ks r0)"
    unfolding spent_def
  proof (intro allI impI disjI2)
    fix v d assume v: "content (logout_keys s u ks r0) (RefreshTokenKeyPrefix @ i) = Some v"
      and d: "tj_Unmarshal (js_json s) v = Inr d"
    note left = logout_keys_clears [OF assms v]
    have "RefreshTokenKeyPrefix @ i \<in> set ks"
      using kv_Keys_all [OF assms(1), of RefreshTokenKeyPrefix r ks r0] keys ks left by (auto simp: HasPrefix_def)
    with left d show "td_UserID d \<noteq> u" by blast
  qed
  with keys ks show ?thesis by (simp add: jwt_Logout_def)
qed

text \<open>C12: logging out ends every session of the user. When Redis answers, \<open>Logout\<close> succeeds, and afterwards no refresh token that
  names this user is accepted, whatever happens in between short of its identifier being drawn again.\<close>
theorem logout_ends_sessions:
  assumes "kv_laws (js_redis s) content" and "kv_answers (js_redis s)" and "token_json_law (js_json s)"
    and "claims_fixed (js_jwt s)" and "ValidateToken s now t RefreshTokenType = Inr claims" and "jc_UserID claims = u"
    and "list_all (draws_other (jc_TokenID claims)) evs"
  shows "fst (jwt_Logout s u r) = Inr () \<and>
    (\<exists>err. fst (RefreshTokens env s t (fold (token_exec s) evs (snd (jwt_Logout s u r)))) = Inl err)"
proof -
  have "spent s content (jc_UserID claims) (jc_TokenID claims) (snd (jwt_Logout s u r))"
    using logout_spends [OF assms(1,2)] assms(6) by blast
  from refused_run [OF assms(1,3,4,5,7) this]
  show ?thesis using logout_spends [OF assms(1,2)] by blast
qed

section \<open>A library for examples\<close>

text \<open>Tokens by table: a name, the key and the claims; only the claims of the table can be signed.\<close>
definition table_jwt :: "(string \<times> string \<times> JWTClaims) list \<Rightarrow> jwt_lib" where
  "table_jwt tbl =
     \<lparr>jw_SignedString = \<lambda>key c. (case find (\<lambda>e. snd e = (key, c)) tbl of
        None \<Rightarrow> Inl (Errorf ''cannot sign'') | Some e \<Rightarrow> Inr (fst e)),
      jw_Parse = \<lambda>t kf now. (case map_of tbl t of
        None \<Rightarrow> Inl (Errorf ''token is malformed'')
      | Some (key, c) \<Rightarrow> if kf ''HS256'' = Inr key \<and> jc_NotBefore c \<le> now \<and> now < jc_ExpiresAt c then Inr (wire c)
          else Inl (Errorf ''token is invalid''))\<rparr>"

lemma find_named:
  assumes "distinct (map fst tbl)" and "find (\<lambda>e. snd e = x) tbl = Some e"
  shows "map_of tbl (fst e) = Some x"
proof -
  have "e \<in> set tbl" "snd e = x" using assms(2) by (auto simp: find_Some_iff)
  with assms(1) show ?thesis by (auto simp: map_of_eq_Some_iff)
qed

lemma table_jwt_law:
  assumes "distinct (map fst tbl)"
  shows "signing_law (table_jwt tbl)"
  unfolding signing_law_def
proof (intro allI impI)
  fix key c t kf now c'
  assume "jw_SignedString (table_jwt tbl) key c = Inr t"
  then obtain e where "find (\<lambda>e. snd e = (key, c)) tbl = Some e" "t = fst e"
    by (auto simp: table_jwt_def split: option.splits)
  with find_named [OF assms] have "map_of tbl t = Some (key, c)" by blast
  then show "(jw_Parse (table_jwt tbl) t kf now = Inr c') =
    (kf ''HS256'' = Inr key \<and> jc_NotBefore c \<le> now \<and> now < jc_ExpiresAt c \<and> c' = wire c)"
    by (auto simp: table_jwt_def)
qed

lemma table_claims_fixed: "claims_fixed (table_jwt tbl)"
  by (auto simp: claims_fixed_def table_jwt_def split: option.splits if_splits)

text \<open>The record itself as its encoding.\<close>
definition plain_json :: "RefreshTokenData token_json" where
  "plain_json = \<lparr>tj_Marshal = Inr, tj_Unmarshal = Inr\<rparr>"

lemma plain_json_law: "token_json_law plain_json"
  by (simp add: token_json_law_def plain_json_def)

text \<open>A configuration and two users' refresh tokens, of which the first is also issued again.\<close>
definition ex_config :: JWTConfig where
  "ex_config = \<lparr>jg_AccessSecret = ''a'', jg_RefreshSecret = ''r'', jg_AccessTTL = 900000000000, jg_RefreshTTL = 2000000000000, jg_Issuer = ''syncvault''\<rparr>"

definition ex_claims :: "string \<Rightarrow> string \<Rightarrow> string \<Rightarrow> JWTClaims" where
  "ex_claims ty u i = new_claims ex_config 0 (if ty = AccessTokenType then jg_AccessTTL ex_config else jg_RefreshTTL ex_config) ty u ''e'' ''user'' (URLEncode i)"

definition ex_service :: "((string \<times> RefreshTokenData) list, RefreshTokenData) JWTService" where
  "ex_service =
     \<lparr>js_config = ex_config, js_redis = list_kv,
      js_jwt = table_jwt [(''A0'', ''a'', ex_claims AccessTokenType ''1'' ''x''), (''R1'', ''r'', ex_claims RefreshTokenType ''1'' ''y''),
        (''R2'', ''r'', ex_claims RefreshTokenType ''1'' ''z''), (''A2'', ''a'', ex_claims AccessTokenType ''2'' ''x''),
        (''R3'', ''r'', ex_claims RefreshTokenType ''2'' ''w''), (''R4'', ''r'', ex_claims RefreshTokenType ''1'' ''v'')],
      js_json = plain_json\<rparr>"

text \<open>The identifiers drawn by a call.\<close>
definition ex_env :: "string \<Rightarrow> jwt_env" where
  "ex_env i = \<lparr>jv_now = \<lambda>_. 5, jv_rnd = \<lambda>n. Inr (if n = 0 then ''x'' else i)\<rparr>"

definition ex_redis :: "(string \<times> RefreshTokenData) list" where
  "ex_redis = snd (GenerateTokenPair (ex_env ''y'') ex_service ''1'' ''e'' ''user'' [])"

lemma ex_parts: "js_redis ex_service = list_kv" "js_json ex_service = plain_json"
  by (simp_all add: ex_service_def)

lemma ex_claims_fixed: "claims_fixed (js_jwt ex_service)"
  by (simp add: ex_service_def table_claims_fixed)

lemma ex_signing: "signing_law (js_jwt ex_service)"
  unfolding ex_service_def by (simp add: table_jwt_law)

lemma ex_laws: "kv_laws (js_redis ex_service) map_of" "kv_answers (js_redis ex_service)"
  "token_json_law (js_json ex_service)"
  by (simp_all add: ex_parts list_kv_laws list_kv_answers plain_json_law)

lemma ex_rotate: "RefreshTokens (ex_env ''z'') ex_service ''R1'' ex_redis =
  (Inr \<lparr>tp_AccessToken = ''A0'', tp_RefreshToken = ''R2'', tp_TokenType = ''Bearer'', tp_ExpiresIn = 900\<rparr>,
   snd (RefreshTokens (ex_env ''z'') ex_service ''R1'' ex_redis))"
  by code_simp

lemma ex_valid: "ValidateToken ex_service (jv_now (ex_env ''z'') 0) ''R1'' RefreshTokenType = Inr (wire (ex_claims RefreshTokenType ''1'' ''y''))"
  by code_simp

lemma ex_draws:
  "generateTokenID (jv_rnd (ex_env ''z'') 1) \<noteq> Inr (jc_TokenID (wire (ex_claims RefreshTokenType ''1'' ''y'')))"
  "list_all (draws_other (jc_TokenID (wire (ex_claims RefreshTokenType ''1'' ''y'')))) [Issue (ex_env ''w'') ''2'' ''e'' ''user'', LogOut ''2'']"
  by code_simp+

lemma refresh_single_use_witness:
  "\<exists>err. fst (RefreshTokens (ex_env ''z'') ex_service ''R1''
     (fold (token_exec ex_service) [Issue (ex_env ''w'') ''2'' ''e'' ''user'', LogOut ''2'']
        (snd (RefreshTokens (ex_env ''z'') ex_service ''R1'' ex_redis)))) = Inl err"
  by (rule refresh_single_use [OF ex_laws(1,3) ex_claims_fixed ex_rotate ex_valid ex_draws])

lemma logout_ends_sessions_witness:
  "fst (jwt_Logout ex_service ''1'' ex_redis) = Inr () \<and>
   (\<exists>err. fst (RefreshTokens (ex_env ''z'') ex_service ''R1'' (fold (token_exec ex_service)
      [Issue (ex_env ''w'') ''2'' ''e'' ''user'', LogOut ''2''] (snd (jwt_Logout ex_service ''1'' ex_redis)))) = Inl err)"
  by (rule logout_ends_sessions [OF ex_laws ex_claims_fixed ex_valid _ ex_draws(2)]) code_simp

text \<open>The checks and the rotation of \<open>RefreshTokens\<close> are separate commands of Redis: two requests with the same token that
  interleave both get new tokens, and none is told of a theft.\<close>
theorem refresh_race:
  "let (c1, r1) = refresh_check 5 ex_service ''R1'' ex_redis; (c2, r2) = refresh_check 5 ex_service ''R1'' r1;
       (p1, r3) = refresh_rotate (ex_env ''z'') ex_service (projr c1) r2; (p2, r4) = refresh_rotate (ex_env ''v'') ex_service (projr c2) r3
   in map_sum id tp_RefreshToken p1 = Inr ''R2'' \<and> map_sum id tp_RefreshToken p2 = Inr ''R4'' \<and>
      isl (fst (RefreshTokens (ex_env ''v'') ex_service ''R1'' r3))"
  by code_simp

end
