(* ===== verification/Security.thy ===== *)
theory Security
  imports Sync_Node
begin

text \<open>
  Package \<^verbatim>\<open>internal/security\<close>: password rules, validation of input, response headers and the in-memory rate limiter.
  bcrypt is a parameter, as are Unicode's tables beyond ASCII. The number of minutes in a duration is exact
  instead of a \<open>float64\<close>; requests are served one after the other.
\<close>

section \<open>Runes\<close>

text \<open>\<open>range\<close> over a string: a byte that starts no valid UTF-8 sequence is the rune \<open>U+FFFD\<close>.\<close>
definition cont_byte :: "nat \<Rightarrow> bool" where
  "cont_byte b \<longleftrightarrow> 128 \<le> b \<and> b \<le> 191"

definition seq2 :: "nat \<Rightarrow> nat \<Rightarrow> bool" where
  "seq2 a b \<longleftrightarrow> 194 \<le> a \<and> a \<le> 223 \<and> cont_byte b"

definition seq3 :: "nat \<Rightarrow> nat \<Rightarrow> nat \<Rightarrow> bool" where
  "seq3 a b c \<longleftrightarrow> 224 \<le> a \<and> a \<le> 239 \<and> cont_byte b \<and> cont_byte c \<and> (a = 224 \<longrightarrow> 160 \<le> b) \<and> (a = 237 \<longrightarrow> b \<le> 159)"

definition seq4 :: "nat \<Rightarrow> nat \<Rightarrow> nat \<Rightarrow> nat \<Rightarrow> bool" where
  "seq4 a b c d \<longleftrightarrow> 240 \<le> a \<and> a \<le> 244 \<and> cont_byte b \<and> cont_byte c \<and> cont_byte d \<and>
     (a = 240 \<longrightarrow> 144 \<le> b) \<and> (a = 244 \<longrightarrow> b \<le> 143)"

fun runes_of :: "nat list \<Rightarrow> nat list" where
  "runes_of [] = []"
| "runes_of (a # s) =
     (if a < 128 then a # runes_of s
      else case s of
          b # c # d # s' \<Rightarrow>
            if seq2 a b then ((a - 192) * 64 + (b - 128)) # runes_of (c # d # s')
            else if seq3 a b c then (((a - 224) * 64 + (b - 128)) * 64 + (c - 128)) # runes_of (d # s')
            else if seq4 a b c d
            then ((((a - 240) * 64 + (b - 128)) * 64 + (c - 128)) * 64 + (d - 128)) # runes_of s'
            else 65533 # runes_of s
        | [b, c] \<Rightarrow>
            if seq2 a b then ((a - 192) * 64 + (b - 128)) # runes_of [c]
            else if seq3 a b c then [((a - 224) * 64 + (b - 128)) * 64 + (c - 128)]
            else 65533 # runes_of s
        | [b] \<Rightarrow> if seq2 a b then [(a - 192) * 64 + (b - 128)] else 65533 # runes_of s
        | [] \<Rightarrow> [65533])"

definition runes :: "string \<Rightarrow> nat list" where
  "runes s = runes_of (map of_char s)"

record unicode_tables =
  un_upper :: "nat \<Rightarrow> bool"
  un_lower :: "nat \<Rightarrow> bool"
  un_digit :: "nat \<Rightarrow> bool"

definition IsUpper :: "unicode_tables \<Rightarrow> nat \<Rightarrow> bool" where
  "IsUpper un r \<longleftrightarrow> (if r < 128 then 65 \<le> r \<and> r \<le> 90 else un_upper un r)"

definition IsLower :: "unicode_tables \<Rightarrow> nat \<Rightarrow> bool" where
  "IsLower un r \<longleftrightarrow> (if r < 128 then 97 \<le> r \<and> r \<le> 122 else un_lower un r)"

definition IsDigit :: "unicode_tables \<Rightarrow> nat \<Rightarrow> bool" where
  "IsDigit un r \<longleftrightarrow> (if r < 128 then 48 \<le> r \<and> r \<le> 57 else un_digit un r)"

section \<open>Passwords\<close>

definition special_chars :: string where
  "special_chars = ''!@#$%^&*()_+-=[]{}|;:,.<>?''"

definition ValidatePassword :: "unicode_tables \<Rightarrow> string \<Rightarrow> gerr option" where
  "ValidatePassword un password =
     (if length password < 8 then Some (Errorf ''password must be at least 8 characters long'')
      else if length password > 128 then Some (Errorf ''password must be no more than 128 characters long'')
      else if \<not> list_ex (IsUpper un) (runes password)
      then Some (Errorf ''password must contain at least one uppercase letter'')
      else if \<not> list_ex (IsLower un) (runes password)
      then Some (Errorf ''password must contain at least one lowercase letter'')
      else if \<not> list_ex (IsDigit un) (runes password) then Some (Errorf ''password must contain at least one digit'')
      else if \<not> list_ex (\<lambda>r. r \<in> set (map of_char special_chars)) (runes password)
      then Some (Errorf ''password must contain at least one special character'')
      else None)"

text \<open>bcrypt: \<open>bc_Generate cost salt password\<close> and \<open>CompareHashAndPassword\<close>.\<close>
record bcrypt_lib =
  bc_Generate :: "int \<Rightarrow> string \<Rightarrow> string \<Rightarrow> gerr + string"
  bc_Compare :: "string \<Rightarrow> string \<Rightarrow> gerr option"

record PasswordHasher =
  ph_cost :: int

definition NewPasswordHasher :: PasswordHasher where
  "NewPasswordHasher = \<lparr>ph_cost = 12\<rparr>"

definition HashPassword :: "bcrypt_lib \<Rightarrow> PasswordHasher \<Rightarrow> string \<Rightarrow> string \<Rightarrow> gerr + string" where
  "HashPassword bc ph salt password =
     (case bc_Generate bc (ph_cost ph) salt password of
        Inl err \<Rightarrow> Inl (Wrapf ''failed to hash password: '' err)
      | Inr hash \<Rightarrow> Inr hash)"

definition VerifyPassword :: "bcrypt_lib \<Rightarrow> string \<Rightarrow> string \<Rightarrow> bool" where
  "VerifyPassword bc password hash \<longleftrightarrow> bc_Compare bc hash password = None"

section \<open>Validation of input\<close>

definition is_alpha :: "char \<Rightarrow> bool" where
  "is_alpha c \<longleftrightarrow> (let n = (of_char c :: nat) in (65 \<le> n \<and> n \<le> 90) \<or> (97 \<le> n \<and> n \<le> 122))"

definition is_digit :: "char \<Rightarrow> bool" where
  "is_digit c \<longleftrightarrow> (let n = (of_char c :: nat) in 48 \<le> n \<and> n \<le> 57)"

text \<open>The two halves of the pattern cannot contain an \<open>@\<close> and the last part no dot, so that the text has to be
  split at the \<open>@\<close> and at the last dot.\<close>
definition emailRegex :: "string \<Rightarrow> bool" where
  "emailRegex s =
     (case split_on CHR 0x40 s of
        [local, domain] \<Rightarrow>
          local \<noteq> [] \<and> list_all (\<lambda>c. is_alpha c \<or> is_digit c \<or> c \<in> set ''._%+-'') local \<and>
          (let parts = split_on CHR 0x2E domain; tld = last parts in
           length parts \<ge> 2 \<and> length domain > length tld + 1 \<and>
           list_all (\<lambda>c. is_alpha c \<or> is_digit c \<or> c \<in> set ''.-'') domain \<and>
           length tld \<ge> 2 \<and> list_all is_alpha tld)
      | _ \<Rightarrow> False)"

text \<open>A field of the struct: its name, its \<open>validate\<close> tag and its value printed with \<open>%v\<close>.\<close>
record field =
  fl_Name :: string
  fl_Tag :: string
  fl_Value :: string

text \<open>\<open>fmt.Sscanf(rule, "min=%d", &minLen)\<close>; without a number it stays 0.\<close>
definition scan_min :: "string \<Rightarrow> int" where
  "scan_min rule =
     (let t = drop 4 rule;
          neg = (t \<noteq> [] \<and> hd t = CHR 0x2D);
          ds = takeWhile is_digit (if t \<noteq> [] \<and> hd t \<in> set ''+-'' then tl t else t)
      in if neg then - digits_value ds else digits_value ds)"

definition trim_space :: "string \<Rightarrow> string" where
  "trim_space s =
     (let sp = (\<lambda>c. c \<in> set [CHR 0x20, CHR 0x09, CHR 0x0A, CHR 0x0B, CHR 0x0C, CHR 0x0D]) in
      rev (dropWhile sp (rev (dropWhile sp s))))"

text \<open>One rule: a rule that is not known is skipped.\<close>
definition check_rule :: "field \<Rightarrow> string \<Rightarrow> gerr option" where
  "check_rule f rule =
     (if rule = ''required'' then
        (if fl_Value f = [] then Some (Errorf (''field '' @ fl_Name f @ '' is required'')) else None)
      else if rule = ''email'' then
        (if \<not> emailRegex (fl_Value f) then Some (Errorf (''field '' @ fl_Name f @ '' must be a valid email address''))
         else None)
      else if HasPrefix rule ''min='' then
        (if int (length (fl_Value f)) < scan_min rule
         then Some (Errorf (''field '' @ fl_Name f @ '' must be at least '' @ int_text (scan_min rule) @ '' characters''))
         else None)
      else None)"

fun first_error :: "gerr option list \<Rightarrow> gerr option" where
  "first_error [] = None"
| "first_error (Some err # rest) = Some err"
| "first_error (None # rest) = first_error rest"

definition ValidateStruct :: "field list \<Rightarrow> gerr option" where
  "ValidateStruct fs =
     first_error (concat (map (\<lambda>f. if fl_Tag f = [] then []
        else map (check_rule f \<circ> trim_space) (split_on CHR 0x2C (fl_Tag f))) fs))"

definition isTrustedOrigin :: "string \<Rightarrow> bool" where
  "isTrustedOrigin origin \<longleftrightarrow> HasPrefix origin ''http://localhost'' \<or> HasPrefix origin ''https://localhost''"

section \<open>The rate limiter\<close>

record TokenBucket =
  tb_tokens :: int
  tb_maxTokens :: int
  tb_refillRate :: int
  tb_lastRefill :: gotime

abbreviation minute :: int where
  "minute \<equiv> 60 * 1000000000"

definition refill :: "gotime \<Rightarrow> TokenBucket \<Rightarrow> TokenBucket" where
  "refill now tb =
     (let tokensToAdd = (now - tb_lastRefill tb) div minute * tb_refillRate tb in
      if tokensToAdd > 0
      then tb\<lparr>tb_tokens := min (tb_tokens tb + tokensToAdd) (tb_maxTokens tb), tb_lastRefill := now\<rparr>
      else tb)"

definition consume :: "gotime \<Rightarrow> int \<Rightarrow> TokenBucket \<Rightarrow> bool \<times> TokenBucket" where
  "consume now tokens tb =
     (let tb' = refill now tb in
      if tb_tokens tb' \<ge> tokens then (True, tb'\<lparr>tb_tokens := tb_tokens tb' - tokens\<rparr>) else (False, tb'))"

record RateLimiter =
  rl_ipRequests :: "(string, TokenBucket) fmap"
  rl_userRequests :: "(string, TokenBucket) fmap"

definition NewRateLimiter :: RateLimiter where
  "NewRateLimiter = \<lparr>rl_ipRequests = fmempty, rl_userRequests = fmempty\<rparr>"

text \<open>The bucket of a key, which \<open>getIPBucket\<close> and \<open>getUserBucket\<close> create when it is missing.\<close>
definition get_bucket :: "gotime \<Rightarrow> string \<Rightarrow> int \<Rightarrow> (string, TokenBucket) fmap \<Rightarrow> TokenBucket" where
  "get_bucket now key limit m =
     (case fmlookup m key of
        Some tb \<Rightarrow> tb
      | None \<Rightarrow> \<lparr>tb_tokens = limit, tb_maxTokens = limit, tb_refillRate = limit, tb_lastRefill = now\<rparr>)"

definition drop_old :: "gotime \<Rightarrow> int \<Rightarrow> (string, TokenBucket) fmap \<Rightarrow> (string, TokenBucket) fmap" where
  "drop_old now age m = fmfilter (\<lambda>k. \<not> now - tb_lastRefill (the (fmlookup m k)) > age) m"

definition cleanup :: "gotime \<Rightarrow> RateLimiter \<Rightarrow> RateLimiter" where
  "cleanup now rl =
     \<lparr>rl_ipRequests = drop_old now (5 * minute) (rl_ipRequests rl),
      rl_userRequests = drop_old now (10 * minute) (rl_userRequests rl)\<rparr>"

text \<open>The host of \<open>net.SplitHostPort\<close>; \<open>None\<close> when it fails.\<close>
definition SplitHost :: "string \<Rightarrow> string option" where
  "SplitHost hostport =
     (if CHR 0x3A \<notin> set hostport then None
      else
        let port = takeWhile (\<lambda>c. c \<noteq> CHR 0x3A) (rev hostport);
            before = take (length hostport - length port - 1) hostport
        in if hostport \<noteq> [] \<and> hd hostport = CHR 0x5B then
             (if CHR 0x5D \<notin> set hostport then None
              else
                let host = takeWhile (\<lambda>c. c \<noteq> CHR 0x5D) (tl hostport) in
                if length host + 2 \<noteq> length before \<or> CHR 0x5B \<in> set (tl hostport) \<or>
                   CHR 0x5D \<in> set (drop (length host + 2) hostport) then None
                else Some host)
           else if CHR 0x3A \<in> set before \<or> CHR 0x5B \<in> set hostport \<or> CHR 0x5D \<in> set hostport then None
           else Some before)"

text \<open>A request as the limiter sees it: its headers, the peer's address and the user in its context.\<close>
record limited_request =
  lr_Header :: "string \<Rightarrow> string"
  lr_RemoteAddr :: string
  lr_UserID :: string

definition getClientIP :: "limited_request \<Rightarrow> string" where
  "getClientIP r =
     (let xff = lr_Header r ''X-Forwarded-For''; xri = lr_Header r ''X-Real-IP'' in
      if xff \<noteq> [] then trim_space (takeWhile (\<lambda>c. c \<noteq> CHR 0x2C) xff)
      else if xri \<noteq> [] then trim_space xri
      else case SplitHost (lr_RemoteAddr r) of None \<Rightarrow> lr_RemoteAddr r | Some ip \<Rightarrow> ip)"

text \<open>The decision of \<open>Middleware\<close>: whether the request is passed on.\<close>
definition rl_Middleware :: "gotime \<Rightarrow> limited_request \<Rightarrow> RateLimiter \<Rightarrow> bool \<times> RateLimiter" where
  "rl_Middleware now r rl =
     (if lr_UserID r \<noteq> [] then
        let key = ''user:'' @ lr_UserID r;
            (ok, tb) = consume now 1 (get_bucket now key 1000 (rl_userRequests rl))
        in (ok, rl\<lparr>rl_userRequests := fmupd key tb (rl_userRequests rl)\<rparr>)
      else
        let key = getClientIP r;
            (ok, tb) = consume now 1 (get_bucket now key 100 (rl_ipRequests rl))
        in (ok, rl\<lparr>rl_ipRequests := fmupd key tb (rl_ipRequests rl)\<rparr>))"


text \<open>What \<open>Middleware\<close> then does: the status 429 with a body, or headers for the response of the next handler. A second
  reading of the clock is in seconds since 1970.\<close>
datatype limit_answer = TooManyRequests string | PassOn "(string \<times> string) list"

definition rl_answer :: "int \<Rightarrow> limited_request \<Rightarrow> bool \<Rightarrow> RateLimiter \<Rightarrow> limit_answer" where
  "rl_answer unixNow r ok rl =
     (let limit = (if lr_UserID r \<noteq> [] then 1000 else 100);
          bucket = (if lr_UserID r \<noteq> [] then fmlookup (rl_userRequests rl) (''user:'' @ lr_UserID r) else fmlookup (rl_ipRequests rl) (getClientIP r));
          q = [CHR 0x22]
      in if \<not> ok
         then TooManyRequests (''{'' @ q @ ''error'' @ q @ '': '' @ q @ ''Rate limit exceeded'' @ q @ '', '' @ q @ ''limit'' @ q @ '': '' @
                int_text limit @ '', '' @ q @ ''reset_in'' @ q @ '': '' @ q @ ''1 minute'' @ q @ ''}'')
         else PassOn [(''X-RateLimit-Limit'', int_text limit),
                (''X-RateLimit-Remaining'', int_text (case bucket of Some tb \<Rightarrow> tb_tokens tb | None \<Rightarrow> 0)),
                (''X-RateLimit-Reset'', int_text (unixNow + 60))])"

section \<open>Response headers\<close>

text \<open>\<open>SecurityHeadersMiddleware\<close>: the headers it leaves set, and whether the next handler runs; otherwise the status is 204.\<close>
definition SecurityHeadersMiddleware :: "string \<Rightarrow> string \<Rightarrow> (string \<rightharpoonup> string) \<Rightarrow> (string \<rightharpoonup> string) \<times> bool" where
  "SecurityHeadersMiddleware origin httpMethod headers =
     (let h1 = headers(''X-Content-Type-Options'' \<mapsto> ''nosniff'', ''X-Frame-Options'' \<mapsto> ''DENY'', ''X-XSS-Protection'' \<mapsto> ''1; mode=block'',
                 ''Referrer-Policy'' \<mapsto> ''strict-origin-when-cross-origin'',
                 ''Content-Security-Policy'' \<mapsto> ''default-src '' @ [CHR 0x27] @ ''self'' @ [CHR 0x27]);
          h2 = h1(''Server'' := None, ''X-Powered-By'' := None);
          h3 = (if origin \<noteq> [] \<and> isTrustedOrigin origin
                then h2(''Access-Control-Allow-Origin'' \<mapsto> origin, ''Access-Control-Allow-Methods'' \<mapsto> ''GET, POST, PUT, DELETE, OPTIONS'',
                        ''Access-Control-Allow-Headers'' \<mapsto> ''Content-Type, Authorization'')
                else h2)
      in (h3, httpMethod \<noteq> ''OPTIONS''))"

text \<open>An origin is trusted by its first characters: any host name that begins with \<open>localhost\<close> is.\<close>
lemma foreign_origin_trusted:
  "fst (SecurityHeadersMiddleware ''http://localhost.evil.example'' ''GET'' Map.empty) ''Access-Control-Allow-Origin'' = Some ''http://localhost.evil.example''"
  by code_simp

section \<open>How many requests the limiter lets through\<close>

text \<open>A run of the limiter: requests and the sweeps of \<open>cleanup\<close>, each at its time.\<close>
datatype rl_event = Serve gotime limited_request | Sweep gotime

fun rl_time :: "rl_event \<Rightarrow> gotime" where
  "rl_time (Serve now r) = now"
| "rl_time (Sweep now) = now"

text \<open>A client is known by its user, or else by its address.\<close>
definition client_of :: "limited_request \<Rightarrow> bool \<times> string" where
  "client_of r = (if lr_UserID r \<noteq> [] then (True, ''user:'' @ lr_UserID r) else (False, getClientIP r))"

definition limit_of :: "bool \<times> string \<Rightarrow> int" where
  "limit_of k = (if fst k then 1000 else 100)"

fun rl_exec :: "rl_event \<Rightarrow> RateLimiter \<Rightarrow> bool \<times> RateLimiter" where
  "rl_exec (Serve now r) rl = rl_Middleware now r rl"
| "rl_exec (Sweep now) rl = (False, cleanup now rl)"

text \<open>The state after a run, and the number of requests of a client that were passed on.\<close>
definition rl_run :: "rl_event list \<Rightarrow> RateLimiter \<Rightarrow> RateLimiter" where
  "rl_run evs rl = fold (\<lambda>ev. snd \<circ> rl_exec ev) evs rl"

fun passed_of :: "bool \<times> string \<Rightarrow> rl_event \<Rightarrow> bool \<Rightarrow> int" where
  "passed_of k (Serve now r) ok = (if client_of r = k \<and> ok then 1 else 0)"
| "passed_of k (Sweep now) ok = 0"

fun rl_passed :: "bool \<times> string \<Rightarrow> rl_event list \<Rightarrow> RateLimiter \<Rightarrow> int" where
  "rl_passed k [] rl = 0"
| "rl_passed k (ev # evs) rl = passed_of k ev (fst (rl_exec ev rl)) + rl_passed k evs (snd (rl_exec ev rl))"

definition bucket_at :: "bool \<times> string \<Rightarrow> RateLimiter \<Rightarrow> TokenBucket option" where
  "bucket_at k rl = fmlookup (if fst k then rl_userRequests rl else rl_ipRequests rl) (snd k)"

text \<open>Well-formed buckets at a time.\<close>
definition bucket_ok :: "int \<Rightarrow> gotime \<Rightarrow> TokenBucket \<Rightarrow> bool" where
  "bucket_ok l now tb \<longleftrightarrow> 0 \<le> tb_tokens tb \<and> tb_tokens tb \<le> l \<and> tb_maxTokens tb = l \<and> tb_refillRate tb = l \<and> tb_lastRefill tb \<le> now"

text \<open>What a client can still get until time \<open>b\<close>.\<close>
fun allowance :: "int \<Rightarrow> gotime \<Rightarrow> gotime \<Rightarrow> TokenBucket option \<Rightarrow> int" where
  "allowance l b now None = l + l * ((b - now) div minute)"
| "allowance l b now (Some tb) =
     (if tb_lastRefill tb + minute \<le> now then l + l * ((b - now) div minute)
      else tb_tokens tb + l * ((b - tb_lastRefill tb) div minute))"

lemma minutes_step: "t1 + minute \<le> t2 \<Longrightarrow> (b - t2) div minute \<le> (b - t1) div minute - (1::int)"
proof -
  assume "t1 + minute \<le> t2"
  then have "(b - t2) div minute \<le> (b - t1 - minute) div minute" by (intro zdiv_mono1) auto
  also have "\<dots> = (b - t1) div minute - 1" using div_add_self2 [of minute "b - t1 - minute"] by simp
  finally show ?thesis .
qed

lemma allowance_refilled:
  fixes l :: int
  assumes "0 \<le> l" and "t1 + minute \<le> t2"
  shows "l + l * ((b - t2) div minute) \<le> l * ((b - t1) div minute)"
  using mult_left_mono [OF minutes_step [OF assms(2), of b] assms(1)] by (simp add: right_diff_distrib)

lemma refill_spec:
  assumes "bucket_ok l now0 tb" and "now0 \<le> now" and "0 < l"
  shows "refill now tb = (if tb_lastRefill tb + minute \<le> now then tb\<lparr>tb_tokens := l, tb_lastRefill := now\<rparr> else tb)"
proof (cases "tb_lastRefill tb + minute \<le> now")
  case True
  then have one: "1 \<le> (now - tb_lastRefill tb) div minute"
    using zdiv_mono1 [of minute "now - tb_lastRefill tb" minute] by simp
  have "l \<le> (now - tb_lastRefill tb) div minute * l" using mult_right_mono [OF one, of l] assms(3) by simp
  then have "min (tb_tokens tb + (now - tb_lastRefill tb) div minute * l) l = l" using assms(1) by (simp add: bucket_ok_def)
  with assms True one show ?thesis by (auto simp: refill_def bucket_ok_def Let_def)
next
  case False
  with assms have "(now - tb_lastRefill tb) div minute = 0" by (intro div_pos_pos_trivial) (auto simp: bucket_ok_def)
  with False show ?thesis by (simp add: refill_def)
qed

lemma consume_allowance:
  assumes "bucket_ok l now0 tb" and "now0 \<le> now" and "0 < l" and "consume now 1 tb = (ok, tb')"
  shows "bucket_ok l now tb' \<and> (if ok then 1 else 0) + allowance l b now (Some tb') \<le> allowance l b now (Some tb)"
  using assms by (auto simp: consume_def Let_def refill_spec [OF assms(1-3)] bucket_ok_def split: if_splits)

definition bucket_okay :: "int \<Rightarrow> gotime \<Rightarrow> TokenBucket option \<Rightarrow> bool" where
  "bucket_okay l now ob \<longleftrightarrow> (\<forall>tb. ob = Some tb \<longrightarrow> bucket_ok l now tb)"

lemma allowance_later:
  assumes "bucket_okay l now0 ob" and "now0 \<le> now" and "0 < l"
  shows "allowance l b now ob \<le> allowance l b now0 ob"
proof -
  have "(b - now) div minute \<le> (b - now0) div minute" using assms(2) by (intro zdiv_mono1) auto
  then have "l * ((b - now) div minute) \<le> l * ((b - now0) div minute)" using assms(3) by (simp add: mult_left_mono)
  then show ?thesis
  proof (cases ob)
    case (Some tb)
    with assms(1) have "0 \<le> tb_tokens tb" by (simp add: bucket_okay_def bucket_ok_def)
    with Some \<open>l * _ \<le> l * _\<close> assms(2,3) allowance_refilled [of l "tb_lastRefill tb" now b] show ?thesis
      by (simp del: mult_le_cancel_left_pos) linarith
  qed simp
qed

lemma okay_later: "bucket_okay l now0 ob \<Longrightarrow> now0 \<le> now \<Longrightarrow> bucket_okay l now ob"
  by (auto simp: bucket_okay_def bucket_ok_def)

definition own_bucket :: "gotime \<Rightarrow> bool \<times> string \<Rightarrow> RateLimiter \<Rightarrow> TokenBucket" where
  "own_bucket now k rl = get_bucket now (snd k) (limit_of k) (if fst k then rl_userRequests rl else rl_ipRequests rl)"

lemma exec_served:
  assumes "client_of r = k"
  shows "fst (rl_exec (Serve now r) rl) = fst (consume now 1 (own_bucket now k rl))"
    and "bucket_at k (snd (rl_exec (Serve now r) rl)) = Some (snd (consume now 1 (own_bucket now k rl)))"
  unfolding assms [symmetric]
  by (simp_all add: client_of_def rl_Middleware_def bucket_at_def own_bucket_def limit_of_def Let_def case_prod_beta)

lemma exec_other: "client_of r \<noteq> k \<Longrightarrow> bucket_at k (snd (rl_exec (Serve now r) rl)) = bucket_at k rl"
  by (cases k) (auto simp: client_of_def rl_Middleware_def bucket_at_def Let_def case_prod_beta split: if_splits)

lemma own_bucket_cases:
  "(\<exists>tb. bucket_at k rl = Some tb \<and> own_bucket now k rl = tb) \<or>
   (bucket_at k rl = None \<and> own_bucket now k rl =
      \<lparr>tb_tokens = limit_of k, tb_maxTokens = limit_of k, tb_refillRate = limit_of k, tb_lastRefill = now\<rparr>)"
  by (cases "bucket_at k rl") (auto simp: own_bucket_def get_bucket_def bucket_at_def)

lemma exec_sweep:
  "bucket_at k (snd (rl_exec (Sweep now) rl)) = bucket_at k rl \<or>
   (bucket_at k (snd (rl_exec (Sweep now) rl)) = None \<and> (\<exists>tb. bucket_at k rl = Some tb \<and> tb_lastRefill tb + minute \<le> now))"
  by (cases "bucket_at k rl") (auto simp: bucket_at_def cleanup_def drop_old_def split: if_splits)

lemma limit_pos: "0 < limit_of k"
  by (simp add: limit_of_def)

lemma exec_allowance:
  assumes ok: "bucket_okay (limit_of k) now0 (bucket_at k rl)" and now: "now0 \<le> rl_time ev"
  shows "bucket_okay (limit_of k) (rl_time ev) (bucket_at k (snd (rl_exec ev rl))) \<and>
    passed_of k ev (fst (rl_exec ev rl)) + allowance (limit_of k) b (rl_time ev) (bucket_at k (snd (rl_exec ev rl)))
      \<le> allowance (limit_of k) b now0 (bucket_at k rl)"
proof (cases ev)
  case (Sweep t)
  note later = okay_later [OF ok now] allowance_later [OF ok now limit_pos, of b]
  from exec_sweep [of k t rl] later Sweep show ?thesis by (auto simp: bucket_okay_def)
next
  case (Serve t r)
  note later = okay_later [OF ok now] allowance_later [OF ok now limit_pos, of b]
  show ?thesis
  proof (cases "client_of r = k")
    case False
    with Serve later exec_other [OF False] show ?thesis by simp
  next
    case True
    define tb where "tb = own_bucket t k rl"
    have tb: "bucket_ok (limit_of k) t tb" "allowance (limit_of k) b t (Some tb) \<le> allowance (limit_of k) b now0 (bucket_at k rl)"
      using own_bucket_cases [of k rl t] later Serve limit_pos [of k] by (auto simp: tb_def bucket_okay_def bucket_ok_def)
    from exec_served [OF True, of t rl] consume_allowance [OF tb(1) order_refl limit_pos, of "fst (consume t 1 tb)" "snd (consume t 1 tb)" b]
    show ?thesis using Serve True tb(2) by (auto simp: tb_def bucket_okay_def split: if_splits)
  qed
qed

lemma passed_allowance:
  assumes "bucket_okay (limit_of k) now0 (bucket_at k rl)" and "sorted (now0 # map rl_time evs)"
    and "\<forall>ev \<in> set evs. rl_time ev \<le> b" and "now0 \<le> b"
  shows "rl_passed k evs rl \<le> allowance (limit_of k) b now0 (bucket_at k rl)"
  using assms
proof (induction evs arbitrary: rl now0)
  case Nil
  have "0 \<le> (b - t) div minute" if "t \<le> b" for t :: int using that by (simp add: pos_imp_zdiv_nonneg_iff)
  with Nil limit_pos [of k] show ?case by (cases "bucket_at k rl") (auto simp: bucket_okay_def bucket_ok_def)
next
  case (Cons ev evs)
  note step = exec_allowance [OF Cons.prems(1), of ev b]
  have "rl_passed k evs (snd (rl_exec ev rl)) \<le> allowance (limit_of k) b (rl_time ev) (bucket_at k (snd (rl_exec ev rl)))"
    using Cons.prems step by (intro Cons.IH) auto
  with step Cons.prems(2) show ?case by auto
qed

lemma run_okay:
  assumes "bucket_okay (limit_of k) now0 (bucket_at k rl)" and "sorted (now0 # map rl_time evs)"
  shows "bucket_okay (limit_of k) (last (now0 # map rl_time evs)) (bucket_at k (rl_run evs rl))"
  using assms
proof (induction evs arbitrary: rl now0)
  case (Cons ev evs)
  have "bucket_okay (limit_of k) (rl_time ev) (bucket_at k (snd (rl_exec ev rl)))"
    using exec_allowance [OF Cons.prems(1), of ev 0] Cons.prems(2) by auto
  from Cons.IH [OF this] Cons.prems(2) show ?case by (simp add: rl_run_def)
qed (simp add: rl_run_def)

lemma allowance_from:
  assumes "bucket_okay l t ob" and "a \<le> t" and "0 < l"
  shows "allowance l b t ob \<le> l * ((b - a) div minute + 2)"
proof -
  have mono: "l * ((b - x) div minute) \<le> l * ((b - y) div minute)" if "y \<le> x" for x y
    using that assms(3) by (intro mult_left_mono zdiv_mono1) auto
  have "(b - (a - minute)) div minute = (b - a) div minute + 1" using div_add_self2 [of minute "b - a"] by simp
  then have "l * ((b - tb_lastRefill tb) div minute) \<le> l * ((b - a) div minute + 1)" if "\<not> tb_lastRefill tb + minute \<le> t" for tb
    using mono [of "a - minute" "tb_lastRefill tb"] that assms(2) by simp
  note young = this
  show ?thesis
  proof (cases "\<exists>tb. ob = Some tb \<and> \<not> tb_lastRefill tb + minute \<le> t")
    case True
    then obtain tb where tb: "ob = Some tb" "\<not> tb_lastRefill tb + minute \<le> t" by blast
    with assms(1) have "tb_tokens tb \<le> l" by (simp add: bucket_okay_def bucket_ok_def)
    with tb young [OF tb(2)] show ?thesis by (simp add: distrib_left)
  next
    case False
    then have "allowance l b t ob = l + l * ((b - t) div minute)" by (cases ob) auto
    also have "\<dots> \<le> l + l * ((b - a) div minute)" using mono [OF assms(2)] by (rule add_left_mono)
    also have "\<dots> \<le> l * ((b - a) div minute + 2)" using assms(3) by (simp add: distrib_left)
    finally show ?thesis .
  qed
qed

text \<open>the limiter holds its limits. In a run from the start, with sweeps at any time, the requests of one client (a user, or an
  address without a user) that are passed on between the times \<open>a\<close> and \<open>b\<close> are at most its limit (1000, or 100) times
  the full minutes in between plus two.\<close>
theorem rate_limit_bounded:
  assumes "sorted (map rl_time (evs1 @ evs2))" and "\<forall>ev \<in> set evs2. a \<le> rl_time ev \<and> rl_time ev \<le> b" and "a \<le> b"
  shows "rl_passed k evs2 (rl_run evs1 NewRateLimiter) \<le> limit_of k * ((b - a) div minute + 2)"
proof (cases evs2)
  case Nil
  have "0 \<le> (b - a) div minute" using assms(3) by (simp add: pos_imp_zdiv_nonneg_iff)
  with Nil limit_pos [of k] show ?thesis by simp
next
  case (Cons ev evs)
  define t0 where "t0 = rl_time (hd (evs1 @ evs2))"
  define t where "t = rl_time ev"
  have start: "bucket_okay (limit_of k) t0 (bucket_at k NewRateLimiter)"
    by (simp add: bucket_okay_def bucket_at_def NewRateLimiter_def)
  have "sorted (t0 # map rl_time evs1)" and le: "\<forall>x \<in> set (t0 # map rl_time evs1). x \<le> t"
    using assms(1) Cons by (cases evs1; auto simp: sorted_append t0_def t_def; fail)+
  moreover have "last (t0 # map rl_time evs1) \<le> t" using le last_in_set [of "t0 # map rl_time evs1"] by blast
  ultimately have ok: "bucket_okay (limit_of k) t (bucket_at k (rl_run evs1 NewRateLimiter))"
    using run_okay [OF start] okay_later by blast
  have "rl_passed k evs2 (rl_run evs1 NewRateLimiter) \<le> allowance (limit_of k) b t (bucket_at k (rl_run evs1 NewRateLimiter))"
    using assms(1,2) Cons by (intro passed_allowance ok) (auto simp: sorted_append t_def)
  also have "\<dots> \<le> limit_of k * ((b - a) div minute + 2)"
    using assms(2) Cons by (intro allowance_from ok limit_pos) (auto simp: t_def)
  finally show ?thesis .
qed

definition ex_ip :: limited_request where
  "ex_ip = \<lparr>lr_Header = \<lambda>_. [], lr_RemoteAddr = ''1.2.3.4:80'', lr_UserID = []\<rparr>"

lemma rate_limit_bounded_witness:
  "rl_passed (False, ''1.2.3.4'') [Serve 7 ex_ip, Sweep (9 * minute)] (rl_run [Serve 3 ex_ip, Sweep 4] NewRateLimiter)
     \<le> limit_of (False, ''1.2.3.4'') * ((9 * minute - 5) div minute + 2)"
  by (rule rate_limit_bounded) simp_all

end
