(* ===== verification/Auth_Http.thy ===== *)
theory Auth_Http
  imports Jwt_Service Security
begin

text \<open>
  Authentication over HTTP: the user store (\<^verbatim>\<open>internal/auth/user_store.go\<close>), the middleware (\<^verbatim>\<open>middleware.go\<close>), the handlers
  (\<^verbatim>\<open>handlers.go\<close>) and the endpoints of \<^verbatim>\<open>cmd/auth-service/main.go\<close>. The table \<open>users\<close> is a parameter: a
  record of the three statements the store executes. A handler is a function of the request and of the state of
  the database and of Redis; log output is left out.
\<close>

section \<open>Users\<close>

record UserInfo =
  ui_ID :: string
  ui_Email :: string
  ui_Role :: string
  ui_PasswordHash :: string

datatype pg_failure = UniqueViolation | NoRows | PgFailure gerr

text \<open>The statements: an insert that returns the new number, and the two selects of an active user, which return number, email
  and password hash.\<close>
record 'd user_table =
  ut_Insert :: "string \<Rightarrow> string \<Rightarrow> string \<Rightarrow> 'd \<Rightarrow> (pg_failure + int) \<times> 'd"
  ut_ByEmail :: "string \<Rightarrow> 'd \<Rightarrow> (pg_failure + int \<times> string \<times> string) \<times> 'd"
  ut_ByID :: "string \<Rightarrow> 'd \<Rightarrow> (pg_failure + int \<times> string \<times> string) \<times> 'd"

record 'd PgUserStore =
  us_db :: "'d user_table"
  us_hasher :: PasswordHasher
  us_bcrypt :: bcrypt_lib
  us_unicode :: unicode_tables

definition NewPgUserStore :: "bcrypt_lib \<Rightarrow> unicode_tables \<Rightarrow> 'd user_table \<Rightarrow> 'd PgUserStore" where
  "NewPgUserStore bc un db = \<lparr>us_db = db, us_hasher = NewPasswordHasher, us_bcrypt = bc, us_unicode = un\<rparr>"

definition ErrUserNotFound :: gerr where "ErrUserNotFound = Errorf ''user not found''"
definition ErrUserExists :: gerr where "ErrUserExists = Errorf ''user with this email or username already exists''"

definition CreateUser :: "string \<Rightarrow> 'd PgUserStore \<Rightarrow> string \<Rightarrow> string \<Rightarrow> string \<Rightarrow> ('d, UserInfo) io" where
  "CreateUser salt s email username password d =
     (case ValidatePassword (us_unicode s) password of
        Some err \<Rightarrow> (Inl err, d)
      | None \<Rightarrow>
      (case HashPassword (us_bcrypt s) (us_hasher s) salt password of
        Inl err \<Rightarrow> (Inl err, d)
      | Inr hash \<Rightarrow>
      (case ut_Insert (us_db s) username email hash d of
        (Inl UniqueViolation, d1) \<Rightarrow> (Inl ErrUserExists, d1)
      | (Inl NoRows, d1) \<Rightarrow> (Inl (Errorf ''failed to create user: no rows in result set''), d1)
      | (Inl (PgFailure err), d1) \<Rightarrow> (Inl (Wrapf ''failed to create user: '' err), d1)
      | (Inr i, d1) \<Rightarrow>
          (Inr \<lparr>ui_ID = int_text i, ui_Email = email, ui_Role = ''user'', ui_PasswordHash = []\<rparr>, d1))))"

definition getUser :: "(pg_failure + int \<times> string \<times> string) \<times> 'd \<Rightarrow> (gerr + UserInfo) \<times> 'd" where
  "getUser row =
     (case row of
        (Inl NoRows, d1) \<Rightarrow> (Inl ErrUserNotFound, d1)
      | (Inl UniqueViolation, d1) \<Rightarrow> (Inl (Errorf ''failed to get user: unique violation''), d1)
      | (Inl (PgFailure err), d1) \<Rightarrow> (Inl (Wrapf ''failed to get user: '' err), d1)
      | (Inr (i, email, hash), d1) \<Rightarrow>
          (Inr \<lparr>ui_ID = int_text i, ui_Email = email, ui_Role = ''user'', ui_PasswordHash = hash\<rparr>, d1))"

definition GetUserByEmail :: "'d PgUserStore \<Rightarrow> string \<Rightarrow> ('d, UserInfo) io" where
  "GetUserByEmail s email d = getUser (ut_ByEmail (us_db s) email d)"

definition GetUserByID :: "'d PgUserStore \<Rightarrow> string \<Rightarrow> ('d, UserInfo) io" where
  "GetUserByID s i d = getUser (ut_ByID (us_db s) i d)"

definition us_VerifyPassword :: "'d PgUserStore \<Rightarrow> string \<Rightarrow> string \<Rightarrow> bool" where
  "us_VerifyPassword s hashedPassword password = VerifyPassword (us_bcrypt s) password hashedPassword"

definition Authenticate :: "'d PgUserStore \<Rightarrow> string \<Rightarrow> string \<Rightarrow> ('d, UserInfo) io" where
  "Authenticate s email password d =
     (case GetUserByEmail s email d of
        (Inl err, d1) \<Rightarrow> (Inl err, d1)
      | (Inr user, d1) \<Rightarrow>
          if \<not> us_VerifyPassword s (ui_PasswordHash user) password then (Inl ErrUserNotFound, d1)
          else (Inr user, d1))"

section \<open>Requests\<close>

datatype json = JStr string | JNum int | JBool bool | JObj "(string \<times> json) list"

text \<open>The values the middleware puts into the context.\<close>
record auth_ctx =
  cx_UserID :: "string option"
  cx_Email :: "string option"
  cx_Role :: "string option"
  cx_TokenID :: "string option"
  cx_Claims :: "JWTClaims option"

definition no_ctx :: auth_ctx where
  "no_ctx = \<lparr>cx_UserID = None, cx_Email = None, cx_Role = None, cx_TokenID = None, cx_Claims = None\<rparr>"

text \<open>The body is what decoding it gives: an error, or the string fields, empty where they are missing.\<close>
record auth_request =
  aq_Header :: "string \<Rightarrow> string"
  aq_Ctx :: auth_ctx
  aq_Body :: "gerr + (string \<Rightarrow> string)"

datatype auth_body = AText string | AJson json

record auth_response =
  as_Status :: nat
  as_Body :: auth_body

definition auth_Error :: "string \<Rightarrow> nat \<Rightarrow> auth_response" where
  "auth_Error msg status = \<lparr>as_Status = status, as_Body = AText (msg @ [CHR 0x0A])\<rparr>"

definition auth_OK :: "json \<Rightarrow> auth_response" where
  "auth_OK j = \<lparr>as_Status = 200, as_Body = AJson j\<rparr>"

type_synonym 'w handler = "auth_request \<Rightarrow> 'w \<Rightarrow> auth_response \<times> 'w"

section \<open>Middleware\<close>

definition claims_ctx :: "JWTClaims \<Rightarrow> auth_ctx" where
  "claims_ctx claims =
     \<lparr>cx_UserID = Some (jc_UserID claims), cx_Email = Some (jc_Email claims), cx_Role = Some (jc_Role claims),
      cx_TokenID = Some (jc_TokenID claims), cx_Claims = Some claims\<rparr>"

text \<open>The token of a header \<open>Bearer <token>\<close>.\<close>
definition bearer :: "string \<Rightarrow> string option" where
  "bearer authHeader =
     (case split_on CHR 0x20 authHeader of [scheme, token] \<Rightarrow> if scheme = ''Bearer'' then Some token else None | _ \<Rightarrow> None)"

definition AuthMiddleware :: "gotime \<Rightarrow> ('r, 'v) JWTService \<Rightarrow> 'w handler \<Rightarrow> 'w handler" where
  "AuthMiddleware now s nxt req w =
     (if aq_Header req ''Authorization'' = [] then (auth_Error ''Authorization header required'' 401, w)
      else case bearer (aq_Header req ''Authorization'') of
          None \<Rightarrow> (auth_Error ''Invalid authorization header format'' 401, w)
        | Some tokenString \<Rightarrow>
            (case ValidateToken s now tokenString AccessTokenType of
               Inl err \<Rightarrow> (auth_Error (''Invalid token: '' @ err_text err) 401, w)
             | Inr claims \<Rightarrow> nxt (req\<lparr>aq_Ctx := claims_ctx claims\<rparr>) w))"

definition OptionalAuthMiddleware :: "gotime \<Rightarrow> ('r, 'v) JWTService \<Rightarrow> 'w handler \<Rightarrow> 'w handler" where
  "OptionalAuthMiddleware now s nxt req w =
     (case bearer (aq_Header req ''Authorization'') of
        None \<Rightarrow> nxt req w
      | Some tokenString \<Rightarrow>
          (case ValidateToken s now tokenString AccessTokenType of
             Inl _ \<Rightarrow> nxt req w
           | Inr claims \<Rightarrow> nxt (req\<lparr>aq_Ctx := claims_ctx claims\<rparr>) w))"

definition RequireRoleMiddleware :: "string \<Rightarrow> 'w handler \<Rightarrow> 'w handler" where
  "RequireRoleMiddleware requiredRole nxt req w =
     (case cx_Role (aq_Ctx req) of
        None \<Rightarrow> (auth_Error ''User role not found in context'' 401, w)
      | Some role \<Rightarrow> if role \<noteq> requiredRole then (auth_Error ''Insufficient permissions'' 403, w) else nxt req w)"

definition RequireAdminMiddleware :: "'w handler \<Rightarrow> 'w handler" where
  "RequireAdminMiddleware = RequireRoleMiddleware ''admin''"

definition RequireUserMiddleware :: "'w handler \<Rightarrow> 'w handler" where
  "RequireUserMiddleware = RequireRoleMiddleware ''user''"

section \<open>The handlers\<close>

text \<open>The interface \<open>UserService\<close> is the user store; the state of the handlers is that of the database and of Redis.\<close>
record ('d, 'r, 'v) AuthHandler =
  ah_jwtService :: "('r, 'v) JWTService"
  ah_userService :: "'d PgUserStore"

definition user_json :: "string \<Rightarrow> string \<Rightarrow> string \<Rightarrow> json" where
  "user_json i email role = JObj [(''id'', JStr i), (''email'', JStr email), (''role'', JStr role)]"

definition pair_json :: "TokenPair \<Rightarrow> json" where
  "pair_json p =
     JObj [(''access_token'', JStr (tp_AccessToken p)), (''refresh_token'', JStr (tp_RefreshToken p)),
       (''token_type'', JStr (tp_TokenType p)), (''expires_in'', JNum (tp_ExpiresIn p))]"

definition ah_Login :: "jwt_env \<Rightarrow> ('d, 'r, 'v) AuthHandler \<Rightarrow> ('d \<times> 'r) handler" where
  "ah_Login env h req w =
     (case aq_Body req of
        Inl _ \<Rightarrow> (auth_Error ''Invalid request body'' 400, w)
      | Inr body \<Rightarrow>
          if body ''email'' = [] \<or> body ''password'' = [] then (auth_Error ''Email and password are required'' 400, w)
          else case GetUserByEmail (ah_userService h) (body ''email'') (fst w) of
              (Inl _, d) \<Rightarrow> (auth_Error ''Invalid credentials'' 401, (d, snd w))
            | (Inr user, d) \<Rightarrow>
                if \<not> us_VerifyPassword (ah_userService h) (ui_PasswordHash user) (body ''password'')
                then (auth_Error ''Invalid credentials'' 401, (d, snd w))
                else case GenerateTokenPair env (ah_jwtService h) (ui_ID user) (ui_Email user) (ui_Role user) (snd w) of
                    (Inl _, r) \<Rightarrow> (auth_Error ''Failed to generate tokens'' 500, (d, r))
                  | (Inr pair, r) \<Rightarrow>
                      (auth_OK (JObj [(''tokens'', pair_json pair),
                         (''user'', user_json (ui_ID user) (ui_Email user) (ui_Role user))]), (d, r)))"

definition ah_Refresh :: "jwt_env \<Rightarrow> ('d, 'r, 'v) AuthHandler \<Rightarrow> ('d \<times> 'r) handler" where
  "ah_Refresh env h req w =
     (case aq_Body req of
        Inl _ \<Rightarrow> (auth_Error ''Invalid request body'' 400, w)
      | Inr body \<Rightarrow>
          if body ''refresh_token'' = [] then (auth_Error ''Refresh token is required'' 400, w)
          else case RefreshTokens env (ah_jwtService h) (body ''refresh_token'') (snd w) of
              (Inl err, r) \<Rightarrow> (auth_Error (''Failed to refresh token: '' @ err_text err) 401, (fst w, r))
            | (Inr pair, r) \<Rightarrow> (auth_OK (JObj [(''tokens'', pair_json pair)]), (fst w, r)))"

definition ah_Logout :: "gotime \<Rightarrow> ('d, 'r, 'v) AuthHandler \<Rightarrow> ('d \<times> 'r) handler" where
  "ah_Logout now h req w =
     (let s = ah_jwtService h;
          refreshToken = (case aq_Body req of Inl _ \<Rightarrow> aq_Header req ''X-Refresh-Token'' | Inr body \<Rightarrow> body ''refresh_token'');
          r1 = (if refreshToken = [] then snd w
                else case ValidateToken s now refreshToken RefreshTokenType of
                    Inl _ \<Rightarrow> snd w
                  | Inr claims \<Rightarrow> snd (RevokeRefreshToken now s (jc_TokenID claims) (snd w)));
          r2 = (case cx_UserID (aq_Ctx req) of None \<Rightarrow> r1 | Some userID \<Rightarrow> snd (jwt_Logout s userID r1))
      in (auth_OK (JObj [(''message'', JStr ''Logged out successfully'')]), (fst w, r2)))"

definition ah_Me :: "('d \<times> 'r) handler" where
  "ah_Me req w =
     (case cx_Claims (aq_Ctx req) of
        None \<Rightarrow> (auth_Error ''User not authenticated'' 401, w)
      | Some claims \<Rightarrow> (auth_OK (user_json (jc_UserID claims) (jc_Email claims) (jc_Role claims)), w))"

text \<open>\<open>RegisterRoutes\<close>; the router answers other methods and paths itself.\<close>
definition auth_routes :: "jwt_env \<Rightarrow> ('d, 'r, 'v) AuthHandler \<Rightarrow> string \<Rightarrow> string \<Rightarrow> ('d \<times> 'r) handler option" where
  "auth_routes env h httpMethod path =
     (if httpMethod = ''POST'' \<and> path = ''/api/v1/auth/login'' then Some (ah_Login env h)
      else if httpMethod = ''POST'' \<and> path = ''/api/v1/auth/refresh'' then Some (ah_Refresh env h)
      else if httpMethod = ''POST'' \<and> path = ''/api/v1/auth/logout''
      then Some (AuthMiddleware (jv_now env 0) (ah_jwtService h) (ah_Logout (jv_now env 1) h))
      else if httpMethod = ''GET'' \<and> path = ''/api/v1/auth/me''
      then Some (AuthMiddleware (jv_now env 0) (ah_jwtService h) ah_Me)
      else None)"

section \<open>The auth service\<close>

definition writeTokenResponse :: "nat \<Rightarrow> jwt_env \<Rightarrow> ('r, 'v) JWTService \<Rightarrow> UserInfo \<Rightarrow> 'd \<times> 'r \<Rightarrow> auth_response \<times> ('d \<times> 'r)" where
  "writeTokenResponse status env s user w =
     (case GenerateTokenPair env s (ui_ID user) (ui_Email user) (ui_Role user) (snd w) of
        (Inl _, r) \<Rightarrow> ((auth_Error ''Authentication failed'' 500)\<lparr>as_Status := if status = 201 then 201 else 500\<rparr>, (fst w, r))
      | (Inr p, r) \<Rightarrow>
          (\<lparr>as_Status = status, as_Body = AJson (JObj
             [(''access_token'', JStr (tp_AccessToken p)), (''refresh_token'', JStr (tp_RefreshToken p)),
              (''token_type'', JStr (tp_TokenType p)), (''expires_in'', JNum (tp_ExpiresIn p)),
              (''user'', user_json (ui_ID user) (ui_Email user) (ui_Role user))])\<rparr>, (fst w, r)))"

definition login_endpoint :: "jwt_env \<Rightarrow> ('d, 'r, 'v) AuthHandler \<Rightarrow> ('d \<times> 'r) handler" where
  "login_endpoint env h req w =
     (case aq_Body req of
        Inl _ \<Rightarrow> (auth_Error ''Invalid request'' 400, w)
      | Inr body \<Rightarrow>
      (case ValidateStruct [\<lparr>fl_Name = ''Email'', fl_Tag = ''required,email'', fl_Value = body ''email''\<rparr>,
              \<lparr>fl_Name = ''Password'', fl_Tag = ''required,min=8'', fl_Value = body ''password''\<rparr>] of
        Some err \<Rightarrow> (auth_Error (''Validation failed: '' @ err_text err) 400, w)
      | None \<Rightarrow>
      (case Authenticate (ah_userService h) (body ''email'') (body ''password'') (fst w) of
        (Inl _, d) \<Rightarrow> (auth_Error ''Invalid credentials'' 401, (d, snd w))
      | (Inr user, d) \<Rightarrow> writeTokenResponse 200 env (ah_jwtService h) user (d, snd w))))"

definition register_endpoint :: "string \<Rightarrow> jwt_env \<Rightarrow> ('d, 'r, 'v) AuthHandler \<Rightarrow> ('d \<times> 'r) handler" where
  "register_endpoint salt env h req w =
     (case aq_Body req of
        Inl _ \<Rightarrow> (auth_Error ''Invalid request'' 400, w)
      | Inr body \<Rightarrow>
      let username = (if body ''username'' = [] then body ''email'' else body ''username'') in
      (case ValidateStruct [\<lparr>fl_Name = ''Email'', fl_Tag = ''required,email,max=255'', fl_Value = body ''email''\<rparr>,
              \<lparr>fl_Name = ''Username'', fl_Tag = ''required,max=50'', fl_Value = username\<rparr>,
              \<lparr>fl_Name = ''Password'', fl_Tag = ''required'', fl_Value = body ''password''\<rparr>] of
        Some err \<Rightarrow> (auth_Error (''Validation failed: '' @ err_text err) 400, w)
      | None \<Rightarrow>
      (case CreateUser salt (ah_userService h) (body ''email'') username (body ''password'') (fst w) of
        (Inl err, d) \<Rightarrow>
          (if err = ErrUserExists then auth_Error (err_text err) 409
           else if HasPrefix (err_text err) ''password must'' then auth_Error (err_text err) 400
           else auth_Error ''Registration failed'' 500, (d, snd w))
      | (Inr user, d) \<Rightarrow> writeTokenResponse 201 env (ah_jwtService h) user (d, snd w))))"

definition validate_endpoint :: "gotime \<Rightarrow> ('d, 'r, 'v) AuthHandler \<Rightarrow> ('d \<times> 'r) handler" where
  "validate_endpoint now h req w =
     (case aq_Body req of
        Inl _ \<Rightarrow> (auth_Error ''Invalid request'' 400, w)
      | Inr body \<Rightarrow>
      (case ValidateToken (ah_jwtService h) now (body ''access_token'') AccessTokenType of
        Inl err \<Rightarrow> (auth_OK (JObj [(''valid'', JBool False), (''message'', JStr (''Invalid token: '' @ err_text err))]), w)
      | Inr claims \<Rightarrow>
          (auth_OK (JObj [(''valid'', JBool True), (''user'', user_json (jc_UserID claims) (jc_Email claims) (jc_Role claims))]), w)))"

definition refresh_endpoint :: "jwt_env \<Rightarrow> ('d, 'r, 'v) AuthHandler \<Rightarrow> ('d \<times> 'r) handler" where
  "refresh_endpoint env h req w =
     (case aq_Body req of
        Inl _ \<Rightarrow> (auth_Error ''Invalid request'' 400, w)
      | Inr body \<Rightarrow>
      (case RefreshTokens env (ah_jwtService h) (body ''refresh_token'') (snd w) of
        (Inl _, r) \<Rightarrow> (auth_Error ''Token refresh failed'' 401, (fst w, r))
      | (Inr p, r) \<Rightarrow>
          (auth_OK (JObj [(''access_token'', JStr (tp_AccessToken p)), (''token_type'', JStr (tp_TokenType p)),
             (''expires_in'', JNum (tp_ExpiresIn p))]), (fst w, r))))"

definition profile_endpoint :: "('d, 'r, 'v) AuthHandler \<Rightarrow> ('d \<times> 'r) handler" where
  "profile_endpoint h req w =
     (case cx_UserID (aq_Ctx req) of
        None \<Rightarrow> (auth_Error ''User not found'' 401, w)
      | Some userID \<Rightarrow>
          (case GetUserByID (ah_userService h) userID (fst w) of
             (Inl _, d) \<Rightarrow> (auth_Error ''User not found'' 404, (d, snd w))
           | (Inr user, d) \<Rightarrow> (auth_OK (user_json (ui_ID user) (ui_Email user) (ui_Role user)), (d, snd w))))"

definition logout_endpoint :: "('d, 'r, 'v) AuthHandler \<Rightarrow> ('d \<times> 'r) handler" where
  "logout_endpoint h req w =
     (case cx_UserID (aq_Ctx req) of
        None \<Rightarrow> (auth_Error ''User not found'' 401, w)
      | Some userID \<Rightarrow>
          (case jwt_Logout (ah_jwtService h) userID (snd w) of
             (Inl _, r) \<Rightarrow> (auth_Error ''Logout failed'' 500, (fst w, r))
           | (Inr _, r) \<Rightarrow>
               (auth_OK (JObj [(''success'', JBool True), (''message'', JStr ''Logged out successfully'')]), (fst w, r))))"

text \<open>\<open>ts\<close> is the time as JSON writes it.\<close>
definition health_endpoint :: "string \<Rightarrow> ('d \<times> 'r) handler" where
  "health_endpoint ts req w =
     (auth_OK (JObj [(''status'', JStr ''healthy''), (''timestamp'', JStr ts), (''service'', JStr ''auth-service''), (''version'', JStr ''1.0.0'')]), w)"

definition auth_service :: "string \<Rightarrow> string \<Rightarrow> jwt_env \<Rightarrow> ('d, 'r, 'v) AuthHandler \<Rightarrow> string \<Rightarrow> string \<Rightarrow> ('d \<times> 'r) handler option" where
  "auth_service ts salt env h httpMethod path =
     (if httpMethod = ''GET'' \<and> path = ''/health'' then Some (health_endpoint ts)
      else if httpMethod = ''POST'' \<and> path = ''/login'' then Some (login_endpoint env h)
      else if httpMethod = ''POST'' \<and> path = ''/register'' then Some (register_endpoint salt env h)
      else if httpMethod = ''POST'' \<and> path = ''/validate'' then Some (validate_endpoint (jv_now env 0) h)
      else if httpMethod = ''POST'' \<and> path = ''/refresh'' then Some (refresh_endpoint env h)
      else if httpMethod = ''GET'' \<and> path = ''/profile''
      then Some (AuthMiddleware (jv_now env 0) (ah_jwtService h) (profile_endpoint h))
      else if httpMethod = ''POST'' \<and> path = ''/logout''
      then Some (AuthMiddleware (jv_now env 0) (ah_jwtService h) (logout_endpoint h))
      else None)"

text \<open>The gRPC method \<open>Login\<close>. \<open>ExpiresIn\<close> is cut to 32 bits; \<open>now\<close> is the time of the answer.\<close>
record login_response =
  lp_AccessToken :: string
  lp_RefreshToken :: string
  lp_TokenType :: string
  lp_ExpiresIn :: "32 word"
  lp_UserId :: string
  lp_Email :: string
  lp_CreatedAt :: gotime

definition grpc_Login :: "gotime \<Rightarrow> jwt_env \<Rightarrow> ('d, 'r, 'v) AuthHandler \<Rightarrow> string \<Rightarrow> string \<Rightarrow> ('d \<times> 'r, login_response) io" where
  "grpc_Login now env h email password w =
     (case Authenticate (ah_userService h) email password (fst w) of
        (Inl _, d) \<Rightarrow> (Inl (Errorf ''invalid credentials''), (d, snd w))
      | (Inr user, d) \<Rightarrow>
          (case GenerateTokenPair env (ah_jwtService h) (ui_ID user) (ui_Email user) (ui_Role user) (snd w) of
             (Inl _, r) \<Rightarrow> (Inl (Errorf ''authentication failed''), (d, r))
           | (Inr p, r) \<Rightarrow>
               (Inr \<lparr>lp_AccessToken = tp_AccessToken p, lp_RefreshToken = tp_RefreshToken p, lp_TokenType = tp_TokenType p,
                     lp_ExpiresIn = word_of_int (tp_ExpiresIn p), lp_UserId = ui_ID user, lp_Email = ui_Email user, lp_CreatedAt = now\<rparr>, (d, r))))"

end
