(* ===== verification/Auth_Properties.thy ===== *)
theory Auth_Properties
  imports Auth_Http
begin

text \<open>
  Properties of authentication over HTTP: what the tokens of a pair are good for, registering and logging in, and the
  answer of the refresh endpoint.
\<close>

section \<open>Tokens at the middleware\<close>










section \<open>Registering and logging in\<close>

text \<open>What the table and bcrypt promise: an inserted user is found by its email, and a hash matches its password.\<close>
definition users_law :: "'d user_table \<Rightarrow> bool" where
  "users_law db \<longleftrightarrow> (\<forall>n e h i d d1. ut_Insert db n e h d = (Inr i, d1) \<longrightarrow> fst (ut_ByEmail db e d1) = Inr (i, e, h))"

definition bcrypt_law :: "bcrypt_lib \<Rightarrow> bool" where
  "bcrypt_law bc \<longleftrightarrow> (\<forall>cost salt pw h. bc_Generate bc cost salt pw = Inr h \<longrightarrow> bc_Compare bc h pw = None)"

lemma CreateUser_logs_in:
  assumes "users_law (us_db s)" and "bcrypt_law (us_bcrypt s)" and "CreateUser salt s email name pw d = (Inr user, d1)"
  shows "8 \<le> length pw \<and> ui_Email user = email \<and> ui_Role user = ''user'' \<and>
    (\<exists>u. fst (Authenticate s email pw d1) = Inr u \<and> ui_ID u = ui_ID user \<and> ui_Email u = email \<and> ui_Role u = ''user'')"
proof -
  obtain h i where val: "ValidatePassword (us_unicode s) pw = None" and hash: "bc_Generate (us_bcrypt s) (ph_cost (us_hasher s)) salt pw = Inr h"
    and ins: "ut_Insert (us_db s) name email h d = (Inr i, d1)"
    and user: "user = \<lparr>ui_ID = int_text i, ui_Email = email, ui_Role = ''user'', ui_PasswordHash = []\<rparr>"
    using assms(3) by (auto simp: CreateUser_def HashPassword_def split: option.splits sum.splits prod.splits pg_failure.splits)
  have "8 \<le> length pw" using val by (simp add: ValidatePassword_def split: if_splits)
  moreover obtain d2 where "ut_ByEmail (us_db s) email d1 = (Inr (i, email, h), d2)"
    using assms(1) ins unfolding users_law_def by (metis prod.collapse)
  moreover have "bc_Compare (us_bcrypt s) h pw = None" using assms(2) hash unfolding bcrypt_law_def by blast
  ultimately show ?thesis
    using user by (simp add: Authenticate_def GetUserByEmail_def getUser_def us_VerifyPassword_def VerifyPassword_def)
qed


lemma email_rules: "split_on CHR 0x2C ''required,email,max=255'' = [''required'', ''email'', ''max=255'']"
  "split_on CHR 0x2C ''required,email'' = [''required'', ''email'']" "split_on CHR 0x2C ''required,max=50'' = [''required'', ''max=50'']"
  "split_on CHR 0x2C ''required'' = [''required'']" "split_on CHR 0x2C ''required,min=8'' = [''required'', ''min=8'']"
  by code_simp+

lemma rule_names: "trim_space ''required'' = ''required''" "trim_space ''email'' = ''email''" "trim_space ''max=255'' = ''max=255''"
  "trim_space ''max=50'' = ''max=50''" "trim_space ''min=8'' = ''min=8''" "scan_min ''min=8'' = 8"
  by code_simp+

text \<open>The rules of the two endpoints, spelled out. Nothing bounds the lengths of email and name.\<close>
lemma register_rules:
  "ValidateStruct [\<lparr>fl_Name = ''Email'', fl_Tag = ''required,email,max=255'', fl_Value = e\<rparr>,
     \<lparr>fl_Name = ''Username'', fl_Tag = ''required,max=50'', fl_Value = n\<rparr>, \<lparr>fl_Name = ''Password'', fl_Tag = ''required'', fl_Value = p\<rparr>] = None
   \<longleftrightarrow> e \<noteq> [] \<and> emailRegex e \<and> n \<noteq> [] \<and> p \<noteq> []"
  by (simp add: ValidateStruct_def email_rules rule_names check_rule_def HasPrefix_def)

lemma login_rules:
  "ValidateStruct [\<lparr>fl_Name = ''Email'', fl_Tag = ''required,email'', fl_Value = e\<rparr>,
     \<lparr>fl_Name = ''Password'', fl_Tag = ''required,min=8'', fl_Value = p\<rparr>] = None
   \<longleftrightarrow> e \<noteq> [] \<and> emailRegex e \<and> 8 \<le> length p"
  by (auto simp add: ValidateStruct_def email_rules rule_names check_rule_def HasPrefix_def)

lemma register_creates:
  assumes "register_endpoint salt env h req w = (resp, w1)" and "as_Status resp = 201" and "aq_Body req = Inr body"
  shows "body ''email'' \<noteq> [] \<and> emailRegex (body ''email'') \<and>
    (\<exists>name user. CreateUser salt (ah_userService h) (body ''email'') name (body ''password'') (fst w) = (Inr user, fst w1))"
proof -
  define name where "name = (if body ''username'' = [] then body ''email'' else body ''username'')"
  have v: "ValidateStruct [\<lparr>fl_Name = ''Email'', fl_Tag = ''required,email,max=255'', fl_Value = body ''email''\<rparr>,
     \<lparr>fl_Name = ''Username'', fl_Tag = ''required,max=50'', fl_Value = name\<rparr>,
     \<lparr>fl_Name = ''Password'', fl_Tag = ''required'', fl_Value = body ''password''\<rparr>] = None"
    using assms unfolding name_def
    by (auto simp: register_endpoint_def Let_def auth_Error_def split: option.splits)
  obtain res d1 where create: "CreateUser salt (ah_userService h) (body ''email'') name (body ''password'') (fst w) = (res, d1)" by force
  have "\<exists>user. res = Inr user \<and> d1 = fst w1"
    using assms v create unfolding name_def
    by (auto simp: register_endpoint_def writeTokenResponse_def Let_def auth_Error_def split: sum.splits if_splits prod.splits)
  with v create show ?thesis unfolding register_rules by blast
qed

lemma login_answers:
  assumes "aq_Body req = Inr body" and "body ''email'' \<noteq> []" and "emailRegex (body ''email'')" and "8 \<le> length (body ''password'')"
    and "fst (Authenticate (ah_userService h) (body ''email'') (body ''password'') (fst w)) = Inr user"
  shows "\<exists>d. login_endpoint env h req w = writeTokenResponse 200 env (ah_jwtService h) user (d, snd w)"
proof -
  have v: "ValidateStruct [\<lparr>fl_Name = ''Email'', fl_Tag = ''required,email'', fl_Value = body ''email''\<rparr>,
     \<lparr>fl_Name = ''Password'', fl_Tag = ''required,min=8'', fl_Value = body ''password''\<rparr>] = None"
    unfolding login_rules using assms by blast
  obtain d where "Authenticate (ah_userService h) (body ''email'') (body ''password'') (fst w) = (Inr user, d)"
    using assms(5) by (metis prod.collapse)
  with v assms(1) show ?thesis by (auto simp: login_endpoint_def)
qed

text \<open>C18: who registers can log in. After an answer 201 of \<open>/register\<close> a \<open>/login\<close> with the same email and password gets as far as
  the tokens: it answers 200 with the user that was created and a new pair, or 500 when Redis or the signing fails.\<close>
theorem register_then_login:
  assumes "users_law (us_db (ah_userService h))" and "bcrypt_law (us_bcrypt (ah_userService h))"
    and "register_endpoint salt env h req w = (resp, w1)" and "as_Status resp = 201"
    and "aq_Body req = Inr body" and "aq_Body req2 = Inr body2"
    and "body2 ''email'' = body ''email''" and "body2 ''password'' = body ''password''"
    and "login_endpoint env2 h req2 w1 = (resp2, w2)"
  shows "\<exists>name user d i. CreateUser salt (ah_userService h) (body ''email'') name (body ''password'') (fst w) = (Inr user, d) \<and> i = ui_ID user \<and>
    ((\<exists>p. fst (GenerateTokenPair env2 (ah_jwtService h) i (body ''email'') ''user'' (snd w1)) = Inr p \<and> as_Status resp2 = 200 \<and>
        as_Body resp2 = AJson (JObj [(''access_token'', JStr (tp_AccessToken p)), (''refresh_token'', JStr (tp_RefreshToken p)),
          (''token_type'', JStr (tp_TokenType p)), (''expires_in'', JNum (tp_ExpiresIn p)), (''user'', user_json i (body ''email'') ''user'')])) \<or>
     (isl (fst (GenerateTokenPair env2 (ah_jwtService h) i (body ''email'') ''user'' (snd w1))) \<and> as_Status resp2 = 500))"
proof -
  obtain name user where email: "body ''email'' \<noteq> []" "emailRegex (body ''email'')"
    and create: "CreateUser salt (ah_userService h) (body ''email'') name (body ''password'') (fst w) = (Inr user, fst w1)"
    using register_creates [OF assms(3-5)] by blast
  from CreateUser_logs_in [OF assms(1,2) create] obtain u where len: "8 \<le> length (body ''password'')"
    and u: "fst (Authenticate (ah_userService h) (body ''email'') (body ''password'') (fst w1)) = Inr u"
      "ui_ID u = ui_ID user" "ui_Email u = body ''email''" "ui_Role u = ''user''" by blast
  from login_answers [OF assms(6), of h w1 u env2] email len u assms(7-9) obtain d where
    login: "(resp2, w2) = writeTokenResponse 200 env2 (ah_jwtService h) u (d, snd w1)" by auto
  obtain res r where gen: "GenerateTokenPair env2 (ah_jwtService h) (ui_ID user) (body ''email'') ''user'' (snd w1) = (res, r)" by force
  show ?thesis
  proof (intro exI conjI)
    show "(\<exists>p. fst (GenerateTokenPair env2 (ah_jwtService h) (ui_ID user) (body ''email'') ''user'' (snd w1)) = Inr p \<and> as_Status resp2 = 200 \<and>
        as_Body resp2 = AJson (JObj [(''access_token'', JStr (tp_AccessToken p)), (''refresh_token'', JStr (tp_RefreshToken p)),
          (''token_type'', JStr (tp_TokenType p)), (''expires_in'', JNum (tp_ExpiresIn p)), (''user'', user_json (ui_ID user) (body ''email'') ''user'')])) \<or>
     (isl (fst (GenerateTokenPair env2 (ah_jwtService h) (ui_ID user) (body ''email'') ''user'' (snd w1))) \<and> as_Status resp2 = 500)"
      using login gen u by (cases res) (auto simp: writeTokenResponse_def)
  qed (use create in auto)
qed


text \<open>A table of users by email, bcrypt with the password as its own hash, and a service that can sign for a first user.\<close>
definition list_users :: "(string \<times> int \<times> string) list user_table" where
  "list_users =
     \<lparr>ut_Insert = \<lambda>n e h d. (if map_of d e = None then (Inr (int (length d) + 1), (e, int (length d) + 1, h) # d) else (Inl UniqueViolation, d)),
      ut_ByEmail = \<lambda>e d. (case map_of d e of None \<Rightarrow> (Inl NoRows, d) | Some (i, h) \<Rightarrow> (Inr (i, e, h), d)),
      ut_ByID = \<lambda>i d. (case find (\<lambda>x. int_text (fst (snd x)) = i) d of None \<Rightarrow> (Inl NoRows, d) | Some (e, j, h) \<Rightarrow> (Inr (j, e, h), d))\<rparr>"

definition plain_bcrypt :: bcrypt_lib where
  "plain_bcrypt = \<lparr>bc_Generate = \<lambda>cost salt pw. Inr pw, bc_Compare = \<lambda>h pw. if h = pw then None else Some (Errorf ''mismatch'')\<rparr>"

definition ex_handler :: "((string \<times> int \<times> string) list, (string \<times> RefreshTokenData) list, RefreshTokenData) AuthHandler" where
  "ex_handler =
     \<lparr>ah_jwtService = ex_service\<lparr>js_jwt := table_jwt
        [(''A9'', ''a'', (ex_claims AccessTokenType ''1'' ''x'')\<lparr>jc_Email := ''a@b.co''\<rparr>),
         (''R9'', ''r'', (ex_claims RefreshTokenType ''1'' ''y'')\<lparr>jc_Email := ''a@b.co''\<rparr>)]\<rparr>,
      ah_userService = NewPgUserStore plain_bcrypt \<lparr>un_upper = \<lambda>_. False, un_lower = \<lambda>_. False, un_digit = \<lambda>_. False\<rparr> list_users\<rparr>"

definition ex_form :: auth_request where
  "ex_form = \<lparr>aq_Header = \<lambda>_. [], aq_Ctx = no_ctx, aq_Body = Inr (\<lambda>k. if k = ''email'' then ''a@b.co'' else if k = ''password'' then ''Passw0rd!'' else [])\<rparr>"

lemma list_users_law: "users_law list_users"
  by (auto simp: users_law_def list_users_def split: if_splits)

lemma ex_register: "as_Status (fst (register_endpoint ''s'' (ex_env ''y'') ex_handler ex_form ([], []))) = 201"
  by code_simp

lemma register_then_login_witness:
  "\<exists>resp w1 resp2 w2. register_endpoint ''s'' (ex_env ''y'') ex_handler ex_form ([], []) = (resp, w1) \<and>
     login_endpoint (ex_env ''y'') ex_handler ex_form w1 = (resp2, w2) \<and> as_Status resp2 \<in> {200, 500}"
proof -
  obtain resp w1 where reg: "register_endpoint ''s'' (ex_env ''y'') ex_handler ex_form ([], []) = (resp, w1)" by (metis prod.collapse)
  obtain resp2 w2 where log: "login_endpoint (ex_env ''y'') ex_handler ex_form w1 = (resp2, w2)" by (metis prod.collapse)
  have laws: "users_law (us_db (ah_userService ex_handler))" "bcrypt_law (us_bcrypt (ah_userService ex_handler))"
    by (simp_all add: ex_handler_def NewPgUserStore_def list_users_law bcrypt_law_def plain_bcrypt_def)
  have form: "aq_Body ex_form = Inr (\<lambda>k. if k = ''email'' then ''a@b.co'' else if k = ''password'' then ''Passw0rd!'' else [])"
    by (simp add: ex_form_def)
  from register_then_login [OF laws reg _ form form refl refl log] ex_register reg have "as_Status resp2 \<in> {200, 500}" by auto
  with reg log show ?thesis by blast
qed

section \<open>Gaps\<close>

text \<open>\<open>/refresh\<close> revokes the token it is given and does not hand out the new one: the answer of a successful refresh has no refresh
  token, and a second request with the old one is refused.\<close>
lemma refresh_endpoint_strands:
  assumes "aq_Body req = Inr body" and "RefreshTokens env (ah_jwtService h) (body ''refresh_token'') (snd w) = (Inr p, r)"
  shows "\<exists>fs. refresh_endpoint env h req w = (auth_OK (JObj fs), (fst w, r)) \<and> ''refresh_token'' \<notin> fst ` set fs"
  using assms by (intro exI conjI, simp add: refresh_endpoint_def) simp

text \<open>The lengths that the tags of \<open>/register\<close> forbid are accepted.\<close>
lemma register_ignores_max:
  "ValidateStruct [\<lparr>fl_Name = ''Email'', fl_Tag = ''required,email,max=255'', fl_Value = ''a@b.co''\<rparr>,
     \<lparr>fl_Name = ''Username'', fl_Tag = ''required,max=50'', fl_Value = replicate 51 CHR ''u''\<rparr>,
     \<lparr>fl_Name = ''Password'', fl_Tag = ''required'', fl_Value = ''p''\<rparr>] = None"
  by code_simp

text \<open>A registered user whose tokens cannot be made is told 201.\<close>
lemma register_created_without_tokens:
  assumes "isl (fst (GenerateTokenPair env s (ui_ID user) (ui_Email user) (ui_Role user) (snd w)))"
  shows "as_Status (fst (writeTokenResponse 201 env s user w)) = 201 \<and>
    as_Body (fst (writeTokenResponse 201 env s user w)) = AText (''Authentication failed'' @ [CHR 0x0A])"
  using assms by (auto simp: writeTokenResponse_def auth_Error_def split: prod.splits sum.splits)

end
