(* ===== verification/Token_Repository.thy ===== *)
theory Token_Repository
  imports Jwt_Service
begin

text \<open>
  \<open>RedisTokenRepository\<close> (\<^verbatim>\<open>internal/auth/redis_config.go\<close>), a second store of refresh tokens over the same keys of Redis as
  \<open>JWTService\<close>, and what its operations mean for that service.
\<close>

record ('r, 'v) RedisTokenRepository =
  tr_client :: "('r, 'v) redis_kv"
  tr_config :: JWTConfig
  tr_json :: "'v token_json"

definition NewRedisTokenRepository :: "'v token_json \<Rightarrow> ('r, 'v) redis_kv \<Rightarrow> JWTConfig \<Rightarrow> ('r, 'v) RedisTokenRepository" where
  "NewRedisTokenRepository js client config = \<lparr>tr_client = client, tr_config = config, tr_json = js\<rparr>"

definition StoreRefreshToken :: "gotime \<Rightarrow> ('r, 'v) RedisTokenRepository \<Rightarrow> RefreshTokenData \<Rightarrow> ('r, unit) io" where
  "StoreRefreshToken now t tokenData r =
     (case tj_Marshal (tr_json t) tokenData of
        Inl err \<Rightarrow> (Inl (Wrapf ''failed to marshal token data: '' err), r)
      | Inr data \<Rightarrow> kv_Set (tr_client t) (RefreshTokenKeyPrefix @ td_TokenID tokenData) data (td_ExpiresAt tokenData - now) r)"

definition GetRefreshTokenBykey :: "('r, 'v) RedisTokenRepository \<Rightarrow> string \<Rightarrow> ('r, RefreshTokenData) io" where
  "GetRefreshTokenBykey t key r =
     (case kv_Get (tr_client t) key r of
        (Inl err, r1) \<Rightarrow> (Inl err, r1)
      | (Inr None, r1) \<Rightarrow> (Inl (Errorf ''redis: nil''), r1)
      | (Inr (Some data), r1) \<Rightarrow>
          (case tj_Unmarshal (tr_json t) data of
             Inl err \<Rightarrow> (Inl (Wrapf ''failed to unmarshal token data: '' err), r1)
           | Inr tokenData \<Rightarrow> (Inr tokenData, r1)))"

definition GetRefreshToken :: "('r, 'v) RedisTokenRepository \<Rightarrow> string \<Rightarrow> ('r, RefreshTokenData) io" where
  "GetRefreshToken t tokenID r = GetRefreshTokenBykey t (RefreshTokenKeyPrefix @ tokenID) r"

definition tr_RevokeRefreshToken :: "gotime \<Rightarrow> ('r, 'v) RedisTokenRepository \<Rightarrow> string \<Rightarrow> ('r, unit) io" where
  "tr_RevokeRefreshToken now t tokenID r =
     (case GetRefreshToken t tokenID r of
        (Inl err, r1) \<Rightarrow> (Inl err, r1)
      | (Inr tokenData, r1) \<Rightarrow>
          (case tj_Marshal (tr_json t) (tokenData\<lparr>td_IsRevoked := True\<rparr>) of
             Inl err \<Rightarrow> (Inl (Wrapf ''failed to marshal revoked token data: '' err), r1)
           | Inr data \<Rightarrow> kv_Set (tr_client t) (RefreshTokenKeyPrefix @ tokenID) data (td_ExpiresAt tokenData - now) r1))"

text \<open>The loops of the operations that visit all keys; what the commands in them return is not looked at.\<close>
primrec revoke_keys :: "gotime \<Rightarrow> ('r, 'v) RedisTokenRepository \<Rightarrow> string \<Rightarrow> string list \<Rightarrow> 'r \<Rightarrow> 'r" where
  "revoke_keys now t userID [] r = r"
| "revoke_keys now t userID (key # ks) r =
     (case GetRefreshTokenBykey t key r of
        (Inl _, r1) \<Rightarrow> revoke_keys now t userID ks r1
      | (Inr tokenData, r1) \<Rightarrow>
          revoke_keys now t userID ks
            (if td_UserID tokenData = userID then
               (case tj_Marshal (tr_json t) (tokenData\<lparr>td_IsRevoked := True\<rparr>) of
                  Inl _ \<Rightarrow> r1
                | Inr data \<Rightarrow> snd (kv_Set (tr_client t) key data (td_ExpiresAt tokenData - now) r1))
             else r1))"

definition RevokeAllUserTokens :: "gotime \<Rightarrow> ('r, 'v) RedisTokenRepository \<Rightarrow> string \<Rightarrow> ('r, unit) io" where
  "RevokeAllUserTokens now t userID r =
     (case kv_Keys (tr_client t) RefreshTokenKeyPrefix r of
        (Inl err, r1) \<Rightarrow> (Inl (Wrapf ''failed to find user tokens: '' err), r1)
      | (Inr ks, r1) \<Rightarrow> (Inr (), revoke_keys now t userID ks r1))"

primrec expire_keys :: "gotime \<Rightarrow> ('r, 'v) RedisTokenRepository \<Rightarrow> string list \<Rightarrow> 'r \<Rightarrow> 'r" where
  "expire_keys now t [] r = r"
| "expire_keys now t (key # ks) r =
     (case GetRefreshTokenBykey t key r of
        (Inl _, r1) \<Rightarrow> expire_keys now t ks r1
      | (Inr tokenData, r1) \<Rightarrow>
          expire_keys now t ks (if td_ExpiresAt tokenData < now then snd (kv_Del (tr_client t) key r1) else r1))"

definition CleanupExpiredTokens :: "gotime \<Rightarrow> ('r, 'v) RedisTokenRepository \<Rightarrow> ('r, unit) io" where
  "CleanupExpiredTokens now t r =
     (case kv_Keys (tr_client t) RefreshTokenKeyPrefix r of
        (Inl err, r1) \<Rightarrow> (Inl (Wrapf ''failed to scan tokens: '' err), r1)
      | (Inr ks, r1) \<Rightarrow> (Inr (), expire_keys now t ks r1))"

primrec count_keys :: "('r, 'v) RedisTokenRepository \<Rightarrow> string \<Rightarrow> string list \<Rightarrow> int \<Rightarrow> 'r \<Rightarrow> int \<times> 'r" where
  "count_keys t userID [] count r = (count, r)"
| "count_keys t userID (key # ks) count r =
     (case GetRefreshTokenBykey t key r of
        (Inl _, r1) \<Rightarrow> count_keys t userID ks count r1
      | (Inr tokenData, r1) \<Rightarrow>
          count_keys t userID ks (if td_UserID tokenData = userID \<and> \<not> td_IsRevoked tokenData then count + 1 else count) r1)"

definition GetActiveTokensCount :: "('r, 'v) RedisTokenRepository \<Rightarrow> string \<Rightarrow> ('r, int) io" where
  "GetActiveTokensCount t userID r =
     (case kv_Keys (tr_client t) RefreshTokenKeyPrefix r of
        (Inl err, r1) \<Rightarrow> (Inl (Wrapf ''failed to scan tokens: '' err), r1)
      | (Inr ks, r1) \<Rightarrow> (case count_keys t userID ks 0 r1 of (n, r2) \<Rightarrow> (Inr n, r2)))"

section \<open>Together with the service\<close>

text \<open>A repository over the Redis and the encoding of a service.\<close>
definition repository_of :: "('r, 'v) JWTService \<Rightarrow> ('r, 'v) RedisTokenRepository" where
  "repository_of s = NewRedisTokenRepository (js_json s) (js_redis s) (js_config s)"

lemma repository_simps [simp]:
  "tr_client (repository_of s) = js_redis s" "tr_json (repository_of s) = js_json s" "tr_config (repository_of s) = js_config s"
  by (simp_all add: repository_of_def NewRedisTokenRepository_def)

lemma repository_get: "GetRefreshTokenBykey (repository_of s) = getRefreshTokenBykey s"
  unfolding GetRefreshTokenBykey_def [abs_def] getRefreshTokenBykey_def [abs_def] repository_simps ..

lemma repository_revoke: "tr_RevokeRefreshToken now (repository_of s) i = revokeRefreshToken now s i"
  unfolding tr_RevokeRefreshToken_def [abs_def] revokeRefreshToken_def [abs_def] GetRefreshToken_def getRefreshToken_def
    repository_get repository_simps ..

lemma kv_Set_stores:
  assumes "kv_laws kv content" and "kv_answers kv" and "content (snd (kv_Set kv k d ttl r)) j = Some v"
  shows "(j = k \<and> v = d) \<or> (content r j = Some v \<and> j \<noteq> k)"
proof -
  obtain res r1 where set: "kv_Set kv k d ttl r = (res, r1)" by force
  with assms(2) have "res = Inr ()" unfolding kv_answers_def by (metis fst_conv)
  with kv_Set_cases [OF assms(1) set] set assms(3) show ?thesis by auto
qed

text \<open>After the loop every value at its keys that is the user's is revoked, and every value at all was there before or is
  revoked.\<close>
lemma revoke_keys_revokes:
  assumes laws: "kv_laws (js_redis s) content" "kv_answers (js_redis s)" "token_json_law (js_json s)"
    and total: "\<forall>d. \<exists>v. tj_Marshal (js_json s) d = Inr v"
    and "content (revoke_keys now (repository_of s) u ks r) k = Some v" and "tj_Unmarshal (js_json s) v = Inr d"
  shows "td_IsRevoked d \<or> (content r k = Some v \<and> (k \<in> set ks \<longrightarrow> td_UserID d \<noteq> u))"
  using assms(5)
proof (induction ks arbitrary: r)
  case (Cons key ks)
  obtain res r1 where get: "getRefreshTokenBykey s key r = (res, r1)" by force
  show ?case
  proof (cases "\<exists>d0. res = Inr d0 \<and> td_UserID d0 = u")
    case True
    then obtain d0 where d0: "res = Inr d0" "td_UserID d0 = u" by blast
    obtain data where data: "tj_Marshal (js_json s) (d0\<lparr>td_IsRevoked := True\<rparr>) = Inr data" using total by blast
    then have decoded: "tj_Unmarshal (js_json s) data = Inr (d0\<lparr>td_IsRevoked := True\<rparr>)"
      using laws(3) unfolding token_json_law_def by blast
    from Cons.prems get d0 data
    have "content (revoke_keys now (repository_of s) u ks (snd (kv_Set (js_redis s) key data (td_ExpiresAt d0 - now) r1))) k = Some v"
      by (simp add: repository_get)
    from Cons.IH [OF this] consider "td_IsRevoked d"
      | "content (snd (kv_Set (js_redis s) key data (td_ExpiresAt d0 - now) r1)) k = Some v" "k \<in> set ks \<longrightarrow> td_UserID d \<noteq> u" by blast
    then show ?thesis
    proof cases
      case 2
      from kv_Set_stores [OF laws(1,2) 2(1)] show ?thesis
        using decoded assms(6) 2(2) get_less [OF laws(1) get] by auto
    qed blast
  next
    case False
    then have "content (revoke_keys now (repository_of s) u ks r1) k = Some v"
      using Cons.prems get by (auto simp: repository_get split: sum.splits)
    from Cons.IH [OF this] get_answers [OF laws(1,2) get _ assms(6)] get_less [OF laws(1) get] False show ?thesis
      by (auto; metis)
  qed
qed simp

text \<open>\<open>RevokeAllUserTokens\<close> ends the user's sessions for \<open>JWTService\<close> too, which shares the keys: while Redis answers and records
  can be encoded it succeeds, and no refresh token of the user is accepted afterwards.\<close>
theorem RevokeAllUserTokens_ends_sessions:
  assumes "kv_laws (js_redis s) content" and "kv_answers (js_redis s)" and "token_json_law (js_json s)"
    and "\<forall>d. \<exists>v. tj_Marshal (js_json s) d = Inr v" and "claims_fixed (js_jwt s)"
    and "ValidateToken s now t RefreshTokenType = Inr claims" and "jc_UserID claims = u"
    and "list_all (draws_other (jc_TokenID claims)) evs"
  shows "fst (RevokeAllUserTokens now0 (repository_of s) u r) = Inr () \<and>
    (\<exists>err. fst (RefreshTokens env s t (fold (token_exec s) evs (snd (RevokeAllUserTokens now0 (repository_of s) u r)))) = Inl err)"
proof -
  obtain res r0 where keys: "kv_Keys (js_redis s) RefreshTokenKeyPrefix r = (res, r0)" by force
  then obtain ks where ks: "res = Inr ks" using assms(2) unfolding kv_answers_def by (metis fst_conv)
  have "spent s content u (jc_TokenID claims) (revoke_keys now0 (repository_of s) u ks r0)"
    unfolding spent_def
  proof (intro allI impI)
    fix v d assume v: "content (revoke_keys now0 (repository_of s) u ks r0) (RefreshTokenKeyPrefix @ jc_TokenID claims) = Some v"
      and d: "tj_Unmarshal (js_json s) v = Inr d"
    from revoke_keys_revokes [OF assms(1-4) v d] kv_Keys_all [OF assms(1), of RefreshTokenKeyPrefix r ks r0] keys ks
    show "td_IsRevoked d \<or> td_UserID d \<noteq> u" by (auto simp: HasPrefix_def)
  qed
  then have "spent s content (jc_UserID claims) (jc_TokenID claims) (snd (RevokeAllUserTokens now0 (repository_of s) u r))"
    using keys ks assms(7) by (simp add: RevokeAllUserTokens_def)
  from refused_run [OF assms(1,3,5,6,8) this] keys ks show ?thesis by (simp add: RevokeAllUserTokens_def)
qed

lemma RevokeAllUserTokens_ends_sessions_witness:
  "fst (RevokeAllUserTokens 5 (repository_of ex_service) ''1'' ex_redis) = Inr () \<and>
   (\<exists>err. fst (RefreshTokens (ex_env ''z'') ex_service ''R1'' (fold (token_exec ex_service)
      [Issue (ex_env ''w'') ''2'' ''e'' ''user'', LogOut ''2''] (snd (RevokeAllUserTokens 5 (repository_of ex_service) ''1'' ex_redis)))) = Inl err)"
proof (rule RevokeAllUserTokens_ends_sessions [OF ex_laws _ ex_claims_fixed ex_valid _ ex_draws(2)])
  show "\<forall>d. \<exists>v. tj_Marshal (js_json ex_service) d = Inr v" by (simp add: ex_parts plain_json_def)
  show "jc_UserID (wire (ex_claims RefreshTokenType ''1'' ''y'')) = ''1''" by code_simp
qed

end
