(* ===== verification/Dist_Lock.thy ===== *)
theory Dist_Lock
  imports Sync_Node
begin

text \<open>
  Locks on Redis servers (\<^verbatim>\<open>internal/lock/distributed.go\<close>). The Lua scripts are translated; the commands they call are a
  parameter, a record over the state \<open>'r\<close> of a server, with \<open>lock_laws\<close> for what Redis documents of them. A
  server runs a script as one step. A call of the client may fail before or after its script ran (\<open>Lost\<close>). How long the
  client waits between attempts is left out; what others do on the server meanwhile is part of the environment.
\<close>

section \<open>Commands and calls\<close>

record 'r lock_cmds =
  lc_SetNX :: "string \<Rightarrow> string \<Rightarrow> int \<Rightarrow> ('r, bool) io"
  lc_GET :: "string \<Rightarrow> ('r, string option) io"
  lc_DEL :: "string \<Rightarrow> ('r, int) io"
  lc_PEXPIRE :: "string \<Rightarrow> int \<Rightarrow> ('r, unit) io"
  lc_EXISTS :: "string \<Rightarrow> ('r, int) io"
  lc_PTTL :: "string \<Rightarrow> ('r, int) io"

datatype fate = Answered | Lost gerr bool

definition Eval :: "fate \<Rightarrow> ('r, 'a) io \<Rightarrow> ('r, 'a) io" where
  "Eval f script r =
     (case f of Answered \<Rightarrow> script r | Lost err did \<Rightarrow> (Inl err, if did then snd (script r) else r))"

text \<open>\<open>Duration.Milliseconds\<close>\<close>
definition Milliseconds :: "int \<Rightarrow> int" where
  "Milliseconds d = (if d < 0 then - (- d div 1000000) else d div 1000000)"

section \<open>The lock\<close>

record DistributedLock =
  dl_key :: string
  dl_value :: string
  dl_ttl :: int

record LockOptions =
  lo_TTL :: int
  lo_RetryCount :: int
  lo_RetryDelay :: int
  lo_AutoExtend :: bool
  lo_ExtendPercent :: int

record LockHandle =
  lh_lock :: DistributedLock
  lh_value :: string
  lh_ttl :: int
  lh_autoExtend :: bool
  lh_extendPercent :: int

text \<open>The ratios 0.7 and 0.8 are kept as percentages.\<close>
definition DefaultLockOptions :: LockOptions where
  "DefaultLockOptions =
     \<lparr>lo_TTL = 30 * 1000000000, lo_RetryCount = 3, lo_RetryDelay = 100 * 1000000, lo_AutoExtend = False, lo_ExtendPercent = 70\<rparr>"

definition NewDistributedLock :: "string \<Rightarrow> DistributedLock" where
  "NewDistributedLock key = \<lparr>dl_key = ''lock:'' @ key, dl_value = [], dl_ttl = 0\<rparr>"

definition generateValue :: "gerr + string \<Rightarrow> gerr + string" where
  "generateValue rnd =
     (case rnd of Inl err \<Rightarrow> Inl (Wrapf ''failed to generate random value: '' err) | Inr bytes \<Rightarrow> Inr (EncodeToString bytes))"

definition acquire_script :: "'r lock_cmds \<Rightarrow> string \<Rightarrow> string \<Rightarrow> int \<Rightarrow> ('r, int) io" where
  "acquire_script c key val ttl r =
     (case lc_SetNX c key val ttl r of
        (Inl err, r1) \<Rightarrow> (Inl err, r1)
      | (Inr result, r1) \<Rightarrow> (Inr (if result then 1 else 0), r1))"

definition tryAcquire :: "fate \<Rightarrow> 'r lock_cmds \<Rightarrow> DistributedLock \<Rightarrow> string \<Rightarrow> int \<Rightarrow> ('r, bool) io" where
  "tryAcquire f c dl val ttl r =
     (case Eval f (acquire_script c (dl_key dl) val (Milliseconds ttl)) r of
        (Inl err, r1) \<Rightarrow> (Inl (Wrapf ''failed to execute lock script: '' err), r1)
      | (Inr result, r1) \<Rightarrow> (Inr (result = 1), r1))"

definition release_script :: "'r lock_cmds \<Rightarrow> string \<Rightarrow> string \<Rightarrow> ('r, int) io" where
  "release_script c key val r =
     (case lc_GET c key r of
        (Inl err, r1) \<Rightarrow> (Inl err, r1)
      | (Inr current, r1) \<Rightarrow> if current = Some val then lc_DEL c key r1 else (Inr 0, r1))"

definition dl_Release :: "fate \<Rightarrow> 'r lock_cmds \<Rightarrow> DistributedLock \<Rightarrow> string \<Rightarrow> ('r, unit) io" where
  "dl_Release f c dl val r =
     (case Eval f (release_script c (dl_key dl) val) r of
        (Inl err, r1) \<Rightarrow> (Inl (Wrapf ''failed to execute release script: '' err), r1)
      | (Inr result, r1) \<Rightarrow>
          if result = 0 then (Inl (Errorf ''lock not owned by this instance or already expired''), r1) else (Inr (), r1))"

definition extend_script :: "'r lock_cmds \<Rightarrow> string \<Rightarrow> string \<Rightarrow> int \<Rightarrow> ('r, int) io" where
  "extend_script c key val ttl r =
     (case lc_GET c key r of
        (Inl err, r1) \<Rightarrow> (Inl err, r1)
      | (Inr current, r1) \<Rightarrow>
          if current = Some val then
            (case lc_PEXPIRE c key ttl r1 of (Inl err, r2) \<Rightarrow> (Inl err, r2) | (Inr _, r2) \<Rightarrow> (Inr 1, r2))
          else (Inr 0, r1))"

definition dl_Extend :: "fate \<Rightarrow> 'r lock_cmds \<Rightarrow> DistributedLock \<Rightarrow> string \<Rightarrow> int \<Rightarrow> ('r, unit) io" where
  "dl_Extend f c dl val ttl r =
     (case Eval f (extend_script c (dl_key dl) val (Milliseconds ttl)) r of
        (Inl err, r1) \<Rightarrow> (Inl (Wrapf ''failed to execute extend script: '' err), r1)
      | (Inr result, r1) \<Rightarrow>
          if result = 0 then (Inl (Errorf ''lock not owned by this instance or already expired''), r1) else (Inr (), r1))"

definition IsLocked :: "fate \<Rightarrow> 'r lock_cmds \<Rightarrow> DistributedLock \<Rightarrow> ('r, bool) io" where
  "IsLocked f c dl r =
     (case Eval f (lc_EXISTS c (dl_key dl)) r of
        (Inl err, r1) \<Rightarrow> (Inl (Wrapf ''failed to check lock existence: '' err), r1)
      | (Inr n, r1) \<Rightarrow> (Inr (n > 0), r1))"

definition dl_GetTTL :: "fate \<Rightarrow> 'r lock_cmds \<Rightarrow> DistributedLock \<Rightarrow> ('r, int) io" where
  "dl_GetTTL f c dl r =
     (case Eval f (lc_PTTL c (dl_key dl)) r of
        (Inl err, r1) \<Rightarrow> (Inl (Wrapf ''failed to get lock TTL: '' err), r1)
      | (Inr ttl, r1) \<Rightarrow> (Inr ttl, r1))"

text \<open>What happens to attempt \<open>n\<close>: whether the context is cancelled while it waits, what others do on the server before it,
  and the fate of its call.\<close>
record 'r lock_env =
  le_value :: "gerr + string"
  le_cancel :: "nat \<Rightarrow> gerr option"
  le_others :: "nat \<Rightarrow> 'r \<Rightarrow> 'r"
  le_fate :: "nat \<Rightarrow> fate"

text \<open>The loop of \<open>Acquire\<close> from attempt \<open>n\<close>, \<open>left\<close> attempts before its end.\<close>
datatype loop_end = Acquired | Cancelled gerr | Exhausted "gerr option"

fun acquire_loop :: "nat \<Rightarrow> 'r lock_env \<Rightarrow> 'r lock_cmds \<Rightarrow> DistributedLock \<Rightarrow> string \<Rightarrow> int \<Rightarrow> nat \<Rightarrow> gerr option \<Rightarrow> 'r
    \<Rightarrow> loop_end \<times> 'r" where
  "acquire_loop 0 env c dl val ttl n lastErr r = (Exhausted lastErr, r)"
| "acquire_loop (Suc left) env c dl val ttl n lastErr r =
     (let r0 = le_others env n r in
      case (if n > 0 then le_cancel env n else None) of
        Some err \<Rightarrow> (Cancelled err, r0)
      | None \<Rightarrow>
          (case tryAcquire (le_fate env n) c dl val ttl r0 of
             (Inl err, r1) \<Rightarrow> acquire_loop left env c dl val ttl (Suc n) (Some err) r1
           | (Inr acquired, r1) \<Rightarrow>
               if acquired then (Acquired, r1)
               else acquire_loop left env c dl val ttl (Suc n) (Some (Errorf ''lock already held'')) r1))"

text \<open>A number of attempts below one makes none, and the message then wraps no error.\<close>
definition dl_Acquire :: "'r lock_env \<Rightarrow> 'r lock_cmds \<Rightarrow> DistributedLock \<Rightarrow> LockOptions \<Rightarrow> ('r, LockHandle) io" where
  "dl_Acquire env c dl opts r =
     (case generateValue (le_value env) of
        Inl err \<Rightarrow> (Inl (Wrapf ''failed to generate lock value: '' err), r)
      | Inr val \<Rightarrow>
          (case acquire_loop (nat (lo_RetryCount opts + 1)) env c dl val (lo_TTL opts) 0 None r of
             (Acquired, r1) \<Rightarrow>
               (Inr \<lparr>lh_lock = dl, lh_value = val, lh_ttl = lo_TTL opts, lh_autoExtend = lo_AutoExtend opts,
                     lh_extendPercent = lo_ExtendPercent opts\<rparr>, r1)
           | (Cancelled err, r1) \<Rightarrow> (Inl err, r1)
           | (Exhausted lastErr, r1) \<Rightarrow>
               (let msg = ''failed to acquire lock after '' @ int_text (lo_RetryCount opts + 1) @ '' attempts: '' in
                Inl (case lastErr of Some err \<Rightarrow> Wrapf msg err | None \<Rightarrow> Errorf (msg @ ''%!w(<nil>)'')), r1)))"

definition lh_Release :: "fate \<Rightarrow> 'r lock_cmds \<Rightarrow> LockHandle \<Rightarrow> ('r, unit) io" where
  "lh_Release f c lh = dl_Release f c (lh_lock lh) (lh_value lh)"

definition lh_Extend :: "fate \<Rightarrow> 'r lock_cmds \<Rightarrow> LockHandle \<Rightarrow> int \<Rightarrow> 'r \<Rightarrow> (gerr + LockHandle) \<times> 'r" where
  "lh_Extend f c lh ttl r =
     (case dl_Extend f c (lh_lock lh) (lh_value lh) ttl r of
        (Inl err, r1) \<Rightarrow> (Inl err, r1)
      | (Inr _, r1) \<Rightarrow> (Inr (lh\<lparr>lh_ttl := ttl\<rparr>), r1))"

definition lh_GetTTL :: "fate \<Rightarrow> 'r lock_cmds \<Rightarrow> LockHandle \<Rightarrow> ('r, int) io" where
  "lh_GetTTL f c lh = dl_GetTTL f c (lh_lock lh)"

section \<open>Running a function under a lock\<close>

text \<open>The function works on the state of the server, which others change too, and on a state of its own. What the
  deferred \<open>Release\<close> returns is dropped.\<close>
definition with_handle ::
  "string \<Rightarrow> fate \<Rightarrow> 'r lock_env \<Rightarrow> 'r lock_cmds \<Rightarrow> DistributedLock \<Rightarrow> LockOptions \<Rightarrow>
   ('r \<times> 'w \<Rightarrow> gerr option \<times> ('r \<times> 'w)) \<Rightarrow> 'r \<times> 'w \<Rightarrow> gerr option \<times> ('r \<times> 'w)" where
  "with_handle msg f env c dl opts fn st =
     (case dl_Acquire env c dl opts (fst st) of
        (Inl err, r1) \<Rightarrow> (Some (Wrapf msg err), (r1, snd st))
      | (Inr handle, r1) \<Rightarrow>
          (case fn (r1, snd st) of (res, (r2, w2)) \<Rightarrow> (res, (snd (lh_Release f c handle r2), w2))))"

definition WithLockOptions ::
  "fate \<Rightarrow> 'r lock_env \<Rightarrow> 'r lock_cmds \<Rightarrow> string \<Rightarrow> LockOptions \<Rightarrow>
   ('r \<times> 'w \<Rightarrow> gerr option \<times> ('r \<times> 'w)) \<Rightarrow> 'r \<times> 'w \<Rightarrow> gerr option \<times> ('r \<times> 'w)" where
  "WithLockOptions f env c lockKey opts =
     with_handle (''failed to acquire lock '' @ [CHR 0x27] @ lockKey @ [CHR 0x27] @ '': '') f env c (NewDistributedLock lockKey) opts"

definition WithLock ::
  "fate \<Rightarrow> 'r lock_env \<Rightarrow> 'r lock_cmds \<Rightarrow> string \<Rightarrow>
   ('r \<times> 'w \<Rightarrow> gerr option \<times> ('r \<times> 'w)) \<Rightarrow> 'r \<times> 'w \<Rightarrow> gerr option \<times> ('r \<times> 'w)" where
  "WithLock f env c lockKey = WithLockOptions f env c lockKey DefaultLockOptions"

definition NewSyncJobLock :: "string \<Rightarrow> DistributedLock" where
  "NewSyncJobLock jobID = NewDistributedLock (''sync_job:'' @ jobID)"

definition job_options :: LockOptions where
  "job_options = DefaultLockOptions\<lparr>lo_TTL := 10 * 60 * 1000000000, lo_AutoExtend := True, lo_ExtendPercent := 80\<rparr>"

definition sjl_Execute ::
  "fate \<Rightarrow> 'r lock_env \<Rightarrow> 'r lock_cmds \<Rightarrow> DistributedLock \<Rightarrow>
   ('r \<times> 'w \<Rightarrow> gerr option \<times> ('r \<times> 'w)) \<Rightarrow> 'r \<times> 'w \<Rightarrow> gerr option \<times> ('r \<times> 'w)" where
  "sjl_Execute f env c sjl = with_handle ''failed to acquire sync job lock: '' f env c sjl job_options"

section \<open>Redlock\<close>

text \<open>The servers by position, all with the same commands; each call has its own fate.\<close>
definition redlock_quorum :: "'r list \<Rightarrow> nat" where
  "redlock_quorum rs = length rs div 2 + 1"

fun redlock_try :: "'r lock_cmds \<Rightarrow> string \<Rightarrow> string \<Rightarrow> int \<Rightarrow> fate list \<Rightarrow> 'r list \<Rightarrow> nat \<times> 'r list" where
  "redlock_try c key val ttl (f # fs) (r # rs) =
     (case tryAcquire f c (NewDistributedLock key) val ttl r of
        (res, r1) \<Rightarrow> (case redlock_try c key val ttl fs rs of (n, rs1) \<Rightarrow> (if res = Inr True then n + 1 else n, r1 # rs1)))"
| "redlock_try c key val ttl fs rs = (0, rs)"

text \<open>The number of servers that released the lock and the errors of the others.\<close>
fun redlock_free :: "'r lock_cmds \<Rightarrow> string \<Rightarrow> string \<Rightarrow> fate list \<Rightarrow> 'r list \<Rightarrow> nat \<times> gerr list \<times> 'r list" where
  "redlock_free c key val (f # fs) (r # rs) =
     (case dl_Release f c (NewDistributedLock key) val r of
        (res, r1) \<Rightarrow>
          (case redlock_free c key val fs rs of
             (n, errors, rs1) \<Rightarrow> (case res of Inr _ \<Rightarrow> (n + 1, errors, r1 # rs1) | Inl err \<Rightarrow> (n, err # errors, r1 # rs1))))"
| "redlock_free c key val fs rs = (0, [], rs)"

text \<open>A slice of errors, printed with \<open>%v\<close>.\<close>
definition errors_text :: "gerr list \<Rightarrow> string" where
  "errors_text errors = ''['' @ join_with CHR 0x20 (map err_text errors) @ '']''"

definition rl_Release :: "'r lock_cmds \<Rightarrow> string \<Rightarrow> string \<Rightarrow> fate list \<Rightarrow> ('r list, unit) io" where
  "rl_Release c key val fs rs =
     (case redlock_free c key val fs rs of
        (n, errors, rs1) \<Rightarrow>
          if n \<ge> redlock_quorum rs then (Inr (), rs1)
          else (Inl (Errorf (''failed to release quorum: got '' @ nat_text n @ '', need '' @ nat_text (redlock_quorum rs) @
                  '', errors: '' @ errors_text errors)), rs1))"

text \<open>\<open>Duration.String\<close>: the digits after the point without zeros at the end, and the units.\<close>
definition frac_text :: "nat \<Rightarrow> nat \<Rightarrow> string" where
  "frac_text v prec =
     (let ds = nat_text (v mod 10 ^ prec); fs = rev (dropWhile (\<lambda>c. c = CHR ''0'') (rev (replicate (prec - length ds) CHR ''0'' @ ds)))
      in if fs = [] then [] else CHR ''.'' # fs)"

definition duration_text :: "int \<Rightarrow> string" where
  "duration_text d =
     (let u = nat \<bar>d\<bar>; secs = u div 1000000000; m = secs div 60; s = nat_text (secs mod 60) @ frac_text u 9 @ ''s''
      in (if d < 0 then ''-'' else []) @
         (if u = 0 then ''0s'' else if u < 1000 then nat_text u @ ''ns''
          else if u < 1000000 then nat_text (u div 1000) @ frac_text u 3 @ [CHR 0xC2, CHR 0xB5, CHR ''s'']
          else if u < 1000000000 then nat_text (u div 1000000) @ frac_text u 6 @ ''ms''
          else if m = 0 then s else if m < 60 then nat_text m @ ''m'' @ s
          else nat_text (m div 60) @ ''h'' @ nat_text (m mod 60) @ ''m'' @ s))"

record RedlockHandle =
  rh_key :: string
  rh_value :: string
  rh_ttl :: int

text \<open>The calls of the attempt and of the clean-up have the fates \<open>fs\<close> and \<open>gs\<close>; \<open>elapsed\<close> is the time the attempt took.\<close>
definition rl_Acquire :: "'r lock_cmds \<Rightarrow> string \<Rightarrow> string \<Rightarrow> int \<Rightarrow> int \<Rightarrow> fate list \<Rightarrow> fate list \<Rightarrow> ('r list, RedlockHandle) io" where
  "rl_Acquire c key val ttl elapsed fs gs rs =
     (case redlock_try c key val ttl fs rs of
        (n, rs1) \<Rightarrow>
          if elapsed > ttl then (Inl (Errorf (''lock acquisition took too long: '' @ duration_text elapsed)), snd (rl_Release c key val gs rs1))
          else if n \<ge> redlock_quorum rs then (Inr \<lparr>rh_key = key, rh_value = val, rh_ttl = ttl\<rparr>, rs1)
          else (Inl (Errorf (''failed to acquire quorum: got '' @ nat_text n @ '', need '' @ nat_text (redlock_quorum rs))),
                snd (rl_Release c key val gs rs1)))"

definition rlh_Release :: "'r lock_cmds \<Rightarrow> RedlockHandle \<Rightarrow> fate list \<Rightarrow> ('r list, unit) io" where
  "rlh_Release c h = rl_Release c (rh_key h) (rh_value h)"

section \<open>What Redis promises\<close>

text \<open>\<open>owner r k\<close> is the value of the key \<open>k\<close> on a server.\<close>
definition lock_laws :: "'r lock_cmds \<Rightarrow> ('r \<Rightarrow> string \<rightharpoonup> string) \<Rightarrow> bool" where
  "lock_laws c owner \<longleftrightarrow>
     (\<forall>k v t r res r1. lc_SetNX c k v t r = (res, r1) \<longrightarrow>
        (res = Inr True \<longrightarrow> owner r k = None \<and> owner r1 = (owner r)(k \<mapsto> v)) \<and>
        (res = Inr False \<longrightarrow> owner r k \<noteq> None) \<and> (res \<noteq> Inr True \<longrightarrow> owner r1 = owner r)) \<and>
     (\<forall>k r res r1. lc_GET c k r = (res, r1) \<longrightarrow> owner r1 = owner r \<and> (\<forall>x. res = Inr x \<longrightarrow> x = owner r k)) \<and>
     (\<forall>k r res r1. lc_DEL c k r = (res, r1) \<longrightarrow>
        (\<forall>n. res = Inr n \<longrightarrow> owner r1 = (owner r)(k := None) \<and> n = (if owner r k = None then 0 else 1)) \<and>
        (isl res \<longrightarrow> owner r1 = owner r)) \<and>
     (\<forall>k t r res r1. lc_PEXPIRE c k t r = (res, r1) \<longrightarrow>
        owner r1 = owner r \<or> (t \<le> 0 \<and> owner r1 = (owner r)(k := None)))"


section \<open>What the operations do to the owner of a key\<close>

lemmas law_parts = lock_laws_def [THEN iffD1, THEN conjunct1, THEN spec, THEN spec, THEN spec, THEN spec, THEN spec, THEN spec, THEN mp]
  lock_laws_def [THEN iffD1, THEN conjunct2, THEN conjunct1, THEN spec, THEN spec, THEN spec, THEN spec, THEN mp]
  lock_laws_def [THEN iffD1, THEN conjunct2, THEN conjunct2, THEN conjunct1, THEN spec, THEN spec, THEN spec, THEN spec, THEN mp]
  lock_laws_def [THEN iffD1, THEN conjunct2, THEN conjunct2, THEN conjunct2, THEN spec, THEN spec, THEN spec, THEN spec, THEN spec, THEN mp]

lemma law_SetNX:
  "lock_laws c owner \<Longrightarrow> lc_SetNX c k v t r = (res, r1) \<Longrightarrow>
   (res = Inr True \<and> owner r k = None \<and> owner r1 = (owner r)(k \<mapsto> v)) \<or>
   (res \<noteq> Inr True \<and> owner r1 = owner r \<and> (res = Inr False \<longrightarrow> owner r k \<noteq> None))"
  by (drule (1) law_parts(1)) auto

lemma law_GET: "lock_laws c owner \<Longrightarrow> lc_GET c k r = (res, r1) \<Longrightarrow> owner r1 = owner r \<and> (\<forall>x. res = Inr x \<longrightarrow> x = owner r k)"
  by (drule (1) law_parts(2))

lemma law_DEL:
  "lock_laws c owner \<Longrightarrow> lc_DEL c k r = (res, r1) \<Longrightarrow>
   (\<exists>n. res = Inr n \<and> owner r1 = (owner r)(k := None) \<and> n = (if owner r k = None then 0 else 1)) \<or> (isl res \<and> owner r1 = owner r)"
  by (drule (1) law_parts(3)) (cases res; simp)

lemma law_PEXPIRE:
  "lock_laws c owner \<Longrightarrow> lc_PEXPIRE c k t r = (res, r1) \<Longrightarrow> owner r1 = owner r \<or> (t \<le> 0 \<and> owner r1 = (owner r)(k := None))"
  by (drule (1) law_parts(4))

lemma Eval_cases:
  assumes "Eval f script r = (res, r1)"
  shows "script r = (res, r1) \<or> (isl res \<and> (r1 = r \<or> r1 = snd (script r)))"
  using assms by (auto simp: Eval_def split: fate.splits if_splits)

lemma acquire_script_cases:
  assumes "lock_laws c owner" and "acquire_script c k v t r = (res, r1)"
  shows "(res = Inr 1 \<and> owner r k = None \<and> owner r1 = (owner r)(k \<mapsto> v)) \<or>
    (res \<noteq> Inr 1 \<and> owner r1 = owner r \<and> (res = Inr 0 \<longrightarrow> owner r k \<noteq> None))"
proof -
  obtain res0 r0 where set: "lc_SetNX c k v t r = (res0, r0)" by force
  from law_SetNX [OF assms(1) set] set assms(2) show ?thesis
    by (auto simp: acquire_script_def split: sum.splits if_splits)
qed

lemma tryAcquire_cases:
  assumes "lock_laws c owner" and "tryAcquire f c dl v ttl r = (res, r1)"
  shows "(owner r (dl_key dl) = None \<and> owner r1 = (owner r)(dl_key dl \<mapsto> v) \<and> res \<noteq> Inr False) \<or>
    (owner r1 = owner r \<and> res \<noteq> Inr True)"
proof -
  obtain res0 r0 where ev: "Eval f (acquire_script c (dl_key dl) v (Milliseconds ttl)) r = (res0, r0)" by force
  obtain res2 r2 where scr: "acquire_script c (dl_key dl) v (Milliseconds ttl) r = (res2, r2)" by force
  from Eval_cases [OF ev] acquire_script_cases [OF assms(1) scr] ev scr assms(2) show ?thesis
    by (auto simp: tryAcquire_def split: sum.splits)
qed

lemma release_script_cases:
  assumes "lock_laws c owner" and "release_script c k v r = (res, r1)"
  shows "(res = Inr 1 \<and> owner r k = Some v \<and> owner r1 = (owner r)(k := None)) \<or>
    (owner r1 = owner r \<and> (isl res \<or> (res = Inr 0 \<and> owner r k \<noteq> Some v)))"
proof -
  obtain res0 r0 where get: "lc_GET c k r = (res0, r0)" by force
  obtain res2 r2 where del: "lc_DEL c k r0 = (res2, r2)" by force
  from law_GET [OF assms(1) get] law_DEL [OF assms(1) del] get del assms(2) show ?thesis
    by (auto simp: release_script_def split: sum.splits if_splits)
qed

lemma dl_Release_cases:
  assumes "lock_laws c owner" and "dl_Release f c dl v r = (res, r1)"
  shows "(owner r (dl_key dl) = Some v \<and> owner r1 = (owner r)(dl_key dl := None)) \<or> (owner r1 = owner r \<and> isl res)"
proof -
  obtain res0 r0 where ev: "Eval f (release_script c (dl_key dl) v) r = (res0, r0)" by force
  obtain res2 r2 where scr: "release_script c (dl_key dl) v r = (res2, r2)" by force
  from Eval_cases [OF ev] release_script_cases [OF assms(1) scr] ev scr assms(2) show ?thesis
    by (auto simp: dl_Release_def split: sum.splits if_splits)
qed

lemma extend_script_cases:
  assumes "lock_laws c owner" and "extend_script c k v t r = (res, r1)"
  shows "owner r1 = owner r \<or> (t \<le> 0 \<and> owner r k = Some v \<and> owner r1 = (owner r)(k := None))"
proof -
  obtain res0 r0 where get: "lc_GET c k r = (res0, r0)" by force
  obtain res2 r2 where ex: "lc_PEXPIRE c k t r0 = (res2, r2)" by force
  from law_GET [OF assms(1) get] law_PEXPIRE [OF assms(1) ex] get ex assms(2) show ?thesis
    by (auto simp: extend_script_def split: sum.splits if_splits)
qed

lemma dl_Extend_cases:
  assumes "lock_laws c owner" and "dl_Extend f c dl v ttl r = (res, r1)"
  shows "owner r1 = owner r \<or> (Milliseconds ttl \<le> 0 \<and> owner r (dl_key dl) = Some v \<and> owner r1 = (owner r)(dl_key dl := None))"
proof -
  obtain res0 r0 where ev: "Eval f (extend_script c (dl_key dl) v (Milliseconds ttl)) r = (res0, r0)" by force
  obtain res2 r2 where scr: "extend_script c (dl_key dl) v (Milliseconds ttl) r = (res2, r2)" by force
  have "r1 = r0" using ev assms(2) by (auto simp: dl_Extend_def split: sum.splits if_splits)
  with Eval_cases [OF ev] extend_script_cases [OF assms(1) scr] scr show ?thesis by auto
qed

section \<open>Exclusion\<close>

text \<open>What may happen to one lock of a server: calls of any client with any value, and the expiry of keys.\<close>
datatype lock_event = Tried string bool | Released string | Extended string int | Waited | Expired

inductive lock_step :: "'r lock_cmds \<Rightarrow> ('r \<Rightarrow> string \<rightharpoonup> string) \<Rightarrow> DistributedLock \<Rightarrow> 'r \<Rightarrow> lock_event \<Rightarrow> 'r \<Rightarrow> bool"
  for c owner dl where
  step_try: "tryAcquire f c dl v ttl r = (res, r1) \<Longrightarrow> lock_step c owner dl r (Tried v (res = Inr True)) r1"
| step_release: "dl_Release f c dl v r = (res, r1) \<Longrightarrow> lock_step c owner dl r (Released v) r1"
| step_extend: "dl_Extend f c dl v ttl r = (res, r1) \<Longrightarrow> lock_step c owner dl r (Extended v ttl) r1"
| step_wait: "owner r1 (dl_key dl) = owner r (dl_key dl) \<Longrightarrow> lock_step c owner dl r Waited r1"
| step_expire: "owner r1 (dl_key dl) = None \<Longrightarrow> lock_step c owner dl r Expired r1"

inductive_cases lock_stepE: "lock_step c owner dl r ev r1"

inductive lock_trace :: "'r lock_cmds \<Rightarrow> ('r \<Rightarrow> string \<rightharpoonup> string) \<Rightarrow> DistributedLock \<Rightarrow> 'r \<Rightarrow> lock_event list \<Rightarrow> 'r \<Rightarrow> bool"
  for c owner dl where
  trace_nil: "lock_trace c owner dl r [] r"
| trace_cons: "lock_step c owner dl r ev r1 \<Longrightarrow> lock_trace c owner dl r1 evs r2 \<Longrightarrow> lock_trace c owner dl r (ev # evs) r2"

text \<open>The holder neither gives the lock back nor lets it expire.\<close>
definition keeps_lock :: "string \<Rightarrow> lock_event \<Rightarrow> bool" where
  "keeps_lock v ev \<longleftrightarrow> ev \<noteq> Expired \<and> ev \<noteq> Released v \<and> (\<forall>ttl. ev = Extended v ttl \<longrightarrow> Milliseconds ttl > 0)"

lemma held_step:
  assumes "lock_laws c owner" and "lock_step c owner dl r ev r1" and "owner r (dl_key dl) = Some v" and "keeps_lock v ev"
  shows "owner r1 (dl_key dl) = Some v \<and> (\<forall>w. ev \<noteq> Tried w True)"
  using assms(2)
proof (cases rule: lock_step.cases)
  case (step_try f w ttl res)
  with tryAcquire_cases [OF assms(1) step_try(2)] assms(3) show ?thesis by auto
next
  case (step_release f w res)
  with dl_Release_cases [OF assms(1) step_release(2)] assms(3,4) show ?thesis by (auto simp: keeps_lock_def)
next
  case (step_extend f w ttl res)
  with dl_Extend_cases [OF assms(1) step_extend(2)] assms(3,4) show ?thesis by (auto simp: keeps_lock_def)
qed (use assms in \<open>auto simp: keeps_lock_def\<close>)

lemma held_trace:
  assumes "lock_laws c owner" and "lock_trace c owner dl r evs r1" and "owner r (dl_key dl) = Some v" and "list_all (keeps_lock v) evs"
  shows "owner r1 (dl_key dl) = Some v \<and> (\<forall>w. Tried w True \<notin> set evs)"
  using assms(2-4)
proof (induction rule: lock_trace.induct)
  case (trace_cons r ev r1 evs r2)
  with held_step [OF assms(1) trace_cons(1)] show ?case by auto
qed simp

lemma acquired_owner:
  "lock_laws c owner \<Longrightarrow> tryAcquire f c dl v ttl r = (Inr True, r1) \<Longrightarrow> owner r (dl_key dl) = None \<and> owner r1 (dl_key dl) = Some v"
  by (drule (1) tryAcquire_cases) auto


lemma acquire_loop_owner:
  "lock_laws c owner \<Longrightarrow> acquire_loop left env c dl v ttl n lastErr r = (Acquired, r1) \<Longrightarrow> owner r1 (dl_key dl) = Some v"
proof (induction left env c dl v ttl n lastErr r rule: acquire_loop.induct)
  case (2 left env c dl v ttl n lastErr r)
  obtain res r0 where att: "tryAcquire (le_fate env n) c dl v ttl (le_others env n r) = (res, r0)" by force
  with 2 acquired_owner [OF 2(3)] show ?case by (auto simp: Let_def split: option.splits sum.splits if_splits)
qed simp

lemma dl_Acquire_owner:
  assumes "lock_laws c owner" and "dl_Acquire env c dl opts r = (Inr h, r1)"
  shows "lh_lock h = dl \<and> owner r1 (dl_key dl) = Some (lh_value h)"
  using assms(2) acquire_loop_owner [OF assms(1)]
  by (auto simp: dl_Acquire_def Let_def split: sum.splits prod.splits loop_end.splits option.splits)

text \<open>As long as the others leave the owner of the key alone, an attempt on a lock that is held does not succeed.\<close>
lemma acquire_loop_held:
  assumes "lock_laws c owner" and "\<And>n r. owner (le_others env n r) (dl_key dl) = owner r (dl_key dl)"
  shows "owner r (dl_key dl) = Some v \<Longrightarrow> acquire_loop left env c dl w ttl n lastErr r = (e, r1) \<Longrightarrow>
    e \<noteq> Acquired \<and> owner r1 (dl_key dl) = Some v"
proof (induction left arbitrary: n lastErr r)
  case (Suc left)
  obtain res r0 where att: "tryAcquire (le_fate env n) c dl w ttl (le_others env n r) = (res, r0)" by force
  have held: "owner (le_others env n r) (dl_key dl) = Some v" using Suc.prems(1) assms(2) by simp
  with tryAcquire_cases [OF assms(1) att] have "owner r0 (dl_key dl) = Some v" "res \<noteq> Inr True" by auto
  with Suc held att show ?case by (auto simp: Let_def split: option.splits sum.splits if_splits)
qed auto

lemma dl_Acquire_held:
  assumes "lock_laws c owner" and "\<And>n r. owner (le_others env n r) (dl_key dl) = owner r (dl_key dl)"
    and "owner r (dl_key dl) = Some v"
  shows "isl (fst (dl_Acquire env c dl opts r)) \<and> owner (snd (dl_Acquire env c dl opts r)) (dl_key dl) = Some v"
proof (cases "generateValue (le_value env)")
  case (Inr w)
  obtain e r1 where loop: "acquire_loop (nat (lo_RetryCount opts + 1)) env c dl w (lo_TTL opts) 0 None r = (e, r1)" by force
  from acquire_loop_held [OF assms(1,2,3) loop] Inr loop show ?thesis
    by (cases e) (simp_all add: dl_Acquire_def Let_def)
qed (use assms(3) in \<open>simp add: dl_Acquire_def\<close>)

text \<open>C14: a lock excludes. Once \<open>Acquire\<close> has returned a handle, then whatever clients do on the server (attempts, releases and
  extensions with any value, calls that fail before or after they ran), until the holder releases the lock or it expires:
  no attempt is told that it has the lock, the holder still has it, a further \<open>Acquire\<close> fails, and a \<open>Release\<close>
  with another value is refused and does no harm.\<close>
theorem lock_exclusive:
  assumes "lock_laws c owner" and "dl_Acquire env c dl opts r = (Inr h, r0)"
    and "lock_trace c owner dl r0 evs r1" and "list_all (keeps_lock (lh_value h)) evs"
  shows "owner r1 (dl_key dl) = Some (lh_value h) \<and> (\<forall>w. Tried w True \<notin> set evs) \<and>
    (\<forall>env2 opts2. (\<forall>n r. owner (le_others env2 n r) (dl_key dl) = owner r (dl_key dl)) \<longrightarrow> isl (fst (dl_Acquire env2 c dl opts2 r1))) \<and>
    (\<forall>f w. w \<noteq> lh_value h \<longrightarrow> isl (fst (dl_Release f c dl w r1)) \<and>
       owner (snd (dl_Release f c dl w r1)) (dl_key dl) = Some (lh_value h))"
proof -
  have start: "owner r0 (dl_key dl) = Some (lh_value h)" using dl_Acquire_owner [OF assms(1,2)] by blast
  note held = held_trace [OF assms(1,3) start assms(4)]
  have "isl (fst (dl_Release f c dl w r1)) \<and> owner (snd (dl_Release f c dl w r1)) (dl_key dl) = Some (lh_value h)"
    if "w \<noteq> lh_value h" for f w
    using dl_Release_cases [OF assms(1), of f dl w r1] held that by (cases "dl_Release f c dl w r1") auto
  with held dl_Acquire_held [OF assms(1)] show ?thesis by blast
qed

section \<open>Functions under a lock\<close>

definition lock_answers :: "'r lock_cmds \<Rightarrow> bool" where
  "lock_answers c \<longleftrightarrow> (\<forall>k r. \<not> isl (fst (lc_GET c k r))) \<and> (\<forall>k r. \<not> isl (fst (lc_DEL c k r)))"

lemma Release_answered:
  assumes "lock_laws c owner" and "lock_answers c"
  shows "owner (snd (dl_Release Answered c dl v r)) =
    (if owner r (dl_key dl) = Some v then (owner r)(dl_key dl := None) else owner r)"
proof -
  obtain res r1 where scr: "release_script c (dl_key dl) v r = (res, r1)" by force
  obtain res0 r0 where get: "lc_GET c (dl_key dl) r = (res0, r0)" by force
  obtain res2 r2 where del: "lc_DEL c (dl_key dl) r0 = (res2, r2)" by force
  have "\<not> isl res0" "\<not> isl res2" using get del assms(2) unfolding lock_answers_def by (metis fst_conv)+
  then have "\<not> isl res" using scr get del by (auto simp: release_script_def split: sum.splits if_splits)
  with release_script_cases [OF assms(1) scr] scr show ?thesis
    by (auto simp: dl_Release_def Eval_def split: sum.splits)
qed

text \<open>\<open>WithLockOptions\<close> runs the function only while it holds the lock. Either it fails to get the lock, returns that error and the
  function has not run; or the function starts with the lock held and its result is returned. Afterwards the lock
  is given back if it is still held; a lock that another client took after it had expired stays with that client.\<close>
theorem WithLock_protects:
  assumes "lock_laws c owner" and "lock_answers c" and "WithLockOptions Answered env c key opts fn (r, w) = (res, (r3, w3))"
    and "k = ''lock:'' @ key"
  shows "(\<exists>err. res = Some err \<and> w3 = w \<and> isl (fst (dl_Acquire env c (NewDistributedLock key) opts r))) \<or>
    (\<exists>v r1 r2. owner r1 k = Some v \<and> fn (r1, w) = (res, (r2, w3)) \<and>
       owner r3 = (if owner r2 k = Some v then (owner r2)(k := None) else owner r2))"
proof -
  obtain h r1 where acq: "dl_Acquire env c (NewDistributedLock key) opts r = (h, r1)" by force
  have k: "dl_key (NewDistributedLock key) = k" using assms(4) by (simp add: NewDistributedLock_def)
  show ?thesis
  proof (cases h)
    case (Inl err)
    with acq assms(3) show ?thesis by (auto simp: WithLockOptions_def with_handle_def)
  next
    case (Inr hd)
    obtain res1 r2 w2 where fn: "fn (r1, w) = (res1, (r2, w2))" by (metis prod.collapse)
    have own: "lh_lock hd = NewDistributedLock key" "owner r1 k = Some (lh_value hd)"
      using dl_Acquire_owner [OF assms(1)] acq Inr k by auto
    have "res = res1" "w3 = w2" "r3 = snd (dl_Release Answered c (NewDistributedLock key) (lh_value hd) r2)"
      using assms(3) acq Inr fn own(1) by (simp_all add: WithLockOptions_def with_handle_def lh_Release_def)
    with fn own(2) Release_answered [OF assms(1,2), of "NewDistributedLock key" "lh_value hd" r2] k show ?thesis by auto
  qed
qed


section \<open>Majorities\<close>

text \<open>Who is told that it has \<open>n\<close> of the locks owns at least \<open>n\<close>, and they were free before.\<close>
lemma redlock_try_counts:
  assumes "lock_laws c owner" and "k = ''lock:'' @ key"
  shows "redlock_try c key v ttl fs rs = (n, rs1) \<Longrightarrow> length rs1 = length rs \<and>
    n \<le> length (filter (\<lambda>r. owner r k = Some v) rs1) \<and> n \<le> length (filter (\<lambda>r. owner r k = None) rs)"
proof (induction fs arbitrary: rs n rs1)
  case (Cons f fs)
  note IH = Cons.IH and prem = Cons.prems
  show ?case
  proof (cases rs)
    case (Cons r rs')
    obtain res r0 where att: "tryAcquire f c (NewDistributedLock key) v ttl r = (res, r0)" by force
    obtain m rs2 where rest: "redlock_try c key v ttl fs rs' = (m, rs2)" by force
    from prem att rest Cons have eq: "rs1 = r0 # rs2" "n = (if res = Inr True then m + 1 else m)" by auto
    have "dl_key (NewDistributedLock key) = k" using assms(2) by (simp add: NewDistributedLock_def)
    then have "res = Inr True \<Longrightarrow> owner r k = None \<and> owner r0 k = Some v" using acquired_owner [OF assms(1)] att by auto
    with IH [OF rest] eq Cons show ?thesis by auto
  qed (use prem in simp)
qed simp

lemma filter_length_mono:
  "list_all2 (\<lambda>x y. P x \<longrightarrow> Q y) xs ys \<Longrightarrow> length (filter P xs) \<le> length (filter Q ys)"
  by (induction rule: list_all2_induct) auto

lemma filter_length_split: "(\<And>x. x \<in> set xs \<Longrightarrow> P x \<Longrightarrow> \<not> Q x) \<Longrightarrow> length (filter P xs) + length (filter Q xs) \<le> length xs"
  by (induction xs) auto

lemma card_filter_nth: "card {i. i < length xs \<and> P (xs ! i)} = length (filter P xs)"
  by (simp add: length_filter_conv_card)

text \<open>C15: Redlock excludes. After \<open>Acquire\<close> has returned a handle for one value, whatever clients do on the single servers, in any
  interleaving and also with calls that fail, as long as the holder does not release its locks and they do not
  expire: no client is ever given the locks of a majority again, and a further \<open>Acquire\<close> fails.\<close>
theorem redlock_exclusive:
  assumes "lock_laws c owner" and "rl_Acquire c key v ttl elapsed fs gs rs = (Inr h, rs1)" and "length rs2 = length rs1"
    and "\<forall>i < length rs1. lock_trace c owner (NewDistributedLock key) (rs1 ! i) (tr i) (rs2 ! i)"
    and "\<forall>i < length rs1. list_all (keeps_lock v) (tr i)"
  shows "card {i. i < length rs1 \<and> (\<exists>w. Tried w True \<in> set (tr i))} < redlock_quorum rs \<and>
    isl (fst (rl_Acquire c key w ttl2 elapsed2 fs2 gs2 rs2))"
proof -
  define k where "k = ''lock:'' @ key"
  define own where "own = (\<lambda>r. owner r k = Some v)"
  have key: "dl_key (NewDistributedLock key) = k" by (simp add: NewDistributedLock_def k_def)
  obtain n where att: "redlock_try c key v ttl fs rs = (n, rs1)" and n: "redlock_quorum rs \<le> n"
    using assms(2) by (auto simp: rl_Acquire_def split: prod.splits if_splits)
  note count = redlock_try_counts [OF assms(1) k_def att]
  have kept: "own (rs2 ! i) \<and> (\<forall>w. Tried w True \<notin> set (tr i))" if "i < length rs1" "own (rs1 ! i)" for i
    using held_trace [OF assms(1), of "NewDistributedLock key" "rs1 ! i" "tr i" "rs2 ! i" v] assms(4,5) that key
    unfolding own_def by auto
  have "length (filter own rs1) \<le> length (filter own rs2)"
    by (rule filter_length_mono) (use assms(3) kept in \<open>auto simp: list_all2_conv_all_nth\<close>)
  with count n have maj: "redlock_quorum rs \<le> length (filter own rs1)" "redlock_quorum rs \<le> length (filter own rs2)"
    unfolding own_def by auto
  have few: "length xs - redlock_quorum rs < redlock_quorum rs" if "length xs = length rs" for xs :: "'a list"
    using that by (simp add: redlock_quorum_def)
  have "{i. i < length rs1 \<and> (\<exists>w. Tried w True \<in> set (tr i))} \<subseteq> {i. i < length rs1 \<and> \<not> own (rs1 ! i)}" using kept by blast
  then have "card {i. i < length rs1 \<and> (\<exists>w. Tried w True \<in> set (tr i))} \<le> length (filter (\<lambda>r. \<not> own r) rs1)"
    using card_mono [of "{i. i < length rs1 \<and> \<not> own (rs1 ! i)}"] card_filter_nth [of rs1 "\<lambda>r. \<not> own r"] by simp
  then have first: "card {i. i < length rs1 \<and> (\<exists>w. Tried w True \<in> set (tr i))} < redlock_quorum rs"
    using maj(1) sum_length_filter_compl [of own rs1] count few [of rs1] by linarith
  have second: "isl (fst (rl_Acquire c key w ttl2 elapsed2 fs2 gs2 rs2))"
  proof -
    obtain m rs3 where att2: "redlock_try c key w ttl2 fs2 rs2 = (m, rs3)" by force
    have "m \<le> length (filter (\<lambda>r. owner r k = None) rs2)" using redlock_try_counts [OF assms(1) k_def att2] by blast
    moreover have "length (filter (\<lambda>r. owner r k = None) rs2) + length (filter own rs2) \<le> length rs2"
      by (rule filter_length_split) (simp add: own_def)
    ultimately have "m < redlock_quorum rs2" using maj(2) assms(3) count by (simp add: redlock_quorum_def)
    with att2 show ?thesis by (auto simp: rl_Acquire_def)
  qed
  from first second show ?thesis by blast
qed

section \<open>Examples\<close>

text \<open>A server that forgets nothing.\<close>
definition list_lock :: "(string \<times> string) list lock_cmds" where
  "list_lock =
     \<lparr>lc_SetNX = \<lambda>k v t r. (if map_of r k = None then (Inr True, (k, v) # r) else (Inr False, r)),
      lc_GET = \<lambda>k r. (Inr (map_of r k), r),
      lc_DEL = \<lambda>k r. (Inr (if map_of r k = None then 0 else 1), filter (\<lambda>e. fst e \<noteq> k) r),
      lc_PEXPIRE = \<lambda>k t r. (Inr (), r), lc_EXISTS = \<lambda>k r. (Inr (if map_of r k = None then 0 else 1), r), lc_PTTL = \<lambda>k r. (Inr 1, r)\<rparr>"

lemma map_of_without: "map_of (filter (\<lambda>e. fst e \<noteq> k) r) = (map_of r)(k := None)"
  by (induction r) auto

lemma list_lock_laws: "lock_laws list_lock map_of"
  by (auto simp: lock_laws_def list_lock_def map_of_without split: if_splits)

lemma list_lock_answers: "lock_answers list_lock"
  by (simp add: lock_answers_def list_lock_def)

definition ex_lock_env :: "(nat \<Rightarrow> fate) \<Rightarrow> (string \<times> string) list lock_env" where
  "ex_lock_env f = \<lparr>le_value = Inr ''v'', le_cancel = \<lambda>_. None, le_others = \<lambda>_ r. r, le_fate = f\<rparr>"

definition ex_handle :: LockHandle where
  "ex_handle = \<lparr>lh_lock = NewDistributedLock ''k'', lh_value = ''76'', lh_ttl = 30000000000, lh_autoExtend = False, lh_extendPercent = 70\<rparr>"

lemma ex_acquire: "dl_Acquire (ex_lock_env (\<lambda>_. Answered)) list_lock (NewDistributedLock ''k'') DefaultLockOptions [] = (Inr ex_handle, [(''lock:k'', ''76'')])"
  by code_simp

lemma ex_contender:
  "lock_trace list_lock map_of (NewDistributedLock ''k'') [(''lock:k'', ''76'')] [Tried ''w'' (Inr False = (Inr True :: gerr + bool)), Released ''w'']
     [(''lock:k'', ''76'')]"
proof (intro trace_cons)
  show "lock_step list_lock map_of (NewDistributedLock ''k'') [(''lock:k'', ''76'')] (Tried ''w'' (Inr False = (Inr True :: gerr + bool))) [(''lock:k'', ''76'')]"
    by (rule step_try [where f = Answered and ttl = 5000000]) code_simp
  show "lock_step list_lock map_of (NewDistributedLock ''k'') [(''lock:k'', ''76'')] (Released ''w'') [(''lock:k'', ''76'')]"
    by (rule step_release [where f = Answered and res = "Inl (Errorf ''lock not owned by this instance or already expired'')"]) code_simp
qed (rule trace_nil)

lemma ex_keeps: "list_all (keeps_lock ''76'') [Tried ''w'' (Inr False = (Inr True :: gerr + bool)), Released ''w'']"
  by (simp add: keeps_lock_def)

lemma lock_exclusive_witness:
  "isl (fst (dl_Acquire (ex_lock_env (\<lambda>_. Answered)) list_lock (NewDistributedLock ''k'') DefaultLockOptions [(''lock:k'', ''76'')]))"
  using lock_exclusive [OF list_lock_laws ex_acquire ex_contender] ex_keeps
  by (auto simp: ex_handle_def ex_lock_env_def)

lemma WithLock_protects_witness:
  "\<exists>(v :: string) r1 r2. map_of r1 (''lock:'' @ ''k'') = Some v \<and> (\<lambda>(r, w). (None, (r, Suc w))) (r1, 0) = (None :: gerr option, (r2, 1)) \<and>
     map_of [] = (if map_of r2 (''lock:'' @ ''k'') = Some v then (map_of r2)((''lock:'' @ ''k'') := None) else map_of r2)"
proof -
  have "WithLockOptions Answered (ex_lock_env (\<lambda>_. Answered)) list_lock ''k'' DefaultLockOptions (\<lambda>(r, w). (None, (r, Suc w))) ([], 0) = (None, ([], 1))"
    by code_simp
  from WithLock_protects [OF list_lock_laws list_lock_answers this refl] show ?thesis
    by (rule disjE) (simp, assumption)
qed

lemma redlock_exclusive_witness:
  "isl (fst (rl_Acquire list_lock ''k'' ''w'' 1000000 0 [Answered, Answered, Answered] [] [[(''lock:k'', ''v'')], [(''lock:k'', ''v'')], []]))"
proof -
  have acq: "rl_Acquire list_lock ''k'' ''v'' 1000000 0 [Answered, Answered, Lost (Errorf ''timeout'') False] [] [[], [], []] =
      (Inr \<lparr>rh_key = ''k'', rh_value = ''v'', rh_ttl = 1000000\<rparr>, [[(''lock:k'', ''v'')], [(''lock:k'', ''v'')], []])"
    by code_simp
  show ?thesis
    using redlock_exclusive [OF list_lock_laws acq refl, where tr = "\<lambda>_. []" and w = "''w''" and ?ttl2.0 = 1000000 and ?elapsed2.0 = 0
        and ?fs2.0 = "[Answered, Answered, Answered]" and ?gs2.0 = "[]"]
    by (simp add: trace_nil)
qed

text \<open>An answer that is lost: the first attempt takes the lock, but the client does not hear of it. The further attempts find the
  lock held and \<open>Acquire\<close> fails; the lock stays until it expires.\<close>
lemma acquire_lost_answer:
  "case dl_Acquire (ex_lock_env (\<lambda>n. if n = 0 then Lost (Errorf ''i/o timeout'') True else Answered)) list_lock (NewDistributedLock ''k'') DefaultLockOptions []
   of (res, r) \<Rightarrow> isl res \<and> map_of r ''lock:k'' = Some ''76''"
  by code_simp

section \<open>The extender\<close>

text \<open>The goroutine of \<open>startAutoExtend\<close> beside \<open>Release\<close>: whether \<open>stopExtend\<close> is set, whether its channel is closed, whether the
  context is done, and where the goroutine is. Each turn of its loop reads \<open>stopExtend\<close> again; a nil channel is never
  ready.\<close>
datatype ext_phase = Looping | Selecting bool | Extending | Gone

record extender =
  et_field :: bool
  et_closed :: bool
  et_done :: bool
  et_phase :: ext_phase

inductive ext_step :: "bool \<Rightarrow> extender \<Rightarrow> extender \<Rightarrow> bool" for cancels where
  ext_select: "et_phase s = Looping \<Longrightarrow> ext_step cancels s (s\<lparr>et_phase := Selecting (et_field s)\<rparr>)"
| ext_stop: "et_phase s = Selecting True \<Longrightarrow> et_closed s \<Longrightarrow> ext_step cancels s (s\<lparr>et_phase := Gone\<rparr>)"
| ext_ctx: "et_phase s = Selecting b \<Longrightarrow> et_done s \<Longrightarrow> ext_step cancels s (s\<lparr>et_phase := Gone\<rparr>)"
| ext_tick: "et_phase s = Selecting b \<Longrightarrow> ext_step cancels s (s\<lparr>et_phase := Extending\<rparr>)"
| ext_extended: "et_phase s = Extending \<Longrightarrow> ext_step cancels s (s\<lparr>et_phase := Looping\<rparr>)"
| ext_release: "et_field s \<Longrightarrow> ext_step cancels s (s\<lparr>et_field := False, et_closed := True\<rparr>)"
| ext_cancel: "cancels \<Longrightarrow> ext_step cancels s (s\<lparr>et_done := True\<rparr>)"

definition startAutoExtend :: extender where
  "startAutoExtend = \<lparr>et_field = True, et_closed = False, et_done = False, et_phase = Looping\<rparr>"

text \<open>A \<open>Release\<close> that comes while the goroutine extends the lock does not stop it: it goes on until the context is done.\<close>
lemma extender_outlives_release:
  "\<exists>s. (ext_step False)\<^sup>*\<^sup>* startAutoExtend s \<and> et_closed s \<and> (\<forall>s'. (ext_step False)\<^sup>*\<^sup>* s s' \<longrightarrow> et_phase s' \<noteq> Gone)"
proof -
  define s0 where "s0 = startAutoExtend"
  define s1 where "s1 = s0\<lparr>et_phase := Selecting True\<rparr>"
  define s2 where "s2 = s1\<lparr>et_phase := Extending\<rparr>"
  define s3 where "s3 = s2\<lparr>et_field := False, et_closed := True\<rparr>"
  have "ext_step False s0 s1" using ext_select [of s0 False] by (simp add: s0_def s1_def startAutoExtend_def)
  moreover have "ext_step False s1 s2" using ext_tick [of s1 True False] by (simp add: s1_def s2_def)
  moreover have "ext_step False s2 s3" using ext_release [of s2 False] by (simp add: s0_def s1_def s2_def s3_def startAutoExtend_def)
  ultimately have reach: "(ext_step False)\<^sup>*\<^sup>* startAutoExtend s3" unfolding s0_def by auto
  have "(ext_step False)\<^sup>*\<^sup>* s3 s' \<Longrightarrow> \<not> et_field s' \<and> \<not> et_done s' \<and> et_phase s' \<noteq> Gone \<and> et_phase s' \<noteq> Selecting True" for s'
  proof (induction rule: rtranclp_induct)
    case base
    show ?case by (simp add: s3_def s2_def s1_def s0_def startAutoExtend_def)
  next
    case (step s s')
    from step(2,3) show ?case by (cases rule: ext_step.cases) auto
  qed
  with reach show ?thesis by (intro exI [of _ s3]) (auto simp: s3_def)
qed

end
