(* ===== verification/Redis_Limiter.thy ===== *)
theory Redis_Limiter
  imports Dist_Lock
begin

text \<open>
  The rate limiters on Redis (\<^verbatim>\<open>internal/ratelimit/limiter.go\<close>). The Lua scripts are translated; the commands they call are
  a parameter, with laws for what Redis documents of them. A script and a \<open>MULTI\<close>/\<open>EXEC\<close> pipeline run as one step, and
  the commands in them do not fail; the call of the client may (\<open>fate\<close>). Times are counted from the Unix epoch. Rates and
  quotients, \<open>float64\<close> in the code, are exact here.
\<close>

section \<open>Commands and data\<close>

text \<open>\<open>lm_ZRANGE\<close> is \<open>ZRANGE key 0 0 WITHSCORES\<close>; \<open>lm_HMGET\<close> reads the fields \<open>tokens\<close> and \<open>last_refill\<close>.\<close>
record 'r limiter_cmds =
  lm_ZREMRANGEBYSCORE :: "string \<Rightarrow> int \<Rightarrow> int \<Rightarrow> 'r \<Rightarrow> 'r"
  lm_ZCARD :: "string \<Rightarrow> 'r \<Rightarrow> int"
  lm_ZRANGE :: "string \<Rightarrow> 'r \<Rightarrow> (string \<times> int) option"
  lm_ZADD :: "string \<Rightarrow> int \<Rightarrow> string \<Rightarrow> 'r \<Rightarrow> 'r"
  lm_EXPIRE :: "string \<Rightarrow> int \<Rightarrow> 'r \<Rightarrow> 'r"
  lm_Expire :: "string \<Rightarrow> int \<Rightarrow> 'r \<Rightarrow> 'r"
  lm_INCR :: "string \<Rightarrow> 'r \<Rightarrow> int \<times> 'r"
  lm_TTL :: "string \<Rightarrow> 'r \<Rightarrow> int"
  lm_HMGET :: "string \<Rightarrow> 'r \<Rightarrow> int option \<times> int option"
  lm_HMSET :: "string \<Rightarrow> int \<Rightarrow> int \<Rightarrow> 'r \<Rightarrow> 'r"

record RateLimitResult =
  rs_Allowed :: bool
  rs_Remaining :: int
  rs_ResetTime :: int
  rs_RetryAfter :: int
  rs_Limit :: int
  rs_Window :: int

text \<open>The prefix of the limiter; what a call reads of clocks and of \<open>requestSeq\<close>, and its fate.\<close>
record limit_call =
  lv_ms :: int
  lv_nanos :: int
  lv_seq :: nat
  lv_fate :: fate

definition rl_prefix :: string where
  "rl_prefix = ''rate_limit:''"

definition rl_key :: "string \<Rightarrow> string" where
  "rl_key identifier = rl_prefix @ identifier"

text \<open>\<open>math.ceil(a / b)\<close>\<close>
definition ceil_div :: "int \<Rightarrow> int \<Rightarrow> int" where
  "ceil_div a b = - ((- a) div b)"

section \<open>Sliding window\<close>

definition sliding_script :: "'r limiter_cmds \<Rightarrow> string \<Rightarrow> int \<Rightarrow> int \<Rightarrow> int \<Rightarrow> int \<Rightarrow> string \<Rightarrow> 'r \<Rightarrow> (int \<times> int \<times> int \<times> int) \<times> 'r" where
  "sliding_script c key now window_start limit window_ms member r =
     (let r1 = lm_ZREMRANGEBYSCORE c key 0 window_start r;
          current = lm_ZCARD c key r1
      in if current \<ge> limit then
           let oldest = lm_ZRANGE c key r1;
               retry_after = (case oldest of Some (_, score) \<Rightarrow> max 0 (score - now + window_ms) | None \<Rightarrow> 0)
           in ((0, limit - current, case oldest of Some (_, score) \<Rightarrow> score | None \<Rightarrow> now, retry_after), r1)
         else
           let r2 = lm_ZADD c key now member r1;
               r3 = lm_EXPIRE c key (ceil_div window_ms 1000 + 1) r2
           in ((1, limit - current - 1, now + window_ms, 0), r3))"

definition member_of :: "limit_call \<Rightarrow> string" where
  "member_of v = int_text (lv_nanos v) @ ''-'' @ nat_text (lv_seq v)"

definition SlidingWindowRateLimit :: "'r limiter_cmds \<Rightarrow> limit_call \<Rightarrow> string \<Rightarrow> int \<Rightarrow> int \<Rightarrow> ('r, RateLimitResult) io" where
  "SlidingWindowRateLimit c v identifier limit window r =
     (let now = lv_ms v; windowStart = now - Milliseconds window in
      case Eval (lv_fate v) (\<lambda>r. case sliding_script c (rl_key identifier) now windowStart limit (Milliseconds window) (member_of v) r
                                 of (x, r1) \<Rightarrow> (Inr x, r1)) r of
        (Inl err, r1) \<Rightarrow> (Inl (Wrapf ''rate limit script execution failed: '' err), r1)
      | (Inr (allowed, remaining, resetTimeMs, retryAfterMs), r1) \<Rightarrow>
          (Inr \<lparr>rs_Allowed = (allowed = 1), rs_Remaining = remaining, rs_ResetTime = resetTimeMs * 1000000,
                rs_RetryAfter = retryAfterMs * 1000000, rs_Limit = limit, rs_Window = window\<rparr>, r1))"

section \<open>Fixed window\<close>

text \<open>The pipeline of \<open>INCR\<close> and the client's \<open>Expire\<close>, which takes a duration; \<open>TTL\<close> is in seconds.\<close>
definition fixed_script :: "'r limiter_cmds \<Rightarrow> string \<Rightarrow> int \<Rightarrow> 'r \<Rightarrow> int \<times> 'r" where
  "fixed_script c key window r = (case lm_INCR c key r of (n, r1) \<Rightarrow> (n, lm_Expire c key window r1))"

definition FixedWindowRateLimit :: "'r limiter_cmds \<Rightarrow> limit_call \<Rightarrow> string \<Rightarrow> int \<Rightarrow> int \<Rightarrow> ('r, RateLimitResult) io" where
  "FixedWindowRateLimit c v identifier limit window r =
     (case Eval (lv_fate v) (\<lambda>r. case fixed_script c (rl_key identifier) window r of (n, r1) \<Rightarrow> (Inr n, r1)) r of
        (Inl err, r1) \<Rightarrow> (Inl (Wrapf ''rate limit check failed: '' err), r1)
      | (Inr current, r1) \<Rightarrow>
          (let allowed = (current \<le> limit); ttl = lm_TTL c (rl_key identifier) r1 * 1000000000 in
           (Inr \<lparr>rs_Allowed = allowed, rs_Remaining = max 0 (limit - current), rs_ResetTime = lv_nanos v + window,
                 rs_RetryAfter = (if \<not> allowed \<and> ttl > 0 then ttl else 0), rs_Limit = limit, rs_Window = window\<rparr>, r1)))"

section \<open>Token bucket\<close>

definition bucket_script :: "'r limiter_cmds \<Rightarrow> string \<Rightarrow> int \<Rightarrow> int \<Rightarrow> rat \<Rightarrow> rat \<Rightarrow> 'r \<Rightarrow> (int \<times> int \<times> int \<times> int) \<times> 'r" where
  "bucket_script c key now capacity refill_rate refill_interval r =
     (let bucket = lm_HMGET c key r;
          tokens0 = (case fst bucket of Some t \<Rightarrow> t | None \<Rightarrow> capacity);
          last_refill = (case snd bucket of Some t \<Rightarrow> t | None \<Rightarrow> now);
          time_passed = now - last_refill;
          tokens_to_add = \<lfloor>of_int time_passed / refill_interval * refill_rate\<rfloor>;
          tokens1 = min capacity (tokens0 + tokens_to_add);
          allowed = (tokens1 \<ge> 1);
          tokens = (if allowed then tokens1 - 1 else tokens1);
          r1 = lm_HMSET c key tokens now r;
          r2 = lm_EXPIRE c key (\<lceil>of_int capacity / refill_rate\<rceil> + 60) r1;
          retry_after = (if \<not> allowed then \<lceil>(1 - of_int tokens) / refill_rate * 1000\<rceil> else 0)
      in ((if allowed then 1 else 0, tokens, now + 1000, retry_after), r2))"

text \<open>\<open>Window\<close> is \<open>time.Duration(float64(capacity)/refillRate) * time.Second\<close>, cut to whole seconds.\<close>
definition TokenBucketRateLimit :: "'r limiter_cmds \<Rightarrow> limit_call \<Rightarrow> string \<Rightarrow> int \<Rightarrow> rat \<Rightarrow> ('r, RateLimitResult) io" where
  "TokenBucketRateLimit c v identifier capacity refillRate r =
     (case Eval (lv_fate v) (\<lambda>r. case bucket_script c (rl_key identifier) (lv_ms v) capacity refillRate 1000 r of (x, r1) \<Rightarrow> (Inr x, r1)) r of
        (Inl err, r1) \<Rightarrow> (Inl (Wrapf ''token bucket script execution failed: '' err), r1)
      | (Inr (allowed, remaining, resetTimeMs, retryAfterMs), r1) \<Rightarrow>
          (Inr \<lparr>rs_Allowed = (allowed = 1), rs_Remaining = remaining, rs_ResetTime = resetTimeMs * 1000000,
                rs_RetryAfter = retryAfterMs * 1000000, rs_Limit = capacity,
                rs_Window = (let q = of_int capacity / refillRate in if q < 0 then \<lceil>q\<rceil> else \<lfloor>q\<rfloor>) * 1000000000\<rparr>, r1))"

section \<open>Several limits\<close>

text \<open>One call of the environment for each limit; the accumulators are \<open>mostRestrictive\<close> and \<open>minResetTime\<close>.\<close>
fun multi_loop :: "'r limiter_cmds \<Rightarrow> string \<Rightarrow> (limit_call \<times> int \<times> int) list \<Rightarrow> RateLimitResult option \<Rightarrow> int option \<Rightarrow> ('r, RateLimitResult option) io" where
  "multi_loop c identifier [] best reset r = (Inr (map_option (\<lambda>b. b\<lparr>rs_ResetTime := the reset\<rparr>) best), r)"
| "multi_loop c identifier ((v, limit, window) # ls) best reset r =
     (case SlidingWindowRateLimit c v (identifier @ '':'' @ int_text (Milliseconds window)) limit window r of
        (Inl err, r1) \<Rightarrow> (Inl err, r1)
      | (Inr result, r1) \<Rightarrow>
          if \<not> rs_Allowed result then (Inr (Some result), r1)
          else multi_loop c identifier ls
                 (case best of None \<Rightarrow> Some result | Some b \<Rightarrow> if rs_Remaining result < rs_Remaining b then Some result else Some b)
                 (case reset of None \<Rightarrow> Some (rs_ResetTime result) | Some t \<Rightarrow> if rs_ResetTime result < t then Some (rs_ResetTime result) else Some t)
                 r1)"

definition MultiRateLimit :: "'r limiter_cmds \<Rightarrow> string \<Rightarrow> (limit_call \<times> int \<times> int) list \<Rightarrow> ('r, RateLimitResult option) io" where
  "MultiRateLimit c identifier limits = multi_loop c identifier limits None None"

section \<open>The current state of a limit\<close>

text \<open>The pipeline of \<open>ZREMRANGEBYSCORE\<close> and \<open>ZCARD\<close>, then \<open>ZRANGE key 0 0\<close> in a call with the fate \<open>f2\<close>. The oldest entry's
  member is read as its time.\<close>
definition GetUserRateLimit :: "'r limiter_cmds \<Rightarrow> limit_call \<Rightarrow> fate \<Rightarrow> string \<Rightarrow> int \<Rightarrow> int \<Rightarrow> ('r, RateLimitResult) io" where
  "GetUserRateLimit c v f2 identifier limit window r =
     (let key = rl_key identifier; windowStart = lv_ms v - Milliseconds window in
      case Eval (lv_fate v) (\<lambda>r. let r1 = lm_ZREMRANGEBYSCORE c key 0 windowStart r in (Inr (lm_ZCARD c key r1), r1)) r of
        (Inl err, r1) \<Rightarrow> (Inl (Wrapf ''failed to check rate limit status: '' err), r1)
      | (Inr current, r1) \<Rightarrow>
      (case Eval f2 (\<lambda>r. (Inr (lm_ZRANGE c key r), r)) r1 of
        (Inl err, r2) \<Rightarrow> (Inl (Wrapf ''failed to get oldest request: '' err), r2)
      | (Inr oldest, r2) \<Rightarrow>
          (let allowed = (current < limit);
               oldestMs = (case oldest of None \<Rightarrow> None | Some (member, _) \<Rightarrow> ParseInt member);
               resetTime = map_option (\<lambda>ms. (ms + Milliseconds window) * 1000000) oldestMs
           in (Inr \<lparr>rs_Allowed = allowed, rs_Remaining = max 0 (limit - current),
                    rs_ResetTime = (case resetTime of Some t \<Rightarrow> t | None \<Rightarrow> lv_nanos v + window),
                    rs_RetryAfter = (case resetTime of Some t \<Rightarrow> if \<not> allowed then max 0 (t - lv_nanos v) else 0 | None \<Rightarrow> 0),
                    rs_Limit = limit, rs_Window = window\<rparr>, r2))))"

section \<open>What Redis promises\<close>



section \<open>The sliding window\<close>



















section \<open>A server for examples\<close>







section \<open>Limits that do not recover\<close>

text \<open>Counters: \<open>cnt r k\<close> is the counter's value, 0 when it is missing; \<open>Expire\<close> counts whole seconds.\<close>
definition counter_laws :: "'r limiter_cmds \<Rightarrow> ('r \<Rightarrow> string \<Rightarrow> int) \<Rightarrow> ('r \<Rightarrow> string \<rightharpoonup> int) \<Rightarrow> ('r \<Rightarrow> int) \<Rightarrow> bool" where
  "counter_laws c cnt dl clk \<longleftrightarrow>
     (\<forall>k r n r1. lm_INCR c k r = (n, r1) \<longrightarrow> n = cnt r k + 1 \<and> cnt r1 k = n \<and> clk r1 = clk r) \<and>
     (\<forall>k d r. 1000000000 \<le> d \<longrightarrow> cnt (lm_Expire c k d r) k = cnt r k \<and> clk (lm_Expire c k d r) = clk r \<and>
        dl (lm_Expire c k d r) k = Some (clk r + 1000 * (d div 1000000000)))"

text \<open>Time goes by; a key that has not reached its time keeps its value.\<close>
definition ticks :: "('r \<Rightarrow> string \<Rightarrow> int) \<Rightarrow> ('r \<Rightarrow> string \<rightharpoonup> int) \<Rightarrow> ('r \<Rightarrow> int) \<Rightarrow> string \<Rightarrow> 'r \<Rightarrow> 'r \<Rightarrow> bool" where
  "ticks cnt dl clk k r r1 \<longleftrightarrow> clk r \<le> clk r1 \<and> (\<forall>e. dl r k = Some e \<longrightarrow> clk r1 < e \<longrightarrow> cnt r1 k = cnt r k)"

text \<open>Requests of one identifier, the latest first, each less than a window after the one before.\<close>
inductive fw_trace :: "'r limiter_cmds \<Rightarrow> ('r \<Rightarrow> string \<Rightarrow> int) \<Rightarrow> ('r \<Rightarrow> string \<rightharpoonup> int) \<Rightarrow> ('r \<Rightarrow> int) \<Rightarrow> string \<Rightarrow> int \<Rightarrow> int \<Rightarrow> bool list \<Rightarrow> 'r \<Rightarrow> bool"
  for c cnt dl clk ident limit window where
  fw_first: "cnt r (rl_key ident) = 0 \<Longrightarrow> FixedWindowRateLimit c v ident limit window r = (Inr x, r1) \<Longrightarrow>
    fw_trace c cnt dl clk ident limit window [rs_Allowed x] r1"
| fw_next: "fw_trace c cnt dl clk ident limit window as r \<Longrightarrow> ticks cnt dl clk (rl_key ident) r r1 \<Longrightarrow>
    clk r1 < clk r + 1000 * (window div 1000000000) \<Longrightarrow> FixedWindowRateLimit c v ident limit window r1 = (Inr x, r2) \<Longrightarrow>
    fw_trace c cnt dl clk ident limit window (rs_Allowed x # as) r2"

lemma fixed_run:
  assumes "counter_laws c cnt dl clk" and "1000000000 \<le> window" and "FixedWindowRateLimit c v ident limit window r = (Inr x, r1)"
  shows "cnt r1 (rl_key ident) = cnt r (rl_key ident) + 1 \<and> rs_Allowed x = (cnt r (rl_key ident) + 1 \<le> limit) \<and>
    dl r1 (rl_key ident) = Some (clk r1 + 1000 * (window div 1000000000))"
proof -
  obtain n r0 where incr: "lm_INCR c (rl_key ident) r = (n, r0)" by force
  have a: "n = cnt r (rl_key ident) + 1" "cnt r0 (rl_key ident) = n" using assms(1) incr unfolding counter_laws_def by blast+
  have b: "cnt (lm_Expire c (rl_key ident) window r0) (rl_key ident) = cnt r0 (rl_key ident)"
    "clk (lm_Expire c (rl_key ident) window r0) = clk r0"
    "dl (lm_Expire c (rl_key ident) window r0) (rl_key ident) = Some (clk r0 + 1000 * (window div 1000000000))"
    using assms(1,2) unfolding counter_laws_def by blast+
  from assms(3) incr have "r1 = lm_Expire c (rl_key ident) window r0" "rs_Allowed x = (n \<le> limit)"
    by (auto simp: FixedWindowRateLimit_def fixed_script_def Eval_def Let_def split: fate.splits)
  with a b show ?thesis by simp
qed

text \<open>The window of a fixed-window limit starts anew with every request: as long as requests come, allowed or not, no gap of a
  window between them, only the first \<open>limit\<close> are ever allowed.\<close>
lemma fixed_window_never_resets:
  assumes "counter_laws c cnt dl clk" and "1000000000 \<le> window" and "fw_trace c cnt dl clk ident limit window as r"
  shows "cnt r (rl_key ident) = int (length as) \<and> dl r (rl_key ident) = Some (clk r + 1000 * (window div 1000000000)) \<and>
    (\<forall>i < length as. rev as ! i \<longleftrightarrow> int i < limit)"
  using assms(3)
proof (induction rule: fw_trace.induct)
  case (fw_first r v x r1)
  with fixed_run [OF assms(1,2) fw_first(2)] show ?case by auto
next
  case (fw_next as r r1 v x r2)
  then have "cnt r1 (rl_key ident) = int (length as)" unfolding ticks_def by auto
  with fixed_run [OF assms(1,2) fw_next(4)] fw_next(5) show ?case by (auto simp: nth_append less_Suc_eq)
qed

text \<open>The member of an entry is not a number, so that \<open>GetUserRateLimit\<close> never finds the time of the oldest request: it always answers
  that the limit is reset a full window from now and that there is nothing to wait for.\<close>
lemma member_not_number: "ParseInt (member_of v) = None"
proof -
  have hd: "hd (nat_text n) \<noteq> CHR ''-'' \<and> hd (nat_text n) \<noteq> CHR ''+''" for n
  proof -
    have "hd (nat_text n) \<in> set dec_digits" using nat_text_digits [of n] hd_in_set [OF nat_text_nonempty, of n] by blast
    then show ?thesis by (auto simp: dec_digits_def)
  qed
  have bad: "\<not> list_all (\<lambda>c. c \<in> set dec_digits) (a @ CHR ''-'' # b)" for a b using dec_digits_props(3) by simp
  show ?thesis
  proof (cases "lv_nanos v < 0")
    case True
    then show ?thesis using bad by (simp add: ParseInt_def member_of_def int_text_def)
  next
    case False
    obtain d ds where ds: "nat_text (nat (lv_nanos v)) = d # ds" by (meson list.exhaust nat_text_nonempty)
    have d: "d \<noteq> CHR ''-''" "d \<noteq> CHR ''+''" using hd [of "nat (lv_nanos v)"] ds by auto
    have s: "member_of v = d # ds @ CHR ''-'' # nat_text (lv_seq v)" using False ds by (simp add: member_of_def int_text_def)
    have eq: "(case member_of v of CHR ''-'' # r \<Rightarrow> (True, r) | CHR ''+'' # r \<Rightarrow> (False, r) | _ \<Rightarrow> (False, member_of v)) = (False, member_of v)"
      using d unfolding s by (cases d rule: char.exhaust) (auto split: bool.splits)
    have "\<not> list_all (\<lambda>c. c \<in> set dec_digits) (member_of v)"
      using bad [of "d # ds" "nat_text (lv_seq v)"] unfolding s by simp
    then show ?thesis unfolding ParseInt_def eq by simp
  qed
qed

lemma status_without_reset:
  assumes "\<And>k r m s. lm_ZRANGE c k r = Some (m, s) \<Longrightarrow> \<exists>u. m = member_of u"
    and "GetUserRateLimit c v f2 ident limit window r = (Inr x, r1)"
  shows "rs_ResetTime x = lv_nanos v + window \<and> rs_RetryAfter x = 0"
  using assms member_not_number
  by (fastforce simp: GetUserRateLimit_def Let_def Eval_def split: fate.splits option.splits prod.splits sum.splits)


text \<open>An empty token bucket that is asked before it has earned a whole token starts over: the request is refused, the bucket stays
  empty and the time since the last refill is forgotten. Asked often enough it never recovers.\<close>
lemma bucket_starts_over:
  assumes "lm_HMGET c key r = (Some 0, Some before)" and "before \<le> now" and "of_int (now - before) * rate < 1000" and "0 < rate" and "0 \<le> capacity"
  shows "\<exists>retry. bucket_script c key now capacity rate 1000 r =
    ((0, 0, now + 1000, retry), lm_EXPIRE c key (\<lceil>of_int capacity / rate\<rceil> + 60) (lm_HMSET c key 0 now r))"
proof -
  have "0 \<le> of_int (now - before) / 1000 * rate" "of_int (now - before) / 1000 * rate < 1" using assms(2-4) by simp_all
  then have "\<lfloor>of_int (now - before) / 1000 * rate\<rfloor> = 0" by (simp add: floor_eq_iff)
  with assms(1,5) show ?thesis by (simp add: bucket_script_def Let_def)
qed

end
