(* ===== verification/Session_Store.thy ===== *)
theory Session_Store
  imports Dist_Lock Security
begin

text \<open>
  Sessions in Redis (\<^verbatim>\<open>internal/session/store.go\<close>). Parameters are the commands of Redis, JSON, bcrypt and SHA-256. Every
  call of the client has its fate: it may fail before or after it took effect. A \<open>TxPipeline\<close> runs as one step.
\<close>

section \<open>Data\<close>

record Session =
  se_UserID :: int
  se_RefreshToken :: string
  se_CreatedAt :: gotime
  se_ExpiresAt :: gotime
  se_LastUsed :: gotime
  se_Metadata :: "(string \<times> string) list"

record ('r, 'v) session_cmds =
  sx_GET :: "string \<Rightarrow> 'r \<Rightarrow> 'v option"
  sx_SET :: "string \<Rightarrow> 'v \<Rightarrow> int \<Rightarrow> 'r \<Rightarrow> 'r"
  sx_DEL :: "string \<Rightarrow> 'r \<Rightarrow> 'r"
  sx_LRANGE :: "string \<Rightarrow> 'r \<Rightarrow> string list"
  sx_RPOP :: "string \<Rightarrow> 'r \<Rightarrow> string option \<times> 'r"
  sx_LREM :: "string \<Rightarrow> string \<Rightarrow> 'r \<Rightarrow> 'r"
  sx_LPUSH :: "string \<Rightarrow> string \<Rightarrow> 'r \<Rightarrow> 'r"
  sx_EXPIRE :: "string \<Rightarrow> int \<Rightarrow> 'r \<Rightarrow> 'r"
  sx_LTRIM :: "string \<Rightarrow> int \<Rightarrow> int \<Rightarrow> 'r \<Rightarrow> 'r"

text \<open>The client's calls: a command that answers and one that changes the state, which may do both.\<close>
definition ask :: "fate \<Rightarrow> ('r \<Rightarrow> 'a) \<Rightarrow> ('r, 'a) io" where
  "ask f q = Eval f (\<lambda>r. (Inr (q r), r))"

definition tell :: "fate \<Rightarrow> ('r \<Rightarrow> 'r) \<Rightarrow> ('r, unit) io" where
  "tell f op = Eval f (\<lambda>r. (Inr (), op r))"

definition ask_tell :: "fate \<Rightarrow> ('r \<Rightarrow> 'a \<times> 'r) \<Rightarrow> ('r, 'a) io" where
  "ask_tell f op = Eval f (\<lambda>r. case op r of (a, r1) \<Rightarrow> (Inr a, r1))"

text \<open>Readings of the clock, random bytes, the salt of bcrypt and the fates of the calls, by their position in an operation.\<close>
record session_env =
  sv_now :: "nat \<Rightarrow> gotime"
  sv_rnd :: "gerr + string"
  sv_salt :: string
  sv_fate :: "nat \<Rightarrow> fate"

definition later_calls :: "nat \<Rightarrow> session_env \<Rightarrow> session_env" where
  "later_calls n env = env\<lparr>sv_now := \<lambda>i. sv_now env (n + i), sv_fate := \<lambda>i. sv_fate env (n + i)\<rparr>"

record ('r, 'v) SessionStore =
  st_rdb :: "('r, 'v) session_cmds"
  st_tokenExpiry :: int
  st_maxSessions :: int
  st_hashCost :: int
  st_prefix :: string
  st_Marshal :: "Session \<Rightarrow> gerr + 'v"
  st_Unmarshal :: "'v \<Rightarrow> gerr + Session"
  st_bcrypt :: bcrypt_lib
  st_sha :: hash_fun

definition NewSessionStore ::
  "(Session \<Rightarrow> gerr + 'v) \<Rightarrow> ('v \<Rightarrow> gerr + Session) \<Rightarrow> bcrypt_lib \<Rightarrow> hash_fun \<Rightarrow> ('r, 'v) session_cmds \<Rightarrow> int \<Rightarrow> int \<Rightarrow> ('r, 'v) SessionStore" where
  "NewSessionStore enc dec bc sha rdb tokenExpiry maxSessions =
     \<lparr>st_rdb = rdb, st_tokenExpiry = tokenExpiry, st_maxSessions = maxSessions, st_hashCost = 10, st_prefix = ''session:'',
      st_Marshal = enc, st_Unmarshal = dec, st_bcrypt = bc, st_sha = sha\<rparr>"

definition generateRefreshToken :: "gerr + string \<Rightarrow> gerr + string" where
  "generateRefreshToken rnd =
     (case rnd of Inl err \<Rightarrow> Inl (Wrapf ''failed to generate random bytes: '' err) | Inr bytes \<Rightarrow> Inr (URLEncode bytes))"

definition hashToken :: "('r, 'v) SessionStore \<Rightarrow> string \<Rightarrow> string \<Rightarrow> gerr + string" where
  "hashToken s salt token =
     (case bc_Generate (st_bcrypt s) (st_hashCost s) salt token of
        Inl err \<Rightarrow> Inl (Wrapf ''failed to hash token: '' err)
      | Inr hash \<Rightarrow> Inr hash)"

definition verifyToken :: "('r, 'v) SessionStore \<Rightarrow> string \<Rightarrow> string \<Rightarrow> gerr option" where
  "verifyToken s hashedToken token = bc_Compare (st_bcrypt s) hashedToken token"

definition userKey :: "('r, 'v) SessionStore \<Rightarrow> int \<Rightarrow> string" where
  "userKey s userID = st_prefix s @ ''user:'' @ int_text userID"

definition sessionKey :: "('r, 'v) SessionStore \<Rightarrow> string \<Rightarrow> string" where
  "sessionKey s sessionID = st_prefix s @ ''id:'' @ sessionID"

definition session_id :: "('r, 'v) SessionStore \<Rightarrow> string \<Rightarrow> string" where
  "session_id s refreshToken = EncodeToString (digest_bytes (st_sha s refreshToken))"

section \<open>Operations\<close>

text \<open>The loop of \<open>enforceSessionLimit\<close>; the calls of turn \<open>i\<close> are \<open>2 * i\<close> and \<open>2 * i + 1\<close>.\<close>
fun evict :: "nat \<Rightarrow> nat \<Rightarrow> session_env \<Rightarrow> ('r, 'v) SessionStore \<Rightarrow> int \<Rightarrow> ('r, unit) io" where
  "evict 0 i env s userID r = (Inr (), r)"
| "evict (Suc n) i env s userID r =
     (case ask_tell (sv_fate env (2 * i)) (sx_RPOP (st_rdb s) (userKey s userID)) r of
        (Inl err, r1) \<Rightarrow> (Inl (Wrapf ''failed to remove old session: '' err), r1)
      | (Inr oldest, r1) \<Rightarrow>
          evict n (Suc i) env s userID
            (case oldest of
               None \<Rightarrow> r1
             | Some sessionID \<Rightarrow>
                 if sessionID \<noteq> [] then snd (tell (sv_fate env (2 * i + 1)) (sx_DEL (st_rdb s) (sessionKey s sessionID)) r1) else r1))"

definition enforceSessionLimit :: "session_env \<Rightarrow> ('r, 'v) SessionStore \<Rightarrow> int \<Rightarrow> ('r, unit) io" where
  "enforceSessionLimit env s userID r =
     (case ask (sv_fate env 0) (sx_LRANGE (st_rdb s) (userKey s userID)) r of
        (Inl err, r1) \<Rightarrow> (Inl (Wrapf ''failed to get user sessions: '' err), r1)
      | (Inr sessions, r1) \<Rightarrow>
          if int (length sessions) \<ge> st_maxSessions s
          then evict (nat (int (length sessions) - st_maxSessions s + 1)) 0 (later_calls 1 env) s userID r1
          else (Inr (), r1))"

text \<open>The pipeline is call 0 of the operation, the calls of \<open>enforceSessionLimit\<close> follow.\<close>
definition CreateSession :: "session_env \<Rightarrow> ('r, 'v) SessionStore \<Rightarrow> int \<Rightarrow> (string \<times> string) list \<Rightarrow> ('r, Session) io" where
  "CreateSession env s userID metadata r =
     (case generateRefreshToken (sv_rnd env) of
        Inl err \<Rightarrow> (Inl (Wrapf ''failed to generate refresh token: '' err), r)
      | Inr refreshToken \<Rightarrow>
      (case hashToken s (sv_salt env) refreshToken of
        Inl err \<Rightarrow> (Inl (Wrapf ''failed to hash refresh token: '' err), r)
      | Inr hashedToken \<Rightarrow>
      let now = sv_now env 0;
          session = \<lparr>se_UserID = userID, se_RefreshToken = hashedToken, se_CreatedAt = now,
                     se_ExpiresAt = now + st_tokenExpiry s, se_LastUsed = now, se_Metadata = metadata\<rparr>;
          sessionID = session_id s refreshToken
      in
      (case enforceSessionLimit (later_calls 1 env) s userID r of
        (Inl err, r1) \<Rightarrow> (Inl (Wrapf ''failed to enforce session limit: '' err), r1)
      | (Inr _, r1) \<Rightarrow>
      (case st_Marshal s session of
        Inl err \<Rightarrow> (Inl (Wrapf ''failed to marshal session: '' err), r1)
      | Inr sessionData \<Rightarrow>
      (case tell (sv_fate env 0) (\<lambda>r. let c = st_rdb s in
              sx_LTRIM c (userKey s userID) 0 (st_maxSessions s - 1)
                (sx_EXPIRE c (userKey s userID) (st_tokenExpiry s)
                  (sx_LPUSH c (userKey s userID) sessionID
                    (sx_SET c (sessionKey s sessionID) sessionData (st_tokenExpiry s) r)))) r1 of
        (Inl err, r2) \<Rightarrow> (Inl (Wrapf ''failed to store session: '' err), r2)
      | (Inr _, r2) \<Rightarrow> (Inr (session\<lparr>se_RefreshToken := refreshToken\<rparr>), r2))))))"

definition DeleteSession :: "session_env \<Rightarrow> ('r, 'v) SessionStore \<Rightarrow> string \<Rightarrow> ('r, unit) io" where
  "DeleteSession env s sessionID r =
     (case ask (sv_fate env 0) (sx_GET (st_rdb s) (sessionKey s sessionID)) r of
        (Inl err, r1) \<Rightarrow> (Inl (Wrapf ''failed to get session for deletion: '' err), r1)
      | (Inr None, r1) \<Rightarrow> (Inr (), r1)
      | (Inr (Some sessionData), r1) \<Rightarrow>
      (case st_Unmarshal s sessionData of
        Inl err \<Rightarrow> (Inl (Wrapf ''failed to unmarshal session: '' err), r1)
      | Inr session \<Rightarrow>
      let r2 = snd (tell (sv_fate env 1) (sx_LREM (st_rdb s) (userKey s (se_UserID session)) sessionID) r1) in
      (case tell (sv_fate env 2) (sx_DEL (st_rdb s) (sessionKey s sessionID)) r2 of
        (Inl err, r3) \<Rightarrow> (Inl (Wrapf ''failed to delete session: '' err), r3)
      | (Inr _, r3) \<Rightarrow> (Inr (), r3))))"

definition ValidateSession :: "session_env \<Rightarrow> ('r, 'v) SessionStore \<Rightarrow> string \<Rightarrow> string \<Rightarrow> ('r, Session) io" where
  "ValidateSession env s sessionID refreshToken r =
     (case ask (sv_fate env 0) (sx_GET (st_rdb s) (sessionKey s sessionID)) r of
        (Inl err, r1) \<Rightarrow> (Inl (Wrapf ''failed to get session: '' err), r1)
      | (Inr None, r1) \<Rightarrow> (Inl (Errorf ''session not found''), r1)
      | (Inr (Some sessionData), r1) \<Rightarrow>
      (case st_Unmarshal s sessionData of
        Inl err \<Rightarrow> (Inl (Wrapf ''failed to unmarshal session: '' err), r1)
      | Inr session \<Rightarrow>
      if sv_now env 0 > se_ExpiresAt session
      then (Inl (Errorf ''session expired''), snd (DeleteSession (later_calls 2 env) s sessionID r1))
      else
      (case verifyToken s (se_RefreshToken session) refreshToken of
        Some err \<Rightarrow> (Inl (Wrapf ''invalid refresh token: '' err), r1)
      | None \<Rightarrow>
      let session1 = session\<lparr>se_LastUsed := sv_now env 1\<rparr> in
      (case st_Marshal s session1 of
        Inl err \<Rightarrow> (Inl (Wrapf ''failed to marshal updated session: '' err), r1)
      | Inr updatedData \<Rightarrow>
      (case tell (sv_fate env 1) (sx_SET (st_rdb s) (sessionKey s sessionID) updatedData (st_tokenExpiry s)) r1 of
        (Inl err, r2) \<Rightarrow> (Inl (Wrapf ''failed to update session: '' err), r2)
      | (Inr _, r2) \<Rightarrow> (Inr session1, r2))))))"

definition RotateToken :: "session_env \<Rightarrow> ('r, 'v) SessionStore \<Rightarrow> string \<Rightarrow> string \<Rightarrow> ('r, Session) io" where
  "RotateToken env s sessionID currentRefreshToken r =
     (case ValidateSession (later_calls 3 env) s sessionID currentRefreshToken r of
        (Inl err, r1) \<Rightarrow> (Inl (Wrapf ''failed to validate session for rotation: '' err), r1)
      | (Inr session, r1) \<Rightarrow>
      (case generateRefreshToken (sv_rnd env) of
        Inl err \<Rightarrow> (Inl (Wrapf ''failed to generate new refresh token: '' err), r1)
      | Inr newRefreshToken \<Rightarrow>
      (case hashToken s (sv_salt env) newRefreshToken of
        Inl err \<Rightarrow> (Inl (Wrapf ''failed to hash new refresh token: '' err), r1)
      | Inr hashedNewToken \<Rightarrow>
      let session1 = session\<lparr>se_RefreshToken := hashedNewToken, se_LastUsed := sv_now env 0, se_ExpiresAt := sv_now env 1 + st_tokenExpiry s\<rparr> in
      (case st_Marshal s session1 of
        Inl err \<Rightarrow> (Inl (Wrapf ''failed to marshal session: '' err), r1)
      | Inr sessionData \<Rightarrow>
      (case tell (sv_fate env 0) (sx_SET (st_rdb s) (sessionKey s sessionID) sessionData (st_tokenExpiry s)) r1 of
        (Inl err, r2) \<Rightarrow> (Inl (Wrapf ''failed to update session: '' err), r2)
      | (Inr _, r2) \<Rightarrow> (Inr (session1\<lparr>se_RefreshToken := newRefreshToken\<rparr>), r2))))))"

primrec delete_all :: "nat \<Rightarrow> session_env \<Rightarrow> ('r, 'v) SessionStore \<Rightarrow> string list \<Rightarrow> 'r \<Rightarrow> 'r" where
  "delete_all i env s [] r = r"
| "delete_all i env s (sessionID # ids) r =
     delete_all (Suc i) env s ids (snd (tell (sv_fate env i) (sx_DEL (st_rdb s) (sessionKey s sessionID)) r))"

definition DeleteAllUserSessions :: "session_env \<Rightarrow> ('r, 'v) SessionStore \<Rightarrow> int \<Rightarrow> ('r, unit) io" where
  "DeleteAllUserSessions env s userID r =
     (case ask (sv_fate env 0) (sx_LRANGE (st_rdb s) (userKey s userID)) r of
        (Inl err, r1) \<Rightarrow> (Inl (Wrapf ''failed to get user sessions: '' err), r1)
      | (Inr sessionIDs, r1) \<Rightarrow>
      let r2 = delete_all 0 (later_calls 2 env) s sessionIDs r1 in
      (case tell (sv_fate env 1) (sx_DEL (st_rdb s) (userKey s userID)) r2 of
        (Inl err, r3) \<Rightarrow> (Inl (Wrapf ''failed to clear user session list: '' err), r3)
      | (Inr _, r3) \<Rightarrow> (Inr (), r3)))"

text \<open>A session that is missing reads as the empty text, which does not decode.\<close>
primrec read_sessions :: "nat \<Rightarrow> session_env \<Rightarrow> ('r, 'v) SessionStore \<Rightarrow> string list \<Rightarrow> 'r \<Rightarrow> Session list \<times> 'r" where
  "read_sessions i env s [] r = ([], r)"
| "read_sessions i env s (sessionID # ids) r =
     (case ask (sv_fate env i) (sx_GET (st_rdb s) (sessionKey s sessionID)) r of
        (res, r1) \<Rightarrow>
          (case read_sessions (Suc i) env s ids r1 of
             (sessions, r2) \<Rightarrow>
               ((case res of
                   Inr (Some sessionData) \<Rightarrow>
                     (case st_Unmarshal s sessionData of Inr session \<Rightarrow> [session\<lparr>se_RefreshToken := []\<rparr>] | Inl _ \<Rightarrow> [])
                 | _ \<Rightarrow> []) @ sessions, r2)))"

definition GetUserSessions :: "session_env \<Rightarrow> ('r, 'v) SessionStore \<Rightarrow> int \<Rightarrow> ('r, Session list) io" where
  "GetUserSessions env s userID r =
     (case ask (sv_fate env 0) (sx_LRANGE (st_rdb s) (userKey s userID)) r of
        (Inl err, r1) \<Rightarrow> (Inl (Wrapf ''failed to get user sessions: '' err), r1)
      | (Inr sessionIDs, r1) \<Rightarrow> (case read_sessions 0 (later_calls 1 env) s sessionIDs r1 of (sessions, r2) \<Rightarrow> (Inr sessions, r2)))"

section \<open>What the parameters promise\<close>

text \<open>\<open>vals r k\<close> is the value at a key and \<open>ids r k\<close> the list at a key, from its head.\<close>
definition session_laws :: "('r, 'v) session_cmds \<Rightarrow> ('r \<Rightarrow> string \<rightharpoonup> 'v) \<Rightarrow> ('r \<Rightarrow> string \<Rightarrow> string list) \<Rightarrow> bool" where
  "session_laws c vals ids \<longleftrightarrow>
     (\<forall>k r. sx_GET c k r = vals r k \<and> sx_LRANGE c k r = ids r k) \<and>
     (\<forall>k v t r. vals (sx_SET c k v t r) = (vals r)(k \<mapsto> v) \<and> (ids r k = [] \<longrightarrow> ids (sx_SET c k v t r) = ids r)) \<and>
     (\<forall>k r. vals (sx_DEL c k r) = (vals r)(k := None) \<and> ids (sx_DEL c k r) = (ids r)(k := [])) \<and>
     (\<forall>k r. fst (sx_RPOP c k r) = (if ids r k = [] then None else Some (last (ids r k))) \<and>
        ids (snd (sx_RPOP c k r)) = (ids r)(k := butlast (ids r k)) \<and> vals (snd (sx_RPOP c k r)) = vals r) \<and>
     (\<forall>k x r. ids (sx_LREM c k x r) = (ids r)(k := removeAll x (ids r k)) \<and> vals (sx_LREM c k x r) = vals r) \<and>
     (\<forall>k x r. vals r k = None \<longrightarrow> ids (sx_LPUSH c k x r) = (ids r)(k := x # ids r k) \<and> vals (sx_LPUSH c k x r) = vals r) \<and>
     (\<forall>k t r. 0 < t \<longrightarrow> ids (sx_EXPIRE c k t r) = ids r \<and> vals (sx_EXPIRE c k t r) = vals r) \<and>
     (\<forall>k n r. 0 \<le> n \<longrightarrow> ids (sx_LTRIM c k 0 n r) = (ids r)(k := take (nat n + 1) (ids r k)) \<and> vals (sx_LTRIM c k 0 n r) = vals r)"


definition answered :: "session_env \<Rightarrow> bool" where
  "answered env \<longleftrightarrow> (\<forall>i. sv_fate env i = Answered)"

text \<open>bcrypt tells passwords of up to 72 bytes apart.\<close>
definition bcrypt_exact :: "bcrypt_lib \<Rightarrow> bool" where
  "bcrypt_exact bc \<longleftrightarrow>
     (\<forall>cost salt a h b. bc_Generate bc cost salt a = Inr h \<longrightarrow> length a \<le> 72 \<longrightarrow> length b \<le> 72 \<longrightarrow> (bc_Compare bc h b = None \<longleftrightarrow> b = a))"

definition session_json_law :: "('r, 'v) SessionStore \<Rightarrow> bool" where
  "session_json_law s \<longleftrightarrow> (\<forall>x v. st_Marshal s x = Inr v \<longrightarrow> st_Unmarshal s v = Inr x)"

lemma ask_answered [simp]: "ask Answered q r = (Inr (q r), r)"
  by (simp add: ask_def Eval_def)

lemma tell_answered [simp]: "tell Answered op r = (Inr (), op r)"
  by (simp add: tell_def Eval_def)

lemma ask_tell_answered [simp]: "ask_tell Answered op r = (Inr (fst (op r)), snd (op r))"
  by (simp add: ask_tell_def Eval_def split: prod.splits)

lemma answered_later [simp]: "answered env \<Longrightarrow> answered (later_calls n env)"
  by (simp add: answered_def later_calls_def)

lemma answeredD [simp]: "answered env \<Longrightarrow> sv_fate env i = Answered"
  by (simp add: answered_def)

lemma session_law:
  assumes "session_laws c vals ids"
  shows "sx_GET c k r = vals r k" "sx_LRANGE c k r = ids r k" "vals (sx_SET c k v t r) = (vals r)(k \<mapsto> v)"
    "ids r k = [] \<Longrightarrow> ids (sx_SET c k v t r) = ids r" "vals (sx_DEL c k r) = (vals r)(k := None)" "ids (sx_DEL c k r) = (ids r)(k := [])"
    "fst (sx_RPOP c k r) = (if ids r k = [] then None else Some (last (ids r k)))"
    "ids (snd (sx_RPOP c k r)) = (ids r)(k := butlast (ids r k))" "vals (snd (sx_RPOP c k r)) = vals r"
    "vals r k = None \<Longrightarrow> ids (sx_LPUSH c k x r) = (ids r)(k := x # ids r k)" "vals r k = None \<Longrightarrow> vals (sx_LPUSH c k x r) = vals r"
    "0 < t \<Longrightarrow> ids (sx_EXPIRE c k t r) = ids r" "0 < t \<Longrightarrow> vals (sx_EXPIRE c k t r) = vals r"
    "0 \<le> n \<Longrightarrow> ids (sx_LTRIM c k 0 n r) = (ids r)(k := take (nat n + 1) (ids r k))" "0 \<le> n \<Longrightarrow> vals (sx_LTRIM c k 0 n r) = vals r"
  using assms by (simp_all add: session_laws_def)

lemma keys_differ [simp]: "sessionKey s i \<noteq> userKey s u" "userKey s u \<noteq> sessionKey s i"
  by (simp_all add: sessionKey_def userKey_def)

lemma sessionKey_inj [simp]: "sessionKey s i = sessionKey s j \<longleftrightarrow> i = j"
  by (simp add: sessionKey_def)

text \<open>Eviction takes the last \<open>n\<close> sessions from the user's list and deletes their data, and nothing else.\<close>
lemma evict_answered:
  assumes laws: "session_laws (st_rdb s) vals ids" and ans: "answered env"
  shows "n \<le> length (ids r (userKey s u)) \<Longrightarrow> [] \<notin> set (ids r (userKey s u)) \<Longrightarrow>
    \<exists>r1. evict n i env s u r = (Inr (), r1) \<and> (\<forall>x. ids r (sessionKey s x) = [] \<longrightarrow> ids r1 (sessionKey s x) = []) \<and>
      ids r1 (userKey s u) = take (length (ids r (userKey s u)) - n) (ids r (userKey s u)) \<and>
      (\<forall>k. vals r1 k = (if \<exists>x \<in> set (drop (length (ids r (userKey s u)) - n) (ids r (userKey s u))). k = sessionKey s x then None else vals r k))"
proof (induction n arbitrary: i r)
  case (Suc n)
  define l where "l = ids r (userKey s u)"
  have l: "l \<noteq> []" using Suc.prems(1) by (auto simp: l_def)
  then have "last l \<noteq> []" using Suc.prems(2) last_in_set [of l] unfolding l_def by metis
  define r1 where "r1 = snd (sx_RPOP (st_rdb s) (userKey s u) r)"
  define r2 where "r2 = sx_DEL (st_rdb s) (sessionKey s (last l)) r1"
  have step: "evict (Suc n) i env s u r = evict n (Suc i) env s u r2"
    using ans l \<open>last l \<noteq> []\<close> session_law(7) [OF laws, of "userKey s u" r] by (simp add: r1_def r2_def l_def)
  have r2: "ids r2 (userKey s u) = butlast l" "vals r2 = (vals r)(sessionKey s (last l) := None)"
    "\<forall>x. ids r (sessionKey s x) = [] \<longrightarrow> ids r2 (sessionKey s x) = []"
    using session_law [OF laws] by (simp_all add: r1_def r2_def l_def)
  have len: "n \<le> length (ids r2 (userKey s u))" using Suc.prems(1) by (simp add: r2 l_def)
  have ne: "[] \<notin> set (ids r2 (userKey s u))" using Suc.prems(2) by (auto simp: r2 l_def dest: in_set_butlastD)
  from Suc.IH [OF len ne, of "Suc i"] obtain r3 where r3: "evict n (Suc i) env s u r2 = (Inr (), r3)"
    "\<forall>x. ids r2 (sessionKey s x) = [] \<longrightarrow> ids r3 (sessionKey s x) = []"
    "ids r3 (userKey s u) = take (length (butlast l) - n) (butlast l)"
    "\<forall>k. vals r3 k = (if \<exists>x \<in> set (drop (length (butlast l) - n) (butlast l)). k = sessionKey s x then None else vals r2 k)"
    unfolding r2(1) by blast
  have n: "length (butlast l) - n = length l - Suc n" by simp
  have "take (length l - Suc n) (butlast l) = take (length l - Suc n) l"
    by (simp add: butlast_conv_take take_take min_def)
  moreover have "drop (length l - Suc n) l = drop (length l - Suc n) (butlast l) @ [last l]"
    using l Suc.prems(1) by (metis append_butlast_last_id diff_le_self drop_append length_butlast n l_def diff_is_0_eq drop0)
  ultimately show ?case
    using step r3 r2 n by (intro exI [of _ r3]) (auto simp: l_def [symmetric])
qed simp

section \<open>The limit of sessions\<close>

lemma enforce_answered:
  assumes laws: "session_laws (st_rdb s) vals ids" and ans: "answered env" and "1 \<le> st_maxSessions s" and "[] \<notin> set (ids r (userKey s u))"
    and l: "l = ids r (userKey s u)" and m: "m = nat (st_maxSessions s) - 1"
  shows "\<exists>r1. enforceSessionLimit env s u r = (Inr (), r1) \<and> (\<forall>x. ids r (sessionKey s x) = [] \<longrightarrow> ids r1 (sessionKey s x) = []) \<and> ids r1 (userKey s u) = take m l \<and>
    (\<forall>k. vals r1 k = (if \<exists>x \<in> set (drop m l). k = sessionKey s x then None else vals r k))"
proof (cases "int (length l) \<ge> st_maxSessions s")
  case True
  define n where "n = nat (int (length l) - st_maxSessions s + 1)"
  have n: "n \<le> length l" "length l - n = m" using True assms(3) m by (simp_all add: n_def nat_diff_distrib)
  have "enforceSessionLimit env s u r = evict n 0 (later_calls 1 env) s u r"
    using ans True l session_law(2) [OF laws] by (simp add: enforceSessionLimit_def n_def)
  with evict_answered [OF laws, of "later_calls 1 env" n r u 0] ans assms(4) n l show ?thesis by auto
next
  case False
  then have "length l \<le> m" using m by linarith
  with False ans l session_law(2) [OF laws] show ?thesis by (simp add: enforceSessionLimit_def)
qed

text \<open>C17: the number of sessions of a user stays bounded. When Redis answers, a successful \<open>CreateSession\<close> leaves at most \<open>maxSessions\<close>
  sessions on the user's list, the new one first and the others the most recent ones in their order; the data of every
  session that was pushed out is gone, and no other value has changed.\<close>
theorem session_limit:
  assumes "session_laws (st_rdb s) vals ids" and "answered env" and "1 \<le> st_maxSessions s" and "0 < st_tokenExpiry s"
    and "[] \<notin> set (ids r (userKey s u))" and "vals r (userKey s u) = None"
    and "\<forall>x. ids r (sessionKey s x) = []"
    and "CreateSession env s u md r = (Inr session, r1)"
    and "i = session_id s (se_RefreshToken session)" and "m = nat (st_maxSessions s) - 1"
  shows "ids r1 (userKey s u) = i # take m (ids r (userKey s u)) \<and> int (length (ids r1 (userKey s u))) \<le> st_maxSessions s \<and>
    (\<forall>x \<in> set (drop m (ids r (userKey s u))). x \<noteq> i \<longrightarrow> vals r1 (sessionKey s x) = None) \<and>
    (\<forall>k. k \<noteq> sessionKey s i \<longrightarrow> (\<forall>x \<in> set (drop m (ids r (userKey s u))). k \<noteq> sessionKey s x) \<longrightarrow> vals r1 k = vals r k)"
proof -
  note laws = session_law [OF assms(1)]
  obtain r0 where enf: "enforceSessionLimit (later_calls 1 env) s u r = (Inr (), r0)" "ids r0 (userKey s u) = take m (ids r (userKey s u))"
    and still: "\<forall>x. ids r (sessionKey s x) = [] \<longrightarrow> ids r0 (sessionKey s x) = []" and vals: "\<forall>k. vals r0 k = (if \<exists>x \<in> set (drop m (ids r (userKey s u))). k = sessionKey s x then None else vals r k)"
    using enforce_answered [OF assms(1) answered_later [OF assms(2), of 1] assms(3,5) refl assms(10)] by blast
  obtain data where r1: "r1 = sx_LTRIM (st_rdb s) (userKey s u) 0 (st_maxSessions s - 1) (sx_EXPIRE (st_rdb s) (userKey s u) (st_tokenExpiry s)
      (sx_LPUSH (st_rdb s) (userKey s u) i (sx_SET (st_rdb s) (sessionKey s i) data (st_tokenExpiry s) r0)))"
    using assms(2,8,9) enf(1) by (auto simp: CreateSession_def Let_def split: sum.splits)
  have empty: "ids r0 (sessionKey s i) = []" using assms(7) still by simp
  have none: "vals r0 (userKey s u) = None" using vals assms(6) by simp
  have max: "0 \<le> st_maxSessions s - 1" "nat (st_maxSessions s - 1) + 1 = Suc m" using assms(3,10) by auto
  have "ids r1 (userKey s u) = take (Suc m) (i # take m (ids r (userKey s u)))"
    using none empty max assms(4) enf(2) by (simp add: r1 laws)
  then have list: "ids r1 (userKey s u) = i # take m (ids r (userKey s u))" by simp
  have val: "vals r1 = (vals r0)(sessionKey s i \<mapsto> data)"
    using none max assms(4) by (simp add: r1 laws)
  have "int (length (ids r1 (userKey s u))) \<le> st_maxSessions s" unfolding list using assms(3,10) by auto
  with list val vals show ?thesis by auto
qed

section \<open>Rotation\<close>

lemma URLEncode_length: "length (URLEncode bs) \<le> 2 * length bs + 4"
  by (induction bs rule: URLEncode.induct) (auto simp: Let_def)

lemma URLEncode_longer: "length bs \<le> length (URLEncode bs)"
  by (induction bs rule: URLEncode.induct) (auto simp: Let_def)

lemma Validate_answered:
  assumes "session_laws (st_rdb s) vals ids" and "answered env" and "session_json_law s" and "\<forall>x. \<exists>v. st_Marshal s x = Inr v"
    and "vals r (sessionKey s i) = Some v" and "st_Unmarshal s v = Inr x"
  shows "if sv_now env 0 > se_ExpiresAt x \<or> verifyToken s (se_RefreshToken x) t \<noteq> None then isl (fst (ValidateSession env s i t r))
    else fst (ValidateSession env s i t r) = Inr (x\<lparr>se_LastUsed := sv_now env 1\<rparr>)"
  using assms session_law(1) [OF assms(1)]
  by (auto simp: ValidateSession_def Let_def split: option.splits sum.splits) (metis sum.distinct(1))

lemma Rotate_stores:
  assumes "session_laws (st_rdb s) vals ids" and "answered env" and "session_json_law s" and "RotateToken env s i old r = (Inr session, r1)"
  shows "\<exists>v h x. vals r1 (sessionKey s i) = Some v \<and> st_Unmarshal s v = Inr x \<and> se_RefreshToken x = h \<and> se_UserID x = se_UserID session \<and>
    se_ExpiresAt x = se_ExpiresAt session \<and> generateRefreshToken (sv_rnd env) = Inr (se_RefreshToken session) \<and>
    hashToken s (sv_salt env) (se_RefreshToken session) = Inr h \<and> se_ExpiresAt session = sv_now env 1 + st_tokenExpiry s"
proof -
  obtain res r0 where val: "ValidateSession (later_calls 3 env) s i old r = (res, r0)" by (metis prod.collapse)
  obtain x0 where x0: "res = Inr x0" using assms(4) val by (cases res) (auto simp: RotateToken_def)
  obtain tok h where tok: "generateRefreshToken (sv_rnd env) = Inr tok" "hashToken s (sv_salt env) tok = Inr h"
    using assms(4) val x0 by (auto simp: RotateToken_def split: sum.splits)
  define x where "x = x0\<lparr>se_RefreshToken := h, se_LastUsed := sv_now env 0, se_ExpiresAt := sv_now env 1 + st_tokenExpiry s\<rparr>"
  obtain v where v: "st_Marshal s x = Inr v" using assms(4) val x0 tok by (auto simp: RotateToken_def Let_def x_def split: sum.splits)
  have r1: "r1 = sx_SET (st_rdb s) (sessionKey s i) v (st_tokenExpiry s) r0" "session = x\<lparr>se_RefreshToken := tok\<rparr>"
    using assms(2,4) val x0 tok v by (auto simp: RotateToken_def Let_def x_def)
  have "vals r1 (sessionKey s i) = Some v" using r1(1) session_law(3) [OF assms(1)] by simp
  moreover have "st_Unmarshal s v = Inr x" using v assms(3) unfolding session_json_law_def by blast
  ultimately show ?thesis using r1(2) tok by (intro exI [of _ v] exI [of _ h] exI [of _ x]) (simp add: x_def)
qed

text \<open>rotating a session's token replaces it. After a successful \<open>RotateToken\<close> the session accepts the new token until it
  expires, for the same user, and refuses every other token, the old one included.\<close>
theorem rotation_replaces_token:
  assumes "session_laws (st_rdb s) vals ids" and "answered env" and "session_json_law s" and "\<forall>x. \<exists>v. st_Marshal s x = Inr v"
    and "bcrypt_exact (st_bcrypt s)" and "sv_rnd env = Inr bytes" and "length bytes = 32"
    and "RotateToken env s i old r = (Inr session, r1)" and "answered env2" and "length t \<le> 72"
  shows "if sv_now env2 0 \<le> sv_now env 1 + st_tokenExpiry s \<and> t = se_RefreshToken session
    then \<exists>x. fst (ValidateSession env2 s i t r1) = Inr x \<and> se_UserID x = se_UserID session
    else isl (fst (ValidateSession env2 s i t r1))"
proof -
  obtain v h x where x: "vals r1 (sessionKey s i) = Some v" "st_Unmarshal s v = Inr x" "se_RefreshToken x = h"
    "se_UserID x = se_UserID session" "se_ExpiresAt x = sv_now env 1 + st_tokenExpiry s"
    and tok: "generateRefreshToken (sv_rnd env) = Inr (se_RefreshToken session)" and h: "hashToken s (sv_salt env) (se_RefreshToken session) = Inr h"
    using Rotate_stores [OF assms(1-3,8)] by auto
  have "length (se_RefreshToken session) \<le> 72"
    using tok assms(6,7) URLEncode_length [of bytes] by (simp add: generateRefreshToken_def)
  then have "verifyToken s h t = None \<longleftrightarrow> t = se_RefreshToken session"
    using h assms(5,10) unfolding bcrypt_exact_def hashToken_def verifyToken_def by (auto split: sum.splits)
  with Validate_answered [OF assms(1,9,3,4) x(1,2), of t] x show ?thesis by (auto split: if_splits)
qed

section \<open>An example\<close>

text \<open>Values and lists as functions from keys; a session is its own encoding and a token its own hash.\<close>
type_synonym ex_sessions = "(string \<rightharpoonup> Session) \<times> (string \<Rightarrow> string list)"

definition ex_cmds :: "(ex_sessions, Session) session_cmds" where
  "ex_cmds =
     \<lparr>sx_GET = \<lambda>k r. fst r k, sx_SET = \<lambda>k v t r. ((fst r)(k \<mapsto> v), snd r), sx_DEL = \<lambda>k r. ((fst r)(k := None), (snd r)(k := [])),
      sx_LRANGE = \<lambda>k r. snd r k,
      sx_RPOP = \<lambda>k r. (if snd r k = [] then None else Some (last (snd r k)), (fst r, (snd r)(k := butlast (snd r k)))),
      sx_LREM = \<lambda>k x r. (fst r, (snd r)(k := removeAll x (snd r k))), sx_LPUSH = \<lambda>k x r. (fst r, (snd r)(k := x # snd r k)),
      sx_EXPIRE = \<lambda>k t r. r, sx_LTRIM = \<lambda>k a n r. (fst r, (snd r)(k := take (nat n + 1) (snd r k)))\<rparr>"

definition ex_store :: "(ex_sessions, Session) SessionStore" where
  "ex_store = NewSessionStore Inr Inr
     \<lparr>bc_Generate = \<lambda>cost salt pw. Inr pw, bc_Compare = \<lambda>h pw. if h = pw then None else Some (Errorf ''mismatch'')\<rparr> (\<lambda>_. 0) ex_cmds 3600 2"

definition ex_senv :: "string \<Rightarrow> session_env" where
  "ex_senv b = \<lparr>sv_now = \<lambda>_. 5, sv_rnd = Inr b, sv_salt = [], sv_fate = \<lambda>_. Answered\<rparr>"

lemma ex_store_simps [simp]: "st_rdb ex_store = ex_cmds" "st_maxSessions ex_store = 2" "st_tokenExpiry ex_store = 3600"
  "st_Marshal ex_store = Inr" "st_Unmarshal ex_store = Inr" "answered (ex_senv b)"
  by (simp_all add: ex_store_def NewSessionStore_def answered_def ex_senv_def)

lemma ex_cmds_laws: "session_laws ex_cmds fst snd"
  by (simp add: session_laws_def ex_cmds_def)

lemma ex_store_laws: "session_laws (st_rdb ex_store) fst snd" "session_json_law ex_store" "\<forall>x. \<exists>v. st_Marshal ex_store x = Inr v"
  "bcrypt_exact (st_bcrypt ex_store)"
  by (simp_all add: ex_cmds_laws session_json_law_def) (simp add: ex_store_def NewSessionStore_def bcrypt_exact_def)

lemma ex_created: "\<exists>x r1. CreateSession (ex_senv ''abc'') ex_store 7 [] (Map.empty, \<lambda>_. []) = (Inr x, r1)"
  by (simp add: CreateSession_def enforceSessionLimit_def generateRefreshToken_def hashToken_def ex_senv_def later_calls_def Let_def
      ex_cmds_def ex_store_def NewSessionStore_def)

lemma session_limit_witness:
  "\<exists>r1. length (snd r1 (userKey ex_store 7)) \<le> 2 \<and> (\<exists>x. CreateSession (ex_senv ''abc'') ex_store 7 [] (Map.empty, \<lambda>_. []) = (Inr x, r1))"
proof -
  obtain x r1 where run: "CreateSession (ex_senv ''abc'') ex_store 7 [] (Map.empty, \<lambda>_. []) = (Inr x, r1)" using ex_created by blast
  from session_limit [OF ex_store_laws(1) _ _ _ _ _ _ run refl refl] have "length (snd r1 (userKey ex_store 7)) \<le> 2" by simp
  with run show ?thesis by blast
qed

definition ex_session :: Session where
  "ex_session = \<lparr>se_UserID = 7, se_RefreshToken = ''old'', se_CreatedAt = 0, se_ExpiresAt = 9, se_LastUsed = 0, se_Metadata = []\<rparr>"

lemma rotation_replaces_token_witness:
  "\<exists>r1. isl (fst (ValidateSession (ex_senv []) ex_store ''i'' ''old'' r1)) \<and>
     (\<exists>x. RotateToken (ex_senv (replicate 32 CHR ''a'')) ex_store ''i'' ''old'' ([sessionKey ex_store ''i'' \<mapsto> ex_session], \<lambda>_. []) = (Inr x, r1))"
proof -
  obtain x r1 where run: "RotateToken (ex_senv (replicate 32 CHR ''a'')) ex_store ''i'' ''old'' ([sessionKey ex_store ''i'' \<mapsto> ex_session], \<lambda>_. []) = (Inr x, r1)"
    by (simp add: RotateToken_def ValidateSession_def generateRefreshToken_def hashToken_def verifyToken_def ex_senv_def later_calls_def
        Let_def ex_cmds_def ex_store_def NewSessionStore_def ex_session_def)
  have "se_RefreshToken x = URLEncode (replicate 32 CHR ''a'')"
    using Rotate_stores [OF ex_store_laws(1) ex_store_simps(6) ex_store_laws(2) run] by (auto simp: generateRefreshToken_def ex_senv_def)
  then have "32 \<le> length (se_RefreshToken x)" using URLEncode_longer [of "replicate 32 CHR ''a''"] by simp
  moreover have "length ''old'' = 3" by simp
  ultimately have "''old'' \<noteq> se_RefreshToken x" by (cases "''old'' = se_RefreshToken x") (drule sym, simp, simp)
  with rotation_replaces_token [OF ex_store_laws(1) _ ex_store_laws(2-4) _ _ run, of "replicate 32 CHR ''a''" "ex_senv []" "''old''"]
  have "isl (fst (ValidateSession (ex_senv []) ex_store ''i'' ''old'' r1))"
    by (auto simp: ex_senv_def answered_def split: if_splits)
  with run show ?thesis by blast
qed

end
