(* ===== verification/Worker_Pool.thy ===== *)
theory Worker_Pool
  imports Sync_Node "HOL-Library.Multiset"
begin

text \<open>
  The worker pool (\<^verbatim>\<open>internal/pool/worker.go\<close>) as a step relation: goroutines are lists of program points, a step is one
  operation on shared state. Tasks are abstract, whether one fails is decided by the step. Three ghost fields record which tasks
  were accepted, which were taken, and which were run to their end and whether they failed.
\<close>

section \<open>State\<close>

text \<open>Where a worker is: waiting in its \<open>select\<close>, with a task before and while it runs, after it, after the error was counted, after
  \<open>activeJobs\<close> was lowered, or returned.\<close>
datatype 'a worker_at = Idle | Taken 'a | Running 'a | Ended 'a bool | Counted 'a | Leaving 'a | Returned

text \<open>How far the one execution of \<open>Stop\<close> is: not called, flag set, context cancelled, workers gone, lock held, channel closed.\<close>
datatype stop_at = Live | Flagged | Cancelled | Waited | Locked | Closed

record 'a pool =
  wp_workers :: "'a worker_at list"
  wp_taskQueue :: "'a list"
  wp_queueSize :: nat
  wp_done :: bool
  wp_stop :: stop_at
  wp_sending :: "'a multiset"
  wp_taskCount :: int
  wp_errorCount :: int
  wp_activeJobs :: int
  wp_panicked :: bool
  wp_accepted :: "'a multiset"
  wp_taken :: "'a multiset"
  wp_results :: "('a \<times> bool) multiset"

text \<open>The pool after \<open>NewWorkerPool\<close> and \<open>Start\<close>.\<close>
definition NewWorkerPool :: "nat \<Rightarrow> nat \<Rightarrow> 'a pool" where
  "NewWorkerPool workers queueSize =
     \<lparr>wp_workers = replicate workers Idle, wp_taskQueue = [], wp_queueSize = queueSize, wp_done = False, wp_stop = Live,
      wp_sending = {#}, wp_taskCount = 0, wp_errorCount = 0, wp_activeJobs = 0, wp_panicked = False, wp_accepted = {#}, wp_taken = {#}, wp_results = {#}\<rparr>"

definition wp_stopped :: "'a pool \<Rightarrow> bool" where
  "wp_stopped p \<longleftrightarrow> wp_stop p \<noteq> Live"

definition wp_closed :: "'a pool \<Rightarrow> bool" where
  "wp_closed p \<longleftrightarrow> wp_stop p = Closed"

abbreviation set_worker :: "nat \<Rightarrow> 'a worker_at \<Rightarrow> 'a pool \<Rightarrow> 'a pool" where
  "set_worker i a p \<equiv> p\<lparr>wp_workers := (wp_workers p)[i := a]\<rparr>"

section \<open>Steps\<close>

text \<open>\<open>worker\<close>: a cancelled context or a closed, empty channel ends it; otherwise it takes a task, which may come straight from a
  waiting \<open>Submit\<close>.\<close>
inductive worker_step :: "nat \<Rightarrow> 'a pool \<Rightarrow> 'a pool \<Rightarrow> bool" for i where
  w_done: "i < length (wp_workers p) \<Longrightarrow> wp_workers p ! i = Idle \<Longrightarrow> wp_done p \<Longrightarrow> worker_step i p (set_worker i Returned p)"
| w_closed: "i < length (wp_workers p) \<Longrightarrow> wp_workers p ! i = Idle \<Longrightarrow> wp_closed p \<Longrightarrow> wp_taskQueue p = [] \<Longrightarrow>
    worker_step i p (set_worker i Returned p)"
| w_take: "i < length (wp_workers p) \<Longrightarrow> wp_workers p ! i = Idle \<Longrightarrow> wp_taskQueue p = t # q \<Longrightarrow>
    worker_step i p ((set_worker i (Taken t) p)\<lparr>wp_taskQueue := q, wp_taken := add_mset t (wp_taken p)\<rparr>)"
| w_handoff: "i < length (wp_workers p) \<Longrightarrow> wp_workers p ! i = Idle \<Longrightarrow> wp_taskQueue p = [] \<Longrightarrow> t \<in># wp_sending p \<Longrightarrow> \<not> wp_closed p \<Longrightarrow>
    worker_step i p ((set_worker i (Taken t) p)\<lparr>wp_sending := wp_sending p - {#t#}, wp_accepted := add_mset t (wp_accepted p),
      wp_taken := add_mset t (wp_taken p)\<rparr>)"
| w_start: "i < length (wp_workers p) \<Longrightarrow> wp_workers p ! i = Taken t \<Longrightarrow>
    worker_step i p ((set_worker i (Running t) p)\<lparr>wp_activeJobs := wp_activeJobs p + 1\<rparr>)"
| w_end: "i < length (wp_workers p) \<Longrightarrow> wp_workers p ! i = Running t \<Longrightarrow> 
    worker_step i p ((set_worker i (Ended t failed) p)\<lparr>wp_results := add_mset (t, failed) (wp_results p)\<rparr>)"
| w_error: "i < length (wp_workers p) \<Longrightarrow> wp_workers p ! i = Ended t failed \<Longrightarrow>
    worker_step i p ((set_worker i (Counted t) p)\<lparr>wp_errorCount := wp_errorCount p + (if failed then 1 else 0)\<rparr>)"
| w_inactive: "i < length (wp_workers p) \<Longrightarrow> wp_workers p ! i = Counted t \<Longrightarrow>
    worker_step i p ((set_worker i (Leaving t) p)\<lparr>wp_activeJobs := wp_activeJobs p - 1\<rparr>)"
| w_count: "i < length (wp_workers p) \<Longrightarrow> wp_workers p ! i = Leaving t \<Longrightarrow>
    worker_step i p ((set_worker i Idle p)\<lparr>wp_taskCount := wp_taskCount p + 1\<rparr>)"

text \<open>\<open>Submit\<close>: under the read lock, which \<open>Stop\<close> takes exclusively while it closes the channel. A task that passed the check of
  \<open>stopped\<close> is sending: it is queued, given up when the context is done, or panics on a closed channel.\<close>
inductive submit_step :: "'a \<Rightarrow> 'a pool \<Rightarrow> 'a pool \<Rightarrow> bool" for t where
  s_refused: "wp_stopped p \<Longrightarrow> wp_stop p \<noteq> Locked \<Longrightarrow> submit_step t p p"
| s_enter: "\<not> wp_stopped p \<Longrightarrow> submit_step t p (p\<lparr>wp_sending := add_mset t (wp_sending p)\<rparr>)"
| s_send: "t \<in># wp_sending p \<Longrightarrow> \<not> wp_closed p \<Longrightarrow> length (wp_taskQueue p) < wp_queueSize p \<Longrightarrow>
    submit_step t p (p\<lparr>wp_sending := wp_sending p - {#t#}, wp_taskQueue := wp_taskQueue p @ [t], wp_accepted := add_mset t (wp_accepted p)\<rparr>)"
| s_done: "t \<in># wp_sending p \<Longrightarrow> wp_done p \<Longrightarrow> submit_step t p (p\<lparr>wp_sending := wp_sending p - {#t#}\<rparr>)"
| s_panic: "t \<in># wp_sending p \<Longrightarrow> wp_closed p \<Longrightarrow> submit_step t p (p\<lparr>wp_panicked := True\<rparr>)"

text \<open>\<open>Stop\<close>, executed once by \<open>stopOnce\<close>.\<close>
inductive stop_step :: "'a pool \<Rightarrow> 'a pool \<Rightarrow> bool" where
  st_flag: "wp_stop p = Live \<Longrightarrow> stop_step p (p\<lparr>wp_stop := Flagged\<rparr>)"
| st_cancel: "wp_stop p = Flagged \<Longrightarrow> stop_step p (p\<lparr>wp_stop := Cancelled, wp_done := True\<rparr>)"
| st_wait: "wp_stop p = Cancelled \<Longrightarrow> \<forall>a \<in> set (wp_workers p). a = Returned \<Longrightarrow> stop_step p (p\<lparr>wp_stop := Waited\<rparr>)"
| st_lock: "wp_stop p = Waited \<Longrightarrow> wp_sending p = {#} \<Longrightarrow> stop_step p (p\<lparr>wp_stop := Locked\<rparr>)"
| st_close: "wp_stop p = Locked \<Longrightarrow> stop_step p (p\<lparr>wp_stop := Closed\<rparr>)"

text \<open>All goroutines together; the context the pool was made with may be cancelled at any time.\<close>
inductive pool_step :: "'a pool \<Rightarrow> 'a pool \<Rightarrow> bool" where
  p_worker: "worker_step i p q \<Longrightarrow> pool_step p q"
| p_submit: "submit_step t p q \<Longrightarrow> pool_step p q"
| p_stop: "stop_step p q \<Longrightarrow> pool_step p q"
| p_cancel: "pool_step p (p\<lparr>wp_done := True\<rparr>)"

section \<open>Invariants\<close>

text \<open>The contribution of a worker to \<open>activeJobs\<close> and to the tasks taken but not counted.\<close>
fun is_active :: "'a worker_at \<Rightarrow> int" where
  "is_active (Running t) = 1"
| "is_active (Ended t e) = 1"
| "is_active (Counted t) = 1"
| "is_active _ = 0"

fun is_busy :: "'a worker_at \<Rightarrow> int" where
  "is_busy Idle = 0"
| "is_busy Returned = 0"
| "is_busy _ = 1"

text \<open>The task of a worker that has not run to its end, and its failure that is not counted yet.\<close>
fun unfinished :: "'a worker_at \<Rightarrow> 'a multiset" where
  "unfinished (Taken t) = {#t#}"
| "unfinished (Running t) = {#t#}"
| "unfinished _ = {#}"

fun uncounted :: "'a worker_at \<Rightarrow> int" where
  "uncounted (Ended t e) = (if e then 1 else 0)"
| "uncounted _ = 0"

definition failures :: "'a pool \<Rightarrow> int" where
  "failures p = int (size (filter_mset snd (wp_results p)))"

definition pool_inv :: "'a pool \<Rightarrow> bool" where
  "pool_inv p \<longleftrightarrow>
     \<not> wp_panicked p \<and> (wp_stop p \<in> {Locked, Closed} \<longrightarrow> wp_sending p = {#}) \<and>
     (wp_stop p \<in> {Waited, Locked, Closed} \<longrightarrow> (\<forall>a \<in> set (wp_workers p). a = Returned)) \<and>
     wp_accepted p = mset (wp_taskQueue p) + wp_taken p \<and>
     wp_taken p = image_mset fst (wp_results p) + (\<Sum>a\<leftarrow>wp_workers p. unfinished a) \<and>
     wp_taskCount p + (\<Sum>a\<leftarrow>wp_workers p. is_busy a) = int (size (wp_taken p)) \<and>
     wp_activeJobs p = (\<Sum>a\<leftarrow>wp_workers p. is_active a) \<and>
     wp_errorCount p + (\<Sum>a\<leftarrow>wp_workers p. uncounted a) = failures p \<and>
     length (wp_taskQueue p) \<le> wp_queueSize p"

lemma sum_update:
  fixes f :: "'b \<Rightarrow> int"
  shows "i < length xs \<Longrightarrow> (\<Sum>a\<leftarrow>xs[i := x]. f a) = (\<Sum>a\<leftarrow>xs. f a) - f (xs ! i) + f x"
  by (induction xs arbitrary: i) (auto split: nat.splits)

lemma msum_update:
  fixes f :: "'b \<Rightarrow> 'c multiset"
  shows "i < length xs \<Longrightarrow> (\<Sum>a\<leftarrow>xs[i := x]. f a) + f (xs ! i) = (\<Sum>a\<leftarrow>xs. f a) + f x"
  by (induction xs arbitrary: i) (auto split: nat.splits simp: ac_simps)

lemma msum_zero: "\<forall>a \<in> set xs. f a = ({#} :: 'c multiset) \<Longrightarrow> (\<Sum>a\<leftarrow>xs. f a) = {#}"
  by (induction xs) auto

lemma all_update: "i < length xs \<Longrightarrow> \<forall>a \<in> set xs. a = y \<Longrightarrow> xs ! i = y"
  by auto

lemma new_pool_inv: "pool_inv (NewWorkerPool n k)"
  using msum_zero [of "replicate n {#}" id]
  by (simp add: pool_inv_def NewWorkerPool_def sum_list_replicate failures_def)

lemma worker_step_inv: "worker_step i p q \<Longrightarrow> pool_inv p \<Longrightarrow> pool_inv q"
proof (induction rule: worker_step.induct)
  case (w_done p)
  then show ?case using msum_update [of i "wp_workers p" unfinished Returned]
    by (auto simp: pool_inv_def sum_update failures_def dest!: set_update_subset_insert [THEN subsetD])
next
  case (w_closed p)
  then show ?case using msum_update [of i "wp_workers p" unfinished Returned]
    by (auto simp: pool_inv_def sum_update failures_def dest!: set_update_subset_insert [THEN subsetD])
next
  case (w_take p t q)
  then show ?case using msum_update [of i "wp_workers p" unfinished "Taken t"]
    by (auto simp: pool_inv_def sum_update failures_def dest: all_update)
next
  case (w_handoff p t)
  then show ?case using msum_update [of i "wp_workers p" unfinished "Taken t"]
    by (auto simp: pool_inv_def sum_update failures_def wp_closed_def dest: all_update)
next
  case (w_start p t)
  then show ?case using msum_update [of i "wp_workers p" unfinished "Running t"]
    by (auto simp: pool_inv_def sum_update failures_def dest: all_update)
next
  case (w_end p t failed)
  then show ?case using msum_update [of i "wp_workers p" unfinished "Ended t failed"]
    by (auto simp: pool_inv_def sum_update failures_def dest: all_update)
next
  case (w_error p t failed)
  then show ?case using msum_update [of i "wp_workers p" unfinished "Counted t"]
    by (auto simp: pool_inv_def sum_update failures_def dest: all_update)
next
  case (w_inactive p t)
  then show ?case using msum_update [of i "wp_workers p" unfinished "Leaving t"]
    by (auto simp: pool_inv_def sum_update failures_def dest: all_update)
next
  case (w_count p t)
  then show ?case using msum_update [of i "wp_workers p" unfinished Idle]
    by (auto simp: pool_inv_def sum_update failures_def dest: all_update)
qed

lemma submit_step_inv: "submit_step t p q \<Longrightarrow> pool_inv p \<Longrightarrow> pool_inv q"
  by (induction rule: submit_step.induct) (auto simp: pool_inv_def wp_stopped_def wp_closed_def failures_def)

lemma stop_step_inv: "stop_step p q \<Longrightarrow> pool_inv p \<Longrightarrow> pool_inv q"
  by (induction rule: stop_step.induct) (auto simp: pool_inv_def failures_def)

lemma pool_step_inv: "pool_step p q \<Longrightarrow> pool_inv p \<Longrightarrow> pool_inv q"
proof (induction rule: pool_step.induct)
  case (p_cancel p)
  then show ?case by (simp add: pool_inv_def failures_def)
qed (auto intro: worker_step_inv submit_step_inv stop_step_inv)

lemma pool_reachable_inv:
  assumes "pool_step\<^sup>*\<^sup>* (NewWorkerPool n k) p"
  shows "pool_inv p"
  using assms by (induction rule: rtranclp_induct) (auto simp: new_pool_inv intro: pool_step_inv)

text \<open>A pool whose \<open>Stop\<close> has finished does nothing any more.\<close>
definition at_rest :: "'a pool \<Rightarrow> bool" where
  "at_rest p \<longleftrightarrow> wp_closed p \<and> wp_sending p = {#} \<and> (\<forall>a \<in> set (wp_workers p). a = Returned)"

lemma at_rest_step: "pool_step p q \<Longrightarrow> at_rest p \<Longrightarrow> at_rest q \<and> wp_taskQueue q = wp_taskQueue p \<and> wp_results q = wp_results p"
proof (induction rule: pool_step.induct)
  case (p_worker i p q)
  then show ?case by (cases rule: worker_step.cases) (auto simp: at_rest_def dest: all_update)
next
  case (p_submit t p q)
  then show ?case by (cases rule: submit_step.cases) (auto simp: at_rest_def wp_closed_def wp_stopped_def)
next
  case (p_stop p q)
  then show ?case by (cases rule: stop_step.cases) (auto simp: at_rest_def wp_closed_def)
qed (auto simp: at_rest_def wp_closed_def)

lemma at_rest_steps: "pool_step\<^sup>*\<^sup>* p q \<Longrightarrow> at_rest p \<Longrightarrow> at_rest q \<and> wp_taskQueue q = wp_taskQueue p \<and> wp_results q = wp_results p"
  by (induction rule: rtranclp_induct) (auto dest: at_rest_step)

text \<open>\<open>Stats\<close>\<close>
record PoolStats =
  ps_Workers :: nat
  ps_QueueSize :: nat
  ps_TaskCount :: int
  ps_ErrorCount :: int
  ps_ActiveJobs :: int

definition Stats :: "'a pool \<Rightarrow> PoolStats" where
  "Stats p = \<lparr>ps_Workers = length (wp_workers p), ps_QueueSize = length (wp_taskQueue p), ps_TaskCount = wp_taskCount p,
     ps_ErrorCount = wp_errorCount p, ps_ActiveJobs = wp_activeJobs p\<rparr>"

lemma sum_bounds:
  fixes f :: "'b \<Rightarrow> int"
  assumes "\<And>a. 0 \<le> f a \<and> f a \<le> 1"
  shows "0 \<le> (\<Sum>a\<leftarrow>xs. f a) \<and> (\<Sum>a\<leftarrow>xs. f a) \<le> int (length xs)"
proof (induction xs)
  case (Cons a xs)
  with assms [of a] show ?case by simp
qed simp

lemma sum_zero: "\<forall>a \<in> set xs. f a = (0::int) \<Longrightarrow> (\<Sum>a\<leftarrow>xs. f a) = 0"
  by (induction xs) auto

lemma active_bounds: "0 \<le> is_active a \<and> is_active a \<le> 1" "0 \<le> is_busy a \<and> is_busy a \<le> 1" "0 \<le> uncounted a \<and> uncounted a \<le> 1"
  by (cases a; simp)+

text \<open>C32: the pool is safe under every interleaving of \<open>Submit\<close>, the workers, \<open>Stop\<close> and the cancellation of its context. No
  \<open>Submit\<close> sends on the closed channel; every task it accepts is waiting in the queue or was taken by exactly one
  worker, and only taken tasks are run; the queue keeps its bound; \<open>TaskCount\<close> and \<open>ErrorCount\<close> are the numbers of tasks taken and
  of tasks that failed, up to those in the workers' hands. When \<open>Stop\<close> has finished, no worker is running, no \<open>Submit\<close> is
  waiting, every task that was taken has been run to its end, both counters are exact, and the tasks still in the queue are
  never run, whatever is called afterwards.\<close>
theorem pool_safe:
  assumes "pool_step\<^sup>*\<^sup>* (NewWorkerPool n k) p"
  shows "\<not> wp_panicked p \<and> wp_accepted p = mset (wp_taskQueue p) + wp_taken p \<and> image_mset fst (wp_results p) \<subseteq># wp_taken p \<and>
    ps_QueueSize (Stats p) \<le> wp_queueSize p \<and>
    0 \<le> ps_ActiveJobs (Stats p) \<and> ps_ActiveJobs (Stats p) \<le> int (ps_Workers (Stats p)) \<and>
    int (size (wp_taken p)) - int (ps_Workers (Stats p)) \<le> ps_TaskCount (Stats p) \<and> ps_TaskCount (Stats p) \<le> int (size (wp_taken p)) \<and>
    failures p - int (ps_Workers (Stats p)) \<le> ps_ErrorCount (Stats p) \<and> ps_ErrorCount (Stats p) \<le> failures p \<and>
    (wp_closed p \<longrightarrow> wp_sending p = {#} \<and> (\<forall>a \<in> set (wp_workers p). a = Returned) \<and> ps_ActiveJobs (Stats p) = 0 \<and>
       image_mset fst (wp_results p) = wp_taken p \<and>
       ps_TaskCount (Stats p) = int (size (wp_taken p)) \<and> ps_ErrorCount (Stats p) = failures p \<and>
       (\<forall>q. pool_step\<^sup>*\<^sup>* p q \<longrightarrow> wp_taskQueue q = wp_taskQueue p \<and> wp_results q = wp_results p))"
proof -
  note inv = pool_reachable_inv [OF assms, unfolded pool_inv_def]
  have bounds: "0 \<le> (\<Sum>a\<leftarrow>wp_workers p. f a) \<and> (\<Sum>a\<leftarrow>wp_workers p. f a) \<le> int (length (wp_workers p))"
    if "f \<in> {is_active, is_busy, uncounted}" for f
    by (rule sum_bounds) (use that active_bounds in auto)
  have returned: "wp_closed p \<longrightarrow> wp_sending p = {#} \<and> (\<forall>a \<in> set (wp_workers p). a = Returned)" using inv by (auto simp: wp_closed_def)
  then have closed: "wp_closed p \<longrightarrow> (\<Sum>a\<leftarrow>wp_workers p. is_active a) = 0 \<and> (\<Sum>a\<leftarrow>wp_workers p. is_busy a) = 0 \<and>
      (\<Sum>a\<leftarrow>wp_workers p. uncounted a) = 0 \<and> (\<Sum>a\<leftarrow>wp_workers p. unfinished a) = {#}"
    by (intro impI conjI sum_zero msum_zero) auto
  have rest: "wp_closed p \<longrightarrow> (\<forall>q. pool_step\<^sup>*\<^sup>* p q \<longrightarrow> wp_taskQueue q = wp_taskQueue p \<and> wp_results q = wp_results p)"
    using returned at_rest_steps unfolding at_rest_def by blast
  have stats: "ps_Workers (Stats p) = length (wp_workers p)" "ps_QueueSize (Stats p) = length (wp_taskQueue p)"
    "ps_TaskCount (Stats p) = wp_taskCount p" "ps_ErrorCount (Stats p) = wp_errorCount p" "ps_ActiveJobs (Stats p) = wp_activeJobs p"
    by (simp_all add: Stats_def)
  have tasks: "\<not> wp_panicked p" "wp_accepted p = mset (wp_taskQueue p) + wp_taken p" "length (wp_taskQueue p) \<le> wp_queueSize p"
    and taken: "wp_taken p = image_mset fst (wp_results p) + (\<Sum>a\<leftarrow>wp_workers p. unfinished a)"
    and counts: "wp_taskCount p + (\<Sum>a\<leftarrow>wp_workers p. is_busy a) = int (size (wp_taken p))"
      "wp_activeJobs p = (\<Sum>a\<leftarrow>wp_workers p. is_active a)" "wp_errorCount p + (\<Sum>a\<leftarrow>wp_workers p. uncounted a) = failures p"
    using inv by blast+
  have "image_mset fst (wp_results p) \<subseteq># wp_taken p" unfolding taken by simp
  moreover have "wp_closed p \<longrightarrow> image_mset fst (wp_results p) = wp_taken p" using closed taken by simp
  moreover have "wp_closed p \<longrightarrow> wp_activeJobs p = 0 \<and> wp_taskCount p = int (size (wp_taken p)) \<and> wp_errorCount p = failures p"
    using closed counts by (cases "wp_closed p") auto
  moreover have "0 \<le> wp_activeJobs p \<and> wp_activeJobs p \<le> int (length (wp_workers p))" using counts(2) bounds [of is_active] by simp
  moreover have "int (size (wp_taken p)) - int (length (wp_workers p)) \<le> wp_taskCount p \<and> wp_taskCount p \<le> int (size (wp_taken p))"
    using counts(1) bounds [of is_busy] by simp
  moreover have "failures p - int (length (wp_workers p)) \<le> wp_errorCount p \<and> wp_errorCount p \<le> failures p"
    using counts(3) bounds [of uncounted] by simp
  ultimately show ?thesis unfolding stats using tasks returned rest by blast
qed

text \<open>A pool of one worker that takes a task, which fails.\<close>
lemma pool_safe_witness:
  "\<exists>p. pool_step\<^sup>*\<^sup>* (NewWorkerPool 1 1) p \<and> wp_results p = {#(''job'', True)#} \<and> image_mset fst (wp_results p) \<subseteq># wp_taken p \<and>
     ps_ErrorCount (Stats p) = 1 \<and> ps_ErrorCount (Stats p) \<le> failures p"
proof -
  define p0 :: "string pool" where "p0 = NewWorkerPool 1 1"
  define p1 where "p1 = p0\<lparr>wp_sending := add_mset ''job'' (wp_sending p0)\<rparr>"
  define p2 where "p2 = p1\<lparr>wp_sending := wp_sending p1 - {#''job''#}, wp_taskQueue := wp_taskQueue p1 @ [''job''], wp_accepted := add_mset ''job'' (wp_accepted p1)\<rparr>"
  define p3 where "p3 = (set_worker 0 (Taken ''job'') p2)\<lparr>wp_taskQueue := [], wp_taken := add_mset ''job'' (wp_taken p2)\<rparr>"
  define p4 where "p4 = (set_worker 0 (Running ''job'') p3)\<lparr>wp_activeJobs := wp_activeJobs p3 + 1\<rparr>"
  define p5 where "p5 = (set_worker 0 (Ended ''job'' True) p4)\<lparr>wp_results := add_mset (''job'', True) (wp_results p4)\<rparr>"
  define p6 where "p6 = (set_worker 0 (Counted ''job'') p5)\<lparr>wp_errorCount := wp_errorCount p5 + (if True then 1 else 0)\<rparr>"
  note defs = p6_def p5_def p4_def p3_def p2_def p1_def p0_def NewWorkerPool_def
  have "pool_step p0 p1" unfolding p1_def by (rule p_submit, rule s_enter) (simp add: defs wp_stopped_def)
  moreover have "pool_step p1 p2" unfolding p2_def by (rule p_submit, rule s_send) (simp_all add: defs wp_closed_def)
  moreover have "pool_step p2 p3" unfolding p3_def by (rule p_worker, rule w_take) (simp_all add: defs)
  moreover have "pool_step p3 p4" unfolding p4_def by (rule p_worker, rule w_start) (simp_all add: defs)
  moreover have "pool_step p4 p5" unfolding p5_def by (rule p_worker, rule w_end) (simp_all add: defs)
  moreover have "pool_step p5 p6" unfolding p6_def by (rule p_worker, rule w_error) (simp_all add: defs)
  ultimately have "pool_step\<^sup>*\<^sup>* (NewWorkerPool 1 1) p6" unfolding p0_def by (meson converse_rtranclp_into_rtranclp rtranclp.rtrancl_refl)
  moreover have "wp_results p6 = {#(''job'', True)#}" "ps_ErrorCount (Stats p6) = 1" by (simp_all add: defs Stats_def)
  ultimately show ?thesis using pool_safe [of 1 1 p6] by blast
qed

end
