(* ===== verification/App_Errors.thy ===== *)
theory App_Errors
  imports Sync_Node
begin

text \<open>
  Package \<^verbatim>\<open>internal/errors\<close>: errors with a code, their chains and the guards against panics. The stack trace of an error comes
  from the runtime and is an argument.
\<close>

section \<open>Error chains\<close>

text \<open>A text, a text around another error (\<open>%w\<close>), or an \<open>AppError\<close> with code, message, operation, path, cause and stack.\<close>
datatype goerror =
    PlainError string
  | WrappedError string goerror
  | AppError (ae_Code: string) (ae_Message: string) (ae_Op: string) (ae_Path: string) (ae_Err: "goerror option") (ae_Stack: "string list")

definition ErrCodeInternal :: string where "ErrCodeInternal = ''internal''"
definition ErrCodeNotFound :: string where "ErrCodeNotFound = ''not_found''"
definition ErrCodeInvalid :: string where "ErrCodeInvalid = ''invalid''"
definition ErrCodeTimeout :: string where "ErrCodeTimeout = ''timeout''"
definition ErrCodePermission :: string where "ErrCodePermission = ''permission''"
definition ErrCodeConflict :: string where "ErrCodeConflict = ''conflict''"
definition ErrCodeRateLimit :: string where "ErrCodeRateLimit = ''rate_limit''"
definition ErrCodeUnavailable :: string where "ErrCodeUnavailable = ''unavailable''"

fun Error_text :: "goerror \<Rightarrow> string" where
  "Error_text (PlainError m) = m"
| "Error_text (WrappedError m e) = m @ Error_text e"
| "Error_text (AppError code msg op path (Some e) st) = op @ '': '' @ msg @ '': '' @ Error_text e"
| "Error_text (AppError code msg op path None st) = op @ '': '' @ msg"

text \<open>\<open>Unwrap\<close>, which \<open>fmt.Errorf\<close> with \<open>%w\<close> has too.\<close>
fun Unwrap :: "goerror \<Rightarrow> goerror option" where
  "Unwrap (PlainError m) = None"
| "Unwrap (WrappedError m e) = Some e"
| "Unwrap (AppError code msg op path e st) = e"

text \<open>The method \<open>Is\<close>, by which \<open>errors.Is\<close> compares with another \<open>AppError\<close>.\<close>
fun ae_Is :: "goerror \<Rightarrow> goerror \<Rightarrow> bool" where
  "ae_Is (AppError code msg op path e st) (AppError code' msg' op' path' e' st') = (code = code')"
| "ae_Is _ _ = False"

text \<open>\<open>As\<close>: the first \<open>AppError\<close> of the chain.\<close>
fun As_AppError :: "goerror \<Rightarrow> goerror option" where
  "As_AppError (PlainError m) = None"
| "As_AppError (WrappedError m e) = As_AppError e"
| "As_AppError (AppError code msg op path e st) = Some (AppError code msg op path e st)"

lemma As_AppError_smaller: "As_AppError e = Some a \<Longrightarrow> Unwrap a = Some u \<Longrightarrow> size u < size e"
  by (induction e rule: As_AppError.induct) auto

lemma As_AppError_is: "As_AppError e = Some a \<Longrightarrow> \<exists>code msg op path u st. a = AppError code msg op path u st"
  by (induction e rule: As_AppError.induct) auto

function IsCode :: "goerror option \<Rightarrow> string \<Rightarrow> bool" where
  "IsCode None code = False"
| "IsCode (Some err) code =
     (case As_AppError err of
        None \<Rightarrow> False
      | Some appErr \<Rightarrow> if ae_Code appErr = code then True else IsCode (Unwrap appErr) code)"
  by pat_completeness auto
termination
proof (relation "measure (\<lambda>(e, c). case e of None \<Rightarrow> 0 | Some e \<Rightarrow> Suc (size e))")
  fix err code a assume "As_AppError err = Some a"
  then show "((Unwrap a, code), Some err, code) \<in> measure (\<lambda>(e, c). case e of None \<Rightarrow> 0 | Some e \<Rightarrow> Suc (size e))"
    using As_AppError_smaller [of err a] by (auto split: option.splits)
qed simp

definition New_error :: "string list \<Rightarrow> string \<Rightarrow> string \<Rightarrow> string \<Rightarrow> goerror" where
  "New_error stack code op msg = AppError code msg op [] None stack"

text \<open>\<open>Wrap\<close> takes the path over from an error that is an \<open>AppError\<close> itself.\<close>
definition Wrap :: "string list \<Rightarrow> goerror option \<Rightarrow> string \<Rightarrow> string \<Rightarrow> string \<Rightarrow> goerror option" where
  "Wrap stack err code op msg =
     (case err of
        None \<Rightarrow> None
      | Some e \<Rightarrow> Some (AppError code msg op (case e of AppError _ _ _ path _ _ \<Rightarrow> path | _ \<Rightarrow> []) (Some e) stack))"

fun WithPath :: "goerror \<Rightarrow> string \<Rightarrow> goerror" where
  "WithPath (AppError code msg op p e st) path = AppError code msg op path e st"
| "WithPath e path = e"

definition HTTPStatus :: "goerror \<Rightarrow> nat" where
  "HTTPStatus e =
     (let code = ae_Code e in
      if code = ErrCodeNotFound then 404
      else if code = ErrCodeInvalid then 400
      else if code = ErrCodePermission then 403
      else if code = ErrCodeConflict then 409
      else if code = ErrCodeRateLimit then 429
      else if code = ErrCodeUnavailable then 503
      else if code = ErrCodeTimeout then 408
      else 500)"

section \<open>Panics\<close>

text \<open>How a function ends, with the state it leaves.\<close>
datatype 'a ending = Returns 'a | Panics string

definition SafeExecute :: "string list \<Rightarrow> ('w \<Rightarrow> goerror option ending \<times> 'w) \<Rightarrow> 'w \<Rightarrow> goerror option \<times> 'w" where
  "SafeExecute stack fn w =
     (case fn w of
        (Returns err, w1) \<Rightarrow> (err, w1)
      | (Panics r, w1) \<Rightarrow> (Some (New_error stack ErrCodeInternal ''SafeExecute'' (''panic recovered: '' @ r)), w1))"

definition SafeGo :: "('w \<Rightarrow> unit ending \<times> 'w) \<Rightarrow> 'w \<Rightarrow> 'w" where
  "SafeGo fn w = snd (fn w)"

text \<open>What has been written of a response: its status, once it is written, and its body. \<open>http.Error\<close> after a status has no
  effect on it.\<close>
definition RecoverMiddleware :: "('q \<Rightarrow> 'w \<Rightarrow> unit ending \<times> (nat option \<times> string) \<times> 'w) \<Rightarrow> 'q \<Rightarrow> 'w \<Rightarrow> (nat option \<times> string) \<times> 'w" where
  "RecoverMiddleware nxt req w =
     (case nxt req w of
        (Returns _, resp, w1) \<Rightarrow> (resp, w1)
      | (Panics _, (status, body), w1) \<Rightarrow>
          ((case status of None \<Rightarrow> Some 500 | Some s \<Rightarrow> Some s, body @ ''Internal Server Error'' @ [CHR 0x0A]), w1))"

section \<open>Codes of a chain\<close>

text \<open>The codes of all \<open>AppError\<close>s of a chain, the outermost first.\<close>
fun codes :: "goerror \<Rightarrow> string list" where
  "codes (PlainError m) = []"
| "codes (WrappedError m e) = codes e"
| "codes (AppError code msg op path None st) = [code]"
| "codes (AppError code msg op path (Some e) st) = code # codes e"

lemma As_AppError_codes:
  "codes e = (case As_AppError e of None \<Rightarrow> [] | Some a \<Rightarrow> ae_Code a # (case Unwrap a of None \<Rightarrow> [] | Some u \<Rightarrow> codes u))"
proof (induction e rule: As_AppError.induct)
  case (3 code msg op path e st)
  then show ?case by (cases e) auto
qed auto

text \<open>\<open>IsCode\<close> ends on every chain and finds exactly the codes in it: also behind other errors with \<open>%w\<close>, and every \<open>Wrap\<close> adds
  its own code to those of the cause.\<close>
theorem IsCode_exact:
  "IsCode (Some err) code = (code \<in> set (codes err)) \<and>
   (\<exists>e. Wrap stack (Some err) code' op msg = Some e \<and> IsCode (Some e) code = (code = code' \<or> IsCode (Some err) code)) \<and>
   IsCode (Some (WrappedError m err)) code = IsCode (Some err) code"
proof -
  have exact: "IsCode e c = (c \<in> (case e of None \<Rightarrow> {} | Some x \<Rightarrow> set (codes x)))" for e c
  proof (induction e c rule: IsCode.induct)
    case (2 err code)
    show ?case
    proof (cases "As_AppError err")
      case (Some a)
      with 2 [OF Some] As_AppError_codes [of err] show ?thesis by (auto split: option.splits)
    qed (use As_AppError_codes [of err] in simp)
  qed simp
  show ?thesis by (auto simp: exact Wrap_def simp del: IsCode.simps)
qed

lemma HTTPStatus_error: "HTTPStatus e \<in> {400, 403, 404, 408, 409, 429, 500, 503}"
  by (simp add: HTTPStatus_def Let_def)

text \<open>The path of an error survives \<open>Wrap\<close> but not \<open>fmt.Errorf\<close> in between.\<close>
lemma Wrap_path:
  "map_option ae_Path (Wrap stack (Some (AppError c m op path e st)) code op' msg) = Some path"
  "map_option ae_Path (Wrap stack (Some (WrappedError t (AppError c m op path e st))) code op' msg) = Some []"
  by (simp_all add: Wrap_def)

end
