(* ===== verification/Pipeline_Stages.thy ===== *)
theory Pipeline_Stages
  imports Sync_Node "HOL-Library.Multiset"
begin

text \<open>
  Package \<^verbatim>\<open>internal/pipeline\<close>. A value of type \<open>any\<close> is the name of its type with its content, so that the type assertions of
  the code can be evaluated. The stages are functions without a state.
\<close>

section \<open>Stages in a row\<close>

type_synonym 'v anyval = "string \<times> 'v"

text \<open>A stage with the types it is instantiated with; its function gets values of the first and returns values of the second.\<close>
record 'v Stage =
  sg_I :: string
  sg_O :: string
  sg_fn :: "'v \<Rightarrow> gerr + 'v"

definition Process :: "'v Stage \<Rightarrow> 'v \<Rightarrow> gerr + 'v anyval" where
  "Process s x = (case sg_fn s x of Inl err \<Rightarrow> Inl err | Inr y \<Rightarrow> Inr (sg_O s, y))"

record 'v Pipeline =
  pl_I :: string
  pl_O :: string
  pl_stages :: "('v anyval \<Rightarrow> gerr + 'v anyval) list"

definition New_Pipeline :: "string \<Rightarrow> string \<Rightarrow> 'v Pipeline" where
  "New_Pipeline i o' = \<lparr>pl_I = i, pl_O = o', pl_stages = []\<rparr>"

text \<open>\<open>Add\<close>: the compiler accepts only stages whose input type is that of the pipeline.\<close>
definition Add :: "'v Pipeline \<Rightarrow> 'v Stage \<Rightarrow> 'v Pipeline" where
  "Add p stage =
     \<lparr>pl_I = pl_I p, pl_O = sg_O stage,
      pl_stages = pl_stages p @ [\<lambda>input. if fst input = pl_I p then Process stage (snd input)
                                         else Inl (Errorf ''type mismatch in pipeline stage'')]\<rparr>"

text \<open>The loop of \<open>Execute\<close>; \<open>ctx i\<close> is the context's error before stage \<open>i\<close>.\<close>
fun run_stages :: "(nat \<Rightarrow> gerr option) \<Rightarrow> nat \<Rightarrow> ('v anyval \<Rightarrow> gerr + 'v anyval) list \<Rightarrow> 'v anyval \<Rightarrow> gerr + 'v anyval" where
  "run_stages ctx i [] current = Inr current"
| "run_stages ctx i (stage # stages) current =
     (case ctx i of
        Some err \<Rightarrow> Inl err
      | None \<Rightarrow> (case stage current of Inl err \<Rightarrow> Inl err | Inr result \<Rightarrow> run_stages ctx (Suc i) stages result))"

definition pl_Execute :: "(nat \<Rightarrow> gerr option) \<Rightarrow> 'v Pipeline \<Rightarrow> 'v \<Rightarrow> gerr + 'v" where
  "pl_Execute ctx p input =
     (case run_stages ctx 0 (pl_stages p) (pl_I p, input) of
        Inl err \<Rightarrow> Inl err
      | Inr current \<Rightarrow> if fst current = pl_O p then Inr (snd current) else Inl (Errorf ''final type mismatch in pipeline''))"

section \<open>Batches\<close>

record 'v ParallelPipeline =
  pp_I :: string
  pp_O :: string
  pp_stages :: "('v \<Rightarrow> gerr + 'v) list"
  pp_workers :: nat

definition NewParallel :: "string \<Rightarrow> string \<Rightarrow> nat \<Rightarrow> 'v ParallelPipeline" where
  "NewParallel i o' workers = \<lparr>pp_I = i, pp_O = o', pp_stages = [], pp_workers = workers\<rparr>"

definition AddStage :: "'v ParallelPipeline \<Rightarrow> ('v \<Rightarrow> gerr + 'v) \<Rightarrow> 'v ParallelPipeline" where
  "AddStage p stage = p\<lparr>pp_stages := pp_stages p @ [stage]\<rparr>"

text \<open>One input in a worker, without cancellation: \<open>break\<close> leaves the \<open>select\<close> only, so that the stages after a failed one still run,
  on the last good value. The result is the current value when no stage failed, and the values the stages were called
  with.\<close>
fun item_loop :: "string \<Rightarrow> string \<Rightarrow> ('v \<Rightarrow> gerr + 'v) list \<Rightarrow> 'v anyval \<Rightarrow> bool \<Rightarrow> 'v option \<times> 'v list" where
  "item_loop i o' [] current success = (if success then Some (snd current) else None, [])"
| "item_loop i o' (stage # stages) current success =
     (if fst current \<noteq> i then item_loop i o' stages current False
      else
        let (res, calls) = (case stage (snd current) of
               Inl err \<Rightarrow> item_loop i o' stages current False
             | Inr y \<Rightarrow> item_loop i o' stages (o', y) success)
        in (res, snd current # calls))"

definition batch_item :: "'v ParallelPipeline \<Rightarrow> 'v \<Rightarrow> 'v option" where
  "batch_item p x = fst (item_loop (pp_I p) (pp_O p) (pp_stages p) (pp_I p, x) True)"

text \<open>A batch that is being worked on: inputs no worker has yet, inputs in the hands of a worker, and results in their order.\<close>
record 'v batch =
  bt_inputs :: "'v list"
  bt_working :: "'v multiset"
  bt_results :: "'v list"

inductive batch_step :: "'v ParallelPipeline \<Rightarrow> 'v batch \<Rightarrow> 'v batch \<Rightarrow> bool" for p where
  bt_take: "bt_inputs b = x # xs \<Longrightarrow> size (bt_working b) < pp_workers p \<Longrightarrow>
    batch_step p b (b\<lparr>bt_inputs := xs, bt_working := add_mset x (bt_working b)\<rparr>)"
| bt_finish: "x \<in># bt_working b \<Longrightarrow>
    batch_step p b (b\<lparr>bt_working := bt_working b - {#x#}, bt_results := bt_results b @ (case batch_item p x of Some y \<Rightarrow> [y] | None \<Rightarrow> [])\<rparr>)"

text \<open>\<open>ExecuteBatch\<close> returns when nothing is left to do for its workers; without workers that is at once.\<close>
definition ExecuteBatch :: "'v ParallelPipeline \<Rightarrow> 'v list \<Rightarrow> 'v list \<Rightarrow> bool" where
  "ExecuteBatch p inputs results \<longleftrightarrow>
     (if pp_stages p = [] then results = []
      else \<exists>b. (batch_step p)\<^sup>*\<^sup>* \<lparr>bt_inputs = inputs, bt_working = {#}, bt_results = []\<rparr> b \<and>
             bt_working b = {#} \<and> (pp_workers p = 0 \<or> bt_inputs b = []) \<and> results = bt_results b)"

section \<open>Composition\<close>

text \<open>The stages one after the other, up to the first error.\<close>
fun compose :: "('v \<Rightarrow> gerr + 'v) list \<Rightarrow> 'v \<Rightarrow> gerr + 'v" where
  "compose [] x = Inr x"
| "compose (f # fs) x = (case f x of Inl err \<Rightarrow> Inl err | Inr y \<Rightarrow> compose fs y)"

lemma run_stages_same:
  "run_stages (\<lambda>_. None) i (map (\<lambda>f input. if fst input = t then (case f (snd input) of Inl err \<Rightarrow> Inl err | Inr y \<Rightarrow> Inr (t, y))
      else Inl (Errorf ''type mismatch in pipeline stage'')) fs) (t, x) =
   (case compose fs x of Inl err \<Rightarrow> Inl err | Inr y \<Rightarrow> Inr (t, y))"
  by (induction fs arbitrary: i x) (auto split: sum.splits)

lemma add_stages:
  "pl_I (foldl Add p ss) = pl_I p \<and> pl_stages (foldl Add p ss) = pl_stages p @
     map (\<lambda>s input. if fst input = pl_I p then Process s (snd input) else Inl (Errorf ''type mismatch in pipeline stage'')) ss \<and>
   pl_O (foldl Add p ss) = (if ss = [] then pl_O p else sg_O (last ss))"
  by (induction ss arbitrary: p) (auto simp: Add_def)

text \<open>The values of the items when all went well.\<close>
lemma item_loop_failed: "fst (item_loop i o' fs current False) = None"
  by (induction fs arbitrary: current) (auto simp: case_prod_beta split: sum.splits)

lemma item_loop_same: "fst (item_loop t t fs (t, x) True) = (case compose fs x of Inl _ \<Rightarrow> None | Inr y \<Rightarrow> Some y)"
proof (induction fs arbitrary: x)
  case (Cons f fs)
  show ?case
    using Cons item_loop_failed [of t t fs "(t, x)"] by (cases "f x") (simp_all add: case_prod_beta)
qed simp

definition results_of :: "'v ParallelPipeline \<Rightarrow> 'v list \<Rightarrow> 'v multiset" where
  "results_of p xs = mset (List.map_filter (batch_item p) xs)"

definition outstanding :: "'v ParallelPipeline \<Rightarrow> 'v batch \<Rightarrow> 'v multiset" where
  "outstanding p b = mset (bt_results b) + results_of p (bt_inputs b) +
     (\<Sum>x \<in># bt_working b. case batch_item p x of Some y \<Rightarrow> {#y#} | None \<Rightarrow> {#})"

lemma batch_step_outstanding: "batch_step p b c \<Longrightarrow> outstanding p c = outstanding p b"
proof (induction rule: batch_step.induct)
  case (bt_take b x xs)
  then show ?case by (simp add: outstanding_def results_of_def List.map_filter_simps split: option.splits)
next
  case (bt_finish x b)
  then obtain m where "bt_working b = add_mset x m" by (metis mset_add)
  then show ?case by (simp add: outstanding_def split: option.splits)
qed

lemma batch_run_outstanding: "(batch_step p)\<^sup>*\<^sup>* b c \<Longrightarrow> outstanding p c = outstanding p b"
  by (induction rule: rtranclp_induct) (auto simp: batch_step_outstanding)

text \<open>Every batch can be finished when there are workers.\<close>
lemma batch_finishes:
  assumes "0 < pp_workers p"
  shows "\<exists>c. (batch_step p)\<^sup>*\<^sup>* \<lparr>bt_inputs = xs, bt_working = {#}, bt_results = rs\<rparr> c \<and> bt_working c = {#} \<and> bt_inputs c = []"
proof (induction xs arbitrary: rs)
  case (Cons x xs)
  let ?b = "\<lparr>bt_inputs = x # xs, bt_working = {#}, bt_results = rs\<rparr>"
  let ?b1 = "\<lparr>bt_inputs = xs, bt_working = {#x#}, bt_results = rs\<rparr>"
  let ?b2 = "\<lparr>bt_inputs = xs, bt_working = {#}, bt_results = rs @ (case batch_item p x of Some y \<Rightarrow> [y] | None \<Rightarrow> [])\<rparr>"
  have "batch_step p ?b ?b1" using bt_take [of ?b x xs p] assms by simp
  moreover have "batch_step p ?b1 ?b2" using bt_finish [of x ?b1 p] by simp
  ultimately show ?case using Cons.IH by (meson converse_rtranclp_into_rtranclp)
qed auto

text \<open>a batch gives the results of its inputs, each once. With at least one worker and stages that keep the type, \<open>ExecuteBatch\<close>
  can always finish, and however the workers interleave its results are those of the inputs on which no stage fails, as
  many times as they occur, in some order; inputs on which a stage fails are left out without an error.\<close>
theorem batch_results:
  assumes "0 < pp_workers p" and "pp_stages p \<noteq> []" and "pp_O p = pp_I p"
  shows "(\<exists>rs. ExecuteBatch p xs rs) \<and>
    (\<forall>rs. ExecuteBatch p xs rs \<longrightarrow> mset rs = mset (List.map_filter (\<lambda>x. case compose (pp_stages p) x of Inl _ \<Rightarrow> None | Inr y \<Rightarrow> Some y) xs))"
proof -
  have item: "batch_item p = (\<lambda>x. case compose (pp_stages p) x of Inl _ \<Rightarrow> None | Inr y \<Rightarrow> Some y)"
    using assms(3) by (auto simp: batch_item_def item_loop_same)
  have "mset rs = mset (List.map_filter (batch_item p) xs)" if "ExecuteBatch p xs rs" for rs
  proof -
    from that assms(1,2) obtain b where run: "(batch_step p)\<^sup>*\<^sup>* \<lparr>bt_inputs = xs, bt_working = {#}, bt_results = []\<rparr> b"
      and b: "bt_working b = {#}" "bt_inputs b = []" "rs = bt_results b" by (auto simp: ExecuteBatch_def)
    from batch_run_outstanding [OF run] b show ?thesis
      by (simp add: outstanding_def results_of_def List.map_filter_simps)
  qed
  moreover obtain c where "(batch_step p)\<^sup>*\<^sup>* \<lparr>bt_inputs = xs, bt_working = {#}, bt_results = []\<rparr> c" "bt_working c = {#}" "bt_inputs c = []"
    using batch_finishes [OF assms(1)] by blast
  then have "ExecuteBatch p xs (bt_results c)" using assms(2) by (auto simp: ExecuteBatch_def)
  ultimately show ?thesis unfolding item by blast
qed

lemma batch_results_witness:
  "\<exists>rs. ExecuteBatch \<lparr>pp_I = ''int'', pp_O = ''int'', pp_stages = [\<lambda>x. if x < 0 then Inl (Errorf ''negative'') else Inr (x + 1 :: int)], pp_workers = 2\<rparr> [1, -1, 1] rs \<and>
     mset rs = {#2, 2#}"
  using batch_results [of "\<lparr>pp_I = ''int'', pp_O = ''int'', pp_stages = [\<lambda>x. if x < 0 then Inl (Errorf ''negative'') else Inr (x + 1 :: int)], pp_workers = 2\<rparr>" "[1, -1, 1]"]
  by (auto simp: List.map_filter_simps)

text \<open>Without cancellation a pipeline whose stages keep the type is the composition of their functions.\<close>
theorem pipeline_composes:
  assumes "\<forall>s \<in> set ss. sg_O s = t" and "p = foldl Add (New_Pipeline t t) ss"
  shows "pl_Execute (\<lambda>_. None) p x = compose (map sg_fn ss) x"
proof -
  have stages: "pl_stages p = map (\<lambda>f input. if fst input = t then (case f (snd input) of Inl err \<Rightarrow> Inl err | Inr y \<Rightarrow> Inr (t, y))
      else Inl (Errorf ''type mismatch in pipeline stage'')) (map sg_fn ss)" and ends: "pl_I p = t" "pl_O p = t"
    using assms add_stages [of "New_Pipeline t t" ss] by (auto simp: New_Pipeline_def Process_def fun_eq_iff split: if_splits)
  show ?thesis unfolding pl_Execute_def stages ends run_stages_same by (simp split: sum.splits)
qed

text \<open>A stage that changes the type can only be the last one: \<open>Add\<close> wants stages that take the pipeline's input type, so that the
  stage after it fails on every input.\<close>
lemma pipeline_type_gap:
  assumes "sg_O s1 \<noteq> t" and "p = Add (Add (New_Pipeline t (sg_O s1)) s1) s2" and "sg_fn s1 x = Inr y"
  shows "pl_Execute (\<lambda>_. None) p x = Inl (Errorf ''type mismatch in pipeline stage'')"
  using assms by (simp add: Add_def New_Pipeline_def pl_Execute_def Process_def)

text \<open>After a failed stage the next ones are called all the same.\<close>
lemma failed_item_goes_on:
  "item_loop ''int'' ''int'' [\<lambda>x. Inl (Errorf ''no''), \<lambda>x. Inr (x + 1), Inr] (''int'', 1 :: int) True = (None, [1, 1, 2])"
  by code_simp

end
