(* ===== verification/File_Tables.thy ===== *)
theory File_Tables
  imports Pg_Store Entities "HOL-Library.Multiset"
begin

text \<open>
  The tables \<open>files\<close> and \<open>file_versions\<close> of the migrations 0001 and 0002, their constraints and triggers, and single
  statements on them, as the repositories of \<^verbatim>\<open>internal/repository\<close> use them. The server is a parameter: whether the \<open>i\<close>-th
  statement reaches it, its clock, the texts it takes for a column of a given width, its \<open>ILIKE\<close>, and the order in which it
  reads rows, which \<open>ORDER BY\<close> leaves open between rows that agree in the sort key. A statement that fails changes no
  row.
\<close>

section \<open>Server and tables\<close>

record FileRow =
  fl_ID :: int
  fl_UserID :: int
  fl_FilePath :: string
  fl_FileName :: string
  fl_FileSizeBytes :: int
  fl_MimeType :: "string option"
  fl_ChecksumMD5 :: "string option"
  fl_ChecksumSHA256 :: "string option"
  fl_IsDeleted :: bool
  fl_CurrentVersionID :: "int option"
  fl_CreatedAt :: gotime
  fl_UpdatedAt :: gotime

record FileVersion =
  fv_ID :: int
  fv_FileID :: int
  fv_VersionNumber :: int
  fv_StorageNodeID :: "int option"
  fv_FileSizeBytes :: int
  fv_ChecksumSHA256 :: string
  fv_StoragePath :: string
  fv_IsCurrent :: bool
  fv_CreatedAt :: gotime

text \<open>The width of a column is \<open>None\<close> for \<open>TEXT\<close> and \<open>Some n\<close> for \<open>VARCHAR(n)\<close>.\<close>
record pgserver =
  sv_up :: "nat \<Rightarrow> bool"
  sv_now :: "nat \<Rightarrow> gotime"
  sv_text :: "nat option \<Rightarrow> string \<Rightarrow> bool"
  sv_ilike :: "string \<Rightarrow> string \<Rightarrow> bool"
  sv_scan :: "nat \<Rightarrow> FileRow list \<Rightarrow> FileRow list"
  sv_vscan :: "nat \<Rightarrow> FileVersion list \<Rightarrow> FileVersion list"

record tables =
  ft_calls :: nat
  ft_users :: "int list"
  ft_nodes :: "int list"
  ft_files :: "FileRow list"
  ft_seq :: int
  ft_versions :: "FileVersion list"
  ft_vseq :: int

text \<open>A query reads every row of a table exactly once.\<close>
definition server_law :: "pgserver \<Rightarrow> bool" where
  "server_law s \<longleftrightarrow> (\<forall>i rows. mset (sv_scan s i rows) = mset rows) \<and> (\<forall>i rows. mset (sv_vscan s i rows) = mset rows)"

section \<open>Statements\<close>

definition stmt :: "pgserver \<Rightarrow> (tables \<Rightarrow> (gerr + 'a) \<times> tables) \<Rightarrow> (tables, 'a) io" where
  "stmt s f db =
     (let db1 = db\<lparr>ft_calls := Suc (ft_calls db)\<rparr>
      in if sv_up s (ft_calls db) then f db1 else (Inl pg_error, db1))"

text \<open>The statement of a method, its error wrapped with \<open>fmt.Errorf\<close>.\<close>
definition run :: "pgserver \<Rightarrow> string \<Rightarrow> (tables \<Rightarrow> (gerr + 'a) \<times> tables) \<Rightarrow> (tables, 'a) io" where
  "run s msg f db =
     (case stmt s f db of (Inl err, db1) \<Rightarrow> (Inl (Wrapf msg err), db1) | (Inr x, db1) \<Rightarrow> (Inr x, db1))"

definition bad_text :: gerr where "bad_text = Errorf ''invalid text''"
definition duplicate_key :: gerr where "duplicate_key = Errorf ''duplicate key value violates unique constraint''"
definition foreign_key :: gerr where "foreign_key = Errorf ''violates foreign key constraint''"
definition no_column :: "string \<Rightarrow> gerr" where "no_column c = Errorf (''column '' @ c @ '' does not exist'')"
definition bad_limit :: gerr where "bad_limit = Errorf ''LIMIT or OFFSET must not be negative''"

definition opt_text :: "pgserver \<Rightarrow> nat \<Rightarrow> string option \<Rightarrow> bool" where
  "opt_text s n t = (case t of None \<Rightarrow> True | Some x \<Rightarrow> sv_text s (Some n) x)"

definition file_text :: "pgserver \<Rightarrow> FileRow \<Rightarrow> bool" where
  "file_text s r \<longleftrightarrow>
     sv_text s None (fl_FilePath r) \<and> sv_text s (Some 255) (fl_FileName r) \<and> opt_text s 100 (fl_MimeType r) \<and>
     opt_text s 32 (fl_ChecksumMD5 r) \<and> opt_text s 64 (fl_ChecksumSHA256 r)"

text \<open>The key \<open>id\<close> and the key \<open>(user_id, file_path)\<close> of \<open>files\<close>, which a deleted row keeps.\<close>
definition same_key :: "FileRow \<Rightarrow> FileRow \<Rightarrow> bool" where
  "same_key r q \<longleftrightarrow> fl_ID r = fl_ID q \<or> fl_UserID r = fl_UserID q \<and> fl_FilePath r = fl_FilePath q"

definition insert_file :: "pgserver \<Rightarrow> FileRow \<Rightarrow> tables \<Rightarrow> (gerr + FileRow) \<times> tables" where
  "insert_file s r db =
     (if \<not> file_text s r then (Inl bad_text, db)
      else if fl_UserID r \<notin> set (ft_users db) then (Inl foreign_key, db)
      else if list_ex (same_key r) (ft_files db) then (Inl duplicate_key, db)
      else (Inr r, db\<lparr>ft_files := ft_files db @ [r]\<rparr>))"

text \<open>\<open>UPDATE files SET \<dots> WHERE \<dots>\<close> with a change of at most one row per key: the trigger sets \<open>updated_at\<close> to the time of the
  server, whatever the statement sets it to.\<close>
definition touch :: "pgserver \<Rightarrow> tables \<Rightarrow> FileRow \<Rightarrow> FileRow" where
  "touch s db r = r\<lparr>fl_UpdatedAt := timestamptz (sv_now s (ft_calls db))\<rparr>"

definition clashes :: "FileRow list \<Rightarrow> bool" where
  "clashes rows \<longleftrightarrow> \<not> distinct (map fl_ID rows) \<or> \<not> distinct (map (\<lambda>r. (fl_UserID r, fl_FilePath r)) rows)"

definition update_files :: "pgserver \<Rightarrow> (FileRow \<Rightarrow> bool) \<Rightarrow> (FileRow \<Rightarrow> FileRow) \<Rightarrow> tables \<Rightarrow> (gerr + nat) \<times> tables" where
  "update_files s P g db =
     (let rows = map (\<lambda>r. if P r then touch s db (g r) else r) (ft_files db)
      in if list_ex (\<lambda>r. P r \<and> \<not> file_text s (g r)) (ft_files db) then (Inl bad_text, db)
         else if clashes rows then (Inl duplicate_key, db)
         else (Inr (length (filter P (ft_files db))), db\<lparr>ft_files := rows\<rparr>))"

text \<open>Rows of \<open>files\<close> and of \<open>file_versions\<close> in the order of a key.\<close>
definition select_files :: "pgserver \<Rightarrow> (FileRow \<Rightarrow> bool) \<Rightarrow> (FileRow \<Rightarrow> int) \<Rightarrow> tables \<Rightarrow> FileRow list" where
  "select_files s P key db = sort_key key (sv_scan s (ft_calls db) (filter P (ft_files db)))"

definition select_versions :: "pgserver \<Rightarrow> (FileVersion \<Rightarrow> bool) \<Rightarrow> (FileVersion \<Rightarrow> int) \<Rightarrow> tables \<Rightarrow> FileVersion list" where
  "select_versions s P key db = sort_key key (sv_vscan s (ft_calls db) (filter P (ft_versions db)))"

text \<open>A query with the values it is given; \<open>texts\<close> are those that are texts.\<close>
definition select_with :: "pgserver \<Rightarrow> string list \<Rightarrow> (tables \<Rightarrow> 'a) \<Rightarrow> tables \<Rightarrow> (gerr + 'a) \<times> tables" where
  "select_with s texts q db = (if list_all (sv_text s None) texts then (Inr (q db), db) else (Inl bad_text, db))"

definition limit_offset :: "int \<Rightarrow> int \<Rightarrow> 'a list \<Rightarrow> 'a list" where
  "limit_offset limit offset xs = take (nat limit) (drop (nat offset) xs)"

section \<open>Versions\<close>

definition version_text :: "pgserver \<Rightarrow> FileVersion \<Rightarrow> bool" where
  "version_text s v \<longleftrightarrow> sv_text s (Some 64) (fv_ChecksumSHA256 v) \<and> sv_text s None (fv_StoragePath v)"

text \<open>\<open>version_number\<close> is an \<open>INTEGER\<close>.\<close>
definition in_int32 :: "int \<Rightarrow> bool" where
  "in_int32 n \<longleftrightarrow> - (2 ^ 31) \<le> n \<and> n < 2 ^ 31"

text \<open>The keys of \<open>file_versions\<close>: \<open>id\<close>, \<open>(file_id, version_number)\<close>, and \<open>file_id\<close> among the current ones.\<close>
definition same_version_key :: "FileVersion \<Rightarrow> FileVersion \<Rightarrow> bool" where
  "same_version_key v q \<longleftrightarrow>
     fv_ID v = fv_ID q \<or> fv_FileID v = fv_FileID q \<and>
       (fv_VersionNumber v = fv_VersionNumber q \<or> fv_IsCurrent v \<and> fv_IsCurrent q)"

text \<open>The trigger \<open>manage_current_version_trigger\<close>, after the row is in the table.\<close>
definition manage_current :: "pgserver \<Rightarrow> FileVersion \<Rightarrow> tables \<Rightarrow> tables" where
  "manage_current s v db =
     (if fv_IsCurrent v
      then db\<lparr>ft_versions := map (\<lambda>q. if fv_FileID q = fv_FileID v \<and> fv_ID q \<noteq> fv_ID v then q\<lparr>fv_IsCurrent := False\<rparr> else q) (ft_versions db),
              ft_files := map (\<lambda>r. if fl_ID r = fv_FileID v then touch s db (r\<lparr>fl_CurrentVersionID := Some (fv_ID v)\<rparr>) else r) (ft_files db)\<rparr>
      else db)"

definition insert_version :: "pgserver \<Rightarrow> FileVersion \<Rightarrow> tables \<Rightarrow> (gerr + FileVersion) \<times> tables" where
  "insert_version s v db =
     (if \<not> version_text s v \<or> \<not> in_int32 (fv_VersionNumber v) then (Inl bad_text, db)
      else if \<not> list_ex (\<lambda>r. fl_ID r = fv_FileID v) (ft_files db) \<or>
              (case fv_StorageNodeID v of None \<Rightarrow> False | Some n \<Rightarrow> n \<notin> set (ft_nodes db))
      then (Inl foreign_key, db)
      else if list_ex (same_version_key v) (ft_versions db) then (Inl duplicate_key, db)
      else (Inr v, manage_current s v (db\<lparr>ft_versions := ft_versions db @ [v]\<rparr>)))"

end
