(* ===== verification/File_Repository.thy ===== *)
theory File_Repository
  imports File_Tables
begin

text \<open>
  The repository of files (\<^verbatim>\<open>internal/repository/file_repository.go\<close>) over the tables of \<open>File_Tables\<close>. \<open>now\<close> are the
  readings of the program's clock. A method that fills in the file it is given returns it.
\<close>

section \<open>Methods\<close>

text \<open>\<open>QueryRow\<close> and its \<open>Scan\<close>: the first row, or \<open>pgx.ErrNoRows\<close> with the message of the method.\<close>
definition one_row :: "string \<Rightarrow> ('w, 'a list) io \<Rightarrow> ('w, 'a) io" where
  "one_row none q w =
     (case q w of
        (Inl err, w1) \<Rightarrow> (Inl err, w1)
      | (Inr [], w1) \<Rightarrow> (Inl (Errorf none), w1)
      | (Inr (r # _), w1) \<Rightarrow> (Inr r, w1))"

text \<open>\<open>INSERT INTO files\<close> without \<open>id\<close>: the number comes from the sequence, which a failed statement may have moved on.\<close>
definition insert_new :: "pgserver \<Rightarrow> (nat \<Rightarrow> gotime) \<Rightarrow> FileRow \<Rightarrow> tables \<Rightarrow> (gerr + FileRow) \<times> tables" where
  "insert_new s now f db =
     insert_file s (f\<lparr>fl_ID := ft_seq db, fl_CreatedAt := timestamptz (now 0), fl_UpdatedAt := timestamptz (now 1)\<rparr>)
       (db\<lparr>ft_seq := ft_seq db + 1\<rparr>)"

definition fr_save :: "pgserver \<Rightarrow> (nat \<Rightarrow> gotime) \<Rightarrow> FileRow \<Rightarrow> (tables, FileRow) io" where
  "fr_save s now f = run s ''failed to save file: '' (insert_new s now f)"

definition live :: "FileRow \<Rightarrow> bool" where
  "live r \<longleftrightarrow> \<not> fl_IsDeleted r"

definition fr_findByID :: "pgserver \<Rightarrow> int \<Rightarrow> (tables, FileRow) io" where
  "fr_findByID s i =
     one_row (''file with id '' @ int_text i @ '' not found'')
       (run s ''failed to find file by id: '' (select_with s [] (select_files s (\<lambda>r. fl_ID r = i \<and> live r) (\<lambda>_. 0))))"

definition FindByHash :: "pgserver \<Rightarrow> string \<Rightarrow> (tables, FileRow list) io" where
  "FindByHash s h =
     run s ''failed to query files by hash: ''
       (select_with s [h] (select_files s (\<lambda>r. fl_ChecksumSHA256 r = Some h \<and> live r) (\<lambda>r. - fl_CreatedAt r)))"

definition owned :: "int \<Rightarrow> FileRow \<Rightarrow> bool" where
  "owned userID r \<longleftrightarrow> fl_UserID r = userID \<and> live r"

definition paged :: "pgserver \<Rightarrow> string list \<Rightarrow> int \<Rightarrow> int \<Rightarrow> (tables \<Rightarrow> FileRow list) \<Rightarrow> tables \<Rightarrow> (gerr + FileRow list) \<times> tables" where
  "paged s texts offset limit q db =
     (if limit < 0 \<or> offset < 0 then (Inl bad_limit, db) else select_with s texts (\<lambda>db. limit_offset limit offset (q db)) db)"

definition ListWithPagination :: "pgserver \<Rightarrow> int \<Rightarrow> int \<Rightarrow> int \<Rightarrow> (tables, FileRow list) io" where
  "ListWithPagination s userID offset limit =
     run s ''failed to query files with pagination: ''
       (paged s [] offset limit (select_files s (owned userID) (\<lambda>r. - fl_UpdatedAt r)))"






definition count_files :: "(FileRow \<Rightarrow> bool) \<Rightarrow> tables \<Rightarrow> int" where
  "count_files P db = int (length (filter P (ft_files db)))"

definition fr_Count :: "pgserver \<Rightarrow> int \<Rightarrow> (tables, int) io" where
  "fr_Count s userID = run s ''failed to count files: '' (select_with s [] (count_files (owned userID)))"


text \<open>\<open>UPDATE \<dots> WHERE id = $1\<close>; no row is no error. Texts the server cannot take are refused before it looks for rows, the width of
  a column only matters for a row.\<close>
definition file_params :: "FileRow \<Rightarrow> string list" where
  "file_params f =
     [fl_FilePath f, fl_FileName f] @
     concat (map (\<lambda>t. case t of None \<Rightarrow> [] | Some x \<Rightarrow> [x]) [fl_MimeType f, fl_ChecksumMD5 f, fl_ChecksumSHA256 f])"

definition fr_update :: "pgserver \<Rightarrow> FileRow \<Rightarrow> (tables, unit) io" where
  "fr_update s f db =
     (case run s ''failed to update file: ''
         (\<lambda>db. if \<not> list_all (sv_text s None) (file_params f) then (Inl bad_text, db)
               else update_files s (\<lambda>r. fl_ID r = fl_ID f)
                 (\<lambda>r. r\<lparr>fl_FilePath := fl_FilePath f, fl_FileName := fl_FileName f, fl_FileSizeBytes := fl_FileSizeBytes f,
                        fl_MimeType := fl_MimeType f, fl_ChecksumMD5 := fl_ChecksumMD5 f,
                        fl_ChecksumSHA256 := fl_ChecksumSHA256 f, fl_IsDeleted := fl_IsDeleted f,
                        fl_CurrentVersionID := fl_CurrentVersionID f\<rparr>) db) db of
        (Inl err, db1) \<Rightarrow> (Inl err, db1) | (Inr _, db1) \<Rightarrow> (Inr (), db1))"

definition SoftDelete :: "pgserver \<Rightarrow> int \<Rightarrow> (tables, unit) io" where
  "SoftDelete s i db =
     (case run s ''failed to soft delete file: ''
         (update_files s (\<lambda>r. fl_ID r = i) (\<lambda>r. r\<lparr>fl_IsDeleted := True\<rparr>)) db of
        (Inl err, db1) \<Rightarrow> (Inl err, db1) | (Inr _, db1) \<Rightarrow> (Inr (), db1))"

definition fr_findByPath :: "pgserver \<Rightarrow> int \<Rightarrow> string \<Rightarrow> (tables, FileRow) io" where
  "fr_findByPath s userID path =
     one_row (''file with path '' @ path @ '' not found for user '' @ int_text userID)
       (run s ''failed to find file by path: ''
          (select_with s [path] (select_files s (\<lambda>r. owned userID r \<and> fl_FilePath r = path) (\<lambda>_. 0))))"

definition UpdateCurrentVersion :: "pgserver \<Rightarrow> int \<Rightarrow> int \<Rightarrow> (tables, unit) io" where
  "UpdateCurrentVersion s fileID versionID db =
     (case run s ''failed to update current version: ''
         (update_files s (\<lambda>r. fl_ID r = fileID) (\<lambda>r. r\<lparr>fl_CurrentVersionID := Some versionID\<rparr>)) db of
        (Inl err, db1) \<Rightarrow> (Inl err, db1) | (Inr _, db1) \<Rightarrow> (Inr (), db1))"

text \<open>\<open>SUM\<close> of a \<open>BIGINT\<close> is a \<open>NUMERIC\<close>, which \<open>Scan\<close> refuses for an \<open>int64\<close> that cannot hold it.\<close>
definition GetStorageUsage :: "pgserver \<Rightarrow> int \<Rightarrow> (tables, int) io" where
  "GetStorageUsage s userID =
     run s ''failed to get storage usage: ''
       (\<lambda>db. let usage = sum_list (map fl_FileSizeBytes (filter (owned userID) (ft_files db)))
             in if in_int64 usage then (Inr usage, db) else (Inl (Errorf ''cannot scan numeric''), db))"

text \<open>The checksums the subquery returns; \<open>NULL IN (\<dots>)\<close> is never true.\<close>
definition repeated :: "int \<Rightarrow> tables \<Rightarrow> string option \<Rightarrow> bool" where
  "repeated userID db c \<longleftrightarrow> c \<noteq> None \<and> 1 < count_files (\<lambda>r. owned userID r \<and> fl_ChecksumSHA256 r = c) db"

definition FindDuplicates :: "pgserver \<Rightarrow> int \<Rightarrow> (tables, FileRow list) io" where
  "FindDuplicates s userID =
     run s ''failed to find duplicate files: ''
       (select_with s []
          (\<lambda>db. select_files s (\<lambda>r. owned userID r \<and> repeated userID db (fl_ChecksumSHA256 r)) (\<lambda>r. - fl_CreatedAt r) db))"

definition fr_exists :: "pgserver \<Rightarrow> int \<Rightarrow> string \<Rightarrow> (tables, bool) io" where
  "fr_exists s userID path =
     run s ''failed to check file existence: ''
       (select_with s [path] (\<lambda>db. list_ex (\<lambda>r. owned userID r \<and> fl_FilePath r = path) (ft_files db)))"

text \<open>The loop of \<open>BatchSave\<close>: the files as it leaves them, and the error it stops with.\<close>
primrec save_all :: "pgserver \<Rightarrow> (nat \<Rightarrow> nat \<Rightarrow> gotime) \<Rightarrow> nat \<Rightarrow> FileRow list \<Rightarrow> tables \<Rightarrow> gerr option \<times> FileRow list \<times> tables" where
  "save_all s now i [] db = (None, [], db)"
| "save_all s now i (f # fs) db =
     (case run s ''failed to save file in batch: '' (insert_new s (now i) f) db of
        (Inl err, db1) \<Rightarrow> (Some err, f # fs, db1)
      | (Inr f', db1) \<Rightarrow> (let (err, fs', db2) = save_all s now (Suc i) fs db1 in (err, f' # fs', db2)))"

text \<open>\<open>Rollback\<close> undoes the rows but not the sequence.\<close>
definition rollback :: "tables \<Rightarrow> tables \<Rightarrow> tables" where
  "rollback db db1 = db1\<lparr>ft_files := ft_files db, ft_versions := ft_versions db\<rparr>"

definition BatchSave :: "pgserver \<Rightarrow> (nat \<Rightarrow> nat \<Rightarrow> gotime) \<Rightarrow> FileRow list \<Rightarrow> tables \<Rightarrow> (gerr + unit) \<times> FileRow list \<times> tables" where
  "BatchSave s now files db =
     (case run s ''failed to begin transaction: '' (\<lambda>db. (Inr (), db)) db of
        (Inl err, db1) \<Rightarrow> (Inl err, files, db1)
      | (Inr _, db1) \<Rightarrow>
     (case save_all s now 0 files db1 of
        (Some err, files', db2) \<Rightarrow> (Inl err, files', rollback db db2)
      | (None, files', db2) \<Rightarrow>
     (case run s ''failed to commit batch save: '' (\<lambda>db. (Inr (), db)) db2 of
        (Inl err, db3) \<Rightarrow> (Inl err, files', rollback db db3)
      | (Inr _, db3) \<Rightarrow> (Inr (), files', db3))))"

section \<open>Statements and rows\<close>

text \<open>What every statement keeps: the keys of \<open>files\<close> and the reference to \<open>users\<close>.\<close>
definition files_ok :: "tables \<Rightarrow> bool" where
  "files_ok db \<longleftrightarrow> \<not> clashes (ft_files db) \<and> (\<forall>r \<in> set (ft_files db). fl_UserID r \<in> set (ft_users db))"

abbreviation called :: "tables \<Rightarrow> tables" where
  "called db \<equiv> db\<lparr>ft_calls := Suc (ft_calls db)\<rparr>"

lemma run_failed:
  "run s msg f db = (Inl e, db1) \<Longrightarrow> db1 = called db \<or> (\<exists>e'. f (called db) = (Inl e', db1))"
  by (auto simp: run_def stmt_def Let_def split: if_splits sum.splits prod.splits)

lemma run_good:
  "run s msg f db = (Inr x, db1) \<longleftrightarrow> sv_up s (ft_calls db) \<and> f (called db) = (Inr x, db1)"
  by (auto simp: run_def stmt_def Let_def split: if_splits sum.splits prod.splits)

lemma insert_file_good:
  "insert_file s r db = (Inr x, db1) \<longleftrightarrow>
     x = r \<and> db1 = db\<lparr>ft_files := ft_files db @ [r]\<rparr> \<and> file_text s r \<and> fl_UserID r \<in> set (ft_users db) \<and>
     (\<forall>q \<in> set (ft_files db). \<not> same_key r q)"
  by (auto simp: insert_file_def list_ex_iff split: if_splits)

lemma insert_file_failed: "insert_file s r db = (Inl e, db1) \<Longrightarrow> db1 = db"
  by (auto simp: insert_file_def split: if_splits)

lemma clashes_append: "\<not> clashes rows \<Longrightarrow> \<forall>q \<in> set rows. \<not> same_key r q \<Longrightarrow> \<not> clashes (rows @ [r])"
  by (auto simp: clashes_def same_key_def)

lemma insert_new_rows:
  assumes "insert_new s now f db = (res, db1)" "files_ok db"
  shows "files_ok db1" "ft_users db1 = ft_users db" "ft_versions db1 = ft_versions db"
    "\<And>e. res = Inl e \<Longrightarrow> ft_files db1 = ft_files db"
    "\<And>r. res = Inr r \<Longrightarrow> ft_files db1 = ft_files db @ [r] \<and> (\<forall>q \<in> set (ft_files db). \<not> same_key r q) \<and>
       r = f\<lparr>fl_ID := ft_seq db, fl_CreatedAt := timestamptz (now 0), fl_UpdatedAt := timestamptz (now 1)\<rparr>"
  using assms
  by (cases res; auto simp: insert_new_def insert_file_good files_ok_def clashes_append dest!: insert_file_failed)+

lemma update_files_good:
  "update_files s P g db = (Inr n, db1) \<Longrightarrow>
     db1 = db\<lparr>ft_files := map (\<lambda>r. if P r then touch s db (g r) else r) (ft_files db)\<rparr> \<and> \<not> clashes (ft_files db1)"
  by (auto simp: update_files_def Let_def split: if_splits)

lemma update_files_failed: "update_files s P g db = (Inl e, db1) \<Longrightarrow> db1 = db"
  by (auto simp: update_files_def Let_def split: if_splits)

lemma touch_simps [simp]:
  "fl_ID (touch s db r) = fl_ID r" "fl_UserID (touch s db r) = fl_UserID r" "fl_FilePath (touch s db r) = fl_FilePath r"
  "fl_IsDeleted (touch s db r) = fl_IsDeleted r" "file_text s (touch s db r) = file_text s r"
  by (simp_all add: touch_def file_text_def)

section \<open>A map of files\<close>

text \<open>The files the repository holds, by number: what its methods are specified by.\<close>
definition abs_files :: "tables \<Rightarrow> int \<Rightarrow> FileRow option" where
  "abs_files db i = find (\<lambda>r. fl_ID r = i \<and> live r) (ft_files db)"

lemma find_gone: "k \<notin> fl_ID ` set rows \<Longrightarrow> find (\<lambda>r. fl_ID r = k \<and> P r) rows = None"
  by (auto simp: find_None_iff)

lemma filter_gone: "k \<notin> fl_ID ` set rows \<Longrightarrow> filter (\<lambda>r. fl_ID r = k \<and> P r) rows = []"
  by (auto simp: filter_empty_conv)

lemma filter_by_id:
  "distinct (map fl_ID rows) \<Longrightarrow>
     filter (\<lambda>r. fl_ID r = i \<and> P r) rows = (case find (\<lambda>r. fl_ID r = i \<and> P r) rows of None \<Rightarrow> [] | Some r \<Rightarrow> [r])"
  by (induction rows) (auto simp: filter_gone)

lemma find_update:
  assumes "distinct (map fl_ID rows)" "\<And>r. fl_ID (g r) = fl_ID r"
  shows "find (\<lambda>r. fl_ID r = j \<and> live r) (map (\<lambda>r. if fl_ID r = i then g r else r) rows) =
    (if j = i then case find (\<lambda>r. fl_ID r = i) rows of None \<Rightarrow> None | Some r \<Rightarrow> if live (g r) then Some (g r) else None
     else find (\<lambda>r. fl_ID r = j \<and> live r) rows)"
  using assms(1)
proof (induction rows)
  case (Cons a rows)
  then have "\<And>x y. find (\<lambda>r. fl_ID r = fl_ID a \<and> live r) (map (\<lambda>r. if fl_ID r = i then g r else r) rows) = None"
    using assms(2) by (intro find_gone) auto
  with Cons assms(2) show ?case by (cases "fl_ID a = i"; cases "j = i") auto
qed simp

lemma scan_one: "server_law s \<Longrightarrow> sv_scan s i (case x of None \<Rightarrow> [] | Some r \<Rightarrow> [r]) = (case x of None \<Rightarrow> [] | Some r \<Rightarrow> [r])"
  unfolding server_law_def by (metis (mono_tags, lifting) mset_single_iff_right mset_zero_iff option.case_eq_if)

lemma findByID_abs:
  assumes "server_law s" "files_ok db" "sv_up s (ft_calls db)"
  shows "fr_findByID s i db =
    ((case abs_files db i of None \<Rightarrow> Inl (Errorf (''file with id '' @ int_text i @ '' not found'')) | Some r \<Rightarrow> Inr r), called db)"
  using assms scan_one [OF assms(1)]
  by (auto simp: fr_findByID_def one_row_def run_def stmt_def Let_def select_with_def select_files_def files_ok_def clashes_def
      filter_by_id abs_files_def split: option.splits)

lemma update_by_id:
  assumes "files_ok db" "update_files s (\<lambda>r. fl_ID r = i) g db = (res, db1)" "\<And>r. fl_ID (g r) = fl_ID r" "\<And>r. fl_UserID (g r) = fl_UserID r"
  shows "files_ok db1" "ft_calls db1 = ft_calls db"
    "\<And>e. res = Inl e \<Longrightarrow> ft_files db1 = ft_files db"
    "\<And>n. res = Inr n \<Longrightarrow> abs_files db1 = (abs_files db)(i :=
       (case find (\<lambda>r. fl_ID r = i) (ft_files db) of None \<Rightarrow> None | Some r \<Rightarrow> if live (g r) then Some (touch s db (g r)) else None))"
proof -
  note g = assms(3,4)
  have "files_ok db1 \<and> ft_calls db1 = ft_calls db \<and> (\<forall>e. res = Inl e \<longrightarrow> ft_files db1 = ft_files db)"
    using assms(1,2) g by (cases res) (auto simp: files_ok_def dest!: update_files_good update_files_failed)
  then show "files_ok db1" "ft_calls db1 = ft_calls db" "\<And>e. res = Inl e \<Longrightarrow> ft_files db1 = ft_files db" by blast+
  show "\<And>n. res = Inr n \<Longrightarrow> abs_files db1 = (abs_files db)(i :=
       (case find (\<lambda>r. fl_ID r = i) (ft_files db) of None \<Rightarrow> None | Some r \<Rightarrow> if live (g r) then Some (touch s db (g r)) else None))"
  proof (rule ext)
    fix n j assume "res = Inr n"
    with assms(2) have "ft_files db1 = map (\<lambda>r. if fl_ID r = i then touch s db (g r) else r) (ft_files db)"
      using update_files_good by fastforce
    moreover have "distinct (map fl_ID (ft_files db))" using assms(1) by (simp add: files_ok_def clashes_def)
    moreover have "live (touch s db (g r)) = live (g r)" for r by (simp add: live_def)
    ultimately show "abs_files db1 j = ((abs_files db)(i :=
       (case find (\<lambda>r. fl_ID r = i) (ft_files db) of None \<Rightarrow> None | Some r \<Rightarrow> if live (g r) then Some (touch s db (g r)) else None))) j"
      using find_update [of "ft_files db" "\<lambda>r. touch s db (g r)" j i] g(1) by (simp add: abs_files_def split: option.splits)
  qed
qed

text \<open>The new row of \<open>Update\<close>: what the caller gives, but for the owner and the times.\<close>
definition updated :: "pgserver \<Rightarrow> tables \<Rightarrow> FileRow \<Rightarrow> FileRow \<Rightarrow> FileRow" where
  "updated s db f r =
     f\<lparr>fl_UserID := fl_UserID r, fl_CreatedAt := fl_CreatedAt r, fl_UpdatedAt := timestamptz (sv_now s (Suc (ft_calls db)))\<rparr>"

lemma find_append: "find P (xs @ ys) = (case find P xs of None \<Rightarrow> find P ys | Some x \<Rightarrow> Some x)"
  by (induction xs) auto

lemma files_ok_called [simp]: "files_ok (called db) = files_ok db" "abs_files (called db) = abs_files db"
  by (simp_all add: files_ok_def abs_files_def fun_eq_iff)

lemma save_abs:
  assumes "files_ok db" "fr_save s now f db = (res, db1)"
  shows "files_ok db1" "\<And>e. res = Inl e \<Longrightarrow> ft_files db1 = ft_files db"
    "\<And>r. res = Inr r \<Longrightarrow> abs_files db (fl_ID r) = None \<and>
       abs_files db1 = (if fl_IsDeleted f then abs_files db else (abs_files db)(fl_ID r \<mapsto> r))"
proof -
  let ?i = "insert_new s now f (called db)"
  obtain res' db' where i: "?i = (res', db')" by force
  note rows = insert_new_rows [OF i] and assms
  have cases: "db1 = called db \<and> (\<exists>e. res = Inl e) \<or> (db1 = db' \<and> (\<exists>e e'. res = Inl e \<and> res' = Inl e')) \<or> db1 = db' \<and> (\<exists>r. res = Inr r \<and> res' = Inr r)"
    using assms(2) i unfolding fr_save_def by (cases res) (auto simp: run_good dest!: run_failed)
  then show "files_ok db1" using rows assms(1) by auto
  show "ft_files db1 = ft_files db" if "res = Inl e" for e using cases rows assms(1) that by auto
  show "abs_files db (fl_ID r) = None \<and> abs_files db1 = (if fl_IsDeleted f then abs_files db else (abs_files db)(fl_ID r \<mapsto> r))"
    if "res = Inr r" for r
  proof -
    have "ft_files db1 = ft_files db @ [r] \<and> (\<forall>q \<in> set (ft_files db). \<not> same_key r q) \<and> fl_IsDeleted r = fl_IsDeleted f"
      using cases rows(5) assms(1) that by auto
    note new = this
    then have "find (\<lambda>q. fl_ID q = fl_ID r \<and> live q) (ft_files db) = None"
      by (intro find_gone) (auto simp: same_key_def)
    with new show ?thesis
      by (auto simp: abs_files_def find_append live_def fun_eq_iff split: option.splits)
  qed
qed

text \<open>A statement whose number of rows the method ignores.\<close>
lemma run_unit:
  assumes "(case run s msg f db of (Inl err, db1) \<Rightarrow> (Inl err, db1) | (Inr _, db1) \<Rightarrow> (Inr (), db1)) = (res, db1)"
    "f (called db) = (res', db')"
  shows "(db1 = called db \<and> (\<exists>e. res = Inl e)) \<or> db1 = db' \<and> (\<exists>e e'. res = Inl e \<and> res' = Inl e') \<or> db1 = db' \<and> res = Inr () \<and> (\<exists>n. res' = Inr n)"
  using assms by (cases res') (auto simp: run_def stmt_def Let_def split: if_splits)

lemma SoftDelete_abs:
  assumes "files_ok db" "SoftDelete s i db = (res, db1)"
  shows "files_ok db1" "\<And>e. res = Inl e \<Longrightarrow> ft_files db1 = ft_files db" "res = Inr () \<Longrightarrow> abs_files db1 = (abs_files db)(i := None)"
proof -
  obtain res' db' where u: "update_files s (\<lambda>r. fl_ID r = i) (\<lambda>r. r\<lparr>fl_IsDeleted := True\<rparr>) (called db) = (res', db')" by force
  have f: "files_ok db'" "\<And>e. res' = Inl e \<Longrightarrow> ft_files db' = ft_files db"
    "\<And>n. res' = Inr n \<Longrightarrow> abs_files db' = (abs_files db)(i := None)"
    using update_by_id [OF _ u] assms(1) by (auto simp: live_def split: option.splits)
  show "files_ok db1" "\<And>e. res = Inl e \<Longrightarrow> ft_files db1 = ft_files db" "res = Inr () \<Longrightarrow> abs_files db1 = (abs_files db)(i := None)"
    using f assms(1) run_unit [OF assms(2) [unfolded SoftDelete_def] u] by auto
qed

lemma update_abs:
  assumes "files_ok db" "fr_update s f db = (res, db1)"
  shows "files_ok db1" "\<And>e. res = Inl e \<Longrightarrow> ft_files db1 = ft_files db"
    "res = Inr () \<Longrightarrow> abs_files db1 = (abs_files db)(fl_ID f :=
       (case find (\<lambda>r. fl_ID r = fl_ID f) (ft_files db) of None \<Rightarrow> None | Some r \<Rightarrow> if live f then Some (updated s db f r) else None))"
proof -
  let ?g = "\<lambda>r. r\<lparr>fl_FilePath := fl_FilePath f, fl_FileName := fl_FileName f, fl_FileSizeBytes := fl_FileSizeBytes f,
     fl_MimeType := fl_MimeType f, fl_ChecksumMD5 := fl_ChecksumMD5 f, fl_ChecksumSHA256 := fl_ChecksumSHA256 f,
     fl_IsDeleted := fl_IsDeleted f, fl_CurrentVersionID := fl_CurrentVersionID f\<rparr>"
  let ?u = "\<lambda>db. if \<not> list_all (sv_text s None) (file_params f) then (Inl bad_text, db)
     else update_files s (\<lambda>r. fl_ID r = fl_ID f) ?g db"
  obtain res' db' where u: "?u (called db) = (res', db')" by force
  have g: "fl_ID r = fl_ID f \<Longrightarrow> touch s (called db) (?g r) = updated s db f r" for r
    by (cases r; cases f) (simp add: touch_def updated_def)
  have lg: "live (?g r) = live f" for r by (simp add: live_def)
  have new: "(case find (\<lambda>r. fl_ID r = fl_ID f) (ft_files (called db)) of None \<Rightarrow> None
       | Some r \<Rightarrow> if live (?g r) then Some (touch s (called db) (?g r)) else None) =
     (case find (\<lambda>r. fl_ID r = fl_ID f) (ft_files db) of None \<Rightarrow> None | Some r \<Rightarrow> if live f then Some (updated s db f r) else None)"
    by (cases "find (\<lambda>r. fl_ID r = fl_ID f) (ft_files db)") (auto simp: g lg dest!: find_Some_iff [THEN iffD1])
  have f: "files_ok db'" "\<And>e. res' = Inl e \<Longrightarrow> ft_files db' = ft_files db"
    "\<And>n. res' = Inr n \<Longrightarrow> abs_files db' = (abs_files db)(fl_ID f :=
       (case find (\<lambda>r. fl_ID r = fl_ID f) (ft_files db) of None \<Rightarrow> None | Some r \<Rightarrow> if live f then Some (updated s db f r) else None))"
    using u assms(1) update_by_id [of "called db" s "fl_ID f" ?g res' db'] new
    by (auto split: if_splits)
  show "files_ok db1" "\<And>e. res = Inl e \<Longrightarrow> ft_files db1 = ft_files db"
    "res = Inr () \<Longrightarrow> abs_files db1 = (abs_files db)(fl_ID f :=
       (case find (\<lambda>r. fl_ID r = fl_ID f) (ft_files db) of None \<Rightarrow> None | Some r \<Rightarrow> if live f then Some (updated s db f r) else None))"
    using f assms(1) run_unit [OF assms(2) [unfolded fr_update_def] u] by auto
qed

text \<open>C33: The repository is a map from numbers to files. \<open>FindByID\<close> returns the entry, \<open>Save\<close> adds one under a number that has none,
  \<open>Update\<close> replaces it, keeping owner and creation time, \<open>SoftDelete\<close> removes it; a call that fails changes no row, and every
  call keeps the table's keys.\<close>
theorem files_refine_map:
  assumes "server_law s" "files_ok db"
  shows
    "(sv_up s (ft_calls db) \<longrightarrow>
        fst (fr_findByID s i db) =
          (case abs_files db i of None \<Rightarrow> Inl (Errorf (''file with id '' @ int_text i @ '' not found'')) | Some r \<Rightarrow> Inr r)) \<and>
     (case fr_save s now f db of
        (Inr r, db1) \<Rightarrow> abs_files db (fl_ID r) = None \<and>
          abs_files db1 = (if fl_IsDeleted f then abs_files db else (abs_files db)(fl_ID r \<mapsto> r)) \<and> files_ok db1
      | (Inl _, db1) \<Rightarrow> ft_files db1 = ft_files db \<and> files_ok db1) \<and>
     (case fr_update s f db of
        (Inr _, db1) \<Rightarrow> abs_files db1 = (abs_files db)(fl_ID f :=
          (case find (\<lambda>r. fl_ID r = fl_ID f) (ft_files db) of
             None \<Rightarrow> None | Some r \<Rightarrow> if live f then Some (updated s db f r) else None)) \<and> files_ok db1
      | (Inl _, db1) \<Rightarrow> ft_files db1 = ft_files db \<and> files_ok db1) \<and>
     (case SoftDelete s i db of
        (Inr _, db1) \<Rightarrow> abs_files db1 = (abs_files db)(i := None) \<and> files_ok db1
      | (Inl _, db1) \<Rightarrow> ft_files db1 = ft_files db \<and> files_ok db1)"
proof -
  obtain r1 d1 r2 d2 r3 d3 where
    c: "fr_save s now f db = (r1, d1)" "fr_update s f db = (r2, d2)" "SoftDelete s i db = (r3, d3)" by force
  show ?thesis
    using findByID_abs [OF assms] save_abs [OF assms(2) c(1)] update_abs [OF assms(2) c(2)] SoftDelete_abs [OF assms(2) c(3)] c
    by (cases r1; cases r2; cases r3) auto
qed

text \<open>A server that is always up, reads rows in the order they were written and takes ASCII texts.\<close>
definition plain_server :: pgserver where
  "plain_server =
     \<lparr>sv_up = \<lambda>_. True, sv_now = \<lambda>i. 1000000 * int i,
      sv_text = \<lambda>w t. list_all (\<lambda>c. CHR 0x01 \<le> c \<and> c \<le> CHR 0x7F) t \<and> (case w of None \<Rightarrow> True | Some n \<Rightarrow> length t \<le> n),
      sv_ilike = \<lambda>t p. t = p, sv_scan = \<lambda>_ rows. rows, sv_vscan = \<lambda>_ rows. rows\<rparr>"

definition example_row :: "int \<Rightarrow> string \<Rightarrow> gotime \<Rightarrow> FileRow" where
  "example_row i path t =
     \<lparr>fl_ID = i, fl_UserID = 7, fl_FilePath = path, fl_FileName = path, fl_FileSizeBytes = 10, fl_MimeType = None,
      fl_ChecksumMD5 = None, fl_ChecksumSHA256 = Some ''ab'', fl_IsDeleted = False, fl_CurrentVersionID = None,
      fl_CreatedAt = t, fl_UpdatedAt = t\<rparr>"

definition example_tables :: tables where
  "example_tables =
     \<lparr>ft_calls = 0, ft_users = [7], ft_nodes = [], ft_files = [example_row 1 ''a'' 1000, example_row 2 ''b'' 2000], ft_seq = 3,
      ft_versions = [], ft_vseq = 1\<rparr>"

lemma plain_server_law: "server_law plain_server"
  by (simp add: server_law_def plain_server_def)

lemma example_files_ok: "files_ok example_tables"
  by (simp add: files_ok_def clashes_def example_tables_def example_row_def)

lemma files_refine_map_witness:
  "abs_files (snd (SoftDelete plain_server 2 example_tables)) = (abs_files example_tables)(2 := None) \<and>
   abs_files example_tables 2 \<noteq> None"
proof -
  have "\<exists>db1. SoftDelete plain_server 2 example_tables = (Inr (), db1)"
    by (simp add: SoftDelete_def run_def stmt_def plain_server_def example_tables_def example_row_def update_files_def touch_def
        file_text_def opt_text_def clashes_def Let_def)
  moreover have "abs_files example_tables 2 \<noteq> None"
    by (simp add: abs_files_def example_tables_def example_row_def live_def)
  ultimately show ?thesis
    using files_refine_map [OF plain_server_law example_files_ok, of 2] by auto
qed

section \<open>Pages\<close>

lemma run_up: "sv_up s (ft_calls db) \<Longrightarrow> f (called db) = (Inr x, db1) \<Longrightarrow> run s msg f db = (Inr x, db1)"
  by (simp add: run_good)








section \<open>Batches\<close>

lemma save_all_rows:
  "save_all s now i fs db = (err, fs', db1) \<Longrightarrow> files_ok db \<Longrightarrow>
     files_ok db1 \<and> ft_users db1 = ft_users db \<and> ft_versions db1 = ft_versions db \<and>
     (err = None \<longrightarrow> ft_files db1 = ft_files db @ fs' \<and>
        list_all2 (\<lambda>f r. \<exists>k n. r = f\<lparr>fl_ID := k, fl_CreatedAt := timestamptz (now n 0), fl_UpdatedAt := timestamptz (now n 1)\<rparr>) fs fs')"
proof (induction fs arbitrary: i db fs' err db1)
  case (Cons f fs)
  obtain res' db' where i: "insert_new s (now i) f (called db) = (res', db')" by force
  note rows = insert_new_rows [OF i]
  show ?case
  proof (cases "run s ''failed to save file in batch: '' (insert_new s (now i) f) db")
    case (Pair res d)
    show ?thesis
    proof (cases res)
      case (Inl e)
      with Pair i have "d = called db \<or> d = db'" using run_failed by fastforce
      with Cons.prems Pair Inl rows show ?thesis by auto
    next
      case (Inr r)
      with Pair i have d: "d = db'" "res' = Inr r" by (simp_all add: run_good)
      obtain err2 fs2 db2 where rest: "save_all s now (Suc i) fs d = (err2, fs2, db2)" by (metis prod.collapse)
      with Cons.prems(1) Pair Inr have eq: "err = err2" "fs' = r # fs2" "db1 = db2" by auto
      have "files_ok d" using rows Cons.prems(2) d by simp
      from Cons.IH [OF rest this] rows Cons.prems(2) d eq show ?thesis by auto
    qed
  qed
qed simp

lemma save_all_succeeds:
  assumes "\<And>i. sv_up s i" "\<forall>f \<in> set fs. file_text s f \<and> fl_UserID f \<in> set (ft_users db)"
    "\<forall>q \<in> set (ft_files db). fl_ID q < ft_seq db \<and> (\<forall>f \<in> set fs. \<not> (fl_UserID f = fl_UserID q \<and> fl_FilePath f = fl_FilePath q))"
    "distinct (map (\<lambda>f. (fl_UserID f, fl_FilePath f)) fs)"
  shows "fst (save_all s now i fs db) = None"
  using assms(2-)
proof (induction fs arbitrary: i db)
  case (Cons f fs)
  let ?r = "f\<lparr>fl_ID := ft_seq db, fl_CreatedAt := timestamptz (now i 0), fl_UpdatedAt := timestamptz (now i 1)\<rparr>"
  let ?d = "(called db)\<lparr>ft_seq := ft_seq db + 1, ft_files := ft_files db @ [?r]\<rparr>"
  have "\<forall>q \<in> set (ft_files db). \<not> same_key ?r q" using Cons.prems(2) by (fastforce simp: same_key_def)
  then have "insert_new s (now i) f (called db) = (Inr ?r, ?d)"
    using Cons.prems(1) by (simp add: insert_new_def insert_file_good file_text_def)
  then have "run s ''failed to save file in batch: '' (insert_new s (now i) f) db = (Inr ?r, ?d)"
    using assms(1) by (simp add: run_good)
  moreover have "fst (save_all s now (Suc i) fs ?d) = None"
  proof (rule Cons.IH)
    show "\<forall>f \<in> set fs. file_text s f \<and> fl_UserID f \<in> set (ft_users ?d)" using Cons.prems(1) by simp
    have "fl_UserID g = fl_UserID f \<Longrightarrow> fl_FilePath g \<noteq> fl_FilePath f" if "g \<in> set fs" for g
      using Cons.prems(3) that by (auto simp: image_iff)
    then show "\<forall>q \<in> set (ft_files ?d). fl_ID q < ft_seq ?d \<and>
        (\<forall>f \<in> set fs. \<not> (fl_UserID f = fl_UserID q \<and> fl_FilePath f = fl_FilePath q))"
      using Cons.prems(2) by fastforce
    show "distinct (map (\<lambda>f. (fl_UserID f, fl_FilePath f)) fs)" using Cons.prems(3) by simp
  qed
  ultimately show ?case by (simp add: case_prod_beta)
qed simp

text \<open>\<open>BatchSave\<close> is all or nothing: it appends a row for every file, with new keys and the times of its own clock, or leaves
  every row as it was; and it does succeed when the server stays up, the users exist, and the paths are new, also among deleted files.\<close>
theorem BatchSave_atomic:
  assumes "files_ok db"
  shows
    "(case BatchSave s now files db of
        (Inl _, _, db1) \<Rightarrow> ft_files db1 = ft_files db \<and> ft_versions db1 = ft_versions db
      | (Inr _, files', db1) \<Rightarrow> ft_files db1 = ft_files db @ files' \<and> files_ok db1 \<and>
          list_all2 (\<lambda>f r. \<exists>k n. r = f\<lparr>fl_ID := k, fl_CreatedAt := timestamptz (now n 0), fl_UpdatedAt := timestamptz (now n 1)\<rparr>) files files') \<and>
     ((\<forall>i. sv_up s i) \<and> (\<forall>f \<in> set files. file_text s f \<and> fl_UserID f \<in> set (ft_users db)) \<and>
      (\<forall>q \<in> set (ft_files db). fl_ID q < ft_seq db \<and> (\<forall>f \<in> set files. \<not> (fl_UserID f = fl_UserID q \<and> fl_FilePath f = fl_FilePath q))) \<and>
      distinct (map (\<lambda>f. (fl_UserID f, fl_FilePath f)) files) \<longrightarrow>
        (\<exists>files' db1. BatchSave s now files db = (Inr (), files', db1)))"
proof -
  obtain err fs' d where sa: "save_all s now 0 files (called db) = (err, fs', d)" by (metis prod.collapse)
  have rows: "files_ok d \<and> ft_versions d = ft_versions db \<and> (err = None \<longrightarrow> ft_files d = ft_files db @ fs' \<and>
      list_all2 (\<lambda>f r. \<exists>k n. r = f\<lparr>fl_ID := k, fl_CreatedAt := timestamptz (now n 0), fl_UpdatedAt := timestamptz (now n 1)\<rparr>) files fs')"
    using save_all_rows [OF sa] assms by simp
  have "err = None" if "\<forall>i. sv_up s i" "\<forall>f \<in> set files. file_text s f \<and> fl_UserID f \<in> set (ft_users db)"
     "\<forall>q \<in> set (ft_files db). fl_ID q < ft_seq db \<and> (\<forall>f \<in> set files. \<not> (fl_UserID f = fl_UserID q \<and> fl_FilePath f = fl_FilePath q))"
     "distinct (map (\<lambda>f. (fl_UserID f, fl_FilePath f)) files)"
    using save_all_succeeds [of s files "called db" now 0] that sa by simp
  with rows sa show ?thesis
    by (cases err) (auto simp: BatchSave_def run_def stmt_def Let_def rollback_def)
qed

lemma BatchSave_atomic_witness:
  "\<exists>files' db1. BatchSave plain_server (\<lambda>n k. 5000) [example_row 0 ''c'' 0, example_row 0 ''d'' 0] example_tables = (Inr (), files', db1)"
proof (rule BatchSave_atomic [OF example_files_ok, THEN conjunct2, THEN mp], intro conjI)
  show "\<forall>i. sv_up plain_server i" by (simp add: plain_server_def)
  show "\<forall>f \<in> set [example_row 0 ''c'' 0, example_row 0 ''d'' 0]. file_text plain_server f \<and> fl_UserID f \<in> set (ft_users example_tables)"
    by code_simp
  show "\<forall>q \<in> set (ft_files example_tables). fl_ID q < ft_seq example_tables \<and>
     (\<forall>f \<in> set [example_row 0 ''c'' 0, example_row 0 ''d'' 0]. \<not> (fl_UserID f = fl_UserID q \<and> fl_FilePath f = fl_FilePath q))"
    by code_simp
  show "distinct (map (\<lambda>f. (fl_UserID f, fl_FilePath f)) [example_row 0 ''c'' 0, example_row 0 ''d'' 0])"
    by (simp add: example_row_def)
qed

section \<open>Paths\<close>

text \<open>A file that was deleted keeps its path: \<open>FindByPath\<close> does not find it, \<open>Exists\<close> denies it, and \<open>Save\<close> under the path fails, at
  every attempt.\<close>
lemma deleted_path_blocked:
  assumes "files_ok db" "q \<in> set (ft_files db)" "fl_IsDeleted q" "fl_UserID f = fl_UserID q" "fl_FilePath f = fl_FilePath q"
  shows "\<exists>e db1. fr_save s now f db = (Inl e, db1)"
    "sv_up s (ft_calls db) \<Longrightarrow> sv_text s None (fl_FilePath q) \<Longrightarrow> fst (fr_exists s (fl_UserID q) (fl_FilePath q) db) = Inr False"
proof -
  have "\<nexists>r db1. insert_new s now f (called db) = (Inr r, db1)"
    using assms(2-) by (auto simp: insert_new_def insert_file_good same_key_def)
  then show "\<exists>e db1. fr_save s now f db = (Inl e, db1)"
    unfolding fr_save_def
    by (cases "run s ''failed to save file: '' (insert_new s now f) db"; cases "fst (run s ''failed to save file: '' (insert_new s now f) db)")
      (auto simp: run_good)
  have "\<not> (owned (fl_UserID q) r \<and> fl_FilePath r = fl_FilePath q)" if "r \<in> set (ft_files db)" for r
  proof
    assume "owned (fl_UserID q) r \<and> fl_FilePath r = fl_FilePath q"
    with assms(1,2) that have "r = q"
      by (auto simp: files_ok_def clashes_def owned_def distinct_map dest: inj_onD)
    with \<open>owned (fl_UserID q) r \<and> _\<close> assms(3) show False by (simp add: owned_def live_def)
  qed
  then show "fst (fr_exists s (fl_UserID q) (fl_FilePath q) db) = Inr False"
    if "sv_up s (ft_calls db)" "sv_text s None (fl_FilePath q)"
    using that by (auto simp: fr_exists_def run_def stmt_def Let_def select_with_def list_ex_iff)
qed

end
