(* ===== verification/Version_Repository.thy ===== *)
theory Version_Repository
  imports File_Repository
begin

text \<open>
  The repository of file versions (\<^verbatim>\<open>internal/repository/file_version_repository.go\<close>) over the tables of \<open>File_Tables\<close>,
  with the keys and the trigger of \<open>file_versions\<close>.
\<close>

section \<open>Methods\<close>

definition vr_insert :: "pgserver \<Rightarrow> gotime \<Rightarrow> FileVersion \<Rightarrow> tables \<Rightarrow> (gerr + FileVersion) \<times> tables" where
  "vr_insert s now v db =
     insert_version s (v\<lparr>fv_ID := ft_vseq db, fv_CreatedAt := timestamptz now\<rparr>) (db\<lparr>ft_vseq := ft_vseq db + 1\<rparr>)"

definition vr_Save :: "pgserver \<Rightarrow> gotime \<Rightarrow> FileVersion \<Rightarrow> (tables, FileVersion) io" where
  "vr_Save s now v = run s ''failed to save file version: '' (vr_insert s now v)"

definition vr_FindByID :: "pgserver \<Rightarrow> int \<Rightarrow> (tables, FileVersion) io" where
  "vr_FindByID s i =
     one_row (''file version with id '' @ int_text i @ '' not found'')
       (run s ''failed to find file version by id: '' (select_with s [] (select_versions s (\<lambda>v. fv_ID v = i) (\<lambda>_. 0))))"

definition vr_FindByFileID :: "pgserver \<Rightarrow> int \<Rightarrow> (tables, FileVersion list) io" where
  "vr_FindByFileID s fileID =
     run s ''failed to query file versions: ''
       (select_with s [] (select_versions s (\<lambda>v. fv_FileID v = fileID) (\<lambda>v. - fv_VersionNumber v)))"

record FileVersionWithRowNumber =
  rn_FileVersion :: FileVersion
  rn_RowNumber :: int
  rn_TotalVersions :: int

text \<open>The two window functions number the rows of a file by \<open>version_number DESC\<close>, a key within a file, and count them; the outer query
  sorts by the same key.\<close>
definition window_rows :: "FileVersion list \<Rightarrow> FileVersionWithRowNumber list" where
  "window_rows vs =
     map (\<lambda>v. \<lparr>rn_FileVersion = v,
               rn_RowNumber = 1 + int (length (filter (\<lambda>q. fv_VersionNumber q > fv_VersionNumber v) vs)),
               rn_TotalVersions = int (length vs)\<rparr>) vs"

definition GetVersionHistoryWithWindow :: "pgserver \<Rightarrow> int \<Rightarrow> (tables, FileVersionWithRowNumber list) io" where
  "GetVersionHistoryWithWindow s fileID =
     run s ''failed to query version history with window: ''
       (select_with s []
          (\<lambda>db. sort_key (\<lambda>r. - fv_VersionNumber (rn_FileVersion r))
             (window_rows (sv_vscan s (ft_calls db) (filter (\<lambda>v. fv_FileID v = fileID) (ft_versions db))))))"

definition FindCurrent :: "pgserver \<Rightarrow> int \<Rightarrow> (tables, FileVersion) io" where
  "FindCurrent s fileID =
     one_row (''no current version found for file '' @ int_text fileID)
       (run s ''failed to find current version: ''
          (select_with s [] (select_versions s (\<lambda>v. fv_FileID v = fileID \<and> fv_IsCurrent v) (\<lambda>_. 0))))"

text \<open>\<open>UPDATE file_versions SET is_current = true, updated_at = $1\<close>: no migration gives the table a column \<open>updated_at\<close>.\<close>
definition SetAsCurrent :: "pgserver \<Rightarrow> int \<Rightarrow> (tables, unit) io" where
  "SetAsCurrent s versionID =
     run s ''failed to set version as current: '' (\<lambda>db. (Inl (no_column ''updated_at''), db))"

definition vr_Delete :: "pgserver \<Rightarrow> int \<Rightarrow> (tables, unit) io" where
  "vr_Delete s i =
     run s ''failed to delete file version: ''
       (\<lambda>db. (Inr (), db\<lparr>ft_versions := filter (\<lambda>v. fv_ID v \<noteq> i) (ft_versions db)\<rparr>))"

definition FindByChecksum :: "pgserver \<Rightarrow> string \<Rightarrow> (tables, FileVersion list) io" where
  "FindByChecksum s c =
     run s ''failed to query file versions by checksum: ''
       (select_with s [c] (select_versions s (\<lambda>v. fv_ChecksumSHA256 v = c) (\<lambda>v. - fv_CreatedAt v)))"

definition GetVersionCount :: "pgserver \<Rightarrow> int \<Rightarrow> (tables, int) io" where
  "GetVersionCount s fileID =
     run s ''failed to count file versions: ''
       (select_with s [] (\<lambda>db. int (length (filter (\<lambda>v. fv_FileID v = fileID) (ft_versions db)))))"

section \<open>One current version\<close>

text \<open>The keys of \<open>file_versions\<close> and its reference to \<open>files\<close>.\<close>
definition versions_ok :: "tables \<Rightarrow> bool" where
  "versions_ok db \<longleftrightarrow>
     sorted_wrt (\<lambda>v q. \<not> same_version_key v q) (ft_versions db) \<and>
     (\<forall>v \<in> set (ft_versions db). fv_FileID v \<in> fl_ID ` set (ft_files db))"

lemma same_version_key_sym: "same_version_key v q = same_version_key q v"
  by (auto simp: same_version_key_def)

lemma versions_keys:
  assumes "versions_ok db" "v \<in> set (ft_versions db)" "q \<in> set (ft_versions db)" "same_version_key v q"
  shows "v = q"
proof -
  obtain i j where "i < length (ft_versions db)" "j < length (ft_versions db)" "ft_versions db ! i = v" "ft_versions db ! j = q"
    using assms(2,3) by (meson in_set_conv_nth)
  with assms(1,4) show ?thesis
    unfolding versions_ok_def sorted_wrt_iff_nth_less
    by (metis (mono_tags, lifting) nat_neq_iff same_version_key_sym)
qed

lemma insert_version_good:
  assumes "insert_version s v db = (Inr x, db1)" "versions_ok db"
  shows "x = v" "ft_versions db1 = ft_versions db @ [v]" "\<forall>q \<in> set (ft_versions db). \<not> same_version_key v q"
    "ft_files db1 = (if fv_IsCurrent v
       then map (\<lambda>r. if fl_ID r = fv_FileID v then touch s db (r\<lparr>fl_CurrentVersionID := Some (fv_ID v)\<rparr>) else r) (ft_files db)
       else ft_files db)"
    "versions_ok db1"
proof -
  note ins = assms(1)[unfolded insert_version_def]
  have x: "x = v" and new: "\<forall>q \<in> set (ft_versions db). \<not> same_version_key v q"
    and owner: "fv_FileID v \<in> fl_ID ` set (ft_files db)"
    and db1: "db1 = manage_current s v (db\<lparr>ft_versions := ft_versions db @ [v]\<rparr>)"
    using ins by (auto simp: list_ex_iff split: if_splits dest!: sym [of "fl_ID _"])
  have keep: "(if fv_FileID q = fv_FileID v \<and> fv_ID q \<noteq> fv_ID v then q\<lparr>fv_IsCurrent := False\<rparr> else q) = q"
    if "fv_IsCurrent v" "q \<in> set (ft_versions db) \<or> q = v" for q
    using that new
    by (cases "q = v") (auto simp: same_version_key_def intro!: FileVersion.equality)
  show v: "ft_versions db1 = ft_versions db @ [v]"
    using keep by (auto simp: db1 manage_current_def map_idI)
  show f: "ft_files db1 = (if fv_IsCurrent v
       then map (\<lambda>r. if fl_ID r = fv_FileID v then touch s db (r\<lparr>fl_CurrentVersionID := Some (fv_ID v)\<rparr>) else r) (ft_files db)
       else ft_files db)"
    by (simp add: db1 manage_current_def touch_def)
  have "map fl_ID (ft_files db1) = map fl_ID (ft_files db)" by (simp add: f)
  then have "fl_ID ` set (ft_files db1) = fl_ID ` set (ft_files db)" by (metis list.set_map)
  then show "versions_ok db1"
    using assms(2) new owner v by (auto simp: versions_ok_def sorted_wrt_append same_version_key_sym)
  show "x = v" "\<forall>q \<in> set (ft_versions db). \<not> same_version_key v q" by fact+
qed

lemma insert_version_failed: "insert_version s v db = (Inl e, db1) \<Longrightarrow> db1 = db"
  by (auto simp: insert_version_def split: if_splits)
lemma versions_distinct: "versions_ok db \<Longrightarrow> distinct (ft_versions db)"
proof -
  have "sorted_wrt (\<lambda>v q. \<not> same_version_key v q) vs \<Longrightarrow> distinct vs" for vs
    by (induction vs) (auto simp: same_version_key_def)
  then show "versions_ok db \<Longrightarrow> distinct (ft_versions db)" by (simp add: versions_ok_def)
qed

lemma single_list: "set xs = {v} \<Longrightarrow> distinct xs \<Longrightarrow> xs = [v]"
  by (cases xs; cases "tl xs") auto

lemma current_filter:
  assumes "versions_ok db" "v \<in> set (ft_versions db)" "fv_IsCurrent v"
  shows "filter (\<lambda>q. fv_FileID q = fv_FileID v \<and> fv_IsCurrent q) (ft_versions db) = [v]"
proof -
  have d: "distinct (ft_versions db)" using assms(1) by (rule versions_distinct)
  have "set (filter (\<lambda>q. fv_FileID q = fv_FileID v \<and> fv_IsCurrent q) (ft_versions db)) = {v}"
    using assms(2,3) versions_keys [OF assms(1,2), symmetric] by (auto simp: same_version_key_def)
  moreover have "distinct (filter (\<lambda>q. fv_FileID q = fv_FileID v \<and> fv_IsCurrent q) (ft_versions db))" using d by simp
  ultimately show ?thesis by (rule single_list)
qed

lemma FindCurrent_value:
  assumes "server_law s" "sv_up s (ft_calls db)" "versions_ok db"
  shows "fst (FindCurrent s i db) =
    (case find (\<lambda>v. fv_FileID v = i \<and> fv_IsCurrent v) (ft_versions db) of
       None \<Rightarrow> Inl (Errorf (''no current version found for file '' @ int_text i)) | Some v \<Rightarrow> Inr v)"
proof (cases "find (\<lambda>v. fv_FileID v = i \<and> fv_IsCurrent v) (ft_versions db)")
  case None
  then have "filter (\<lambda>v. fv_FileID v = i \<and> fv_IsCurrent v) (ft_versions db) = []" by (simp add: find_None_iff filter_empty_conv)
  moreover have "sv_vscan s k [] = []" for k using assms(1) by (metis mset_zero_iff mset.simps(1) server_law_def)
  ultimately show ?thesis
    using assms(2) None by (simp add: FindCurrent_def one_row_def run_def stmt_def Let_def select_with_def select_versions_def)
next
  case (Some v)
  then have v: "v \<in> set (ft_versions db)" "fv_FileID v = i" "fv_IsCurrent v" by (auto simp: find_Some_iff)
  moreover have "sv_vscan s k [v] = [v]" for k using assms(1) by (metis mset_single_iff_right mset_single_iff server_law_def)
  ultimately show ?thesis
    using assms(2) Some current_filter [OF assms(3) v(1,3)]
    by (simp add: FindCurrent_def one_row_def run_def stmt_def Let_def select_with_def select_versions_def)
qed

lemma files_ok_map:
  "files_ok db \<Longrightarrow> ft_users db1 = ft_users db \<Longrightarrow> ft_files db1 = map g (ft_files db) \<Longrightarrow>
   (\<And>r. fl_ID (g r) = fl_ID r \<and> fl_UserID (g r) = fl_UserID r \<and> fl_FilePath (g r) = fl_FilePath r) \<Longrightarrow> files_ok db1"
  by (simp add: files_ok_def clashes_def o_def)

lemma vr_Save_cases:
  assumes "vr_Save s now v db = (res, db1)" "versions_ok db" "files_ok db"
  obtains (failed) e where "res = Inl e" "ft_versions db1 = ft_versions db" "ft_files db1 = ft_files db"
  | (saved) x where "res = Inr x" "x = v\<lparr>fv_ID := ft_vseq db, fv_CreatedAt := timestamptz now\<rparr>"
      "ft_versions db1 = ft_versions db @ [x]" "\<forall>q \<in> set (ft_versions db). \<not> same_version_key x q"
      "versions_ok db1" "files_ok db1"
      "fv_IsCurrent v \<Longrightarrow> \<forall>r \<in> set (ft_files db1). fl_ID r = fv_FileID v \<longrightarrow> fl_CurrentVersionID r = Some (fv_ID x)"
proof (cases res)
  case (Inl e)
  then have "ft_versions db1 = ft_versions db \<and> ft_files db1 = ft_files db"
    using assms(1) unfolding vr_Save_def
    by (auto simp: vr_insert_def dest!: run_failed insert_version_failed)
  with Inl failed show ?thesis by blast
next
  case (Inr x)
  let ?v = "v\<lparr>fv_ID := ft_vseq db, fv_CreatedAt := timestamptz now\<rparr>" and ?d = "(called db)\<lparr>ft_vseq := ft_vseq db + 1\<rparr>"
  have ins: "insert_version s ?v ?d = (Inr x, db1)"
    using assms(1) Inr by (simp add: vr_Save_def run_good vr_insert_def)
  have d: "versions_ok ?d" "files_ok ?d" using assms(2,3) by (simp_all add: versions_ok_def files_ok_def)
  note g = insert_version_good [OF ins d(1)]
  have u: "ft_users db1 = ft_users ?d"
    using ins by (auto simp: insert_version_def manage_current_def split: if_splits)
  let ?g = "\<lambda>r. if fv_IsCurrent v \<and> fl_ID r = fv_FileID v then touch s ?d (r\<lparr>fl_CurrentVersionID := Some (ft_vseq db)\<rparr>) else r"
  have fs: "ft_files db1 = map ?g (ft_files ?d)" using g(4) by (auto intro: map_idI [symmetric])
  have f1: "files_ok db1" by (rule files_ok_map [OF d(2) u fs]) simp
  have cur: "fv_IsCurrent v \<Longrightarrow> \<forall>r \<in> set (ft_files db1). fl_ID r = fv_FileID v \<longrightarrow> fl_CurrentVersionID r = Some (fv_ID x)"
    using fs g(1) by (auto simp: touch_def)
  have vs: "ft_versions db1 = ft_versions db @ [x]" "\<forall>q \<in> set (ft_versions db). \<not> same_version_key x q"
    using g(1,2,3) by simp_all
  show ?thesis by (rule saved [OF Inr g(1) vs g(5) f1 cur])
qed

text \<open>C34: A file never has two current versions. Every call keeps that and the other keys of the two tables; a version saved as the
  current one is what \<open>FindCurrent\<close> returns afterwards and what the file's row points to; a call that fails leaves both tables as
  they were.\<close>
theorem one_current_version:
  assumes "server_law s" "versions_ok db" "files_ok db"
  shows
    "(\<forall>v \<in> set (ft_versions db). \<forall>q \<in> set (ft_versions db).
        fv_FileID v = fv_FileID q \<and> fv_IsCurrent v \<and> fv_IsCurrent q \<longrightarrow> v = q) \<and>
     (case vr_Save s now v db of
        (Inl _, db1) \<Rightarrow> ft_versions db1 = ft_versions db \<and> ft_files db1 = ft_files db
      | (Inr x, db1) \<Rightarrow> versions_ok db1 \<and> files_ok db1 \<and> ft_versions db1 = ft_versions db @ [x] \<and>
          (fv_IsCurrent v \<longrightarrow>
             (\<forall>r \<in> set (ft_files db1). fl_ID r = fv_FileID v \<longrightarrow> fl_CurrentVersionID r = Some (fv_ID x)) \<and>
             (sv_up s (ft_calls db1) \<longrightarrow> fst (FindCurrent s (fv_FileID v) db1) = Inr x))) \<and>
     versions_ok (snd (vr_Delete s i db)) \<and> versions_ok (snd (SetAsCurrent s i db))"
proof (intro conjI)
  show "\<forall>v \<in> set (ft_versions db). \<forall>q \<in> set (ft_versions db). fv_FileID v = fv_FileID q \<and> fv_IsCurrent v \<and> fv_IsCurrent q \<longrightarrow> v = q"
    using versions_keys [OF assms(2)] by (auto simp: same_version_key_def)
  obtain res db1 where c: "vr_Save s now v db = (res, db1)" by force
  show "case vr_Save s now v db of
        (Inl _, db1) \<Rightarrow> ft_versions db1 = ft_versions db \<and> ft_files db1 = ft_files db
      | (Inr x, db1) \<Rightarrow> versions_ok db1 \<and> files_ok db1 \<and> ft_versions db1 = ft_versions db @ [x] \<and>
          (fv_IsCurrent v \<longrightarrow>
             (\<forall>r \<in> set (ft_files db1). fl_ID r = fv_FileID v \<longrightarrow> fl_CurrentVersionID r = Some (fv_ID x)) \<and>
             (sv_up s (ft_calls db1) \<longrightarrow> fst (FindCurrent s (fv_FileID v) db1) = Inr x))"
    using c assms(2,3)
  proof (cases rule: vr_Save_cases)
    case (saved x)
    have "find (\<lambda>q. fv_FileID q = fv_FileID v \<and> fv_IsCurrent q) (ft_versions db1) = Some x" if "fv_IsCurrent v"
    proof -
      have "find (\<lambda>q. fv_FileID q = fv_FileID v \<and> fv_IsCurrent q) (ft_versions db) = None"
        using saved(2,4) that by (auto simp: find_None_iff same_version_key_def)
      then show ?thesis using saved(2,3) that by (simp add: find_append)
    qed
    with saved FindCurrent_value [OF assms(1) _ saved(5), of "fv_FileID v"] c show ?thesis by simp
  qed (use c in simp)
  have "sorted_wrt (\<lambda>v q. \<not> same_version_key v q) (filter P (ft_versions db))" for P
    using assms(2) by (simp add: versions_ok_def sorted_wrt_filter)
  then show "versions_ok (snd (vr_Delete s i db))"
    using assms(2) by (simp add: vr_Delete_def run_def stmt_def Let_def versions_ok_def)
  show "versions_ok (snd (SetAsCurrent s i db))"
    using assms(2) by (simp add: SetAsCurrent_def run_def stmt_def Let_def versions_ok_def)
qed

definition example_version :: "int \<Rightarrow> int \<Rightarrow> bool \<Rightarrow> FileVersion" where
  "example_version i n current =
     \<lparr>fv_ID = i, fv_FileID = 1, fv_VersionNumber = n, fv_StorageNodeID = None, fv_FileSizeBytes = 10, fv_ChecksumSHA256 = ''ab'',
      fv_StoragePath = ''p'', fv_IsCurrent = current, fv_CreatedAt = 1000\<rparr>"

definition example_versions :: tables where
  "example_versions = example_tables\<lparr>ft_versions := [example_version 1 1 False, example_version 2 2 False], ft_vseq := 3\<rparr>"

lemma example_versions_ok: "versions_ok example_versions" "files_ok example_versions"
  by (simp_all add: versions_ok_def example_versions_def example_version_def same_version_key_def example_tables_def example_row_def
      files_ok_def clashes_def)

lemma one_current_version_witness:
  "let (res, db1) = vr_Save plain_server 5000 (example_version 0 3 True) example_versions
   in res = Inr (example_version 3 3 True\<lparr>fv_CreatedAt := 5000\<rparr>) \<and> fst (FindCurrent plain_server 1 db1) = res"
proof -
  let ?v = "example_version 0 3 True" and ?x = "example_version 3 3 True\<lparr>fv_CreatedAt := 5000\<rparr>"
  have r: "fst (vr_Save plain_server 5000 ?v example_versions) = Inr ?x" by code_simp
  obtain db1 where c: "vr_Save plain_server 5000 ?v example_versions = (Inr ?x, db1)"
    using r by (metis prod.collapse)
  have f: "fv_IsCurrent ?v" "fv_FileID ?v = 1" "sv_up plain_server (ft_calls db1)"
    by (simp_all add: example_version_def plain_server_def)
  show ?thesis
    using one_current_version [OF plain_server_law example_versions_ok, where now = 5000 and v = ?v] c f by simp
qed

section \<open>History\<close>

lemma numbered_rows:
  assumes "sorted_wrt (\<lambda>v q. fv_VersionNumber q < fv_VersionNumber v) vs"
  shows "window_rows vs = map (\<lambda>(k, v). \<lparr>rn_FileVersion = v, rn_RowNumber = 1 + int k, rn_TotalVersions = int (length vs)\<rparr>)
    (zip [0..<length vs] vs)"
proof -
  have cnt: "length (filter (\<lambda>q. fv_VersionNumber q > fv_VersionNumber (vs ! k)) vs) = k" if "k < length vs" for k
  proof -
    have "{i. i < length vs \<and> fv_VersionNumber (vs ! i) > fv_VersionNumber (vs ! k)} = {..<k}"
      using assms that unfolding sorted_wrt_iff_nth_less by (auto, metis not_less_iff_gr_or_eq)
    then show ?thesis by (simp add: length_filter_conv_card)
  qed
  show ?thesis
    unfolding window_rows_def by (rule nth_equalityI) (simp_all add: cnt)
qed

lemma sort_key_map: "sort_key f (map g xs) = map g (sort_key (\<lambda>x. f (g x)) xs)"
proof (induction xs)
  case (Cons a xs)
  have "insort_key f (g a) (map g ys) = map g (insort_key (\<lambda>x. f (g x)) a ys)" for ys by (induction ys) auto
  with Cons show ?case by simp
qed simp

lemma filter_length_mset: "mset xs = mset ys \<Longrightarrow> length (filter P xs) = length (filter P ys)"
  by (metis mset_filter size_mset)

text \<open>\<open>GetVersionHistoryWithWindow\<close> returns what \<open>FindByFileID\<close> returns, the newest version first, numbered from 1 and each with the
  number of versions that \<open>GetVersionCount\<close> tells, in whatever order the server reads the rows for the three queries.\<close>
theorem version_history:
  assumes "server_law s" "versions_ok db" "\<And>i. sv_up s i"
  shows "\<exists>vs. fst (vr_FindByFileID s fileID db) = Inr vs \<and>
     fst (GetVersionCount s fileID db) = Inr (int (length vs)) \<and>
     fst (GetVersionHistoryWithWindow s fileID db) =
       Inr (map (\<lambda>(k, v). \<lparr>rn_FileVersion = v, rn_RowNumber = 1 + int k, rn_TotalVersions = int (length vs)\<rparr>) (zip [0..<length vs] vs)) \<and>
     sorted_wrt (\<lambda>v q. fv_VersionNumber q < fv_VersionNumber v) vs \<and>
     set vs = {v \<in> set (ft_versions db). fv_FileID v = fileID}"
proof -
  let ?P = "\<lambda>v. fv_FileID v = fileID" and ?key = "\<lambda>v. - fv_VersionNumber v"
  let ?vs = "sort_key ?key (filter ?P (ft_versions db))"
  have inj: "inj_on ?key (set (filter ?P (ft_versions db)))"
    using versions_keys [OF assms(2)] by (auto simp: inj_on_def same_version_key_def)
  have one: "sort_key ?key rows = ?vs" if "mset rows = mset (filter ?P (ft_versions db))" for rows
    using that inj mset_eq_setD [OF that] by (intro sort_key_inj_key_eq) simp_all
  have scan: "mset (sv_vscan s k rows) = mset rows" for k rows using assms(1) by (simp add: server_law_def)
  have strict: "sorted_wrt (\<lambda>v q. fv_VersionNumber q < fv_VersionNumber v) ?vs"
  proof -
    have d: "distinct (filter ?P (ft_versions db))" using versions_distinct [OF assms(2)] by simp
    have "sorted (map ?key ?vs)" by simp
    moreover have "distinct (map ?key ?vs)" using inj d by (simp add: distinct_map)
    ultimately have "sorted_wrt (<) (map ?key ?vs)" by (simp add: strict_sorted_iff)
    then show ?thesis by (simp add: sorted_wrt_map)
  qed
  have hist: "sort_key (\<lambda>r. - fv_VersionNumber (rn_FileVersion r)) (window_rows rows) = window_rows ?vs"
    if m: "mset rows = mset (filter ?P (ft_versions db))" for rows
  proof -
    let ?g = "\<lambda>v. \<lparr>rn_FileVersion = v, rn_RowNumber = 1 + int (length (filter (\<lambda>q. fv_VersionNumber q > fv_VersionNumber v) ?vs)),
               rn_TotalVersions = int (length ?vs)\<rparr>"
    have mv: "mset rows = mset ?vs" using m by simp
    have w: "window_rows rows = map ?g rows" "window_rows ?vs = map ?g ?vs"
      using filter_length_mset [OF mv] mset_eq_length [OF mv] by (simp_all add: window_rows_def)
    have "sort_key (\<lambda>r. - fv_VersionNumber (rn_FileVersion r)) (map ?g rows) = map ?g (sort_key ?key rows)"
      by (simp add: sort_key_map o_def)
    then show ?thesis using one [OF m] w by simp
  qed
  show ?thesis
    using assms(3) one [OF scan] hist [OF scan] strict numbered_rows [OF strict]
    by (intro exI [of _ ?vs])
      (simp add: vr_FindByFileID_def GetVersionCount_def GetVersionHistoryWithWindow_def run_def stmt_def Let_def select_with_def select_versions_def)
qed

lemma version_history_witness:
  "\<exists>vs. fst (vr_FindByFileID plain_server 1 example_versions) = Inr vs \<and> length vs = 2 \<and>
     fst (GetVersionCount plain_server 1 example_versions) = Inr 2"
proof -
  obtain vs where vs: "fst (vr_FindByFileID plain_server 1 example_versions) = Inr vs"
    "fst (GetVersionCount plain_server 1 example_versions) = Inr (int (length vs))"
    using version_history [OF plain_server_law example_versions_ok(1), of 1] by (auto simp: plain_server_def)
  have "fst (GetVersionCount plain_server 1 example_versions) = Inr 2" by code_simp
  with vs show ?thesis by auto
qed

section \<open>What cannot be done\<close>

text \<open>The index over the current versions is checked before the trigger could make room: while a file has a current version no other can be
  saved as current, and \<open>SetAsCurrent\<close> never succeeds.\<close>
lemma current_cannot_change:
  assumes "q \<in> set (ft_versions db)" "fv_IsCurrent q" "fv_FileID v = fv_FileID q" "fv_IsCurrent v"
  shows "\<exists>e db1. vr_Save s now v db = (Inl e, db1)" "\<exists>e db1. SetAsCurrent s i db = (Inl e, db1)"
proof -
  have "\<not> (\<exists>x db1. vr_insert s now v (called db) = (Inr x, db1))"
    using assms by (auto simp: vr_insert_def insert_version_def list_ex_iff same_version_key_def split: if_splits)
  then show "\<exists>e db1. vr_Save s now v db = (Inl e, db1)"
    unfolding vr_Save_def
    by (cases "run s ''failed to save file version: '' (vr_insert s now v) db"; cases "fst (run s ''failed to save file version: '' (vr_insert s now v) db)")
      (auto simp: run_good)
  show "\<exists>e db1. SetAsCurrent s i db = (Inl e, db1)" by (auto simp: SetAsCurrent_def run_def stmt_def Let_def)
qed

end
