(* ===== verification/Batch_Repository.thy ===== *)
theory Batch_Repository
  imports Version_Repository
begin

text \<open>
  Batches of rows (\<^verbatim>\<open>internal/repository/batch_operations.go\<close>) over the tables of \<open>File_Tables\<close>. The caller chooses the
  numbers of the rows; the sequences of the tables do not notice. \<open>CopyFrom\<close> is one statement. The results of a batch that was sent on a
  connection must be closed before the connection is used again (package pgx): until then \<open>Commit\<close> fails.
\<close>

section \<open>Methods\<close>

record BatchFile =
  bf_ID :: int
  bf_UserID :: int
  bf_FilePath :: string
  bf_FileName :: string
  bf_FileSizeBytes :: int
  bf_MimeType :: string
  bf_ChecksumMD5 :: string
  bf_ChecksumSHA256 :: string
  bf_IsDeleted :: bool
  bf_CurrentVersionID :: "int option"
  bf_CreatedAt :: gotime
  bf_UpdatedAt :: gotime

definition batch_row :: "BatchFile \<Rightarrow> FileRow" where
  "batch_row f =
     \<lparr>fl_ID = bf_ID f, fl_UserID = bf_UserID f, fl_FilePath = bf_FilePath f, fl_FileName = bf_FileName f,
      fl_FileSizeBytes = bf_FileSizeBytes f, fl_MimeType = Some (bf_MimeType f), fl_ChecksumMD5 = Some (bf_ChecksumMD5 f),
      fl_ChecksumSHA256 = Some (bf_ChecksumSHA256 f), fl_IsDeleted = bf_IsDeleted f, fl_CurrentVersionID = bf_CurrentVersionID f,
      fl_CreatedAt = timestamptz (bf_CreatedAt f), fl_UpdatedAt = timestamptz (bf_UpdatedAt f)\<rparr>"

text \<open>One \<open>COPY\<close>: row after row, and no row if one of them is refused.\<close>
primrec copy_rows :: "('r \<Rightarrow> tables \<Rightarrow> (gerr + 'r) \<times> tables) \<Rightarrow> 'r list \<Rightarrow> tables \<Rightarrow> gerr + tables" where
  "copy_rows ins [] db = Inr db"
| "copy_rows ins (r # rs) db =
     (case ins r db of (Inl err, _) \<Rightarrow> Inl err | (Inr _, db1) \<Rightarrow> copy_rows ins rs db1)"

definition copy_from :: "('r \<Rightarrow> tables \<Rightarrow> (gerr + 'r) \<times> tables) \<Rightarrow> 'r list \<Rightarrow> tables \<Rightarrow> (gerr + int) \<times> tables" where
  "copy_from ins rs db =
     (case copy_rows ins rs db of Inl err \<Rightarrow> (Inl err, db) | Inr db1 \<Rightarrow> (Inr (int (length rs)), db1))"

definition BatchInsertFiles :: "pgserver \<Rightarrow> BatchFile list \<Rightarrow> (tables, int) io" where
  "BatchInsertFiles s files db =
     (if files = [] then (Inr 0, db)
      else run s ''failed to batch insert files: '' (copy_from (insert_file s) (map batch_row files)) db)"

record BatchFileVersion =
  bv_ID :: int
  bv_FileID :: int
  bv_VersionNumber :: int
  bv_StorageNodeID :: "int option"
  bv_FileSizeBytes :: int
  bv_ChecksumSHA256 :: string
  bv_StoragePath :: string
  bv_IsCurrent :: bool
  bv_CreatedAt :: gotime

definition batch_version :: "BatchFileVersion \<Rightarrow> FileVersion" where
  "batch_version v =
     \<lparr>fv_ID = bv_ID v, fv_FileID = bv_FileID v, fv_VersionNumber = bv_VersionNumber v, fv_StorageNodeID = bv_StorageNodeID v,
      fv_FileSizeBytes = bv_FileSizeBytes v, fv_ChecksumSHA256 = bv_ChecksumSHA256 v, fv_StoragePath = bv_StoragePath v,
      fv_IsCurrent = bv_IsCurrent v, fv_CreatedAt = timestamptz (bv_CreatedAt v)\<rparr>"

definition BatchInsertFileVersions :: "pgserver \<Rightarrow> BatchFileVersion list \<Rightarrow> (tables, int) io" where
  "BatchInsertFileVersions s versions db =
     (if versions = [] then (Inr 0, db)
      else run s ''failed to batch insert file versions: '' (copy_from (insert_version s) (map batch_version versions)) db)"

record FileUpdate =
  fu_ID :: int
  fu_UserID :: int
  fu_FileName :: string
  fu_FileSizeBytes :: int

text \<open>A batch of statements on one connection; \<open>n\<close> counts them, the result is the number of rows they touched.\<close>
primrec send_batch ::
  "pgserver \<Rightarrow> string \<Rightarrow> nat \<Rightarrow> (tables \<Rightarrow> (gerr + int) \<times> tables) list \<Rightarrow> int \<Rightarrow> (tables, int) io" where
  "send_batch s msg n [] rows db = (Inr rows, db)"
| "send_batch s msg n (q # qs) rows db =
     (case run s (msg @ nat_text n @ '': '') q db of
        (Inl err, db1) \<Rightarrow> (Inl err, db1)
      | (Inr k, db1) \<Rightarrow> send_batch s msg (Suc n) qs (rows + k) db1)"

text \<open>\<open>Begin\<close>, the batch, and \<open>Commit\<close> while \<open>results\<close> is open: \<open>results.Close()\<close> is deferred and runs only when the method returns.\<close>
definition batch_tx ::
  "pgserver \<Rightarrow> string \<Rightarrow> (tables \<Rightarrow> (gerr + int) \<times> tables) list \<Rightarrow> (tables, int) io" where
  "batch_tx s msg qs db =
     (case run s ''failed to begin transaction: '' (\<lambda>db. (Inr (), db)) db of
        (Inl err, db1) \<Rightarrow> (Inl err, db1)
      | (Inr _, db1) \<Rightarrow>
     (case send_batch s msg 0 qs 0 db1 of
        (Inl err, db2) \<Rightarrow> (Inl err, rollback db db2)
      | (Inr n, db2) \<Rightarrow> (Inl (Wrapf ''failed to commit transaction: '' (Errorf ''conn busy'')), rollback db db2)))"

definition update_one :: "pgserver \<Rightarrow> FileUpdate \<Rightarrow> tables \<Rightarrow> (gerr + int) \<times> tables" where
  "update_one s u db =
     (if \<not> sv_text s None (fu_FileName u) then (Inl bad_text, db)
      else case update_files s (\<lambda>r. fl_ID r = fu_ID u \<and> fl_UserID r = fu_UserID u)
             (\<lambda>r. r\<lparr>fl_FileName := fu_FileName u, fl_FileSizeBytes := fu_FileSizeBytes u\<rparr>) db of
          (Inl err, db1) \<Rightarrow> (Inl err, db1) | (Inr n, db1) \<Rightarrow> (Inr (int n), db1))"

definition BatchUpdateFiles :: "pgserver \<Rightarrow> FileUpdate list \<Rightarrow> (tables, unit) io" where
  "BatchUpdateFiles s updates db =
     (if updates = [] then (Inr (), db)
      else case batch_tx s ''failed to update file at index '' (map (update_one s) updates) db of
          (Inl err, db1) \<Rightarrow> (Inl err, db1) | (Inr _, db1) \<Rightarrow> (Inr (), db1))"

definition BatchDeleteFiles :: "pgserver \<Rightarrow> int list \<Rightarrow> int \<Rightarrow> (tables, unit) io" where
  "BatchDeleteFiles s fileIDs userID db =
     (if fileIDs = [] then (Inr (), db)
      else case run s ''failed to batch delete files: ''
             (update_files s (\<lambda>r. fl_ID r \<in> set fileIDs \<and> fl_UserID r = userID) (\<lambda>r. r\<lparr>fl_IsDeleted := True\<rparr>)) db of
          (Inl err, db1) \<Rightarrow> (Inl err, db1) | (Inr _, db1) \<Rightarrow> (Inr (), db1))"

text \<open>\<open>INSERT \<dots> ON CONFLICT (id) DO UPDATE\<close>: a row with the number is changed, whoever owns it; owner, path and deletion stay.\<close>
definition upsert_file :: "pgserver \<Rightarrow> BatchFile \<Rightarrow> tables \<Rightarrow> (gerr + int) \<times> tables" where
  "upsert_file s f db =
     (let r = batch_row f in
      if \<not> file_text s r then (Inl bad_text, db)
      else if list_ex (\<lambda>q. fl_ID q = bf_ID f) (ft_files db)
      then case update_files s (\<lambda>q. fl_ID q = bf_ID f)
             (\<lambda>q. q\<lparr>fl_FileName := fl_FileName r, fl_FileSizeBytes := fl_FileSizeBytes r, fl_MimeType := fl_MimeType r,
                    fl_ChecksumMD5 := fl_ChecksumMD5 r, fl_ChecksumSHA256 := fl_ChecksumSHA256 r,
                    fl_CurrentVersionID := fl_CurrentVersionID r\<rparr>) db of
          (Inl err, db1) \<Rightarrow> (Inl err, db1) | (Inr n, db1) \<Rightarrow> (Inr (int n), db1)
      else case insert_file s r db of (Inl err, db1) \<Rightarrow> (Inl err, db1) | (Inr _, db1) \<Rightarrow> (Inr 1, db1))"

definition BatchUpsertFiles :: "pgserver \<Rightarrow> BatchFile list \<Rightarrow> (tables, int) io" where
  "BatchUpsertFiles s files db =
     (if files = [] then (Inr 0, db)
      else batch_tx s ''failed to upsert file at index '' (map (upsert_file s) files) db)"

section \<open>Copies\<close>

lemma copy_files:
  "copy_rows (insert_file s) rs db = Inr db1 \<Longrightarrow> files_ok db \<Longrightarrow>
     files_ok db1 \<and> ft_files db1 = ft_files db @ rs \<and> ft_versions db1 = ft_versions db"
proof (induction rs arbitrary: db)
  case (Cons r rs)
  then obtain x d where i: "insert_file s r db = (Inr x, d)" "copy_rows (insert_file s) rs d = Inr db1"
    by (auto split: prod.splits sum.splits)
  have "files_ok d" "ft_files d = ft_files db @ [r]" "ft_versions d = ft_versions db"
    using i(1) Cons.prems(2) by (auto simp: insert_file_good files_ok_def clashes_append)
  with Cons.IH [OF i(2)] show ?case by simp
qed simp

lemma copy_versions:
  "copy_rows (insert_version s) vs db = Inr db1 \<Longrightarrow> versions_ok db \<Longrightarrow>
     versions_ok db1 \<and> ft_versions db1 = ft_versions db @ vs"
proof (induction vs arbitrary: db)
  case (Cons v vs)
  then obtain x d where i: "insert_version s v db = (Inr x, d)" "copy_rows (insert_version s) vs d = Inr db1"
    by (auto split: prod.splits sum.splits)
  note g = insert_version_good [OF i(1) Cons.prems(2)]
  with Cons.IH [OF i(2)] show ?case by simp
qed simp

text \<open>A batch of files or versions is copied whole or not at all: the number returned is that of the rows, they stand in the table in
  their order, and its keys hold; a batch that is refused leaves every row as it was. \<open>BatchDeleteFiles\<close> marks exactly the user's own
  files among those named.\<close>
theorem batches_atomic:
  assumes "files_ok db" "versions_ok db"
  shows
    "(case BatchInsertFiles s files db of
        (Inl _, db1) \<Rightarrow> ft_files db1 = ft_files db \<and> ft_versions db1 = ft_versions db
      | (Inr n, db1) \<Rightarrow> n = int (length files) \<and> ft_files db1 = ft_files db @ map batch_row files \<and> files_ok db1) \<and>
     (case BatchInsertFileVersions s versions db of
        (Inl _, db1) \<Rightarrow> ft_files db1 = ft_files db \<and> ft_versions db1 = ft_versions db
      | (Inr n, db1) \<Rightarrow> n = int (length versions) \<and> ft_versions db1 = ft_versions db @ map batch_version versions \<and> versions_ok db1) \<and>
     (case BatchDeleteFiles s ids userID db of
        (Inl _, db1) \<Rightarrow> ft_files db1 = ft_files db
      | (Inr _, db1) \<Rightarrow> map fl_ID (ft_files db1) = map fl_ID (ft_files db) \<and>
          map fl_IsDeleted (ft_files db1) =
            map (\<lambda>r. fl_IsDeleted r \<or> fl_ID r \<in> set ids \<and> fl_UserID r = userID) (ft_files db))"
proof (intro conjI)
  show "case BatchInsertFiles s files db of
        (Inl _, db1) \<Rightarrow> ft_files db1 = ft_files db \<and> ft_versions db1 = ft_versions db
      | (Inr n, db1) \<Rightarrow> n = int (length files) \<and> ft_files db1 = ft_files db @ map batch_row files \<and> files_ok db1"
    using assms(1) copy_files [of s "map batch_row files" "called db"]
    by (auto simp: BatchInsertFiles_def run_def stmt_def Let_def copy_from_def split: sum.splits)
  have v: "versions_ok (called db)" using assms(2) by (simp add: versions_ok_def)
  show "case BatchInsertFileVersions s versions db of
        (Inl _, db1) \<Rightarrow> ft_files db1 = ft_files db \<and> ft_versions db1 = ft_versions db
      | (Inr n, db1) \<Rightarrow> n = int (length versions) \<and> ft_versions db1 = ft_versions db @ map batch_version versions \<and> versions_ok db1"
    using assms(2) v copy_versions [of s "map batch_version versions" "called db"]
    by (auto simp: BatchInsertFileVersions_def run_def stmt_def Let_def copy_from_def split: sum.splits)
  show "case BatchDeleteFiles s ids userID db of
        (Inl _, db1) \<Rightarrow> ft_files db1 = ft_files db
      | (Inr _, db1) \<Rightarrow> map fl_ID (ft_files db1) = map fl_ID (ft_files db) \<and>
          map fl_IsDeleted (ft_files db1) =
            map (\<lambda>r. fl_IsDeleted r \<or> fl_ID r \<in> set ids \<and> fl_UserID r = userID) (ft_files db)"
    by (auto simp: BatchDeleteFiles_def run_def stmt_def Let_def o_def split: sum.splits prod.splits
        dest!: update_files_good update_files_failed)
qed

lemma batches_atomic_witness:
  "case BatchDeleteFiles plain_server [1, 5] 7 example_versions of
     (Inl _, _) \<Rightarrow> False | (Inr _, db1) \<Rightarrow> map fl_IsDeleted (ft_files db1) = [True, False]"
proof -
  obtain res db1 where c: "BatchDeleteFiles plain_server [1, 5] 7 example_versions = (res, db1)" by (metis prod.collapse)
  have "fst (BatchDeleteFiles plain_server [1, 5] 7 example_versions) = Inr ()" by code_simp
  with c have r: "res = Inr ()" by simp
  have "map (\<lambda>r. fl_IsDeleted r \<or> fl_ID r \<in> set [1, 5] \<and> fl_UserID r = 7) (ft_files example_versions) = [True, False]"
    by (simp add: example_versions_def example_tables_def example_row_def)
  with batches_atomic [OF example_versions_ok(2,1), where s = plain_server and ids = "[1, 5]" and userID = 7] c r
  show ?thesis by simp
qed

section \<open>What cannot be done\<close>

text \<open>\<open>BatchUpdateFiles\<close> and \<open>BatchUpsertFiles\<close> never succeed and never change a row, unless they are given nothing to do.\<close>
lemma batch_tx_never:
  assumes "batch_tx s msg qs db = (res, db1)"
  shows "\<exists>e. res = Inl e" "ft_files db1 = ft_files db"
  using assms by (auto simp: batch_tx_def run_def stmt_def Let_def rollback_def split: if_splits sum.splits prod.splits)

text \<open>Numbers the caller chose collide with those the sequence gives later: \<open>Save\<close> fails then.\<close>
lemma copied_number_blocks_save:
  assumes "q \<in> set (ft_files db)" "fl_ID q = ft_seq db"
  shows "\<exists>e db1. fr_save s now f db = (Inl e, db1)"
proof -
  have "\<not> (\<exists>r db1. insert_new s now f (called db) = (Inr r, db1))"
    using assms by (auto simp: insert_new_def insert_file_good same_key_def intro!: bexI [of _ q])
  then show ?thesis
    unfolding fr_save_def
    by (cases "run s ''failed to save file: '' (insert_new s now f) db"; cases "fst (run s ''failed to save file: '' (insert_new s now f) db)")
      (auto simp: run_good)
qed

end
