(* ===== verification/Use_Cases.thy ===== *)
theory Use_Cases
  imports Sync_Service
begin

text \<open>
  The use cases (\<^verbatim>\<open>internal/usecase\<close>) over the repositories of \<open>Sync_Service\<close>: synchronising a list of files with the first
  suitable strategy, the builder of jobs, and synchronising one file. Every call of \<open>FindByID\<close> returns an object of its own.
  The \<open>i\<close>-th file is marked at the time \<open>now i\<close>.
\<close>

section \<open>Strategies\<close>

text \<open>The values of the event maps.\<close>
datatype event_value = TextValue string | IntValue int

type_synonym use_event = "(string, event_value) fmap"

record 'w SyncStrategy =
  sg_Name :: string
  sg_CanHandle :: "StorageNodeID \<Rightarrow> StorageNodeID \<Rightarrow> bool"
  sg_Sync :: "(nat \<Rightarrow> gotime) \<Rightarrow> StorageNodeID \<Rightarrow> StorageNodeID \<Rightarrow> File list \<Rightarrow> ('w, unit) io"

definition uc_syncFile :: "'w FileRepository \<Rightarrow> gotime \<Rightarrow> File \<Rightarrow> ('w, File) io" where
  "uc_syncFile repo now f = fr_Save repo (MarkAsSynced now f)"

definition sync_failed :: "File \<Rightarrow> gerr \<Rightarrow> gerr" where
  "sync_failed f err = Wrapf (''failed to sync file '' @ fp_value (f_FilePath f) @ '': '') err"

text \<open>The loop of both strategies over the files for which \<open>sel\<close> holds.\<close>
primrec sync_each :: "'w FileRepository \<Rightarrow> (File \<Rightarrow> bool) \<Rightarrow> (nat \<Rightarrow> gotime) \<Rightarrow> nat \<Rightarrow> File list \<Rightarrow> ('w, unit) io" where
  "sync_each repo sel now i [] w = (Inr (), w)"
| "sync_each repo sel now i (f # fs) w =
     (if sel f
      then case uc_syncFile repo (now i) f w of
          (Inl err, w1) \<Rightarrow> (Inl (sync_failed f err), w1)
        | (Inr _, w1) \<Rightarrow> sync_each repo sel now (Suc i) fs w1
      else sync_each repo sel now (Suc i) fs w)"

definition Incremental_Sync :: "'w FileRepository \<Rightarrow> (nat \<Rightarrow> gotime) \<Rightarrow> StorageNodeID \<Rightarrow> StorageNodeID \<Rightarrow> File list \<Rightarrow> ('w, unit) io" where
  "Incremental_Sync repo now source target files = sync_each repo (\<lambda>f. f_FileStatus f = FileModified) now 0 files"

definition IncrementalSyncStrategy :: "'w FileRepository \<Rightarrow> 'w SyncStrategy" where
  "IncrementalSyncStrategy repo =
     \<lparr>sg_Name = ''incremental'', sg_CanHandle = \<lambda>source target. True, sg_Sync = Incremental_Sync repo\<rparr>"

definition Full_Sync :: "'w FileRepository \<Rightarrow> (nat \<Rightarrow> gotime) \<Rightarrow> StorageNodeID \<Rightarrow> StorageNodeID \<Rightarrow> File list \<Rightarrow> ('w, unit) io" where
  "Full_Sync repo now source target files = sync_each repo (\<lambda>f. True) now 0 files"

definition FullSyncStrategy :: "'w FileRepository \<Rightarrow> 'w SyncStrategy" where
  "FullSyncStrategy repo =
     \<lparr>sg_Name = ''full'', sg_CanHandle = \<lambda>source target. True, sg_Sync = Full_Sync repo\<rparr>"

section \<open>Synchronising files\<close>

record 'w SyncUseCase =
  uc_fileRepo :: "'w FileRepository"
  uc_nodeRepo :: "'w StorageNodeRepository"
  uc_conflictRepo :: "'w ConflictRepository"
  uc_Publish :: "use_event \<Rightarrow> ('w, unit) io"
  uc_strategies :: "'w SyncStrategy list"

definition NewSyncUseCase ::
  "'w FileRepository \<Rightarrow> 'w StorageNodeRepository \<Rightarrow> 'w ConflictRepository \<Rightarrow> (use_event \<Rightarrow> ('w, unit) io) \<Rightarrow> 'w SyncUseCase" where
  "NewSyncUseCase fileRepo nodeRepo conflictRepo publish =
     \<lparr>uc_fileRepo = fileRepo, uc_nodeRepo = nodeRepo, uc_conflictRepo = conflictRepo, uc_Publish = publish, uc_strategies = []\<rparr>"

definition AddStrategy :: "'w SyncStrategy \<Rightarrow> 'w SyncUseCase \<Rightarrow> 'w SyncUseCase" where
  "AddStrategy strategy uc = uc\<lparr>uc_strategies := uc_strategies uc @ [strategy]\<rparr>"

definition selectStrategy :: "'w SyncUseCase \<Rightarrow> StorageNodeID \<Rightarrow> StorageNodeID \<Rightarrow> 'w SyncStrategy option" where
  "selectStrategy uc source target = find (\<lambda>s. sg_CanHandle s source target) (uc_strategies uc)"

primrec getFiles :: "'w SyncUseCase \<Rightarrow> FileID list \<Rightarrow> ('w, File list) io" where
  "getFiles uc [] w = (Inr [], w)"
| "getFiles uc (fileID # rest) w =
     (case fr_FindByID (uc_fileRepo uc) fileID w of
        (Inl err, w1) \<Rightarrow> (Inl (Wrapf (''failed to find file '' @ fi_value fileID @ '': '') err), w1)
      | (Inr f, w1) \<Rightarrow>
          (case getFiles uc rest w1 of
             (Inl err, w2) \<Rightarrow> (Inl err, w2)
           | (Inr files, w2) \<Rightarrow> (Inr (f # files), w2)))"

definition completed_event :: "StorageNodeID \<Rightarrow> StorageNodeID \<Rightarrow> File list \<Rightarrow> string \<Rightarrow> use_event" where
  "completed_event source target files name =
     fmap_of_list [(''type'', TextValue ''sync_completed''), (''source'', TextValue (sn_value source)),
       (''target'', TextValue (sn_value target)), (''file_count'', IntValue (int (length files))), (''strategy'', TextValue name)]"

definition SyncFiles :: "(nat \<Rightarrow> gotime) \<Rightarrow> 'w SyncUseCase \<Rightarrow> StorageNodeID \<Rightarrow> StorageNodeID \<Rightarrow> FileID list \<Rightarrow> ('w, unit) io" where
  "SyncFiles now uc source target fileIDs w =
     (case nr_FindByID (uc_nodeRepo uc) source w of
        (Inl err, w1) \<Rightarrow> (Inl (Wrapf ''source node not found: '' err), w1)
      | (Inr sourceNode, w1) \<Rightarrow>
     (case nr_FindByID (uc_nodeRepo uc) target w1 of
        (Inl err, w2) \<Rightarrow> (Inl (Wrapf ''target node not found: '' err), w2)
      | (Inr targetNode, w2) \<Rightarrow>
          if \<not> IsOnline sourceNode \<or> \<not> IsOnline targetNode then (Inl (Errorf ''both nodes must be online for sync''), w2)
          else case getFiles uc fileIDs w2 of
              (Inl err, w3) \<Rightarrow> (Inl (Wrapf ''failed to get files: '' err), w3)
            | (Inr files, w3) \<Rightarrow>
                (case selectStrategy uc source target of
                   None \<Rightarrow> (Inl (Errorf ''no suitable sync strategy found''), w3)
                 | Some strategy \<Rightarrow>
                     (case sg_Sync strategy now source target files w3 of
                        (Inl err, w4) \<Rightarrow> (Inl (Wrapf ''sync failed: '' err), w4)
                      | (Inr _, w4) \<Rightarrow> uc_Publish uc (completed_event source target files (sg_Name strategy)) w4))))"

section \<open>Building jobs\<close>

record SyncJobBuilder =
  jb_sourceNode :: StorageNodeID
  jb_targetNode :: StorageNodeID
  jb_fileIDs :: "FileID list"
  jb_priority :: JobPriority
  jb_retryCount :: int
  jb_timeout :: int
  jb_metadata :: "(string, string) fmap"
  jb_errors :: "gerr list"

definition NewSyncJobBuilder :: SyncJobBuilder where
  "NewSyncJobBuilder =
     \<lparr>jb_sourceNode = \<lparr>sn_value = []\<rparr>, jb_targetNode = \<lparr>sn_value = []\<rparr>, jb_fileIDs = [], jb_priority = PriorityNormal,
      jb_retryCount = 3, jb_timeout = 30 * 60 * 1000000000, jb_metadata = fmempty, jb_errors = []\<rparr>"

definition jb_SourceNode :: "StorageNodeID \<Rightarrow> SyncJobBuilder \<Rightarrow> SyncJobBuilder" where
  "jb_SourceNode nodeID b = b\<lparr>jb_sourceNode := nodeID\<rparr>"

definition jb_TargetNode :: "StorageNodeID \<Rightarrow> SyncJobBuilder \<Rightarrow> SyncJobBuilder" where
  "jb_TargetNode nodeID b = b\<lparr>jb_targetNode := nodeID\<rparr>"

definition jb_Files :: "FileID list \<Rightarrow> SyncJobBuilder \<Rightarrow> SyncJobBuilder" where
  "jb_Files fileIDs b = b\<lparr>jb_fileIDs := fileIDs\<rparr>"

definition HighPriority :: "SyncJobBuilder \<Rightarrow> SyncJobBuilder" where
  "HighPriority b = b\<lparr>jb_priority := PriorityHigh\<rparr>"

definition WithRetries :: "int \<Rightarrow> SyncJobBuilder \<Rightarrow> SyncJobBuilder" where
  "WithRetries count b =
     (if count < 0 then b\<lparr>jb_errors := jb_errors b @ [Errorf ''retry count must be non-negative'']\<rparr>
      else b\<lparr>jb_retryCount := count\<rparr>)"

definition jb_Timeout :: "int \<Rightarrow> SyncJobBuilder \<Rightarrow> SyncJobBuilder" where
  "jb_Timeout duration b =
     (if duration \<le> 0 then b\<lparr>jb_errors := jb_errors b @ [Errorf ''timeout must be positive'']\<rparr>
      else b\<lparr>jb_timeout := duration\<rparr>)"

definition jb_Metadata :: "string \<Rightarrow> string \<Rightarrow> SyncJobBuilder \<Rightarrow> SyncJobBuilder" where
  "jb_Metadata key v b = b\<lparr>jb_metadata := fmupd key v (jb_metadata b)\<rparr>"

definition build_errors :: "gerr list \<Rightarrow> gerr" where
  "build_errors errs = Errorf (''build errors: ['' @ join_with CHR '' '' (map err_text errs) @ '']'')"

definition Build :: "(nat \<Rightarrow> string) \<Rightarrow> gotime \<Rightarrow> SyncJobBuilder \<Rightarrow> gerr + SyncJob" where
  "Build rnd now b =
     (if jb_errors b \<noteq> [] then Inl (build_errors (jb_errors b))
      else if sn_value (jb_sourceNode b) = [] then Inl (Errorf ''source node is required'')
      else if sn_value (jb_targetNode b) = [] then Inl (Errorf ''target node is required'')
      else if jb_fileIDs b = [] then Inl (Errorf ''at least one file is required'')
      else
        let job = NewSyncJob rnd now (jb_sourceNode b) (jb_targetNode b) (jb_fileIDs b);
            job = (if jb_priority b \<noteq> PriorityNormal then SetPriority (jb_priority b) job else job);
            job = (if jb_retryCount b \<noteq> 3 then SetRetryCount (jb_retryCount b) job else job);
            job = (if jb_timeout b \<noteq> 30 * 60 * 1000000000 then SetTimeout (jb_timeout b) job else job)
        in Inr (fold (\<lambda>k. job_SetMetadata k (the (fmlookup (jb_metadata b) k))) (range_keys (jb_metadata b)) job))"

section \<open>Synchronising one file\<close>

record FileUseCaseConfig =
  cfg_maxConcurrentSyncs :: int
  cfg_syncTimeout :: int
  cfg_enableCompression :: bool
  cfg_retryAttempts :: int

type_synonym FileUseCaseOption = "FileUseCaseConfig \<Rightarrow> FileUseCaseConfig"

definition WithMaxConcurrentSyncs :: "int \<Rightarrow> FileUseCaseOption" where
  "WithMaxConcurrentSyncs n config = config\<lparr>cfg_maxConcurrentSyncs := n\<rparr>"
definition WithSyncTimeout :: "int \<Rightarrow> FileUseCaseOption" where
  "WithSyncTimeout timeout config = config\<lparr>cfg_syncTimeout := timeout\<rparr>"
definition WithCompression :: "bool \<Rightarrow> FileUseCaseOption" where
  "WithCompression enabled config = config\<lparr>cfg_enableCompression := enabled\<rparr>"
definition WithRetryAttempts :: "int \<Rightarrow> FileUseCaseOption" where
  "WithRetryAttempts attempts config = config\<lparr>cfg_retryAttempts := attempts\<rparr>"

record 'w FileUseCase =
  fu_fileRepo :: "'w FileRepository"
  fu_nodeRepo :: "'w StorageNodeRepository"
  fu_Publish :: "use_event \<Rightarrow> ('w, unit) io"
  fu_config :: FileUseCaseConfig

definition NewFileUseCase ::
  "'w FileRepository \<Rightarrow> 'w StorageNodeRepository \<Rightarrow> (use_event \<Rightarrow> ('w, unit) io) \<Rightarrow> FileUseCaseOption list \<Rightarrow> 'w FileUseCase" where
  "NewFileUseCase fileRepo nodeRepo publish opts =
     \<lparr>fu_fileRepo = fileRepo, fu_nodeRepo = nodeRepo, fu_Publish = publish,
      fu_config = fold (\<lambda>opt. opt) opts
        \<lparr>cfg_maxConcurrentSyncs = 5, cfg_syncTimeout = 30 * 60 * 1000000000, cfg_enableCompression = False, cfg_retryAttempts = 3\<rparr>\<rparr>"

definition synced_event :: "FileID \<Rightarrow> StorageNodeID \<Rightarrow> StorageNodeID \<Rightarrow> File \<Rightarrow> use_event" where
  "synced_event fileID source target f =
     fmap_of_list [(''type'', TextValue ''file_synced''), (''file_id'', TextValue (fi_value fileID)),
       (''source'', TextValue (sn_value source)), (''target'', TextValue (sn_value target)), (''size'', IntValue (f_FileSize f))]"

definition SyncFile :: "gotime \<Rightarrow> 'w FileUseCase \<Rightarrow> FileID \<Rightarrow> StorageNodeID \<Rightarrow> StorageNodeID \<Rightarrow> ('w, unit) io" where
  "SyncFile now uc fileID sourceNode targetNode w =
     (case fr_FindByID (fu_fileRepo uc) fileID w of
        (Inl err, w1) \<Rightarrow> (Inl (Wrapf ''file not found: '' err), w1)
      | (Inr f, w1) \<Rightarrow>
     (case nr_FindByID (fu_nodeRepo uc) sourceNode w1 of
        (Inl err, w2) \<Rightarrow> (Inl (Wrapf ''source node not found: '' err), w2)
      | (Inr src, w2) \<Rightarrow>
     (case nr_FindByID (fu_nodeRepo uc) targetNode w2 of
        (Inl err, w3) \<Rightarrow> (Inl (Wrapf ''target node not found: '' err), w3)
      | (Inr tgt, w3) \<Rightarrow>
          if \<not> IsOnline src \<or> \<not> IsOnline tgt then (Inl (Errorf ''nodes must be online''), w3)
          else if \<not> HasEnoughSpace tgt (f_FileSize f) then (Inl (Errorf ''insufficient space on target node''), w3)
          else case uc_syncFile (fu_fileRepo uc) now f w3 of
              (Inl err, w4) \<Rightarrow> (Inl (Wrapf ''sync failed: '' err), w4)
            | (Inr f', w4) \<Rightarrow> fu_Publish uc (synced_event fileID sourceNode targetNode f') w4)))"

definition GetFileStatus :: "'w FileUseCase \<Rightarrow> FileID \<Rightarrow> ('w, File) io" where
  "GetFileStatus uc fileID = fr_FindByID (fu_fileRepo uc) fileID"

definition uc_ListFiles :: "'w FileUseCase \<Rightarrow> StorageNodeID \<Rightarrow> ('w, File list) io" where
  "uc_ListFiles uc nodeID = fr_FindByNode (fu_fileRepo uc) nodeID"

section \<open>What the use cases promise\<close>

text \<open>What the interface of the repository promises of its files, \<open>view w\<close>: \<open>FindByID\<close> reads one, \<open>Save\<close> writes one, a call that fails
  changes none.\<close>
definition repo_laws :: "'w FileRepository \<Rightarrow> ('w \<Rightarrow> FileID \<Rightarrow> File option) \<Rightarrow> bool" where
  "repo_laws r view \<longleftrightarrow>
     (\<forall>i w. case fr_FindByID r i w of
        (Inr f, w1) \<Rightarrow> view w i = Some f \<and> f_FileID f = i \<and> view w1 = view w | (Inl _, w1) \<Rightarrow> view w1 = view w) \<and>
     (\<forall>f w. case fr_Save r f w of
        (Inr f1, w1) \<Rightarrow> f1 = f \<and> view w1 = (view w)(f_FileID f \<mapsto> f) | (Inl _, w1) \<Rightarrow> view w1 = view w)"

text \<open>A call that has nothing to do with files.\<close>
definition quiet :: "('w \<Rightarrow> FileID \<Rightarrow> File option) \<Rightarrow> ('w, 'a) io \<Rightarrow> bool" where
  "quiet view op \<longleftrightarrow> (\<forall>w. view (snd (op w)) = view w)"

lemma FindByID_law:
  assumes "repo_laws r view" "fr_FindByID r i w = (res, w1)"
  shows "view w1 = view w" "\<And>f. res = Inr f \<Longrightarrow> view w i = Some f \<and> f_FileID f = i"
  using assms(1) [unfolded repo_laws_def, THEN conjunct1, THEN spec [of _ i], THEN spec [of _ w]] assms(2) by (cases res; simp)+

lemma Save_law:
  assumes "repo_laws r view" "fr_Save r f w = (res, w1)"
  shows "\<And>e. res = Inl e \<Longrightarrow> view w1 = view w" "\<And>x. res = Inr x \<Longrightarrow> x = f \<and> view w1 = (view w)(f_FileID f \<mapsto> f)"
  using assms(1) [unfolded repo_laws_def, THEN conjunct2, THEN spec [of _ f], THEN spec [of _ w]] assms(2) by simp_all

lemma quiet_law: "quiet view op \<Longrightarrow> op w = (res, w1) \<Longrightarrow> view w1 = view w"
  by (metis quiet_def snd_conv)

lemma getFiles_view:
  assumes "repo_laws (uc_fileRepo uc) view" "getFiles uc ids w = (res, w1)"
  shows "view w1 = view w \<and> (\<forall>fs. res = Inr fs \<longrightarrow> map f_FileID fs = ids \<and> (\<forall>f \<in> set fs. view w (f_FileID f) = Some f))"
  using assms(2)
proof (induction ids arbitrary: w res w1)
  case (Cons i ids)
  obtain r1 w2 where f: "fr_FindByID (uc_fileRepo uc) i w = (r1, w2)" by force
  note law = FindByID_law [OF assms(1) f]
  show ?case
  proof (cases r1)
    case (Inr x)
    obtain r2 w3 where g: "getFiles uc ids w2 = (r2, w3)" by force
    have v: "view w2 = view w" "view w i = Some x" "f_FileID x = i" using law Inr by simp_all
    show ?thesis
    proof (cases r2)
      case (Inl e)
      with Cons.prems f Inr g have "res = Inl e" "w1 = w3" using \<open>r1 = Inr x\<close> by simp_all
      with Cons.IH [OF g] v show ?thesis by simp
    next
      case (Inr fs)
      with Cons.prems f g \<open>r1 = Inr x\<close> have "res = Inr (x # fs)" "w1 = w3" by simp_all
      with Cons.IH [OF g] Inr v show ?thesis by simp
    qed
  next
    case (Inl e)
    with Cons.prems f law show ?thesis by auto
  qed
qed simp

text \<open>What the marks on \<open>fs\<close> may have made of the files.\<close>
definition marks :: "(File \<Rightarrow> bool) \<Rightarrow> File set \<Rightarrow> (FileID \<Rightarrow> File option) \<Rightarrow> (FileID \<Rightarrow> File option) \<Rightarrow> bool" where
  "marks sel fs v v1 \<longleftrightarrow> (\<forall>i. v1 i = v i \<or> (\<exists>f t. f \<in> fs \<and> sel f \<and> f_FileID f = i \<and> v1 i = Some (MarkAsSynced t f)))"

lemma sync_each_view:
  assumes "repo_laws r view" "sync_each r sel now k fs w = (res, w1)"
  shows "marks sel (set fs) (view w) (view w1) \<and>
    (res = Inr () \<longrightarrow> (\<forall>f \<in> set fs. sel f \<longrightarrow> (\<exists>g t. g \<in> set fs \<and> f_FileID g = f_FileID f \<and> view w1 (f_FileID f) = Some (MarkAsSynced t g))))"
  using assms(2)
proof (induction fs arbitrary: k w)
  case (Cons f fs)
  show ?case
  proof (cases "sel f")
    case False
    with Cons.IH [of "Suc k" w] Cons.prems show ?thesis by (fastforce simp: marks_def)
  next
    case True
    let ?f = "MarkAsSynced (now k) f"
    obtain r1 w2 where s: "fr_Save r ?f w = (r1, w2)" by force
    note law = Save_law [OF assms(1) s]
    have id: "f_FileID ?f = f_FileID f" by (simp add: MarkAsSynced_def)
    show ?thesis
    proof (cases r1)
      case (Inl e)
      with Cons.prems True s law show ?thesis by (auto simp: uc_syncFile_def marks_def)
    next
      case (Inr x)
      then have rest: "sync_each r sel now (Suc k) fs w2 = (res, w1)" using Cons.prems True s by (simp add: uc_syncFile_def)
      have v: "view w2 = (view w)(f_FileID f \<mapsto> ?f)" using law(2) [OF Inr] id by simp
      note ih = Cons.IH [OF rest]
      have m: "marks sel (set (f # fs)) (view w) (view w1)"
        using ih v True unfolding marks_def by (metis fun_upd_apply list.set_intros)
      have "\<exists>g t. g \<in> set (f # fs) \<and> f_FileID g = f_FileID f \<and> view w1 (f_FileID f) = Some (MarkAsSynced t g)"
        using ih v unfolding marks_def by (metis fun_upd_same list.set_intros)
      with m ih show ?thesis by (metis list.set_intros(2) set_ConsD)
    qed
  qed
qed (simp add: marks_def)

lemma SyncFiles_view:
  assumes "repo_laws (uc_fileRepo uc) view" "\<And>n. quiet view (nr_FindByID (uc_nodeRepo uc) n)" "\<And>e. quiet view (uc_Publish uc e)"
    "\<And>fs w. sg_Sync strategy now source target fs w = sync_each (uc_fileRepo uc) sel now 0 fs w"
    "selectStrategy uc source target = Some strategy"
    "SyncFiles now uc source target ids w = (res, w1)"
  shows "(\<forall>i. view w1 i = view w i \<or> (\<exists>f t. i \<in> set ids \<and> view w i = Some f \<and> sel f \<and> view w1 i = Some (MarkAsSynced t f))) \<and>
    (res = Inr () \<longrightarrow> (\<forall>i \<in> set ids. \<exists>f. view w i = Some f \<and> (sel f \<longrightarrow> (\<exists>t. view w1 i = Some (MarkAsSynced t f)))))"
proof -
  obtain r1 w2 where n1: "nr_FindByID (uc_nodeRepo uc) source w = (r1, w2)" by force
  obtain r2 w3 where n2: "nr_FindByID (uc_nodeRepo uc) target w2 = (r2, w3)" by force
  obtain r3 w4 where g: "getFiles uc ids w3 = (r3, w4)" by force
  have v: "view w2 = view w" "view w3 = view w" "view w4 = view w"
    using quiet_law [OF assms(2) n1] quiet_law [OF assms(2) n2] getFiles_view [OF assms(1) g] by simp_all
  show ?thesis
  proof (cases "\<exists>s t fs. r1 = Inr s \<and> r2 = Inr t \<and> IsOnline s \<and> IsOnline t \<and> r3 = Inr fs")
    case False
    then have "w1 = w2 \<or> w1 = w3 \<or> w1 = w4" "res \<noteq> Inr ()"
      using assms(6) n1 n2 g by (auto simp: SyncFiles_def split: sum.splits if_splits)
    with v show ?thesis by auto
  next
    case True
    then obtain fs where ok: "r3 = Inr fs" by blast
    obtain r5 w5 where s: "sync_each (uc_fileRepo uc) sel now 0 fs w4 = (r5, w5)" by force
    have fs: "map f_FileID fs = ids" "\<forall>f \<in> set fs. view w (f_FileID f) = Some f"
      using getFiles_view [OF assms(1) g] ok v by simp_all
    note m = sync_each_view [OF assms(1) s, unfolded v]
    have "view w1 = view w5 \<and> (res = Inr () \<longrightarrow> r5 = Inr ())"
      using assms(6) True n1 n2 g ok s assms(4,5) quiet_law [OF assms(3)]
      by (auto simp: SyncFiles_def split: sum.splits)
    note last_step = this
    have ids: "f_FileID f \<in> set ids" if "f \<in> set fs" for f using fs(1) that by (metis image_eqI list.set_map)
    have "view w1 i = view w i \<or> (\<exists>f t. i \<in> set ids \<and> view w i = Some f \<and> sel f \<and> view w1 i = Some (MarkAsSynced t f))" for i
      using last_step m fs(2) ids unfolding marks_def by metis
    moreover have "\<exists>f. view w i = Some f \<and> (sel f \<longrightarrow> (\<exists>t. view w1 i = Some (MarkAsSynced t f)))" if "res = Inr ()" "i \<in> set ids" for i
    proof -
      obtain f where f: "f \<in> set fs" "f_FileID f = i" using fs(1) \<open>i \<in> set ids\<close> by (metis imageE list.set_map)
      have "\<exists>t. view w1 i = Some (MarkAsSynced t f)" if "sel f"
      proof -
        obtain g t where "g \<in> set fs" "f_FileID g = i" "view w5 i = Some (MarkAsSynced t g)"
          using m f \<open>sel f\<close> last_step \<open>res = Inr ()\<close> by blast
        moreover have "g = f" using fs(2) f calculation by (metis option.inject)
        ultimately show ?thesis using last_step by metis
      qed
      then show ?thesis using fs(2) f by blast
    qed
    ultimately show ?thesis by blast
  qed
qed

text \<open>\<open>SyncFiles\<close> touches only the files it is given and only by marking them as synchronised. With the full strategy first, success
  means that every one of them was found and marked; with the incremental strategy first, exactly those that were modified are. When it
  fails on the way, each of the files is either as it was or marked.\<close>
theorem SyncFiles_marks:
  assumes "repo_laws (uc_fileRepo uc) view" "\<And>n. quiet view (nr_FindByID (uc_nodeRepo uc) n)" "\<And>e. quiet view (uc_Publish uc e)"
    "uc_strategies uc = strategy # rest"
    "strategy = FullSyncStrategy (uc_fileRepo uc) \<and> sel = (\<lambda>f. True) \<or>
     strategy = IncrementalSyncStrategy (uc_fileRepo uc) \<and> sel = (\<lambda>f. f_FileStatus f = FileModified)"
    "SyncFiles now uc source target ids w = (res, w1)"
  shows "(\<forall>i. view w1 i = view w i \<or> (\<exists>f t. i \<in> set ids \<and> view w i = Some f \<and> sel f \<and> view w1 i = Some (MarkAsSynced t f))) \<and>
    (res = Inr () \<longrightarrow> (\<forall>i \<in> set ids. \<exists>f. view w i = Some f \<and> (sel f \<longrightarrow> (\<exists>t. view w1 i = Some (MarkAsSynced t f)))))"
proof (rule SyncFiles_view [OF assms(1-3) _ _ assms(6)])
  show "sg_Sync strategy now source target fs w = sync_each (uc_fileRepo uc) sel now 0 fs w" for fs w
    using assms(5) by (auto simp: FullSyncStrategy_def IncrementalSyncStrategy_def Full_Sync_def Incremental_Sync_def)
  show "selectStrategy uc source target = Some strategy"
    using assms(4,5) by (auto simp: selectStrategy_def FullSyncStrategy_def IncrementalSyncStrategy_def)
qed

definition example_nodes :: "StorageNode list" where
  "example_nodes = map (\<lambda>n. SetOnline 0 (NewStorageNode n 0 n NodeLocal [] 100)) [''a'', ''b'']"

definition example_use_case :: "File list SyncUseCase" where
  "example_use_case =
     (let s = list_service example_nodes
      in AddStrategy (IncrementalSyncStrategy (sv_fileRepo s))
           (NewSyncUseCase (sv_fileRepo s) (sv_nodeRepo s) (sv_conflictRepo s) (\<lambda>e w. (Inr (), w))))"

definition list_view :: "File list \<Rightarrow> FileID \<Rightarrow> File option" where
  "list_view w i = find (\<lambda>f. f_FileID f = i) w"

lemma list_repo_laws: "repo_laws (sv_fileRepo (list_service nodes)) list_view"
proof -
  have "list_view (filter (\<lambda>g. f_FileID g \<noteq> k) w) i = (if i = k then None else list_view w i)" for k w i
    by (induction w) (auto simp: list_view_def find_None_iff)
  then show ?thesis
    by (auto simp: repo_laws_def list_service_def list_view_def fun_eq_iff find_Some_iff split: option.splits)
qed

lemma SyncFiles_marks_witness:
  "let ids = map f_FileID [example_file ''a'' ''/x'' ''h1'' 1 FileModified]; a = NewStorageNodeID ''a''; b = NewStorageNodeID ''b'';
       (res, w1) = SyncFiles (\<lambda>_. 7) example_use_case a b ids [example_file ''a'' ''/x'' ''h1'' 1 FileModified]
   in res = Inr () \<and> (\<forall>i \<in> set ids. \<exists>f t. list_view w1 i = Some (MarkAsSynced t f))"
proof -
  let ?f = "example_file ''a'' ''/x'' ''h1'' 1 FileModified"
  let ?a = "NewStorageNodeID ''a''" and ?b = "NewStorageNodeID ''b''"
  let ?S = "SyncFiles (\<lambda>_. 7) example_use_case ?a ?b [f_FileID ?f] [?f]"
  have r: "fst ?S = Inr ()" by code_simp
  then obtain w1 where c: "?S = (Inr (), w1)" by (metis prod.collapse)
  have uc: "uc_fileRepo example_use_case = sv_fileRepo (list_service example_nodes)"
    "uc_strategies example_use_case = [IncrementalSyncStrategy (uc_fileRepo example_use_case)]"
    "quiet list_view (nr_FindByID (uc_nodeRepo example_use_case) n)" "quiet list_view (uc_Publish example_use_case e)" for n e
    by (simp_all add: example_use_case_def AddStrategy_def NewSyncUseCase_def Let_def quiet_def list_service_def)
  have "list_view [?f] (f_FileID ?f) = Some ?f" "f_FileStatus ?f = FileModified" by (simp_all add: list_view_def example_file_def)
  with SyncFiles_marks [OF _ uc(3,4,2) _ c, of "\<lambda>f. f_FileStatus f = FileModified"] uc(1) list_repo_laws [of example_nodes] c
  show ?thesis by (auto simp: Let_def)
qed

text \<open>\<open>Build\<close> refuses a builder with an invalid setting, without nodes or without files, and otherwise makes a new job with exactly the
  builder's settings, also where they are the defaults that the constructor sets.\<close>
theorem Build_exact:
  "case Build rnd now b of
     Inl e \<Rightarrow> jb_errors b \<noteq> [] \<or> sn_value (jb_sourceNode b) = [] \<or> sn_value (jb_targetNode b) = [] \<or> jb_fileIDs b = []
   | Inr job \<Rightarrow> jb_errors b = [] \<and> sn_value (jb_sourceNode b) \<noteq> [] \<and> sn_value (jb_targetNode b) \<noteq> [] \<and> jb_fileIDs b \<noteq> [] \<and>
       job = (NewSyncJob rnd now (jb_sourceNode b) (jb_targetNode b) (jb_fileIDs b))
         \<lparr>j_priority := jb_priority b, j_retryCount := jb_retryCount b, j_timeout := jb_timeout b, j_metadata := jb_metadata b\<rparr>"
proof -
  have meta: "fold (\<lambda>k. job_SetMetadata k (the (fmlookup m k))) ks job =
      job\<lparr>j_metadata := fold (\<lambda>k. fmupd k (the (fmlookup m k))) ks (j_metadata job)\<rparr>" for m ks and job :: SyncJob
    by (induction ks arbitrary: job) (simp_all add: job_SetMetadata_def)
  have all: "fold (\<lambda>k. fmupd k (the (fmlookup m k))) (range_keys m) fmempty = m" for m :: "(string, string) fmap"
  proof (rule fmap_ext)
    fix k
    have "fmlookup (fold (\<lambda>k. fmupd k (the (fmlookup m k))) ks m0) k =
        (if k \<in> set ks then Some (the (fmlookup m k)) else fmlookup m0 k)" for ks m0
      by (induction ks arbitrary: m0) auto
    then show "fmlookup (fold (\<lambda>k. fmupd k (the (fmlookup m k))) (range_keys m) fmempty) k = fmlookup m k"
      by (auto simp: fmlookup_dom_iff dest: fmdom_notI)
  qed
  show ?thesis
    by (simp add: Build_def Let_def meta all SetPriority_def SetRetryCount_def SetTimeout_def NewSyncJob_def)
qed

end
