(* ===== verification/Sync_Audit.thy ===== *)
theory Sync_Audit
  imports Use_Cases
begin

text \<open>
  The audit log: its entries (\<^verbatim>\<open>internal/domain/entities/syncaudit.go\<close>), the events it is fed with
  (\<^verbatim>\<open>internal/domain/domainevents/audit_events.go\<close>), the service that turns events into entries
  (\<^verbatim>\<open>internal/domain/services/audit_service.go\<close>) and the repository on MongoDB
  (\<^verbatim>\<open>internal/infrastructure/mongodb/syncaudit_repository.go\<close>). Parameters are \<open>fromHex\<close>, the driver's
  \<open>ObjectIDFromHex\<close>, which takes exactly the texts of 24 hexadecimal digits, and the server: which commands reach it and
  in what order it reads documents. An \<open>ObjectID\<close> is its twelve bytes; \<open>oid\<close> is what \<open>NewObjectID\<close> returns. Values of
  \<open>Metadata\<close> are texts and integers.
\<close>

section \<open>Entries\<close>

type_synonym ObjectID = string

record SyncOperation =
  so_Type :: string
  so_Direction :: string
  so_Protocol :: string
  so_Options :: "(string, event_value) fmap option"

record ErrorInfo =
  ei_Code :: string
  ei_Message :: string
  ei_StackTrace :: string
  ei_Retryable :: bool
  ei_Category :: string

record SyncAudit =
  sa_ID :: ObjectID
  sa_Timestamp :: gotime
  sa_EventType :: string
  sa_Status :: string
  sa_SyncJobID :: "ObjectID option"
  sa_FileID :: "ObjectID option"
  sa_SourceNodeID :: "ObjectID option"
  sa_TargetNodeID :: "ObjectID option"
  sa_FileName :: "string option"
  sa_FilePath :: "string option"
  sa_FileSize :: "int option"
  sa_FileHash :: "string option"
  sa_Operation :: "SyncOperation option"
  sa_Duration :: "int option"
  sa_BytesTransferred :: "int option"
  sa_Error :: "ErrorInfo option"
  sa_RetryCount :: "int option"
  sa_Metadata :: "(string, event_value) fmap"
  sa_UserID :: "string option"
  sa_SessionID :: "string option"
  sa_ClientIP :: "string option"
  sa_UserAgent :: "string option"
  sa_NodeID :: "string option"
  sa_Version :: "string option"
  sa_Environment :: "string option"

definition StatusSuccess :: string where "StatusSuccess = ''success''"
definition StatusFailed :: string where "StatusFailed = ''failed''"
definition StatusPending :: string where "StatusPending = ''pending''"
definition DirectionPush :: string where "DirectionPush = ''PUSH''"
definition AuditEventTypeSyncStarted :: string where "AuditEventTypeSyncStarted = ''audit_sync_started''"
definition AuditEventTypeSyncCompleted :: string where "AuditEventTypeSyncCompleted = ''audit_sync_completed''"
definition AuditEventTypeSyncFailed :: string where "AuditEventTypeSyncFailed = ''audit_sync_failed''"
definition AuditEventTypeConflictDetected :: string where "AuditEventTypeConflictDetected = ''audit_conflict_detected''"
definition AuditEventTypeConflictResolved :: string where "AuditEventTypeConflictResolved = ''audit_conflict_resolved''"
definition AuditEventTypeFileCreated :: string where "AuditEventTypeFileCreated = ''audit_file_created''"
definition AuditEventTypeFileUpdated :: string where "AuditEventTypeFileUpdated = ''audit_file_updated''"

definition NewSyncAudit :: "ObjectID \<Rightarrow> gotime \<Rightarrow> string \<Rightarrow> string \<Rightarrow> SyncAudit" where
  "NewSyncAudit oid now eventType status =
     \<lparr>sa_ID = oid, sa_Timestamp = now, sa_EventType = eventType, sa_Status = status, sa_SyncJobID = None, sa_FileID = None,
      sa_SourceNodeID = None, sa_TargetNodeID = None, sa_FileName = None, sa_FilePath = None, sa_FileSize = None,
      sa_FileHash = None, sa_Operation = None, sa_Duration = None, sa_BytesTransferred = None, sa_Error = None,
      sa_RetryCount = None, sa_Metadata = fmempty, sa_UserID = None, sa_SessionID = None, sa_ClientIP = None,
      sa_UserAgent = None, sa_NodeID = None, sa_Version = None, sa_Environment = None\<rparr>"

definition WithSyncJob :: "ObjectID \<Rightarrow> SyncAudit \<Rightarrow> SyncAudit" where
  "WithSyncJob i sa = sa\<lparr>sa_SyncJobID := Some i\<rparr>"

definition WithFile :: "ObjectID \<Rightarrow> string \<Rightarrow> string \<Rightarrow> int \<Rightarrow> string \<Rightarrow> SyncAudit \<Rightarrow> SyncAudit" where
  "WithFile i name path sz h sa =
     sa\<lparr>sa_FileID := Some i, sa_FileName := Some name, sa_FilePath := Some path, sa_FileSize := Some sz, sa_FileHash := Some h\<rparr>"

definition WithNodes :: "ObjectID \<Rightarrow> ObjectID \<Rightarrow> SyncAudit \<Rightarrow> SyncAudit" where
  "WithNodes s t sa = sa\<lparr>sa_SourceNodeID := Some s, sa_TargetNodeID := Some t\<rparr>"

definition WithOperation :: "string \<Rightarrow> string \<Rightarrow> string \<Rightarrow> (string, event_value) fmap option \<Rightarrow> SyncAudit \<Rightarrow> SyncAudit" where
  "WithOperation opType direction protocol options sa =
     sa\<lparr>sa_Operation := Some \<lparr>so_Type = opType, so_Direction = direction, so_Protocol = protocol, so_Options = options\<rparr>\<rparr>"

definition WithDuration :: "int \<Rightarrow> SyncAudit \<Rightarrow> SyncAudit" where
  "WithDuration d sa = sa\<lparr>sa_Duration := Some d\<rparr>"

definition WithBytesTransferred :: "int \<Rightarrow> SyncAudit \<Rightarrow> SyncAudit" where
  "WithBytesTransferred n sa = sa\<lparr>sa_BytesTransferred := Some n\<rparr>"

definition WithError :: "string \<Rightarrow> string \<Rightarrow> string \<Rightarrow> string \<Rightarrow> bool \<Rightarrow> SyncAudit \<Rightarrow> SyncAudit" where
  "WithError code message stackTrace category retryable sa =
     sa\<lparr>sa_Error := Some \<lparr>ei_Code = code, ei_Message = message, ei_StackTrace = stackTrace, ei_Retryable = retryable,
                          ei_Category = category\<rparr>\<rparr>"

definition WithRetryCount :: "int \<Rightarrow> SyncAudit \<Rightarrow> SyncAudit" where
  "WithRetryCount n sa = sa\<lparr>sa_RetryCount := Some n\<rparr>"

definition WithMetadata :: "string \<Rightarrow> event_value \<Rightarrow> SyncAudit \<Rightarrow> SyncAudit" where
  "WithMetadata key v sa = sa\<lparr>sa_Metadata := fmupd key v (sa_Metadata sa)\<rparr>"

definition WithUserContext :: "string \<Rightarrow> string \<Rightarrow> string \<Rightarrow> string \<Rightarrow> SyncAudit \<Rightarrow> SyncAudit" where
  "WithUserContext userID sessionID clientIP userAgent sa =
     sa\<lparr>sa_UserID := Some userID, sa_SessionID := Some sessionID, sa_ClientIP := Some clientIP, sa_UserAgent := Some userAgent\<rparr>"

definition WithSystemContext :: "string \<Rightarrow> string \<Rightarrow> string \<Rightarrow> SyncAudit \<Rightarrow> SyncAudit" where
  "WithSystemContext nodeID version environment sa =
     sa\<lparr>sa_NodeID := Some nodeID, sa_Version := Some version, sa_Environment := Some environment\<rparr>"

definition IsSuccess :: "SyncAudit \<Rightarrow> bool" where "IsSuccess sa \<longleftrightarrow> sa_Status sa = StatusSuccess"
definition IsFailed :: "SyncAudit \<Rightarrow> bool" where "IsFailed sa \<longleftrightarrow> sa_Status sa = StatusFailed"
definition HasError :: "SyncAudit \<Rightarrow> bool" where "HasError sa \<longleftrightarrow> sa_Error sa \<noteq> None"
definition or_zero :: "int option \<Rightarrow> int" where "or_zero x = (case x of None \<Rightarrow> 0 | Some n \<Rightarrow> n)"
definition GetDurationMs :: "SyncAudit \<Rightarrow> int" where "GetDurationMs sa = or_zero (sa_Duration sa)"
definition GetBytesTransferred :: "SyncAudit \<Rightarrow> int" where "GetBytesTransferred sa = or_zero (sa_BytesTransferred sa)"
definition GetRetryCount :: "SyncAudit \<Rightarrow> int" where "GetRetryCount sa = or_zero (sa_RetryCount sa)"

section \<open>Events\<close>

record AuditEvent =
  ae_ID :: string
  ae_EventType :: string
  ae_Timestamp :: gotime
  ae_AggregateID :: string
  ae_Version :: int

record SyncJobStartedEvent = AuditEvent +
  js_SyncJobID :: SyncJobID
  js_SourceNodeID :: StorageNodeID
  js_TargetNodeID :: StorageNodeID
  js_FileCount :: int
  js_UserID :: string

record SyncJobCompletedEvent = AuditEvent +
  jc_SyncJobID :: SyncJobID
  jc_SourceNodeID :: StorageNodeID
  jc_TargetNodeID :: StorageNodeID
  jc_FilesProcessed :: int
  jc_FilesSkipped :: int
  jc_BytesTransferred :: int
  jc_Duration :: int
  jc_UserID :: string

record SyncJobFailedEvent = AuditEvent +
  jf_SyncJobID :: SyncJobID
  jf_SourceNodeID :: StorageNodeID
  jf_TargetNodeID :: StorageNodeID
  jf_ErrorCode :: string
  jf_ErrorMessage :: string
  jf_Retryable :: bool
  jf_UserID :: string

record FileSyncStartedEvent = AuditEvent +
  fs_FileID :: FileID
  fs_FileName :: string
  fs_FilePath :: string
  fs_FileSize :: int
  fs_FileHash :: string
  fs_SourceNodeID :: StorageNodeID
  fs_TargetNodeID :: StorageNodeID
  fs_Operation :: string
  fs_UserID :: string

record FileSyncCompletedEvent = AuditEvent +
  fc_FileID :: FileID
  fc_FileName :: string
  fc_FilePath :: string
  fc_FileSize :: int
  fc_FileHash :: string
  fc_SourceNodeID :: StorageNodeID
  fc_TargetNodeID :: StorageNodeID
  fc_Operation :: string
  fc_BytesTransferred :: int
  fc_Duration :: int
  fc_UserID :: string

record FileSyncFailedEvent = AuditEvent +
  fx_FileID :: FileID
  fx_FileName :: string
  fx_FilePath :: string
  fx_SourceNodeID :: StorageNodeID
  fx_TargetNodeID :: StorageNodeID
  fx_Operation :: string
  fx_ErrorCode :: string
  fx_ErrorMessage :: string
  fx_Retryable :: bool
  fx_RetryCount :: int
  fx_UserID :: string

record ConflictDetectedEvent = AuditEvent +
  ce_ConflictID :: ConflictID
  ce_FileID :: FileID
  ce_FileName :: string
  ce_SourceNodeID :: StorageNodeID
  ce_TargetNodeID :: StorageNodeID
  ce_ConflictType :: string
  ce_Description :: string
  ce_UserID :: string

record ConflictResolvedEvent = AuditEvent +
  cx_ConflictID :: ConflictID
  cx_FileID :: FileID
  cx_SourceNodeID :: StorageNodeID
  cx_TargetNodeID :: StorageNodeID
  cx_Resolution :: string
  cx_ResolvedBy :: string
  cx_UserID :: string

text \<open>The constructors; \<open>hex\<close> is \<open>NewObjectID().Hex()\<close>. \<open>Data\<close> is always an empty map and left out.\<close>

definition NewSyncJobStartedEvent ::
  "string \<Rightarrow> gotime \<Rightarrow> SyncJobID \<Rightarrow> StorageNodeID \<Rightarrow> StorageNodeID \<Rightarrow> int \<Rightarrow> string \<Rightarrow> SyncJobStartedEvent" where
  "NewSyncJobStartedEvent hex now i s t n u =
     \<lparr>ae_ID = hex, ae_EventType = AuditEventTypeSyncStarted, ae_Timestamp = now, ae_AggregateID = sj_value i, ae_Version = 1,
      js_SyncJobID = i, js_SourceNodeID = s, js_TargetNodeID = t, js_FileCount = n, js_UserID = u\<rparr>"

definition NewSyncJobCompletedEvent ::
  "string \<Rightarrow> gotime \<Rightarrow> SyncJobID \<Rightarrow> StorageNodeID \<Rightarrow> StorageNodeID \<Rightarrow> int \<Rightarrow> int \<Rightarrow> int \<Rightarrow> int \<Rightarrow> string \<Rightarrow> SyncJobCompletedEvent" where
  "NewSyncJobCompletedEvent hex now i s t processed skipped bytes duration u =
     \<lparr>ae_ID = hex, ae_EventType = AuditEventTypeSyncCompleted, ae_Timestamp = now, ae_AggregateID = sj_value i, ae_Version = 1,
      jc_SyncJobID = i, jc_SourceNodeID = s, jc_TargetNodeID = t, jc_FilesProcessed = processed, jc_FilesSkipped = skipped,
      jc_BytesTransferred = bytes, jc_Duration = duration, jc_UserID = u\<rparr>"

definition NewSyncJobFailedEvent ::
  "string \<Rightarrow> gotime \<Rightarrow> SyncJobID \<Rightarrow> StorageNodeID \<Rightarrow> StorageNodeID \<Rightarrow> string \<Rightarrow> string \<Rightarrow> bool \<Rightarrow> string \<Rightarrow> SyncJobFailedEvent" where
  "NewSyncJobFailedEvent hex now i s t code message retryable u =
     \<lparr>ae_ID = hex, ae_EventType = AuditEventTypeSyncFailed, ae_Timestamp = now, ae_AggregateID = sj_value i, ae_Version = 1,
      jf_SyncJobID = i, jf_SourceNodeID = s, jf_TargetNodeID = t, jf_ErrorCode = code, jf_ErrorMessage = message,
      jf_Retryable = retryable, jf_UserID = u\<rparr>"

definition NewFileSyncStartedEvent ::
  "string \<Rightarrow> gotime \<Rightarrow> FileID \<Rightarrow> string \<Rightarrow> string \<Rightarrow> int \<Rightarrow> string \<Rightarrow> StorageNodeID \<Rightarrow> StorageNodeID \<Rightarrow> string \<Rightarrow> string \<Rightarrow>
   FileSyncStartedEvent" where
  "NewFileSyncStartedEvent hex now i name path sz h s t operation u =
     \<lparr>ae_ID = hex, ae_EventType = AuditEventTypeFileCreated, ae_Timestamp = now, ae_AggregateID = fi_value i, ae_Version = 1,
      fs_FileID = i, fs_FileName = name, fs_FilePath = path, fs_FileSize = sz, fs_FileHash = h, fs_SourceNodeID = s,
      fs_TargetNodeID = t, fs_Operation = operation, fs_UserID = u\<rparr>"

definition NewFileSyncCompletedEvent ::
  "string \<Rightarrow> gotime \<Rightarrow> FileID \<Rightarrow> string \<Rightarrow> string \<Rightarrow> int \<Rightarrow> string \<Rightarrow> StorageNodeID \<Rightarrow> StorageNodeID \<Rightarrow> string \<Rightarrow> int \<Rightarrow> int \<Rightarrow> string \<Rightarrow>
   FileSyncCompletedEvent" where
  "NewFileSyncCompletedEvent hex now i name path sz h s t operation bytes duration u =
     \<lparr>ae_ID = hex, ae_EventType = AuditEventTypeFileUpdated, ae_Timestamp = now, ae_AggregateID = fi_value i, ae_Version = 1,
      fc_FileID = i, fc_FileName = name, fc_FilePath = path, fc_FileSize = sz, fc_FileHash = h, fc_SourceNodeID = s,
      fc_TargetNodeID = t, fc_Operation = operation, fc_BytesTransferred = bytes, fc_Duration = duration, fc_UserID = u\<rparr>"

definition NewFileSyncFailedEvent ::
  "string \<Rightarrow> gotime \<Rightarrow> FileID \<Rightarrow> string \<Rightarrow> string \<Rightarrow> StorageNodeID \<Rightarrow> StorageNodeID \<Rightarrow> string \<Rightarrow> string \<Rightarrow> string \<Rightarrow> bool \<Rightarrow> int \<Rightarrow> string \<Rightarrow>
   FileSyncFailedEvent" where
  "NewFileSyncFailedEvent hex now i name path s t operation code message retryable retries u =
     \<lparr>ae_ID = hex, ae_EventType = AuditEventTypeSyncFailed, ae_Timestamp = now, ae_AggregateID = fi_value i, ae_Version = 1,
      fx_FileID = i, fx_FileName = name, fx_FilePath = path, fx_SourceNodeID = s, fx_TargetNodeID = t, fx_Operation = operation,
      fx_ErrorCode = code, fx_ErrorMessage = message, fx_Retryable = retryable, fx_RetryCount = retries, fx_UserID = u\<rparr>"

definition NewConflictDetectedEvent ::
  "string \<Rightarrow> gotime \<Rightarrow> ConflictID \<Rightarrow> FileID \<Rightarrow> string \<Rightarrow> StorageNodeID \<Rightarrow> StorageNodeID \<Rightarrow> string \<Rightarrow> string \<Rightarrow> string \<Rightarrow>
   ConflictDetectedEvent" where
  "NewConflictDetectedEvent hex now c i name s t conflictType description u =
     \<lparr>ae_ID = hex, ae_EventType = AuditEventTypeConflictDetected, ae_Timestamp = now, ae_AggregateID = cf_value c, ae_Version = 1,
      ce_ConflictID = c, ce_FileID = i, ce_FileName = name, ce_SourceNodeID = s, ce_TargetNodeID = t,
      ce_ConflictType = conflictType, ce_Description = description, ce_UserID = u\<rparr>"

definition NewConflictResolvedEvent ::
  "string \<Rightarrow> gotime \<Rightarrow> ConflictID \<Rightarrow> FileID \<Rightarrow> StorageNodeID \<Rightarrow> StorageNodeID \<Rightarrow> string \<Rightarrow> string \<Rightarrow> string \<Rightarrow> ConflictResolvedEvent" where
  "NewConflictResolvedEvent hex now c i s t resolution resolvedBy u =
     \<lparr>ae_ID = hex, ae_EventType = AuditEventTypeConflictResolved, ae_Timestamp = now, ae_AggregateID = cf_value c, ae_Version = 1,
      cx_ConflictID = c, cx_FileID = i, cx_SourceNodeID = s, cx_TargetNodeID = t, cx_Resolution = resolution,
      cx_ResolvedBy = resolvedBy, cx_UserID = u\<rparr>"

end
