(* ===== verification/Audit_Service.thy ===== *)
theory Audit_Service
  imports Sync_Audit "HOL-Library.Multiset"
begin

text \<open>
  The service that writes the audit log (\<^verbatim>\<open>internal/domain/services/audit_service.go\<close>) and the repository on MongoDB
  it writes to (\<^verbatim>\<open>internal/infrastructure/mongodb/syncaudit_repository.go\<close>). A document is the entry it encodes; BSON dates
  have milliseconds.
\<close>

section \<open>The collection\<close>

record mongo_server =
  mg_up :: "nat \<Rightarrow> bool"
  mg_scan :: "nat \<Rightarrow> SyncAudit list \<Rightarrow> SyncAudit list"

record audit_log =
  al_calls :: nat
  al_docs :: "SyncAudit list"


definition bson_time :: "gotime \<Rightarrow> gotime" where
  "bson_time t = t - t mod 1000000"

definition document :: "SyncAudit \<Rightarrow> SyncAudit" where
  "document a = a\<lparr>sa_Timestamp := bson_time (sa_Timestamp a)\<rparr>"

definition command :: "mongo_server \<Rightarrow> string \<Rightarrow> (audit_log \<Rightarrow> (gerr + 'a) \<times> audit_log) \<Rightarrow> (audit_log, 'a) io" where
  "command m msg f w =
     (let w1 = w\<lparr>al_calls := Suc (al_calls w)\<rparr> in
      if \<not> mg_up m (al_calls w) then (Inl (Wrapf msg (Errorf ''server selection error'')), w1)
      else case f w1 of (Inl err, w2) \<Rightarrow> (Inl (Wrapf msg err), w2) | (Inr x, w2) \<Rightarrow> (Inr x, w2))"

text \<open>\<open>InsertOne\<close>: the index on \<open>_id\<close> is unique.\<close>
definition insert_one :: "SyncAudit \<Rightarrow> audit_log \<Rightarrow> (gerr + unit) \<times> audit_log" where
  "insert_one a w =
     (if list_ex (\<lambda>d. sa_ID d = sa_ID a) (al_docs w) then (Inl (Errorf ''E11000 duplicate key error''), w)
      else (Inr (), w\<lparr>al_docs := al_docs w @ [document a]\<rparr>))"

text \<open>\<open>InsertMany\<close> is ordered: it stops at the first document the server refuses and keeps those before.\<close>
primrec insert_many :: "SyncAudit list \<Rightarrow> audit_log \<Rightarrow> (gerr + unit) \<times> audit_log" where
  "insert_many [] w = (Inr (), w)"
| "insert_many (a # as) w = (case insert_one a w of (Inl err, w1) \<Rightarrow> (Inl err, w1) | (Inr _, w1) \<Rightarrow> insert_many as w1)"

section \<open>SyncAuditRepository\<close>

definition set_time :: "gotime \<Rightarrow> SyncAudit \<Rightarrow> SyncAudit" where
  "set_time now a = (if time_IsZero (sa_Timestamp a) then a\<lparr>sa_Timestamp := now\<rparr> else a)"

text \<open>\<open>None\<close> is a nil pointer.\<close>
definition ar_Save :: "mongo_server \<Rightarrow> gotime \<Rightarrow> SyncAudit option \<Rightarrow> (audit_log, unit) io" where
  "ar_Save m now audit w =
     (case audit of
        None \<Rightarrow> (Inl (Errorf ''audit cannot be nil''), w)
      | Some a \<Rightarrow> command m ''failed to insert sync audit: '' (insert_one (set_time now a)) w)"

definition SaveBatch :: "mongo_server \<Rightarrow> gotime \<Rightarrow> SyncAudit option list \<Rightarrow> (audit_log, unit) io" where
  "SaveBatch m now audits w =
     (let documents = map (set_time now) (List.map_filter id audits) in
      if documents = [] then (Inr (), w)
      else command m ''failed to insert sync audit batch: '' (insert_many documents) w)"


definition findWithFilter :: "mongo_server \<Rightarrow> (SyncAudit \<Rightarrow> bool) \<Rightarrow> (audit_log, SyncAudit list) io" where
  "findWithFilter m P =
     command m ''failed to find audits: ''
       (\<lambda>w. (Inr (sort_key (\<lambda>a. - sa_Timestamp a) (mg_scan m (al_calls w) (filter P (al_docs w)))), w))"

definition FindBySyncJobID :: "mongo_server \<Rightarrow> ObjectID \<Rightarrow> (audit_log, SyncAudit list) io" where
  "FindBySyncJobID m i = findWithFilter m (\<lambda>a. sa_SyncJobID a = Some i)"

definition ar_FindByFileID :: "mongo_server \<Rightarrow> ObjectID \<Rightarrow> (audit_log, SyncAudit list) io" where
  "ar_FindByFileID m i = findWithFilter m (\<lambda>a. sa_FileID a = Some i)"

definition FindByTimeRange :: "mongo_server \<Rightarrow> gotime \<Rightarrow> gotime \<Rightarrow> (audit_log, SyncAudit list) io" where
  "FindByTimeRange m t0 t1 =
     findWithFilter m (\<lambda>a. bson_time t0 \<le> sa_Timestamp a \<and> sa_Timestamp a \<le> bson_time t1)"


definition FindByStatus :: "mongo_server \<Rightarrow> string \<Rightarrow> (audit_log, SyncAudit list) io" where
  "FindByStatus m t = findWithFilter m (\<lambda>a. sa_Status a = t)"

definition FindFailedEvents :: "mongo_server \<Rightarrow> (audit_log, SyncAudit list) io" where
  "FindFailedEvents m = findWithFilter m (\<lambda>a. sa_Status a = StatusFailed)"

definition ar_FindByNode :: "mongo_server \<Rightarrow> ObjectID \<Rightarrow> (audit_log, SyncAudit list) io" where
  "ar_FindByNode m n = findWithFilter m (\<lambda>a. sa_SourceNodeID a = Some n \<or> sa_TargetNodeID a = Some n)"

definition FindByUser :: "mongo_server \<Rightarrow> string \<Rightarrow> (audit_log, SyncAudit list) io" where
  "FindByUser m u = findWithFilter m (\<lambda>a. sa_UserID a = Some u)"

definition FindWithError :: "mongo_server \<Rightarrow> (audit_log, SyncAudit list) io" where
  "FindWithError m = findWithFilter m HasError"

definition FindRecent :: "mongo_server \<Rightarrow> gotime \<Rightarrow> int \<Rightarrow> (audit_log, SyncAudit list) io" where
  "FindRecent m now hours =
     findWithFilter m (\<lambda>a. sa_Timestamp a \<ge> bson_time (now - int64 (hours * 3600000000000)))"

text \<open>The filter is the predicate its document stands for. A limit of 0 is no limit, and the sign of a limit does not matter.\<close>
definition FindWithPagination ::
  "mongo_server \<Rightarrow> (SyncAudit \<Rightarrow> bool) \<Rightarrow> int \<Rightarrow> int \<Rightarrow> (audit_log, SyncAudit list \<times> int) io" where
  "FindWithPagination m P page limit w =
     (case command m ''failed to count documents: '' (\<lambda>w. (Inr (int (length (filter P (al_docs w)))), w)) w of
        (Inl err, w1) \<Rightarrow> (Inl err, w1)
      | (Inr docs, w1) \<Rightarrow>
          (let skip = max 0 (int64 (int64 (page - 1) * limit)) in
           case command m ''failed to find documents: ''
                  (\<lambda>w. (Inr (sort_key (\<lambda>a. - sa_Timestamp a) (mg_scan m (al_calls w) (filter P (al_docs w)))), w)) w1 of
             (Inl err, w2) \<Rightarrow> (Inl err, w2)
           | (Inr found, w2) \<Rightarrow>
               (let found = drop (nat skip) found
                in (Inr (if limit = 0 then found else take (nat \<bar>limit\<bar>) found, docs), w2))))"


section \<open>AuditService\<close>

text \<open>The zero \<open>ObjectID\<close>.\<close>
definition nil_oid :: ObjectID where
  "nil_oid = replicate 12 CHR 0x00"

definition convertToMongoID :: "(string \<Rightarrow> gerr + ObjectID) \<Rightarrow> string \<Rightarrow> gerr + ObjectID" where
  "convertToMongoID fromHex i =
     (if i = [] then Inl (Errorf ''empty ID'')
      else case fromHex i of Inl err \<Rightarrow> Inr nil_oid | Inr x \<Rightarrow> Inr x)"

text \<open>The part the methods share: both nodes converted, then \<open>Save\<close> of the entry made from them, with the user among the metadata.\<close>
definition save_entry ::
  "mongo_server \<Rightarrow> (string \<Rightarrow> gerr + ObjectID) \<Rightarrow> gotime \<Rightarrow> StorageNodeID \<Rightarrow> StorageNodeID \<Rightarrow> string \<Rightarrow>
   (ObjectID \<Rightarrow> ObjectID \<Rightarrow> SyncAudit) \<Rightarrow> (audit_log, unit) io" where
  "save_entry m fromHex now source target user mk w =
     (case convertToMongoID fromHex (sn_value source) of
        Inl err \<Rightarrow> (Inl (Wrapf ''invalid source node ID: '' err), w)
      | Inr s \<Rightarrow>
     (case convertToMongoID fromHex (sn_value target) of
        Inl err \<Rightarrow> (Inl (Wrapf ''invalid target node ID: '' err), w)
      | Inr t \<Rightarrow>
          let a = WithUserContext user [] [] [] (mk s t);
              a = (if user \<noteq> [] then WithMetadata ''userId'' (TextValue user) a else a)
          in ar_Save m now (Some a) w))"

definition milliseconds :: "int \<Rightarrow> int" where
  "milliseconds d = (if d \<ge> 0 then d div 1000000 else - ((- d) div 1000000))"

definition LogSyncJobStarted ::
  "mongo_server \<Rightarrow> (string \<Rightarrow> gerr + ObjectID) \<Rightarrow> ObjectID \<Rightarrow> gotime \<Rightarrow> SyncJobStartedEvent \<Rightarrow> (audit_log, unit) io" where
  "LogSyncJobStarted m fromHex oid now e w =
     (case fromHex (ae_AggregateID e) of
        Inl err \<Rightarrow> (Inl (Wrapf ''invalid sync job ID: '' err), w)
      | Inr job \<Rightarrow>
          save_entry m fromHex now (js_SourceNodeID e) (js_TargetNodeID e) (js_UserID e)
            (\<lambda>s t. WithMetadata ''fileCount'' (IntValue (js_FileCount e)) (WithNodes s t (WithSyncJob job
               (NewSyncAudit oid now (ae_EventType e) StatusPending)))) w)"

definition LogSyncJobCompleted ::
  "mongo_server \<Rightarrow> (string \<Rightarrow> gerr + ObjectID) \<Rightarrow> ObjectID \<Rightarrow> gotime \<Rightarrow> SyncJobCompletedEvent \<Rightarrow> (audit_log, unit) io" where
  "LogSyncJobCompleted m fromHex oid now e w =
     (case fromHex (ae_AggregateID e) of
        Inl err \<Rightarrow> (Inl (Wrapf ''invalid sync job ID: '' err), w)
      | Inr job \<Rightarrow>
          save_entry m fromHex now (jc_SourceNodeID e) (jc_TargetNodeID e) (jc_UserID e)
            (\<lambda>s t. WithMetadata ''filesSkipped'' (IntValue (jc_FilesSkipped e))
               (WithMetadata ''filesProcessed'' (IntValue (jc_FilesProcessed e))
               (WithBytesTransferred (jc_BytesTransferred e) (WithDuration (milliseconds (jc_Duration e))
               (WithNodes s t (WithSyncJob job (NewSyncAudit oid now (ae_EventType e) StatusSuccess))))))) w)"

definition LogSyncJobFailed ::
  "mongo_server \<Rightarrow> (string \<Rightarrow> gerr + ObjectID) \<Rightarrow> ObjectID \<Rightarrow> gotime \<Rightarrow> SyncJobFailedEvent \<Rightarrow> (audit_log, unit) io" where
  "LogSyncJobFailed m fromHex oid now e w =
     (case fromHex (ae_AggregateID e) of
        Inl err \<Rightarrow> (Inl (Wrapf ''invalid sync job ID: '' err), w)
      | Inr job \<Rightarrow>
          save_entry m fromHex now (jf_SourceNodeID e) (jf_TargetNodeID e) (jf_UserID e)
            (\<lambda>s t. WithError (jf_ErrorCode e) (jf_ErrorMessage e) [] [] (jf_Retryable e)
               (WithNodes s t (WithSyncJob job (NewSyncAudit oid now (ae_EventType e) StatusFailed)))) w)"

definition LogFileSyncStarted ::
  "mongo_server \<Rightarrow> (string \<Rightarrow> gerr + ObjectID) \<Rightarrow> ObjectID \<Rightarrow> gotime \<Rightarrow> FileSyncStartedEvent \<Rightarrow> (audit_log, unit) io" where
  "LogFileSyncStarted m fromHex oid now e w =
     (case fromHex (ae_AggregateID e) of
        Inl err \<Rightarrow> (Inl (Wrapf ''invalid file ID: '' err), w)
      | Inr i \<Rightarrow>
          save_entry m fromHex now (fs_SourceNodeID e) (fs_TargetNodeID e) (fs_UserID e)
            (\<lambda>s t. WithOperation (fs_Operation e) DirectionPush [] None (WithNodes s t
               (WithFile i (fs_FileName e) (fs_FilePath e) (fs_FileSize e) (fs_FileHash e)
               (NewSyncAudit oid now (ae_EventType e) StatusPending)))) w)"

definition LogFileSyncCompleted ::
  "mongo_server \<Rightarrow> (string \<Rightarrow> gerr + ObjectID) \<Rightarrow> ObjectID \<Rightarrow> gotime \<Rightarrow> FileSyncCompletedEvent \<Rightarrow> (audit_log, unit) io" where
  "LogFileSyncCompleted m fromHex oid now e w =
     (case fromHex (ae_AggregateID e) of
        Inl err \<Rightarrow> (Inl (Wrapf ''invalid file ID: '' err), w)
      | Inr i \<Rightarrow>
          save_entry m fromHex now (fc_SourceNodeID e) (fc_TargetNodeID e) (fc_UserID e)
            (\<lambda>s t. WithBytesTransferred (fc_BytesTransferred e) (WithDuration (milliseconds (fc_Duration e))
               (WithOperation (fc_Operation e) DirectionPush [] None (WithNodes s t
               (WithFile i (fc_FileName e) (fc_FilePath e) (fc_FileSize e) (fc_FileHash e)
               (NewSyncAudit oid now (ae_EventType e) StatusSuccess)))))) w)"

definition LogFileSyncFailed ::
  "mongo_server \<Rightarrow> (string \<Rightarrow> gerr + ObjectID) \<Rightarrow> ObjectID \<Rightarrow> gotime \<Rightarrow> FileSyncFailedEvent \<Rightarrow> (audit_log, unit) io" where
  "LogFileSyncFailed m fromHex oid now e w =
     (case fromHex (ae_AggregateID e) of
        Inl err \<Rightarrow> (Inl (Wrapf ''invalid file ID: '' err), w)
      | Inr i \<Rightarrow>
          save_entry m fromHex now (fx_SourceNodeID e) (fx_TargetNodeID e) (fx_UserID e)
            (\<lambda>s t. WithRetryCount (fx_RetryCount e)
               (WithError (fx_ErrorCode e) (fx_ErrorMessage e) [] [] (fx_Retryable e)
               (WithOperation (fx_Operation e) DirectionPush [] None (WithNodes s t
               (WithFile i (fx_FileName e) (fx_FilePath e) 0 []
               (NewSyncAudit oid now (ae_EventType e) StatusFailed)))))) w)"

definition LogConflictDetected ::
  "mongo_server \<Rightarrow> (string \<Rightarrow> gerr + ObjectID) \<Rightarrow> ObjectID \<Rightarrow> gotime \<Rightarrow> ConflictDetectedEvent \<Rightarrow> (audit_log, unit) io" where
  "LogConflictDetected m fromHex oid now e w =
     (case fromHex (ae_AggregateID e) of
        Inl err \<Rightarrow> (Inl (Wrapf ''invalid conflict ID: '' err), w)
      | Inr c \<Rightarrow>
     (case fromHex (fi_value (ce_FileID e)) of
        Inl err \<Rightarrow> (Inl (Wrapf ''invalid file ID: '' err), w)
      | Inr i \<Rightarrow>
          save_entry m fromHex now (ce_SourceNodeID e) (ce_TargetNodeID e) (ce_UserID e)
            (\<lambda>s t. WithMetadata ''description'' (TextValue (ce_Description e))
               (WithMetadata ''conflictType'' (TextValue (ce_ConflictType e)) (WithNodes s t (WithSyncJob c
               (WithFile i (ce_FileName e) [] 0 [] (NewSyncAudit oid now (ae_EventType e) StatusPending)))))) w))"

definition LogConflictResolved ::
  "mongo_server \<Rightarrow> (string \<Rightarrow> gerr + ObjectID) \<Rightarrow> ObjectID \<Rightarrow> gotime \<Rightarrow> ConflictResolvedEvent \<Rightarrow> (audit_log, unit) io" where
  "LogConflictResolved m fromHex oid now e w =
     (case fromHex (ae_AggregateID e) of
        Inl err \<Rightarrow> (Inl (Wrapf ''invalid conflict ID: '' err), w)
      | Inr c \<Rightarrow>
     (case fromHex (fi_value (cx_FileID e)) of
        Inl err \<Rightarrow> (Inl (Wrapf ''invalid file ID: '' err), w)
      | Inr i \<Rightarrow>
          save_entry m fromHex now (cx_SourceNodeID e) (cx_TargetNodeID e) (cx_UserID e)
            (\<lambda>s t. WithMetadata ''resolvedBy'' (TextValue (cx_ResolvedBy e))
               (WithMetadata ''resolution'' (TextValue (cx_Resolution e)) (WithNodes s t (WithSyncJob c
               (WithFile i [] [] 0 [] (NewSyncAudit oid now (ae_EventType e) StatusSuccess)))))) w))"


definition BatchLogAudits :: "mongo_server \<Rightarrow> gotime \<Rightarrow> SyncAudit list \<Rightarrow> (audit_log, unit) io" where
  "BatchLogAudits m now audits w =
     (if audits = [] then (Inr (), w) else SaveBatch m now (map (\<lambda>a. Some (set_time now a)) audits) w)"

section \<open>What is recorded\<close>

text \<open>What the driver documents of \<open>ObjectIDFromHex\<close>: only 24 hexadecimal digits are an \<open>ObjectID\<close>.\<close>
definition hex_law :: "(string \<Rightarrow> gerr + ObjectID) \<Rightarrow> bool" where
  "hex_law fromHex \<longleftrightarrow> (\<forall>s. length s \<noteq> 24 \<longrightarrow> (\<exists>e. fromHex s = Inl e))"





definition plain_mongo :: mongo_server where
  "plain_mongo = \<lparr>mg_up = \<lambda>_. True, mg_scan = \<lambda>_ docs. docs\<rparr>"

text \<open>Takes the texts of 24 characters, of which every second is kept.\<close>
definition plain_hex :: "string \<Rightarrow> gerr + ObjectID" where
  "plain_hex s = (if length s = 24 then Inr (map (\<lambda>k. s ! (2 * k)) [0..<12]) else Inl (Errorf ''invalid hex''))"

lemma plain_hex_law: "hex_law plain_hex"
  by (simp add: hex_law_def plain_hex_def)


lemma id_lengths:
  "SyncJobIDFromString t = Inr job \<Longrightarrow> length (sj_value job) = 32" "FileIDFromString t = Inr i \<Longrightarrow> length (fi_value i) = 32"
  "ConflictIDFromString t = Inr c \<Longrightarrow> length (cf_value c) = 32" "StorageNodeIDFromString t = Inr n \<Longrightarrow> length (sn_value n) = 32"
  by (auto simp: SyncJobIDFromString_def FileIDFromString_def ConflictIDFromString_def StorageNodeIDFromString_def split: if_splits sum.splits)

text \<open>No event about a job, a file or a conflict of the domain is ever recorded. Identifiers that the domain reads have 32 digits and the
  driver takes 24: whatever the state of the database, each of the eight methods fails and writes nothing for such an identifier, and every node
  becomes the zero \<open>ObjectID\<close>, the same for all nodes.\<close>
theorem domain_events_not_recorded:
  assumes "hex_law fromHex" "SyncJobIDFromString t1 = Inr job" "FileIDFromString t2 = Inr i" "ConflictIDFromString t3 = Inr c"
    "StorageNodeIDFromString t4 = Inr n"
  shows "(\<forall>log \<in> {LogSyncJobStarted m fromHex oid now (NewSyncJobStartedEvent hex at job src dst files user),
        LogSyncJobCompleted m fromHex oid now (NewSyncJobCompletedEvent hex at job src dst processed skipped bytes duration user),
        LogSyncJobFailed m fromHex oid now (NewSyncJobFailedEvent hex at job src dst code message retryable user),
        LogFileSyncStarted m fromHex oid now (NewFileSyncStartedEvent hex at i name path sz h src dst operation user),
        LogFileSyncCompleted m fromHex oid now (NewFileSyncCompletedEvent hex at i name path sz h src dst operation bytes duration user),
        LogFileSyncFailed m fromHex oid now (NewFileSyncFailedEvent hex at i name path src dst operation code message retryable retries user),
        LogConflictDetected m fromHex oid now (NewConflictDetectedEvent hex at c i name src dst ctype description user),
        LogConflictResolved m fromHex oid now (NewConflictResolvedEvent hex at c i src dst resolution by user)}. \<exists>e. log w = (Inl e, w)) \<and>
    convertToMongoID fromHex (sn_value n) = Inr nil_oid"
proof -
  have h: "\<exists>e. fromHex s = Inl e" if "length s = 32" for s using assms(1) that by (simp add: hex_law_def)
  have ids: "\<exists>e. fromHex (sj_value job) = Inl e" "\<exists>e. fromHex (fi_value i) = Inl e" "\<exists>e. fromHex (cf_value c) = Inl e" "\<exists>e. fromHex (sn_value n) = Inl e"
    using assms(2-5) by (auto intro!: h dest: id_lengths)
  have "sn_value n \<noteq> []" using id_lengths(4) [OF assms(5)] by auto
  with ids(4) have "convertToMongoID fromHex (sn_value n) = Inr nil_oid" by (auto simp: convertToMongoID_def)
  with ids(1-3) show ?thesis
    by (auto simp: LogSyncJobStarted_def LogSyncJobCompleted_def LogSyncJobFailed_def LogFileSyncStarted_def LogFileSyncCompleted_def
        LogFileSyncFailed_def LogConflictDetected_def LogConflictResolved_def NewSyncJobStartedEvent_def NewSyncJobCompletedEvent_def
        NewSyncJobFailedEvent_def NewFileSyncStartedEvent_def NewFileSyncCompletedEvent_def NewFileSyncFailedEvent_def
        NewConflictDetectedEvent_def NewConflictResolvedEvent_def)
qed

theorem domain_events_not_recorded_witness:
  "\<exists>job e. SyncJobIDFromString (replicate 32 CHR ''a'') = Inr job \<and>
     LogSyncJobCompleted plain_mongo plain_hex ''x'' 5000000 (NewSyncJobCompletedEvent ''h'' 0 job \<lparr>sn_value = ''s''\<rparr> \<lparr>sn_value = ''t''\<rparr> 3 1 1000 2000000 ''u'')
       \<lparr>al_calls = 0, al_docs = []\<rparr> = (Inl e, \<lparr>al_calls = 0, al_docs = []\<rparr>)"
proof -
  let ?t = "replicate 32 CHR ''a''"
  have ids: "SyncJobIDFromString ?t = Inr \<lparr>sj_value = ?t\<rparr>" "FileIDFromString ?t = Inr \<lparr>fi_value = ?t\<rparr>"
    "ConflictIDFromString ?t = Inr \<lparr>cf_value = ?t\<rparr>" "StorageNodeIDFromString ?t = Inr \<lparr>sn_value = ?t\<rparr>" by code_simp+
  show ?thesis
    using domain_events_not_recorded [OF plain_hex_law ids, of plain_mongo "''x''" 5000000 "''h''" 0 "\<lparr>sn_value = ''s''\<rparr>" "\<lparr>sn_value = ''t''\<rparr>"]
      ids(1) by auto
qed

end
