(* ===== verification/Domain_Events.thy ===== *)
theory Domain_Events
  imports Sync_Service
begin

text \<open>
  The events of \<^verbatim>\<open>internal/domain/domainevents/events.go\<close> and \<^verbatim>\<open>conflictevent.go\<close>. The interface
  \<open>DomainEvent\<close> is their sum; its methods are defined by cases, the other getters are the fields. \<open>ConflictDetected\<close> is in
  \<open>Sync_Service\<close>, which publishes it.
\<close>

record FileCreatedEvent =
  fce_eventID :: string
  fce_occurredAt :: gotime
  fce_fileID :: FileID
  fce_nodeID :: StorageNodeID
  fce_filePath :: FilePath
  fce_fileHash :: FileHash
  fce_fileSize :: int

definition NewFileCreated :: "string \<Rightarrow> gotime \<Rightarrow> FileID \<Rightarrow> StorageNodeID \<Rightarrow> FilePath \<Rightarrow> FileHash \<Rightarrow> int \<Rightarrow> FileCreatedEvent" where
  "NewFileCreated bytes now i n p h sz =
     \<lparr>fce_eventID = fi_value (NewFileID bytes), fce_occurredAt = now, fce_fileID = i, fce_nodeID = n, fce_filePath = p,
      fce_fileHash = h, fce_fileSize = sz\<rparr>"

record FileSyncedEvent =
  fse_eventID :: string
  fse_occurredAt :: gotime
  fse_fileID :: FileID
  fse_sourceNode :: StorageNodeID
  fse_targetNode :: StorageNodeID
  fse_syncJobID :: SyncJobID
  fse_filePath :: FilePath

definition NewFileSynced :: "string \<Rightarrow> gotime \<Rightarrow> FileID \<Rightarrow> StorageNodeID \<Rightarrow> StorageNodeID \<Rightarrow> SyncJobID \<Rightarrow> FilePath \<Rightarrow> FileSyncedEvent" where
  "NewFileSynced bytes now i s t j p =
     \<lparr>fse_eventID = fi_value (NewFileID bytes), fse_occurredAt = now, fse_fileID = i, fse_sourceNode = s, fse_targetNode = t,
      fse_syncJobID = j, fse_filePath = p\<rparr>"

record SyncJobCompleted =
  sjc_eventID :: string
  sjc_occurredAt :: gotime
  sjc_syncJobID :: SyncJobID
  sjc_sourceNode :: StorageNodeID
  sjc_targetNode :: StorageNodeID
  sjc_status :: string
  sjc_totalFiles :: int
  sjc_successful :: int
  sjc_failed :: int

definition NewSyncJobCompleted ::
  "string \<Rightarrow> gotime \<Rightarrow> SyncJobID \<Rightarrow> StorageNodeID \<Rightarrow> StorageNodeID \<Rightarrow> string \<Rightarrow> int \<Rightarrow> int \<Rightarrow> int \<Rightarrow> SyncJobCompleted" where
  "NewSyncJobCompleted bytes now j s t status files ok bad =
     \<lparr>sjc_eventID = fi_value (NewFileID bytes), sjc_occurredAt = now, sjc_syncJobID = j, sjc_sourceNode = s, sjc_targetNode = t,
      sjc_status = status, sjc_totalFiles = files, sjc_successful = ok, sjc_failed = bad\<rparr>"

record ConflictEvent =
  cve_eventID :: string
  cve_occurredAt :: gotime
  cve_conflictID :: ConflictID
  cve_fileID :: FileID
  cve_sourceNode :: StorageNodeID
  cve_targetNode :: StorageNodeID
  cve_conflictType :: ConflictType
  cve_description :: string
  cve_resolved :: bool

definition NewConflictEvent ::
  "string \<Rightarrow> gotime \<Rightarrow> ConflictID \<Rightarrow> FileID \<Rightarrow> StorageNodeID \<Rightarrow> StorageNodeID \<Rightarrow> ConflictType \<Rightarrow> string \<Rightarrow> ConflictEvent" where
  "NewConflictEvent bytes now c i s t ty d =
     \<lparr>cve_eventID = fi_value (NewFileID bytes), cve_occurredAt = now, cve_conflictID = c, cve_fileID = i, cve_sourceNode = s,
      cve_targetNode = t, cve_conflictType = ty, cve_description = d, cve_resolved = False\<rparr>"

definition MarkAsResolved :: "gotime \<Rightarrow> ConflictEvent \<Rightarrow> ConflictEvent" where
  "MarkAsResolved now e = e\<lparr>cve_resolved := True, cve_occurredAt := now\<rparr>"

datatype DomainEvent =
    EvFileCreated FileCreatedEvent
  | EvFileSynced FileSyncedEvent
  | EvConflictDetected ConflictDetected
  | EvSyncJobCompleted SyncJobCompleted
  | EvConflict ConflictEvent

fun de_EventID :: "DomainEvent \<Rightarrow> string" where
  "de_EventID (EvFileCreated e) = fce_eventID e"
| "de_EventID (EvFileSynced e) = fse_eventID e"
| "de_EventID (EvConflictDetected e) = cd_eventID e"
| "de_EventID (EvSyncJobCompleted e) = sjc_eventID e"
| "de_EventID (EvConflict e) = cve_eventID e"

fun de_EventType :: "DomainEvent \<Rightarrow> string" where
  "de_EventType (EvFileCreated e) = ''FileCreated''"
| "de_EventType (EvFileSynced e) = ''FileSynced''"
| "de_EventType (EvConflictDetected e) = ''ConflictDetected''"
| "de_EventType (EvSyncJobCompleted e) = ''SyncJobCompleted''"
| "de_EventType (EvConflict e) = ''ConflictEvent''"

fun de_OccurredAt :: "DomainEvent \<Rightarrow> gotime" where
  "de_OccurredAt (EvFileCreated e) = fce_occurredAt e"
| "de_OccurredAt (EvFileSynced e) = fse_occurredAt e"
| "de_OccurredAt (EvConflictDetected e) = cd_occurredAt e"
| "de_OccurredAt (EvSyncJobCompleted e) = sjc_occurredAt e"
| "de_OccurredAt (EvConflict e) = cve_occurredAt e"

fun de_AggregateID :: "DomainEvent \<Rightarrow> string" where
  "de_AggregateID (EvFileCreated e) = fi_value (fce_fileID e)"
| "de_AggregateID (EvFileSynced e) = sj_value (fse_syncJobID e)"
| "de_AggregateID (EvConflictDetected e) = cf_value (cd_conflictID e)"
| "de_AggregateID (EvSyncJobCompleted e) = sj_value (sjc_syncJobID e)"
| "de_AggregateID (EvConflict e) = cf_value (cve_conflictID e)"

text \<open>Resolving keeps the identity of the event and what it is about.\<close>
lemma MarkAsResolved_identity:
  "de_EventID (EvConflict (MarkAsResolved now e)) = de_EventID (EvConflict e) \<and>
   de_AggregateID (EvConflict (MarkAsResolved now e)) = de_AggregateID (EvConflict e) \<and> cve_resolved (MarkAsResolved now e)"
  by (simp add: MarkAsResolved_def)

end
