(* ===== verification/Kafka_Events.thy ===== *)
theory Kafka_Events
  imports Sync_Node
begin

text \<open>
  Events over Kafka (\<^verbatim>\<open>internal/events\<close>): the producer, the consumer with its dead letter queue and the retry manager. The Kafka
  client and \<open>encoding/json\<close> are parameters, as are the clock and the caller's context, whose state belongs to \<open>'k\<close>. A call
  that may never return is an option, with \<open>None\<close> for not returning.
\<close>

section \<open>Events\<close>

text \<open>\<open>Metadata\<close> is any value, kept as its JSON text.\<close>
record KafkaFileEvent =
  kf_ID :: string
  kf_Type :: string
  kf_UserID :: string
  kf_FilePath :: string
  kf_FileHash :: string
  kf_Size :: int
  kf_Timestamp :: gotime
  kf_Metadata :: "string option"

record KafkaSyncEvent =
  ks_ID :: string
  ks_Type :: string
  ks_UserID :: string
  ks_SourceNode :: string
  ks_TargetNode :: string
  ks_FilePaths :: "string list"
  ks_Timestamp :: gotime
  ks_Status :: string
  ks_OperationType :: string
  ks_Error :: string

record KafkaConflictEvent =
  kx_ID :: string
  kx_Type :: string
  kx_UserID :: string
  kx_FilePath :: string
  kx_SourceNode :: string
  kx_TargetNode :: string
  kx_ConflictType :: string
  kx_Timestamp :: gotime
  kx_Resolution :: string

record DLQEvent =
  dq_ID :: string
  dq_OriginalTopic :: string
  dq_Event :: string
  dq_Error :: string
  dq_Timestamp :: gotime
  dq_RetryCount :: int

text \<open>What is published is a value of type \<open>interface{}\<close> of one of these four types.\<close>
datatype kafka_event =
    FileEv KafkaFileEvent
  | SyncEv KafkaSyncEvent
  | ConflictEv KafkaConflictEvent
  | DLQEv DLQEvent

fun GetID :: "kafka_event \<Rightarrow> string" where
  "GetID (FileEv e) = kf_ID e"
| "GetID (SyncEv e) = ks_ID e"
| "GetID (ConflictEv e) = kx_ID e"
| "GetID (DLQEv e) = dq_ID e"

record KafkaConfig =
  kg_GroupID :: string
  kg_FileEventsTopic :: string
  kg_SyncEventsTopic :: string
  kg_ConflictTopic :: string
  kg_DLQTopic :: string
  kg_Timeout :: int
  kg_MaxRetries :: int
  kg_RetryBackoff :: int

section \<open>The client\<close>

record kafka_message =
  km_Topic :: string
  km_Key :: string
  km_Value :: string
  km_Time :: gotime

text \<open>
  \<open>kc_now i\<close> is the \<open>i\<close>-th reading of the clock between two calls, \<open>kc_Wait d\<close> the \<open>select\<close> of \<open>ctx.Done()\<close> and \<open>time.After(d)\<close>: the error of the context or the end of the wait.
\<close>
record 'k kafka_client =
  kc_Write :: "int \<Rightarrow> kafka_message \<Rightarrow> ('k, unit) io"
  kc_Read :: "string \<Rightarrow> ('k, kafka_message) io"
  kc_Commit :: "string \<Rightarrow> kafka_message \<Rightarrow> ('k, unit) io"
  kc_Err :: "'k \<Rightarrow> gerr option"
  kc_Wait :: "int \<Rightarrow> ('k, unit) io"
  kc_Sleep :: "int \<Rightarrow> 'k \<Rightarrow> 'k"
  kc_now :: "nat \<Rightarrow> 'k \<Rightarrow> gotime"

record kafka_json =
  kj_Marshal :: "kafka_event \<Rightarrow> gerr + string"
  kj_File :: "string \<Rightarrow> gerr + KafkaFileEvent"
  kj_Sync :: "string \<Rightarrow> gerr + KafkaSyncEvent"
  kj_Conflict :: "string \<Rightarrow> gerr + KafkaConflictEvent"
  kj_DLQ :: "string \<Rightarrow> gerr + DLQEvent"

record 'k kafka =
  ka_client :: "'k kafka_client"
  ka_json :: kafka_json
  ka_config :: KafkaConfig

type_synonym ('k, 'a) prog = "'k \<Rightarrow> ((gerr + 'a) \<times> 'k) option"

section \<open>The producer\<close>

text \<open>The loop of \<open>publishWithRetry\<close> up to its end: a write succeeded, the context ended, or every attempt failed.\<close>
datatype attempts = Written | Ended gerr | AllFailed gerr

fun write_attempts :: "'k kafka \<Rightarrow> string \<Rightarrow> string \<Rightarrow> string \<Rightarrow> nat \<Rightarrow> bool \<Rightarrow> gerr \<Rightarrow> 'k \<Rightarrow> attempts \<times> 'k" where
  "write_attempts p topic key data 0 first lastErr k = (AllFailed lastErr, k)"
| "write_attempts p topic key data (Suc n) first lastErr k =
     (case (if first then (Inr (), k) else kc_Wait (ka_client p) (kg_RetryBackoff (ka_config p)) k) of
        (Inl err, k1) \<Rightarrow> (Ended err, k1)
      | (Inr _, k1) \<Rightarrow>
          (case kc_Write (ka_client p) (kg_Timeout (ka_config p))
                  \<lparr>km_Topic = topic, km_Key = key, km_Value = data, km_Time = kc_now (ka_client p) 0 k1\<rparr> k1 of
             (Inr _, k2) \<Rightarrow> (Written, k2)
           | (Inl err, k2) \<Rightarrow> write_attempts p topic key data n False err k2))"

text \<open>\<open>t.UnixNano()\<close> between the years 1678 and 2262, where it fits into 64 bits.\<close>
definition UnixNano :: "gotime \<Rightarrow> int" where
  "UnixNano t = t - 62135596800 * 1000000000"

definition dlq_event :: "'k kafka \<Rightarrow> string \<Rightarrow> string \<Rightarrow> gerr \<Rightarrow> int \<Rightarrow> 'k \<Rightarrow> DLQEvent" where
  "dlq_event p topic data err count k =
     \<lparr>dq_ID = ''dlq-'' @ int_text (UnixNano (kc_now (ka_client p) 0 k)), dq_OriginalTopic = topic, dq_Event = data,
      dq_Error = err_text err, dq_Timestamp = kc_now (ka_client p) 1 k, dq_RetryCount = count\<rparr>"

text \<open>The error when there was no attempt, where \<open>lastErr\<close> is \<open>nil\<close>.\<close>
definition attempts_failed :: "int \<Rightarrow> gerr \<Rightarrow> gerr" where
  "attempts_failed n err = Wrapf (''failed to publish after '' @ int_text n @ '' attempts: '') err"

definition nil_error :: gerr where "nil_error = Errorf ''%!w(<nil>)''"

text \<open>When every attempt failed, the event goes to the dead letter queue the same way, and so on.\<close>
partial_function (option) publishWithRetry :: "'k kafka \<Rightarrow> string \<Rightarrow> kafka_event \<Rightarrow> ('k, unit) prog" where
  "publishWithRetry p topic event k =
     (let cfg = ka_config p in
      case kj_Marshal (ka_json p) event of
        Inl err \<Rightarrow> Some (Inl (Wrapf ''failed to marshal event: '' err), k)
      | Inr data \<Rightarrow>
          if kg_MaxRetries cfg < 0 then Some (Inl (attempts_failed (kg_MaxRetries cfg + 1) nil_error), k)
          else
          (case write_attempts p topic (GetID event) data (Suc (nat (kg_MaxRetries cfg))) True nil_error k of
             (Written, k1) \<Rightarrow> Some (Inr (), k1)
           | (Ended err, k1) \<Rightarrow> Some (Inl err, k1)
           | (AllFailed err, k1) \<Rightarrow>
               Option.bind
                 (publishWithRetry p (kg_DLQTopic cfg) (DLQEv (dlq_event p topic data err (kg_MaxRetries cfg) k1)) k1)
                 (\<lambda>(_, k2). Some (Inl (attempts_failed (kg_MaxRetries cfg + 1) err), k2))))"

definition PublishFileEvent :: "'k kafka \<Rightarrow> KafkaFileEvent \<Rightarrow> ('k, unit) prog" where
  "PublishFileEvent p event = publishWithRetry p (kg_FileEventsTopic (ka_config p)) (FileEv event)"

definition PublishSyncEvent :: "'k kafka \<Rightarrow> KafkaSyncEvent \<Rightarrow> ('k, unit) prog" where
  "PublishSyncEvent p event = publishWithRetry p (kg_SyncEventsTopic (ka_config p)) (SyncEv event)"

definition PublishConflictEvent :: "'k kafka \<Rightarrow> KafkaConflictEvent \<Rightarrow> ('k, unit) prog" where
  "PublishConflictEvent p event = publishWithRetry p (kg_ConflictTopic (ka_config p)) (ConflictEv event)"

definition PublishDLQEvent :: "'k kafka \<Rightarrow> DLQEvent \<Rightarrow> ('k, unit) prog" where
  "PublishDLQEvent p event = publishWithRetry p (kg_DLQTopic (ka_config p)) (DLQEv event)"

text \<open>The interface \<open>Producer\<close>, which \<open>KafkaProducer\<close> implements.\<close>
record 'k Producer =
  pd_File :: "KafkaFileEvent \<Rightarrow> ('k, unit) prog"
  pd_Sync :: "KafkaSyncEvent \<Rightarrow> ('k, unit) prog"
  pd_Conflict :: "KafkaConflictEvent \<Rightarrow> ('k, unit) prog"
  pd_DLQ :: "DLQEvent \<Rightarrow> ('k, unit) prog"

definition NewKafkaProducer :: "'k kafka \<Rightarrow> 'k Producer" where
  "NewKafkaProducer p =
     \<lparr>pd_File = PublishFileEvent p, pd_Sync = PublishSyncEvent p, pd_Conflict = PublishConflictEvent p, pd_DLQ = PublishDLQEvent p\<rparr>"

section \<open>The consumer\<close>

text \<open>The type of the handler always fits: each \<open>Consume\<close> method passes its own kind of handler on.\<close>
definition handle_data :: "(string \<Rightarrow> gerr + 'e) \<Rightarrow> string \<Rightarrow> ('e \<Rightarrow> ('k, unit) prog) \<Rightarrow> string \<Rightarrow> ('k, unit) prog" where
  "handle_data decode msg h data k =
     (case decode data of
        Inl err \<Rightarrow> Some (Inl (Wrapf msg err), k)
      | Inr event \<Rightarrow> h event k)"

definition handleFileEvent :: "'k kafka \<Rightarrow> (KafkaFileEvent \<Rightarrow> ('k, unit) prog) \<Rightarrow> string \<Rightarrow> ('k, unit) prog" where
  "handleFileEvent p = handle_data (kj_File (ka_json p)) ''failed to unmarshal file event: ''"

definition handleSyncEvent :: "'k kafka \<Rightarrow> (KafkaSyncEvent \<Rightarrow> ('k, unit) prog) \<Rightarrow> string \<Rightarrow> ('k, unit) prog" where
  "handleSyncEvent p = handle_data (kj_Sync (ka_json p)) ''failed to unmarshal sync event: ''"

definition handleConflictEvent :: "'k kafka \<Rightarrow> (KafkaConflictEvent \<Rightarrow> ('k, unit) prog) \<Rightarrow> string \<Rightarrow> ('k, unit) prog" where
  "handleConflictEvent p = handle_data (kj_Conflict (ka_json p)) ''failed to unmarshal conflict event: ''"

text \<open>A turn of a loop goes on, ends it with an error, or ends the process with a panic.\<close>
datatype 'k turn = Next (turn_state: 'k) | Stop gerr (turn_state: 'k) | Panic string (turn_state: 'k)

definition one_second :: int where "one_second = 1000000000"

definition commit :: "'k kafka \<Rightarrow> string \<Rightarrow> kafka_message \<Rightarrow> 'k \<Rightarrow> 'k" where
  "commit p topic msg k = snd (kc_Commit (ka_client p) topic msg k)"

text \<open>The head of both loops: the context, the next message, and the pause after an error.\<close>
definition next_message :: "'k kafka \<Rightarrow> string \<Rightarrow> (kafka_message \<Rightarrow> 'k \<Rightarrow> 'k turn option) \<Rightarrow> 'k \<Rightarrow> 'k turn option" where
  "next_message p topic body k =
     (case kc_Err (ka_client p) k of
        Some err \<Rightarrow> Some (Stop err k)
      | None \<Rightarrow>
          (case kc_Read (ka_client p) topic k of
             (Inl _, k1) \<Rightarrow>
               (case kc_Err (ka_client p) k1 of
                  Some err \<Rightarrow> Some (Stop err k1)
                | None \<Rightarrow> Some (Next (kc_Sleep (ka_client p) one_second k1)))
           | (Inr msg, k1) \<Rightarrow> body msg k1))"

text \<open>The dead letter is written under a context with a time limit of its own; a client that has reached it ends the wait with an error.\<close>
definition consume_body :: "'k kafka \<Rightarrow> string \<Rightarrow> (string \<Rightarrow> ('k, unit) prog) \<Rightarrow> kafka_message \<Rightarrow> 'k \<Rightarrow> 'k turn option" where
  "consume_body p topic process msg k =
     (case process (km_Value msg) k of
        None \<Rightarrow> None
      | Some (Inr _, k1) \<Rightarrow> Some (Next (commit p topic msg k1))
      | Some (Inl err, k1) \<Rightarrow>
          Option.bind (PublishDLQEvent p (dlq_event p topic (km_Value msg) err 0 k1) k1)
            (\<lambda>(_, k2). Some (Next (commit p topic msg k2))))"

text \<open>The first \<open>n\<close> turns of a loop that has no end of its own.\<close>
primrec turns :: "nat \<Rightarrow> ('k \<Rightarrow> 'k turn option) \<Rightarrow> 'k \<Rightarrow> 'k turn option" where
  "turns 0 step k = Some (Next k)"
| "turns (Suc n) step k = Option.bind (step k) (\<lambda>t. case t of Next k1 \<Rightarrow> turns n step k1 | _ \<Rightarrow> Some t)"

definition kc_consume :: "nat \<Rightarrow> 'k kafka \<Rightarrow> string \<Rightarrow> (string \<Rightarrow> ('k, unit) prog) \<Rightarrow> 'k \<Rightarrow> 'k turn option" where
  "kc_consume n p topic process = turns n (next_message p topic (consume_body p topic process))"

definition ConsumeFileEvents :: "nat \<Rightarrow> 'k kafka \<Rightarrow> string \<Rightarrow> (KafkaFileEvent \<Rightarrow> ('k, unit) prog) \<Rightarrow> 'k \<Rightarrow> 'k turn option" where
  "ConsumeFileEvents n p topic h = kc_consume n p topic (handleFileEvent p h)"

definition ConsumeSyncEvents :: "nat \<Rightarrow> 'k kafka \<Rightarrow> string \<Rightarrow> (KafkaSyncEvent \<Rightarrow> ('k, unit) prog) \<Rightarrow> 'k \<Rightarrow> 'k turn option" where
  "ConsumeSyncEvents n p topic h = kc_consume n p topic (handleSyncEvent p h)"

definition ConsumeConflictEvents :: "nat \<Rightarrow> 'k kafka \<Rightarrow> string \<Rightarrow> (KafkaConflictEvent \<Rightarrow> ('k, unit) prog) \<Rightarrow> 'k \<Rightarrow> 'k turn option" where
  "ConsumeConflictEvents n p topic h = kc_consume n p topic (handleConflictEvent p h)"

section \<open>The dead letter queue\<close>

text \<open>\<open>None\<close> in the place of the producer is \<open>nil\<close>: calling a method of it panics.\<close>
datatype 'k outcome = Result "gerr + unit" 'k | NilPanic 'k

definition publish_decoded ::
  "(string \<Rightarrow> gerr + 'e) \<Rightarrow> string \<Rightarrow> ('e \<Rightarrow> ('k, unit) prog) option \<Rightarrow> string \<Rightarrow> 'k \<Rightarrow> 'k outcome option" where
  "publish_decoded decode msg publish data k =
     (case decode data of
        Inl err \<Rightarrow> Some (Result (Inl (Wrapf msg err)) k)
      | Inr event \<Rightarrow>
          (case publish of
             None \<Rightarrow> Some (NilPanic k)
           | Some f \<Rightarrow> map_option (\<lambda>(r, k1). Result r k1) (f event k)))"

text \<open>The event is changed only in memory; it is not published to the queue again.\<close>
definition retryEventFromDLQ :: "'k kafka \<Rightarrow> 'k Producer option \<Rightarrow> DLQEvent \<Rightarrow> 'k \<Rightarrow> 'k outcome option" where
  "retryEventFromDLQ p producer e k0 =
     (let cfg = ka_config p; js = ka_json p; k = kc_Sleep (ka_client p) (kg_RetryBackoff cfg) k0; topic = dq_OriginalTopic e in
      if topic = kg_FileEventsTopic cfg
      then publish_decoded (kj_File js) ''failed to unmarshal file event for retry: '' (map_option pd_File producer) (dq_Event e) k
      else if topic = kg_SyncEventsTopic cfg
      then publish_decoded (kj_Sync js) ''failed to unmarshal sync event for retry: '' (map_option pd_Sync producer) (dq_Event e) k
      else if topic = kg_ConflictTopic cfg
      then publish_decoded (kj_Conflict js) ''failed to unmarshal conflict event for retry: '' (map_option pd_Conflict producer) (dq_Event e) k
      else Some (Result (Inl (Errorf (''unknown original topic: '' @ topic))) k))"

text \<open>The method of \<open>DLQHandler\<close> has the same body; its producer is the one it was made with.\<close>
definition retryEvent :: "'k kafka \<Rightarrow> 'k Producer \<Rightarrow> DLQEvent \<Rightarrow> 'k \<Rightarrow> 'k outcome option" where
  "retryEvent p producer e = retryEventFromDLQ p (Some producer) e"

definition dlq_body :: "'k kafka \<Rightarrow> string \<Rightarrow> (DLQEvent \<Rightarrow> ('k, unit) prog) \<Rightarrow> kafka_message \<Rightarrow> 'k \<Rightarrow> 'k turn option" where
  "dlq_body p topic handler msg k =
     (case kj_DLQ (ka_json p) (km_Value msg) of
        Inl _ \<Rightarrow> Some (Next k)
      | Inr e \<Rightarrow>
          if dq_RetryCount e < kg_MaxRetries (ka_config p)
          then Option.bind (retryEventFromDLQ p None e k)
                 (\<lambda>t. case t of
                    Result _ k1 \<Rightarrow> Some (Next (commit p topic msg k1))
                  | NilPanic k1 \<Rightarrow> Some (Panic ''invalid memory address or nil pointer dereference'' k1))
          else Option.bind (handler e k) (\<lambda>(_, k1). Some (Next (commit p topic msg k1))))"

definition ConsumeDLQEvents :: "nat \<Rightarrow> 'k kafka \<Rightarrow> string \<Rightarrow> (DLQEvent \<Rightarrow> ('k, unit) prog) \<Rightarrow> 'k \<Rightarrow> 'k turn option" where
  "ConsumeDLQEvents n p topic handler = turns n (next_message p topic (dlq_body p topic handler))"

definition ProcessDLQEvents :: "nat \<Rightarrow> 'k kafka \<Rightarrow> (DLQEvent \<Rightarrow> ('k, unit) prog) \<Rightarrow> 'k \<Rightarrow> 'k turn option" where
  "ProcessDLQEvents n p = ConsumeDLQEvents n p (kg_DLQTopic (ka_config p))"

text \<open>One attempt of \<open>PublishWithRetry\<close>: an event whose type does not fit the topic leaves \<open>err\<close> at \<open>nil\<close>.\<close>
definition publish_as :: "KafkaConfig \<Rightarrow> 'k Producer \<Rightarrow> string \<Rightarrow> kafka_event \<Rightarrow> ('k, unit) prog" where
  "publish_as cfg producer topic event k =
     (if topic = kg_FileEventsTopic cfg then (case event of FileEv e \<Rightarrow> pd_File producer e k | _ \<Rightarrow> Some (Inr (), k))
      else if topic = kg_SyncEventsTopic cfg then (case event of SyncEv e \<Rightarrow> pd_Sync producer e k | _ \<Rightarrow> Some (Inr (), k))
      else if topic = kg_ConflictTopic cfg then (case event of ConflictEv e \<Rightarrow> pd_Conflict producer e k | _ \<Rightarrow> Some (Inr (), k))
      else Some (Inl (Errorf (''unknown topic: '' @ topic)), k))"

fun publish_attempts :: "'k kafka \<Rightarrow> 'k Producer \<Rightarrow> string \<Rightarrow> kafka_event \<Rightarrow> nat \<Rightarrow> bool \<Rightarrow> gerr \<Rightarrow> 'k \<Rightarrow> (attempts \<times> 'k) option" where
  "publish_attempts p producer topic event 0 first lastErr k = Some (AllFailed lastErr, k)"
| "publish_attempts p producer topic event (Suc n) first lastErr k =
     (case (if first then (Inr (), k) else kc_Wait (ka_client p) (kg_RetryBackoff (ka_config p)) k) of
        (Inl err, k1) \<Rightarrow> Some (Ended err, k1)
      | (Inr _, k1) \<Rightarrow>
          (case publish_as (ka_config p) producer topic event k1 of
             None \<Rightarrow> None
           | Some (Inr _, k2) \<Rightarrow> Some (Written, k2)
           | Some (Inl err, k2) \<Rightarrow> publish_attempts p producer topic event n False err k2))"

text \<open>Without any attempt \<open>lastErr.Error()\<close> is a call on \<open>nil\<close>. An event that cannot be encoded goes to the queue empty.\<close>
definition PublishWithRetry :: "'k kafka \<Rightarrow> 'k Producer \<Rightarrow> string \<Rightarrow> kafka_event \<Rightarrow> 'k \<Rightarrow> 'k outcome option" where
  "PublishWithRetry p producer topic event k =
     (let cfg = ka_config p in
      if kg_MaxRetries cfg < 0 then Some (NilPanic k)
      else case publish_attempts p producer topic event (Suc (nat (kg_MaxRetries cfg))) True nil_error k of
          None \<Rightarrow> None
        | Some (Written, k1) \<Rightarrow> Some (Result (Inr ()) k1)
        | Some (Ended err, k1) \<Rightarrow> Some (Result (Inl err) k1)
        | Some (AllFailed err, k1) \<Rightarrow>
            (let data = (case kj_Marshal (ka_json p) event of Inl _ \<Rightarrow> [] | Inr d \<Rightarrow> d) in
             Option.bind (pd_DLQ producer (dlq_event p topic data err (kg_MaxRetries cfg) k1) k1)
               (\<lambda>(_, k2). Some (Result (Inl (Wrapf (''failed after '' @ int_text (kg_MaxRetries cfg + 1) @ '' attempts: '') err)) k2))))"

section \<open>What is published\<close>

text \<open>
  The log holds every message the broker took, \<open>rd\<close> every message the reader handed out. A write that succeeds appends its message;
  one that fails may have done so, since its answer can be lost.
\<close>
definition kafka_law :: "'k kafka_client \<Rightarrow> ('k \<Rightarrow> kafka_message list) \<Rightarrow> ('k \<Rightarrow> kafka_message list) \<Rightarrow> bool" where
  "kafka_law c log rd \<longleftrightarrow>
     (\<forall>t m k. rd (snd (kc_Write c t m k)) = rd k \<and>
        (log (snd (kc_Write c t m k)) = log k @ [m] \<or> (\<exists>e. fst (kc_Write c t m k) = Inl e) \<and> log (snd (kc_Write c t m k)) = log k)) \<and>
     (\<forall>d k. log (snd (kc_Wait c d k)) = log k \<and> rd (snd (kc_Wait c d k)) = rd k) \<and>
     (\<forall>d k. log (kc_Sleep c d k) = log k \<and> rd (kc_Sleep c d k) = rd k) \<and>
     (\<forall>topic m k. log (snd (kc_Commit c topic m k)) = log k \<and> rd (snd (kc_Commit c topic m k)) = rd k) \<and>
     (\<forall>topic k. log (snd (kc_Read c topic k)) = log k \<and>
        rd (snd (kc_Read c topic k)) = rd k @ (case fst (kc_Read c topic k) of Inl _ \<Rightarrow> [] | Inr m \<Rightarrow> [m]))"

lemma law_write:
  "kafka_law c log rd \<Longrightarrow> kc_Write c t m k = (r, k1) \<Longrightarrow>
   rd k1 = rd k \<and> (log k1 = log k @ [m] \<or> (\<exists>e. r = Inl e) \<and> log k1 = log k)"
  unfolding kafka_law_def by (metis fst_conv snd_conv)

lemma law_wait: "kafka_law c log rd \<Longrightarrow> kc_Wait c d k = (r, k1) \<Longrightarrow> log k1 = log k \<and> rd k1 = rd k"
  unfolding kafka_law_def by (metis snd_conv)

definition copy_of :: "string \<Rightarrow> string \<Rightarrow> string \<Rightarrow> kafka_message \<Rightarrow> bool" where
  "copy_of topic key data m \<longleftrightarrow> km_Topic m = topic \<and> km_Key m = key \<and> km_Value m = data"

lemma write_attempts_log:
  assumes law: "kafka_law (ka_client p) log rd"
  shows "write_attempts p topic key data n first le k = (r, k') \<Longrightarrow>
    rd k' = rd k \<and> (\<exists>ms. log k' = log k @ ms \<and> length ms \<le> n \<and> list_all (copy_of topic key data) ms \<and> (r = Written \<longrightarrow> ms \<noteq> []))"
proof (induction n arbitrary: first le k)
  case 0
  then show ?case by auto
next
  case (Suc n)
  obtain w k1 where w: "(if first then (Inr (), k) else kc_Wait (ka_client p) (kg_RetryBackoff (ka_config p)) k) = (w, k1)"
    by fastforce
  have k1: "log k1 = log k \<and> rd k1 = rd k"
    using w law_wait [OF law, of "kg_RetryBackoff (ka_config p)" k w k1] by (cases first) auto
  show ?case
  proof (cases w)
    case (Inl e)
    then have "r = Ended e \<and> k' = k1" using Suc.prems unfolding write_attempts.simps w by auto
    then show ?thesis using k1 by simp
  next
    case (Inr u)
    define m where "m = \<lparr>km_Topic = topic, km_Key = key, km_Value = data, km_Time = kc_now (ka_client p) 0 k1\<rparr>"
    have m: "copy_of topic key data m" by (simp add: m_def copy_of_def)
    obtain v k2 where v: "kc_Write (ka_client p) (kg_Timeout (ka_config p)) m k1 = (v, k2)" by fastforce
    note lw = law_write [OF law v]
    have step: "(case v of Inr _ \<Rightarrow> (Written, k2) | Inl err \<Rightarrow> write_attempts p topic key data n False err k2) = (r, k')"
      using Suc.prems Inr v unfolding write_attempts.simps w m_def by (simp split: sum.splits)
    show ?thesis
    proof (cases v)
      case (Inr x)
      then have "log k' = log k @ [m] \<and> rd k' = rd k" using step lw k1 by auto
      then show ?thesis using m by (intro conjI exI [of _ "[m]"]) simp_all
    next
      case (Inl e)
      with step have rest: "write_attempts p topic key data n False e k2 = (r, k')" by simp
      obtain ms where ms: "rd k' = rd k2" "log k' = log k2 @ ms" "length ms \<le> n" "list_all (copy_of topic key data) ms" "r = Written \<longrightarrow> ms \<noteq> []"
        using Suc.IH [OF rest] by blast
      from lw consider "log k2 = log k1 @ [m]" | "log k2 = log k1" by blast
      then show ?thesis
      proof cases
        case 1
        then show ?thesis using ms lw k1 m by (intro conjI exI [of _ "m # ms"]) auto
      next
        case 2
        then show ?thesis using ms lw k1 by (intro conjI exI [of _ ms]) auto
      qed
    qed
  qed
qed

text \<open>What an execution of the body of \<open>publishWithRetry\<close> that returns has done, for any \<open>f\<close> in the place of the recursive call.\<close>
lemma publish_body_cases:
  assumes "(let cfg = ka_config p in
      case kj_Marshal (ka_json p) event of
        Inl err \<Rightarrow> Some (Inl (Wrapf ''failed to marshal event: '' err), k)
      | Inr data \<Rightarrow>
          if kg_MaxRetries cfg < 0 then Some (Inl (attempts_failed (kg_MaxRetries cfg + 1) nil_error), k)
          else
          (case write_attempts p topic (GetID event) data (Suc (nat (kg_MaxRetries cfg))) True nil_error k of
             (Written, k1) \<Rightarrow> Some (Inr (), k1)
           | (Ended err, k1) \<Rightarrow> Some (Inl err, k1)
           | (AllFailed err, k1) \<Rightarrow>
               Option.bind (f p (kg_DLQTopic cfg) (DLQEv (dlq_event p topic data err (kg_MaxRetries cfg) k1)) k1)
                 (\<lambda>(_, k2). Some (Inl (attempts_failed (kg_MaxRetries cfg + 1) err), k2)))) = Some (r, k')"
  obtains (none) e where "r = Inl e" "k' = k"
  | (loop) data w k1 where "kj_Marshal (ka_json p) event = Inr data" "0 \<le> kg_MaxRetries (ka_config p)"
      "write_attempts p topic (GetID event) data (Suc (nat (kg_MaxRetries (ka_config p)))) True nil_error k = (w, k1)"
      "w = Written \<and> r = Inr () \<and> k' = k1 \<or> (\<exists>e. w = Ended e \<and> r = Inl e \<and> k' = k1) \<or>
       (\<exists>e x. w = AllFailed e \<and> r = Inl (attempts_failed (kg_MaxRetries (ka_config p) + 1) e) \<and>
          f p (kg_DLQTopic (ka_config p)) (DLQEv (dlq_event p topic data e (kg_MaxRetries (ka_config p)) k1)) k1 = Some (x, k'))"
proof (cases "kj_Marshal (ka_json p) event")
  case (Inl e)
  then show ?thesis using assms that(1) by (auto simp: Let_def)
next
  case (Inr data)
  show ?thesis
  proof (cases "kg_MaxRetries (ka_config p) < 0")
    case True
    then show ?thesis using assms Inr that(1) by (auto simp: Let_def)
  next
    case False
    obtain w k1 where w: "write_attempts p topic (GetID event) data (Suc (nat (kg_MaxRetries (ka_config p)))) True nil_error k = (w, k1)"
      by fastforce
    show ?thesis
      using assms Inr False w that(2) [OF Inr _ w]
      by (cases w) (auto simp: Let_def bind_eq_Some_conv simp del: write_attempts.simps)
  qed
qed

lemmas publish_induct = publishWithRetry.raw_induct [split_format (complete), rotated, consumes 1, case_names step]

text \<open>Whatever the broker does: when publishing an event returns, the log has grown by copies of the event on its topic, at most
  \<open>MaxRetries + 1\<close> of them, followed only by messages on the dead letter queue. When it returns without an error there is at least
  one copy and nothing on the queue.
\<close>
theorem publish_at_least_once:
  assumes law: "kafka_law (ka_client p) log rd"
    and ret: "publishWithRetry p topic event k = Some (r, k')"
  shows "\<exists>ms ds. log k' = log k @ ms @ ds \<and> rd k' = rd k \<and> length ms \<le> nat (kg_MaxRetries (ka_config p) + 1) \<and>
    (\<forall>m \<in> set ms. km_Topic m = topic \<and> km_Key m = GetID event \<and> kj_Marshal (ka_json p) event = Inr (km_Value m)) \<and>
    (\<forall>d \<in> set ds. km_Topic d = kg_DLQTopic (ka_config p)) \<and> (r = Inr () \<longrightarrow> ms \<noteq> [] \<and> ds = [])"
  using ret law
proof (induction p topic event k r k' rule: publish_induct)
  case (step f p topic event k r k')
  show ?case
    using step(2)
  proof (cases rule: publish_body_cases)
    case none
    then show ?thesis by (intro exI [of _ "[]"]) simp
  next
    case (loop data w k1)
    obtain ms where ms: "rd k1 = rd k" "log k1 = log k @ ms" "length ms \<le> Suc (nat (kg_MaxRetries (ka_config p)))"
        "list_all (copy_of topic (GetID event) data) ms" "w = Written \<longrightarrow> ms \<noteq> []"
      using write_attempts_log [OF step(3) loop(3)] by blast
    have copies: "\<forall>m \<in> set ms. km_Topic m = topic \<and> km_Key m = GetID event \<and> kj_Marshal (ka_json p) event = Inr (km_Value m)"
      using ms(4) loop(1) by (auto simp: list_all_iff copy_of_def)
    have len: "length ms \<le> nat (kg_MaxRetries (ka_config p) + 1)" using ms(3) loop(2) by linarith
    from loop(4) consider (over) "k' = k1" "r = Inr () \<longrightarrow> w = Written"
      | (dlq) e e' x where "r = Inl e'" "f p (kg_DLQTopic (ka_config p)) (DLQEv (dlq_event p topic data e (kg_MaxRetries (ka_config p)) k1)) k1 = Some (x, k')"
      by blast
    then show ?thesis
    proof cases
      case over
      then show ?thesis using ms copies len by (intro exI [of _ ms] exI [of _ "[]"]) auto
    next
      case (dlq e e' x)
      obtain ns ds where "log k' = log k1 @ ns @ ds" "rd k' = rd k1" "\<forall>m \<in> set ns. km_Topic m = kg_DLQTopic (ka_config p)"
          "\<forall>d \<in> set ds. km_Topic d = kg_DLQTopic (ka_config p)"
        using step(1) [OF dlq(2) step(3)] by blast
      then show ?thesis using dlq(1) ms copies len by (intro exI [of _ ms] exI [of _ "ns @ ds"]) auto
    qed
  qed
qed

section \<open>When publishing returns\<close>

text \<open>\<open>failures k\<close> bounds the number of writes that still fail from state \<open>k\<close> on.\<close>
definition recovers :: "'k kafka_client \<Rightarrow> ('k \<Rightarrow> nat) \<Rightarrow> bool" where
  "recovers c failures \<longleftrightarrow>
     (\<forall>t m k. failures (snd (kc_Write c t m k)) \<le> failures k \<and>
        (isl (fst (kc_Write c t m k)) \<longrightarrow> failures (snd (kc_Write c t m k)) < failures k)) \<and>
     (\<forall>d k. failures (snd (kc_Wait c d k)) \<le> failures k)"

text \<open>In a dead state every write fails, the context lives on, and the state stays dead.\<close>
definition stays_down :: "'k kafka_client \<Rightarrow> ('k \<Rightarrow> bool) \<Rightarrow> bool" where
  "stays_down c dead \<longleftrightarrow>
     (\<forall>t m k. dead k \<longrightarrow> isl (fst (kc_Write c t m k)) \<and> dead (snd (kc_Write c t m k))) \<and>
     (\<forall>d k. dead k \<longrightarrow> \<not> isl (fst (kc_Wait c d k)) \<and> dead (snd (kc_Wait c d k)))"

lemma write_attempts_recovers:
  assumes "recovers (ka_client p) failures"
  shows "write_attempts p topic key data n first le k = (w, k1) \<Longrightarrow>
    failures k1 \<le> failures k \<and> (0 < n \<and> w = AllFailed e \<longrightarrow> failures k1 < failures k)"
proof (induction n arbitrary: first le k)
  case 0
  then show ?case by simp
next
  case (Suc n)
  obtain u k2 where u: "(if first then (Inr (), k) else kc_Wait (ka_client p) (kg_RetryBackoff (ka_config p)) k) = (u, k2)" by fastforce
  have k2: "failures k2 \<le> failures k"
    using u assms unfolding recovers_def by (cases first) (auto dest!: spec [of _ "kg_RetryBackoff (ka_config p)"] spec [of _ k])
  define m where "m = \<lparr>km_Topic = topic, km_Key = key, km_Value = data, km_Time = kc_now (ka_client p) 0 k2\<rparr>"
  obtain v k3 where v: "kc_Write (ka_client p) (kg_Timeout (ka_config p)) m k2 = (v, k3)" by fastforce
  have k3: "failures k3 \<le> failures k2 \<and> (isl v \<longrightarrow> failures k3 < failures k2)"
    using assms v unfolding recovers_def by (metis fst_conv snd_conv)
  have run: "(case u of Inl err \<Rightarrow> (Ended err, k2)
      | Inr _ \<Rightarrow> (case v of Inr _ \<Rightarrow> (Written, k3) | Inl err \<Rightarrow> write_attempts p topic key data n False err k3)) = (w, k1)"
    using Suc.prems v unfolding write_attempts.simps u m_def by (simp split: sum.splits)
  show ?case
  proof (cases u)
    case (Inl err)
    then show ?thesis using run k2 by auto
  next
    case u': (Inr x)
    show ?thesis
    proof (cases v)
      case (Inr y)
      then show ?thesis using run u' k2 k3 by auto
    next
      case (Inl err)
      then have "write_attempts p topic key data n False err k3 = (w, k1)" using run u' by simp
      from Suc.IH [OF this] show ?thesis using k2 k3 Inl by simp
    qed
  qed
qed

lemma write_attempts_down:
  assumes down: "stays_down (ka_client p) dead"
  shows "dead k \<Longrightarrow> \<exists>e k1. write_attempts p topic key data n first le k = (AllFailed e, k1) \<and> dead k1"
proof (induction n arbitrary: first le k)
  case 0
  then show ?case by simp
next
  case (Suc n)
  obtain u k2 where u: "(if first then (Inr (), k) else kc_Wait (ka_client p) (kg_RetryBackoff (ka_config p)) k) = (Inr u, k2)" "dead k2"
  proof (cases first)
    case True
    then show ?thesis using Suc.prems that by simp
  next
    case False
    obtain x y where xy: "kc_Wait (ka_client p) (kg_RetryBackoff (ka_config p)) k = (x, y)" by fastforce
    then have "\<not> isl x" "dead y" using down Suc.prems unfolding stays_down_def by (metis fst_conv snd_conv)+
    then show ?thesis using that xy False by (cases x) auto
  qed
  define m where "m = \<lparr>km_Topic = topic, km_Key = key, km_Value = data, km_Time = kc_now (ka_client p) 0 k2\<rparr>"
  obtain v k3 where v: "kc_Write (ka_client p) (kg_Timeout (ka_config p)) m k2 = (v, k3)" by fastforce
  then have "isl v" "dead k3" using down u(2) unfolding stays_down_def by (metis fst_conv snd_conv)+
  then show ?case using Suc.IH [of k3] u(1) v unfolding write_attempts.simps u(1) m_def by (cases v) auto
qed

lemma publish_returns:
  assumes "recovers (ka_client p) failures"
  shows "\<exists>r k'. publishWithRetry p topic event k = Some (r, k')"
proof (induction "failures k" arbitrary: topic event k rule: less_induct)
  case less
  show ?case
  proof (cases "kj_Marshal (ka_json p) event")
    case (Inl e)
    then show ?thesis by (subst publishWithRetry.simps) (simp add: Let_def)
  next
    case (Inr data)
    obtain w k1 where w: "write_attempts p topic (GetID event) data (Suc (nat (kg_MaxRetries (ka_config p)))) True nil_error k = (w, k1)"
      by fastforce
    have smaller: "w = AllFailed e \<Longrightarrow> failures k1 < failures k" for e
      using write_attempts_recovers [OF assms w, of e] by simp
    show ?thesis
    proof (cases w)
      case (AllFailed e)
      obtain x k2 where "publishWithRetry p (kg_DLQTopic (ka_config p)) (DLQEv (dlq_event p topic data e (kg_MaxRetries (ka_config p)) k1)) k1 = Some (x, k2)"
        using less.hyps [OF smaller [OF AllFailed]] by blast
      then show ?thesis
        using Inr w AllFailed by (subst publishWithRetry.simps) (simp add: Let_def del: write_attempts.simps)
    qed (use Inr w in \<open>subst publishWithRetry.simps, simp add: Let_def del: write_attempts.simps\<close>)+
  qed
qed

lemma publish_never_returns:
  assumes ret: "publishWithRetry p topic event k = Some (r, k')"
    and "stays_down (ka_client p) dead" "dead k" "0 \<le> kg_MaxRetries (ka_config p)" "\<forall>e. \<exists>d. kj_Marshal (ka_json p) e = Inr d"
  shows False
  using ret assms(2-)
proof (induction p topic event k r k' rule: publish_induct)
  case (step f p topic event k r k')
  obtain data where data: "kj_Marshal (ka_json p) event = Inr data" using step.prems(4) by blast
  obtain e k1 where w: "write_attempts p topic (GetID event) data (Suc (nat (kg_MaxRetries (ka_config p)))) True nil_error k = (AllFailed e, k1)" "dead k1"
    using write_attempts_down [OF step.prems(1,2)] by blast
  obtain x where "f p (kg_DLQTopic (ka_config p)) (DLQEv (dlq_event p topic data e (kg_MaxRetries (ka_config p)) k1)) k1 = Some (x, k')"
    using step(2) data w(1) step.prems(3) by (auto simp: Let_def bind_eq_Some_conv simp del: write_attempts.simps)
  from step(1) [OF this step.prems(1) w(2) step.prems(3,4)] show ?case .
qed

section \<open>What the consumer keeps\<close>

definition writes_work :: "'k kafka_client \<Rightarrow> bool" where
  "writes_work c \<longleftrightarrow> (\<forall>t m k. \<not> isl (fst (kc_Write c t m k)))"

lemma publish_working:
  assumes law: "kafka_law (ka_client p) log rd" and up: "writes_work (ka_client p)"
    and "0 \<le> kg_MaxRetries (ka_config p)" and data: "kj_Marshal (ka_json p) event = Inr data"
  obtains k' m where "publishWithRetry p topic event k = Some (Inr (), k')" "log k' = log k @ [m]" "rd k' = rd k"
    "copy_of topic (GetID event) data m"
proof -
  define m where "m = \<lparr>km_Topic = topic, km_Key = GetID event, km_Value = data, km_Time = kc_now (ka_client p) 0 k\<rparr>"
  obtain v k' where v: "kc_Write (ka_client p) (kg_Timeout (ka_config p)) m k = (v, k')" by fastforce
  have "\<not> isl v" using up v unfolding writes_work_def by (metis fst_conv)
  then have v': "v = Inr ()" by (cases v) auto
  have "publishWithRetry p topic event k = Some (Inr (), k')"
    using assms(3) data v v' by (subst publishWithRetry.simps) (simp add: Let_def m_def)
  moreover have "log k' = log k @ [m] \<and> rd k' = rd k" using law_write [OF law v] v' by auto
  ultimately show ?thesis using that [of k' m] by (simp add: m_def copy_of_def)
qed

text \<open>The entry of the dead letter queue for a message: the message, its topic and the text of the error.\<close>
definition dead_letter :: "'k kafka \<Rightarrow> string \<Rightarrow> gerr \<Rightarrow> kafka_message \<Rightarrow> kafka_message \<Rightarrow> bool" where
  "dead_letter p topic err m d \<longleftrightarrow> km_Topic d = kg_DLQTopic (ka_config p) \<and>
     (\<exists>i t. kj_Marshal (ka_json p) (DLQEv \<lparr>dq_ID = i, dq_OriginalTopic = topic, dq_Event = km_Value m, dq_Error = err_text err,
                                            dq_Timestamp = t, dq_RetryCount = 0\<rparr>) = Inr (km_Value d))"

text \<open>
  A history of the loop, message by message: what the handler itself published while it ran, and what the loop published afterwards,
  which is nothing when the handler succeeded and one dead letter with its error when it failed. \<open>lg\<close> and \<open>rds\<close> are what was published
  and read before.
\<close>
fun history :: "'k kafka \<Rightarrow> string \<Rightarrow> (string \<Rightarrow> ('k, unit) prog) \<Rightarrow> ('k \<Rightarrow> kafka_message list) \<Rightarrow> ('k \<Rightarrow> kafka_message list) \<Rightarrow>
    kafka_message list \<Rightarrow> kafka_message list \<Rightarrow> (kafka_message \<times> kafka_message list \<times> kafka_message list) list \<Rightarrow> bool" where
  "history p topic process log rd lg rds [] = True"
| "history p topic process log rd lg rds ((m, own, dead) # hs) =
     ((\<exists>k1 r k2. log k1 = lg \<and> rd k1 = rds @ [m] \<and> process (km_Value m) k1 = Some (r, k2) \<and> log k2 = lg @ own \<and>
         (case r of Inr _ \<Rightarrow> dead = [] | Inl err \<Rightarrow> \<exists>d. dead = [d] \<and> dead_letter p topic err m d)) \<and>
      history p topic process log rd (lg @ own @ dead) (rds @ [m]) hs)"

definition published :: "(kafka_message \<times> kafka_message list \<times> kafka_message list) list \<Rightarrow> kafka_message list" where
  "published hs = concat (map (\<lambda>(m, own, dead). own @ dead) hs)"

lemma published_simps [simp]: "published [] = []" "published ((m, own, dead) # hs) = own @ dead @ published hs"
  by (simp_all add: published_def)

lemma history_append:
  "history p topic process log rd lg rds (hs @ hs') \<longleftrightarrow>
     history p topic process log rd lg rds hs \<and> history p topic process log rd (lg @ published hs) (rds @ map fst hs) hs'"
proof (induction hs arbitrary: lg rds)
  case (Cons h hs)
  obtain m own dead where h: "h = (m, own, dead)" by (cases h)
  show ?case unfolding h using Cons.IH [of "lg @ own @ dead" "rds @ [m]"] by simp
qed simp

text \<open>One turn: no message, or one message with its part of the history.\<close>
lemma consume_turn_kept:
  assumes law: "kafka_law (ka_client p) log rd" and up: "writes_work (ka_client p)" and "0 \<le> kg_MaxRetries (ka_config p)"
    and enc: "\<forall>e. \<exists>d. kj_Marshal (ka_json p) e = Inr d"
    and proc: "\<forall>d k. \<exists>r k1 own. process d k = Some (r, k1) \<and> log k1 = log k @ own \<and> rd k1 = rd k"
  shows "\<exists>t hs. next_message p topic (consume_body p topic process) k = Some t \<and>
    rd (turn_state t) = rd k @ map fst hs \<and> log (turn_state t) = log k @ published hs \<and>
    history p topic process log rd (log k) (rd k) hs"
proof (cases "kc_Err (ka_client p) k")
  case (Some e)
  then show ?thesis by (intro exI [of _ "Stop e k"] exI [of _ "[]"]) (simp add: next_message_def)
next
  case None
  obtain x k1 where read: "kc_Read (ka_client p) topic k = (x, k1)" by fastforce
  have k1: "log k1 = log k" "rd k1 = rd k @ (case x of Inl _ \<Rightarrow> [] | Inr m \<Rightarrow> [m])"
    using law read unfolding kafka_law_def by (metis fst_conv snd_conv)+
  have quiet: "log (kc_Sleep (ka_client p) d k) = log k" "rd (kc_Sleep (ka_client p) d k) = rd k"
    "log (commit p topic m k) = log k" "rd (commit p topic m k) = rd k" for d k m
    using law unfolding kafka_law_def commit_def by blast+
  show ?thesis
  proof (cases x)
    case (Inl e)
    then show ?thesis using None read k1 quiet
      by (cases "kc_Err (ka_client p) k1")
        (intro exI [of _ "if kc_Err (ka_client p) k1 = None then Next (kc_Sleep (ka_client p) one_second k1) else Stop (the (kc_Err (ka_client p) k1)) k1"] exI [of _ "[]"];
         simp add: next_message_def)+
  next
    case (Inr m)
    obtain r k2 own where k2: "process (km_Value m) k1 = Some (r, k2)" "log k2 = log k1 @ own" "rd k2 = rd k1" using proc by blast
    show ?thesis
    proof (cases r)
      case okay: (Inr u)
      have "history p topic process log rd (log k) (rd k) [(m, own, [])]"
        using k1 k2 Inr okay by (auto intro!: exI [of _ k1])
      then show ?thesis using None read Inr k1 k2 quiet okay
        by (intro exI [of _ "Next (commit p topic m k2)"] exI [of _ "[(m, own, [])]"]) (simp add: next_message_def consume_body_def)
    next
      case err: (Inl e)
      define ev where "ev = dlq_event p topic (km_Value m) e 0 k2"
      obtain data where data: "kj_Marshal (ka_json p) (DLQEv ev) = Inr data" using enc by blast
      obtain k3 d where k3: "publishWithRetry p (kg_DLQTopic (ka_config p)) (DLQEv ev) k2 = Some (Inr (), k3)" "log k3 = log k2 @ [d]" "rd k3 = rd k2"
          "copy_of (kg_DLQTopic (ka_config p)) (GetID (DLQEv ev)) data d"
        by (rule publish_working [OF law up assms(3) data])
      have "dead_letter p topic e m d"
        using k3(4) data by (auto simp: dead_letter_def copy_of_def ev_def dlq_event_def)
      then have "history p topic process log rd (log k) (rd k) [(m, own, [d])]"
        using k1 k2 Inr err by (auto intro!: exI [of _ k1])
      then show ?thesis using None read Inr k1 k2 k3 err quiet
        by (intro exI [of _ "Next (commit p topic m k3)"] exI [of _ "[(m, own, [d])]"])
          (simp add: next_message_def consume_body_def PublishDLQEvent_def flip: ev_def)
    qed
  qed
qed

text \<open>C40: No failed message is lost while writing to the broker works. The handler may depend on the state and may publish events of its own, as
  those of the services do; it returns and does not read; every event can be encoded. Then every number of turns of the loop is made, and what was published is,
  message by message in the order of reading: what the handler itself published, followed, exactly if the handler failed, by one
  entry on the dead letter queue with the message, its topic and the error. Nothing else is published. (A write that fails, because the broker
  is down or the context has ended, is not covered.)\<close>
theorem failed_messages_kept:
  assumes law: "kafka_law (ka_client p) log rd" and up: "writes_work (ka_client p)" and "0 \<le> kg_MaxRetries (ka_config p)"
    and enc: "\<forall>e. \<exists>d. kj_Marshal (ka_json p) e = Inr d"
    and proc: "\<forall>d k. \<exists>r k1 own. process d k = Some (r, k1) \<and> log k1 = log k @ own \<and> rd k1 = rd k"
  shows "\<exists>t hs. kc_consume n p topic process k = Some t \<and> rd (turn_state t) = rd k @ map fst hs \<and>
    log (turn_state t) = log k @ published hs \<and> history p topic process log rd (log k) (rd k) hs"
proof (induction n arbitrary: k)
  case 0
  show ?case by (intro exI [of _ "Next k"] exI [of _ "[]"]) (simp add: kc_consume_def)
next
  case (Suc n)
  obtain t hs where t: "next_message p topic (consume_body p topic process) k = Some t" "rd (turn_state t) = rd k @ map fst hs"
      "log (turn_state t) = log k @ published hs" "history p topic process log rd (log k) (rd k) hs"
    using consume_turn_kept [OF assms, of topic k] by blast
  show ?case
  proof (cases "\<exists>k1. t = Next k1")
    case True
    then obtain k1 where k1: "t = Next k1" by blast
    obtain t' hs' where t': "kc_consume n p topic process k1 = Some t'" "rd (turn_state t') = rd k1 @ map fst hs'"
        "log (turn_state t') = log k1 @ published hs'" "history p topic process log rd (log k1) (rd k1) hs'"
      using Suc.IH by blast
    have "kc_consume (Suc n) p topic process k = Some t'" using t(1) k1 t'(1) by (simp add: kc_consume_def)
    moreover have "published (hs @ hs') = published hs @ published hs'" by (simp add: published_def)
    ultimately show ?thesis
      using t t' k1 by (intro exI [of _ t'] exI [of _ "hs @ hs'"]) (simp add: history_append)
  next
    case False
    then have "kc_consume (Suc n) p topic process k = Some t" using t(1) by (cases t) (auto simp: kc_consume_def)
    then show ?thesis using t by blast
  qed
qed

text \<open>C39: Publishing ends if the broker fails only finitely often, whatever the caller's context does. If the broker stays down while the
  context lives, it never returns: the entry for the dead letter queue fails too and gets an entry of its own.
\<close>
theorem publish_termination:
  "(recovers (ka_client p) failures \<longrightarrow> (\<exists>r k'. publishWithRetry p topic event k = Some (r, k'))) \<and>
   (stays_down (ka_client p) dead \<and> dead k \<and> 0 \<le> kg_MaxRetries (ka_config p) \<and> (\<forall>e. \<exists>d. kj_Marshal (ka_json p) e = Inr d) \<longrightarrow>
      publishWithRetry p topic event k = None)"
proof (intro conjI impI)
  show "recovers (ka_client p) failures \<Longrightarrow> \<exists>r k'. publishWithRetry p topic event k = Some (r, k')"
    by (rule publish_returns)
next
  assume "stays_down (ka_client p) dead \<and> dead k \<and> 0 \<le> kg_MaxRetries (ka_config p) \<and> (\<forall>e. \<exists>d. kj_Marshal (ka_json p) e = Inr d)"
  then show "publishWithRetry p topic event k = None"
    using publish_never_returns [of p topic event k _ _ dead] by (cases "publishWithRetry p topic event k") auto
qed

section \<open>The dead letter queue and the retry manager\<close>

text \<open>
  The queue is read by a retry manager without a producer: the first entry with retries left whose event can be decoded ends the
  process, on every topic the service has.
\<close>
lemma dlq_retry_panics:
  assumes "kc_Err (ka_client p) k = None" "kc_Read (ka_client p) topic k = (Inr msg, k1)"
    "kj_DLQ (ka_json p) (km_Value msg) = Inr e" "dq_RetryCount e < kg_MaxRetries (ka_config p)"
    "dq_OriginalTopic e = kg_FileEventsTopic (ka_config p)" "kj_File (ka_json p) (dq_Event e) = Inr event"
  shows "\<exists>k2. ConsumeDLQEvents (Suc n) p topic handler k = Some (Panic ''invalid memory address or nil pointer dereference'' k2)"
  using assms
  by (simp add: ConsumeDLQEvents_def next_message_def dlq_body_def retryEventFromDLQ_def publish_decoded_def Let_def)

text \<open>
  The entries that \<open>publishWithRetry\<close> itself writes have no retries left: for them the loop calls the handler.
\<close>
lemma dlq_exhausted_handled:
  assumes "kj_DLQ (ka_json p) (km_Value msg) = Inr (dlq_event q topic' data err (kg_MaxRetries (ka_config p)) k0)"
    "handler (dlq_event q topic' data err (kg_MaxRetries (ka_config p)) k0) k = Some (r, k1)"
  shows "dlq_body p topic handler msg k = Some (Next (commit p topic msg k1))"
  using assms by (simp add: dlq_body_def dlq_event_def)

text \<open>An event of the wrong type for its topic is dropped, and the call reports success.\<close>
lemma mismatched_event_dropped:
  assumes "0 \<le> kg_MaxRetries (ka_config p)" "\<nexists>e. event = FileEv e"
  shows "PublishWithRetry p producer (kg_FileEventsTopic (ka_config p)) event k = Some (Result (Inr ()) k)"
  using assms by (cases event) (simp_all add: PublishWithRetry_def publish_as_def Let_def)


section \<open>Witnesses\<close>

record ex_broker =
  xb_fail :: nat
  xb_log :: "kafka_message list"
  xb_in :: "kafka_message list"
  xb_rd :: "kafka_message list"

text \<open>A broker whose next \<open>xb_fail\<close> writes fail.\<close>
definition ex_client :: "ex_broker kafka_client" where
  "ex_client =
     \<lparr>kc_Write = \<lambda>t m k. if xb_fail k = 0 then (Inr (), k\<lparr>xb_log := xb_log k @ [m]\<rparr>)
                        else (Inl (Errorf ''timeout''), k\<lparr>xb_fail := xb_fail k - 1\<rparr>),
      kc_Read = \<lambda>topic k. (case xb_in k of [] \<Rightarrow> (Inl (Errorf ''EOF''), k)
                           | m # ms \<Rightarrow> (Inr m, k\<lparr>xb_in := ms, xb_rd := xb_rd k @ [m]\<rparr>)),
      kc_Commit = \<lambda>topic m k. (Inr (), k), kc_Err = \<lambda>k. None, kc_Wait = \<lambda>d k. (Inr (), k), kc_Sleep = \<lambda>d k. k, kc_now = \<lambda>i k. 0\<rparr>"

definition ex_up :: "ex_broker kafka_client" where
  "ex_up = ex_client\<lparr>kc_Write := \<lambda>t m k. (Inr (), k\<lparr>xb_log := xb_log k @ [m]\<rparr>)\<rparr>"

definition ex_down :: "ex_broker kafka_client" where
  "ex_down = ex_client\<lparr>kc_Write := \<lambda>t m k. (Inl (Errorf ''no route to host''), k)\<rparr>"

definition ex_json :: kafka_json where
  "ex_json = \<lparr>kj_Marshal = \<lambda>e. Inr (GetID e), kj_File = \<lambda>d. Inl (Errorf ''x''), kj_Sync = \<lambda>d. Inl (Errorf ''x''),
     kj_Conflict = \<lambda>d. Inl (Errorf ''x''), kj_DLQ = \<lambda>d. Inl (Errorf ''x'')\<rparr>"

definition ex_kafka :: "ex_broker kafka_client \<Rightarrow> ex_broker kafka" where
  "ex_kafka c = \<lparr>ka_client = c, ka_json = ex_json,
     ka_config = \<lparr>kg_GroupID = ''g'', kg_FileEventsTopic = ''file'', kg_SyncEventsTopic = ''sync'', kg_ConflictTopic = ''conflict'',
       kg_DLQTopic = ''dlq'', kg_Timeout = 5, kg_MaxRetries = 2, kg_RetryBackoff = 1\<rparr>\<rparr>"

definition ex_event :: KafkaFileEvent where
  "ex_event = \<lparr>kf_ID = ''e1'', kf_Type = ''FileCreated'', kf_UserID = ''u'', kf_FilePath = ''a'', kf_FileHash = ''h'', kf_Size = 3,
     kf_Timestamp = 0, kf_Metadata = None\<rparr>"

definition ex_broker0 :: ex_broker where
  "ex_broker0 = \<lparr>xb_fail = 1, xb_log = [], xb_in = [\<lparr>km_Topic = ''file'', km_Key = ''k'', km_Value = ''bad'', km_Time = 0\<rparr>], xb_rd = []\<rparr>"

lemma ex_law: "kafka_law ex_client xb_log xb_rd" "kafka_law ex_up xb_log xb_rd"
  by (auto simp: kafka_law_def ex_up_def ex_client_def split: list.splits)

lemma ex_publish:
  "publishWithRetry (ex_kafka ex_client) ''file'' (FileEv ex_event) ex_broker0 =
     Some (Inr (), ex_broker0\<lparr>xb_fail := 0, xb_log := [\<lparr>km_Topic = ''file'', km_Key = ''e1'', km_Value = ''e1'', km_Time = 0\<rparr>]\<rparr>)"
  by (subst publishWithRetry.simps)
    (simp add: ex_kafka_def ex_json_def ex_event_def ex_broker0_def ex_client_def Let_def numeral_2_eq_2)

theorem publish_at_least_once_witness:
  "\<exists>k'. publishWithRetry (ex_kafka ex_client) ''file'' (FileEv ex_event) ex_broker0 = Some (Inr (), k') \<and>
     (\<exists>ms ds. xb_log k' = ms @ ds \<and> ms \<noteq> [] \<and> ds = [] \<and> length ms \<le> 3)"
  using publish_at_least_once [OF _ ex_publish, of xb_log xb_rd] ex_law(1) ex_publish
  by (auto simp: ex_kafka_def ex_broker0_def)

theorem publish_termination_witness:
  "(\<exists>r k'. publishWithRetry (ex_kafka ex_client) ''file'' (FileEv ex_event) ex_broker0 = Some (r, k')) \<and>
   publishWithRetry (ex_kafka ex_down) ''file'' (FileEv ex_event) ex_broker0 = None"
proof -
  have up: "recovers (ka_client (ex_kafka ex_client)) xb_fail"
    by (auto simp: recovers_def ex_kafka_def ex_client_def)
  have down: "stays_down (ka_client (ex_kafka ex_down)) (\<lambda>k. True) \<and> 0 \<le> kg_MaxRetries (ka_config (ex_kafka ex_down)) \<and>
      (\<forall>e. \<exists>d. kj_Marshal (ka_json (ex_kafka ex_down)) e = Inr d)"
    by (auto simp: stays_down_def ex_kafka_def ex_client_def ex_down_def ex_json_def)
  show ?thesis
    using publish_termination [of "ex_kafka ex_client" xb_fail "''file''" "FileEv ex_event" ex_broker0 "\<lambda>k. False"] up
      publish_termination [of "ex_kafka ex_down" "\<lambda>k. 0" "''file''" "FileEv ex_event" ex_broker0 "\<lambda>k. True"] down
    by blast
qed

text \<open>A handler that publishes the event and then fails.\<close>
definition ex_handler :: "string \<Rightarrow> (ex_broker, unit) prog" where
  "ex_handler d k = map_option (\<lambda>(r, k1). (Inl (Errorf ''refused''), k1)) (PublishFileEvent (ex_kafka ex_up) ex_event k)"

theorem failed_messages_kept_witness:
  "\<exists>t hs. kc_consume 1 (ex_kafka ex_up) ''file'' ex_handler ex_broker0 = Some t \<and>
     xb_rd (turn_state t) = map fst hs \<and> xb_log (turn_state t) = published hs \<and>
     history (ex_kafka ex_up) ''file'' ex_handler xb_log xb_rd [] [] hs"
proof -
  have h: "kafka_law (ka_client (ex_kafka ex_up)) xb_log xb_rd" "writes_work (ka_client (ex_kafka ex_up))"
    "0 \<le> kg_MaxRetries (ka_config (ex_kafka ex_up))" "\<forall>e. \<exists>d. kj_Marshal (ka_json (ex_kafka ex_up)) e = Inr d"
    using ex_law(2) by (auto simp: writes_work_def ex_kafka_def ex_up_def ex_json_def)
  have "\<exists>r k1 own. ex_handler d k = Some (r, k1) \<and> xb_log k1 = xb_log k @ own \<and> xb_rd k1 = xb_rd k" for d k
  proof -
    obtain data where data: "kj_Marshal (ka_json (ex_kafka ex_up)) (FileEv ex_event) = Inr data" using h(4) by blast
    obtain k' m where "publishWithRetry (ex_kafka ex_up) (kg_FileEventsTopic (ka_config (ex_kafka ex_up))) (FileEv ex_event) k = Some (Inr (), k')"
        "xb_log k' = xb_log k @ [m]" "xb_rd k' = xb_rd k"
      by (rule publish_working [OF h(1-3) data])
    then show ?thesis by (auto simp: ex_handler_def PublishFileEvent_def)
  qed
  then show ?thesis
    using failed_messages_kept [OF h, of ex_handler 1 "''file''" ex_broker0] by (simp add: ex_broker0_def)
qed

end
