(* ===== verification/Grpc_Auth.thy ===== *)
theory Grpc_Auth
  imports Complex_Main Sync_Node Hex_Hash
begin

text \<open>
  Authentication of gRPC calls (\<^verbatim>\<open>internal/grpc/interceptors/jwt_validator.go\<close> and \<^verbatim>\<open>auth.go\<close>). Parameters are HMAC-SHA256 and
  \<open>encoding/json\<close>; \<open>encoding/base64\<close> is modelled. Metadata of a call is ASCII, as gRPC demands.
\<close>

section \<open>Tokens\<close>

record Claims =
  cl_UserID :: string
  cl_NodeID :: string
  cl_Roles :: "string list"
  cl_Email :: string
  cl_IsActive :: bool

record GrpcTokenPair =
  gp_AccessToken :: string
  gp_RefreshToken :: string
  gp_TokenType :: string
  gp_ExpiresIn :: int
  gp_RefreshExpiresIn :: int

record JWTValidatorImpl =
  jv_secretKey :: string
  jv_issuer :: string
  jv_tokenExpiry :: int
  jv_refreshExpiry :: int

text \<open>A decoded JSON value; a number is a \<open>float64\<close>, which is a rational number. A \<open>nil\<close> slice counts as an empty one.\<close>
datatype jvalue = JNull | JBool bool | JString string | JNumber rat | JArray "jvalue list" | JObject "(string \<times> jvalue) list"

type_synonym payload = "(string, jvalue) fmap"

record token_lib =
  tl_hmac :: "string \<Rightarrow> string \<Rightarrow> string"
  tl_Marshal :: "payload \<Rightarrow> gerr + string"
  tl_Unmarshal :: "string \<Rightarrow> gerr + payload"

definition NewJWTValidator :: "string \<Rightarrow> string \<Rightarrow> int \<Rightarrow> int \<Rightarrow> JWTValidatorImpl" where
  "NewJWTValidator secretKey issuer tokenExpiry refreshExpiry =
     \<lparr>jv_secretKey = secretKey, jv_issuer = issuer, jv_tokenExpiry = tokenExpiry, jv_refreshExpiry = refreshExpiry\<rparr>"

text \<open>\<open>t.Unix()\<close>\<close>
definition Unix :: "gotime \<Rightarrow> int" where
  "Unix t = t div 1000000000 - 62135596800"

definition createSignature :: "token_lib \<Rightarrow> JWTValidatorImpl \<Rightarrow> string \<Rightarrow> string" where
  "createSignature l j input = tl_hmac l (jv_secretKey j) input"

definition generateJTI :: "token_lib \<Rightarrow> int \<Rightarrow> int \<Rightarrow> string" where
  "generateJTI l nano1 nano2 = take 16 (URLEncode (tl_hmac l (int_text nano1) (int_text nano2)))"

definition token_header :: payload where
  "token_header = fmap_of_list [(''alg'', JString ''HS256''), (''typ'', JString ''JWT'')]"

definition token_payload :: "JWTValidatorImpl \<Rightarrow> Claims \<Rightarrow> gotime \<Rightarrow> int \<Rightarrow> string \<Rightarrow> payload" where
  "token_payload j c now expiry jti =
     fmap_of_list
      [(''user_id'', JString (cl_UserID c)), (''node_id'', JString (cl_NodeID c)), (''email'', JString (cl_Email c)),
       (''roles'', JArray (map JString (cl_Roles c))), (''is_active'', JBool (cl_IsActive c)), (''iss'', JString (jv_issuer j)),
       (''iat'', JNumber (of_int (Unix now))), (''exp'', JNumber (of_int (Unix (now + expiry)))), (''jti'', JString jti)]"

definition GenerateToken :: "token_lib \<Rightarrow> JWTValidatorImpl \<Rightarrow> gotime \<Rightarrow> string \<Rightarrow> Claims \<Rightarrow> int \<Rightarrow> gerr + string" where
  "GenerateToken l j now jti claims expiry =
     (case tl_Marshal l token_header of
        Inl err \<Rightarrow> Inl (Wrapf ''failed to marshal header: '' err)
      | Inr headerBytes \<Rightarrow>
     (case tl_Marshal l (token_payload j claims now expiry jti) of
        Inl err \<Rightarrow> Inl (Wrapf ''failed to marshal payload: '' err)
      | Inr payloadBytes \<Rightarrow>
          let signingInput = RawURLEncode headerBytes @ ''.'' @ RawURLEncode payloadBytes
          in Inr (signingInput @ ''.'' @ RawURLEncode (createSignature l j signingInput))))"

fun string_of :: "jvalue option \<Rightarrow> string option" where
  "string_of (Some (JString s)) = Some s"
| "string_of _ = None"

fun bool_of :: "jvalue option \<Rightarrow> bool option" where
  "bool_of (Some (JBool b)) = Some b"
| "bool_of _ = None"

fun number_of :: "jvalue option \<Rightarrow> rat option" where
  "number_of (Some (JNumber x)) = Some x"
| "number_of _ = None"

fun array_of :: "jvalue option \<Rightarrow> jvalue list option" where
  "array_of (Some (JArray vs)) = Some vs"
| "array_of _ = None"

text \<open>\<open>int64(x)\<close> of a \<open>float64\<close> in the range of \<open>int64\<close>.\<close>
definition int64_of :: "rat \<Rightarrow> int" where
  "int64_of x = (if x < 0 then \<lceil>x\<rceil> else \<lfloor>x\<rfloor>)"

definition or_empty :: "string option \<Rightarrow> string" where
  "or_empty s = (case s of None \<Rightarrow> [] | Some x \<Rightarrow> x)"

text \<open>The claims that are of the expected type; the others keep Go's zero value.\<close>
definition claims_of :: "payload \<Rightarrow> Claims" where
  "claims_of d =
     \<lparr>cl_UserID = or_empty (string_of (fmlookup d ''user_id'')), cl_NodeID = or_empty (string_of (fmlookup d ''node_id'')),
      cl_Roles = (case array_of (fmlookup d ''roles'') of None \<Rightarrow> [] | Some vs \<Rightarrow> map (\<lambda>v. or_empty (string_of (Some v))) vs),
      cl_Email = or_empty (string_of (fmlookup d ''email'')), cl_IsActive = (bool_of (fmlookup d ''is_active'') = Some True)\<rparr>"

definition check_payload :: "JWTValidatorImpl \<Rightarrow> gotime \<Rightarrow> payload \<Rightarrow> gerr + Claims" where
  "check_payload j now d =
     (if (case number_of (fmlookup d ''exp'') of None \<Rightarrow> False | Some x \<Rightarrow> Unix now > int64_of x)
      then Inl (Errorf ''token expired'')
      else case string_of (fmlookup d ''iss'') of
          Some iss \<Rightarrow>
            if iss \<noteq> jv_issuer j then Inl (Errorf (''invalid issuer: expected '' @ jv_issuer j @ '', got '' @ iss))
            else if bool_of (fmlookup d ''is_active'') = Some False then Inl (Errorf ''token is not active'')
            else Inr (claims_of d)
        | None \<Rightarrow>
            if bool_of (fmlookup d ''is_active'') = Some False then Inl (Errorf ''token is not active'')
            else Inr (claims_of d))"

definition gv_ValidateToken :: "token_lib \<Rightarrow> JWTValidatorImpl \<Rightarrow> gotime \<Rightarrow> string \<Rightarrow> gerr + Claims" where
  "gv_ValidateToken l j now tokenString =
     (case split_on CHR ''.'' tokenString of
        [p0, p1, p2] \<Rightarrow>
          if p2 \<noteq> RawURLEncode (createSignature l j (p0 @ ''.'' @ p1)) then Inl (Errorf ''invalid token signature'')
          else (case RawURLDecode p1 of
                  Inl err \<Rightarrow> Inl (Wrapf ''failed to decode token payload: '' err)
                | Inr payloadBytes \<Rightarrow>
                    (case tl_Unmarshal l payloadBytes of
                       Inl err \<Rightarrow> Inl (Wrapf ''failed to parse token payload: '' err)
                     | Inr tokenData \<Rightarrow> check_payload j now tokenData))
      | parts \<Rightarrow> Inl (Errorf (''invalid token format: expected 3 parts, got '' @ nat_text (length parts))))"

text \<open>\<open>int64(d.Seconds())\<close>\<close>
definition whole_seconds :: "int \<Rightarrow> int" where
  "whole_seconds d = (if d < 0 then - ((- d) div 1000000000) else d div 1000000000)"

text \<open>Both tokens read the clock and make an ID of their own.\<close>
definition gv_GenerateTokenPair ::
  "token_lib \<Rightarrow> JWTValidatorImpl \<Rightarrow> (nat \<Rightarrow> gotime) \<Rightarrow> (nat \<Rightarrow> string) \<Rightarrow> Claims \<Rightarrow> gerr + GrpcTokenPair" where
  "gv_GenerateTokenPair l j now jti claims =
     (case GenerateToken l j (now 0) (jti 0) claims (jv_tokenExpiry j) of
        Inl err \<Rightarrow> Inl (Wrapf ''failed to generate access token: '' err)
      | Inr accessToken \<Rightarrow>
     (case GenerateToken l j (now 1) (jti 1) claims (jv_refreshExpiry j) of
        Inl err \<Rightarrow> Inl (Wrapf ''failed to generate refresh token: '' err)
      | Inr refreshToken \<Rightarrow>
          Inr \<lparr>gp_AccessToken = accessToken, gp_RefreshToken = refreshToken, gp_TokenType = ''Bearer'',
               gp_ExpiresIn = whole_seconds (jv_tokenExpiry j), gp_RefreshExpiresIn = whole_seconds (jv_refreshExpiry j)\<rparr>))"

definition gv_RefreshToken ::
  "token_lib \<Rightarrow> JWTValidatorImpl \<Rightarrow> gotime \<Rightarrow> (nat \<Rightarrow> gotime) \<Rightarrow> (nat \<Rightarrow> string) \<Rightarrow> string \<Rightarrow> gerr + GrpcTokenPair" where
  "gv_RefreshToken l j t now jti refreshTokenString =
     (case gv_ValidateToken l j t refreshTokenString of
        Inl err \<Rightarrow> Inl (Wrapf ''invalid refresh token: '' err)
      | Inr claims \<Rightarrow> gv_GenerateTokenPair l j now jti claims)"

text \<open>A byte beyond ASCII is in none of the classes.\<close>
definition ValidateSecretKey :: "string \<Rightarrow> gerr option" where
  "ValidateSecretKey key =
     (if length key < 32 then Some (Errorf ''secret key must be at least 32 characters long'')
      else if list_ex (\<lambda>c. c \<in> set ''ABCDEFGHIJKLMNOPQRSTUVWXYZ'') key \<and> list_ex (\<lambda>c. c \<in> set ''abcdefghijklmnopqrstuvwxyz'') key \<and>
              list_ex (\<lambda>c. c \<in> set ''0123456789'') key \<and> list_ex (\<lambda>c. c \<in> set ''!@#$%^&*()_+-=[]{}|;:,.<>?'') key
      then None
      else Some (Errorf ''secret key must contain uppercase, lowercase, digits, and special characters''))"

section \<open>The interceptor\<close>

text \<open>\<open>strings.ToLower\<close> and \<open>strings.TrimSpace\<close> on ASCII.\<close>
definition lower_char :: "char \<Rightarrow> char" where
  "lower_char c = (if 65 \<le> (of_char c :: nat) \<and> (of_char c :: nat) \<le> 90 then char_of ((of_char c :: nat) + 32) else c)"

definition is_space :: "char \<Rightarrow> bool" where
  "is_space c \<longleftrightarrow> c = CHR 0x20 \<or> 9 \<le> (of_char c :: nat) \<and> (of_char c :: nat) \<le> 13"

definition TrimSpace :: "string \<Rightarrow> string" where
  "TrimSpace s = rev (dropWhile is_space (rev (dropWhile is_space s)))"

definition ExtractTokenFromBearerString :: "string \<Rightarrow> string" where
  "ExtractTokenFromBearerString s =
     (if HasPrefix (map lower_char s) ''bearer '' then TrimSpace (drop 7 s) else TrimSpace s)"

datatype grpc_status = Status (st_code: nat) (st_msg: string)

definition Unauthenticated :: nat where "Unauthenticated = 16"
definition PermissionDenied :: nat where "PermissionDenied = 7"

text \<open>The context of a call: the metadata of the request and the claims that an interceptor stored.\<close>
record grpc_ctx =
  gx_md :: "(string \<times> string list) list option"
  gx_claims :: "Claims option"

record AuthInterceptor =
  ai_ValidateToken :: "string \<Rightarrow> gerr + Claims"
  ai_publicMethods :: "(string, bool) fmap"

definition NewAuthInterceptor :: "(string \<Rightarrow> gerr + Claims) \<Rightarrow> string list \<Rightarrow> AuthInterceptor" where
  "NewAuthInterceptor v publicMethods = \<lparr>ai_ValidateToken = v, ai_publicMethods = map_from id (\<lambda>_. True) publicMethods\<rparr>"

definition isPublicMethod :: "AuthInterceptor \<Rightarrow> string \<Rightarrow> bool" where
  "isPublicMethod ai fullMethod = (fmlookup (ai_publicMethods ai) (last (split_on CHR ''/'' fullMethod)) = Some True)"

definition tokenHeaders :: "string list" where
  "tokenHeaders = [''authorization'', ''x-auth-token'', ''grpc-metadata-token'']"

fun first_token :: "(string \<times> string list) list \<Rightarrow> string list \<Rightarrow> gerr + string" where
  "first_token md [] = Inl (Errorf ''authorization token not found'')"
| "first_token md (h # hs) =
     (case map_of md h of
        Some (token # _) \<Rightarrow> Inr (ExtractTokenFromBearerString token)
      | _ \<Rightarrow> first_token md hs)"

definition extractTokenFromMetadata :: "grpc_ctx \<Rightarrow> gerr + string" where
  "extractTokenFromMetadata ctx =
     (case gx_md ctx of None \<Rightarrow> Inl (Errorf ''metadata not found'') | Some md \<Rightarrow> first_token md tokenHeaders)"

definition setClaimsToContext :: "grpc_ctx \<Rightarrow> Claims \<Rightarrow> grpc_ctx" where
  "setClaimsToContext ctx claims = ctx\<lparr>gx_claims := Some claims\<rparr>"

definition GetClaimsFromContext :: "grpc_ctx \<Rightarrow> Claims option" where
  "GetClaimsFromContext ctx = gx_claims ctx"

type_synonym ('s, 'a) grpc_call = "'s \<Rightarrow> (grpc_status + 'a) \<times> 's"

definition UnaryInterceptor ::
  "AuthInterceptor \<Rightarrow> string \<Rightarrow> (grpc_ctx \<Rightarrow> 'req \<Rightarrow> ('s, 'a) grpc_call) \<Rightarrow> grpc_ctx \<Rightarrow> 'req \<Rightarrow> ('s, 'a) grpc_call" where
  "UnaryInterceptor ai fullMethod handler ctx req s =
     (if isPublicMethod ai fullMethod then handler ctx req s
      else case extractTokenFromMetadata ctx of
          Inl err \<Rightarrow> (Inl (Status Unauthenticated (''authentication failed: '' @ err_text err)), s)
        | Inr token \<Rightarrow>
            (case ai_ValidateToken ai token of
               Inl err \<Rightarrow> (Inl (Status Unauthenticated (''invalid token: '' @ err_text err)), s)
             | Inr claims \<Rightarrow> handler (setClaimsToContext ctx claims) req s))"

text \<open>A stream is its context with what else it is; the wrapped stream has another context.\<close>
definition StreamInterceptor ::
  "AuthInterceptor \<Rightarrow> string \<Rightarrow> (grpc_ctx \<times> 'x \<Rightarrow> ('s, unit) grpc_call) \<Rightarrow> grpc_ctx \<times> 'x \<Rightarrow> ('s, unit) grpc_call" where
  "StreamInterceptor ai fullMethod handler ss s =
     (if isPublicMethod ai fullMethod then handler ss s
      else case extractTokenFromMetadata (fst ss) of
          Inl err \<Rightarrow> (Inl (Status Unauthenticated (''authentication failed: '' @ err_text err)), s)
        | Inr token \<Rightarrow>
            (case ai_ValidateToken ai token of
               Inl err \<Rightarrow> (Inl (Status Unauthenticated (''invalid token: '' @ err_text err)), s)
             | Inr claims \<Rightarrow> handler (setClaimsToContext (fst ss) claims, snd ss) s))"

definition no_claims :: grpc_status where
  "no_claims = Status Unauthenticated ''claims not found in context''"

definition RequireRole :: "grpc_ctx \<Rightarrow> string \<Rightarrow> grpc_status option" where
  "RequireRole ctx requiredRole =
     (case GetClaimsFromContext ctx of
        None \<Rightarrow> Some no_claims
      | Some claims \<Rightarrow>
          if requiredRole \<in> set (cl_Roles claims) then None
          else Some (Status PermissionDenied (''required role '' @ requiredRole @ '' not found'')))"

definition RequireUserID :: "grpc_ctx \<Rightarrow> string \<Rightarrow> grpc_status option" where
  "RequireUserID ctx requiredUserID =
     (case GetClaimsFromContext ctx of
        None \<Rightarrow> Some no_claims
      | Some claims \<Rightarrow>
          if cl_UserID claims \<noteq> requiredUserID
          then Some (Status PermissionDenied (''user ID mismatch: expected '' @ requiredUserID @ '', got '' @ cl_UserID claims))
          else None)"

definition RequireNodeID :: "grpc_ctx \<Rightarrow> string \<Rightarrow> grpc_status option" where
  "RequireNodeID ctx requiredNodeID =
     (case GetClaimsFromContext ctx of
        None \<Rightarrow> Some no_claims
      | Some claims \<Rightarrow>
          if cl_NodeID claims \<noteq> requiredNodeID
          then Some (Status PermissionDenied (''node ID mismatch: expected '' @ requiredNodeID @ '', got '' @ cl_NodeID claims))
          else None)"

section \<open>Properties of tokens\<close>

text \<open>
  \<open>encoding/json\<close> gives a map back as it was: it does so when the texts are valid UTF-8 and the numbers are whole and below
  \<open>2^53\<close>, so that a \<open>float64\<close> holds them.
\<close>
definition reads_back :: "token_lib \<Rightarrow> payload \<Rightarrow> bool" where
  "reads_back l d \<longleftrightarrow> (case tl_Marshal l d of Inl _ \<Rightarrow> False | Inr s \<Rightarrow> tl_Unmarshal l s = Inr d)"

lemma reads_backE: "reads_back l d \<Longrightarrow> (\<And>s. tl_Marshal l d = Inr s \<Longrightarrow> tl_Unmarshal l s = Inr d \<Longrightarrow> P) \<Longrightarrow> P"
  by (auto simp: reads_back_def split: sum.splits)

lemma token_payload_fields:
  "fmlookup (token_payload j c now expiry jti) ''user_id'' = Some (JString (cl_UserID c))"
  "fmlookup (token_payload j c now expiry jti) ''node_id'' = Some (JString (cl_NodeID c))"
  "fmlookup (token_payload j c now expiry jti) ''email'' = Some (JString (cl_Email c))"
  "fmlookup (token_payload j c now expiry jti) ''roles'' = Some (JArray (map JString (cl_Roles c)))"
  "fmlookup (token_payload j c now expiry jti) ''is_active'' = Some (JBool (cl_IsActive c))"
  "fmlookup (token_payload j c now expiry jti) ''iss'' = Some (JString (jv_issuer j))"
  "fmlookup (token_payload j c now expiry jti) ''exp'' = Some (JNumber (of_int (Unix (now + expiry))))"
  by (simp_all add: token_payload_def fmlookup_of_list)

lemma claims_of_payload: "claims_of (token_payload j c now expiry jti) = c"
  by (cases c) (simp add: claims_of_def token_payload_fields or_empty_def comp_def)

text \<open>The outcome of validating a token of these claims that expires at \<open>e\<close> (in seconds).\<close>
definition expected :: "Claims \<Rightarrow> int \<Rightarrow> gotime \<Rightarrow> gerr + Claims" where
  "expected c e t =
     (if Unix t > e then Inl (Errorf ''token expired'')
      else if \<not> cl_IsActive c then Inl (Errorf ''token is not active'') else Inr c)"

lemma check_payload_fresh: "check_payload j t (token_payload j c now expiry jti) = expected c (Unix (now + expiry)) t"
  by (simp add: check_payload_def token_payload_fields claims_of_payload int64_of_def expected_def)

lemma split_token:
  "CHR ''.'' \<notin> set a \<Longrightarrow> CHR ''.'' \<notin> set b \<Longrightarrow> CHR ''.'' \<notin> set c \<Longrightarrow> split_on CHR ''.'' ((a @ ''.'' @ b) @ ''.'' @ c) = [a, b, c]"
  using split_on_append [of "CHR ''.''" a "b @ ''.'' @ c"] split_on_append [of "CHR ''.''" b c] by (simp add: split_on_id)

lemma token_roundtrip:
  assumes "reads_back l token_header" "reads_back l (token_payload j c now expiry jti)"
  shows "\<exists>token. GenerateToken l j now jti c expiry = Inr token \<and> (\<forall>t. gv_ValidateToken l j t token = expected c (Unix (now + expiry)) t)"
proof -
  obtain h where h: "tl_Marshal l token_header = Inr h" using assms(1) by (rule reads_backE)
  obtain p where p: "tl_Marshal l (token_payload j c now expiry jti) = Inr p" "tl_Unmarshal l p = Inr (token_payload j c now expiry jti)"
    using assms(2) by (rule reads_backE)
  let ?in = "RawURLEncode h @ ''.'' @ RawURLEncode p"
  let ?token = "?in @ ''.'' @ RawURLEncode (createSignature l j ?in)"
  have gen: "GenerateToken l j now jti c expiry = Inr ?token" using h p(1) by (simp add: GenerateToken_def Let_def)
  have split: "split_on CHR ''.'' ?token = [RawURLEncode h, RawURLEncode p, RawURLEncode (createSignature l j ?in)]"
    by (rule split_token) (rule RawURLEncode_no_dot)+
  have "gv_ValidateToken l j t ?token = expected c (Unix (now + expiry)) t" for t
    unfolding gv_ValidateToken_def split using p(2) by (simp add: RawURL_roundtrip check_payload_fresh)
  with gen show ?thesis by blast
qed

text \<open>A pair of tokens for a user: the access token is accepted with exactly the user's claims until it expires, and so is the refresh
  token, which nothing tells from an access token; refreshing with either gives a new pair for the same claims as long as it is
  accepted, any number of times.
\<close>
theorem grpc_pair_roundtrip:
  assumes "reads_back l token_header" "reads_back l (token_payload j c (now 0) (jv_tokenExpiry j) (jti 0))"
    "reads_back l (token_payload j c (now 1) (jv_refreshExpiry j) (jti 1))"
  shows "\<exists>pair. gv_GenerateTokenPair l j now jti c = Inr pair \<and>
    (\<forall>t. gv_ValidateToken l j t (gp_AccessToken pair) = expected c (Unix (now 0 + jv_tokenExpiry j)) t) \<and>
    (\<forall>t. gv_ValidateToken l j t (gp_RefreshToken pair) = expected c (Unix (now 1 + jv_refreshExpiry j)) t) \<and>
    (\<forall>t now' jti' token. token \<in> {gp_AccessToken pair, gp_RefreshToken pair} \<and> gv_ValidateToken l j t token = Inr c \<longrightarrow>
       gv_RefreshToken l j t now' jti' token = gv_GenerateTokenPair l j now' jti' c)"
proof -
  obtain a where a: "GenerateToken l j (now 0) (jti 0) c (jv_tokenExpiry j) = Inr a"
      "\<forall>t. gv_ValidateToken l j t a = expected c (Unix (now 0 + jv_tokenExpiry j)) t"
    using token_roundtrip [OF assms(1,2)] by blast
  obtain r where r: "GenerateToken l j (now 1) (jti 1) c (jv_refreshExpiry j) = Inr r"
      "\<forall>t. gv_ValidateToken l j t r = expected c (Unix (now 1 + jv_refreshExpiry j)) t"
    using token_roundtrip [OF assms(1,3)] by blast
  let ?pair = "\<lparr>gp_AccessToken = a, gp_RefreshToken = r, gp_TokenType = ''Bearer'',
      gp_ExpiresIn = whole_seconds (jv_tokenExpiry j), gp_RefreshExpiresIn = whole_seconds (jv_refreshExpiry j)\<rparr>"
  have "gv_GenerateTokenPair l j now jti c = Inr ?pair" using a(1) r(1) by (simp add: gv_GenerateTokenPair_def)
  then show ?thesis using a(2) r(2) by (intro exI [of _ ?pair]) (auto simp: gv_RefreshToken_def)
qed

section \<open>Calls\<close>

text \<open>A token of three parts whose last is the signature with the secret over the other two, and the payload it carries.\<close>
definition signed :: "token_lib \<Rightarrow> JWTValidatorImpl \<Rightarrow> string \<Rightarrow> payload \<Rightarrow> bool" where
  "signed l j token d \<longleftrightarrow>
     (\<exists>p0 p1 bytes. CHR ''.'' \<notin> set p0 \<and> CHR ''.'' \<notin> set p1 \<and>
        token = (p0 @ ''.'' @ p1) @ ''.'' @ RawURLEncode (tl_hmac l (jv_secretKey j) (p0 @ ''.'' @ p1)) \<and>
        RawURLDecode p1 = Inr bytes \<and> tl_Unmarshal l bytes = Inr d)"

text \<open>A payload in force: not expired, of this issuer and not inactive, where it says anything about these.\<close>
definition in_force :: "JWTValidatorImpl \<Rightarrow> gotime \<Rightarrow> payload \<Rightarrow> bool" where
  "in_force j now d \<longleftrightarrow>
     (\<forall>x. fmlookup d ''exp'' = Some (JNumber x) \<longrightarrow> Unix now \<le> int64_of x) \<and>
     (\<forall>iss. fmlookup d ''iss'' = Some (JString iss) \<longrightarrow> iss = jv_issuer j) \<and>
     fmlookup d ''is_active'' \<noteq> Some (JBool False)"

text \<open>The text under a key, empty when there is none.\<close>
definition says :: "payload \<Rightarrow> string \<Rightarrow> string \<Rightarrow> bool" where
  "says d key v \<longleftrightarrow> fmlookup d key = Some (JString v) \<or> (v = [] \<and> (\<forall>u. fmlookup d key \<noteq> Some (JString u)))"

text \<open>A context in which the checks of the services decide by a payload.\<close>
definition speaks_for :: "payload \<Rightarrow> grpc_ctx \<Rightarrow> bool" where
  "speaks_for d ctx \<longleftrightarrow>
     (\<forall>u. RequireUserID ctx u = None \<longleftrightarrow> says d ''user_id'' u) \<and> (\<forall>n. RequireNodeID ctx n = None \<longleftrightarrow> says d ''node_id'' n) \<and>
     (\<forall>x. x \<noteq> [] \<longrightarrow> (RequireRole ctx x = None \<longleftrightarrow> (\<exists>vs. fmlookup d ''roles'' = Some (JArray vs) \<and> JString x \<in> set vs)))"

lemma string_of_Some: "string_of v = Some s \<longleftrightarrow> v = Some (JString s)"
  by (cases v rule: string_of.cases) simp_all

lemma bool_of_Some: "bool_of v = Some b \<longleftrightarrow> v = Some (JBool b)"
  by (cases v rule: bool_of.cases) simp_all

lemma number_of_Some: "number_of v = Some x \<longleftrightarrow> v = Some (JNumber x)"
  by (cases v rule: number_of.cases) simp_all

lemma array_of_Some: "array_of v = Some vs \<longleftrightarrow> v = Some (JArray vs)"
  by (cases v rule: array_of.cases) simp_all

lemmas of_Some = string_of_Some bool_of_Some number_of_Some array_of_Some

lemma check_payload_iff: "check_payload j now d = Inr c \<longleftrightarrow> in_force j now d \<and> c = claims_of d"
  by (auto simp: check_payload_def in_force_def of_Some split: option.splits)

lemma or_empty_says: "or_empty (string_of (fmlookup d key)) = v \<longleftrightarrow> says d key v"
proof (cases "string_of (fmlookup d key)")
  case None
  then have "\<forall>u. fmlookup d key \<noteq> Some (JString u)" by (metis string_of_Some option.distinct(1))
  with None show ?thesis by (auto simp: or_empty_def says_def)
next
  case (Some s)
  then have "fmlookup d key = Some (JString s)" by (simp add: string_of_Some)
  with Some show ?thesis by (auto simp: or_empty_def says_def)
qed

lemma claims_speak: "gx_claims ctx = Some (claims_of d) \<Longrightarrow> speaks_for d ctx"
  unfolding speaks_for_def
proof (intro conjI allI impI)
  assume c: "gx_claims ctx = Some (claims_of d)"
  show "RequireUserID ctx u = None \<longleftrightarrow> says d ''user_id'' u" "RequireNodeID ctx n = None \<longleftrightarrow> says d ''node_id'' n" for u n
    using c by (auto simp: RequireUserID_def RequireNodeID_def GetClaimsFromContext_def claims_of_def or_empty_says)
  have role: "or_empty (string_of (Some v)) = x \<longleftrightarrow> v = JString x" if "x \<noteq> []" for v x
    using that by (cases v) (auto simp: or_empty_def)
  show "RequireRole ctx x = None \<longleftrightarrow> (\<exists>vs. fmlookup d ''roles'' = Some (JArray vs) \<and> JString x \<in> set vs)" if "x \<noteq> []" for x
  proof (cases "array_of (fmlookup d ''roles'')")
    case None
    then have "\<forall>vs. fmlookup d ''roles'' \<noteq> Some (JArray vs)" by (metis array_of_Some option.distinct(1))
    with None c show ?thesis by (simp add: RequireRole_def GetClaimsFromContext_def claims_of_def)
  next
    case (Some vs)
    then have vs: "fmlookup d ''roles'' = Some (JArray vs)" by (simp add: array_of_Some)
    have "x \<in> (\<lambda>v. or_empty (string_of (Some v))) ` set vs \<longleftrightarrow> (\<exists>v \<in> set vs. or_empty (string_of (Some v)) = x)" by auto
    then have "x \<in> (\<lambda>v. or_empty (string_of (Some v))) ` set vs \<longleftrightarrow> JString x \<in> set vs" unfolding role [OF that] by blast
    with vs c show ?thesis by (simp add: RequireRole_def GetClaimsFromContext_def claims_of_def)
  qed
qed

lemma accepted_iff: "gv_ValidateToken l j t token = Inr c \<longleftrightarrow> (\<exists>d. signed l j token d \<and> in_force j t d \<and> c = claims_of d)"
proof
  assume acc: "gv_ValidateToken l j t token = Inr c"
  then obtain p0 p1 p2 where parts: "split_on CHR ''.'' token = [p0, p1, p2]"
    by (auto simp: gv_ValidateToken_def split: list.splits)
  have "token = (p0 @ ''.'' @ p1) @ ''.'' @ p2" using join_split [of "CHR ''.''" token] unfolding parts by simp
  moreover have "CHR ''.'' \<notin> set p0" "CHR ''.'' \<notin> set p1"
    using split_on_no_sep [of _ "CHR ''.''" token] unfolding parts by auto
  moreover obtain bytes d where "p2 = RawURLEncode (createSignature l j (p0 @ ''.'' @ p1))" "RawURLDecode p1 = Inr bytes"
      "tl_Unmarshal l bytes = Inr d" "check_payload j t d = Inr c"
    using acc unfolding gv_ValidateToken_def parts by (auto split: if_splits sum.splits)
  ultimately show "\<exists>d. signed l j token d \<and> in_force j t d \<and> c = claims_of d"
    unfolding signed_def createSignature_def check_payload_iff by blast
next
  assume "\<exists>d. signed l j token d \<and> in_force j t d \<and> c = claims_of d"
  then obtain d p0 p1 bytes where d: "in_force j t d" "c = claims_of d" "CHR ''.'' \<notin> set p0" "CHR ''.'' \<notin> set p1"
      "token = (p0 @ ''.'' @ p1) @ ''.'' @ RawURLEncode (tl_hmac l (jv_secretKey j) (p0 @ ''.'' @ p1))"
      "RawURLDecode p1 = Inr bytes" "tl_Unmarshal l bytes = Inr d"
    unfolding signed_def by blast
  have "split_on CHR ''.'' token = [p0, p1, RawURLEncode (tl_hmac l (jv_secretKey j) (p0 @ ''.'' @ p1))]"
    unfolding d(5) by (rule split_token) (simp_all add: d RawURLEncode_no_dot)
  then show "gv_ValidateToken l j t token = Inr c"
    using d check_payload_iff [of j t d c] by (simp add: gv_ValidateToken_def createSignature_def)
qed

text \<open>Both interceptors on a method that is not public.\<close>
lemma intercepted:
  fixes l j now
  assumes "last (split_on CHR ''/'' fullMethod) \<notin> set public"
  defines "ai \<equiv> NewAuthInterceptor (gv_ValidateToken l j now) public"
  shows "extractTokenFromMetadata ctx = Inr token \<Longrightarrow> gv_ValidateToken l j now token = Inr c \<Longrightarrow>
      UnaryInterceptor ai fullMethod handler ctx req s = handler (setClaimsToContext ctx c) req s \<and>
      StreamInterceptor ai fullMethod streamer (ctx, x) s = streamer (setClaimsToContext ctx c, x) s"
    and "(\<And>token c. extractTokenFromMetadata ctx = Inr token \<Longrightarrow> gv_ValidateToken l j now token \<noteq> Inr c) \<Longrightarrow>
      (\<exists>msg. UnaryInterceptor ai fullMethod handler ctx req s = (Inl (Status Unauthenticated msg), s)) \<and>
      (\<exists>msg. StreamInterceptor ai fullMethod streamer (ctx, x) s = (Inl (Status Unauthenticated msg), s))"
proof -
  have "\<not> isPublicMethod ai fullMethod"
    using assms by (auto simp: isPublicMethod_def NewAuthInterceptor_def dest!: map_from_value)
  moreover have "ai_ValidateToken ai = gv_ValidateToken l j now" by (simp add: ai_def NewAuthInterceptor_def)
  ultimately show "extractTokenFromMetadata ctx = Inr token \<Longrightarrow> gv_ValidateToken l j now token = Inr c \<Longrightarrow>
      UnaryInterceptor ai fullMethod handler ctx req s = handler (setClaimsToContext ctx c) req s \<and>
      StreamInterceptor ai fullMethod streamer (ctx, x) s = streamer (setClaimsToContext ctx c, x) s"
    and "(\<And>token c. extractTokenFromMetadata ctx = Inr token \<Longrightarrow> gv_ValidateToken l j now token \<noteq> Inr c) \<Longrightarrow>
      (\<exists>msg. UnaryInterceptor ai fullMethod handler ctx req s = (Inl (Status Unauthenticated msg), s)) \<and>
      (\<exists>msg. StreamInterceptor ai fullMethod streamer (ctx, x) s = (Inl (Status Unauthenticated msg), s))"
    by (auto simp: UnaryInterceptor_def StreamInterceptor_def split: sum.splits)
qed

text \<open>C38: What a call or stream over gRPC needs to reach its handler, when the method is not public. If the metadata carries a token
  of three parts, signed with the server's secret, whose payload is not expired, names no other issuer and is not inactive, then the
  handler runs, in a context in which \<open>RequireUserID\<close>, \<open>RequireNodeID\<close> and \<open>RequireRole\<close> decide by that payload. In every other case
  the handler does not run, nothing changes and the answer is \<open>Unauthenticated\<close>.\<close>
theorem grpc_call_authenticated:
  fixes l j now
  assumes closed: "last (split_on CHR ''/'' fullMethod) \<notin> set public"
  defines "ai \<equiv> NewAuthInterceptor (gv_ValidateToken l j now) public"
  shows "(\<forall>token d. extractTokenFromMetadata ctx = Inr token \<and> signed l j token d \<and> in_force j now d \<longrightarrow>
       (\<exists>ctx'. speaks_for d ctx' \<and> UnaryInterceptor ai fullMethod handler ctx req s = handler ctx' req s \<and>
          StreamInterceptor ai fullMethod streamer (ctx, x) s = streamer (ctx', x) s)) \<and>
    ((\<nexists>token d. extractTokenFromMetadata ctx = Inr token \<and> signed l j token d \<and> in_force j now d) \<longrightarrow>
       (\<exists>msg. UnaryInterceptor ai fullMethod handler ctx req s = (Inl (Status Unauthenticated msg), s)) \<and>
       (\<exists>msg. StreamInterceptor ai fullMethod streamer (ctx, x) s = (Inl (Status Unauthenticated msg), s)))"
proof (intro conjI allI impI; (elim conjE)?)
  fix token d
  assume d: "extractTokenFromMetadata ctx = Inr token" "signed l j token d" "in_force j now d"
  then have "gv_ValidateToken l j now token = Inr (claims_of d)" using accepted_iff by blast
  from intercepted(1) [OF closed d(1) this, where handler = handler and req = req and s = s and streamer = streamer and x = x]
  show "\<exists>ctx'. speaks_for d ctx' \<and> UnaryInterceptor ai fullMethod handler ctx req s = handler ctx' req s \<and>
          StreamInterceptor ai fullMethod streamer (ctx, x) s = streamer (ctx', x) s"
    unfolding ai_def
    by (intro exI [of _ "setClaimsToContext ctx (claims_of d)"] conjI claims_speak) (simp_all add: setClaimsToContext_def)
next
  assume none: "\<nexists>token d. extractTokenFromMetadata ctx = Inr token \<and> signed l j token d \<and> in_force j now d"
  have "gv_ValidateToken l j now token \<noteq> Inr c" if "extractTokenFromMetadata ctx = Inr token" for token c
    using none that accepted_iff [of l j now token c] by blast
  from intercepted(2) [OF closed this, where handler = handler and req = req and s = s and streamer = streamer and x = x]
  show "\<exists>msg. UnaryInterceptor ai fullMethod handler ctx req s = (Inl (Status Unauthenticated msg), s)"
    "\<exists>msg. StreamInterceptor ai fullMethod streamer (ctx, x) s = (Inl (Status Unauthenticated msg), s)"
    unfolding ai_def by blast+
qed

section \<open>Witnesses\<close>

definition ex_j :: JWTValidatorImpl where
  "ex_j = NewJWTValidator ''secret'' ''syncvault'' 3600000000000 86400000000000"

definition ex_c :: Claims where
  "ex_c = \<lparr>cl_UserID = ''u1'', cl_NodeID = ''n1'', cl_Roles = [''admin''], cl_Email = ''a@b'', cl_IsActive = True\<rparr>"

definition ex_now :: "nat \<Rightarrow> gotime" where
  "ex_now i = 62135596800000000000"

definition ex_jti :: "nat \<Rightarrow> string" where
  "ex_jti i = (if i = 0 then ''a'' else ''b'')"

text \<open>An encoding for the maps of the example, by the ID of the token.\<close>
definition ex_lib :: token_lib where
  "ex_lib =
     \<lparr>tl_hmac = \<lambda>key msg. rev msg @ key, tl_Marshal = \<lambda>d. Inr (or_empty (string_of (fmlookup d ''jti''))),
      tl_Unmarshal = \<lambda>s. Inr (if s = ''a'' then token_payload ex_j ex_c (ex_now 0) (jv_tokenExpiry ex_j) ''a''
        else if s = ''b'' then token_payload ex_j ex_c (ex_now 1) (jv_refreshExpiry ex_j) ''b'' else token_header)\<rparr>"

lemma ex_reads_back: "reads_back ex_lib token_header" "reads_back ex_lib (token_payload ex_j ex_c (ex_now 0) (jv_tokenExpiry ex_j) (ex_jti 0))"
    "reads_back ex_lib (token_payload ex_j ex_c (ex_now 1) (jv_refreshExpiry ex_j) (ex_jti 1))"
  by (simp_all add: reads_back_def ex_lib_def ex_jti_def token_payload_def token_header_def or_empty_def fmlookup_of_list)

lemma ex_expected: "expected ex_c (Unix (ex_now 0 + jv_tokenExpiry ex_j)) (ex_now 0 + 1000000000) = Inr ex_c"
    "expected ex_c (Unix (ex_now 0 + jv_tokenExpiry ex_j)) (ex_now 0 + 3601000000000) = Inl (Errorf ''token expired'')"
    "expected ex_c (Unix (ex_now 1 + jv_refreshExpiry ex_j)) (ex_now 0 + 3601000000000) = Inr ex_c"
  by (simp_all add: expected_def Unix_def ex_now_def ex_j_def ex_c_def NewJWTValidator_def)

text \<open>An hour later the access token has expired and the refresh token still opens the same calls.\<close>
theorem grpc_pair_roundtrip_witness:
  "\<exists>pair. gv_GenerateTokenPair ex_lib ex_j ex_now ex_jti ex_c = Inr pair \<and>
     gv_ValidateToken ex_lib ex_j (ex_now 0 + 1000000000) (gp_AccessToken pair) = Inr ex_c \<and>
     gv_ValidateToken ex_lib ex_j (ex_now 0 + 3601000000000) (gp_AccessToken pair) = Inl (Errorf ''token expired'') \<and>
     gv_ValidateToken ex_lib ex_j (ex_now 0 + 3601000000000) (gp_RefreshToken pair) = Inr ex_c"
  using grpc_pair_roundtrip [of ex_lib ex_j ex_c ex_now ex_jti, OF ex_reads_back] ex_expected by auto

text \<open>The access token of the example pair, as it is sent.\<close>
definition ex_token :: string where
  "ex_token = (let p = RawURLEncode [] @ ''.'' @ RawURLEncode ''a'' in p @ ''.'' @ RawURLEncode (rev p @ ''secret''))"

definition ex_ctx :: grpc_ctx where
  "ex_ctx = \<lparr>gx_md = Some [(''authorization'', [''Bearer '' @ ex_token])], gx_claims = None\<rparr>"

lemma ex_token_generated: "GenerateToken ex_lib ex_j (ex_now 0) ''a'' ex_c (jv_tokenExpiry ex_j) = Inr ex_token"
  by (simp add: GenerateToken_def createSignature_def ex_token_def ex_lib_def ex_j_def NewJWTValidator_def token_payload_def token_header_def
      or_empty_def fmlookup_of_list Let_def)

lemma no_space_in_code: "c \<in> set (RawURLEncode s) \<Longrightarrow> \<not> is_space c"
proof -
  assume "c \<in> set (RawURLEncode s)"
  then obtain n where "c = b64 n" by (auto simp: RawURLEncode_sextets)
  moreover have "\<forall>c \<in> set base64_chars. \<not> is_space c" by (simp add: base64_chars_def is_space_def)
  ultimately show ?thesis by (simp add: b64_def base64_chars_props)
qed

lemma bearer_token: "\<forall>c \<in> set token. \<not> is_space c \<Longrightarrow> ExtractTokenFromBearerString (''Bearer '' @ token) = token"
proof -
  assume a: "\<forall>c \<in> set token. \<not> is_space c"
  then have "dropWhile is_space token = token" by (cases token) auto
  moreover have "dropWhile is_space (rev token) = rev token"
    using a by (intro dropWhile_eq_self_iff [THEN iffD2]) (auto simp: hd_rev)
  ultimately have "TrimSpace token = token" by (simp add: TrimSpace_def)
  moreover have "map lower_char ''Bearer '' = ''bearer ''" by (simp add: lower_char_def char_of_def bit_0)
  ultimately show ?thesis by (simp add: ExtractTokenFromBearerString_def HasPrefix_def)
qed

lemma ex_token_sent: "extractTokenFromMetadata ex_ctx = Inr ex_token"
proof -
  have "\<forall>c \<in> set ex_token. \<not> is_space c"
    using no_space_in_code by (auto simp: ex_token_def Let_def is_space_def)
  from bearer_token [OF this] show ?thesis
    by (simp add: extractTokenFromMetadata_def ex_ctx_def tokenHeaders_def)
qed

lemma ex_token_signed: "signed ex_lib ex_j ex_token (token_payload ex_j ex_c (ex_now 0) (jv_tokenExpiry ex_j) ''a'')"
proof -
  have "tl_hmac ex_lib (jv_secretKey ex_j) m = rev m @ ''secret''" "tl_Unmarshal ex_lib ''a'' = Inr (token_payload ex_j ex_c (ex_now 0) (jv_tokenExpiry ex_j) ''a'')" for m
    by (simp_all add: ex_lib_def ex_j_def NewJWTValidator_def)
  then show ?thesis
    unfolding signed_def ex_token_def Let_def
    by (intro exI [of _ "RawURLEncode []"] exI [of _ "RawURLEncode ''a''"] exI [of _ "''a''"])
      (simp add: RawURLEncode_no_dot RawURL_roundtrip)
qed

text \<open>Within the hour the call reaches the handler, which counts it if the user is \<open>u1\<close>; without metadata it is refused.\<close>
theorem grpc_call_authenticated_witness:
  "UnaryInterceptor (NewAuthInterceptor (gv_ValidateToken ex_lib ex_j (ex_now 0)) [''Check'']) ''/syncvault.v1.storage.StorageService/StoreFile''
     (\<lambda>ctx req s. if RequireUserID ctx ''u1'' = None then (Inr (), Suc s) else (Inr (), s)) ex_ctx () 0 = (Inr (), 1) \<and>
   (\<exists>msg. UnaryInterceptor (NewAuthInterceptor (gv_ValidateToken ex_lib ex_j (ex_now 0)) [''Check'']) ''/syncvault.v1.storage.StorageService/StoreFile''
     (\<lambda>ctx req s. (Inr (), Suc s)) \<lparr>gx_md = None, gx_claims = None\<rparr> () (0 :: nat) = (Inl (Status Unauthenticated msg), 0))"
proof -
  let ?d = "token_payload ex_j ex_c (ex_now 0) (jv_tokenExpiry ex_j) ''a''"
  have closed: "last (split_on CHR ''/'' ''/syncvault.v1.storage.StorageService/StoreFile'') \<notin> set [''Check'']" by code_simp
  have "in_force ex_j (ex_now 0) ?d"
    by (simp add: in_force_def token_payload_fields int64_of_def Unix_def ex_now_def ex_j_def ex_c_def NewJWTValidator_def)
  moreover have "says ?d ''user_id'' ''u1''" by (simp add: says_def token_payload_fields ex_c_def)
  ultimately show ?thesis
    using grpc_call_authenticated [OF closed, where l = ex_lib and j = ex_j and now = "ex_now 0" and ctx = ex_ctx and req = "()" and s = 0 and
        handler = "\<lambda>ctx req s. if RequireUserID ctx ''u1'' = None then (Inr (), Suc s) else (Inr (), s)" and x = "()" and streamer = "\<lambda>ss s. (Inr (), s)"]
      grpc_call_authenticated [OF closed, where l = ex_lib and j = ex_j and now = "ex_now 0" and ctx = "\<lparr>gx_md = None, gx_claims = None\<rparr>" and req = "()" and
        s = "0 :: nat" and handler = "\<lambda>ctx req s. (Inr (), Suc s)" and x = "()" and streamer = "\<lambda>ss s. (Inr (), s)"]
      ex_token_sent ex_token_signed
    by (auto simp: speaks_for_def extractTokenFromMetadata_def [of "\<lparr>gx_md = None, gx_claims = None\<rparr>"])
qed

end
