(* ===== verification/Oauth_Service.thy ===== *)
theory Oauth_Service
  imports Sync_Node Hex_Hash "HOL-Library.Multiset"
begin

text \<open>
  Linking Google accounts: the OAuth service (\<^verbatim>\<open>internal/oauth/google/service.go\<close>, \<^verbatim>\<open>models.go\<close>) over the tables of the
  migrations 0003 and 0008, and the handlers of the sign-in and of the accounts (\<^verbatim>\<open>handlers.go\<close>). The PostgreSQL server, Google and
  the library \<open>golang.org/x/oauth2\<close> are parameters. Every statement has its fate: it is answered, it is not run, or it is run and
  the answer is lost.
\<close>

section \<open>Data\<close>

record oauth2_token =
  o2_AccessToken :: string
  o2_RefreshToken :: string
  o2_TokenType :: string
  o2_Expiry :: gotime

record OAuthToken =
  tk_ID :: int
  tk_UserID :: string
  tk_AccountID :: string
  tk_Provider :: string
  tk_AccessToken :: string
  tk_RefreshToken :: string
  tk_TokenType :: string
  tk_Expiry :: gotime
  tk_Scope :: string
  tk_CreatedAt :: gotime
  tk_UpdatedAt :: gotime
  tk_IsActive :: bool

record OAuthState =
  oz_State :: string
  oz_UserID :: string
  oz_CodeVerifier :: string
  oz_Provider :: string
  oz_CreatedAt :: gotime
  oz_ExpiresAt :: gotime
  oz_IsUsed :: bool

record PKCEData =
  pk_CodeVerifier :: string
  pk_State :: string
  pk_CreatedAt :: gotime

definition ProviderGoogle :: string where "ProviderGoogle = ''google''"
definition StateTTL :: int where "StateTTL = 10 * 60 * 1000000000"
definition RefreshThreshold :: int where "RefreshThreshold = 5 * 60 * 1000000000"

definition ToOAuth2Token :: "OAuthToken \<Rightarrow> oauth2_token" where
  "ToOAuth2Token t =
     \<lparr>o2_AccessToken = tk_AccessToken t, o2_RefreshToken = tk_RefreshToken t, o2_TokenType = tk_TokenType t, o2_Expiry = tk_Expiry t\<rparr>"

text \<open>The number is set by the insert.\<close>
definition FromOAuth2Token :: "(nat \<Rightarrow> gotime) \<Rightarrow> string \<Rightarrow> string \<Rightarrow> string \<Rightarrow> oauth2_token \<Rightarrow> OAuthToken" where
  "FromOAuth2Token now userID provider accountID token =
     \<lparr>tk_ID = 0, tk_UserID = userID, tk_AccountID = accountID, tk_Provider = provider, tk_AccessToken = o2_AccessToken token,
      tk_RefreshToken = o2_RefreshToken token, tk_TokenType = o2_TokenType token, tk_Expiry = o2_Expiry token,
      tk_Scope = ''drive.readonly drive.file drive.metadata.readonly'', tk_CreatedAt = now 0, tk_UpdatedAt = now 1, tk_IsActive = True\<rparr>"

record GoogleOAuthConfig =
  gc_ClientID :: string
  gc_ClientSecret :: string
  gc_RedirectURL :: string
  gc_Scopes :: "string list"

text \<open>\<open>Validate\<close> of the whole configuration looks only at its OAuth part.\<close>
definition Validate :: "GoogleOAuthConfig option \<Rightarrow> gerr option" where
  "Validate c =
     (case c of
        None \<Rightarrow> Some (Errorf ''oauth config is required'')
      | Some oa \<Rightarrow>
          if gc_ClientID oa = [] then Some (Errorf ''oauth client_id is required'')
          else if gc_ClientSecret oa = [] then Some (Errorf ''oauth client_secret is required'')
          else if gc_Scopes oa = [] then Some (Errorf ''oauth scopes are required'')
          else None)"

section \<open>Server, tables and Google\<close>

datatype stmt_fate = Answered | NotRun | AnswerLost

text \<open>\<open>og_now\<close> is the clock of the server, \<open>og_text\<close> what fits a column, \<open>og_scan\<close> the order in which rows are read.\<close>
record oauth_server =
  og_fate :: "nat \<Rightarrow> stmt_fate"
  og_now :: "nat \<Rightarrow> gotime"
  og_text :: "nat option \<Rightarrow> string \<Rightarrow> bool"
  og_scan :: "nat \<Rightarrow> OAuthToken list \<Rightarrow> OAuthToken list"

text \<open>The rows of \<open>google_drive_files\<close> and \<open>google_drive_sync_status\<close> are reduced to owner and key.\<close>
record oauth_tables =
  ot_calls :: nat
  ot_states :: "OAuthState list"
  ot_tokens :: "OAuthToken list"
  ot_seq :: int
  ot_files :: "(string \<times> string) list"
  ot_sync :: "(string \<times> string) list"

text \<open>A column of type \<open>timestamptz\<close> keeps microseconds.\<close>
definition stamp :: "gotime \<Rightarrow> gotime" where "stamp t = t - t mod 1000"

definition conn_error :: gerr where "conn_error = Errorf ''connection lost''"
definition text_error :: gerr where "text_error = Errorf ''invalid text''"
definition unique_error :: gerr where "unique_error = Errorf ''duplicate key value violates unique constraint''"
definition no_rows :: gerr where "no_rows = Errorf ''no rows in result set''"

definition sql :: "oauth_server \<Rightarrow> (oauth_tables \<Rightarrow> (gerr + 'a) \<times> oauth_tables) \<Rightarrow> (oauth_tables, 'a) io" where
  "sql s f db =
     (let db1 = db\<lparr>ot_calls := Suc (ot_calls db)\<rparr> in
      case og_fate s (ot_calls db) of
        Answered \<Rightarrow> f db1
      | NotRun \<Rightarrow> (Inl conn_error, db1)
      | AnswerLost \<Rightarrow> (Inl conn_error, snd (f db1)))"

definition sql_wrap :: "oauth_server \<Rightarrow> string \<Rightarrow> (oauth_tables \<Rightarrow> (gerr + 'a) \<times> oauth_tables) \<Rightarrow> (oauth_tables, 'a) io" where
  "sql_wrap s msg f db = (case sql s f db of (Inl err, db1) \<Rightarrow> (Inl (Wrapf msg err), db1) | (Inr x, db1) \<Rightarrow> (Inr x, db1))"

text \<open>The unique index on active tokens.\<close>
definition same_account :: "OAuthToken \<Rightarrow> OAuthToken \<Rightarrow> bool" where
  "same_account t q \<longleftrightarrow> tk_UserID t = tk_UserID q \<and> tk_Provider t = tk_Provider q \<and> tk_AccountID t = tk_AccountID q"

definition insert_token :: "oauth_server \<Rightarrow> OAuthToken \<Rightarrow> oauth_tables \<Rightarrow> (gerr + int) \<times> oauth_tables" where
  "insert_token s t db =
     (let i = ot_seq db; db1 = db\<lparr>ot_seq := i + 1\<rparr>;
          row = t\<lparr>tk_ID := i, tk_Expiry := stamp (tk_Expiry t), tk_CreatedAt := stamp (tk_CreatedAt t), tk_UpdatedAt := stamp (tk_UpdatedAt t)\<rparr>
      in if \<not> (og_text s (Some 255) (tk_UserID t) \<and> og_text s None (tk_AccountID t) \<and> og_text s (Some 50) (tk_Provider t) \<and>
               og_text s None (tk_AccessToken t) \<and> og_text s None (tk_RefreshToken t) \<and> og_text s (Some 50) (tk_TokenType t))
         then (Inl text_error, db)
         else if tk_IsActive t \<and> list_ex (\<lambda>q. tk_IsActive q \<and> same_account t q) (ot_tokens db) then (Inl unique_error, db1)
         else (Inr i, db1\<lparr>ot_tokens := ot_tokens db @ [row]\<rparr>))"

text \<open>\<open>UPDATE oauth_tokens SET is_active = false\<close> with a condition; the trigger sets \<open>updated_at\<close>.\<close>
definition deactivate :: "oauth_server \<Rightarrow> string list \<Rightarrow> (OAuthToken \<Rightarrow> bool) \<Rightarrow> oauth_tables \<Rightarrow> (gerr + unit) \<times> oauth_tables" where
  "deactivate s texts P db =
     (if \<not> list_all (og_text s None) texts then (Inl text_error, db)
      else (Inr (), db\<lparr>ot_tokens := map (\<lambda>t. if P t then t\<lparr>tk_IsActive := False, tk_UpdatedAt := stamp (og_now s (ot_calls db))\<rparr> else t) (ot_tokens db)\<rparr>))"

record 'g oauth_lib =
  ol_AuthCodeURL :: "string \<Rightarrow> string \<Rightarrow> string"
  ol_Exchange :: "string \<Rightarrow> string \<Rightarrow> ('g, oauth2_token) io"
  ol_TokenSource :: "oauth2_token \<Rightarrow> ('g, oauth2_token) io"
  ol_Valid :: "oauth2_token \<Rightarrow> gotime \<Rightarrow> bool"
  ol_About :: "oauth2_token \<Rightarrow> ('g, nat \<times> string \<times> string) io"
  ol_Decode :: "string \<Rightarrow> gerr + string"
  ol_sha :: hash_fun

record oauth_env =
  oe_now :: "nat \<Rightarrow> gotime"
  oe_rnd :: "nat \<Rightarrow> gerr + string"

definition skip_now :: "nat \<Rightarrow> oauth_env \<Rightarrow> oauth_env" where
  "skip_now n env = env\<lparr>oe_now := \<lambda>i. oe_now env (n + i)\<rparr>"

record 'g OAuthService =
  oa_db :: oauth_server
  oa_lib :: "'g oauth_lib"

text \<open>The tables and Google; a statement leaves Google alone and the other way round.\<close>
type_synonym 'g oauth_world = "oauth_tables \<times> 'g"

definition on_db :: "(oauth_tables, 'a) io \<Rightarrow> ('g oauth_world, 'a) io" where
  "on_db f w = (case f (fst w) of (r, db) \<Rightarrow> (r, (db, snd w)))"

definition on_google :: "('g, 'a) io \<Rightarrow> ('g oauth_world, 'a) io" where
  "on_google f w = (case f (snd w) of (r, g) \<Rightarrow> (r, (fst w, g)))"

section \<open>The service\<close>

definition GeneratePKCE :: "oauth_env \<Rightarrow> gerr + PKCEData" where
  "GeneratePKCE env =
     (case oe_rnd env 0 of
        Inl err \<Rightarrow> Inl (Wrapf ''failed to generate code verifier: '' err)
      | Inr b \<Rightarrow>
     (case oe_rnd env 1 of
        Inl err \<Rightarrow> Inl (Wrapf ''failed to generate state: '' err)
      | Inr st \<Rightarrow> Inr \<lparr>pk_CodeVerifier = RawURLEncode b, pk_State = RawURLEncode st, pk_CreatedAt = oe_now env 0\<rparr>))"

definition insert_state :: "oauth_server \<Rightarrow> OAuthState \<Rightarrow> oauth_tables \<Rightarrow> (gerr + unit) \<times> oauth_tables" where
  "insert_state s z db =
     (if \<not> (og_text s (Some 255) (oz_State z) \<and> og_text s (Some 255) (oz_UserID z) \<and> og_text s None (oz_CodeVerifier z)) then (Inl text_error, db)
      else if oz_State z \<in> oz_State ` set (ot_states db) then (Inl unique_error, db)
      else (Inr (), db\<lparr>ot_states := ot_states db @ [z]\<rparr>))"

definition SaveState :: "oauth_env \<Rightarrow> oauth_server \<Rightarrow> string \<Rightarrow> string \<Rightarrow> string \<Rightarrow> (oauth_tables, unit) io" where
  "SaveState env s userID state codeVerifier =
     sql_wrap s ''failed to save oauth state: '' (insert_state s
       \<lparr>oz_State = state, oz_UserID = userID, oz_CodeVerifier = codeVerifier, oz_Provider = ProviderGoogle,
        oz_CreatedAt = stamp (oe_now env 0), oz_ExpiresAt = stamp (oe_now env 1 + StateTTL), oz_IsUsed = False\<rparr>)"

definition select_state :: "oauth_server \<Rightarrow> string \<Rightarrow> oauth_tables \<Rightarrow> (gerr + OAuthState) \<times> oauth_tables" where
  "select_state s state db =
     (if \<not> og_text s None state then (Inl text_error, db)
      else case find (\<lambda>z. oz_State z = state \<and> oz_Provider z = ProviderGoogle) (ot_states db) of
          None \<Rightarrow> (Inl no_rows, db) | Some z \<Rightarrow> (Inr z, db))"

definition GetState :: "oauth_server \<Rightarrow> string \<Rightarrow> (oauth_tables, OAuthState) io" where
  "GetState s state = sql_wrap s ''failed to get oauth state: '' (select_state s state)"

definition use_state :: "oauth_server \<Rightarrow> string \<Rightarrow> oauth_tables \<Rightarrow> (gerr + unit) \<times> oauth_tables" where
  "use_state s state db =
     (if \<not> og_text s None state then (Inl text_error, db)
      else (Inr (), db\<lparr>ot_states := map (\<lambda>z. if oz_State z = state then z\<lparr>oz_IsUsed := True\<rparr> else z) (ot_states db)\<rparr>))"

definition MarkStateAsUsed :: "oauth_server \<Rightarrow> string \<Rightarrow> (oauth_tables, unit) io" where
  "MarkStateAsUsed s state = sql_wrap s ''failed to mark state as used: '' (use_state s state)"

definition generateCodeChallenge :: "'g OAuthService \<Rightarrow> string \<Rightarrow> string" where
  "generateCodeChallenge oa codeVerifier = RawURLEncode (digest_bytes (ol_sha (oa_lib oa) codeVerifier))"

definition GetAuthURL :: "oauth_env \<Rightarrow> 'g OAuthService \<Rightarrow> string \<Rightarrow> ('g oauth_world, string \<times> PKCEData) io" where
  "GetAuthURL env oa userID w =
     (case GeneratePKCE env of
        Inl err \<Rightarrow> (Inl (Wrapf ''failed to generate PKCE: '' err), w)
      | Inr pkce \<Rightarrow>
     (case on_db (SaveState (skip_now 1 env) (oa_db oa) userID (pk_State pkce) (pk_CodeVerifier pkce)) w of
        (Inl err, w1) \<Rightarrow> (Inl (Wrapf ''failed to save state: '' err), w1)
      | (Inr _, w1) \<Rightarrow>
          (Inr (ol_AuthCodeURL (oa_lib oa) (pk_State pkce) (generateCodeChallenge oa (pk_CodeVerifier pkce)), pkce), w1)))"

text \<open>A failure to mark the state is only logged.\<close>
definition ExchangeCode :: "gotime \<Rightarrow> 'g OAuthService \<Rightarrow> string \<Rightarrow> string \<Rightarrow> ('g oauth_world, oauth2_token) io" where
  "ExchangeCode now oa state code w =
     (case on_db (GetState (oa_db oa) state) w of
        (Inl err, w1) \<Rightarrow> (Inl (Wrapf ''invalid state: '' err), w1)
      | (Inr z, w1) \<Rightarrow>
          if oz_IsUsed z then (Inl (Errorf ''state already used''), w1)
          else if now > oz_ExpiresAt z then (Inl (Errorf ''state expired''), w1)
          else
            (case on_google (ol_Exchange (oa_lib oa) code (oz_CodeVerifier z)) (snd (on_db (MarkStateAsUsed (oa_db oa) state) w1)) of
               (Inl err, w2) \<Rightarrow> (Inl (Wrapf ''failed to exchange code: '' err), w2)
             | (Inr token, w2) \<Rightarrow> (Inr token, w2)))"

text \<open>A failure to deactivate the old token is only logged.\<close>
definition SaveToken :: "oauth_env \<Rightarrow> oauth_server \<Rightarrow> string \<Rightarrow> string \<Rightarrow> oauth2_token \<Rightarrow> (oauth_tables, int) io" where
  "SaveToken env s userID accountID token db =
     sql s (insert_token s (FromOAuth2Token (oe_now env) userID ProviderGoogle accountID token))
       (snd (sql s (deactivate s [userID, accountID] (\<lambda>t. tk_UserID t = userID \<and> tk_Provider t = ProviderGoogle \<and> tk_AccountID t = accountID)) db))"

definition select_token :: "oauth_server \<Rightarrow> string \<Rightarrow> string \<Rightarrow> oauth_tables \<Rightarrow> (gerr + OAuthToken) \<times> oauth_tables" where
  "select_token s userID accountID db =
     (if \<not> (og_text s None userID \<and> og_text s None accountID) then (Inl text_error, db)
      else case sort_key (\<lambda>t. - tk_CreatedAt t)
             (og_scan s (ot_calls db) (filter (\<lambda>t. tk_UserID t = userID \<and> tk_Provider t = ProviderGoogle \<and>
                (accountID = [] \<or> tk_AccountID t = accountID) \<and> tk_IsActive t) (ot_tokens db))) of
          [] \<Rightarrow> (Inl no_rows, db) | t # _ \<Rightarrow> (Inr t, db))"

definition GetTokenByAccount :: "oauth_server \<Rightarrow> string \<Rightarrow> string \<Rightarrow> (oauth_tables, OAuthToken) io" where
  "GetTokenByAccount s userID accountID db =
     (case sql s (select_token s userID accountID) db of
        (Inl err, db1) \<Rightarrow>
          (Inl (if err = no_rows then Errorf (''no active token found for user '' @ userID @ '' account '' @ accountID)
                else Wrapf ''failed to get token: '' err), db1)
      | (Inr t, db1) \<Rightarrow> (Inr t, db1))"

definition GetToken :: "oauth_server \<Rightarrow> string \<Rightarrow> (oauth_tables, OAuthToken) io" where
  "GetToken s userID = GetTokenByAccount s userID []"

definition ListAccounts :: "oauth_server \<Rightarrow> string \<Rightarrow> (oauth_tables, string list) io" where
  "ListAccounts s userID =
     sql s (\<lambda>db. if \<not> og_text s None userID then (Inl text_error, db)
        else (Inr (remdups (map tk_AccountID (og_scan s (ot_calls db)
               (filter (\<lambda>t. tk_UserID t = userID \<and> tk_Provider t = ProviderGoogle \<and> tk_IsActive t) (ot_tokens db))))), db))"

definition oa_RefreshToken :: "oauth_env \<Rightarrow> 'g OAuthService \<Rightarrow> string \<Rightarrow> string \<Rightarrow> ('g oauth_world, oauth2_token) io" where
  "oa_RefreshToken env oa userID accountID w =
     (case on_db (GetTokenByAccount (oa_db oa) userID accountID) w of
        (Inl err, w1) \<Rightarrow> (Inl (Wrapf ''failed to get current token: '' err), w1)
      | (Inr currentToken, w1) \<Rightarrow>
          if tk_RefreshToken currentToken = [] then (Inl (Errorf ''no refresh token available''), w1)
          else
          (case on_google (ol_TokenSource (oa_lib oa) (ToOAuth2Token currentToken)) w1 of
             (Inl err, w2) \<Rightarrow> (Inl (Wrapf ''failed to refresh token: '' err), w2)
           | (Inr newToken, w2) \<Rightarrow>
               (case on_db (SaveToken env (oa_db oa) userID accountID newToken) w2 of
                  (Inl err, w3) \<Rightarrow> (Inl (Wrapf ''failed to save new token: '' err), w3)
                | (Inr _, w3) \<Rightarrow> (Inr newToken, w3))))"

definition GetValidTokenByAccount :: "oauth_env \<Rightarrow> 'g OAuthService \<Rightarrow> string \<Rightarrow> string \<Rightarrow> ('g oauth_world, oauth2_token) io" where
  "GetValidTokenByAccount env oa userID accountID w =
     (case on_db (GetTokenByAccount (oa_db oa) userID accountID) w of
        (Inl err, w1) \<Rightarrow> (Inl (Wrapf ''failed to get token: '' err), w1)
      | (Inr token, w1) \<Rightarrow>
          if tk_Expiry token < oe_now env 0 + RefreshThreshold
          then (case oa_RefreshToken (skip_now 1 env) oa userID (tk_AccountID token) w1 of
                  (Inl err, w2) \<Rightarrow> (Inl (Wrapf ''failed to refresh token: '' err), w2)
                | (Inr newToken, w2) \<Rightarrow> (Inr newToken, w2))
          else (Inr (ToOAuth2Token token), w1))"

definition GetValidToken :: "oauth_env \<Rightarrow> 'g OAuthService \<Rightarrow> string \<Rightarrow> ('g oauth_world, oauth2_token) io" where
  "GetValidToken env oa userID = GetValidTokenByAccount env oa userID []"

definition RevokeTokens :: "oauth_server \<Rightarrow> string \<Rightarrow> string \<Rightarrow> (oauth_tables, unit) io" where
  "RevokeTokens s userID provider =
     sql_wrap s ''failed to revoke tokens: '' (deactivate s [userID, provider] (\<lambda>t. tk_UserID t = userID \<and> tk_Provider t = provider))"

definition DeleteToken :: "oauth_server \<Rightarrow> int \<Rightarrow> (oauth_tables, unit) io" where
  "DeleteToken s tokenID =
     sql_wrap s ''failed to delete token: '' (\<lambda>db. (Inr (), db\<lparr>ot_tokens := filter (\<lambda>t. tk_ID t \<noteq> tokenID) (ot_tokens db)\<rparr>))"

definition CleanupExpiredStates :: "gotime \<Rightarrow> oauth_server \<Rightarrow> (oauth_tables, unit) io" where
  "CleanupExpiredStates now s =
     sql_wrap s ''failed to cleanup expired states: ''
       (\<lambda>db. (Inr (), db\<lparr>ot_states := filter (\<lambda>z. \<not> oz_ExpiresAt z < stamp now) (ot_states db)\<rparr>))"

definition GetAccountEmail :: "'g OAuthService \<Rightarrow> oauth2_token \<Rightarrow> ('g, string) io" where
  "GetAccountEmail oa token g =
     (case ol_About (oa_lib oa) token g of
        (Inl err, g1) \<Rightarrow> (Inl (Wrapf ''failed to get drive about: '' err), g1)
      | (Inr (code, status, body), g1) \<Rightarrow>
          if code \<noteq> 200 then (Inl (Errorf (''drive about returned '' @ status @ '': '' @ take 1024 body)), g1)
          else case ol_Decode (oa_lib oa) body of
              Inl err \<Rightarrow> (Inl (Wrapf ''failed to decode drive about: '' err), g1)
            | Inr email \<Rightarrow> if email = [] then (Inl (Errorf ''drive about returned empty email''), g1) else (Inr email, g1))"

definition oa_ValidateToken :: "gotime \<Rightarrow> 'g OAuthService \<Rightarrow> oauth2_token \<Rightarrow> gerr option" where
  "oa_ValidateToken now oa token = (if \<not> ol_Valid (oa_lib oa) token now then Some (Errorf ''token is expired'') else None)"

section \<open>Handlers\<close>

text \<open>The user that the middleware found, the query and the cookies of a request.\<close>
record oauth_request =
  oq_UserID :: "string option"
  oq_Query :: "string \<Rightarrow> string"
  oq_Cookie :: "string \<Rightarrow> string option"

datatype oauth_body = OText string | ORedirect string | OAccounts "string list" | ODisconnected string

text \<open>A cookie has name, value and \<open>MaxAge\<close>.\<close>
record oauth_response =
  op_Status :: nat
  op_Body :: oauth_body
  op_Cookies :: "(string \<times> string \<times> int) list"

definition oauth_Error :: "string \<Rightarrow> nat \<Rightarrow> oauth_response" where
  "oauth_Error msg status = \<lparr>op_Status = status, op_Body = OText (msg @ [CHR 0x0A]), op_Cookies = []\<rparr>"

text \<open>\<open>url.QueryEscape\<close>\<close>
definition hex_upper :: "nat \<Rightarrow> char" where
  "hex_upper n = ''0123456789ABCDEF'' ! (n mod 16)"

definition escape_char :: "char \<Rightarrow> string" where
  "escape_char c =
     (if c \<in> set ''ABCDEFGHIJKLMNOPQRSTUVWXYZabcdefghijklmnopqrstuvwxyz0123456789-_.~'' then [c]
      else if c = CHR 0x20 then ''+''
      else [CHR 0x25, hex_upper (of_char c div 16), hex_upper (of_char c)])"

definition QueryEscape :: "string \<Rightarrow> string" where
  "QueryEscape s = concat (map escape_char s)"

definition AuthRequest :: "oauth_env \<Rightarrow> 'g OAuthService \<Rightarrow> oauth_request \<Rightarrow> 'g oauth_world \<Rightarrow> oauth_response \<times> 'g oauth_world" where
  "AuthRequest env oa r w =
     (let userID = (case oq_UserID r of Some u \<Rightarrow> u | None \<Rightarrow> oq_Query r ''user_id'') in
      if oq_UserID r = None \<and> userID = [] then (oauth_Error ''Unauthorized: provide JWT or user_id query param'' 401, w)
      else case GetAuthURL env oa userID w of
          (Inl _, w1) \<Rightarrow> (oauth_Error ''Failed to generate auth URL'' 500, w1)
        | (Inr (authURL, pkce), w1) \<Rightarrow>
            (\<lparr>op_Status = 302, op_Body = ORedirect authURL,
              op_Cookies = [(''oauth_state'', pk_State pkce, 600), (''oauth_verifier'', pk_CodeVerifier pkce, 600)]\<rparr>, w1))"

text \<open>The part of \<open>AuthCallback\<close> after the user is known.\<close>
definition link_account :: "oauth_env \<Rightarrow> 'g OAuthService \<Rightarrow> string \<Rightarrow> string \<Rightarrow> string \<Rightarrow> 'g oauth_world \<Rightarrow> oauth_response \<times> 'g oauth_world" where
  "link_account env oa userID state code w =
     (case ExchangeCode (oe_now env 0) oa state code w of
        (Inl _, w1) \<Rightarrow> (oauth_Error ''Failed to exchange code'' 500, w1)
      | (Inr token, w1) \<Rightarrow>
          (case on_google (GetAccountEmail oa token) w1 of
             (email, w2) \<Rightarrow>
               let accountID = (case email of Inl _ \<Rightarrow> userID | Inr a \<Rightarrow> a) in
               (case on_db (SaveToken (skip_now 1 env) (oa_db oa) userID accountID token) w2 of
                  (Inl _, w3) \<Rightarrow> (oauth_Error ''Failed to save token'' 500, w3)
                | (Inr _, w3) \<Rightarrow>
                    (\<lparr>op_Status = 302, op_Body = ORedirect (''/auth/success?provider=google&user_id='' @ QueryEscape userID),
                      op_Cookies = [(''oauth_state'', [], - 1), (''oauth_verifier'', [], - 1)]\<rparr>, w3))))"

definition AuthCallback :: "oauth_env \<Rightarrow> 'g OAuthService \<Rightarrow> oauth_request \<Rightarrow> 'g oauth_world \<Rightarrow> oauth_response \<times> 'g oauth_world" where
  "AuthCallback env oa r w =
     (let code = oq_Query r ''code''; state = oq_Query r ''state''; errorParam = oq_Query r ''error'' in
      if errorParam \<noteq> [] then (oauth_Error (''OAuth error: '' @ errorParam) 400, w)
      else if code = [] \<or> state = [] then (oauth_Error ''Missing code or state parameter'' 400, w)
      else case oq_Cookie r ''oauth_state'' of
          None \<Rightarrow> (oauth_Error ''Invalid state'' 400, w)
        | Some value \<Rightarrow>
            if value \<noteq> state then (oauth_Error ''Invalid state parameter'' 400, w)
            else (case oq_UserID r of
                    Some userID \<Rightarrow> link_account env oa userID state code w
                  | None \<Rightarrow>
                      (case on_db (GetState (oa_db oa) state) w of
                         (Inl _, w1) \<Rightarrow> (oauth_Error ''Failed to get OAuth state'' 500, w1)
                       | (Inr z, w1) \<Rightarrow> link_account env oa (oz_UserID z) state code w1)))"

definition oh_ListAccounts :: "'g OAuthService \<Rightarrow> oauth_request \<Rightarrow> 'g oauth_world \<Rightarrow> oauth_response \<times> 'g oauth_world" where
  "oh_ListAccounts oa r w =
     (case oq_UserID r of
        None \<Rightarrow> (oauth_Error ''Unauthorized'' 401, w)
      | Some userID \<Rightarrow>
          (case on_db (ListAccounts (oa_db oa) userID) w of
             (Inl _, w1) \<Rightarrow> (oauth_Error ''Failed to list accounts'' 500, w1)
           | (Inr accounts, w1) \<Rightarrow> (\<lparr>op_Status = 200, op_Body = OAccounts accounts, op_Cookies = []\<rparr>, w1)))"

definition forget_rows :: "oauth_server \<Rightarrow> string \<Rightarrow> ((string \<times> string) list \<Rightarrow> oauth_tables \<Rightarrow> oauth_tables) \<Rightarrow>
    (oauth_tables \<Rightarrow> (string \<times> string) list) \<Rightarrow> oauth_tables \<Rightarrow> oauth_tables" where
  "forget_rows s userID set_rows rows db =
     snd (sql s (\<lambda>db. if \<not> og_text s None userID then (Inl text_error, db)
                      else (Inr (), set_rows (filter (\<lambda>r. fst r \<noteq> userID) (rows db)) db)) db)"

text \<open>A failure to clear the cached files or the status is only logged.\<close>
definition Disconnect :: "'g OAuthService \<Rightarrow> oauth_request \<Rightarrow> 'g oauth_world \<Rightarrow> oauth_response \<times> 'g oauth_world" where
  "Disconnect oa r w =
     (case oq_UserID r of
        None \<Rightarrow> (oauth_Error ''Unauthorized'' 401, w)
      | Some userID \<Rightarrow>
          (case on_db (RevokeTokens (oa_db oa) userID ProviderGoogle) w of
             (Inl _, w1) \<Rightarrow> (oauth_Error ''Failed to revoke tokens'' 500, w1)
           | (Inr _, w1) \<Rightarrow>
               (\<lparr>op_Status = 200, op_Body = ODisconnected userID, op_Cookies = []\<rparr>,
                (forget_rows (oa_db oa) userID (\<lambda>rs db. db\<lparr>ot_sync := rs\<rparr>) ot_sync
                  (forget_rows (oa_db oa) userID (\<lambda>rs db. db\<lparr>ot_files := rs\<rparr>) ot_files (fst w1)), snd w1))))"

section \<open>What the tables keep\<close>

definition account_key :: "OAuthToken \<Rightarrow> string \<times> string \<times> string" where
  "account_key t = (tk_UserID t, tk_Provider t, tk_AccountID t)"

text \<open>The keys of the tables: states and numbers are unique, an account has at most one active token.\<close>
definition oauth_ok :: "oauth_tables \<Rightarrow> bool" where
  "oauth_ok db \<longleftrightarrow> distinct (map oz_State (ot_states db)) \<and> distinct (map tk_ID (ot_tokens db)) \<and>
     (\<forall>t \<in> set (ot_tokens db). tk_ID t < ot_seq db) \<and> distinct (map account_key (filter tk_IsActive (ot_tokens db)))"

definition used :: "string \<Rightarrow> oauth_tables \<Rightarrow> bool" where
  "used state db \<longleftrightarrow> (\<forall>z \<in> set (ot_states db). oz_State z = state \<longrightarrow> oz_IsUsed z)"

text \<open>Every call of the service that changes the tables; \<open>P\<close> says which states may be saved.\<close>
inductive oauth_step :: "oauth_server \<Rightarrow> (string \<Rightarrow> bool) \<Rightarrow> oauth_tables \<Rightarrow> oauth_tables \<Rightarrow> bool" for s P where
  save_state: "P state \<Longrightarrow> oauth_step s P db (snd (SaveState env s userID state v db))"
| get_state: "oauth_step s P db (snd (GetState s state db))"
| mark_state: "oauth_step s P db (snd (MarkStateAsUsed s state db))"
| save_token: "oauth_step s P db (snd (SaveToken env s userID accountID token db))"
| get_token: "oauth_step s P db (snd (GetTokenByAccount s userID accountID db))"
| list_accounts: "oauth_step s P db (snd (ListAccounts s userID db))"
| revoke: "oauth_step s P db (snd (RevokeTokens s userID provider db))"
| delete: "oauth_step s P db (snd (DeleteToken s i db))"
| cleanup: "oauth_step s P db (snd (CleanupExpiredStates now s db))"

lemma sql_keeps:
  assumes "\<And>db. I db \<Longrightarrow> I (snd (f db))" "\<And>db. I db \<Longrightarrow> I (db\<lparr>ot_calls := Suc (ot_calls db)\<rparr>)" "I db"
  shows "I (snd (sql s f db))" "I (snd (sql_wrap s msg f db))"
proof -
  show "I (snd (sql s f db))" using assms by (simp add: sql_def Let_def split: stmt_fate.splits)
  then show "I (snd (sql_wrap s msg f db))" by (cases "sql s f db"; cases "fst (sql s f db)") (simp_all add: sql_wrap_def)
qed

lemma oauth_ok_calls [simp]: "oauth_ok (db\<lparr>ot_calls := n\<rparr>) = oauth_ok db" "used state (db\<lparr>ot_calls := n\<rparr>) = used state db"
  by (simp_all add: oauth_ok_def used_def)

lemma oauth_ok_insert_state: "oauth_ok db \<Longrightarrow> oauth_ok (snd (insert_state s z db))"
  by (auto simp: insert_state_def oauth_ok_def)

lemma map_marked: "map (oz_State \<circ> (\<lambda>z. if oz_State z = state then z\<lparr>oz_IsUsed := True\<rparr> else z)) zs = map oz_State zs"
  by (induction zs) auto

lemma oauth_ok_use_state: "oauth_ok db \<Longrightarrow> oauth_ok (snd (use_state s state db))"
  by (simp add: use_state_def oauth_ok_def map_marked)

lemma filter_deactivated:
  "filter tk_IsActive (map (\<lambda>t. if P t then t\<lparr>tk_IsActive := False, tk_UpdatedAt := u\<rparr> else t) ts) = filter (\<lambda>t. tk_IsActive t \<and> \<not> P t) ts"
  by (induction ts) auto

lemma oauth_ok_deactivate: "oauth_ok db \<Longrightarrow> oauth_ok (snd (deactivate s texts P db))"
proof -
  assume ok: "oauth_ok db"
  have ids: "map tk_ID (map (\<lambda>t. if P t then t\<lparr>tk_IsActive := False, tk_UpdatedAt := u\<rparr> else t) ts) = map tk_ID ts" for u ts
    by (induction ts) auto
  have "distinct (map account_key (filter (\<lambda>t. tk_IsActive t \<and> \<not> P t) (ot_tokens db)))"
    using ok distinct_map_filter [of account_key "filter tk_IsActive (ot_tokens db)" "\<lambda>t. \<not> P t"] by (simp add: oauth_ok_def conj_commute)
  then show ?thesis
    using ok ids by (auto simp: deactivate_def oauth_ok_def filter_deactivated simp del: map_map)
qed

lemma oauth_ok_insert_token: "oauth_ok db \<Longrightarrow> oauth_ok (snd (insert_token s t db))"
proof -
  assume ok: "oauth_ok db"
  have less: "\<forall>q \<in> set (ot_tokens db). tk_ID q < ot_seq db + 1" using ok by (auto simp: oauth_ok_def)
  have fresh: "ot_seq db \<notin> tk_ID ` set (ot_tokens db)" using ok by (auto simp: oauth_ok_def)
  show ?thesis
  proof (cases "tk_IsActive t")
    case True
    then show ?thesis
      using ok less fresh by (auto simp: insert_token_def Let_def oauth_ok_def account_key_def same_account_def list_ex_iff)
  next
    case False
    then show ?thesis using ok less fresh by (auto simp: insert_token_def Let_def oauth_ok_def)
  qed
qed

lemma oauth_ok_filter:
  "oauth_ok db \<Longrightarrow> oauth_ok (db\<lparr>ot_tokens := filter P (ot_tokens db)\<rparr>)" "oauth_ok db \<Longrightarrow> oauth_ok (db\<lparr>ot_states := filter Q (ot_states db)\<rparr>)"
proof -
  assume ok: "oauth_ok db"
  have "distinct (map account_key (filter (\<lambda>t. tk_IsActive t \<and> P t) (ot_tokens db)))"
    using ok distinct_map_filter [of account_key "filter tk_IsActive (ot_tokens db)" P] by (simp add: oauth_ok_def conj_commute)
  then show "oauth_ok (db\<lparr>ot_tokens := filter P (ot_tokens db)\<rparr>)" using ok by (simp add: oauth_ok_def distinct_map_filter conj_commute)
  show "oauth_ok (db\<lparr>ot_states := filter Q (ot_states db)\<rparr>)" using ok by (simp add: oauth_ok_def distinct_map_filter)
qed

lemma quiet_selects: "snd (select_state s state db) = db" "snd (select_token s u a db) = db"
  by (auto simp: select_state_def select_token_def split: option.splits list.splits)

lemma snd_GetTokenByAccount: "snd (GetTokenByAccount s u a db) = db\<lparr>ot_calls := Suc (ot_calls db)\<rparr>"
  using quiet_selects(2) by (auto simp: GetTokenByAccount_def sql_def Let_def split: prod.splits sum.splits stmt_fate.splits)
    (metis snd_conv)+

lemma oauth_step_ok: "oauth_step s P db db' \<Longrightarrow> oauth_ok db \<Longrightarrow> oauth_ok db'"
proof (induction rule: oauth_step.induct)
  case (save_token db env userID accountID token)
  show ?case
    unfolding SaveToken_def
    by (intro sql_keeps(1) [of oauth_ok]) (simp_all add: oauth_ok_insert_token oauth_ok_deactivate save_token)
next
  case (list_accounts db userID)
  then show ?case unfolding ListAccounts_def by (intro sql_keeps(1) [of oauth_ok]) auto
qed (auto simp: SaveState_def GetState_def MarkStateAsUsed_def RevokeTokens_def DeleteToken_def CleanupExpiredStates_def
      snd_GetTokenByAccount oauth_ok_insert_state oauth_ok_use_state oauth_ok_deactivate oauth_ok_filter quiet_selects
      intro!: sql_keeps(2) [of oauth_ok])

lemma used_keeps: "used state db \<Longrightarrow> used state (snd (deactivate s texts Q db))" "used state db \<Longrightarrow> used state (snd (insert_token s t db))"
    "used state db \<Longrightarrow> used state (snd (use_state s state' db))"
    "used state db \<Longrightarrow> oz_State z \<noteq> state \<Longrightarrow> used state (snd (insert_state s z db))"
    "used state db \<Longrightarrow> used state (db\<lparr>ot_tokens := ts\<rparr>)" "used state db \<Longrightarrow> used state (db\<lparr>ot_states := filter R (ot_states db)\<rparr>)"
  by (auto simp: used_def deactivate_def insert_token_def use_state_def insert_state_def Let_def)

lemma used_step: "oauth_step s (\<lambda>x. x \<noteq> state) db db' \<Longrightarrow> used state db \<Longrightarrow> used state db'"
proof (induction rule: oauth_step.induct)
  case (save_token db env userID accountID token)
  show ?case
    unfolding SaveToken_def by (intro sql_keeps(1) [of "used state"]) (simp_all add: used_keeps save_token)
next
  case (list_accounts db userID)
  then show ?case unfolding ListAccounts_def by (intro sql_keeps(1) [of "used state"]) auto
qed (auto simp: SaveState_def GetState_def MarkStateAsUsed_def RevokeTokens_def DeleteToken_def CleanupExpiredStates_def
      snd_GetTokenByAccount quiet_selects used_keeps intro!: sql_keeps(2) [of "used state"])

section \<open>Signing in\<close>

text \<open>A query reads every row once, and a text that fits a bounded column fits an unbounded one.\<close>
definition oauth_law :: "oauth_server \<Rightarrow> bool" where
  "oauth_law s \<longleftrightarrow> (\<forall>i rows. mset (og_scan s i rows) = mset rows) \<and> (\<forall>n x. og_text s (Some n) x \<longrightarrow> og_text s None x)"

lemma exchange_used:
  assumes "used state db"
  shows "\<exists>err db1. ExchangeCode now sv state code (db, g) = (Inl err, (db1, g))"
proof -
  obtain r db1 where q: "GetState (oa_db sv) state db = (r, db1)" by fastforce
  show ?thesis
  proof (cases r)
    case (Inl err)
    then show ?thesis using q by (simp add: ExchangeCode_def on_db_def)
  next
    case (Inr z)
    then have "find (\<lambda>z. oz_State z = state \<and> oz_Provider z = ProviderGoogle) (ot_states db) = Some z"
      using q by (auto simp: GetState_def sql_wrap_def sql_def select_state_def Let_def split: stmt_fate.splits if_splits option.splits sum.splits prod.splits)
    then have "z \<in> set (ot_states db)" "oz_State z = state" by (auto simp: find_Some_iff)
    then have "oz_IsUsed z" using assms by (auto simp: used_def)
    then show ?thesis using q Inr by (simp add: ExchangeCode_def on_db_def)
  qed
qed

lemma ExchangeCode_found:
  assumes "GetState (oa_db sv) state db = (Inr z, dbA)"
  shows "ExchangeCode now sv state code (db, g) =
    (if oz_IsUsed z then (Inl (Errorf ''state already used''), (dbA, g))
     else if now > oz_ExpiresAt z then (Inl (Errorf ''state expired''), (dbA, g))
     else case on_google (ol_Exchange (oa_lib sv) code (oz_CodeVerifier z)) (snd (MarkStateAsUsed (oa_db sv) state dbA), g) of
         (Inl err, w2) \<Rightarrow> (Inl (Wrapf ''failed to exchange code: '' err), w2)
       | (Inr token, w2) \<Rightarrow> (Inr token, w2))"
  using assms by (cases "MarkStateAsUsed (oa_db sv) state dbA") (simp add: ExchangeCode_def on_db_def)

lemma used_marked: "used state (d\<lparr>ot_states := map (\<lambda>z. if oz_State z = state then z\<lparr>oz_IsUsed := True\<rparr> else z) zs\<rparr>)"
proof -
  define f where "f z = (if oz_State z = state then z\<lparr>oz_IsUsed := True\<rparr> else z)" for z :: OAuthState
  have "oz_IsUsed (f z)" if "oz_State (f z) = state" for z
    using that by (cases "oz_State z = state") (simp_all add: f_def)
  then have "\<forall>y \<in> set (map f zs). oz_State y = state \<longrightarrow> oz_IsUsed y" unfolding set_map by blast
  moreover have "ot_states (d\<lparr>ot_states := map f zs\<rparr>) = map f zs" by simp
  ultimately have "used state (d\<lparr>ot_states := map f zs\<rparr>)" unfolding used_def by (simp only:)
  then show ?thesis unfolding f_def .
qed

lemma exchange_marks:
  assumes run: "ExchangeCode now sv state code (db, g) = (Inr token, (db1, g1))" and ran: "og_fate (oa_db sv) (Suc (ot_calls db)) \<noteq> NotRun"
  shows "used state db1"
proof -
  let ?s = "oa_db sv"
  obtain z dbA where q: "GetState ?s state db = (Inr z, dbA)"
    using run by (auto simp: ExchangeCode_def on_db_def split: prod.splits sum.splits)
  have dbA: "dbA = db\<lparr>ot_calls := Suc (ot_calls db)\<rparr>" and fits: "og_text ?s None state"
    using q by (auto simp: GetState_def sql_wrap_def sql_def select_state_def Let_def split: stmt_fate.splits if_splits option.splits sum.splits prod.splits)
  obtain x g2 where x: "ol_Exchange (oa_lib sv) code (oz_CodeVerifier z) g = (x, g2)" by fastforce
  have db1: "db1 = snd (MarkStateAsUsed ?s state dbA)"
    using run unfolding ExchangeCode_found [OF q] on_google_def snd_conv x by (cases x) (auto split: if_splits)
  have marked: "used state (snd (use_state ?s state d))" for d using fits by (simp add: use_state_def used_marked)
  have "ot_calls dbA = Suc (ot_calls db)" using dbA by simp
  then have "used state (snd (sql ?s (use_state ?s state) dbA))"
    using ran marked by (cases "og_fate ?s (Suc (ot_calls db))") (simp_all add: sql_def Let_def)
  then show ?thesis unfolding db1 MarkStateAsUsed_def sql_wrap_def
    by (cases "sql ?s (use_state ?s state) dbA"; cases "fst (sql ?s (use_state ?s state) dbA)") simp_all
qed

text \<open>C36: A state of the sign-in works once. After a successful exchange whose mark reached the database, every later exchange with that
  state is refused before Google is asked, whatever calls of the service come in between, unless the same random state is drawn again.
\<close>
theorem state_single_use:
  assumes "ExchangeCode now sv state code (db, g) = (Inr token, (db1, g1))" "og_fate (oa_db sv) (Suc (ot_calls db)) \<noteq> NotRun"
    "(oauth_step (oa_db sv) (\<lambda>x. x \<noteq> state))\<^sup>*\<^sup>* db1 db2"
  shows "\<exists>err db3. ExchangeCode now' sv state code' (db2, g2) = (Inl err, (db3, g2))"
proof -
  have "used state db2" using assms(3) exchange_marks [OF assms(1,2)] by (induction) (auto intro: used_step)
  then show ?thesis by (rule exchange_used)
qed

lemma filter_key: "distinct (map k ts) \<Longrightarrow> t \<in> set ts \<Longrightarrow> filter (\<lambda>q. k q = k t) ts = [t]"
proof (induction ts)
  case (Cons a ts)
  show ?case
  proof (cases "a = t")
    case True
    then have "k t \<notin> k ` set ts" using Cons.prems(1) by simp
    then have "filter (\<lambda>q. k q = k t) ts = []" by (simp add: filter_empty_conv) (metis image_eqI)
    then show ?thesis using True by simp
  next
    case False
    then have "t \<in> set ts" using Cons.prems(2) by simp
    moreover have "k a \<noteq> k t" using Cons.prems(1) \<open>t \<in> set ts\<close> by (metis image_eqI distinct.simps(2) list.simps(9) set_map)
    ultimately show ?thesis using Cons by simp
  qed
qed simp

lemma unique_active:
  assumes ok: "oauth_ok db" and t: "t \<in> set (ot_tokens db)" "tk_IsActive t"
  shows "filter (\<lambda>q. tk_UserID q = tk_UserID t \<and> tk_Provider q = tk_Provider t \<and> tk_AccountID q = tk_AccountID t \<and> tk_IsActive q) (ot_tokens db) = [t]"
  using filter_key [of account_key "filter tk_IsActive (ot_tokens db)" t] assms
  by (simp add: oauth_ok_def account_key_def conj_ac)

text \<open>A saved token is the one that is found for its account.\<close>
lemma saved_token_found:
  assumes law: "oauth_law s" and ok: "oauth_ok db" and save: "SaveToken env s u a token db = (Inr i, db')" and a: "a \<noteq> []"
    and up: "og_fate s (ot_calls db') = Answered"
  obtains t where "fst (GetTokenByAccount s u a db') = Inr t" "tk_ID t = i"
    "ToOAuth2Token t = token\<lparr>o2_Expiry := stamp (o2_Expiry token)\<rparr>"
proof -
  let ?off = "deactivate s [u, a] (\<lambda>t. tk_UserID t = u \<and> tk_Provider t = ProviderGoogle \<and> tk_AccountID t = a)"
  define db1 where "db1 = snd (sql s ?off db)"
  let ?new = "FromOAuth2Token (oe_now env) u ProviderGoogle a token"
  define row where "row = ?new\<lparr>tk_ID := i, tk_Expiry := stamp (tk_Expiry ?new), tk_CreatedAt := stamp (tk_CreatedAt ?new), tk_UpdatedAt := stamp (tk_UpdatedAt ?new)\<rparr>"
  have ins: "sql s (insert_token s ?new) db1 = (Inr i, db')" using save by (simp add: SaveToken_def db1_def)
  have texts: "og_text s None u" "og_text s None a" and mem: "row \<in> set (ot_tokens db')"
    using ins law by (auto simp: sql_def insert_token_def Let_def row_def oauth_law_def FromOAuth2Token_def split: stmt_fate.splits if_splits)
  have ok': "oauth_ok db'" using oauth_step_ok [OF oauth_step.save_token [of s "\<lambda>_. True" db env u a token] ok] save by simp
  have only: "filter (\<lambda>q. tk_UserID q = u \<and> tk_Provider q = ProviderGoogle \<and> tk_AccountID q = a \<and> tk_IsActive q) (ot_tokens db') = [row]"
    using unique_active [OF ok' mem] by (simp add: row_def FromOAuth2Token_def)
  have scan: "og_scan s n [row] = [row]" for n
    using law by (simp add: oauth_law_def mset_single_iff flip: mset_single_iff)
  have "fst (GetTokenByAccount s u a db') = Inr row"
    using up texts a only scan by (simp add: GetTokenByAccount_def sql_def select_token_def Let_def)
  then show ?thesis by (rule that) (simp_all add: row_def FromOAuth2Token_def ToOAuth2Token_def)
qed

definition no_rows_yet :: oauth_tables where
  "no_rows_yet = \<lparr>ot_calls = 0, ot_states = [], ot_tokens = [], ot_seq = 1, ot_files = [], ot_sync = []\<rparr>"

lemma reachable_ok: "(oauth_step s P)\<^sup>*\<^sup>* no_rows_yet db \<Longrightarrow> oauth_ok db"
proof (induction rule: rtranclp_induct)
  case base
  then show ?case by (simp add: oauth_ok_def no_rows_yet_def)
next
  case (step y z)
  then show ?case by (blast intro: oauth_step_ok)
qed

text \<open>Whatever calls are made and whatever statements fail or lose their answer, a Google account of a user has at most one active
  token and no state exists twice; and a token that \<open>SaveToken\<close> has stored is the one \<open>GetTokenByAccount\<close> returns for that account.
\<close>
theorem one_active_token:
  assumes reach: "(oauth_step s (\<lambda>_. True))\<^sup>*\<^sup>* no_rows_yet db" and law: "oauth_law s"
  shows "oauth_ok db \<and>
    (SaveToken env s u a token db = (Inr i, db') \<and> a \<noteq> [] \<and> og_fate s (ot_calls db') = Answered \<longrightarrow>
      (\<exists>t. fst (GetTokenByAccount s u a db') = Inr t \<and> tk_ID t = i \<and> ToOAuth2Token t = token\<lparr>o2_Expiry := stamp (o2_Expiry token)\<rparr>))"
  using reachable_ok [OF reach] saved_token_found [OF law, of db env u a token i db'] by blast

text \<open>What a working server answers.\<close>
lemma sql_answered: "og_fate s (ot_calls db) = Answered \<Longrightarrow> sql s f db = f (db\<lparr>ot_calls := Suc (ot_calls db)\<rparr>)"
  by (simp add: sql_def Let_def)

lemma GetState_answered:
  assumes "og_fate s (ot_calls db) = Answered" "og_text s None state"
    "find (\<lambda>z. oz_State z = state \<and> oz_Provider z = ProviderGoogle) (ot_states db) = Some z"
  shows "GetState s state db = (Inr z, db\<lparr>ot_calls := Suc (ot_calls db)\<rparr>)"
  using assms by (simp add: GetState_def sql_wrap_def sql_answered select_state_def)

text \<open>The texts of a token that the table takes.\<close>
definition storable :: "oauth_server \<Rightarrow> string \<Rightarrow> string \<Rightarrow> oauth2_token \<Rightarrow> bool" where
  "storable s u a token \<longleftrightarrow> og_text s (Some 255) u \<and> og_text s None a \<and> og_text s (Some 50) ProviderGoogle \<and>
     og_text s None (o2_AccessToken token) \<and> og_text s None (o2_RefreshToken token) \<and> og_text s (Some 50) (o2_TokenType token)"

lemma SaveToken_answered:
  assumes up: "\<forall>i. og_fate s i = Answered" and law: "oauth_law s" and fits: "storable s u a token"
  shows "\<exists>db'. SaveToken env s u a token db = (Inr (ot_seq db), db')"
proof -
  have texts: "og_text s None u" "og_text s None a" using law fits by (auto simp: oauth_law_def storable_def)
  let ?P = "\<lambda>t. tk_UserID t = u \<and> tk_Provider t = ProviderGoogle \<and> tk_AccountID t = a"
  define f where "f t = (if ?P t then t\<lparr>tk_IsActive := False, tk_UpdatedAt := stamp (og_now s (Suc (ot_calls db)))\<rparr> else t)" for t :: OAuthToken
  have db1: "snd (sql s (deactivate s [u, a] ?P) db) = db\<lparr>ot_calls := Suc (ot_calls db), ot_tokens := map f (ot_tokens db)\<rparr>"
    using texts up by (simp add: sql_answered deactivate_def f_def [abs_def])
  have f: "tk_UserID (f t) = tk_UserID t" "tk_Provider (f t) = tk_Provider t" "tk_AccountID (f t) = tk_AccountID t" "tk_IsActive (f t) \<Longrightarrow> \<not> ?P t" for t
    by (simp_all add: f_def split: if_splits)
  have ts: "\<forall>q \<in> set (map f (ot_tokens db)). tk_IsActive q \<longrightarrow> \<not> ?P q"
    unfolding set_map using f by (metis (no_types, lifting) imageE)
  have "\<not> list_ex (\<lambda>q. tk_IsActive q \<and> same_account (FromOAuth2Token (oe_now env) u ProviderGoogle a token) q) (map f (ot_tokens db))"
    using ts by (auto simp: list_ex_iff same_account_def FromOAuth2Token_def)
  then show ?thesis
    unfolding SaveToken_def db1 using up fits
    by (simp add: sql_answered insert_token_def Let_def FromOAuth2Token_def storable_def)
qed

text \<open>C37: The sign-in from the first request to the stored token, with the database up. The request names any user ID and carries no
  credentials of that user; Google is asked with the verifier whose challenge the redirect carried; and the token Google hands out is
  then the one found for that user and the account that signed in.
\<close>
theorem sign_in_links_account:
  fixes sv :: "'g OAuthService"
  defines "s \<equiv> oa_db sv"
  assumes up: "\<forall>i. og_fate s i = Answered" and law: "oauth_law s" and ok: "oauth_ok db"
    and r1: "oq_UserID r1 = None" "oq_Query r1 ''user_id'' = u" "u \<noteq> []"
    and rnd: "oe_rnd env1 0 = Inr b" "oe_rnd env1 1 = Inr st" "st \<noteq> []" "RawURLEncode st \<notin> oz_State ` set (ot_states db)"
    and fits: "og_text s (Some 255) (RawURLEncode st)" "og_text s None (RawURLEncode b)" "storable s u email token"
    and google: "ol_Exchange (oa_lib sv) code (RawURLEncode b) g = (Inr token, g1)" "GetAccountEmail sv token g1 = (Inr email, g2)"
    and r2: "oq_UserID r2 = None" "oq_Query r2 ''code'' = code" "code \<noteq> []" "oq_Query r2 ''state'' = RawURLEncode st" "oq_Query r2 ''error'' = []"
      "oq_Cookie r2 ''oauth_state'' = Some (RawURLEncode st)"
    and time: "oe_now env2 0 \<le> stamp (oe_now env1 2 + StateTTL)"
  shows "\<exists>resp1 db1 resp2 db2 t. AuthRequest env1 sv r1 (db, g) = (resp1, (db1, g)) \<and> op_Status resp1 = 302 \<and>
    op_Body resp1 = ORedirect (ol_AuthCodeURL (oa_lib sv) (RawURLEncode st) (generateCodeChallenge sv (RawURLEncode b))) \<and>
    AuthCallback env2 sv r2 (db1, g) = (resp2, (db2, g2)) \<and> op_Status resp2 = 302 \<and>
    fst (GetTokenByAccount s u email db2) = Inr t \<and> ToOAuth2Token t = token\<lparr>o2_Expiry := stamp (o2_Expiry token)\<rparr>"
proof -
  define z where "z = \<lparr>oz_State = RawURLEncode st, oz_UserID = u, oz_CodeVerifier = RawURLEncode b, oz_Provider = ProviderGoogle,
        oz_CreatedAt = stamp (oe_now env1 1), oz_ExpiresAt = stamp (oe_now env1 2 + StateTTL), oz_IsUsed = False\<rparr>"
  define db1 where "db1 = db\<lparr>ot_calls := Suc (ot_calls db), ot_states := ot_states db @ [z]\<rparr>"
  have user: "og_text s (Some 255) u" "og_text s None (RawURLEncode st)" using fits law by (auto simp: storable_def oauth_law_def)
  have save: "SaveState (skip_now 1 env1) s u (RawURLEncode st) (RawURLEncode b) db = (Inr (), db1)"
    using up fits user rnd(4) by (simp add: SaveState_def sql_wrap_def sql_answered insert_state_def skip_now_def z_def db1_def numeral_2_eq_2)
  have pkce: "GeneratePKCE env1 = Inr \<lparr>pk_CodeVerifier = RawURLEncode b, pk_State = RawURLEncode st, pk_CreatedAt = oe_now env1 0\<rparr>"
    using rnd(1,2) by (simp add: GeneratePKCE_def)
  obtain resp1 where req: "AuthRequest env1 sv r1 (db, g) = (resp1, (db1, g))" "op_Status resp1 = 302"
      "op_Body resp1 = ORedirect (ol_AuthCodeURL (oa_lib sv) (RawURLEncode st) (generateCodeChallenge sv (RawURLEncode b)))"
    using r1 pkce save by (auto simp: AuthRequest_def GetAuthURL_def on_db_def Let_def s_def)
  have find: "find (\<lambda>z. oz_State z = RawURLEncode st \<and> oz_Provider z = ProviderGoogle) (ot_states db1) = Some z"
  proof -
    have "find (\<lambda>z. oz_State z = RawURLEncode st \<and> oz_Provider z = ProviderGoogle) (xs @ [z]) = Some z" if "RawURLEncode st \<notin> oz_State ` set xs" for xs
      using that by (induction xs) (auto simp: z_def)
    then show ?thesis using rnd(4) by (simp add: db1_def)
  qed
  let ?more = "\<lambda>d. d\<lparr>ot_calls := Suc (ot_calls d)\<rparr>"
  have get: "GetState s (RawURLEncode st) db1 = (Inr z, ?more db1)" "GetState s (RawURLEncode st) (?more db1) = (Inr z, ?more (?more db1))"
    using GetState_answered [OF _ user(2) find] GetState_answered [of s "?more db1" "RawURLEncode st" z] find user(2) up by simp_all
  define db3 where "db3 = snd (MarkStateAsUsed s (RawURLEncode st) (?more (?more db1)))"
  have exch: "ExchangeCode (oe_now env2 0) sv (RawURLEncode st) code (?more db1, g) = (Inr token, (db3, g1))"
    using ExchangeCode_found [OF get(2) [unfolded s_def]] time google(1) by (simp add: on_google_def db3_def z_def s_def)
  have ok3: "oauth_ok db3"
  proof -
    have "oauth_step s (\<lambda>_. True) db db1" using oauth_step.save_state [of "\<lambda>_. True" "RawURLEncode st" s db "skip_now 1 env1" u "RawURLEncode b"] save by simp
    then have "oauth_ok db1" using ok by (rule oauth_step_ok)
    then show ?thesis
      unfolding db3_def using oauth_step_ok [OF oauth_step.mark_state [of s "\<lambda>_. True" "?more (?more db1)" "RawURLEncode st"]] by simp
  qed
  obtain db4 where st4: "SaveToken (skip_now 1 env2) s u email token db3 = (Inr (ot_seq db3), db4)"
    using SaveToken_answered [OF up law fits(3)] by blast
  have "email \<noteq> []" using google(2) by (auto simp: GetAccountEmail_def split: prod.splits sum.splits if_splits)
  then obtain t where t: "fst (GetTokenByAccount s u email db4) = Inr t" "ToOAuth2Token t = token\<lparr>o2_Expiry := stamp (o2_Expiry token)\<rparr>"
    using saved_token_found [OF law ok3 st4] up by blast
  have nonempty: "RawURLEncode st \<noteq> []" using rnd(3) RawURLEncode_inj [of st "[]"] by (auto simp: RawURLEncode_def)
  obtain resp2 where "AuthCallback env2 sv r2 (db1, g) = (resp2, (db4, g2))" "op_Status resp2 = 302"
    using r2 nonempty get(1) exch google(2) st4 by (auto simp: AuthCallback_def link_account_def on_db_def on_google_def Let_def z_def s_def)
  with req t show ?thesis by blast
qed

section \<open>Witnesses\<close>

text \<open>A server that takes every text, and Google, whose state is the number of tokens it has handed out.\<close>
definition ex_server :: oauth_server where
  "ex_server = \<lparr>og_fate = \<lambda>i. Answered, og_now = \<lambda>i. 0, og_text = \<lambda>n x. True, og_scan = \<lambda>i rows. rows\<rparr>"

definition ex_token :: oauth2_token where
  "ex_token = \<lparr>o2_AccessToken = ''at'', o2_RefreshToken = ''rt'', o2_TokenType = ''Bearer'', o2_Expiry = 4000\<rparr>"

definition ex_google :: "nat oauth_lib" where
  "ex_google =
     \<lparr>ol_AuthCodeURL = \<lambda>st ch. ''https://accounts.google.com/?state='' @ st @ ''&code_challenge='' @ ch,
      ol_Exchange = \<lambda>code v g. if code = ''c'' \<and> v = RawURLEncode ''verifier'' then (Inr ex_token, Suc g) else (Inl (Errorf ''invalid_grant''), g),
      ol_TokenSource = \<lambda>t g. (Inr t, g), ol_Valid = \<lambda>t now. now < o2_Expiry t, ol_About = \<lambda>t g. (Inr (200, ''200 OK'', ''a@gmail.com''), g),
      ol_Decode = \<lambda>b. Inr b, ol_sha = sample_sha\<rparr>"

definition ex_sv :: "nat OAuthService" where
  "ex_sv = \<lparr>oa_db = ex_server, oa_lib = ex_google\<rparr>"

definition ex_env :: oauth_env where
  "ex_env = \<lparr>oe_now = \<lambda>i. 1000, oe_rnd = \<lambda>i. if i = 0 then Inr ''verifier'' else Inr ''nonce''\<rparr>"

definition ex_request :: "(string \<times> string) list \<Rightarrow> (string \<times> string) list \<Rightarrow> oauth_request" where
  "ex_request query cookies =
     \<lparr>oq_UserID = None, oq_Query = \<lambda>k. (case map_of query k of None \<Rightarrow> [] | Some v \<Rightarrow> v), oq_Cookie = map_of cookies\<rparr>"

lemma ex_server_law: "oauth_law ex_server" "oauth_ok no_rows_yet" "\<forall>i. og_fate ex_server i = Answered"
  by (simp_all add: oauth_law_def ex_server_def oauth_ok_def no_rows_yet_def)

theorem sign_in_links_account_witness:
  "\<exists>resp1 db1 resp2 db2 t. AuthRequest ex_env ex_sv (ex_request [(''user_id'', ''bob'')] []) (no_rows_yet, 0) = (resp1, (db1, 0)) \<and>
     op_Status resp1 = 302 \<and>
     AuthCallback ex_env ex_sv (ex_request [(''code'', ''c''), (''state'', RawURLEncode ''nonce'')] [(''oauth_state'', RawURLEncode ''nonce'')])
       (db1, 0) = (resp2, (db2, 1)) \<and>
     op_Status resp2 = 302 \<and> fst (GetTokenByAccount ex_server ''bob'' ''a@gmail.com'' db2) = Inr t \<and> ToOAuth2Token t = ex_token"
proof -
  have sv: "oa_db ex_sv = ex_server" "oa_lib ex_sv = ex_google" by (simp_all add: ex_sv_def)
  have google: "ol_Exchange (oa_lib ex_sv) ''c'' (RawURLEncode ''verifier'') 0 = (Inr ex_token, 1)"
      "GetAccountEmail ex_sv ex_token 1 = (Inr ''a@gmail.com'', 1)"
    by (simp_all add: sv ex_google_def GetAccountEmail_def)
  have stamp: "ex_token\<lparr>o2_Expiry := stamp (o2_Expiry ex_token)\<rparr> = ex_token" by (simp add: ex_token_def stamp_def)
  show ?thesis
    using sign_in_links_account [of ex_sv no_rows_yet "ex_request [(''user_id'', ''bob'')] []" "''bob''" ex_env "''verifier''" "''nonce''" "''a@gmail.com''" ex_token
        "''c''" 0 1 1 "ex_request [(''code'', ''c''), (''state'', RawURLEncode ''nonce'')] [(''oauth_state'', RawURLEncode ''nonce'')]" ex_env,
        unfolded sv, OF ex_server_law(3,1,2)] google [unfolded sv] stamp
    by (simp add: ex_request_def ex_env_def no_rows_yet_def storable_def ex_server_def stamp_def StateTTL_def) blast
qed

definition ex_saved :: oauth_tables where
  "ex_saved = snd (SaveState ex_env ex_server ''bob'' ''s1'' (RawURLEncode ''verifier'') no_rows_yet)"

lemma ex_exchange: "\<exists>db1. ExchangeCode 1000 ex_sv ''s1'' ''c'' (ex_saved, 0) = (Inr ex_token, (db1, 1))"
  by (simp add: ExchangeCode_def on_db_def on_google_def GetState_def SaveState_def MarkStateAsUsed_def sql_wrap_def sql_def select_state_def use_state_def
      insert_state_def ex_saved_def ex_sv_def ex_server_def ex_google_def ex_env_def no_rows_yet_def ProviderGoogle_def stamp_def StateTTL_def Let_def)

theorem state_single_use_witness:
  "\<exists>db1. ExchangeCode 1000 ex_sv ''s1'' ''c'' (ex_saved, 0) = (Inr ex_token, (db1, 1)) \<and>
     (\<exists>err db3. ExchangeCode 1001 ex_sv ''s1'' ''c'' (db1, 1) = (Inl err, (db3, 1)))"
proof -
  obtain db1 where e: "ExchangeCode 1000 ex_sv ''s1'' ''c'' (ex_saved, 0) = (Inr ex_token, (db1, 1))" using ex_exchange by blast
  have "og_fate (oa_db ex_sv) (Suc (ot_calls ex_saved)) \<noteq> NotRun" by (simp add: ex_sv_def ex_server_def)
  then show ?thesis using state_single_use [OF e _ rtranclp.rtrancl_refl, of 1001 "''c''" 1] e by blast
qed

theorem one_active_token_witness:
  "oauth_ok no_rows_yet \<and> (\<exists>i db' t. SaveToken ex_env ex_server ''bob'' ''a@gmail.com'' ex_token no_rows_yet = (Inr i, db') \<and>
     fst (GetTokenByAccount ex_server ''bob'' ''a@gmail.com'' db') = Inr t \<and> tk_ID t = i)"
proof -
  obtain db' where s: "SaveToken ex_env ex_server ''bob'' ''a@gmail.com'' ex_token no_rows_yet = (Inr (ot_seq no_rows_yet), db')"
    using SaveToken_answered [OF ex_server_law(3,1), of "''bob''" "''a@gmail.com''" ex_token ex_env no_rows_yet]
    by (auto simp: storable_def ex_server_def)
  show ?thesis
    using one_active_token [OF rtranclp.rtrancl_refl ex_server_law(1), of ex_env "''bob''" "''a@gmail.com''" ex_token "ot_seq no_rows_yet" db'] s ex_server_law(3)
    by fastforce
qed

end
