(* ===== verification/Device_Storage.thy ===== *)
theory Device_Storage
  imports Simple_Storage
begin

text \<open>
  Devices of users (\<^verbatim>\<open>internal/storage/device.go\<close>): folders of the server's machine with an index of their files in memory. The map
  \<open>fileLocks\<close>, which is written and never read, is left out.
\<close>

section \<open>Data\<close>

record DeviceFile =
  mf_FilePath :: string
  mf_FileHash :: string
  mf_FileSize :: int
  mf_ModifiedTime :: gotime
  mf_LastSync :: gotime
  mf_SyncStatus :: string
  mf_Version :: int
  mf_DeviceID :: string

record DeviceStorage =
  ds_DeviceID :: string
  ds_StoragePath :: string
  ds_UserID :: string
  ds_LastSync :: gotime
  ds_SyncStatus :: string
  ds_files :: "(string, DeviceFile) fmap"

type_synonym DeviceManager = "(string, DeviceStorage) fmap"

section \<open>Registration\<close>

text \<open>\<open>os.Stat\<close>, reduced to whether there is something.\<close>
definition os_Stat :: "fsys \<Rightarrow> string \<Rightarrow> gerr option" where
  "os_Stat fs path =
     (let l = at fs path in
      if l |\<in>| fs_dirs fs |\<union>| fmdom (fs_files fs) then None else Some (PathError ''stat'' path (missing fs l)))"

definition calculateFileHash :: "string \<Rightarrow> string" where
  "calculateFileHash filePath = ''hash_'' @ Base filePath"

definition new_file :: "DeviceStorage \<Rightarrow> fsys \<Rightarrow> string \<Rightarrow> location \<Rightarrow> string \<Rightarrow> DeviceFile" where
  "new_file ds fs path l relPath =
     \<lparr>mf_FilePath = relPath, mf_FileHash = calculateFileHash path,
      mf_FileSize = (case fmlookup (fs_files fs) l of None \<Rightarrow> 0 | Some (d, t) \<Rightarrow> int (length d)),
      mf_ModifiedTime = (case fmlookup (fs_files fs) l of None \<Rightarrow> 0 | Some (d, t) \<Rightarrow> t),
      mf_LastSync = 0, mf_SyncStatus = ''pending'', mf_Version = 1, mf_DeviceID = ds_DeviceID ds\<rparr>"

text \<open>The walk with its callback; a folder that cannot be read ends it with an error.\<close>
fun scan_walk :: "fsys \<Rightarrow> location \<Rightarrow> location list \<Rightarrow> DeviceStorage \<Rightarrow> gerr + DeviceStorage" where
  "scan_walk fs root [] ds = Inr ds"
| "scan_walk fs root (l # ls) ds =
     (let path = walk_path (ds_StoragePath ds) root l in
      if l |\<in>| fs_dirs fs then
        (if l |\<in>| fs_denied fs then Inl (PathError ''open'' path EACCES) else scan_walk fs root ls ds)
      else case Rel (ds_StoragePath ds) path of
          Inl err \<Rightarrow> Inl err
        | Inr relPath \<Rightarrow> scan_walk fs root ls (ds\<lparr>ds_files := fmupd relPath (new_file ds fs path l relPath) (ds_files ds)\<rparr>))"

definition scanFiles :: "fsys \<Rightarrow> DeviceStorage \<Rightarrow> gerr + DeviceStorage" where
  "scanFiles fs ds =
     (let root = at fs (ds_StoragePath ds) in
      if root |\<notin>| fs_dirs fs |\<union>| fmdom (fs_files fs) then Inl (PathError ''lstat'' (ds_StoragePath ds) (missing fs root))
      else scan_walk fs root (walk_order fs root) ds)"

definition unix_seconds :: "gotime \<Rightarrow> int" where
  "unix_seconds t = t div 1000000000 - 62135596800"

definition RegisterDevice ::
  "(nat \<Rightarrow> gotime) \<Rightarrow> string \<Rightarrow> string \<Rightarrow> string \<Rightarrow> (DeviceManager \<times> fsys, DeviceStorage) io" where
  "RegisterDevice now userID deviceName storagePath w =
     (let (dm, fs) = w; deviceID = userID @ ''_'' @ deviceName @ ''_'' @ int_text (unix_seconds (now 0)) in
      case (case os_Stat fs storagePath of
              None \<Rightarrow> (Inr (), fs)
            | Some err \<Rightarrow>
                if is_not_exist err
                then (case os_MkdirAll storagePath fs of
                        (Inl e, fs1) \<Rightarrow> (Inl (Wrapf (''failed to create storage directory: '' @ storagePath @ '': '') e), fs1)
                      | (Inr _, fs1) \<Rightarrow> (Inr (), fs1))
                else (Inl (Wrapf (''failed to access storage path: '' @ storagePath @ '': '') err), fs)) of
        (Inl err, fs1) \<Rightarrow> (Inl err, (dm, fs1))
      | (Inr _, fs1) \<Rightarrow>
          (case scanFiles fs1 \<lparr>ds_DeviceID = deviceID, ds_StoragePath = storagePath, ds_UserID = userID, ds_LastSync = now 1,
                  ds_SyncStatus = ''online'', ds_files = fmempty\<rparr> of
             Inl err \<Rightarrow> (Inl (Wrapf ''failed to scan files: '' err), (dm, fs1))
           | Inr device \<Rightarrow> (Inr device, (fmupd deviceID device dm, fs1))))"

definition GetDevice :: "DeviceManager \<Rightarrow> string \<Rightarrow> gerr + DeviceStorage" where
  "GetDevice dm deviceID =
     (case fmlookup dm deviceID of None \<Rightarrow> Inl (Errorf (''device not found: '' @ deviceID)) | Some d \<Rightarrow> Inr d)"

definition ListUserDevices :: "DeviceManager \<Rightarrow> string \<Rightarrow> DeviceStorage list" where
  "ListUserDevices dm userID = filter (\<lambda>d. ds_UserID d = userID) (map (\<lambda>k. the (fmlookup dm k)) (range_keys dm))"

section \<open>Files of a device\<close>

definition dev_GetFile :: "DeviceStorage \<Rightarrow> string \<Rightarrow> (fsys, string) io" where
  "dev_GetFile ds relativePath fs =
     (case os_Open fs (Join (ds_StoragePath ds) relativePath) of
        Inl err \<Rightarrow> (Inl err, fs)
      | Inr r \<Rightarrow> ((case rd_err r of Some err \<Rightarrow> Inl err | None \<Rightarrow> Inr (rd_data r)), fs))"

definition dev_PutFile :: "DeviceStorage \<Rightarrow> string \<Rightarrow> string \<Rightarrow> (fsys, unit) io" where
  "dev_PutFile ds relativePath content fs =
     (let full = Join (ds_StoragePath ds) relativePath in
      case os_MkdirAll (Dir full) fs of
        (Inl err, fs1) \<Rightarrow> (Inl err, fs1)
      | (Inr _, fs1) \<Rightarrow>
          (case os_Create full fs1 of
             (Inl err, fs2) \<Rightarrow> (Inl err, fs2)
           | (Inr f, fs2) \<Rightarrow> io_Copy f (Reader content None) fs2))"

text \<open>Nothing is transferred: the entry is marked, first as being synchronised and then as synchronised.\<close>
definition dev_SyncFile :: "gotime \<Rightarrow> DeviceStorage \<Rightarrow> string \<Rightarrow> (gerr + unit) \<times> DeviceStorage" where
  "dev_SyncFile now ds relativePath =
     (case fmlookup (ds_files ds) relativePath of
        None \<Rightarrow> (Inl (Errorf (''file not found: '' @ relativePath)), ds)
      | Some m \<Rightarrow>
          let m1 = m\<lparr>mf_SyncStatus := ''syncing''\<rparr>; m2 = m1\<lparr>mf_SyncStatus := ''synced'', mf_LastSync := now\<rparr>
          in (Inr (), ds\<lparr>ds_files := fmupd relativePath m2 (ds_files ds)\<rparr>))"

definition files_with :: "string \<Rightarrow> DeviceStorage \<Rightarrow> DeviceFile list" where
  "files_with status ds =
     filter (\<lambda>m. mf_SyncStatus m = status) (map (\<lambda>k. the (fmlookup (ds_files ds) k)) (range_keys (ds_files ds)))"

definition GetPendingFiles :: "DeviceStorage \<Rightarrow> DeviceFile list" where
  "GetPendingFiles ds = files_with ''pending'' ds"

definition GetTotalFiles :: "DeviceStorage \<Rightarrow> nat" where
  "GetTotalFiles ds = length (range_keys (ds_files ds))"

definition GetCompletedFiles :: "DeviceStorage \<Rightarrow> nat" where
  "GetCompletedFiles ds = length (files_with ''synced'' ds)"

definition dev_DeleteFile :: "DeviceStorage \<Rightarrow> string \<Rightarrow> fsys \<Rightarrow> (gerr + unit) \<times> DeviceStorage \<times> fsys" where
  "dev_DeleteFile ds relativePath fs =
     (case os_Remove (Join (ds_StoragePath ds) relativePath) fs of
        (Inl err, fs1) \<Rightarrow> (Inl (Wrapf ''failed to delete file: '' err), ds, fs1)
      | (Inr _, fs1) \<Rightarrow> (Inr (), ds\<lparr>ds_files := fmdrop relativePath (ds_files ds)\<rparr>, fs1))"

section \<open>The service's view of a device\<close>

text \<open>\<open>SyncService.SyncDevice\<close> (\<^verbatim>\<open>cmd/sync-service/main.go\<close>); errors of single files are only logged. \<open>now i\<close> is the time of file \<open>i\<close>.\<close>
fun sync_pending :: "(nat \<Rightarrow> gotime) \<Rightarrow> DeviceFile list \<Rightarrow> DeviceStorage \<Rightarrow> DeviceStorage" where
  "sync_pending now [] ds = ds"
| "sync_pending now (f # fs) ds = sync_pending (\<lambda>i. now (Suc i)) fs (snd (dev_SyncFile (now 0) ds (mf_FilePath f)))"

definition SyncDevice :: "(nat \<Rightarrow> gotime) \<Rightarrow> string \<Rightarrow> DeviceManager \<Rightarrow> (gerr + unit) \<times> DeviceManager" where
  "SyncDevice now deviceID dm =
     (case GetDevice dm deviceID of
        Inl err \<Rightarrow> (Inl (Wrapf ''device not found: '' err), dm)
      | Inr device \<Rightarrow> (Inr (), fmupd deviceID (sync_pending now (GetPendingFiles device) device) dm))"

datatype SyncState = SYNC_STATE_IDLE | SYNC_STATE_CONNECTING

text \<open>The generated \<open>SyncStatus\<close>; durations are seconds, and the two numbers of type \<open>double\<close>, always constants here, are counted in tenths.\<close>
record device_status =
  dv_NodeId :: string
  dv_SessionId :: string
  dv_PendingEvents :: "32 word"
  dv_ProcessingEvents :: "32 word"
  dv_CompletedEvents :: "32 word"
  dv_FailedEvents :: "32 word"
  dv_LastSync :: gotime
  dv_AvgProcessingTime :: int
  dv_SuccessRate :: int
  dv_State :: SyncState
  dv_StartedAt :: gotime
  dv_ElapsedTime :: int
  dv_BytesTransferred :: int
  dv_TransferRateBps :: int
  dv_ActiveConnections :: int

text \<open>\<open>now i\<close> is the \<open>i\<close>-th reading of the clock.\<close>
definition getDefaultSyncStatus :: "(nat \<Rightarrow> gotime) \<Rightarrow> string \<Rightarrow> device_status" where
  "getDefaultSyncStatus now sessionID =
     \<lparr>dv_NodeId = ''unknown'', dv_SessionId = sessionID, dv_PendingEvents = 0, dv_ProcessingEvents = 0, dv_CompletedEvents = 0,
      dv_FailedEvents = 0, dv_LastSync = now 0, dv_AvgProcessingTime = 0, dv_SuccessRate = 0, dv_State = SYNC_STATE_IDLE,
      dv_StartedAt = now 1, dv_ElapsedTime = 0, dv_BytesTransferred = 0, dv_TransferRateBps = 0, dv_ActiveConnections = 0\<rparr>"

text \<open>\<open>int64(time.Since(t).Seconds())\<close> rounds towards zero.\<close>
definition elapsed_seconds :: "gotime \<Rightarrow> gotime \<Rightarrow> int" where
  "elapsed_seconds now t = sgn (now - t) * (\<bar>now - t\<bar> div 1000000000)"

definition getDeviceStatus :: "(nat \<Rightarrow> gotime) \<Rightarrow> DeviceManager \<Rightarrow> string \<Rightarrow> device_status" where
  "getDeviceStatus now dm deviceID =
     (case GetDevice dm deviceID of
        Inl _ \<Rightarrow> getDefaultSyncStatus now deviceID
      | Inr device \<Rightarrow>
          \<lparr>dv_NodeId = ds_DeviceID device, dv_SessionId = ds_DeviceID device,
           dv_PendingEvents = of_nat (length (GetPendingFiles device)), dv_ProcessingEvents = 0,
           dv_CompletedEvents = of_nat (GetCompletedFiles device), dv_FailedEvents = 0, dv_LastSync = ds_LastSync device,
           dv_AvgProcessingTime = 1, dv_SuccessRate = 10, dv_State = SYNC_STATE_CONNECTING, dv_StartedAt = ds_LastSync device,
           dv_ElapsedTime = elapsed_seconds (now 0) (ds_LastSync device), dv_BytesTransferred = 1024,
           dv_TransferRateBps = 1024, dv_ActiveConnections = 1\<rparr>)"

section \<open>Devices and folders\<close>

text \<open>On a path that stays inside the folder, a device reads, writes and deletes exactly like \<open>SimpleStorage\<close> on the same folder: the
  same results, errors and effects on the file system.
\<close>
theorem device_is_simple_storage:
  assumes "IsLocal path"
  shows "dev_PutFile ds path content fs = ss_WriteFile (NewSimpleStorage nodeID (ds_StoragePath ds)) path (Reader content None) fs \<and>
    dev_GetFile ds path fs =
      (case ss_ReadFile (NewSimpleStorage nodeID (ds_StoragePath ds)) path fs of
         (Inl err, fs1) \<Rightarrow> (Inl err, fs1)
       | (Inr r, fs1) \<Rightarrow> (case rd_err r of Some err \<Rightarrow> (Inl err, fs1) | None \<Rightarrow> (Inr (rd_data r), fs1))) \<and>
    snd (snd (dev_DeleteFile ds path fs)) = snd (ss_DeleteFile (NewSimpleStorage nodeID (ds_StoragePath ds)) path fs) \<and>
    (fst (dev_DeleteFile ds path fs) = Inr () \<longleftrightarrow> fst (ss_DeleteFile (NewSimpleStorage nodeID (ds_StoragePath ds)) path fs) = Inr ())"
  using assms
  by (auto simp: dev_PutFile_def dev_GetFile_def dev_DeleteFile_def ss_WriteFile_def ss_ReadFile_def ss_DeleteFile_def ss_resolve_def NewSimpleStorage_def
      Let_def split: sum.splits prod.splits option.splits)

text \<open>The index lists every file under its own path.\<close>
definition keyed_files :: "DeviceStorage \<Rightarrow> bool" where
  "keyed_files ds \<longleftrightarrow> (\<forall>k m. fmlookup (ds_files ds) k = Some m \<longrightarrow> mf_FilePath m = k)"

lemma scan_walk_keyed: "scan_walk fs root ls ds = Inr ds' \<Longrightarrow> keyed_files ds \<Longrightarrow> keyed_files ds'"
proof (induction ls arbitrary: ds)
  case (Cons l ls)
  show ?case
  proof (cases "l |\<in>| fs_dirs fs")
    case True
    then show ?thesis using Cons by (auto simp: Let_def split: if_splits)
  next
    case False
    then obtain r where r: "scan_walk fs root ls (ds\<lparr>ds_files := fmupd r (new_file ds fs (walk_path (ds_StoragePath ds) root l) l r) (ds_files ds)\<rparr>) = Inr ds'"
      using Cons.prems(1) by (auto simp: Let_def split: sum.splits)
    moreover have "keyed_files (ds\<lparr>ds_files := fmupd r (new_file ds fs (walk_path (ds_StoragePath ds) root l) l r) (ds_files ds)\<rparr>)"
      using Cons.prems(2) by (auto simp: keyed_files_def new_file_def)
    ultimately show ?thesis by (rule Cons.IH)
  qed
qed simp

lemma RegisterDevice_keyed:
  assumes "RegisterDevice now u n p (dm, fs) = (Inr d, (dm', fs'))"
  shows "keyed_files d \<and> dm' = fmupd (ds_DeviceID d) d dm \<and> ds_UserID d = u"
proof -
  let ?id = "u @ ''_'' @ n @ ''_'' @ int_text (unix_seconds (now 0))"
  let ?new = "\<lparr>ds_DeviceID = ?id, ds_StoragePath = p, ds_UserID = u, ds_LastSync = now 1, ds_SyncStatus = ''online'', ds_files = fmempty\<rparr>"
  have scan: "scanFiles fs' ?new = Inr d" and dm': "dm' = fmupd ?id d dm"
    using assms by (auto simp: RegisterDevice_def Let_def split: prod.splits sum.splits option.splits if_splits)
  have "keyed_files ?new" by (simp add: keyed_files_def)
  then have keyed: "keyed_files d" using scan scan_walk_keyed unfolding scanFiles_def by (auto simp: Let_def split: if_splits)
  have same: "scan_walk fs root ls ds = Inr ds' \<Longrightarrow> ds_DeviceID ds' = ds_DeviceID ds \<and> ds_UserID ds' = ds_UserID ds" for root ls ds ds' and fs :: fsys
    by (induction ls arbitrary: ds) (fastforce simp: Let_def split: if_splits sum.splits)+
  have "ds_DeviceID d = ?id \<and> ds_UserID d = u"
    using scan same unfolding scanFiles_def by (fastforce simp: Let_def split: if_splits)
  with keyed dm' show ?thesis by simp
qed

definition marked :: "gotime set \<Rightarrow> DeviceFile \<Rightarrow> DeviceFile \<Rightarrow> bool" where
  "marked ts m m' \<longleftrightarrow> (if mf_SyncStatus m = ''pending'' then \<exists>t \<in> ts. m' = m\<lparr>mf_SyncStatus := ''synced'', mf_LastSync := t\<rparr> else m' = m)"

lemma sync_pending_other:
  "k \<notin> mf_FilePath ` set fs \<Longrightarrow> fmlookup (ds_files (sync_pending now fs ds)) k = fmlookup (ds_files ds) k"
  by (induction fs arbitrary: now ds) (auto simp: dev_SyncFile_def Let_def split: option.splits)

lemma sync_pending_each:
  "distinct (map mf_FilePath fs) \<Longrightarrow> f \<in> set fs \<Longrightarrow> fmlookup (ds_files ds) (mf_FilePath f) = Some m \<Longrightarrow>
   \<exists>i. fmlookup (ds_files (sync_pending now fs ds)) (mf_FilePath f) = Some (m\<lparr>mf_SyncStatus := ''synced'', mf_LastSync := now i\<rparr>)"
proof (induction fs arbitrary: now ds)
  case (Cons a fs)
  let ?ds = "snd (dev_SyncFile (now 0) ds (mf_FilePath a))"
  show ?case
  proof (cases "a = f")
    case True
    then have "mf_FilePath f \<notin> mf_FilePath ` set fs" using Cons.prems(1) by simp
    then show ?thesis
      using True Cons.prems(3) by (intro exI [of _ 0]) (simp add: sync_pending_other dev_SyncFile_def Let_def)
  next
    case False
    then have f: "f \<in> set fs" "mf_FilePath a \<noteq> mf_FilePath f" using Cons.prems(1,2) by auto
    then have "fmlookup (ds_files ?ds) (mf_FilePath f) = Some m"
      using Cons.prems(3) by (auto simp: dev_SyncFile_def Let_def split: option.splits)
    from Cons.IH [OF _ f(1) this, of "\<lambda>i. now (Suc i)"] show ?thesis using Cons.prems(1) by auto
  qed
qed simp

lemma SyncFile_dom: "fmdom (ds_files (snd (dev_SyncFile t ds p))) = fmdom (ds_files ds)"
  by (cases "fmlookup (ds_files ds) p") (auto simp: dev_SyncFile_def Let_def finsert_absorb fmdomI)

lemma sync_pending_dom: "fmdom (ds_files (sync_pending now fs ds)) = fmdom (ds_files ds)"
  by (induction fs arbitrary: now ds) (simp_all add: SyncFile_dom)

lemma set_pending:
  assumes "keyed_files ds"
  shows "m \<in> set (GetPendingFiles ds) \<longleftrightarrow> fmlookup (ds_files ds) (mf_FilePath m) = Some m \<and> mf_SyncStatus m = ''pending''"
proof
  assume "m \<in> set (GetPendingFiles ds)"
  then obtain k where k: "k |\<in>| fmdom (ds_files ds)" "m = the (fmlookup (ds_files ds) k)" "mf_SyncStatus m = ''pending''"
    by (auto simp: GetPendingFiles_def files_with_def)
  from k(1) obtain m' where m': "fmlookup (ds_files ds) k = Some m'" by (rule fmdomE)
  then have "mf_FilePath m' = k" using assms by (simp add: keyed_files_def)
  then show "fmlookup (ds_files ds) (mf_FilePath m) = Some m \<and> mf_SyncStatus m = ''pending''" using k m' by simp
next
  assume m: "fmlookup (ds_files ds) (mf_FilePath m) = Some m \<and> mf_SyncStatus m = ''pending''"
  then have "mf_FilePath m \<in> set (range_keys (ds_files ds))" by (auto intro: fmdomI)
  then have "the (fmlookup (ds_files ds) (mf_FilePath m)) \<in> (\<lambda>k. the (fmlookup (ds_files ds) k)) ` set (range_keys (ds_files ds))"
    by (rule imageI)
  then show "m \<in> set (GetPendingFiles ds)" using m by (simp add: GetPendingFiles_def files_with_def)
qed

text \<open>Synchronising a device only marks its index: every pending file gets the status \<open>synced\<close> and a time of the run, all other
  entries stay as they are, no entry appears or disappears, and then nothing is pending. Other devices are not touched.
\<close>
theorem SyncDevice_marks:
  assumes dev: "fmlookup dm i = Some ds" and keyed: "keyed_files ds"
  shows "\<exists>ds'. SyncDevice now i dm = (Inr (), fmupd i ds' dm) \<and>
    (\<forall>k. rel_option (marked (range now)) (fmlookup (ds_files ds) k) (fmlookup (ds_files ds') k)) \<and>
    GetPendingFiles ds' = [] \<and> GetTotalFiles ds' = GetTotalFiles ds"
proof -
  let ?ds' = "sync_pending now (GetPendingFiles ds) ds"
  have run: "SyncDevice now i dm = (Inr (), fmupd i ?ds' dm)" using dev by (simp add: SyncDevice_def GetDevice_def)
  have paths: "map mf_FilePath (map (\<lambda>k. the (fmlookup (ds_files ds) k)) (range_keys (ds_files ds))) = range_keys (ds_files ds)"
    using keyed by (auto simp: keyed_files_def intro!: map_idI) (metis fmdom_notI option.exhaust_sel)
  then have dist: "distinct (map mf_FilePath (GetPendingFiles ds))"
    unfolding GetPendingFiles_def files_with_def by (metis distinct_map_filter distinct_range_keys)
  note pending = set_pending [OF keyed]
  have each: "rel_option (marked (range now)) (fmlookup (ds_files ds) k) (fmlookup (ds_files ?ds') k)" for k
  proof (cases "fmlookup (ds_files ds) k")
    case None
    have "k \<noteq> mf_FilePath m'" if "m' \<in> set (GetPendingFiles ds)" for m' using that None unfolding pending by auto
    then have "k \<notin> mf_FilePath ` set (GetPendingFiles ds)" by blast
    then show ?thesis using None by (simp add: sync_pending_other)
  next
    case (Some m)
    then have k: "mf_FilePath m = k" using keyed by (simp add: keyed_files_def)
    show ?thesis
    proof (cases "mf_SyncStatus m = ''pending''")
      case True
      then have "m \<in> set (GetPendingFiles ds)" using Some k pending by simp
      from sync_pending_each [OF dist this, of ds m now] show ?thesis using Some k True by (auto simp: marked_def)
    next
      case False
      have "k \<noteq> mf_FilePath m'" if "m' \<in> set (GetPendingFiles ds)" for m'
        using that False Some unfolding pending by auto
      then have "k \<notin> mf_FilePath ` set (GetPendingFiles ds)" by blast
      then show ?thesis using Some False by (simp add: sync_pending_other marked_def)
    qed
  qed
  have "mf_SyncStatus m \<noteq> ''pending''" if "fmlookup (ds_files ?ds') k = Some m" for k m
    using each [of k] that by (cases "fmlookup (ds_files ds) k") (auto simp: marked_def split: if_splits)
  then have "mf_SyncStatus (the (fmlookup (ds_files ?ds') k)) \<noteq> ''pending''" if "k |\<in>| fmdom (ds_files ?ds')" for k
    using that by (metis fmdomE option.sel)
  then have "GetPendingFiles ?ds' = []" by (simp add: GetPendingFiles_def files_with_def filter_empty_conv)
  moreover have "GetTotalFiles ?ds' = GetTotalFiles ds" by (simp add: GetTotalFiles_def range_keys_def sync_pending_dom)
  ultimately show ?thesis using run each by blast
qed

text \<open>A device with one pending and one synchronised file.\<close>
definition ex_device :: DeviceStorage where
  "ex_device =
     \<lparr>ds_DeviceID = ''u_pc_1'', ds_StoragePath = ''/data'', ds_UserID = ''u'', ds_LastSync = 0, ds_SyncStatus = ''online'',
      ds_files = fmap_of_list
        [(''a'', \<lparr>mf_FilePath = ''a'', mf_FileHash = ''hash_a'', mf_FileSize = 1, mf_ModifiedTime = 0, mf_LastSync = 0,
                 mf_SyncStatus = ''pending'', mf_Version = 1, mf_DeviceID = ''u_pc_1''\<rparr>),
         (''b'', \<lparr>mf_FilePath = ''b'', mf_FileHash = ''hash_b'', mf_FileSize = 1, mf_ModifiedTime = 0, mf_LastSync = 3,
                 mf_SyncStatus = ''synced'', mf_Version = 1, mf_DeviceID = ''u_pc_1''\<rparr>)]\<rparr>"

lemma ex_device_keyed: "keyed_files ex_device"
  by (auto simp: keyed_files_def ex_device_def fmlookup_of_list split: if_splits)

theorem SyncDevice_marks_witness:
  "fmlookup (fmupd ''u_pc_1'' ex_device fmempty) ''u_pc_1'' = Some ex_device \<and> length (GetPendingFiles ex_device) = 1 \<and>
   (\<exists>ds'. SyncDevice (\<lambda>i. 7 + int i) ''u_pc_1'' (fmupd ''u_pc_1'' ex_device fmempty) = (Inr (), fmupd ''u_pc_1'' ds' (fmupd ''u_pc_1'' ex_device fmempty)) \<and>
     GetPendingFiles ds' = [])"
proof -
  have "length (GetPendingFiles ex_device) = 1" by code_simp
  then show ?thesis
    using SyncDevice_marks [of "fmupd ''u_pc_1'' ex_device fmempty" "''u_pc_1''" ex_device "\<lambda>i. 7 + int i"] ex_device_keyed by auto
qed

text \<open>The machine has \<^verbatim>\<open>/data/a\<close>, \<^verbatim>\<open>/data/b\<close> and, outside of the device's folder, \<^verbatim>\<open>/keys\<close>.\<close>
definition ex_machine :: fsys where
  "ex_machine =
     \<lparr>fs_cwd = [], fs_files = fmap_of_list [([''data'', ''a''], (''1'', 1)), ([''data'', ''b''], (''2'', 2)), ([''keys''], (''k'', 3))],
      fs_dirs = {|[], [''data'']|}, fs_denied = {||}, fs_bad = fmempty, fs_clock = 10\<rparr>"

theorem device_is_simple_storage_witness:
  "IsLocal ''d/e'' \<and>
   fst (dev_PutFile ex_device ''d/e'' ''x'' ex_machine) = Inr () \<and>
   dev_PutFile ex_device ''d/e'' ''x'' ex_machine = ss_WriteFile (NewSimpleStorage ''n'' ''/data'') ''d/e'' (Reader ''x'' None) ex_machine"
proof -
  have ok: "IsLocal ''d/e''" "fst (dev_PutFile ex_device ''d/e'' ''x'' ex_machine) = Inr ()" "ds_StoragePath ex_device = ''/data''"
    by code_simp+
  from device_is_simple_storage [OF ok(1), of ex_device "''x''" ex_machine "''n''"]
  have "dev_PutFile ex_device ''d/e'' ''x'' ex_machine = ss_WriteFile (NewSimpleStorage ''n'' ''/data'') ''d/e'' (Reader ''x'' None) ex_machine"
    unfolding ok(3) by (rule conjunct1)
  then show ?thesis using ok(1,2) by (intro conjI)
qed

text \<open>Unlike \<open>SimpleStorage\<close>, a device does not check the path: \<^verbatim>\<open>..\<close> leads out of its folder.\<close>
lemma device_escapes:
  "(let (r, d, fs) = dev_DeleteFile ex_device ''../keys'' ex_machine in r = Inr () \<and> fmlookup (fs_files fs) [''keys''] = None) \<and>
   (let (r, fs) = dev_PutFile ex_device ''../keys'' ''mine'' ex_machine in
      r = Inr () \<and> map_option fst (fmlookup (fs_files fs) [''keys'']) = Some ''mine'') \<and>
   (\<exists>e. fst (ss_DeleteFile (NewSimpleStorage ''n'' ''/data'') ''../keys'' ex_machine) = Inl e)"
proof -
  have "isl (fst (ss_DeleteFile (NewSimpleStorage ''n'' ''/data'') ''../keys'' ex_machine))" by code_simp
  moreover have "let (r, d, fs) = dev_DeleteFile ex_device ''../keys'' ex_machine in r = Inr () \<and> fmlookup (fs_files fs) [''keys''] = None"
    by code_simp
  moreover have "let (r, fs) = dev_PutFile ex_device ''../keys'' ''mine'' ex_machine in
      r = Inr () \<and> map_option fst (fmlookup (fs_files fs) [''keys'']) = Some ''mine''" by code_simp
  ultimately show ?thesis by (auto simp: isl_def)
qed

text \<open>Registering the machine's folder indexes its two files, both pending.\<close>
lemma register_example:
  "case RegisterDevice (\<lambda>_. 62135596801000000000) ''u'' ''pc'' ''/data'' (fmempty, ex_machine) of
     (Inr d, _) \<Rightarrow> map mf_FilePath (GetPendingFiles d) = [''a'', ''b''] \<and> GetCompletedFiles d = 0
   | _ \<Rightarrow> False"
  by code_simp

end
