(* ===== verification/Spec2Isabelle.thy ===== *)
theory Spec2Isabelle
  imports Sync_Properties Agent_Properties Agent_Loop Complex_Properties Sync_Service File_Cache Gridfs Auth_Properties Token_Repository Redis_Limiter Session_Store Worker_Pool App_Errors
    Pipeline_Stages Batch_Repository Audit_Service Domain_Events Kafka_Events Grpc_Auth Oauth_Service Device_Storage
begin

text \<open>
  SyncVault (\<^verbatim>\<open>src/\<close>, written in Go) keeps folders on several machines and in Google Drive in step. This library models
  its own logic and shows what makes it correct. This text says what the program consists of, which theory models which part,
  what is shown, and what is left out.

  \<^bold>\<open>The program.\<close> The heart is \<^verbatim>\<open>internal/sync\<close>. A \<^emph>\<open>node\<close> is a folder that can be listed, read and written: a folder of
  the server's machine (\<open>SimpleStorage\<close>), a folder of another machine behind an HTTP agent (\<open>RemoteNode\<close> and
  \<^verbatim>\<open>internal/sync/agent\<close>), or a remote storage that knows files by ID (\<open>ComplexStorage\<close> over the Google Drive adapter). The
  \<^emph>\<open>engine\<close> compares two nodes with Merkle trees, decides for every file with vector clocks and tombstones what to copy, delete or
  merge, and records the outcome in a state store (in memory or PostgreSQL). \<open>PairManager\<close> keeps pairs of folders and runs the
  engine on them on request or by the scheduler; \<open>NodeRegistry\<close> knows the devices; the handlers of \<^verbatim>\<open>handlers.go\<close> are the API.
  Around it stand the domain layer (\<^verbatim>\<open>internal/domain\<close>: value objects, entities, jobs, services, events, audit log), the use cases
  and repositories (\<^verbatim>\<open>internal/usecase\<close>, \<^verbatim>\<open>internal/repository\<close>, \<^verbatim>\<open>internal/infrastructure\<close>), authentication
  (\<^verbatim>\<open>internal/auth\<close>, \<^verbatim>\<open>internal/security\<close>, \<^verbatim>\<open>internal/session\<close>) and the services on Redis (\<^verbatim>\<open>internal/cache\<close>,
  \<^verbatim>\<open>internal/lock\<close>, \<^verbatim>\<open>internal/ratelimit\<close>), the worker pool and the pipelines, events over Kafka
  (\<^verbatim>\<open>internal/events\<close>), the authentication of gRPC calls (\<^verbatim>\<open>internal/grpc/interceptors\<close>) and the Google accounts of users
  (\<^verbatim>\<open>internal/oauth/google\<close>).

  \<^bold>\<open>How the code is modelled.\<close> A struct is a record with the source's fields (a short prefix keeps the selectors apart), an
  enumeration a datatype, an interface a record of operations that its users take as an argument. Code that can fail returns
  \<open>gerr + 'a\<close>, where \<open>Inl\<close> is an error value with its text and wrapping chain; code with effects takes and returns the state it
  changes (the file system, the tables, the keys of Redis, the state of a server). Times are integers (nanoseconds since the
  zero time); the clock and random numbers are arguments. \<open>range\<close> over a map runs in ascending order of the keys wherever the order
  cannot be observed, and otherwise over a list that is an argument. Concurrent code is an inductive step relation in which
  goroutines or clients interleave at every call. Log output is left out everywhere.

  Code that is not part of the repository is a parameter. What is relied on is a definition that names the documented behaviour and
  appears as a hypothesis of the property, with a witness on a concrete instance: no collisions of the hash among the texts that
  occur (\<open>Merkle\<close>), the commands of Redis (\<open>kv_laws\<close>, \<open>lock_laws\<close>, \<open>zset_laws\<close>, \<open>session_laws\<close>), signing
  and parsing of JWTs, bcrypt (\<open>Jwt_Service\<close>, \<open>Auth_Properties\<close>), the table of users, the PostgreSQL server that may fail or
  lose its connection at any statement, MongoDB's collection and the driver's hexadecimal identifiers, Google's API, the transport
  between server and agent, the Kafka client (\<open>kafka_law\<close>), JSON that reads back what it wrote (\<open>reads_back\<close>), the order in
  which the server scans rows (\<open>oauth_law\<close>).

  \<^bold>\<open>Theories, in order of import.\<close>

  \<^item> \<open>Go_Prelude\<close>: errors and their chains, maps and \<open>range\<close>, package \<open>strings\<close>, integers of 64 bits, the monad of
    fallible code. \<open>Go_Path\<close>, \<open>Os_Fs\<close>, \<open>World\<close>: \<open>path/filepath\<close> with \<open>ResolveInside\<close>, the file system and
    what the server reaches over the network. \<open>Hex_Hash\<close>: digests as text.
  \<^item> \<open>Vector_Clock\<close> (both \<^verbatim>\<open>vectorclock.go\<close>): the order \<open>Compare\<close> decides, in the locale \<open>causal_clock\<close>, and the
    equivalence of the two implementations. \<open>Merkle\<close> (\<^verbatim>\<open>merkletree.go\<close>, \<^verbatim>\<open>services/merkle.go\<close>): roots agree exactly for equal
    listings, and \<open>Diff\<close> is exact.
  \<^item> \<open>State_Store\<close>, \<open>Sync_Node\<close>, \<open>Sync_Engine\<close> (\<^verbatim>\<open>engine.go\<close>): the whole engine. The locale \<open>state_store\<close> is the
    contract of \<open>StateStore\<close>, interpreted for the store in memory (\<open>mem\<close>); \<open>Sync_Store_Laws\<close> derives, for nodes of any
    behaviour, what a run does to the store (locales \<open>engine\<close> and \<open>kept_in_store\<close> with three sublocales);
    \<open>Sync_Correct\<close> has the contract of a working node (\<open>sync_side\<close>, \<open>sync_pair\<close>) and the convergence proof inside it;
    \<open>Storage_Laws\<close> interprets it for two folders of one file system (\<open>simple_a\<close>, \<open>simple_pair\<close>), and \<open>Sync_Properties\<close>
    states the outcome: convergence, the three-way merge as abstract specification, idempotence, and what is never deleted.
  \<^item> \<open>Simple_Storage\<close>, \<open>Http_Agent\<close>, \<open>Agent_Properties\<close>, \<open>Agent_Loop\<close>: folders, the agent with its router and token,
    the node on the server's side; confinement, refinement of \<open>SimpleStorage\<close>, and that a lost agent comes back.
  \<^item> \<open>Complex_Storage\<close>, \<open>Google_Drive\<close>, \<open>Complex_Properties\<close>: storages by ID and the adapter for Google Drive; the listing
    ends and is exactly what \<open>resolve\<close> finds.
  \<^item> \<open>Pair_Store\<close>, \<open>Pg_Store\<close>, \<open>Registry\<close>, \<open>Pairs\<close>, \<open>Sync_Handlers\<close>, \<open>Server_Properties\<close>,
    \<open>Pair_Properties\<close>: the stores on PostgreSQL (the locale \<open>pair_store\<close>, interpreted as \<open>pg_pair\<close>; \<open>PgStateStore\<close> refines
    the store in memory), devices, pairs, the API, and the server as a state machine whose reachable states keep an invariant.
  \<^item> \<open>Value_Objects\<close>, \<open>Entities\<close>, \<open>Sync_Job\<close>, \<open>Sync_Service\<close>, \<open>File_Service\<close>, \<open>Domain_Events\<close>,
    \<open>Sync_Audit\<close>, \<open>Audit_Service\<close>, \<open>Use_Cases\<close>: the domain layer; the state machines of jobs and operations, detection of
    conflicts, admission of jobs, what the use cases really do, and the audit log with its repository on MongoDB.
  \<^item> \<open>File_Tables\<close>, \<open>File_Repository\<close>, \<open>Version_Repository\<close>, \<open>Batch_Repository\<close>: the tables of the migrations with
    keys, index and triggers, and the repositories over a server that may fail; refinement of a map, complete pages, one current
    version, batches that are applied whole or not at all. \<open>Gridfs\<close>: contents in GridFS.
  \<^item> \<open>Redis_Kv\<close>, \<open>File_Cache\<close>, \<open>Jwt_Service\<close>, \<open>Token_Repository\<close>, \<open>Security\<close>, \<open>Auth_Http\<close>,
    \<open>Auth_Properties\<close>, \<open>Session_Store\<close>, \<open>Dist_Lock\<close>, \<open>Redis_Limiter\<close>: tokens, sessions, rate limits and locks; the
    Lua scripts are translated. Refresh tokens work once, logging out ends sessions, locks exclude each other in every interleaving,
    limits bound what passes.
  \<^item> \<open>Worker_Pool\<close>, \<open>Pipeline_Stages\<close>, \<open>App_Errors\<close>: the worker pool as interleaving goroutines, pipelines with their dynamic
    type checks, errors with codes.
  \<^item> \<open>Kafka_Events\<close> (\<^verbatim>\<open>internal/events\<close>): publishing with retries, the consumer loop and the dead letter queue; when
    publishing returns, what is on the topics then, and that no failed message is lost. \<open>Grpc_Auth\<close>
    (\<^verbatim>\<open>internal/grpc/interceptors\<close>): the tokens of the gRPC services and the interceptors; what a call needs to reach its
    handler. \<open>Oauth_Service\<close> (\<^verbatim>\<open>internal/oauth/google\<close>: \<open>service.go\<close>, \<open>models.go\<close>, the account handlers): the sign-in
    with Google over its tables as a state machine; states work once, an account has one active token, the sign-in stores
    the token Google gave. \<open>Device_Storage\<close> (\<^verbatim>\<open>internal/storage/device.go\<close>): devices of users, equal to
    \<open>SimpleStorage\<close> on paths that stay inside the folder, and what synchronising one really does.

  \<^bold>\<open>Bounds and fuel.\<close> The listing of a remote storage recurses as deep as its folders go: the model takes a depth and
  \<open>cs_ListFiles_exact\<close> shows that every depth above that of the storage gives the same complete result. Listing pages of Google's
  API takes a number of pages; each page uses one, so the number of pages that exist is enough. \<open>serverLoop\<close> and the extender of a
  lock run until they are stopped: they are steps repeated, and the theorems speak of any number of them. \<open>Acquire\<close> makes at most
  the attempts its options name and needs no fuel. \<open>publishWithRetry\<close> may run forever: it is a partial function whose value
  \<open>None\<close> means that it does not return, and \<open>publish_termination\<close> says when that happens; the loops of the consumers are
  turns, any number of them. Everything else is structural recursion or has a termination proof. Sizes and
  counters that can overflow are kept at 64 bits; elsewhere integers stay within the range the code's own limits give. A float64
  appears as an exact rational number where only its order matters, and is left out otherwise.

  \<^bold>\<open>Not modelled.\<close> Start-up, configuration, routing and process control (\<^verbatim>\<open>internal/app\<close>, \<^verbatim>\<open>internal/config\<close>, most of
  \<^verbatim>\<open>cmd/\<close>): calls of frameworks without logic of their own. Sockets, signals and JSON encoding. Of the handlers for
  Google those that copy files between Google Drive and the server's disk. The gRPC services behind the interceptors: generated
  code and services that mostly answer with fixed data. MongoDB's indexes and aggregation pipelines, \<open>GetStats\<close> included: the server evaluates them.
  \<^verbatim>\<open>directory_repository.go\<close>: every query names a column \<open>parent_id\<close> that no migration creates, so each call fails.
  \<^verbatim>\<open>queries.go\<close>, \<^verbatim>\<open>infrastructure/database\<close> and \<^verbatim>\<open>internal/db\<close>: further wrappers of single statements, the first over
  tables of reports. Of the batches the sync events, the import through a temporary table and the statistics with
  floating-point numbers. \<open>InvalidateByPattern\<close> of the cache (\<open>filepath.Match\<close>). The
  command-line tools.

  \<^bold>\<open>Coarser than the code.\<close> A value of \<open>ConflictStrategy\<close> outside of its three constants has no counterpart. A failed
  statement over the file tables has no effect: an answer that is lost after the commit is not among the failures there (it is
  for the state store, the tokens, the locks and the Google accounts). Calls of the JWT service follow each other as a whole in
  \<open>token_exec\<close>. In the traces of the sliding window the client reads its clock when the script runs, and both clocks agree. The
  conversion of a \<open>float64\<close> beyond the range of \<open>int64\<close>, which depends on the machine, is taken without a bound. The time limit for writing a dead
  letter belongs to the Kafka client. Convergence, merge and idempotence are shown for \<open>KeepNewest\<close> and \<open>KeepSource\<close>, not for
  \<open>KeepBoth\<close>.
\<close>

end
